(* ===== verification/Prelude.thy ===== *)
theory Prelude
  imports Main
begin

text \<open>
  Shared vocabulary of the development: error codes, the faults a C function can run into,
  the handful of \<^verbatim>\<open>libc\<close> routines the program calls (\<^verbatim>\<open>strcpy\<close>, \<^verbatim>\<open>strncpy\<close>, \<^verbatim>\<open>atoi\<close>,
  \<^verbatim>\<open>sprintf\<close> of strings and integers), the truncation of a 64-bit value stored in a C \<^verbatim>\<open>int\<close>,
  the constants of \<^verbatim>\<open>src/src/incl/tags.h\<close> and \<^verbatim>\<open>src/src/incl/dem.h\<close>, and the generic list
  lemmas the components share.
\<close>

named_theorems tag_defs \<open>the string constants of tags.h\<close>
named_theorems errno_defs \<open>the error numbers\<close>
named_theorems size_defs \<open>the buffer sizes\<close>

section \<open>Error numbers and faults\<close>

definition ENOENT :: int where "ENOENT = 2"
definition ENOMEM :: int where "ENOMEM = 12"
definition EFAULT :: int where "EFAULT = 14"
definition EEXIST :: int where "EEXIST = 17"
definition EINVAL :: int where "EINVAL = 22"
definition EPERM :: int where "EPERM = 1"
definition ENODATA :: int where "ENODATA = 61"
definition ENOTCONN :: int where "ENOTCONN = 107"
definition ECONNREFUSED :: int where "ECONNREFUSED = 111"

lemmas errno_eqs [errno_defs] = ENOENT_def ENOMEM_def EFAULT_def EEXIST_def EINVAL_def
  EPERM_def ENODATA_def ENOTCONN_def ECONNREFUSED_def

text \<open>
  A run of a C function either returns or reaches undefined behaviour. The second case is a
  value too, so that its absence is a theorem and not an assumption of the model. So is a loop that
  does not end, where the model says so.
\<close>

datatype fault =
  Null_deref | Buffer_overflow | Use_after_free | Uninitialised | Wild_pointer | List_corrupted | Endless_loop

type_synonym 'a exec = "fault + 'a"

fun exec_bind :: "'a exec \<Rightarrow> ('a \<Rightarrow> 'b exec) \<Rightarrow> 'b exec" where
  "exec_bind (Inl f) k = Inl f"
| "exec_bind (Inr x) k = k x"

definition no_fault :: "'a exec \<Rightarrow> bool" where
  "no_fault m = (case m of Inl _ \<Rightarrow> False | Inr _ \<Rightarrow> True)"

lemma no_fault_simps [simp]: "no_fault (Inr x)" "\<not> no_fault (Inl f)"
  by (simp_all add: no_fault_def)

lemma no_fault_iff: "no_fault m \<longleftrightarrow> (\<exists>x. m = Inr x)"
  by (cases m) auto

lemma exec_bind_InrE [elim!]:
  assumes "exec_bind m k = Inr y"
  obtains x where "m = Inr x" "k x = Inr y"
  using assms by (cases m) auto

lemma exec_bind_no_fault:
  "no_fault m \<Longrightarrow> (\<And>x. m = Inr x \<Longrightarrow> no_fault (k x)) \<Longrightarrow> no_fault (exec_bind m k)"
  by (cases m) auto

text \<open>
  Partial correctness: a run that returns has a result with the given property. The rules are applied
  backwards, one per construct.
\<close>

definition ensures :: "'a exec \<Rightarrow> ('a \<Rightarrow> bool) \<Rightarrow> bool" where
  "ensures e Q = (case e of Inl _ \<Rightarrow> True | Inr x \<Rightarrow> Q x)"

lemma ensures_simps [simp]: "ensures (Inl f) Q" "ensures (Inr x) Q = Q x"
  by (simp_all add: ensures_def)

lemma ensures_bind [simp]: "ensures (exec_bind e k) Q = ensures e (\<lambda>x. ensures (k x) Q)"
  by (cases e) simp_all

lemma ensures_mono: "ensures e P \<Longrightarrow> (\<And>x. P x \<Longrightarrow> Q x) \<Longrightarrow> ensures e Q"
  by (cases e) simp_all

lemma ensures_conj: "ensures e (\<lambda>x. P x \<and> Q x) \<longleftrightarrow> ensures e P \<and> ensures e Q"
  by (cases e) simp_all

lemma ensures_True [simp]: "ensures e (\<lambda>_. True)"
  by (cases e) simp_all

lemma ensuresD: "ensures e Q \<Longrightarrow> e = Inr x \<Longrightarrow> Q x"
  by simp

lemma ensuresI: "(\<And>x. e = Inr x \<Longrightarrow> Q x) \<Longrightarrow> ensures e Q"
  by (cases e) simp_all

text \<open>A loop over a list that changes a state.\<close>

fun each :: "('a \<Rightarrow> 's \<Rightarrow> 's exec) \<Rightarrow> 'a list \<Rightarrow> 's \<Rightarrow> 's exec" where
  "each f [] s = Inr s"
| "each f (x # xs) s = exec_bind (f x s) (each f xs)"

lemma ensures_each:
  assumes "\<And>x s. x \<in> set xs \<Longrightarrow> I s \<Longrightarrow> ensures (f x s) I" and "I s"
  shows "ensures (each f xs s) I"
  using assms by (induction xs arbitrary: s) (auto intro: ensures_mono)

section \<open>C strings and integers\<close>

text \<open>
  A C string is the list of its characters before the terminating zero; a \<^verbatim>\<open>char *\<close> that may
  be null is a \<^typ>\<open>string option\<close>. \<^verbatim>\<open>strcpy\<close> into an array of \<open>cap\<close> bytes writes
  \<open>length s + 1\<close> bytes.
\<close>

definition c_strcpy :: "nat \<Rightarrow> string option \<Rightarrow> string exec" where
  "c_strcpy cap src =
     (case src of None \<Rightarrow> Inl Null_deref
      | Some s \<Rightarrow> if length s < cap then Inr s else Inl Buffer_overflow)"

lemma c_strcpy_Inr_iff [simp]:
  "c_strcpy cap src = Inr s \<longleftrightarrow> src = Some s \<and> length s < cap"
  by (auto simp: c_strcpy_def split: option.splits if_splits)

lemma c_strcpy_no_fault:
  "no_fault (c_strcpy cap src) \<longleftrightarrow> (\<exists>s. src = Some s \<and> length s < cap)"
  by (auto simp: c_strcpy_def split: option.splits)

text \<open>A 64-bit value stored in a 32-bit \<^verbatim>\<open>int\<close>.\<close>

definition c_int :: "int \<Rightarrow> int" where
  "c_int z = (z + 2147483648) mod 4294967296 - 2147483648"

lemma c_int_range: "- 2147483648 \<le> c_int z \<and> c_int z < 2147483648"
  by (simp add: c_int_def)

lemma c_int_id: "- 2147483648 \<le> z \<Longrightarrow> z < 2147483648 \<Longrightarrow> c_int z = z"
  by (simp add: c_int_def)

lemma c_int_idem [simp]: "c_int (c_int z) = c_int z"
  using c_int_range [of z] by (simp add: c_int_id)

text \<open>\<^verbatim>\<open>%d\<close>\<close>

fun show_nat :: "nat \<Rightarrow> string" where
  "show_nat n = (if n < 10 then [char_of (48 + n)]
                 else show_nat (n div 10) @ [char_of (48 + n mod 10)])"

declare show_nat.simps [simp del]

definition show_int :: "int \<Rightarrow> string" where
  "show_int z = (if z < 0 then CHR ''-'' # show_nat (nat (- z)) else show_nat (nat z))"

text \<open>
  \<^verbatim>\<open>atoi\<close>: leading white space, an optional sign, then decimal digits up to the first
  other character; the value of the empty digit sequence is 0. The value is kept as a
  mathematical integer: the C function is undefined when it does not fit an \<^verbatim>\<open>int\<close>.
\<close>

definition is_digit :: "char \<Rightarrow> bool" where
  "is_digit c = (48 \<le> (of_char c :: nat) \<and> (of_char c :: nat) \<le> 57)"

definition is_space :: "char \<Rightarrow> bool" where
  "is_space c = (c = CHR '' '' \<or> (9 \<le> (of_char c :: nat) \<and> (of_char c :: nat) \<le> 13))"

definition digits_value :: "string \<Rightarrow> int" where
  "digits_value ds = fold (\<lambda>c v. 10 * v + (of_char c - 48)) ds 0"

definition atoi :: "string \<Rightarrow> int" where
  "atoi s =
     (case dropWhile is_space s of
        [] \<Rightarrow> 0
      | c # cs \<Rightarrow>
          if c = CHR ''-'' then - digits_value (takeWhile is_digit cs)
          else if c = CHR ''+'' then digits_value (takeWhile is_digit cs)
          else digits_value (takeWhile is_digit (c # cs)))"

text \<open>Single and double quotes around a name, as the messages of the program print it.\<close>

definition squoted :: "string \<Rightarrow> string" where
  "squoted s = CHR 0x27 # s @ [CHR 0x27]"

definition dquoted :: "string \<Rightarrow> string" where
  "dquoted s = CHR 0x22 # s @ [CHR 0x22]"

lemma length_dquoted [simp]: "length (dquoted s) = length s + 2"
  by (simp add: dquoted_def)

section \<open>Constants of tags.h and dem.h\<close>

definition TAG_GROUPS :: string where "TAG_GROUPS = ''Groups''"
definition TAG_GROUP :: string where "TAG_GROUP = ''Group''"
definition TAG_TARGETS :: string where "TAG_TARGETS = ''Targets''"
definition TAG_TARGET :: string where "TAG_TARGET = ''Target''"
definition TAG_HOSTS :: string where "TAG_HOSTS = ''Hosts''"
definition TAG_HOST :: string where "TAG_HOST = ''Host''"
definition TAG_ALIAS :: string where "TAG_ALIAS = ''Alias''"
definition TAG_REFRESH :: string where "TAG_REFRESH = ''Refresh''"
definition TAG_TYPE :: string where "TAG_TYPE = ''TRTYPE''"
definition TAG_FAMILY :: string where "TAG_FAMILY = ''ADRFAM''"
definition TAG_ADDRESS :: string where "TAG_ADDRESS = ''TRADDR''"
definition TAG_TRSVCID :: string where "TAG_TRSVCID = ''TRSVCID''"
definition TAG_PORTID :: string where "TAG_PORTID = ''PORTID''"
definition TAG_PORTIDS :: string where "TAG_PORTIDS = ''PortIDs''"
definition TAG_SUBSYSTEMS :: string where "TAG_SUBSYSTEMS = ''Subsystems''"
definition TAG_SUBSYSTEM :: string where "TAG_SUBSYSTEM = ''Subsystem''"
definition TAG_SUBNQN :: string where "TAG_SUBNQN = ''SUBNQN''"
definition TAG_HOSTNQN :: string where "TAG_HOSTNQN = ''HOSTNQN''"
definition TAG_ALLOW_ANY :: string where "TAG_ALLOW_ANY = ''AllowAnyHost''"
definition TAG_INTERFACES :: string where "TAG_INTERFACES = ''Interfaces''"
definition TAG_INTERFACE :: string where "TAG_INTERFACE = ''Interface''"
definition TAG_NAME :: string where "TAG_NAME = ''Name''"
definition TAG_DEVID :: string where "TAG_DEVID = ''DeviceID''"
definition TAG_DEVNSID :: string where "TAG_DEVNSID = ''DeviceNSID''"
definition TAG_NSID :: string where "TAG_NSID = ''NSID''"
definition TAG_NSIDS :: string where "TAG_NSIDS = ''NSIDs''"
definition TAG_IFFAMILY :: string where "TAG_IFFAMILY = ''FAMILY''"
definition TAG_IFADDRESS :: string where "TAG_IFADDRESS = ''ADDRESS''"
definition TAG_IFPORT :: string where "TAG_IFPORT = ''PORT''"
definition TAG_SHARED :: string where "TAG_SHARED = ''Shared''"
definition TAG_RESTRICTED :: string where "TAG_RESTRICTED = ''Restricted''"
definition TAG_MGMT_MODE :: string where "TAG_MGMT_MODE = ''MgmtMode''"
definition TAG_OUT_OF_BAND_MGMT :: string where "TAG_OUT_OF_BAND_MGMT = ''OutOfBandMgmt''"
definition TAG_LOCAL_MGMT :: string where "TAG_LOCAL_MGMT = ''LocalMgmt''"
definition TAG_IN_BAND_MGMT :: string where "TAG_IN_BAND_MGMT = ''InBandMgmt''"
definition TAG_NSDEVS :: string where "TAG_NSDEVS = ''NSDevices''"
definition TAG_NEW :: string where "TAG_NEW = ''NEW''"
definition TAG_OLD :: string where "TAG_OLD = ''OLD''"
definition TAG_ID :: string where "TAG_ID = ''ID''"
definition URI_GROUP :: string where "URI_GROUP = ''group''"
definition URI_TARGET :: string where "URI_TARGET = ''target''"
definition URI_HOST :: string where "URI_HOST = ''host''"
definition URI_DEM :: string where "URI_DEM = ''dem''"
definition URI_V1 :: string where "URI_V1 = ''v1''"
definition URI_SUBSYSTEM :: string where "URI_SUBSYSTEM = ''subsystem''"
definition URI_PORTID :: string where "URI_PORTID = ''portid''"
definition URI_NSID :: string where "URI_NSID = ''nsid''"
definition URI_INTERFACE :: string where "URI_INTERFACE = ''interface''"
definition URI_SIGNATURE :: string where "URI_SIGNATURE = ''signature''"
definition URI_LOG_PAGE :: string where "URI_LOG_PAGE = ''logpage''"
definition URI_NSDEV :: string where "URI_NSDEV = ''nsdev''"
definition URI_NAMESPACE :: string where "URI_NAMESPACE = ''namespace''"
definition URI_CONFIG :: string where "URI_CONFIG = ''config''"
definition URI_USAGE :: string where "URI_USAGE = ''usage''"
definition METHOD_SHUTDOWN :: string where "METHOD_SHUTDOWN = ''shutdown''"
definition METHOD_REFRESH :: string where "METHOD_REFRESH = ''refresh''"
definition METHOD_RECONFIG :: string where "METHOD_RECONFIG = ''reconfig''"

lemmas uri_defs = URI_NSDEV_def URI_NAMESPACE_def URI_CONFIG_def URI_GROUP_def URI_TARGET_def URI_HOST_def URI_DEM_def URI_V1_def URI_SUBSYSTEM_def
  URI_PORTID_def URI_NSID_def URI_INTERFACE_def URI_SIGNATURE_def URI_LOG_PAGE_def URI_USAGE_def
  METHOD_SHUTDOWN_def METHOD_REFRESH_def METHOD_RECONFIG_def

text \<open>A member of a JSON object in a text: \<^verbatim>\<open>JSSTR\<close>, \<^verbatim>\<open>JSINT\<close> and \<^verbatim>\<open>JSINDX\<close>.\<close>

definition js_str :: "string \<Rightarrow> string \<Rightarrow> string" where
  "js_str tag s = dquoted tag @ '':'' @ dquoted s"

definition js_int :: "string \<Rightarrow> int \<Rightarrow> string" where
  "js_int tag n = dquoted tag @ '':'' @ show_int n"

definition URI_PARM_MODE :: string where "URI_PARM_MODE = ''mode=''"
definition URI_PARM_FABRIC :: string where "URI_PARM_FABRIC = ''fabric=''"

lemmas tag_eqs [tag_defs] =
  TAG_GROUPS_def TAG_GROUP_def TAG_TARGETS_def TAG_TARGET_def TAG_HOSTS_def TAG_HOST_def
  TAG_ALIAS_def TAG_REFRESH_def TAG_TYPE_def TAG_FAMILY_def TAG_ADDRESS_def TAG_TRSVCID_def
  TAG_PORTID_def TAG_PORTIDS_def TAG_SUBSYSTEMS_def TAG_SUBSYSTEM_def TAG_SUBNQN_def
  TAG_HOSTNQN_def TAG_ALLOW_ANY_def TAG_INTERFACES_def TAG_INTERFACE_def TAG_NAME_def
  TAG_DEVID_def TAG_DEVNSID_def TAG_NSID_def TAG_NSIDS_def TAG_IFFAMILY_def TAG_IFADDRESS_def
  TAG_IFPORT_def TAG_SHARED_def TAG_RESTRICTED_def TAG_MGMT_MODE_def TAG_OUT_OF_BAND_MGMT_def
  TAG_LOCAL_MGMT_def TAG_IN_BAND_MGMT_def TAG_NSDEVS_def TAG_NEW_def TAG_OLD_def
  URI_PARM_MODE_def URI_PARM_FABRIC_def

definition MAX_STRING :: nat where "MAX_STRING = 128"
definition MAX_ALIAS_SIZE :: nat where "MAX_ALIAS_SIZE = 64"
definition MAX_NQN_SIZE :: nat where "MAX_NQN_SIZE = 256"
definition BODY_SIZE :: nat where "BODY_SIZE = 1024"
definition MAX_URI_SIZE :: nat where "MAX_URI_SIZE = 128"
definition MAX_BODY_SIZE :: nat where "MAX_BODY_SIZE = 1024"
definition CONFIG_PORT_SIZE :: nat where "CONFIG_PORT_SIZE = 8"
definition CONFIG_TYPE_SIZE :: nat where "CONFIG_TYPE_SIZE = 8"
definition CONFIG_FAMILY_SIZE :: nat where "CONFIG_FAMILY_SIZE = 8"
definition CONFIG_ADDRESS_SIZE :: nat where "CONFIG_ADDRESS_SIZE = 40"
definition NULL_BLK_DEVID :: int where "NULL_BLK_DEVID = -1"

lemmas size_eqs [size_defs] = MAX_STRING_def MAX_ALIAS_SIZE_def MAX_NQN_SIZE_def BODY_SIZE_def
  CONFIG_TYPE_SIZE_def CONFIG_FAMILY_SIZE_def CONFIG_ADDRESS_SIZE_def

text \<open>The three top-level collections of the configuration have different keys.\<close>

lemma tag_neq [simp]:
  "TAG_GROUPS \<noteq> TAG_HOSTS" "TAG_HOSTS \<noteq> TAG_GROUPS"
  "TAG_GROUPS \<noteq> TAG_TARGETS" "TAG_TARGETS \<noteq> TAG_GROUPS"
  "TAG_HOSTS \<noteq> TAG_TARGETS" "TAG_TARGETS \<noteq> TAG_HOSTS"
  "TAG_NAME \<noteq> TAG_TARGETS" "TAG_TARGETS \<noteq> TAG_NAME"
  "TAG_NAME \<noteq> TAG_HOSTS" "TAG_HOSTS \<noteq> TAG_NAME"
  "TAG_ALIAS \<noteq> TAG_HOSTNQN" "TAG_HOSTNQN \<noteq> TAG_ALIAS"
  "TAG_ALIAS \<noteq> TAG_SUBSYSTEMS" "TAG_SUBSYSTEMS \<noteq> TAG_ALIAS"
  "TAG_ALIAS \<noteq> TAG_PORTIDS" "TAG_PORTIDS \<noteq> TAG_ALIAS"
  "TAG_ALIAS \<noteq> TAG_INTERFACE" "TAG_INTERFACE \<noteq> TAG_ALIAS"
  "TAG_ALIAS \<noteq> TAG_INTERFACES" "TAG_INTERFACES \<noteq> TAG_ALIAS"
  "TAG_ALIAS \<noteq> TAG_NSDEVS" "TAG_NSDEVS \<noteq> TAG_ALIAS"
  "TAG_ALIAS \<noteq> TAG_REFRESH" "TAG_REFRESH \<noteq> TAG_ALIAS"
  "TAG_ALIAS \<noteq> TAG_MGMT_MODE" "TAG_MGMT_MODE \<noteq> TAG_ALIAS"
  "TAG_INTERFACE \<noteq> TAG_MGMT_MODE" "TAG_INTERFACE \<noteq> TAG_REFRESH"
  "TAG_INTERFACE \<noteq> TAG_SUBSYSTEMS" "TAG_INTERFACE \<noteq> TAG_PORTIDS"
  "TAG_PORTIDS \<noteq> TAG_SUBSYSTEMS" "TAG_SUBSYSTEMS \<noteq> TAG_PORTIDS"
  "TAG_SUBNQN \<noteq> TAG_ALLOW_ANY" "TAG_ALLOW_ANY \<noteq> TAG_SUBNQN"
  "TAG_SUBNQN \<noteq> TAG_HOSTS" "TAG_HOSTS \<noteq> TAG_SUBNQN"
  "TAG_HOSTS \<noteq> TAG_ALLOW_ANY" "TAG_ALLOW_ANY \<noteq> TAG_HOSTS"
  by (simp_all add: tag_defs)

section \<open>Generic list lemmas\<close>

text \<open>
  The search loops of the program return the index and the element of the first match,
  counting from \<open>i\<close>.
\<close>

primrec first_match :: "('a \<Rightarrow> bool) \<Rightarrow> nat \<Rightarrow> 'a list \<Rightarrow> (nat \<times> 'a) option" where
  "first_match P i [] = None"
| "first_match P i (x # xs) = (if P x then Some (i, x) else first_match P (Suc i) xs)"

lemma first_match_None_iff: "first_match P i xs = None \<longleftrightarrow> (\<forall>x\<in>set xs. \<not> P x)"
  by (induction xs arbitrary: i) auto

lemma first_match_Some_iff:
  "first_match P i xs = Some (k, x) \<longleftrightarrow>
     i \<le> k \<and> k - i < length xs \<and> xs ! (k - i) = x \<and> P x \<and> (\<forall>j<k - i. \<not> P (xs ! j))"
proof (induction xs arbitrary: i)
  case Nil
  show ?case by simp
next
  case (Cons y ys)
  show ?case
  proof (cases "k \<le> i")
    case True
    have "first_match P (Suc i) ys \<noteq> Some (k, x)" using Cons [of "Suc i"] True by simp
    with True show ?thesis by (cases "k = i") auto
  next
    case False
    then have k: "k - i = Suc (k - Suc i)" by simp
    have "(\<forall>j<k - i. \<not> P ((y # ys) ! j)) \<longleftrightarrow> \<not> P y \<and> (\<forall>j<k - Suc i. \<not> P (ys ! j))"
      unfolding k by (auto simp: All_less_Suc2)
    with k False Cons [of "Suc i"] show ?thesis by auto
  qed
qed

lemma first_match_0_SomeD:
  assumes "first_match P 0 xs = Some (k, x)"
  shows "k < length xs" "xs ! k = x" "P x" "\<forall>j<k. \<not> P (xs ! j)"
  using assms by (simp_all add: first_match_Some_iff)

lemma distinct_list_update_new:
  "distinct xs \<Longrightarrow> y \<notin> set xs \<Longrightarrow> distinct (xs[i := y])"
  by (simp add: distinct_list_update)

text \<open>Deleting position \<open>i\<close>, as \<^verbatim>\<open>json_array_remove\<close> and \<^verbatim>\<open>list_del\<close> do.\<close>

definition remove_at :: "nat \<Rightarrow> 'a list \<Rightarrow> 'a list" where
  "remove_at i xs = take i xs @ drop (Suc i) xs"

lemma set_remove_at_subset: "set (remove_at i xs) \<subseteq> set xs"
  by (auto simp: remove_at_def dest: in_set_takeD in_set_dropD)

lemma distinct_remove_at: "distinct xs \<Longrightarrow> distinct (remove_at i xs)"
  using distinct_append [of "take i xs" "drop (Suc i) xs"]
  by (simp add: remove_at_def) (meson Suc_n_not_le_n nat_le_linear le_SucI set_take_disj_set_drop_if_distinct)

lemma remove_at_map: "map f (remove_at i xs) = remove_at i (map f xs)"
  by (simp add: remove_at_def take_map drop_map)

lemma set_remove_at_distinct:
  assumes "distinct xs" "i < length xs"
  shows "set (remove_at i xs) = set xs - {xs ! i}"
proof -
  have xs: "xs = take i xs @ xs ! i # drop (Suc i) xs" using assms(2) by (rule id_take_nth_drop)
  have "distinct (take i xs @ xs ! i # drop (Suc i) xs)" using assms(1) xs by simp
  moreover have "set xs = set (take i xs @ xs ! i # drop (Suc i) xs)" using xs by simp
  ultimately show ?thesis unfolding remove_at_def by auto
qed

lemma remove_at_append:
  "remove_at (length xs) (xs @ y # ys) = xs @ ys"
  by (simp add: remove_at_def)

text \<open>
  The names in an array are a partial map over its elements: how an update or a removal at one
  index shows in the list of names.
\<close>

lemma map_filter_append [simp]:
  "List.map_filter f (xs @ ys) = List.map_filter f xs @ List.map_filter f ys"
  by (simp add: List.map_filter_def)

lemma map_filter_Nil [simp]: "List.map_filter f [] = []"
  by (simp add: List.map_filter_def)

lemma set_map_filter: "set (List.map_filter f xs) = {y. \<exists>x\<in>set xs. f x = Some y}"
  by (force simp: List.map_filter_def)

lemma map_filter_Cons:
  "List.map_filter f (x # xs) = (case f x of None \<Rightarrow> [] | Some y \<Rightarrow> [y]) @ List.map_filter f xs"
  by (simp add: map_filter_simps split: option.splits)

lemma map_filter_split:
  assumes "i < length xs"
  shows "List.map_filter f xs = List.map_filter f (take i xs) @
    (case f (xs ! i) of None \<Rightarrow> [] | Some y \<Rightarrow> [y]) @ List.map_filter f (drop (Suc i) xs)"
  by (subst id_take_nth_drop [OF assms]) (simp only: map_filter_append map_filter_Cons)

lemma map_filter_list_update:
  assumes "i < length xs"
  shows "List.map_filter f (xs[i := v]) = List.map_filter f (take i xs) @
    (case f v of None \<Rightarrow> [] | Some y \<Rightarrow> [y]) @ List.map_filter f (drop (Suc i) xs)"
  by (simp only: upd_conv_take_nth_drop [OF assms] map_filter_append map_filter_Cons)

lemma map_filter_cong_nth:
  "i < length xs \<Longrightarrow> f v = f (xs ! i) \<Longrightarrow> List.map_filter f (xs[i := v]) = List.map_filter f xs"
  by (simp only: map_filter_list_update map_filter_split [of i xs f])

lemma map_filter_update:
  assumes "i < length xs" and "f (xs ! i) = Some old" and "f v = Some new"
  shows "\<exists>k<length (List.map_filter f xs). List.map_filter f xs ! k = old \<and>
           List.map_filter f (xs[i := v]) = (List.map_filter f xs)[k := new]"
proof -
  let ?k = "length (List.map_filter f (take i xs))"
  have xs: "List.map_filter f xs =
      List.map_filter f (take i xs) @ old # List.map_filter f (drop (Suc i) xs)"
    using assms(2) by (simp add: map_filter_split [OF assms(1)])
  have "List.map_filter f (xs[i := v]) =
      List.map_filter f (take i xs) @ new # List.map_filter f (drop (Suc i) xs)"
    using assms(3) by (simp add: map_filter_list_update [OF assms(1)])
  then have "List.map_filter f (xs[i := v]) = (List.map_filter f xs)[?k := new]"
    by (simp add: xs)
  moreover have "List.map_filter f xs ! ?k = old" "?k < length (List.map_filter f xs)"
    by (simp_all add: xs)
  ultimately show ?thesis by blast
qed

lemma map_filter_remove:
  assumes "i < length xs" and "f (xs ! i) = Some old"
  shows "\<exists>k<length (List.map_filter f xs). List.map_filter f xs ! k = old \<and>
           List.map_filter f (remove_at i xs) = remove_at k (List.map_filter f xs)"
proof -
  let ?k = "length (List.map_filter f (take i xs))"
  have xs: "List.map_filter f xs =
      List.map_filter f (take i xs) @ old # List.map_filter f (drop (Suc i) xs)"
    using assms(2) by (simp add: map_filter_split [OF assms(1)])
  have "List.map_filter f (remove_at i xs) = remove_at ?k (List.map_filter f xs)"
    by (simp add: xs remove_at_append) (simp add: remove_at_def)
  moreover have "List.map_filter f xs ! ?k = old" "?k < length (List.map_filter f xs)"
    by (simp_all add: xs)
  ultimately show ?thesis by blast
qed

text \<open>Replacing the first occurrence of a value, as the rename loops do.\<close>

fun replace1 :: "'a \<Rightarrow> 'a \<Rightarrow> 'a list \<Rightarrow> 'a list" where
  "replace1 old new [] = []"
| "replace1 old new (x # xs) = (if x = old then new # xs else x # replace1 old new xs)"

lemma replace1_notin [simp]: "old \<notin> set xs \<Longrightarrow> replace1 old new xs = xs"
  by (induction xs) auto

lemma replace1_append: "old \<notin> set xs \<Longrightarrow> replace1 old new (xs @ old # ys) = xs @ new # ys"
  by (induction xs) auto

lemma length_replace1 [simp]: "length (replace1 old new xs) = length xs"
  by (induction xs) auto

lemma set_replace1:
  "distinct xs \<Longrightarrow> set (replace1 old new xs) = (if old \<in> set xs then insert new (set xs - {old}) else set xs)"
  by (induction xs) auto

lemma set_replace1_subset: "set (replace1 old new xs) \<subseteq> insert new (set xs)"
  by (induction xs) auto

lemma distinct_replace1: "distinct xs \<Longrightarrow> new \<notin> set xs \<Longrightarrow> distinct (replace1 old new xs)"
  by (induction xs) (use set_replace1_subset in fastforce)+

lemma remove1_split: "old \<notin> set xs \<Longrightarrow> remove1 old (xs @ old # ys) = xs @ ys"
  by (simp add: remove1_append)

text \<open>The first match splits the list of names.\<close>

lemma map_filter_first_match:
  assumes "first_match (\<lambda>x. f x = Some v) 0 xs = Some (i, x)"
  shows "v \<notin> set (List.map_filter f (take i xs))"
    and "List.map_filter f (xs[i := y]) =
           (case f y of None \<Rightarrow> remove1 v (List.map_filter f xs)
            | Some w \<Rightarrow> replace1 v w (List.map_filter f xs))"
    and "List.map_filter f (remove_at i xs) = remove1 v (List.map_filter f xs)"
proof -
  note m = first_match_0_SomeD [OF assms]
  show notin: "v \<notin> set (List.map_filter f (take i xs))"
  proof
    assume "v \<in> set (List.map_filter f (take i xs))"
    then obtain z where "z \<in> set (take i xs)" "f z = Some v" by (auto simp: set_map_filter)
    then obtain j where "j < i" "xs ! j = z" using m(1) by (auto simp: in_set_conv_nth)
    with m(4) \<open>f z = Some v\<close> show False by blast
  qed
  have xs: "List.map_filter f xs =
      List.map_filter f (take i xs) @ v # List.map_filter f (drop (Suc i) xs)"
    using m by (simp add: map_filter_split [OF m(1)])
  show "List.map_filter f (xs[i := y]) =
           (case f y of None \<Rightarrow> remove1 v (List.map_filter f xs)
            | Some w \<Rightarrow> replace1 v w (List.map_filter f xs))"
    unfolding map_filter_list_update [OF m(1)] xs
    by (simp add: remove1_split [OF notin] replace1_append [OF notin] split: option.split)
  show "List.map_filter f (remove_at i xs) = remove1 v (List.map_filter f xs)"
    unfolding xs remove1_split [OF notin] by (simp add: remove_at_def)
qed

text \<open>Texts joined with commas, as the list responses print them.\<close>

fun comma_join :: "string list \<Rightarrow> string" where
  "comma_join [] = []"
| "comma_join [s] = s"
| "comma_join (s # t # ss) = s @ CHR '','' # comma_join (t # ss)"

lemma comma_join_Cons:
  "comma_join (s # ss) = s @ concat (map (\<lambda>t. CHR '','' # t) ss)"
  by (induction ss arbitrary: s) auto

end
