(* ===== verification/Jansson.thy ===== *)
theory Jansson
  imports Prelude
begin

text \<open>
  The JSON library. Jansson is not part of the repository (it is fetched by the build), so its
  functions are a parameter of the model: a record \<open>'j jansson\<close> of the operations that
  \<^verbatim>\<open>src/src/dem/json.c\<close> and \<^verbatim>\<open>src/src/dem/interfaces.c\<close> call, over an abstract type \<open>'j\<close> of JSON
  values. The locale \<open>jansson_api\<close> states the documented behaviour the program relies on.

  A \<^verbatim>\<open>json_t *\<close> is modelled by the value it points to, a null pointer by \<^const>\<open>None\<close>. The
  document is a tree (no node has two owners), so a change made through a pointer that was
  borrowed from a container is the update of that container: a change of the element at index
  \<open>i\<close> of an array is \<open>json_array_set\<close>, a change of the member \<open>k\<close> of an object is
  \<open>json_object_set_new\<close>. Allocation inside the library is taken to succeed.
\<close>

section \<open>The interface\<close>

record 'j jansson =
  json_is_object :: "'j \<Rightarrow> bool"
  json_is_array :: "'j \<Rightarrow> bool"
  json_is_string :: "'j \<Rightarrow> bool"
  json_is_integer :: "'j \<Rightarrow> bool"
  json_object :: 'j
  json_object_get :: "'j \<Rightarrow> string \<Rightarrow> 'j option"
  json_object_set_new :: "'j \<Rightarrow> string \<Rightarrow> 'j \<Rightarrow> 'j"
  json_object_del :: "'j \<Rightarrow> string \<Rightarrow> 'j"
  json_array :: 'j
  json_array_size :: "'j \<Rightarrow> nat"
  json_array_get :: "'j \<Rightarrow> nat \<Rightarrow> 'j option"
  json_array_set :: "'j \<Rightarrow> nat \<Rightarrow> 'j \<Rightarrow> 'j"
  json_array_append_new :: "'j \<Rightarrow> 'j \<Rightarrow> 'j"
  json_array_remove :: "'j \<Rightarrow> nat \<Rightarrow> 'j"
  json_array_clear :: "'j \<Rightarrow> 'j"
  json_string :: "string option \<Rightarrow> 'j option"
  json_string_set :: "'j \<Rightarrow> string option \<Rightarrow> 'j"
  json_string_value :: "'j \<Rightarrow> string option"
  json_integer :: "int \<Rightarrow> 'j"
  json_integer_set :: "'j \<Rightarrow> int \<Rightarrow> 'j"
  json_integer_value :: "'j \<Rightarrow> int"
  json_loads :: "string \<Rightarrow> 'j option"
  json_dumps :: "'j \<Rightarrow> string"

text \<open>
  The elements of an array in index order: what a loop from \<open>0\<close> to \<open>json_array_size\<close> reads
  with \<open>json_array_get\<close>.
\<close>

definition json_elems :: "'j jansson \<Rightarrow> 'j \<Rightarrow> 'j list" where
  "json_elems J a = map (\<lambda>i. the (json_array_get J a i)) [0..<json_array_size J a]"

text \<open>The string under a key of an object, if there is one (\<^verbatim>\<open>json_is_object\<close>, \<^verbatim>\<open>json_object_get\<close>,
  \<^verbatim>\<open>json_is_string\<close> and \<^verbatim>\<open>json_string_value\<close> in the order the loops call them).\<close>

definition json_member_string :: "'j jansson \<Rightarrow> string \<Rightarrow> 'j \<Rightarrow> string option" where
  "json_member_string J tag x =
     (if json_is_object J x
      then case json_object_get J x tag of None \<Rightarrow> None
           | Some v \<Rightarrow> if json_is_string J v then json_string_value J v else None
      else None)"

locale jansson_api =
  fixes J :: "'j jansson"
  assumes object_not_array: "json_is_object J x \<Longrightarrow> \<not> json_is_array J x"
    and string_iff: "json_is_string J x \<longleftrightarrow> json_string_value J x \<noteq> None"
    and object_not_string: "json_is_object J x \<Longrightarrow> \<not> json_is_string J x"
    and array_not_string: "json_is_array J x \<Longrightarrow> \<not> json_is_string J x"
    and integer_not_string: "json_is_integer J x \<Longrightarrow> \<not> json_is_string J x"
    and is_object_new: "json_is_object J (json_object J)"
    and get_new: "json_object_get J (json_object J) k = None"
    and get_non_object: "\<not> json_is_object J x \<Longrightarrow> json_object_get J x k = None"
    and is_object_set: "json_is_object J x \<Longrightarrow> json_is_object J (json_object_set_new J x k v)"
    and get_set: "json_is_object J x \<Longrightarrow>
      json_object_get J (json_object_set_new J x k v) k' =
        (if k' = k then Some v else json_object_get J x k')"
    and set_non_object: "\<not> json_is_object J x \<Longrightarrow> json_object_set_new J x k v = x"
    and is_object_del: "json_is_object J x \<Longrightarrow> json_is_object J (json_object_del J x k)"
    and get_del: "json_is_object J x \<Longrightarrow>
      json_object_get J (json_object_del J x k) k' =
        (if k' = k then None else json_object_get J x k')"
    and del_non_object: "\<not> json_is_object J x \<Longrightarrow> json_object_del J x k = x"
    and is_array_new: "json_is_array J (json_array J)"
    and size_new: "json_array_size J (json_array J) = 0"
    and size_non_array: "\<not> json_is_array J x \<Longrightarrow> json_array_size J x = 0"
    and array_get_None_iff: "json_array_get J a i = None \<longleftrightarrow> json_array_size J a \<le> i"
    and is_array_set: "json_is_array J a \<Longrightarrow> json_is_array J (json_array_set J a i v)"
    and size_set: "json_array_size J (json_array_set J a i v) = json_array_size J a"
    and array_get_set: "i < json_array_size J a \<Longrightarrow>
      json_array_get J (json_array_set J a i v) j =
        (if j = i then Some v else json_array_get J a j)"
    and is_array_append: "json_is_array J a \<Longrightarrow> json_is_array J (json_array_append_new J a v)"
    and size_append: "json_is_array J a \<Longrightarrow>
      json_array_size J (json_array_append_new J a v) = Suc (json_array_size J a)"
    and array_get_append: "json_is_array J a \<Longrightarrow>
      json_array_get J (json_array_append_new J a v) i =
        (if i = json_array_size J a then Some v else json_array_get J a i)"
    and append_non_array: "\<not> json_is_array J x \<Longrightarrow> json_array_append_new J x v = x"
    and is_array_remove: "json_is_array J a \<Longrightarrow> json_is_array J (json_array_remove J a i)"
    and size_remove: "i < json_array_size J a \<Longrightarrow>
      json_array_size J (json_array_remove J a i) = json_array_size J a - 1"
    and array_get_remove: "i < json_array_size J a \<Longrightarrow>
      json_array_get J (json_array_remove J a i) j =
        json_array_get J a (if j < i then j else Suc j)"
    and remove_beyond: "json_array_size J a \<le> i \<Longrightarrow> json_array_remove J a i = a"
    and is_array_clear: "json_is_array J a \<Longrightarrow> json_is_array J (json_array_clear J a)"
    and size_clear: "json_array_size J (json_array_clear J a) = 0"
    and string_null: "json_string J None = None"
    and string_value_string: "json_string J so = Some v \<Longrightarrow> json_string_value J v = so"
    and string_of_value: "json_string_value J v = Some s \<Longrightarrow> json_string J (Some s) \<noteq> None"
    and string_value_set: "json_is_string J v \<Longrightarrow> json_string J so \<noteq> None \<Longrightarrow>
      json_string_value J (json_string_set J v so) = so"
    and string_set_invalid: "json_string J so = None \<Longrightarrow> json_string_set J v so = v"
    and string_set_other: "\<not> json_is_string J v \<Longrightarrow> json_string_set J v so = v"
    and is_integer_integer: "json_is_integer J (json_integer J z)"
    and integer_value_integer: "- (2 ^ 63) \<le> z \<Longrightarrow> z < 2 ^ 63 \<Longrightarrow>
      json_integer_value J (json_integer J z) = z"
    and is_integer_set: "json_is_integer J v \<Longrightarrow> json_is_integer J (json_integer_set J v z)"
    and integer_value_set: "json_is_integer J v \<Longrightarrow> - (2 ^ 63) \<le> z \<Longrightarrow> z < 2 ^ 63 \<Longrightarrow>
      json_integer_value J (json_integer_set J v z) = z"
    and integer_set_other: "\<not> json_is_integer J v \<Longrightarrow> json_integer_set J v z = v"
    and integer_value_range: "- (2 ^ 63) \<le> json_integer_value J v \<and> json_integer_value J v < 2 ^ 63"
    and integer_value_other: "\<not> json_is_integer J v \<Longrightarrow> json_integer_value J v = 0"
begin

lemmas object_simps [simp] = is_object_new get_new is_object_set get_set set_non_object
  is_object_del get_del get_non_object

lemmas array_simps [simp] = is_array_new size_new is_array_set size_set is_array_append
  size_append append_non_array is_array_remove is_array_clear size_clear

lemma is_object_get: "json_object_get J x k = Some v \<Longrightarrow> json_is_object J x"
  using get_non_object by fastforce

lemma length_elems [simp]: "length (json_elems J a) = json_array_size J a"
  by (simp add: json_elems_def)

lemma array_get_elems:
  "json_array_get J a i = (if i < json_array_size J a then Some (json_elems J a ! i) else None)"
  using array_get_None_iff [of a i] by (auto simp: json_elems_def)

lemma elems_new [simp]: "json_elems J (json_array J) = []"
  by (simp add: json_elems_def)

lemma elems_clear [simp]: "json_elems J (json_array_clear J a) = []"
  by (simp add: json_elems_def)

lemma elems_non_array: "\<not> json_is_array J a \<Longrightarrow> json_elems J a = []"
  by (simp add: json_elems_def size_non_array)

lemma elems_append [simp]:
  "json_is_array J a \<Longrightarrow> json_elems J (json_array_append_new J a v) = json_elems J a @ [v]"
  by (rule nth_equalityI)
    (auto simp: json_elems_def nth_append array_get_append size_append less_Suc_eq)

lemma elems_set [simp]: "json_elems J (json_array_set J a i v) = (json_elems J a)[i := v]"
  if "i < json_array_size J a"
  using that by (intro nth_equalityI) (auto simp: json_elems_def array_get_set nth_list_update)

lemma elems_remove: "json_elems J (json_array_remove J a i) = remove_at i (json_elems J a)"
proof (cases "i < json_array_size J a")
  case True
  show ?thesis
  proof (rule nth_equalityI)
    show "length (json_elems J (json_array_remove J a i)) = length (remove_at i (json_elems J a))"
      using True by (simp add: remove_at_def size_remove)
    fix j assume "j < length (json_elems J (json_array_remove J a i))"
    then have j: "Suc j < json_array_size J a" using True by (simp add: size_remove)
    have "json_elems J (json_array_remove J a i) ! j =
        json_elems J a ! (if j < i then j else Suc j)"
      using j True by (simp add: json_elems_def size_remove array_get_remove)
    then show "json_elems J (json_array_remove J a i) ! j = remove_at i (json_elems J a) ! j"
      using j True by (auto simp: remove_at_def nth_append)
  qed
next
  case False
  then show ?thesis by (simp add: remove_beyond remove_at_def)
qed

lemma string_value_is_string: "json_string_value J v = Some s \<Longrightarrow> json_is_string J v"
  by (simp add: string_iff)

lemma string_if_value: "(if json_is_string J v then json_string_value J v else None) = json_string_value J v"
  by (auto simp: string_iff)

lemma member_string_eq:
  "json_member_string J tag x =
     (case json_object_get J x tag of None \<Rightarrow> None | Some v \<Rightarrow> json_string_value J v)"
  by (auto simp: json_member_string_def string_iff split: option.splits)

lemma member_string_set [simp]:
  "json_is_object J x \<Longrightarrow> json_member_string J tag (json_object_set_new J x k v) =
     (if tag = k then json_string_value J v else json_member_string J tag x)"
  by (simp add: member_string_eq)

lemma member_string_del [simp]:
  "json_is_object J x \<Longrightarrow> json_member_string J tag (json_object_del J x k) =
     (if tag = k then None else json_member_string J tag x)"
  by (simp add: member_string_eq)

lemma member_string_set_other [simp]:
  "tag \<noteq> k \<Longrightarrow> json_member_string J tag (json_object_set_new J x k v) = json_member_string J tag x"
  by (cases "json_is_object J x") simp_all

lemma member_string_del_other [simp]:
  "tag \<noteq> k \<Longrightarrow> json_member_string J tag (json_object_del J x k) = json_member_string J tag x"
  by (cases "json_is_object J x") (simp_all add: del_non_object)

lemma member_string_new [simp]: "json_member_string J tag (json_object J) = None"
  by (simp add: member_string_eq)

lemma member_string_SomeD:
  assumes "json_member_string J tag x = Some s"
  shows "json_is_object J x" "\<exists>v. json_object_get J x tag = Some v \<and> json_string_value J v = Some s"
  using assms by (auto simp: member_string_eq dest: is_object_get split: option.splits)

lemma size_object: "json_is_object J x \<Longrightarrow> json_array_size J x = 0"
  by (simp add: object_not_array size_non_array)

end

section \<open>A reference implementation of the interface\<close>

text \<open>
  JSON documents as a datatype, objects as association lists in insertion order (a new key
  goes to the end, an existing key keeps its place). It shows that the laws can be met, and
  the witnesses evaluate on it. Strings are valid when every character is printable ASCII;
  the parser and printer are arbitrary functions, given as arguments.
\<close>

datatype json = JObject "(string \<times> json) list" | JArray "json list" | JString string
  | JInteger int | JNull

fun jobj_set :: "string \<Rightarrow> json \<Rightarrow> (string \<times> json) list \<Rightarrow> (string \<times> json) list" where
  "jobj_set k v [] = [(k, v)]"
| "jobj_set k v ((k', v') # kvs) = (if k' = k then (k, v) # kvs else (k', v') # jobj_set k v kvs)"

definition jvalid_string :: "string \<Rightarrow> bool" where
  "jvalid_string s = list_all (\<lambda>c. 32 \<le> (of_char c :: nat) \<and> (of_char c :: nat) < 127) s"

definition wrap64 :: "int \<Rightarrow> int" where
  "wrap64 z = (z + 2 ^ 63) mod 2 ^ 64 - 2 ^ 63"

definition ref_jansson :: "(string \<Rightarrow> json option) \<Rightarrow> (json \<Rightarrow> string) \<Rightarrow> json jansson" where
  "ref_jansson parse dump = \<lparr>
     json_is_object = (\<lambda>x. case x of JObject _ \<Rightarrow> True | _ \<Rightarrow> False),
     json_is_array = (\<lambda>x. case x of JArray _ \<Rightarrow> True | _ \<Rightarrow> False),
     json_is_string = (\<lambda>x. case x of JString s \<Rightarrow> jvalid_string s | _ \<Rightarrow> False),
     json_is_integer = (\<lambda>x. case x of JInteger _ \<Rightarrow> True | _ \<Rightarrow> False),
     json_object = JObject [],
     json_object_get = (\<lambda>x k. case x of JObject kvs \<Rightarrow> map_of kvs k | _ \<Rightarrow> None),
     json_object_set_new = (\<lambda>x k v. case x of JObject kvs \<Rightarrow> JObject (jobj_set k v kvs) | _ \<Rightarrow> x),
     json_object_del = (\<lambda>x k. case x of JObject kvs \<Rightarrow> JObject (filter (\<lambda>kv. fst kv \<noteq> k) kvs) | _ \<Rightarrow> x),
     json_array = JArray [],
     json_array_size = (\<lambda>x. case x of JArray xs \<Rightarrow> length xs | _ \<Rightarrow> 0),
     json_array_get = (\<lambda>x i. case x of JArray xs \<Rightarrow> if i < length xs then Some (xs ! i) else None | _ \<Rightarrow> None),
     json_array_set = (\<lambda>x i v. case x of JArray xs \<Rightarrow> JArray (xs[i := v]) | _ \<Rightarrow> x),
     json_array_append_new = (\<lambda>x v. case x of JArray xs \<Rightarrow> JArray (xs @ [v]) | _ \<Rightarrow> x),
     json_array_remove = (\<lambda>x i. case x of JArray xs \<Rightarrow> JArray (remove_at i xs) | _ \<Rightarrow> x),
     json_array_clear = (\<lambda>x. case x of JArray xs \<Rightarrow> JArray [] | _ \<Rightarrow> x),
     json_string = (\<lambda>z. case z of None \<Rightarrow> None | Some s \<Rightarrow> if jvalid_string s then Some (JString s) else None),
     json_string_set = (\<lambda>x z. case x of
         JString t \<Rightarrow> (case z of None \<Rightarrow> x
           | Some s \<Rightarrow> if jvalid_string t \<and> jvalid_string s then JString s else x)
       | _ \<Rightarrow> x),
     json_string_value = (\<lambda>x. case x of JString s \<Rightarrow> if jvalid_string s then Some s else None | _ \<Rightarrow> None),
     json_integer = (\<lambda>z. JInteger z),
     json_integer_set = (\<lambda>x z. case x of JInteger _ \<Rightarrow> JInteger z | _ \<Rightarrow> x),
     json_integer_value = (\<lambda>x. case x of JInteger z \<Rightarrow> wrap64 z | _ \<Rightarrow> 0),
     json_loads = parse,
     json_dumps = dump \<rparr>"

lemma map_of_jobj_set: "map_of (jobj_set k v kvs) k' = (if k' = k then Some v else map_of kvs k')"
  by (induction k v kvs rule: jobj_set.induct) auto

lemma map_of_filter_key:
  "map_of (filter (\<lambda>kv. fst kv \<noteq> k) kvs) k' = (if k' = k then None else map_of kvs k')"
  by (induction kvs) auto

lemma wrap64_id: "- (2 ^ 63) \<le> z \<Longrightarrow> z < 2 ^ 63 \<Longrightarrow> wrap64 z = z"
  by (simp add: wrap64_def)

interpretation ref: jansson_api "ref_jansson parse dump"
  by unfold_locales
    (auto simp: ref_jansson_def map_of_jobj_set map_of_filter_key wrap64_id wrap64_def
       nth_append remove_at_def split: json.splits if_splits option.splits)

end
