(* ===== verification/Json_Helpers.thy ===== *)
theory Json_Helpers
  imports Jansson
begin

text \<open>
  The macros of \<^verbatim>\<open>src/src/dem/json.h\<close> and the helper functions at the top of
  \<^verbatim>\<open>src/src/dem/json.c\<close>: reading and updating members of an object, searching an array by a
  string or an integer member, printing the names of an array, removing an element of a nested
  array. The lemmas describe each of them through the list of names of an array
  (\<open>json_names\<close>).
\<close>

section \<open>Macros of json.h\<close>

definition json_set_string :: "'j jansson \<Rightarrow> 'j \<Rightarrow> string \<Rightarrow> string option \<Rightarrow> 'j" where
  "json_set_string J x y z =
     (case json_object_get J x y of
        Some tmp \<Rightarrow> json_object_set_new J x y (json_string_set J tmp z)
      | None \<Rightarrow> (case json_string J z of None \<Rightarrow> x | Some v \<Rightarrow> json_object_set_new J x y v))"

definition json_set_int :: "'j jansson \<Rightarrow> 'j \<Rightarrow> string \<Rightarrow> int \<Rightarrow> 'j" where
  "json_set_int J x y z =
     (case json_object_get J x y of
        Some tmp \<Rightarrow> json_object_set_new J x y (json_integer_set J tmp z)
      | None \<Rightarrow> json_object_set_new J x y (json_integer J z))"

text \<open>The updated container, and the array (null when the member has another type).\<close>

definition json_get_array :: "'j jansson \<Rightarrow> 'j \<Rightarrow> string \<Rightarrow> 'j \<times> 'j option" where
  "json_get_array J x y =
     (if json_is_object J x
      then case json_object_get J x y of
             None \<Rightarrow> (json_object_set_new J x y (json_array J), Some (json_array J))
           | Some z \<Rightarrow> if json_is_array J z then (x, Some z) else (x, None)
      else (x, None))"

definition json_update_string :: "'j jansson \<Rightarrow> 'j \<Rightarrow> 'j \<Rightarrow> string \<Rightarrow> 'j" where
  "json_update_string J w x y =
     (case json_object_get J x y of
        None \<Rightarrow> w
      | Some z \<Rightarrow> if json_is_object J w then json_set_string J w y (json_string_value J z) else w)"

text \<open>
  The \<^verbatim>\<open>_ex\<close> forms also copy the value to a variable of the caller: a buffer of \<open>cap\<close> bytes
  or an \<^verbatim>\<open>int\<close>. The second component is the value written, \<^const>\<open>None\<close> when nothing is.
\<close>

definition json_update_string_ex ::
  "'j jansson \<Rightarrow> nat \<Rightarrow> 'j \<Rightarrow> 'j \<Rightarrow> string \<Rightarrow> ('j \<times> string option) exec" where
  "json_update_string_ex J cap w x y =
     (case json_object_get J x y of
        None \<Rightarrow> Inr (w, None)
      | Some z \<Rightarrow>
          if json_is_object J w
          then exec_bind (c_strcpy cap (json_string_value J z))
                 (\<lambda>s. Inr (json_set_string J w y (json_string_value J z), Some s))
          else Inr (w, None))"

definition json_update_int_ex :: "'j jansson \<Rightarrow> 'j \<Rightarrow> 'j \<Rightarrow> string \<Rightarrow> 'j \<times> int option" where
  "json_update_int_ex J w x y =
     (case json_object_get J x y of
        None \<Rightarrow> (w, None)
      | Some z \<Rightarrow>
          if json_is_object J w
          then (json_set_int J w y (json_integer_value J z), Some (c_int (json_integer_value J z)))
          else (w, None))"

section \<open>Searching an array\<close>

text \<open>
  The searches return the index and the element of the first match; \<^const>\<open>None\<close> stands for
  \<^verbatim>\<open>-ENOENT\<close>.
\<close>

definition find_array :: "'j jansson \<Rightarrow> 'j \<Rightarrow> string \<Rightarrow> string \<Rightarrow> (nat \<times> 'j) option" where
  "find_array J a tag val =
     first_match (\<lambda>iter. json_member_string J tag iter = Some val) 0 (json_elems J a)"

definition json_member_int :: "'j jansson \<Rightarrow> string \<Rightarrow> 'j \<Rightarrow> int option" where
  "json_member_int J tag x =
     (if json_is_object J x
      then case json_object_get J x tag of None \<Rightarrow> None
           | Some v \<Rightarrow> if json_is_integer J v then Some (json_integer_value J v) else None
      else None)"

definition find_array_int :: "'j jansson \<Rightarrow> 'j \<Rightarrow> string \<Rightarrow> int \<Rightarrow> (nat \<times> 'j) option" where
  "find_array_int J a tag val =
     first_match (\<lambda>iter. json_member_int J tag iter = Some val) 0 (json_elems J a)"

definition json_as_string :: "'j jansson \<Rightarrow> 'j \<Rightarrow> string option" where
  "json_as_string J x = (if json_is_string J x then json_string_value J x else None)"

definition find_array_string :: "'j jansson \<Rightarrow> 'j \<Rightarrow> string \<Rightarrow> (nat \<times> 'j) option" where
  "find_array_string J a val =
     first_match (\<lambda>iter. json_as_string J iter = Some val) 0 (json_elems J a)"

section \<open>Printing the names of an array\<close>

definition strlen_array :: "'j jansson \<Rightarrow> 'j \<Rightarrow> string \<Rightarrow> nat" where
  "strlen_array J a tag =
     sum_list (map (\<lambda>iter. case json_member_string J tag iter of None \<Rightarrow> 0 | Some s \<Rightarrow> length s + 4)
                   (json_elems J a))"

text \<open>The comma depends on the index of the element, not on the number of names printed.\<close>

fun list_array_from :: "'j jansson \<Rightarrow> string \<Rightarrow> nat \<Rightarrow> 'j list \<Rightarrow> string" where
  "list_array_from J tag i [] = []"
| "list_array_from J tag i (iter # xs) =
     (case json_member_string J tag iter of
        None \<Rightarrow> []
      | Some s \<Rightarrow> (if i \<noteq> 0 then '','' else []) @ dquoted s) @ list_array_from J tag (Suc i) xs"

definition list_array :: "'j jansson \<Rightarrow> 'j \<Rightarrow> string \<Rightarrow> string" where
  "list_array J a tag = list_array_from J tag 0 (json_elems J a)"

text \<open>
  The filters print the alias of a target when it matches; \<open>n\<close> counts the names printed so
  far. A target is printed once for each of its ports of the wanted type.
\<close>

definition filter_fabric :: "'j jansson \<Rightarrow> 'j \<Rightarrow> string \<Rightarrow> string" where
  "filter_fabric J a query =
     (let typ = drop (length URI_PARM_FABRIC) query;
          port_matches = (\<lambda>obj. json_member_string J TAG_TYPE obj = Some typ);
          printed = (\<lambda>iter.
            if json_is_object J iter
            then case json_object_get J iter TAG_PORTIDS of
                   None \<Rightarrow> []
                 | Some ports \<Rightarrow>
                     if json_is_array J ports
                     then concat (map (\<lambda>obj. if port_matches obj
                            then (case json_member_string J TAG_ALIAS iter of
                                    None \<Rightarrow> [] | Some s \<Rightarrow> [dquoted s])
                            else []) (json_elems J ports))
                     else []
            else [])
      in comma_join (concat (map printed (json_elems J a))))"

definition filter_mode :: "'j jansson \<Rightarrow> 'j \<Rightarrow> string \<Rightarrow> string" where
  "filter_mode J a query =
     (let mode = drop (length URI_PARM_MODE) query;
          printed = (\<lambda>iter.
            if json_member_string J TAG_MGMT_MODE iter = Some mode
            then (case json_member_string J TAG_ALIAS iter of None \<Rightarrow> [] | Some s \<Rightarrow> [dquoted s])
            else [])
      in comma_join (concat (map printed (json_elems J a))))"

section \<open>Removing an element of a nested array\<close>

text \<open>The updated parent array and the return code.\<close>

definition del_from_array ::
  "'j jansson \<Rightarrow> 'j \<Rightarrow> string \<Rightarrow> string \<Rightarrow> string \<Rightarrow> string \<Rightarrow> 'j \<times> int" where
  "del_from_array J parent tag val subgroup subnqn =
     (case find_array J parent tag val of
        None \<Rightarrow> (parent, - ENOENT)
      | Some (i, obj) \<Rightarrow>
          (case json_object_get J obj subgroup of
             None \<Rightarrow> (parent, - ENOENT)
           | Some array \<Rightarrow>
               (case find_array J array TAG_SUBNQN subnqn of
                  None \<Rightarrow> (parent, - ENOENT)
                | Some (k, _) \<Rightarrow>
                    (json_array_set J parent i
                       (json_object_set_new J obj subgroup (json_array_remove J array k)), 0))))"

definition del_int_from_array ::
  "'j jansson \<Rightarrow> 'j \<Rightarrow> string \<Rightarrow> string \<Rightarrow> string \<Rightarrow> string \<Rightarrow> int \<Rightarrow> 'j \<times> int" where
  "del_int_from_array J parent tag val subgroup key z =
     (case find_array J parent tag val of
        None \<Rightarrow> (parent, - ENOENT)
      | Some (i, obj) \<Rightarrow>
          (case json_object_get J obj subgroup of
             None \<Rightarrow> (parent, - ENOENT)
           | Some array \<Rightarrow>
               (case find_array_int J array key z of
                  None \<Rightarrow> (parent, - ENOENT)
                | Some (k, _) \<Rightarrow>
                    (json_array_set J parent i
                       (json_object_set_new J obj subgroup (json_array_remove J array k)), 0))))"

text \<open>
  A loop over all indices of an array that may change each element: the element at index
  \<open>i\<close> is read and, when the body changes it, written back.
\<close>

definition json_array_map :: "'j jansson \<Rightarrow> ('j \<Rightarrow> 'j option) \<Rightarrow> 'j \<Rightarrow> 'j" where
  "json_array_map J f a =
     fold (\<lambda>i a. case json_array_get J a i of
                   None \<Rightarrow> a
                 | Some x \<Rightarrow> (case f x of None \<Rightarrow> a | Some y \<Rightarrow> json_array_set J a i y))
       [0..<json_array_size J a] a"

section \<open>Lemmas\<close>

text \<open>The names of the elements of an array, in order, and the strings of an array of strings.\<close>

definition json_names :: "'j jansson \<Rightarrow> string \<Rightarrow> 'j \<Rightarrow> string list" where
  "json_names J tag a = List.map_filter (json_member_string J tag) (json_elems J a)"

definition json_strings :: "'j jansson \<Rightarrow> 'j \<Rightarrow> string list" where
  "json_strings J a = List.map_filter (json_as_string J) (json_elems J a)"

context jansson_api
begin

lemma as_string_eq [simp]: "json_as_string J = json_string_value J"
  by (auto simp: json_as_string_def string_iff fun_eq_iff)

lemma is_object_set_string [simp]:
  "json_is_object J x \<Longrightarrow> json_is_object J (json_set_string J x y z)"
  by (auto simp: json_set_string_def split: option.splits)

lemma get_set_string_other [simp]:
  "k \<noteq> y \<Longrightarrow> json_object_get J (json_set_string J x y z) k = json_object_get J x k"
  by (cases "json_is_object J x") (auto simp: json_set_string_def split: option.splits)

lemma member_string_set_string:
  assumes "json_is_object J x" "json_string J z \<noteq> None"
    and "\<And>v. json_object_get J x y = Some v \<Longrightarrow> json_is_string J v"
  shows "json_member_string J y (json_set_string J x y z) = z"
  using assms
  by (auto simp: json_set_string_def string_value_set string_value_string split: option.splits)

lemma member_string_set_string_new:
  assumes "json_is_object J x" "json_object_get J x y = None"
  shows "json_member_string J y (json_set_string J x y z) = (if json_string J z = None then None else z)"
  using assms
  by (auto simp: json_set_string_def string_value_string member_string_eq split: option.splits)

lemma member_string_set_string_other [simp]:
  "k \<noteq> y \<Longrightarrow> json_member_string J k (json_set_string J x y z) = json_member_string J k x"
  by (simp add: member_string_eq)

lemma is_object_set_int [simp]:
  "json_is_object J x \<Longrightarrow> json_is_object J (json_set_int J x y z)"
  by (auto simp: json_set_int_def split: option.splits)

lemma get_set_int_other [simp]:
  "k \<noteq> y \<Longrightarrow> json_object_get J (json_set_int J x y z) k = json_object_get J x k"
  by (cases "json_is_object J x") (auto simp: json_set_int_def split: option.splits)

lemma find_array_None_iff: "find_array J a tag v = None \<longleftrightarrow> v \<notin> set (json_names J tag a)"
  by (auto simp: find_array_def json_names_def first_match_None_iff set_map_filter)

lemma find_array_SomeD:
  assumes "find_array J a tag v = Some (i, x)"
  shows "i < json_array_size J a" "json_elems J a ! i = x" "json_member_string J tag x = Some v"
    and "json_is_array J a" "json_is_object J x"
  using first_match_0_SomeD [OF assms [unfolded find_array_def]] size_non_array [of a]
  by (auto dest: member_string_SomeD)

lemma find_array_Some_name: "find_array J a tag v = Some ix \<Longrightarrow> v \<in> set (json_names J tag a)"
  by (metis find_array_None_iff option.distinct(1))

lemma find_array_string_None_iff:
  "find_array_string J a v = None \<longleftrightarrow> v \<notin> set (json_strings J a)"
  by (auto simp: find_array_string_def json_strings_def first_match_None_iff set_map_filter)

lemma find_array_string_SomeD:
  assumes "find_array_string J a v = Some (i, x)"
  shows "i < json_array_size J a" "json_elems J a ! i = x" "json_string_value J x = Some v"
    and "json_is_array J a"
  using first_match_0_SomeD [OF assms [unfolded find_array_string_def]] size_non_array [of a]
  by auto

lemma find_array_int_SomeD:
  assumes "find_array_int J a tag v = Some (i, x)"
  shows "i < json_array_size J a" "json_elems J a ! i = x" "json_member_int J tag x = Some v"
    and "json_is_array J a" "json_is_object J x"
  using first_match_0_SomeD [OF assms [unfolded find_array_int_def]] size_non_array [of a]
  by (auto simp: json_member_int_def split: if_splits)

lemma names_new [simp]: "json_names J tag (json_array J) = []"
  by (simp add: json_names_def)

lemma strings_new [simp]: "json_strings J (json_array J) = []"
  by (simp add: json_strings_def)

lemma names_append [simp]:
  "json_is_array J a \<Longrightarrow> json_names J tag (json_array_append_new J a x) =
     json_names J tag a @ (case json_member_string J tag x of None \<Rightarrow> [] | Some s \<Rightarrow> [s])"
  by (simp add: json_names_def map_filter_Cons split: option.splits)

lemma strings_append [simp]:
  "json_is_array J a \<Longrightarrow> json_strings J (json_array_append_new J a x) =
     json_strings J a @ (case json_string_value J x of None \<Rightarrow> [] | Some s \<Rightarrow> [s])"
  by (simp add: json_strings_def map_filter_Cons split: option.splits)

lemma names_set_same:
  "i < json_array_size J a \<Longrightarrow> json_member_string J tag y = json_member_string J tag (json_elems J a ! i) \<Longrightarrow>
     json_names J tag (json_array_set J a i y) = json_names J tag a"
  by (simp add: json_names_def map_filter_cong_nth)

text \<open>
  Updating or removing the element a search found is replacing or removing the first occurrence
  of its name.
\<close>

lemma names_found_set:
  assumes "find_array J a tag v = Some (i, x)"
  shows "json_names J tag (json_array_set J a i y) =
           (case json_member_string J tag y of None \<Rightarrow> remove1 v (json_names J tag a)
            | Some w \<Rightarrow> replace1 v w (json_names J tag a))"
  using map_filter_first_match(2) [OF assms [unfolded find_array_def]] find_array_SomeD(1) [OF assms]
  unfolding json_names_def by simp

lemma names_found_remove:
  assumes "find_array J a tag v = Some (i, x)"
  shows "json_names J tag (json_array_remove J a i) = remove1 v (json_names J tag a)"
  using map_filter_first_match(3) [OF assms [unfolded find_array_def]]
  by (simp add: json_names_def elems_remove)

lemma strings_found_set:
  assumes "find_array_string J a v = Some (i, x)"
  shows "json_strings J (json_array_set J a i y) =
           (case json_string_value J y of None \<Rightarrow> remove1 v (json_strings J a)
            | Some w \<Rightarrow> replace1 v w (json_strings J a))"
  using map_filter_first_match(2) [OF assms [unfolded find_array_string_def]]
    find_array_string_SomeD(1) [OF assms]
  unfolding json_strings_def by simp

lemma strings_found_remove:
  assumes "find_array_string J a v = Some (i, x)"
  shows "json_strings J (json_array_remove J a i) = remove1 v (json_strings J a)"
  using map_filter_first_match(3) [OF assms [unfolded find_array_string_def]]
  by (simp add: json_strings_def elems_remove)

text \<open>\<open>json_array_map\<close> is the pointwise update of the elements.\<close>

lemma elems_array_map_fold:
  assumes "n \<le> json_array_size J a"
  shows "json_elems J (fold (\<lambda>i a. case json_array_get J a i of None \<Rightarrow> a
                 | Some x \<Rightarrow> (case f x of None \<Rightarrow> a | Some y \<Rightarrow> json_array_set J a i y)) [0..<n] a) =
         map (\<lambda>x. case f x of None \<Rightarrow> x | Some y \<Rightarrow> y) (take n (json_elems J a)) @ drop n (json_elems J a)"
    (is "json_elems J (?F n) = ?R n")
  using assms
proof (induction n)
  case 0
  show ?case by simp
next
  case (Suc n)
  have n: "n < json_array_size J a" and IH: "json_elems J (?F n) = ?R n" using Suc by simp_all
  have size: "json_array_size J (?F n) = json_array_size J a"
    using arg_cong [OF IH, of length] n by simp
  have get: "json_array_get J (?F n) n = Some (json_elems J a ! n)"
    using n IH size by (simp add: array_get_elems nth_append)
  have "?R (Suc n) = (?R n)[n := (case f (json_elems J a ! n) of None \<Rightarrow> json_elems J a ! n | Some y \<Rightarrow> y)]"
    using n by (simp add: take_Suc_conv_app_nth list_update_append Cons_nth_drop_Suc [symmetric])
  moreover have "(?R n)[n := json_elems J a ! n] = ?R n"
    using n by (intro list_update_same_conv [THEN iffD2]) (auto simp: nth_append)
  ultimately show ?case
    using n get IH size by (cases "f (json_elems J a ! n)") simp_all
qed

lemma elems_array_map:
  "json_elems J (json_array_map J f a) = map (\<lambda>x. case f x of None \<Rightarrow> x | Some y \<Rightarrow> y) (json_elems J a)"
  using elems_array_map_fold [of "json_array_size J a" a f] by (simp add: json_array_map_def)

lemma is_array_array_map: "json_is_array J a \<Longrightarrow> json_is_array J (json_array_map J f a)"
proof -
  assume a: "json_is_array J a"
  have "json_is_array J (fold (\<lambda>i a. case json_array_get J a i of None \<Rightarrow> a
      | Some x \<Rightarrow> (case f x of None \<Rightarrow> a | Some y \<Rightarrow> json_array_set J a i y)) ns a)" for ns
    using a by (induction ns arbitrary: a) (auto split: option.splits)
  then show ?thesis by (simp add: json_array_map_def)
qed

lemma names_array_map:
  assumes "\<And>x y. f x = Some y \<Longrightarrow> json_member_string J tag y = json_member_string J tag x"
  shows "json_names J tag (json_array_map J f a) = json_names J tag a"
proof -
  have eq: "json_member_string J tag (case f x of None \<Rightarrow> x | Some y \<Rightarrow> y) = json_member_string J tag x" for x
    using assms by (auto split: option.splits)
  have "List.map_filter (json_member_string J tag) (map (\<lambda>x. case f x of None \<Rightarrow> x | Some y \<Rightarrow> y) xs) =
      List.map_filter (json_member_string J tag) xs" for xs
    by (induction xs) (simp_all add: map_filter_Cons eq split: option.splits)
  then show ?thesis by (simp add: json_names_def elems_array_map)
qed

end

end
