(* ===== verification/Json_Groups.thy ===== *)
theory Json_Groups
  imports Json_Helpers
begin

text \<open>
  Groups in the JSON configuration (\<^verbatim>\<open>src/src/dem/json.c\<close>, section GROUPS): adding, renaming,
  deleting and listing groups, adding and removing members, and the two walks over all groups
  that follow a host or target being renamed or deleted.

  The state is the root of the document (\<^verbatim>\<open>ctx->root\<close>). An operation returns the new root, the
  return code and the text written to the response buffer, or a fault.
\<close>

type_synonym 'j reply = "'j \<times> int \<times> string"

section \<open>Response texts\<close>

definition msg_exists :: "string \<Rightarrow> string \<Rightarrow> string" where
  "msg_exists tag name = tag @ '' '' @ squoted name @ '' exists''"

definition msg_not_found :: "string \<Rightarrow> string \<Rightarrow> string" where
  "msg_not_found tag name = tag @ '' '' @ squoted name @ '' not found''"

definition msg_not_found_in :: "string \<Rightarrow> string \<Rightarrow> string \<Rightarrow> string \<Rightarrow> string" where
  "msg_not_found_in tag name tag' name' =
     tag @ '' '' @ squoted name @ '' not found in '' @ tag' @ '' '' @ squoted name'"

definition msg_done :: "string \<Rightarrow> string \<Rightarrow> string \<Rightarrow> string" where
  "msg_done tag name what = tag @ '' '' @ squoted name @ '' '' @ what"

definition invalid_json_syntax :: string where
  "invalid_json_syntax = ''invalid json syntax''"

section \<open>Operations\<close>

text \<open>
  \<^verbatim>\<open>groups = json_object_get(ctx->root, tag); if (!groups) \<dots> json_object_set_new(\<dots>)\<close>. On a root
  that is not an object the library refuses the new array and frees it while the caller keeps
  the pointer; that is reported here.
\<close>

definition get_or_create_array :: "'j jansson \<Rightarrow> 'j \<Rightarrow> string \<Rightarrow> ('j \<times> 'j) exec" where
  "get_or_create_array J root tag =
     (case json_object_get J root tag of
        Some a \<Rightarrow> Inr (root, a)
      | None \<Rightarrow> if json_is_object J root
                then Inr (json_object_set_new J root tag (json_array J), json_array J)
                else Inl Use_after_free)"

definition add_json_group :: "'j jansson \<Rightarrow> 'j \<Rightarrow> string \<Rightarrow> 'j reply exec" where
  "add_json_group J root grp =
     exec_bind (get_or_create_array J root TAG_GROUPS) (\<lambda>(root', groups).
       if find_array J groups TAG_NAME grp \<noteq> None
       then Inr (root', - EEXIST, msg_exists TAG_GROUP grp)
       else
         let iter = json_set_string J (json_object J) TAG_NAME (Some grp);
             iter = json_object_set_new J iter TAG_TARGETS (json_array J);
             iter = json_object_set_new J iter TAG_HOSTS (json_array J)
         in if json_is_array J groups
            then Inr (json_object_set_new J root' TAG_GROUPS (json_array_append_new J groups iter),
                      0, msg_done TAG_GROUP grp ''added'')
            else Inl Use_after_free)"

text \<open>
  The last component is the name copied to the caller's buffer \<^verbatim>\<open>_name\<close>, which
  \<^verbatim>\<open>update_group\<close> declares with \<^verbatim>\<open>MAX_ALIAS_SIZE + 1\<close> bytes; it is written on success only.
\<close>

definition update_json_group ::
  "'j jansson \<Rightarrow> 'j \<Rightarrow> string option \<Rightarrow> string \<Rightarrow> ('j reply \<times> string option) exec" where
  "update_json_group J root grp data =
     (if data = [] then Inr ((root, - EINVAL, invalid_json_syntax), None)
      else exec_bind (get_or_create_array J root TAG_GROUPS) (\<lambda>(root, groups).
        let found = (case grp of None \<Rightarrow> None | Some g \<Rightarrow> find_array J groups TAG_NAME g) in
        if grp \<noteq> None \<and> found = None
        then Inr ((root, - ENOENT, msg_not_found TAG_GROUP (the grp)), None)
        else
          (case json_loads J data of
             None \<Rightarrow> Inr ((root, - EINVAL, invalid_json_syntax), None)
           | Some new \<Rightarrow>
               (case json_object_get J new TAG_NAME of
                  None \<Rightarrow> Inr ((root, - EINVAL, invalid_json_syntax), None)
                | Some val \<Rightarrow>
                    exec_bind (c_strcpy (MAX_STRING + 1) (json_string_value J val)) (\<lambda>newname.
                      if (grp = None \<and> newname \<noteq> [] \<or> grp \<noteq> None \<and> grp \<noteq> Some newname) \<and>
                         find_array J groups TAG_NAME newname \<noteq> None
                      then Inr ((root, - EEXIST, msg_exists TAG_GROUP newname), None)
                      else
                        exec_bind
                          (case found of
                             Some (i, iter) \<Rightarrow>
                               Inr (json_object_set_new J root TAG_GROUPS
                                      (json_array_set J groups i (json_update_string J iter new TAG_NAME)))
                           | None \<Rightarrow>
                               let iter = json_set_string J (json_object J) TAG_NAME (Some newname);
                                   iter = json_object_set_new J iter TAG_HOSTS (json_array J);
                                   iter = json_object_set_new J iter TAG_TARGETS (json_array J)
                               in if json_is_array J groups
                                  then Inr (json_object_set_new J root TAG_GROUPS
                                              (json_array_append_new J groups iter))
                                  else Inl Use_after_free)
                          (\<lambda>root'.
                            exec_bind (c_strcpy (MAX_ALIAS_SIZE + 1) (Some newname)) (\<lambda>name.
                              Inr ((root', 0, msg_done TAG_GROUP newname
                                      (if grp = None then ''added'' else ''updated'')), Some name))))))))"

text \<open>
  The member's alias comes from the request body when there is one (cut to
  \<^verbatim>\<open>MAX_STRING\<close> characters), else from the URI. The alias is copied to a buffer of
  \<^verbatim>\<open>MAX_ALIAS_SIZE + 1\<close> bytes in \<^verbatim>\<open>set_group_member\<close>.
\<close>

definition group_member_alias ::
  "'j jansson \<Rightarrow> string option \<Rightarrow> string option \<Rightarrow> string option exec" where
  "group_member_alias J data alias =
     (case data of
        None \<Rightarrow> (case alias of None \<Rightarrow> Inl Null_deref | Some a \<Rightarrow> Inr (Some a))
      | Some d \<Rightarrow>
          if d = [] then Inr None
          else case json_loads J d of
                 None \<Rightarrow> Inr None
               | Some new \<Rightarrow>
                   (case json_object_get J new TAG_ALIAS of
                      None \<Rightarrow> Inr None
                    | Some val \<Rightarrow>
                        (case json_string_value J val of
                           None \<Rightarrow> Inl Null_deref
                         | Some s \<Rightarrow> Inr (Some (take MAX_STRING s)))))"

text \<open>
  The last part of \<^verbatim>\<open>set_json_group_member\<close>: the member list of the group, created when it is
  missing, gets the alias unless it has it.
\<close>

definition add_group_member :: "'j jansson \<Rightarrow> string \<Rightarrow> string \<Rightarrow> 'j \<Rightarrow> 'j" where
  "add_group_member J parent_tag alias iter =
     (let iter' = (if json_object_get J iter parent_tag = None
                   then json_object_set_new J iter parent_tag (json_array J) else iter);
          members = (case json_object_get J iter parent_tag of None \<Rightarrow> json_array J | Some a \<Rightarrow> a)
      in if find_array_string J members alias = None
         then (case json_string J (Some alias) of
                 None \<Rightarrow> iter'
               | Some v \<Rightarrow> json_object_set_new J iter' parent_tag (json_array_append_new J members v))
         else iter')"

definition set_json_group_member ::
  "'j jansson \<Rightarrow> 'j \<Rightarrow> string \<Rightarrow> string option \<Rightarrow> string option \<Rightarrow> string \<Rightarrow> string \<Rightarrow>
     ('j reply \<times> string option) exec" where
  "set_json_group_member J root grp data alias tag parent_tag =
     (case json_object_get J root TAG_GROUPS of
        None \<Rightarrow> Inr ((root, - ENOENT, msg_not_found TAG_GROUP grp), None)
      | Some groups \<Rightarrow>
          (case find_array J groups TAG_NAME grp of
             None \<Rightarrow> Inr ((root, - ENOENT, msg_not_found TAG_GROUP grp), None)
           | Some (i, iter) \<Rightarrow>
               exec_bind (group_member_alias J data alias) (\<lambda>member.
                 case member of
                   None \<Rightarrow> Inr ((root, - EINVAL, invalid_json_syntax), None)
                 | Some alias \<Rightarrow>
                     (case json_object_get J root parent_tag of
                        None \<Rightarrow> Inr ((root, - ENOENT, msg_not_found tag alias), None)
                      | Some parent \<Rightarrow>
                          if find_array J parent TAG_ALIAS alias = None
                          then Inr ((root, - ENOENT, msg_not_found tag alias), None)
                          else
                            exec_bind (c_strcpy (MAX_ALIAS_SIZE + 1) (Some alias)) (\<lambda>out.
                                 Inr ((json_object_set_new J root TAG_GROUPS
                                         (json_array_set J groups i (add_group_member J parent_tag alias iter)),
                                       0, ''Added '' @ tag @ '' '' @ squoted alias @ '' to '' @ TAG_GROUP @
                                          '' '' @ squoted grp), Some out))))))"

definition del_json_group_member ::
  "'j jansson \<Rightarrow> 'j \<Rightarrow> string \<Rightarrow> string \<Rightarrow> string \<Rightarrow> string \<Rightarrow> 'j reply" where
  "del_json_group_member J root grp member tag parent_tag =
     (case json_object_get J root TAG_GROUPS of
        None \<Rightarrow> (root, - ENOENT, msg_not_found TAG_GROUP grp)
      | Some groups \<Rightarrow>
          (case find_array J groups TAG_NAME grp of
             None \<Rightarrow> (root, - ENOENT, msg_not_found TAG_GROUP grp)
           | Some (i, iter) \<Rightarrow>
               (case json_object_get J iter parent_tag of
                  None \<Rightarrow> (root, - ENOENT, msg_not_found_in tag member TAG_GROUP grp)
                | Some parent \<Rightarrow>
                    (case find_array_string J parent member of
                       None \<Rightarrow> (root, - ENOENT, msg_not_found_in tag member TAG_GROUP grp)
                     | Some (k, _) \<Rightarrow>
                         (json_object_set_new J root TAG_GROUPS
                            (json_array_set J groups i
                               (json_object_set_new J iter parent_tag (json_array_remove J parent k))),
                          0, ''Removed '' @ tag @ '' '' @ squoted member @ '' from '' @ TAG_GROUP @
                             '' '' @ squoted grp)))))"

text \<open>
  The inner loops of the two walks stop at the first member that matches, so their effect on one
  group is the change of that element; \<^const>\<open>None\<close> when there is none.
\<close>

definition rename_member :: "'j jansson \<Rightarrow> string \<Rightarrow> string \<Rightarrow> string \<Rightarrow> 'j \<Rightarrow> 'j option" where
  "rename_member J tag member alias grp =
     (case json_object_get J grp tag of
        None \<Rightarrow> None
      | Some array \<Rightarrow>
          (case find_array_string J array member of
             None \<Rightarrow> None
           | Some (j, item) \<Rightarrow>
               Some (json_object_set_new J grp tag
                       (json_array_set J array j (json_string_set J item (Some alias))))))"

definition rename_in_groups :: "'j jansson \<Rightarrow> 'j \<Rightarrow> string \<Rightarrow> string \<Rightarrow> string \<Rightarrow> 'j" where
  "rename_in_groups J root tag member alias =
     (case json_object_get J root TAG_GROUPS of
        None \<Rightarrow> root
      | Some groups \<Rightarrow>
          json_object_set_new J root TAG_GROUPS
            (json_array_map J (rename_member J tag member alias) groups))"

definition delete_member :: "'j jansson \<Rightarrow> string \<Rightarrow> string \<Rightarrow> 'j \<Rightarrow> 'j option" where
  "delete_member J tag member grp =
     (case json_object_get J grp tag of
        None \<Rightarrow> None
      | Some array \<Rightarrow>
          (case find_array_string J array member of
             None \<Rightarrow> None
           | Some (j, _) \<Rightarrow> Some (json_object_set_new J grp tag (json_array_remove J array j))))"

definition del_from_groups :: "'j jansson \<Rightarrow> 'j \<Rightarrow> string \<Rightarrow> string \<Rightarrow> 'j" where
  "del_from_groups J root tag member =
     (case json_object_get J root TAG_GROUPS of
        None \<Rightarrow> root
      | Some groups \<Rightarrow>
          json_object_set_new J root TAG_GROUPS
            (json_array_map J (delete_member J tag member) groups))"

definition del_json_group :: "'j jansson \<Rightarrow> 'j \<Rightarrow> string \<Rightarrow> 'j reply" where
  "del_json_group J root grp =
     (case json_object_get J root TAG_GROUPS of
        None \<Rightarrow> (root, - ENOENT, msg_not_found TAG_GROUP grp)
      | Some groups \<Rightarrow>
          (case find_array J groups TAG_NAME grp of
             None \<Rightarrow> (root, - ENOENT, msg_not_found TAG_GROUP grp)
           | Some (i, _) \<Rightarrow>
               (json_object_set_new J root TAG_GROUPS (json_array_remove J groups i),
                0, msg_done TAG_GROUP grp ''deleted'')))"

text \<open>
  Listing. \<open>list_response\<close> is the body shared by \<^verbatim>\<open>list_json_group\<close> and \<^verbatim>\<open>list_json_host\<close>: the
  response buffer has \<^verbatim>\<open>BODY_SIZE\<close> bytes, and is reallocated when the estimate of
  \<^verbatim>\<open>strlen_array\<close> exceeds \<^verbatim>\<open>BODY_SIZE - 32\<close>. Writing past its end is a fault.
\<close>

definition response_capacity :: "nat \<Rightarrow> nat" where
  "response_capacity len =
     (let max = BODY_SIZE - 32 in if len > max then max + len - BODY_SIZE else BODY_SIZE)"

definition list_response :: "'j jansson \<Rightarrow> 'j \<Rightarrow> string \<Rightarrow> string \<Rightarrow> string exec" where
  "list_response J root tag key =
     (let start = ''{'' @ dquoted tag @ '':['' in
      case json_object_get J root tag of
        None \<Rightarrow> c_strcpy BODY_SIZE (Some (start @ '']'' @ ''}''))
      | Some a \<Rightarrow> c_strcpy (response_capacity (strlen_array J a key))
                    (Some (start @ list_array J a key @ '']'' @ ''}'')))"

definition list_json_group :: "'j jansson \<Rightarrow> 'j \<Rightarrow> (int \<times> string) exec" where
  "list_json_group J root = exec_bind (list_response J root TAG_GROUPS TAG_NAME) (\<lambda>s. Inr (0, s))"

definition show_json_group :: "'j jansson \<Rightarrow> 'j \<Rightarrow> string \<Rightarrow> int \<times> string" where
  "show_json_group J root grp =
     (case json_object_get J root TAG_GROUPS of
        None \<Rightarrow> (- ENOENT, msg_not_found TAG_GROUP grp)
      | Some groups \<Rightarrow>
          (case find_array J groups TAG_NAME grp of
             None \<Rightarrow> (- ENOENT, msg_not_found TAG_GROUP grp)
           | Some (_, obj) \<Rightarrow> (0, json_dumps J obj)))"

end
