(* ===== verification/Json_Hosts.thy ===== *)
theory Json_Hosts
  imports Json_Groups
begin

text \<open>
  Hosts in the JSON configuration (\<^verbatim>\<open>src/src/dem/json.c\<close>, section HOSTS, and the two walks over
  the allowed-host lists of all subsystems that follow a host being renamed or deleted).
\<close>

section \<open>Operations\<close>

definition add_json_host :: "'j jansson \<Rightarrow> 'j \<Rightarrow> string \<Rightarrow> 'j reply exec" where
  "add_json_host J root host =
     exec_bind (get_or_create_array J root TAG_HOSTS) (\<lambda>(root, hosts).
       if find_array J hosts TAG_ALIAS host \<noteq> None
       then Inr (root, - EEXIST, msg_exists TAG_HOST host)
       else
         let iter = json_set_string J (json_object J) TAG_ALIAS (Some host)
         in Inr (json_object_set_new J root TAG_HOSTS (json_array_append_new J hosts iter),
                 0, msg_done TAG_HOST host ''added''))"

text \<open>The host's NQN is copied to a buffer of \<^verbatim>\<open>MAX_NQN_SIZE + 1\<close> bytes when the code is 0.\<close>

definition get_json_host_nqn :: "'j jansson \<Rightarrow> 'j \<Rightarrow> string \<Rightarrow> (int \<times> string option) exec" where
  "get_json_host_nqn J root host =
     (case json_object_get J root TAG_HOSTS of
        None \<Rightarrow> Inr (- ENOENT, None)
      | Some hosts \<Rightarrow>
          (case find_array J hosts TAG_ALIAS host of
             None \<Rightarrow> Inr (- ENOENT, None)
           | Some (_, iter) \<Rightarrow>
               (case json_object_get J iter TAG_HOSTNQN of
                  None \<Rightarrow> Inr (- EINVAL, None)
                | Some obj \<Rightarrow>
                    exec_bind (c_strcpy (MAX_NQN_SIZE + 1) (json_string_value J obj))
                      (\<lambda>nqn. Inr (0, Some nqn)))))"

text \<open>The body of the loop over the targets in \<^verbatim>\<open>rename_in_allowed_hosts\<close>.\<close>

definition rename_in_target :: "'j jansson \<Rightarrow> string \<Rightarrow> string \<Rightarrow> 'j \<Rightarrow> 'j option" where
  "rename_in_target J old new tgt =
     (case json_object_get J tgt TAG_SUBSYSTEMS of
        None \<Rightarrow> None
      | Some array \<Rightarrow>
          Some (json_object_set_new J tgt TAG_SUBSYSTEMS
                  (json_array_map J (rename_member J TAG_HOSTS old new) array)))"

definition rename_in_allowed_hosts :: "'j jansson \<Rightarrow> 'j \<Rightarrow> string \<Rightarrow> string \<Rightarrow> 'j" where
  "rename_in_allowed_hosts J root old new =
     (case json_object_get J root TAG_TARGETS of
        None \<Rightarrow> root
      | Some targets \<Rightarrow>
          json_object_set_new J root TAG_TARGETS
            (json_array_map J (rename_in_target J old new) targets))"

text \<open>
  One pass of the inner loop of \<^verbatim>\<open>del_from_allowed_hosts\<close>, for the target at index \<open>i\<close>: the
  code reads the subsystem at the index of the \<^emph>\<open>target\<close>, searches its host list, and removes the
  index found from the array of \<^emph>\<open>subsystems\<close>.
\<close>

definition del_allowed_step :: "'j jansson \<Rightarrow> nat \<Rightarrow> string \<Rightarrow> 'j \<Rightarrow> 'j" where
  "del_allowed_step J i alias array =
     (case json_array_get J array i of
        None \<Rightarrow> array
      | Some subsys \<Rightarrow>
          (case json_object_get J subsys TAG_HOSTS of
             None \<Rightarrow> array
           | Some list \<Rightarrow>
               (case find_array_string J list alias of
                  None \<Rightarrow> array
                | Some (idx, _) \<Rightarrow> json_array_remove J array idx)))"

definition del_allowed_target :: "'j jansson \<Rightarrow> string \<Rightarrow> nat \<Rightarrow> 'j \<Rightarrow> 'j" where
  "del_allowed_target J alias i targets =
     (case json_array_get J targets i of
        None \<Rightarrow> targets
      | Some tgt \<Rightarrow>
          (case json_object_get J tgt TAG_SUBSYSTEMS of
             None \<Rightarrow> targets
           | Some array \<Rightarrow>
               json_array_set J targets i
                 (json_object_set_new J tgt TAG_SUBSYSTEMS
                    ((del_allowed_step J i alias ^^ json_array_size J array) array))))"

definition del_from_allowed_hosts :: "'j jansson \<Rightarrow> 'j \<Rightarrow> string \<Rightarrow> 'j" where
  "del_from_allowed_hosts J root alias =
     (case json_object_get J root TAG_TARGETS of
        None \<Rightarrow> root
      | Some targets \<Rightarrow>
          json_object_set_new J root TAG_TARGETS
            (fold (del_allowed_target J alias) [0..<json_array_size J targets] targets))"

text \<open>
  \<open>host_entry\<close> is the middle part of \<^verbatim>\<open>update_json_host\<close>: it settles the alias, renames the
  entry and all its references or appends a new entry. The result is an error reply, or the
  root, the array of hosts, the index and value of the entry (null when there is none), and
  the alias.
\<close>

definition host_entry ::
  "'j jansson \<Rightarrow> 'j \<Rightarrow> 'j \<Rightarrow> string option \<Rightarrow> (nat \<times> 'j) option \<Rightarrow> 'j \<Rightarrow>
     ('j reply + 'j \<times> 'j \<times> (nat \<times> 'j) option \<times> string) exec" where
  "host_entry J root hosts host found new =
     (case json_object_get J new TAG_ALIAS of
        Some val \<Rightarrow>
          exec_bind (c_strcpy (MAX_ALIAS_SIZE + 1) (json_string_value J val)) (\<lambda>alias.
            if host = None \<and> alias \<noteq> [] \<or> host \<noteq> None \<and> host \<noteq> Some alias
            then
              if find_array J hosts TAG_ALIAS alias \<noteq> None
              then Inr (Inl (root, - EEXIST, msg_exists TAG_HOSTS alias))
              else
                (case found of
                   Some (i, iter) \<Rightarrow>
                     let iter' = json_update_string J iter new TAG_ALIAS;
                         hosts' = json_array_set J hosts i iter';
                         root1 = json_object_set_new J root TAG_HOSTS hosts';
                         root2 = rename_in_allowed_hosts J root1 (the host) alias;
                         root3 = rename_in_groups J root2 TAG_HOSTS (the host) alias
                     in Inr (Inr (root3, hosts', Some (i, iter'), alias))
                 | None \<Rightarrow>
                     if json_is_array J hosts
                     then
                       let iter = json_set_string J (json_object J) TAG_ALIAS (Some alias);
                           hosts' = json_array_append_new J hosts iter
                       in Inr (Inr (json_object_set_new J root TAG_HOSTS hosts', hosts',
                                    Some (json_array_size J hosts, iter), alias))
                     else Inl Use_after_free)
            else Inr (Inr (root, hosts, found, alias)))
      | None \<Rightarrow>
          (case host of
             None \<Rightarrow> Inr (Inl (root, - EINVAL, invalid_json_syntax))
           | Some h \<Rightarrow>
               exec_bind (c_strcpy (MAX_ALIAS_SIZE + 1) (Some h)) (\<lambda>alias.
                 Inr (Inr (root, hosts, found, alias)))))"

text \<open>
  The last part: the NQN of the entry, and the outputs. On success these are the alias and the
  NQN copied to the caller's buffers; the second is \<^const>\<open>None\<close> when the request carries no NQN,
  and the buffer is then left as it was.
\<close>

definition update_host_fields ::
  "'j jansson \<Rightarrow> string option \<Rightarrow> 'j \<Rightarrow> 'j reply + 'j \<times> 'j \<times> (nat \<times> 'j) option \<times> string \<Rightarrow>
     ('j reply \<times> (string \<times> string option) option) exec" where
  "update_host_fields J host new st =
     (case st of
        Inl err \<Rightarrow> Inr (err, None)
      | Inr (root, hosts, None, alias) \<Rightarrow> Inr ((root, - EFAULT, ''Internal logic error''), None)
      | Inr (root, hosts, Some (i, iter), alias) \<Rightarrow>
          exec_bind (json_update_string_ex J (MAX_NQN_SIZE + 1) iter new TAG_HOSTNQN) (\<lambda>(iter', nqn).
            Inr ((json_object_set_new J root TAG_HOSTS (json_array_set J hosts i iter'),
                  0, msg_done TAG_HOST alias (if host = None then ''added'' else ''updated'')),
                 Some (alias, nqn))))"

definition update_json_host ::
  "'j jansson \<Rightarrow> 'j \<Rightarrow> string option \<Rightarrow> string \<Rightarrow>
     ('j reply \<times> (string \<times> string option) option) exec" where
  "update_json_host J root host data =
     (if data = [] then Inr ((root, - EINVAL, invalid_json_syntax), None)
      else exec_bind (get_or_create_array J root TAG_HOSTS) (\<lambda>(root, hosts).
        let found = (case host of None \<Rightarrow> None | Some h \<Rightarrow> find_array J hosts TAG_ALIAS h) in
        if host \<noteq> None \<and> found = None
        then Inr ((root, - ENOENT, msg_not_found TAG_HOST (the host)), None)
        else
          (case json_loads J data of
             None \<Rightarrow> Inr ((root, - EINVAL, invalid_json_syntax), None)
           | Some new \<Rightarrow>
               exec_bind (host_entry J root hosts host found new) (update_host_fields J host new))))"

text \<open>The last component is the NQN copied to the caller's buffer, if there is one.\<close>

definition del_json_host :: "'j jansson \<Rightarrow> 'j \<Rightarrow> string \<Rightarrow> ('j reply \<times> string option) exec" where
  "del_json_host J root alias =
     (case json_object_get J root TAG_HOSTS of
        None \<Rightarrow> Inr ((root, - ENOENT, msg_not_found TAG_HOST alias), None)
      | Some hosts \<Rightarrow>
          (case find_array J hosts TAG_ALIAS alias of
             None \<Rightarrow> Inr ((root, - ENOENT, msg_not_found TAG_HOST alias), None)
           | Some (i, iter) \<Rightarrow>
               exec_bind
                 (case json_object_get J iter TAG_HOSTNQN of
                    None \<Rightarrow> Inr None
                  | Some obj \<Rightarrow> exec_bind (c_strcpy (MAX_NQN_SIZE + 1) (json_string_value J obj))
                                 (\<lambda>s. Inr (Some s)))
                 (\<lambda>nqn.
                   let root1 = json_object_set_new J root TAG_HOSTS (json_array_remove J hosts i);
                       root2 = del_from_allowed_hosts J root1 alias;
                       root3 = del_from_groups J root2 TAG_HOSTS alias
                   in Inr ((root3, 0, msg_done TAG_HOST alias ''deleted''), nqn))))"

definition list_json_host :: "'j jansson \<Rightarrow> 'j \<Rightarrow> (int \<times> string) exec" where
  "list_json_host J root = exec_bind (list_response J root TAG_HOSTS TAG_ALIAS) (\<lambda>s. Inr (0, s))"

section \<open>The subsystems a host may use\<close>

definition match_string :: "'j jansson \<Rightarrow> 'j \<Rightarrow> string \<Rightarrow> bool" where
  "match_string J item str = (json_is_string J item \<and> json_string_value J item = Some str)"

definition add_host_subsys :: "'j jansson \<Rightarrow> 'j \<Rightarrow> 'j \<Rightarrow> 'j \<Rightarrow> 'j" where
  "add_host_subsys J alias nqn list =
     (let obj = json_set_string J (json_object J) TAG_ALIAS (json_string_value J alias);
          obj = json_set_string J obj TAG_SUBNQN (json_string_value J nqn)
      in json_array_append_new J list obj)"

text \<open>The body of the loop over the subsystems, on the pair of the shared and restricted lists.\<close>

definition host_subsys_step :: "'j jansson \<Rightarrow> string \<Rightarrow> 'j \<Rightarrow> 'j \<Rightarrow> 'j \<times> 'j \<Rightarrow> 'j \<times> 'j" where
  "host_subsys_step J host alias subsys acc =
     (case acc of (shared, restricted) \<Rightarrow>
        (case json_object_get J subsys TAG_SUBNQN of
           None \<Rightarrow> (shared, restricted)
         | Some nqn \<Rightarrow>
             if (case json_object_get J subsys TAG_ALLOW_ANY of
                   None \<Rightarrow> False | Some any \<Rightarrow> json_integer_value J any \<noteq> 0)
             then (add_host_subsys J alias nqn shared, restricted)
             else
               (case json_object_get J subsys TAG_HOSTS of
                  None \<Rightarrow> (shared, restricted)
                | Some list \<Rightarrow>
                    (shared, fold (\<lambda>item r. if match_string J item host
                                             then add_host_subsys J alias nqn r else r)
                               (json_elems J list) restricted))))"

text \<open>
  The loop over the targets. \<open>hides alias\<close> stands for the test on the in-memory lists: the
  target of that alias is a member of a group and shares no group with the host. The state is
  the array of targets (\<^verbatim>\<open>json_get_array\<close> adds a missing array of subsystems) and the two
  lists.
\<close>

fun host_targets_loop ::
  "'j jansson \<Rightarrow> (string \<Rightarrow> bool exec) \<Rightarrow> string \<Rightarrow> nat list \<Rightarrow> 'j \<Rightarrow> 'j \<times> 'j \<Rightarrow> ('j \<times> 'j \<times> 'j) exec"
where
  "host_targets_loop J hides host [] targets acc = Inr (targets, acc)"
| "host_targets_loop J hides host (i # is) targets acc =
     (case json_array_get J targets i of
        None \<Rightarrow> host_targets_loop J hides host is targets acc
      | Some iter \<Rightarrow>
          (case json_object_get J iter TAG_ALIAS of
             None \<Rightarrow> host_targets_loop J hides host is targets acc
           | Some alias \<Rightarrow>
               (case json_get_array J iter TAG_SUBSYSTEMS of
                  (iter', None) \<Rightarrow> host_targets_loop J hides host is targets acc
                | (iter', Some array) \<Rightarrow>
                    let targets' = json_array_set J targets i iter' in
                    (case json_string_value J alias of
                       None \<Rightarrow> Inl Null_deref
                     | Some name \<Rightarrow>
                         exec_bind (hides name) (\<lambda>hidden.
                           host_targets_loop J hides host is targets'
                             (if hidden then acc
                              else fold (host_subsys_step J host alias) (json_elems J array) acc))))))"

definition get_host_subsystems ::
  "'j jansson \<Rightarrow> (string \<Rightarrow> bool exec) \<Rightarrow> 'j \<Rightarrow> string \<Rightarrow> 'j \<Rightarrow> ('j \<times> 'j) exec" where
  "get_host_subsystems J hides root host parent =
     (case json_object_get J root TAG_TARGETS of
        None \<Rightarrow> Inr (root, json_object_set_new J
                             (json_object_set_new J parent TAG_SHARED (json_array J))
                             TAG_RESTRICTED (json_array J))
      | Some targets \<Rightarrow>
          exec_bind (host_targets_loop J hides host [0..<json_array_size J targets] targets
                       (json_array J, json_array J))
            (\<lambda>(targets', shared, restricted).
              Inr (json_object_set_new J root TAG_TARGETS targets',
                   json_object_set_new J (json_object_set_new J parent TAG_SHARED shared)
                     TAG_RESTRICTED restricted)))"

definition show_json_host ::
  "'j jansson \<Rightarrow> (string \<Rightarrow> bool exec) \<Rightarrow> 'j \<Rightarrow> string \<Rightarrow> 'j reply exec" where
  "show_json_host J hides root alias =
     (case json_object_get J root TAG_HOSTS of
        None \<Rightarrow> Inr (root, - ENOENT, squoted TAG_HOSTS @ '' not found'')
      | Some hosts \<Rightarrow>
          (case find_array J hosts TAG_ALIAS alias of
             None \<Rightarrow> Inr (root, - ENOENT, msg_not_found TAG_HOST alias)
           | Some (_, obj) \<Rightarrow>
               exec_bind (get_host_subsystems J hides root alias obj) (\<lambda>(root', host).
                 Inr (root', 0, json_dumps J host))))"

end
