(* ===== verification/Json_Subsys.thy ===== *)
theory Json_Subsys
  imports Json_Hosts
begin

text \<open>
  What hangs below a target in the JSON configuration (\<^verbatim>\<open>src/src/dem/json.c\<close>): subsystems, port
  ids, namespaces and the allowed hosts of a subsystem.
\<close>

text \<open>\<^verbatim>\<open>enum {RESTRICTED = 0, ALLOW_ANY = 1, UNDEFINED_ACCESS = -1}\<close>\<close>

definition RESTRICTED :: int where "RESTRICTED = 0"
definition ALLOW_ANY :: int where "ALLOW_ANY = 1"
definition UNDEFINED_ACCESS :: int where "UNDEFINED_ACCESS = -1"

text \<open>Writing a changed target back at its index.\<close>

definition put_target :: "'j jansson \<Rightarrow> 'j \<Rightarrow> 'j \<Rightarrow> nat \<Rightarrow> 'j \<Rightarrow> 'j" where
  "put_target J root targets i tgt =
     json_object_set_new J root TAG_TARGETS (json_array_set J targets i tgt)"

section \<open>Subsystems\<close>

text \<open>
  The fields of \<^verbatim>\<open>struct subsystem\<close> that \<^verbatim>\<open>set_json_subsys\<close> writes; the caller starts with
  an empty NQN and undefined access.
\<close>

record subsys_out =
  so_nqn :: string
  so_access :: int

definition subsys_out_init :: subsys_out where
  "subsys_out_init = \<lparr>so_nqn = [], so_access = UNDEFINED_ACCESS\<rparr>"

text \<open>
  The part of \<^verbatim>\<open>set_json_subsys\<close> after the request has been parsed: \<open>array\<close> are the
  subsystems of the target, \<open>found\<close> the entry that is updated. The result is an error code
  and text, or the changed array, the text and the outputs.
\<close>

definition apply_subsys ::
  "'j jansson \<Rightarrow> string \<Rightarrow> 'j \<Rightarrow> (nat \<times> 'j) option \<Rightarrow> string option \<Rightarrow> 'j \<Rightarrow>
     ((int \<times> string) + ('j \<times> string \<times> subsys_out)) exec" where
  "apply_subsys J alias array found subnqn new =
     exec_bind
       (case json_object_get J new TAG_SUBNQN of
          None \<Rightarrow> Inr None
        | Some obj \<Rightarrow> exec_bind (c_strcpy (MAX_STRING + 1) (json_string_value J obj)) (\<lambda>s. Inr (Some s)))
       (\<lambda>given.
         if given \<noteq> None \<and> find_array J array TAG_SUBNQN (the given) \<noteq> None \<and> subnqn \<noteq> given
         then Inr (Inl (- EEXIST, TAG_SUBSYSTEM @ '' '' @ squoted (the given) @ '' exists in '' @
                          TAG_TARGET @ '' '' @ squoted alias))
         else
           exec_bind
             (case subnqn of
                None \<Rightarrow>
                  (case given of
                     None \<Rightarrow> Inr (Inl (- EINVAL, ''no subsystem NQN provided''))
                   | Some nqn \<Rightarrow>
                       Inr (Inr (json_array_size J array,
                                 json_set_string J (json_object J) TAG_SUBNQN (Some nqn), nqn, nqn)))
              | Some old \<Rightarrow>
                  exec_bind (c_strcpy (MAX_STRING + 1) (Some old)) (\<lambda>nqn.
                    exec_bind (json_update_string_ex J (MAX_NQN_SIZE + 1) (snd (the found)) new TAG_SUBNQN)
                      (\<lambda>(iter, written).
                        Inr (Inr (fst (the found), iter, nqn, case written of None \<Rightarrow> nqn | Some w \<Rightarrow> w)))))
             (\<lambda>step.
               case step of
                 Inl err \<Rightarrow> Inr (Inl err)
               | Inr (k, iter, nqn, out_nqn) \<Rightarrow>
                   (case json_update_int_ex J iter new TAG_ALLOW_ANY of
                      (iter', acc) \<Rightarrow>
                        let access = (case acc of None \<Rightarrow> UNDEFINED_ACCESS | Some z \<Rightarrow> z);
                            iter'' = (if access \<noteq> RESTRICTED then json_object_del J iter' TAG_HOSTS else iter');
                            array' = (if subnqn = None then json_array_append_new J array iter''
                                      else json_array_set J array k iter'')
                        in Inr (Inr (array',
                             TAG_SUBSYSTEM @ '' '' @ squoted nqn @ '' '' @
                             (if subnqn = None then ''added to'' else ''updated in'') @ '' in '' @
                             TAG_TARGET @ '' '' @ squoted alias,
                             \<lparr>so_nqn = out_nqn, so_access = access\<rparr>)))))"

definition set_json_subsys ::
  "'j jansson \<Rightarrow> 'j \<Rightarrow> string \<Rightarrow> string option \<Rightarrow> string \<Rightarrow> ('j reply \<times> subsys_out) exec" where
  "set_json_subsys J root alias subnqn data =
     (case json_object_get J root TAG_TARGETS of
        None \<Rightarrow> Inr ((root, - ENOENT, TAG_TARGETS @ '' not found''), subsys_out_init)
      | Some targets \<Rightarrow>
          (case find_array J targets TAG_ALIAS alias of
             None \<Rightarrow> Inr ((root, - ENOENT, msg_not_found TAG_TARGET alias), subsys_out_init)
           | Some (i, tgt) \<Rightarrow>
               (case json_get_array J tgt TAG_SUBSYSTEMS of
                  (tgt', None) \<Rightarrow> Inr ((root, - EINVAL, invalid_json_syntax), subsys_out_init)
                | (tgt', Some array) \<Rightarrow>
                    let root1 = put_target J root targets i tgt';
                        found = (case subnqn of None \<Rightarrow> None | Some s \<Rightarrow> find_array J array TAG_SUBNQN s)
                    in
                    if subnqn \<noteq> None \<and> found = None
                    then Inr ((root1, - ENOENT,
                               msg_not_found_in TAG_SUBSYSTEM (the subnqn) TAG_TARGET alias), subsys_out_init)
                    else if subnqn \<noteq> None \<and> data = []
                    then Inr ((root1, 0, TAG_SUBSYSTEM @ '' '' @ squoted (the subnqn) @ '' unchanged in '' @
                                 TAG_TARGET @ '' '' @ squoted alias), subsys_out_init)
                    else if data = []
                    then Inr ((root1, - EINVAL, ''no data for update '' @ TAG_SUBSYSTEM @ '' '' @
                                 squoted ''<NULL>'' @ '' in '' @ TAG_TARGET @ '' '' @ squoted alias),
                              subsys_out_init)
                    else
                      (case json_loads J data of
                         None \<Rightarrow> Inr ((root1, - EINVAL, invalid_json_syntax), subsys_out_init)
                       | Some new \<Rightarrow>
                           exec_bind (apply_subsys J alias array found subnqn new) (\<lambda>step.
                             case step of
                               Inl (ret, msg) \<Rightarrow> Inr ((root1, ret, msg), subsys_out_init)
                             | Inr (array', msg, out) \<Rightarrow>
                                 Inr ((put_target J root targets i
                                         (json_object_set_new J tgt' TAG_SUBSYSTEMS array'), 0, msg), out))))))"

definition del_json_subsys :: "'j jansson \<Rightarrow> 'j \<Rightarrow> string \<Rightarrow> string \<Rightarrow> 'j reply" where
  "del_json_subsys J root alias subnqn =
     (case json_object_get J root TAG_TARGETS of
        None \<Rightarrow> (root, - ENOENT, TAG_TARGETS @ '' not found'')
      | Some targets \<Rightarrow>
          (case del_from_array J targets TAG_ALIAS alias TAG_SUBSYSTEMS subnqn of
             (targets', ret) \<Rightarrow>
               if ret \<noteq> 0
               then (root, ret, ''Unable to delete '' @ TAG_SUBSYSTEM @ '' '' @ squoted subnqn @
                       '' from '' @ TAG_TARGET @ '' '' @ squoted alias)
               else (json_object_set_new J root TAG_TARGETS targets', 0,
                     TAG_SUBSYSTEM @ '' '' @ squoted subnqn @ '' deleted from '' @
                       TAG_TARGET @ '' '' @ squoted alias)))"

section \<open>Port ids\<close>

text \<open>
  The fields of \<^verbatim>\<open>struct portid\<close> that \<^verbatim>\<open>set_json_portid\<close> writes; \<^const>\<open>None\<close> when the request does
  not carry the value and the field is left as it was.
\<close>

record portid_out =
  po_portid :: "int option"
  po_type :: "string option"
  po_address :: "string option"
  po_family :: "string option"
  po_port_num :: "int option"

definition portid_out_init :: portid_out where
  "portid_out_init = \<lparr>po_portid = None, po_type = None, po_address = None, po_family = None,
                      po_port_num = None\<rparr>"

text \<open>The chain of updates of one port entry.\<close>

definition update_port_entry :: "'j jansson \<Rightarrow> 'j \<Rightarrow> 'j \<Rightarrow> ('j \<times> portid_out) exec" where
  "update_port_entry J iter new =
     (case json_update_int_ex J iter new TAG_PORTID of (iter, pid) \<Rightarrow>
        exec_bind (json_update_string_ex J (CONFIG_TYPE_SIZE + 1) iter new TAG_TYPE) (\<lambda>(iter, typ).
        exec_bind (json_update_string_ex J (CONFIG_ADDRESS_SIZE + 1) iter new TAG_ADDRESS) (\<lambda>(iter, addr).
        exec_bind (json_update_string_ex J (CONFIG_FAMILY_SIZE + 1) iter new TAG_FAMILY) (\<lambda>(iter, fam).
          case json_update_int_ex J iter new TAG_TRSVCID of (iter, num) \<Rightarrow>
            Inr (iter, \<lparr>po_portid = pid, po_type = typ, po_address = addr, po_family = fam,
                        po_port_num = num\<rparr>)))))"

definition set_json_portid ::
  "'j jansson \<Rightarrow> 'j \<Rightarrow> string \<Rightarrow> int \<Rightarrow> string \<Rightarrow> ('j reply \<times> portid_out) exec" where
  "set_json_portid J root target pid data =
     (case json_object_get J root TAG_TARGETS of
        None \<Rightarrow> Inr ((root, - ENOENT, msg_not_found TAG_TARGETS target), portid_out_init)
      | Some targets \<Rightarrow>
          (case find_array J targets TAG_ALIAS target of
             None \<Rightarrow> Inr ((root, - ENOENT, msg_not_found TAG_TARGET target), portid_out_init)
           | Some (i, tgt) \<Rightarrow>
               (case json_get_array J tgt TAG_PORTIDS of
                  (tgt', None) \<Rightarrow> Inr ((root, - EINVAL, invalid_json_syntax), portid_out_init)
                | (tgt', Some array) \<Rightarrow>
                    let root1 = put_target J root targets i tgt' in
                    if data = []
                    then Inr ((root1, - EINVAL, ''no data to update '' @ TAG_PORTID @ '' '' @
                                 squoted (show_int pid) @ '' in '' @ TAG_TARGET @ '' '' @ squoted target),
                              portid_out_init)
                    else
                      (case json_loads J data of
                         None \<Rightarrow> Inr ((root1, - EINVAL, invalid_json_syntax), portid_out_init)
                       | Some new \<Rightarrow>
                           let pid' = (if pid = 0
                                       then (case json_object_get J new TAG_PORTID of
                                               None \<Rightarrow> 0 | Some v \<Rightarrow> c_int (json_integer_value J v))
                                       else pid)
                           in
                           if pid' = 0
                           then Inr ((root1, - EINVAL, ''no port id give for '' @ TAG_TARGET @ '' '' @
                                        squoted target), portid_out_init)
                           else
                             let entry = (case find_array_int J array TAG_PORTID pid' of
                                            Some (k, iter) \<Rightarrow> (array, k, iter)
                                          | None \<Rightarrow>
                                              let iter = json_set_int J (json_object J) TAG_PORTID pid'
                                              in (json_array_append_new J array iter,
                                                  json_array_size J array, iter))
                             in
                             (case entry of (array', k, iter) \<Rightarrow>
                                exec_bind (update_port_entry J iter new) (\<lambda>(iter', out).
                                  Inr ((put_target J root targets i
                                          (json_object_set_new J tgt' TAG_PORTIDS (json_array_set J array' k iter')),
                                        0, TAG_PORTID @ '' '' @ squoted (show_int pid') @ '' updated in '' @
                                           TAG_TARGET @ '' '' @ squoted target), out)))))))"

definition del_json_portid :: "'j jansson \<Rightarrow> 'j \<Rightarrow> string \<Rightarrow> int \<Rightarrow> 'j reply" where
  "del_json_portid J root alias portid =
     (case json_object_get J root TAG_TARGETS of
        None \<Rightarrow> (root, - ENOENT, TAG_TARGET @ '' not found'')
      | Some targets \<Rightarrow>
          (case del_int_from_array J targets TAG_ALIAS alias TAG_PORTIDS TAG_PORTID portid of
             (targets', ret) \<Rightarrow>
               if ret \<noteq> 0
               then (root, ret, ''Unable to delete '' @ TAG_PORTID @ '' '' @ squoted (show_int portid) @
                       '' from '' @ TAG_TARGET @ '' '' @ squoted alias)
               else (json_object_set_new J root TAG_TARGETS targets', 0,
                     TAG_PORTID @ '' '' @ squoted (show_int portid) @ '' deleted from '' @
                       TAG_TARGET @ '' '' @ squoted alias)))"

section \<open>Namespaces\<close>

record ns_out =
  no_nsid :: "int option"
  no_devid :: "int option"
  no_devns :: "int option"

definition ns_out_init :: ns_out where
  "ns_out_init = \<lparr>no_nsid = None, no_devid = None, no_devns = None\<rparr>"

definition set_json_ns ::
  "'j jansson \<Rightarrow> 'j \<Rightarrow> string \<Rightarrow> string \<Rightarrow> string \<Rightarrow> 'j reply \<times> ns_out" where
  "set_json_ns J root alias subnqn data =
     (case json_object_get J root TAG_TARGETS of
        None \<Rightarrow> ((root, - ENOENT, TAG_TARGETS @ '' not found''), ns_out_init)
      | Some targets \<Rightarrow>
          (case find_array J targets TAG_ALIAS alias of
             None \<Rightarrow> ((root, - ENOENT, msg_not_found TAG_TARGET alias), ns_out_init)
           | Some (i, tgt) \<Rightarrow>
               (case json_get_array J tgt TAG_SUBSYSTEMS of
                  (tgt', None) \<Rightarrow>
                    ((root, - ENOENT, msg_not_found_in TAG_SUBSYSTEM subnqn TAG_TARGET alias), ns_out_init)
                | (tgt', Some array) \<Rightarrow>
                    (case find_array J array TAG_SUBNQN subnqn of
                       None \<Rightarrow>
                         ((put_target J root targets i tgt', - ENOENT,
                           msg_not_found_in TAG_SUBSYSTEM subnqn TAG_TARGET alias), ns_out_init)
                     | Some (k, obj) \<Rightarrow>
                         (case json_get_array J obj TAG_NSIDS of
                            (obj', None) \<Rightarrow>
                              ((put_target J root targets i tgt', - EINVAL, invalid_json_syntax), ns_out_init)
                          | (obj', Some nsids) \<Rightarrow>
                              let put = (\<lambda>obj. put_target J root targets i
                                    (json_object_set_new J tgt' TAG_SUBSYSTEMS (json_array_set J array k obj)))
                              in
                              (case json_loads J data of
                                 None \<Rightarrow> ((put obj', - EINVAL, invalid_json_syntax), ns_out_init)
                               | Some new \<Rightarrow>
                                   (case json_object_get J new TAG_NSID of
                                      None \<Rightarrow> ((put obj', - EINVAL, invalid_json_syntax), ns_out_init)
                                    | Some v \<Rightarrow>
                                        let val = c_int (json_integer_value J v);
                                            entry = (case find_array_int J nsids TAG_NSID val of
                                                Some (m, iter) \<Rightarrow> (nsids, m, iter)
                                              | None \<Rightarrow>
                                                  let iter = json_set_int J (json_object J) TAG_NSID val
                                                  in (json_array_append_new J nsids iter,
                                                      json_array_size J nsids, iter))
                                        in
                                        (case entry of (nsids', m, iter) \<Rightarrow>
                                        (case json_update_int_ex J iter new TAG_DEVID of (iter1, devid) \<Rightarrow>
                                        (case json_update_int_ex J iter1 new TAG_DEVNSID of (iter2, devns) \<Rightarrow>
                                          ((put (json_object_set_new J obj' TAG_NSIDS
                                                   (json_array_set J nsids' m iter2)), 0,
                                            TAG_NSID @ '' '' @ show_int val @ '' updated in '' @ TAG_SUBSYSTEM @
                                              '' '' @ squoted subnqn @ '' of '' @ TAG_TARGET @ '' '' @ squoted alias),
                                           \<lparr>no_nsid = Some val, no_devid = devid, no_devns = devns\<rparr>)))))))))))"

definition del_json_ns :: "'j jansson \<Rightarrow> 'j \<Rightarrow> string \<Rightarrow> string \<Rightarrow> int \<Rightarrow> 'j reply" where
  "del_json_ns J root alias subnqn ns =
     (case json_object_get J root TAG_TARGETS of
        None \<Rightarrow> (root, - ENOENT, TAG_TARGETS @ '' not found'')
      | Some targets \<Rightarrow>
          (case find_array J targets TAG_ALIAS alias of
             None \<Rightarrow> (root, - ENOENT, msg_not_found TAG_TARGET alias @ [CHR 0x27])
           | Some (i, tgt) \<Rightarrow>
               (case json_object_get J tgt TAG_SUBSYSTEMS of
                  None \<Rightarrow> (root, - ENOENT, msg_not_found_in TAG_SUBSYSTEM subnqn TAG_TARGET alias)
                | Some array \<Rightarrow>
                    (case del_int_from_array J array TAG_SUBNQN subnqn TAG_NSIDS TAG_NSID ns of
                       (array', ret) \<Rightarrow>
                         if ret \<noteq> 0
                         then (root, ret, ''Unable to delete '' @ TAG_NSID @ '' '' @ squoted (show_int ns) @
                                 '' from '' @ TAG_SUBSYSTEM @ '' '' @ [CHR 0x27] @ subnqn @ '' in '' @
                                 TAG_TARGET @ '' '' @ squoted alias)
                         else (put_target J root targets i (json_object_set_new J tgt TAG_SUBSYSTEMS array'), 0,
                               TAG_NSID @ '' '' @ squoted (show_int ns) @ '' deleted from '' @ TAG_SUBSYSTEM @
                                 '' '' @ squoted subnqn @ '' in '' @ TAG_TARGET @ '' '' @ squoted alias)))))"

section \<open>Allowed hosts\<close>

text \<open>
  The alias comes from the URI, or from the request body when the URI has none; \<^const>\<open>None\<close> when
  the body does not give it.
\<close>

definition acl_alias :: "'j jansson \<Rightarrow> string option \<Rightarrow> string \<Rightarrow> string option exec" where
  "acl_alias J alias data =
     (case alias of
        Some a \<Rightarrow> exec_bind (c_strcpy (MAX_ALIAS_SIZE + 1) (Some a)) (\<lambda>s. Inr (Some s))
      | None \<Rightarrow>
          (case json_loads J data of
             None \<Rightarrow> Inr None
           | Some new \<Rightarrow>
               (case json_object_get J new TAG_ALIAS of
                  None \<Rightarrow> Inr None
                | Some val \<Rightarrow>
                    exec_bind (c_strcpy (MAX_ALIAS_SIZE + 1) (json_string_value J val)) (\<lambda>s. Inr (Some s)))))"

definition msg_acl :: "string \<Rightarrow> string \<Rightarrow> string \<Rightarrow> string \<Rightarrow> string" where
  "msg_acl what host subnqn tgt =
     TAG_HOST @ '' '' @ squoted host @ what @ TAG_SUBSYSTEM @ '' '' @ squoted subnqn @ '' in '' @
       TAG_TARGET @ '' '' @ squoted tgt"

text \<open>The outputs are the alias and the NQN of the host, on success.\<close>

definition set_json_acl ::
  "'j jansson \<Rightarrow> 'j \<Rightarrow> string \<Rightarrow> string \<Rightarrow> string option \<Rightarrow> string \<Rightarrow>
     ('j reply \<times> (string \<times> string) option) exec" where
  "set_json_acl J root tgt subnqn alias data =
     (case json_object_get J root TAG_HOSTS of
        None \<Rightarrow> Inr ((root, - ENOENT, TAG_HOSTS @ '' not found''), None)
      | Some hosts \<Rightarrow>
     (case json_object_get J root TAG_TARGETS of
        None \<Rightarrow> Inr ((root, - ENOENT, TAG_TARGETS @ '' not found''), None)
      | Some targets \<Rightarrow>
     (case find_array J targets TAG_ALIAS tgt of
        None \<Rightarrow> Inr ((root, - ENOENT, msg_not_found TAG_TARGET tgt), None)
      | Some (i, subgroup) \<Rightarrow>
     (case json_get_array J subgroup TAG_SUBSYSTEMS of
        (subgroup', None) \<Rightarrow>
          Inr ((root, - ENOENT, msg_not_found_in TAG_SUBSYSTEM subnqn TAG_TARGET tgt), None)
      | (subgroup', Some subsystems) \<Rightarrow>
     (case find_array J subsystems TAG_SUBNQN subnqn of
        None \<Rightarrow> Inr ((put_target J root targets i subgroup', - ENOENT,
                      msg_not_found_in TAG_SUBSYSTEM subnqn TAG_TARGET tgt), None)
      | Some (k, obj) \<Rightarrow>
          let array = (case json_object_get J obj TAG_HOSTS of None \<Rightarrow> json_array J | Some a \<Rightarrow> a);
              obj' = (if json_object_get J obj TAG_HOSTS = None
                      then json_object_set_new J obj TAG_HOSTS (json_array J) else obj);
              put = (\<lambda>obj. put_target J root targets i
                       (json_object_set_new J subgroup' TAG_SUBSYSTEMS (json_array_set J subsystems k obj)));
              root1 = put obj'
          in
          exec_bind (acl_alias J alias data) (\<lambda>given.
            case given of
              None \<Rightarrow> Inr ((root1, - EINVAL, invalid_json_syntax), None)
            | Some newalias \<Rightarrow>
                (case find_array J hosts TAG_ALIAS newalias of
                   None \<Rightarrow> Inr ((root1, - ENOENT, msg_not_found TAG_HOST newalias), None)
                 | Some (_, host) \<Rightarrow>
                     if find_array_string J array newalias \<noteq> None
                     then Inr ((root1, - EEXIST, msg_acl '' exists for '' newalias subnqn tgt), None)
                     else
                       (case json_object_get J host TAG_HOSTNQN of
                          None \<Rightarrow> Inr ((root1, - EINVAL,
                                        TAG_HOST @ '' '' @ squoted newalias @ '' has no hostnqn''), None)
                        | Some val \<Rightarrow>
                            exec_bind (c_strcpy (MAX_NQN_SIZE + 1) (json_string_value J val)) (\<lambda>hostnqn.
                              let array' = (case json_string J (Some newalias) of
                                              None \<Rightarrow> array | Some v \<Rightarrow> json_array_append_new J array v)
                              in Inr ((put (json_object_set_new J obj' TAG_HOSTS array'), 0,
                                       msg_acl '' added for '' newalias subnqn tgt),
                                      Some (newalias, hostnqn)))))))))))"

definition del_json_acl :: "'j jansson \<Rightarrow> 'j \<Rightarrow> string \<Rightarrow> string \<Rightarrow> string \<Rightarrow> 'j reply" where
  "del_json_acl J root alias subnqn host =
     (case json_object_get J root TAG_TARGETS of
        None \<Rightarrow> (root, - ENOENT, TAG_TARGETS @ '' not found'')
      | Some targets \<Rightarrow>
     (case find_array J targets TAG_ALIAS alias of
        None \<Rightarrow> (root, - ENOENT, msg_not_found TAG_TARGET alias @ [CHR 0x27])
      | Some (i, subgroup) \<Rightarrow>
     (case json_get_array J subgroup TAG_SUBSYSTEMS of
        (subgroup', None) \<Rightarrow>
          (root, - ENOENT, msg_not_found_in TAG_SUBSYSTEM subnqn TAG_ALIAS alias)
      | (subgroup', Some subsystems) \<Rightarrow>
          let root1 = put_target J root targets i subgroup' in
     (case find_array J subsystems TAG_SUBNQN subnqn of
        None \<Rightarrow> (root1, - ENOENT, msg_not_found_in TAG_SUBSYSTEM subnqn TAG_TARGET alias)
      | Some (k, obj) \<Rightarrow>
     (case json_object_get J obj TAG_HOSTS of
        None \<Rightarrow> (root1, - ENOENT, msg_not_found_in TAG_SUBSYSTEM subnqn TAG_TARGET alias)
      | Some array \<Rightarrow>
     (case find_array_string J array host of
        None \<Rightarrow> (root1, - ENOENT, msg_acl '' not allowed for '' host subnqn alias)
      | Some (m, _) \<Rightarrow>
          (put_target J root targets i
             (json_object_set_new J subgroup' TAG_SUBSYSTEMS
                (json_array_set J subsystems k
                   (json_object_set_new J obj TAG_HOSTS (json_array_remove J array m)))), 0,
           TAG_HOST @ '' '' @ squoted host @ '' deleted from '' @ TAG_SUBSYSTEM @ '' '' @ squoted subnqn @
             '' for '' @ TAG_ALIAS @ '' '' @ squoted alias)))))))"

end
