(* ===== verification/Json_Targets.thy ===== *)
theory Json_Targets
  imports Json_Subsys
begin

text \<open>
  Targets in the JSON configuration (\<^verbatim>\<open>src/src/dem/json.c\<close>): adding, updating, deleting, listing
  and showing a target, its management interface, and the devices and fabric interfaces
  reported by its endpoint manager.
\<close>

section \<open>Devices and fabric interfaces of a target\<close>

text \<open>\<^verbatim>\<open>struct nsdev\<close> and \<^verbatim>\<open>struct fabric_iface\<close>: the entries of the in-memory lists of a target.\<close>

record nsdev =
  nd_nsdev :: int
  nd_nsid :: int
  nd_valid :: bool

record fabric_iface =
  fi_type :: string
  fi_fam :: string
  fi_addr :: string
  fi_valid :: bool

text \<open>
  \<^verbatim>\<open>json_get_array(tgt, tag, a); if (!a) { \<dots> new array \<dots> } else json_array_clear(a)\<close>: the target
  with an empty array under the tag, and that array.
\<close>

definition reset_array :: "'j jansson \<Rightarrow> 'j \<Rightarrow> string \<Rightarrow> 'j \<times> 'j" where
  "reset_array J tgt tag =
     (case json_get_array J tgt tag of
        (tgt', None) \<Rightarrow> (json_object_set_new J tgt' tag (json_array J), json_array J)
      | (tgt', Some a) \<Rightarrow> (json_object_set_new J tgt' tag (json_array_clear J a), json_array_clear J a))"

definition nsdev_entry :: "'j jansson \<Rightarrow> int \<Rightarrow> int \<Rightarrow> 'j" where
  "nsdev_entry J devid nsid =
     (let iter = json_set_int J (json_object J) TAG_DEVID devid
      in if devid \<noteq> NULL_BLK_DEVID then json_set_int J iter TAG_DEVNSID nsid else iter)"

definition iface_entry :: "'j jansson \<Rightarrow> string \<Rightarrow> string \<Rightarrow> string \<Rightarrow> 'j" where
  "iface_entry J typ fam addr =
     json_set_string J
       (json_set_string J (json_set_string J (json_object J) TAG_TYPE (Some typ)) TAG_FAMILY (Some fam))
       TAG_ADDRESS (Some addr)"

text \<open>
  The inner search of \<^verbatim>\<open>set_json_oob_nsdevs\<close>: mark the first device that matches, or add a new
  one at the end.
\<close>

fun mark_nsdev :: "int \<Rightarrow> int \<Rightarrow> nsdev list \<Rightarrow> nsdev list" where
  "mark_nsdev devid nsid [] = [\<lparr>nd_nsdev = devid, nd_nsid = nsid, nd_valid = True\<rparr>]"
| "mark_nsdev devid nsid (d # ds) =
     (if nd_nsdev d = devid \<and> (devid = NULL_BLK_DEVID \<or> nd_nsid d = nsid)
      then d\<lparr>nd_valid := True\<rparr> # ds else d # mark_nsdev devid nsid ds)"

text \<open>
  The loop over the reported devices; the flag is false when it stops at an entry without an
  integer device id or namespace id.
\<close>

fun oob_nsdevs_loop :: "'j jansson \<Rightarrow> 'j list \<Rightarrow> nsdev list \<Rightarrow> 'j \<Rightarrow> nsdev list \<times> 'j \<times> bool" where
  "oob_nsdevs_loop J [] devs nsdevs = (devs, nsdevs, True)"
| "oob_nsdevs_loop J (iter # xs) devs nsdevs =
     (case json_member_int J TAG_DEVID iter of
        None \<Rightarrow> (devs, nsdevs, False)
      | Some dz \<Rightarrow>
          let devid = c_int dz;
              nsid = (if devid = NULL_BLK_DEVID then Some 0
                      else map_option c_int (json_member_int J TAG_DEVNSID iter))
          in case nsid of
               None \<Rightarrow> (devs, nsdevs, False)
             | Some nsid \<Rightarrow> oob_nsdevs_loop J xs (mark_nsdev devid nsid devs)
                              (json_array_append_new J nsdevs (nsdev_entry J devid nsid)))"

text \<open>The new root, the device list and the return code.\<close>

definition set_json_oob_nsdevs ::
  "'j jansson \<Rightarrow> 'j \<Rightarrow> string \<Rightarrow> nsdev list \<Rightarrow> string \<Rightarrow> ('j \<times> nsdev list \<times> int) exec" where
  "set_json_oob_nsdevs J root alias devs data =
     (case json_loads J data of
        None \<Rightarrow> Inr (root, devs, - EINVAL)
      | Some new \<Rightarrow>
          (case json_object_get J root TAG_TARGETS of
             None \<Rightarrow> Inl Use_after_free
           | Some targets \<Rightarrow>
               (case find_array J targets TAG_ALIAS alias of
                  None \<Rightarrow> Inl Use_after_free
                | Some (i, tgt) \<Rightarrow>
                    (case reset_array J tgt TAG_NSDEVS of
                       (tgt', nsdevs) \<Rightarrow>
                         let invalid = map (\<lambda>d. d\<lparr>nd_valid := False\<rparr>) devs;
                             reported = (case json_get_array J new TAG_NSDEVS of
                                           (_, None) \<Rightarrow> [] | (_, Some a) \<Rightarrow> json_elems J a)
                         in
                         (case oob_nsdevs_loop J reported invalid nsdevs of
                            (devs', nsdevs', ok) \<Rightarrow>
                              let root' = put_target J root targets i
                                            (json_object_set_new J tgt' TAG_NSDEVS nsdevs')
                              in if ok then Inr (root', filter nd_valid devs', 0)
                                 else Inr (root', devs', - EINVAL))))))"

fun mark_iface :: "string \<Rightarrow> string \<Rightarrow> string \<Rightarrow> fabric_iface list \<Rightarrow> fabric_iface list" where
  "mark_iface typ fam addr [] = [\<lparr>fi_type = typ, fi_fam = fam, fi_addr = addr, fi_valid = True\<rparr>]"
| "mark_iface typ fam addr (d # ds) =
     (if fi_type d = typ \<and> fi_fam d = fam \<and> fi_addr d = addr
      then d\<lparr>fi_valid := True\<rparr> # ds else d # mark_iface typ fam addr ds)"

text \<open>
  An entry that lacks one of the three strings is skipped. A string that does not fit the field
  of a new list entry overflows it; one that matches an existing entry fits.
\<close>

fun oob_ifaces_loop ::
  "'j jansson \<Rightarrow> 'j list \<Rightarrow> fabric_iface list \<Rightarrow> 'j \<Rightarrow> (fabric_iface list \<times> 'j) exec" where
  "oob_ifaces_loop J [] fs ifaces = Inr (fs, ifaces)"
| "oob_ifaces_loop J (iter # xs) fs ifaces =
     (case (json_member_string J TAG_TYPE iter, json_member_string J TAG_FAMILY iter,
            json_member_string J TAG_ADDRESS iter) of
        (Some typ, Some fam, Some addr) \<Rightarrow>
          exec_bind (c_strcpy (CONFIG_TYPE_SIZE + 1) (Some typ)) (\<lambda>typ.
          exec_bind (c_strcpy (CONFIG_FAMILY_SIZE + 1) (Some fam)) (\<lambda>fam.
          exec_bind (c_strcpy (CONFIG_ADDRESS_SIZE + 1) (Some addr)) (\<lambda>addr.
            oob_ifaces_loop J xs (mark_iface typ fam addr fs)
              (json_array_append_new J ifaces (iface_entry J typ fam addr)))))
      | _ \<Rightarrow> oob_ifaces_loop J xs fs ifaces)"

definition set_json_oob_interfaces ::
  "'j jansson \<Rightarrow> 'j \<Rightarrow> string \<Rightarrow> fabric_iface list \<Rightarrow> string \<Rightarrow>
     ('j \<times> fabric_iface list \<times> int) exec" where
  "set_json_oob_interfaces J root alias fs data =
     (case json_loads J data of
        None \<Rightarrow> Inr (root, fs, - EINVAL)
      | Some new \<Rightarrow>
          (case json_object_get J root TAG_TARGETS of
             None \<Rightarrow> Inl Use_after_free
           | Some targets \<Rightarrow>
               (case find_array J targets TAG_ALIAS alias of
                  None \<Rightarrow> Inl Use_after_free
                | Some (i, tgt) \<Rightarrow>
                    (case reset_array J tgt TAG_INTERFACES of
                       (tgt', ifaces) \<Rightarrow>
                         let invalid = map (\<lambda>f. f\<lparr>fi_valid := False\<rparr>) fs;
                             reported = (case json_get_array J new TAG_INTERFACES of
                                           (_, None) \<Rightarrow> [] | (_, Some a) \<Rightarrow> json_elems J a)
                         in
                         exec_bind (oob_ifaces_loop J reported invalid ifaces) (\<lambda>(fs', ifaces').
                           Inr (put_target J root targets i
                                  (json_object_set_new J tgt' TAG_INTERFACES ifaces'),
                                filter fi_valid fs', 0))))))"

text \<open>The in-band variants change the document only.\<close>

definition set_json_inb_nsdev :: "'j jansson \<Rightarrow> 'j \<Rightarrow> string \<Rightarrow> int \<Rightarrow> int \<Rightarrow> 'j \<times> int" where
  "set_json_inb_nsdev J root alias devid nsid =
     (case json_object_get J root TAG_TARGETS of
        None \<Rightarrow> (root, - ENOENT)
      | Some targets \<Rightarrow>
          (case find_array J targets TAG_ALIAS alias of
             None \<Rightarrow> (root, - ENOENT)
           | Some (i, tgt) \<Rightarrow>
               (case reset_array J tgt TAG_NSDEVS of
                  (tgt', nsdevs) \<Rightarrow>
                    (put_target J root targets i
                       (json_object_set_new J tgt' TAG_NSDEVS
                          (json_array_append_new J nsdevs (nsdev_entry J devid nsid))), 0))))"

definition init_json_inb_fabric_iface :: "'j jansson \<Rightarrow> 'j \<Rightarrow> string \<Rightarrow> 'j \<times> int" where
  "init_json_inb_fabric_iface J root alias =
     (case json_object_get J root TAG_TARGETS of
        None \<Rightarrow> (root, - ENOENT)
      | Some targets \<Rightarrow>
          (case find_array J targets TAG_ALIAS alias of
             None \<Rightarrow> (root, - ENOENT)
           | Some (i, tgt) \<Rightarrow>
               (put_target J root targets i (fst (reset_array J tgt TAG_INTERFACES)), 0)))"

definition set_json_inb_fabric_iface ::
  "'j jansson \<Rightarrow> 'j \<Rightarrow> string \<Rightarrow> string \<Rightarrow> string \<Rightarrow> string \<Rightarrow> 'j \<times> int" where
  "set_json_inb_fabric_iface J root alias typ fam addr =
     (case json_object_get J root TAG_TARGETS of
        None \<Rightarrow> (root, - ENOENT)
      | Some targets \<Rightarrow>
          (case find_array J targets TAG_ALIAS alias of
             None \<Rightarrow> (root, - ENOENT)
           | Some (i, tgt) \<Rightarrow>
               (case json_get_array J tgt TAG_INTERFACES of
                  (tgt', None) \<Rightarrow>
                    (put_target J root targets i
                       (json_object_set_new J tgt' TAG_INTERFACES
                          (json_array_append_new J (json_array J) (iface_entry J typ fam addr))), 0)
                | (tgt', Some ifaces) \<Rightarrow>
                    (put_target J root targets i
                       (json_object_set_new J tgt' TAG_INTERFACES
                          (json_array_append_new J ifaces (iface_entry J typ fam addr))), 0))))"

section \<open>Adding and deleting a target\<close>

definition add_json_target :: "'j jansson \<Rightarrow> 'j \<Rightarrow> string \<Rightarrow> 'j reply exec" where
  "add_json_target J root alias =
     exec_bind (get_or_create_array J root TAG_TARGETS) (\<lambda>(root, targets).
       if find_array J targets TAG_ALIAS alias \<noteq> None
       then Inr (root, - EEXIST, msg_exists TAG_TARGET alias)
       else
         let iter = json_set_string J (json_object J) TAG_ALIAS (Some alias);
             iter = json_object_set_new J iter TAG_PORTIDS (json_array J);
             iter = json_object_set_new J iter TAG_SUBSYSTEMS (json_array J)
         in Inr (json_object_set_new J root TAG_TARGETS (json_array_append_new J targets iter),
                 0, msg_done TAG_TARGET alias ''added''))"

text \<open>
  The loop of \<^verbatim>\<open>del_json_target\<close>: \<open>n\<close> times, delete the subsystem at index 0 by its NQN. A
  subsystem without an NQN string passes a null pointer to \<^verbatim>\<open>strcmp\<close> and \<^verbatim>\<open>sprintf\<close>.
\<close>

fun del_subsystems :: "'j jansson \<Rightarrow> string \<Rightarrow> nat \<Rightarrow> 'j \<Rightarrow> 'j exec" where
  "del_subsystems J alias 0 root = Inr root"
| "del_subsystems J alias (Suc n) root =
     (case json_object_get J root TAG_TARGETS of
        None \<Rightarrow> Inr root
      | Some targets \<Rightarrow>
          (case find_array J targets TAG_ALIAS alias of
             None \<Rightarrow> Inr root
           | Some (_, iter) \<Rightarrow>
               (case json_object_get J iter TAG_SUBSYSTEMS of
                  None \<Rightarrow> Inr root
                | Some array \<Rightarrow>
                    (case json_array_get J array 0 of
                       None \<Rightarrow> Inl Null_deref
                     | Some obj \<Rightarrow>
                         (case json_member_string J TAG_SUBNQN obj of
                            None \<Rightarrow> Inl Null_deref
                          | Some nqn \<Rightarrow>
                              del_subsystems J alias n (fst (del_json_subsys J root alias nqn)))))))"

definition del_json_target :: "'j jansson \<Rightarrow> 'j \<Rightarrow> string \<Rightarrow> 'j reply exec" where
  "del_json_target J root alias =
     (case json_object_get J root TAG_TARGETS of
        None \<Rightarrow> Inr (root, - ENOENT, TAG_TARGETS @ '' not found'')
      | Some targets \<Rightarrow>
          (case find_array J targets TAG_ALIAS alias of
             None \<Rightarrow> Inr (root, - ENOENT, msg_not_found TAG_TARGET alias)
           | Some (idx, iter) \<Rightarrow>
               exec_bind
                 (case json_object_get J iter TAG_SUBSYSTEMS of
                    None \<Rightarrow> Inr root
                  | Some array \<Rightarrow> del_subsystems J alias (json_array_size J array) root)
                 (\<lambda>root1.
                   case json_object_get J root1 TAG_TARGETS of
                     None \<Rightarrow> Inr (root1, 0, msg_done TAG_TARGET alias ''deleted'')
                   | Some targets1 \<Rightarrow>
                       let root2 = json_object_set_new J root1 TAG_TARGETS (json_array_remove J targets1 idx);
                           root3 = del_from_groups J root2 TAG_TARGETS alias
                       in Inr (root3, 0, msg_done TAG_TARGET alias ''deleted''))))"

section \<open>Listing and showing\<close>

text \<open>
  \<^verbatim>\<open>_list_target\<close>, called after the opening brace was written: the size of the response buffer and its
  text. A query that is neither a mode nor a fabric query advances the output pointer over bytes that
  were never written.
\<close>

definition list_target :: "'j jansson \<Rightarrow> 'j \<Rightarrow> string option \<Rightarrow> (nat \<times> string) exec" where
  "list_target J root query =
     (let start = ''{'' @ dquoted TAG_TARGETS @ '':['' in
      case json_object_get J root TAG_TARGETS of
        None \<Rightarrow> Inr (BODY_SIZE, start @ '']'')
      | Some targets \<Rightarrow>
          let size = response_capacity (strlen_array J targets TAG_ALIAS) in
          exec_bind
            (case query of
               None \<Rightarrow> Inr (list_array J targets TAG_ALIAS)
             | Some q \<Rightarrow>
                 if take (length URI_PARM_MODE) q = URI_PARM_MODE then Inr (filter_mode J targets q)
                 else if take (length URI_PARM_FABRIC) q = URI_PARM_FABRIC
                 then Inr (filter_fabric J targets q)
                 else Inl Uninitialised)
            (\<lambda>body.
              exec_bind (c_strcpy size (Some (start @ body @ '']''))) (\<lambda>s. Inr (size, s))))"

definition list_json_target :: "'j jansson \<Rightarrow> 'j \<Rightarrow> string option \<Rightarrow> (int \<times> string) exec" where
  "list_json_target J root query =
     exec_bind (list_target J root query) (\<lambda>(size, s).
       exec_bind (c_strcpy size (Some (s @ ''}''))) (\<lambda>s. Inr (0, s)))"

definition show_json_target :: "'j jansson \<Rightarrow> 'j \<Rightarrow> string \<Rightarrow> int \<times> string" where
  "show_json_target J root alias =
     (case json_object_get J root TAG_TARGETS of
        None \<Rightarrow> (- ENOENT, TAG_TARGETS @ '' not found'')
      | Some targets \<Rightarrow>
          (case find_array J targets TAG_ALIAS alias of
             None \<Rightarrow> (- ENOENT, msg_not_found TAG_TARGET alias)
           | Some (_, obj) \<Rightarrow> (0, json_dumps J obj)))"

section \<open>Management interface\<close>

datatype mgmt_mode = LOCAL_MGMT | IN_BAND_MGMT | OUT_OF_BAND_MGMT

definition get_mgmt_mode :: "string \<Rightarrow> mgmt_mode" where
  "get_mgmt_mode mode =
     (if mode = TAG_OUT_OF_BAND_MGMT then OUT_OF_BAND_MGMT
      else if mode = TAG_IN_BAND_MGMT then IN_BAND_MGMT
      else LOCAL_MGMT)"

text \<open>
  The values written to \<^verbatim>\<open>union sc_iface\<close>: the address and port of the out-of-band interface, or
  type, family, address and port of the in-band port. \<^const>\<open>None\<close>: left as it was.
\<close>

record iface_out =
  io_type :: "string option"
  io_family :: "string option"
  io_address :: "string option"
  io_port :: "int option"

definition iface_out_init :: iface_out where
  "iface_out_init = \<lparr>io_type = None, io_family = None, io_address = None, io_port = None\<rparr>"

definition inb_iface_update :: "'j jansson \<Rightarrow> 'j \<Rightarrow> 'j \<Rightarrow> ('j \<times> iface_out) exec" where
  "inb_iface_update J obj newobj =
     exec_bind (json_update_string_ex J (CONFIG_TYPE_SIZE + 1) obj newobj TAG_TYPE) (\<lambda>(obj, typ).
     exec_bind (json_update_string_ex J (CONFIG_FAMILY_SIZE + 1) obj newobj TAG_FAMILY) (\<lambda>(obj, fam).
     exec_bind (json_update_string_ex J (CONFIG_ADDRESS_SIZE + 1) obj newobj TAG_ADDRESS) (\<lambda>(obj, addr).
       case json_update_int_ex J obj newobj TAG_TRSVCID of (obj, num) \<Rightarrow>
         Inr (obj, \<lparr>io_type = typ, io_family = fam, io_address = addr, io_port = num\<rparr>))))"

text \<open>The address buffer receives the family first, then the address when there is one.\<close>

definition oob_iface_update :: "'j jansson \<Rightarrow> 'j \<Rightarrow> 'j \<Rightarrow> ('j \<times> iface_out) exec" where
  "oob_iface_update J obj newobj =
     exec_bind (json_update_string_ex J (CONFIG_ADDRESS_SIZE + 1) obj newobj TAG_IFFAMILY) (\<lambda>(obj, fam).
     exec_bind (json_update_string_ex J (CONFIG_ADDRESS_SIZE + 1) obj newobj TAG_IFADDRESS) (\<lambda>(obj, addr).
       case json_update_int_ex J obj newobj TAG_IFPORT of (obj, num) \<Rightarrow>
         Inr (obj, \<lparr>io_type = None, io_family = None,
                    io_address = (case addr of None \<Rightarrow> fam | Some a \<Rightarrow> Some a), io_port = num\<rparr>)))"

text \<open>
  \<^verbatim>\<open>set_json_inb_interface\<close> and \<^verbatim>\<open>set_json_oob_interface\<close> replace the interface of the target.
  On success they leave the response buffer as it was (\<open>resp\<close>). The out-of-band variant stores
  it under \<^verbatim>\<open>Interfaces\<close> and converts the port, a string there, with \<^verbatim>\<open>atoi\<close> from a local buffer
  that is not initialised when the request has no port.
\<close>

definition set_json_inb_interface ::
  "'j jansson \<Rightarrow> 'j \<Rightarrow> string \<Rightarrow> string \<Rightarrow> string \<Rightarrow> ('j reply \<times> iface_out) exec" where
  "set_json_inb_interface J root alias data resp =
     (case json_object_get J root TAG_TARGETS of
        None \<Rightarrow> Inr ((root, - ENOENT, msg_not_found TAG_TARGETS alias), iface_out_init)
      | Some targets \<Rightarrow>
          (case find_array J targets TAG_ALIAS alias of
             None \<Rightarrow> Inr ((root, - ENOENT, msg_not_found TAG_TARGET alias), iface_out_init)
           | Some (i, obj) \<Rightarrow>
               (case json_loads J data of
                  None \<Rightarrow> Inr ((root, - EINVAL, invalid_json_syntax), iface_out_init)
                | Some new \<Rightarrow>
                    (case json_object_get J new TAG_INTERFACE of
                       None \<Rightarrow> Inr ((root, - EINVAL, invalid_json_syntax), iface_out_init)
                     | Some newobj \<Rightarrow>
                         exec_bind (inb_iface_update J (json_object J) newobj) (\<lambda>(iter, out).
                           Inr ((put_target J root targets i
                                   (json_object_set_new J obj TAG_INTERFACE iter), 0, resp), out))))))"

definition set_json_oob_interface ::
  "'j jansson \<Rightarrow> 'j \<Rightarrow> string \<Rightarrow> string \<Rightarrow> string \<Rightarrow> ('j reply \<times> iface_out) exec" where
  "set_json_oob_interface J root alias data resp =
     (case json_object_get J root TAG_TARGETS of
        None \<Rightarrow> Inr ((root, - ENOENT, msg_not_found TAG_TARGETS alias), iface_out_init)
      | Some targets \<Rightarrow>
          (case find_array J targets TAG_ALIAS alias of
             None \<Rightarrow> Inr ((root, - ENOENT, msg_not_found TAG_TARGET alias), iface_out_init)
           | Some (i, obj) \<Rightarrow>
               (case json_loads J data of
                  None \<Rightarrow> Inr ((root, - EINVAL, invalid_json_syntax), iface_out_init)
                | Some new \<Rightarrow>
                    (case json_object_get J new TAG_INTERFACE of
                       None \<Rightarrow> Inr ((root, - EINVAL, invalid_json_syntax), iface_out_init)
                     | Some newobj \<Rightarrow>
                         let iter = json_update_string J (json_object J) newobj TAG_IFFAMILY in
                         exec_bind (json_update_string_ex J (CONFIG_ADDRESS_SIZE + 1) iter newobj TAG_IFADDRESS)
                           (\<lambda>(iter, addr).
                         exec_bind (json_update_string_ex J (MAX_STRING + 1) iter newobj TAG_IFPORT)
                           (\<lambda>(iter, port).
                           case port of
                             None \<Rightarrow> Inl Uninitialised
                           | Some p \<Rightarrow>
                               Inr ((put_target J root targets i
                                       (json_object_set_new J obj TAG_INTERFACES iter), 0, resp),
                                    \<lparr>io_type = None, io_family = None, io_address = addr,
                                     io_port = Some (atoi p)\<rparr>)))))))"

section \<open>Updating a target\<close>

text \<open>The fields of \<^verbatim>\<open>struct target\<close> that \<^verbatim>\<open>update_json_target\<close> writes on success.\<close>

record target_out =
  to_alias :: string
  to_refresh :: "int option"
  to_mode :: mgmt_mode
  to_iface :: iface_out

text \<open>
  The middle part: settle the alias, rename the entry and its group memberships or append a new
  entry. The result is an error reply, or the root, the array of targets, the index and value
  of the entry (null when there is none), and the alias.
\<close>

definition target_entry ::
  "'j jansson \<Rightarrow> 'j \<Rightarrow> 'j \<Rightarrow> string option \<Rightarrow> (nat \<times> 'j) option \<Rightarrow> 'j \<Rightarrow>
     ('j reply + 'j \<times> 'j \<times> (nat \<times> 'j) option \<times> string) exec" where
  "target_entry J root targets alias found new =
     (case json_object_get J new TAG_ALIAS of
        Some val \<Rightarrow>
          exec_bind (c_strcpy (MAX_STRING + 1) (json_string_value J val)) (\<lambda>buf.
            if alias = None \<and> buf \<noteq> [] \<or> alias \<noteq> None \<and> alias \<noteq> Some buf
            then
              if find_array J targets TAG_ALIAS buf \<noteq> None
              then Inr (Inl (root, - EEXIST, msg_exists TAG_TARGET buf))
              else
                (case found of
                   Some (i, iter) \<Rightarrow>
                     let iter' = json_update_string J iter new TAG_ALIAS;
                         targets' = json_array_set J targets i iter';
                         root1 = json_object_set_new J root TAG_TARGETS targets';
                         root2 = rename_in_groups J root1 TAG_TARGETS (the alias) buf
                     in Inr (Inr (root2, targets', Some (i, iter'), buf))
                 | None \<Rightarrow>
                     if json_is_array J targets
                     then
                       let iter = json_set_string J (json_object J) TAG_ALIAS (Some buf);
                           iter = json_object_set_new J iter TAG_PORTIDS (json_array J);
                           iter = json_object_set_new J iter TAG_SUBSYSTEMS (json_array J);
                           targets' = json_array_append_new J targets iter
                       in Inr (Inr (json_object_set_new J root TAG_TARGETS targets', targets',
                                    Some (json_array_size J targets, iter), buf))
                     else Inl Use_after_free)
            else Inr (Inr (root, targets, found, buf)))
      | None \<Rightarrow>
          (case alias of
             Some a \<Rightarrow> exec_bind (c_strcpy (MAX_STRING + 1) (Some a)) (\<lambda>buf.
                         Inr (Inr (root, targets, found, buf)))
           | None \<Rightarrow> Inr (Inl (root, - EINVAL, invalid_json_syntax))))"

text \<open>
  The last part: refresh interval, management mode and interface of the entry. A request without
  a management mode leaves the mode buffer empty, which reads as local management.
\<close>

definition target_settings ::
  "'j jansson \<Rightarrow> 'j \<Rightarrow> 'j \<Rightarrow> ('j \<times> int option \<times> mgmt_mode \<times> iface_out) exec" where
  "target_settings J iter new =
     (case json_update_int_ex J iter new TAG_REFRESH of (iter, refresh) \<Rightarrow>
        exec_bind (json_update_string_ex J (MAX_STRING + 1) iter new TAG_MGMT_MODE) (\<lambda>(iter, mode).
          let mgmt_mode = get_mgmt_mode (case mode of None \<Rightarrow> [] | Some m \<Rightarrow> m) in
          if mgmt_mode = LOCAL_MGMT
          then Inr (json_object_del J iter TAG_INTERFACE, refresh, mgmt_mode, iface_out_init)
          else
            (case json_object_get J new TAG_INTERFACE of
               None \<Rightarrow> Inr (iter, refresh, mgmt_mode, iface_out_init)
             | Some newobj \<Rightarrow>
                 let obj = (case json_object_get J iter TAG_INTERFACE of
                              None \<Rightarrow> json_object J | Some old_obj \<Rightarrow> old_obj)
                 in exec_bind
                      (if mgmt_mode = OUT_OF_BAND_MGMT
                       then oob_iface_update J
                              (fold (\<lambda>tag obj. json_object_del J obj tag)
                                 [TAG_TYPE, TAG_FAMILY, TAG_ADDRESS, TAG_TRSVCID] obj) newobj
                       else inb_iface_update J
                              (fold (\<lambda>tag obj. json_object_del J obj tag)
                                 [TAG_IFFAMILY, TAG_IFADDRESS, TAG_IFPORT] obj) newobj)
                      (\<lambda>(obj', out).
                        Inr (json_object_set_new J iter TAG_INTERFACE obj', refresh, mgmt_mode, out)))))"

definition update_target_fields ::
  "'j jansson \<Rightarrow> string option \<Rightarrow> 'j \<Rightarrow> 'j reply + 'j \<times> 'j \<times> (nat \<times> 'j) option \<times> string \<Rightarrow>
     ('j reply \<times> target_out option) exec" where
  "update_target_fields J alias new st =
     (case st of
        Inl err \<Rightarrow> Inr (err, None)
      | Inr (root, targets, None, buf) \<Rightarrow> Inr ((root, - EFAULT, ''Internal logic error''), None)
      | Inr (root, targets, Some (i, iter), buf) \<Rightarrow>
          exec_bind (target_settings J iter new) (\<lambda>(iter', refresh, mode, iface).
            Inr ((put_target J root targets i iter', 0,
                  msg_done TAG_TARGET buf (if alias = None then ''added'' else ''updated'')),
                 Some \<lparr>to_alias = take MAX_ALIAS_SIZE buf, to_refresh = refresh,
                       to_mode = mode, to_iface = iface\<rparr>)))"

definition update_json_target ::
  "'j jansson \<Rightarrow> 'j \<Rightarrow> string option \<Rightarrow> string \<Rightarrow> ('j reply \<times> target_out option) exec" where
  "update_json_target J root alias data =
     (if data = [] then Inr ((root, - EINVAL, invalid_json_syntax), None)
      else exec_bind (get_or_create_array J root TAG_TARGETS) (\<lambda>(root, targets).
        let found = (case alias of None \<Rightarrow> None | Some a \<Rightarrow> find_array J targets TAG_ALIAS a) in
        if alias \<noteq> None \<and> found = None
        then Inr ((root, - ENOENT, msg_not_found TAG_TARGET (the alias)), None)
        else
          (case json_loads J data of
             None \<Rightarrow> Inr ((root, - EINVAL, invalid_json_syntax), None)
           | Some new \<Rightarrow>
               exec_bind (target_entry J root targets alias found new) (update_target_fields J alias new))))"

end
