(* ===== verification/Json_Store.thy ===== *)
theory Json_Store
  imports Json_Targets
begin

text \<open>
  What the JSON configuration promises: an abstract database of group, host and target names with
  the members of every group, the abstraction from a document to it, and the refinement of every
  operation of \<^verbatim>\<open>src/src/dem/json.c\<close> that changes the document. The invariant of the database
  (names are unique, except that several groups may have the empty name, a group has each member
  once, and every member exists) is preserved by all
  of them and so holds in every reachable configuration.
\<close>

section \<open>The abstract database\<close>

type_synonym group_view = "string option \<times> string list \<times> string list"

record db =
  db_groups :: "group_view list"
  db_hosts :: "string list"
  db_targets :: "string list"

definition db_group_names :: "db \<Rightarrow> string list" where
  "db_group_names d = List.map_filter fst (db_groups d)"

definition group_inv :: "db \<Rightarrow> group_view \<Rightarrow> bool" where
  "group_inv d g =
     (case g of (_, hs, ts) \<Rightarrow> distinct hs \<and> set hs \<subseteq> set (db_hosts d) \<and>
                               distinct ts \<and> set ts \<subseteq> set (db_targets d))"

definition nonempty_names :: "string list \<Rightarrow> string list" where
  "nonempty_names ns = filter (\<lambda>n. n \<noteq> []) ns"

definition db_inv :: "db \<Rightarrow> bool" where
  "db_inv d = (distinct (nonempty_names (db_group_names d)) \<and> distinct (db_hosts d) \<and> distinct (db_targets d) \<and>
               list_all (group_inv d) (db_groups d))"

definition spec_rename_host :: "string \<Rightarrow> string \<Rightarrow> db \<Rightarrow> db" where
  "spec_rename_host old new d =
     d\<lparr>db_hosts := replace1 old new (db_hosts d),
       db_groups := map (\<lambda>(n, hs, ts). (n, replace1 old new hs, ts)) (db_groups d)\<rparr>"

definition spec_rename_target :: "string \<Rightarrow> string \<Rightarrow> db \<Rightarrow> db" where
  "spec_rename_target old new d =
     d\<lparr>db_targets := replace1 old new (db_targets d),
       db_groups := map (\<lambda>(n, hs, ts). (n, hs, replace1 old new ts)) (db_groups d)\<rparr>"

definition spec_del_host :: "string \<Rightarrow> db \<Rightarrow> db" where
  "spec_del_host h d =
     d\<lparr>db_hosts := remove1 h (db_hosts d),
       db_groups := map (\<lambda>(n, hs, ts). (n, remove1 h hs, ts)) (db_groups d)\<rparr>"

definition spec_del_target :: "string \<Rightarrow> db \<Rightarrow> db" where
  "spec_del_target t d =
     d\<lparr>db_targets := remove1 t (db_targets d),
       db_groups := map (\<lambda>(n, hs, ts). (n, hs, remove1 t ts)) (db_groups d)\<rparr>"

fun update_named :: "string \<Rightarrow> (group_view \<Rightarrow> group_view) \<Rightarrow> group_view list \<Rightarrow> group_view list" where
  "update_named n f [] = []"
| "update_named n f (g # gs) = (if fst g = Some n then f g # gs else g # update_named n f gs)"

fun remove_named :: "string \<Rightarrow> group_view list \<Rightarrow> group_view list" where
  "remove_named n [] = []"
| "remove_named n (g # gs) = (if fst g = Some n then gs else g # remove_named n gs)"

definition spec_add_group :: "string option \<Rightarrow> db \<Rightarrow> db" where
  "spec_add_group n d = d\<lparr>db_groups := db_groups d @ [(n, [], [])]\<rparr>"

definition spec_rename_group :: "string \<Rightarrow> string \<Rightarrow> db \<Rightarrow> db" where
  "spec_rename_group old new d =
     d\<lparr>db_groups := update_named old (\<lambda>(_, hs, ts). (Some new, hs, ts)) (db_groups d)\<rparr>"

definition spec_del_group :: "string \<Rightarrow> db \<Rightarrow> db" where
  "spec_del_group n d = d\<lparr>db_groups := remove_named n (db_groups d)\<rparr>"

datatype member_kind = Host_Member | Target_Member

fun map_members :: "member_kind \<Rightarrow> (string list \<Rightarrow> string list) \<Rightarrow> group_view \<Rightarrow> group_view" where
  "map_members Host_Member f (n, hs, ts) = (n, f hs, ts)"
| "map_members Target_Member f (n, hs, ts) = (n, hs, f ts)"

fun db_known :: "member_kind \<Rightarrow> db \<Rightarrow> string list" where
  "db_known Host_Member d = db_hosts d"
| "db_known Target_Member d = db_targets d"

definition spec_add_member :: "member_kind \<Rightarrow> string \<Rightarrow> string \<Rightarrow> db \<Rightarrow> db" where
  "spec_add_member k n m d =
     d\<lparr>db_groups := update_named n (map_members k (\<lambda>ms. if m \<in> set ms then ms else ms @ [m])) (db_groups d)\<rparr>"

definition spec_del_member :: "member_kind \<Rightarrow> string \<Rightarrow> string \<Rightarrow> db \<Rightarrow> db" where
  "spec_del_member k n m d = d\<lparr>db_groups := update_named n (map_members k (remove1 m)) (db_groups d)\<rparr>"

definition spec_add_host :: "string \<Rightarrow> db \<Rightarrow> db" where
  "spec_add_host h d = d\<lparr>db_hosts := db_hosts d @ [h]\<rparr>"

definition spec_add_target :: "string \<Rightarrow> db \<Rightarrow> db" where
  "spec_add_target t d = d\<lparr>db_targets := db_targets d @ [t]\<rparr>"

text \<open>
  The transitions of the database. \<open>db_skip\<close> covers the operations that fail and the ones that
  change what is below a host or target only. An entry whose name is not a valid string is stored
  without a name.
\<close>

inductive db_step :: "db \<Rightarrow> db \<Rightarrow> bool" where
  db_skip: "db_step d d"
| db_add_group: "n \<notin> Some ` set (db_group_names d) \<or> n = Some [] \<Longrightarrow> db_step d (spec_add_group n d)"
| db_rename_group: "old \<in> set (db_group_names d) \<Longrightarrow> new \<notin> set (db_group_names d) \<Longrightarrow>
    db_step d (spec_rename_group old new d)"
| db_del_group: "n \<in> set (db_group_names d) \<Longrightarrow> db_step d (spec_del_group n d)"
| db_add_member: "n \<in> set (db_group_names d) \<Longrightarrow> m \<in> set (db_known k d) \<Longrightarrow>
    db_step d (spec_add_member k n m d)"
| db_del_member: "n \<in> set (db_group_names d) \<Longrightarrow> db_step d (spec_del_member k n m d)"
| db_add_host: "h \<notin> set (db_hosts d) \<Longrightarrow> db_step d (spec_add_host h d)"
| db_rename_host: "old \<in> set (db_hosts d) \<Longrightarrow> new \<notin> set (db_hosts d) \<Longrightarrow>
    db_step d (spec_rename_host old new d)"
| db_del_host: "h \<in> set (db_hosts d) \<Longrightarrow> db_step d (spec_del_host h d)"
| db_add_target: "t \<notin> set (db_targets d) \<Longrightarrow> db_step d (spec_add_target t d)"
| db_rename_target: "old \<in> set (db_targets d) \<Longrightarrow> new \<notin> set (db_targets d) \<Longrightarrow>
    db_step d (spec_rename_target old new d)"
| db_del_target: "t \<in> set (db_targets d) \<Longrightarrow> db_step d (spec_del_target t d)"

text \<open>The abstract operations keep the invariant.\<close>

lemma db_inv_add_host: "db_inv d \<Longrightarrow> h \<notin> set (db_hosts d) \<Longrightarrow> db_inv (spec_add_host h d)"
  by (auto simp: spec_add_host_def db_inv_def db_group_names_def group_inv_def list_all_iff)

lemma db_inv_add_target:
  "db_inv d \<Longrightarrow> t \<notin> set (db_targets d) \<Longrightarrow> db_inv (spec_add_target t d)"
  by (auto simp: spec_add_target_def db_inv_def db_group_names_def group_inv_def list_all_iff)

lemma group_names_map:
  "(\<And>g. fst (f g) = fst g) \<Longrightarrow> List.map_filter fst (map f gs) = List.map_filter fst gs"
  by (induction gs) (simp_all add: map_filter_Cons split: option.split)

lemma db_inv_map_groups:
  assumes "db_inv d" "db_groups d' = map f (db_groups d)" "\<And>g. fst (f g) = fst g"
    and "distinct (db_hosts d')" "distinct (db_targets d')"
    and "\<And>g. group_inv d g \<Longrightarrow> group_inv d' (f g)"
  shows "db_inv d'"
  using assms by (auto simp: db_inv_def db_group_names_def group_names_map list_all_iff)

lemma replace1_subset:
  "distinct xs \<Longrightarrow> distinct ys \<Longrightarrow> set xs \<subseteq> set ys \<Longrightarrow> old \<in> set ys \<Longrightarrow>
     set (replace1 old new xs) \<subseteq> set (replace1 old new ys)"
  by (auto simp: set_replace1)

lemma db_inv_rename_host:
  assumes "db_inv d" "new \<notin> set (db_hosts d)" "old \<in> set (db_hosts d)"
  shows "db_inv (spec_rename_host old new d)"
proof (rule db_inv_map_groups [OF assms(1)])
  show "db_groups (spec_rename_host old new d) =
      map (\<lambda>(n, hs, ts). (n, replace1 old new hs, ts)) (db_groups d)"
    by (simp add: spec_rename_host_def)
  fix g assume "group_inv d g"
  then show "group_inv (spec_rename_host old new d)
      (case g of (n, hs, ts) \<Rightarrow> (n, replace1 old new hs, ts))"
    using assms replace1_subset [of _ "db_hosts d" old new]
    by (auto simp: group_inv_def spec_rename_host_def db_inv_def intro!: distinct_replace1 split: prod.splits)
qed (use assms in \<open>auto simp: spec_rename_host_def db_inv_def intro!: distinct_replace1\<close>)

lemma db_inv_rename_target:
  assumes "db_inv d" "new \<notin> set (db_targets d)" "old \<in> set (db_targets d)"
  shows "db_inv (spec_rename_target old new d)"
proof (rule db_inv_map_groups [OF assms(1)])
  show "db_groups (spec_rename_target old new d) =
      map (\<lambda>(n, hs, ts). (n, hs, replace1 old new ts)) (db_groups d)"
    by (simp add: spec_rename_target_def)
  fix g assume "group_inv d g"
  then show "group_inv (spec_rename_target old new d)
      (case g of (n, hs, ts) \<Rightarrow> (n, hs, replace1 old new ts))"
    using assms replace1_subset [of _ "db_targets d" old new]
    by (auto simp: group_inv_def spec_rename_target_def db_inv_def intro!: distinct_replace1 split: prod.splits)
qed (use assms in \<open>auto simp: spec_rename_target_def db_inv_def intro!: distinct_replace1\<close>)

lemma db_inv_del_host: "db_inv d \<Longrightarrow> db_inv (spec_del_host h d)"
  by (rule db_inv_map_groups [where d = d and f = "\<lambda>(n, hs, ts). (n, remove1 h hs, ts)"])
    (auto simp: db_inv_def spec_del_host_def group_inv_def set_remove1_eq)

lemma db_inv_del_target: "db_inv d \<Longrightarrow> db_inv (spec_del_target t d)"
  by (rule db_inv_map_groups [where d = d and f = "\<lambda>(n, hs, ts). (n, hs, remove1 t ts)"])
    (auto simp: db_inv_def spec_del_target_def group_inv_def set_remove1_eq)

lemma nonempty_replace1:
  "distinct (nonempty_names ns) \<Longrightarrow> new \<notin> set ns \<Longrightarrow> distinct (nonempty_names (replace1 old new ns))"
  by (induction ns) (auto simp: nonempty_names_def dest: set_replace1_subset [THEN subsetD])

lemma nonempty_remove1: "distinct (nonempty_names ns) \<Longrightarrow> distinct (nonempty_names (remove1 n ns))"
  by (simp add: nonempty_names_def filter_remove1)

lemma nonempty_append:
  "distinct (nonempty_names ns) \<Longrightarrow> n \<notin> set ns \<or> n = [] \<Longrightarrow> distinct (nonempty_names (ns @ [n]))"
  by (auto simp: nonempty_names_def)

lemma names_update_named:
  "(\<And>g. fst (f g) = fst g) \<Longrightarrow> List.map_filter fst (update_named n f gs) = List.map_filter fst gs"
  by (induction gs) (simp_all add: map_filter_Cons split: option.split)

lemma names_rename_named:
  "(\<And>g. fst (f g) = Some new) \<Longrightarrow>
     List.map_filter fst (update_named old f gs) = replace1 old new (List.map_filter fst gs)"
  by (induction gs) (auto simp: map_filter_Cons split: option.split)

lemma names_remove_named: "List.map_filter fst (remove_named n gs) = remove1 n (List.map_filter fst gs)"
  by (induction gs) (auto simp: map_filter_Cons split: option.split)

lemma list_all_update_named: "list_all P gs \<Longrightarrow> (\<And>g. P g \<Longrightarrow> P (f g)) \<Longrightarrow> list_all P (update_named n f gs)"
  by (induction gs) auto

lemma list_all_remove_named: "list_all P gs \<Longrightarrow> list_all P (remove_named n gs)"
  by (induction gs) auto

lemma fst_map_members [simp]: "fst (map_members k f g) = fst g"
  by (cases "(k, f, g)" rule: map_members.cases) simp_all

lemma group_inv_groups [simp]: "group_inv (d\<lparr>db_groups := gs\<rparr>) = group_inv d"
  by (simp add: group_inv_def fun_eq_iff)

lemma db_inv_set_groups:
  "db_inv d \<Longrightarrow> distinct (nonempty_names (List.map_filter fst gs)) \<Longrightarrow> list_all (group_inv d) gs \<Longrightarrow> db_inv (d\<lparr>db_groups := gs\<rparr>)"
  by (simp add: db_inv_def db_group_names_def)

lemma db_inv_names: "db_inv d \<Longrightarrow> distinct (nonempty_names (List.map_filter fst (db_groups d)))"
  and db_inv_all: "db_inv d \<Longrightarrow> list_all (group_inv d) (db_groups d)"
  by (simp_all add: db_inv_def db_group_names_def)

lemma group_inv_members:
  assumes "group_inv d g"
    and "\<And>ms. distinct ms \<Longrightarrow> set ms \<subseteq> set (db_known k d) \<Longrightarrow> distinct (f ms) \<and> set (f ms) \<subseteq> set (db_known k d)"
  shows "group_inv d (map_members k f g)"
  using assms by (cases "(k, f, g)" rule: map_members.cases) (simp_all add: group_inv_def)

theorem db_step_inv: "db_step d d' \<Longrightarrow> db_inv d \<Longrightarrow> db_inv d'"
proof (induction rule: db_step.induct)
  case (db_add_group n d)
  then show ?case
    unfolding spec_add_group_def
    by (intro db_inv_set_groups)
      (auto simp: db_inv_names db_inv_all db_group_names_def map_filter_Cons group_inv_def intro!: nonempty_append split: option.split)
next
  case (db_rename_group old d new)
  then show ?case
    unfolding spec_rename_group_def
    by (intro db_inv_set_groups list_all_update_named)
      (auto simp: db_inv_all db_inv_names names_rename_named db_group_names_def group_inv_def split_beta intro!: nonempty_replace1)
next
  case (db_del_group n d)
  then show ?case
    unfolding spec_del_group_def
    by (intro db_inv_set_groups list_all_remove_named)
      (auto simp: db_inv_all db_inv_names names_remove_named nonempty_remove1)
next
  case (db_add_member n d m k)
  then show ?case
    unfolding spec_add_member_def
    by (intro db_inv_set_groups list_all_update_named group_inv_members)
      (auto simp: db_inv_all db_inv_names names_update_named)
next
  case (db_del_member n d k m)
  then show ?case
    unfolding spec_del_member_def
    by (intro db_inv_set_groups list_all_update_named group_inv_members)
      (auto simp: db_inv_all db_inv_names names_update_named dest: notin_set_remove1 set_remove1_subset [THEN subsetD])
qed (simp_all add: db_inv_add_host db_inv_add_target db_inv_rename_host db_inv_rename_target
      db_inv_del_host db_inv_del_target)

text \<open>An element found by name among the groups is the one the database operations change.\<close>

lemma named_split:
  assumes "\<forall>g\<in>set gs. fst g \<noteq> Some n" "fst g = Some n"
  shows "update_named n f (gs @ g # hs) = gs @ f g # hs" "remove_named n (gs @ g # hs) = gs @ hs"
  using assms by (induction gs) simp_all

lemma map_named:
  assumes "first_match (\<lambda>x. fst (v x) = Some n) 0 xs = Some (i, x)"
  shows "v y = f (v x) \<Longrightarrow> map v (xs[i := y]) = update_named n f (map v xs)"
    and "map v (remove_at i xs) = remove_named n (map v xs)"
proof -
  note m = first_match_0_SomeD [OF assms]
  have pre: "\<forall>g\<in>set (map v (take i xs)). fst g \<noteq> Some n"
    using m(1,4) by (auto simp: in_set_conv_nth)
  have xs: "map v xs = map v (take i xs) @ v x # map v (drop (Suc i) xs)"
    using m(1,2) id_take_nth_drop [of i xs] by (metis list.simps(9) map_append)
  show "v y = f (v x) \<Longrightarrow> map v (xs[i := y]) = update_named n f (map v xs)"
    unfolding xs using m(1,3) by (simp add: named_split [OF pre] upd_conv_take_nth_drop)
  show "map v (remove_at i xs) = remove_named n (map v xs)"
    unfolding xs using m(3) by (simp add: named_split [OF pre] remove_at_def)
qed

section \<open>The abstraction of a document\<close>

definition coll_elems :: "'j jansson \<Rightarrow> 'j \<Rightarrow> string \<Rightarrow> 'j list" where
  "coll_elems J root tag = (case json_object_get J root tag of None \<Rightarrow> [] | Some a \<Rightarrow> json_elems J a)"

definition coll_names :: "'j jansson \<Rightarrow> 'j \<Rightarrow> string \<Rightarrow> string \<Rightarrow> string list" where
  "coll_names J root tag key = (case json_object_get J root tag of None \<Rightarrow> [] | Some a \<Rightarrow> json_names J key a)"

definition member_list :: "'j jansson \<Rightarrow> 'j \<Rightarrow> string \<Rightarrow> string list" where
  "member_list J x tag = (case json_object_get J x tag of None \<Rightarrow> [] | Some a \<Rightarrow> json_strings J a)"

definition group_view :: "'j jansson \<Rightarrow> 'j \<Rightarrow> group_view" where
  "group_view J x = (json_member_string J TAG_NAME x, member_list J x TAG_HOSTS, member_list J x TAG_TARGETS)"

definition abs_db :: "'j jansson \<Rightarrow> 'j \<Rightarrow> db" where
  "abs_db J root =
     \<lparr>db_groups = map (group_view J) (coll_elems J root TAG_GROUPS),
      db_hosts = coll_names J root TAG_HOSTS TAG_ALIAS,
      db_targets = coll_names J root TAG_TARGETS TAG_ALIAS\<rparr>"

text \<open>The shape of a document: collections and member lists are arrays where they are present.\<close>

definition array_or_absent :: "'j jansson \<Rightarrow> 'j \<Rightarrow> string \<Rightarrow> bool" where
  "array_or_absent J x tag = (case json_object_get J x tag of None \<Rightarrow> True | Some a \<Rightarrow> json_is_array J a)"

definition group_wf :: "'j jansson \<Rightarrow> 'j \<Rightarrow> bool" where
  "group_wf J x = (array_or_absent J x TAG_HOSTS \<and> array_or_absent J x TAG_TARGETS)"

definition store_wf :: "'j jansson \<Rightarrow> 'j \<Rightarrow> bool" where
  "store_wf J root =
     (json_is_object J root \<and> array_or_absent J root TAG_GROUPS \<and> array_or_absent J root TAG_HOSTS \<and>
      array_or_absent J root TAG_TARGETS \<and> list_all (group_wf J) (coll_elems J root TAG_GROUPS))"

definition store_inv :: "'j jansson \<Rightarrow> 'j \<Rightarrow> bool" where
  "store_inv J root = (store_wf J root \<and> db_inv (abs_db J root))"

context jansson_api
begin

lemma store_wf_object: "store_wf J root \<Longrightarrow> json_is_object J root"
  by (simp add: store_wf_def)

lemma store_wf_array:
  "store_wf J root \<Longrightarrow> tag \<in> {TAG_GROUPS, TAG_HOSTS, TAG_TARGETS} \<Longrightarrow>
     json_object_get J root tag = Some a \<Longrightarrow> json_is_array J a"
  by (auto simp: store_wf_def array_or_absent_def)

lemma store_wf_set_coll:
  assumes "store_wf J root" "tag = TAG_HOSTS \<or> tag = TAG_TARGETS" "json_is_array J a"
  shows "store_wf J (json_object_set_new J root tag a)"
  using assms by (auto simp: store_wf_def array_or_absent_def coll_elems_def)

lemma store_wf_set_groups:
  assumes "store_wf J root" "json_is_array J a" "list_all (group_wf J) (json_elems J a)"
  shows "store_wf J (json_object_set_new J root TAG_GROUPS a)"
  using assms by (auto simp: store_wf_def array_or_absent_def coll_elems_def)

lemma abs_set_hosts:
  "json_is_object J root \<Longrightarrow> abs_db J (json_object_set_new J root TAG_HOSTS a) =
     (abs_db J root)\<lparr>db_hosts := json_names J TAG_ALIAS a\<rparr>"
  by (simp add: abs_db_def coll_elems_def coll_names_def)

lemma abs_set_targets:
  "json_is_object J root \<Longrightarrow> abs_db J (json_object_set_new J root TAG_TARGETS a) =
     (abs_db J root)\<lparr>db_targets := json_names J TAG_ALIAS a\<rparr>"
  by (simp add: abs_db_def coll_elems_def coll_names_def)

lemma abs_set_groups:
  "json_is_object J root \<Longrightarrow> abs_db J (json_object_set_new J root TAG_GROUPS a) =
     (abs_db J root)\<lparr>db_groups := map (group_view J) (json_elems J a)\<rparr>"
  by (simp add: abs_db_def coll_elems_def coll_names_def)

lemmas abs_set = abs_set_hosts abs_set_targets abs_set_groups

lemma abs_sel:
  "json_object_get J root TAG_GROUPS = Some a \<Longrightarrow> db_groups (abs_db J root) = map (group_view J) (json_elems J a)"
  "json_object_get J root TAG_HOSTS = Some a \<Longrightarrow> db_hosts (abs_db J root) = json_names J TAG_ALIAS a"
  "json_object_get J root TAG_TARGETS = Some a \<Longrightarrow> db_targets (abs_db J root) = json_names J TAG_ALIAS a"
  by (simp_all add: abs_db_def coll_elems_def coll_names_def)

lemma abs_group_names:
  "json_object_get J root TAG_GROUPS = Some a \<Longrightarrow> db_group_names (abs_db J root) = json_names J TAG_NAME a"
proof -
  have "List.map_filter fst (map (group_view J) xs) = List.map_filter (json_member_string J TAG_NAME) xs" for xs
    by (induction xs) (simp_all add: map_filter_Cons group_view_def split: option.split)
  then show "json_object_get J root TAG_GROUPS = Some a \<Longrightarrow> ?thesis"
    by (simp add: db_group_names_def abs_sel json_names_def)
qed

text \<open>Replacing one group by another at its index.\<close>

lemma groups_all_set:
  "list_all P (json_elems J a) \<Longrightarrow> i < json_array_size J a \<Longrightarrow> P y \<Longrightarrow>
     list_all P (json_elems J (json_array_set J a i y))"
  by (simp add: list_all_iff) (metis insertE set_update_subset_insert subsetD)

lemma groups_wf: "store_wf J root \<Longrightarrow> json_object_get J root TAG_GROUPS = Some a \<Longrightarrow>
   list_all (group_wf J) (json_elems J a)"
  by (simp add: store_wf_def coll_elems_def)

text \<open>Missing collections are created empty and mean the same.\<close>

lemma get_or_create:
  assumes "store_wf J root" "tag \<in> {TAG_GROUPS, TAG_HOSTS, TAG_TARGETS}"
  obtains root' a where "get_or_create_array J root tag = Inr (root', a)" "json_is_array J a"
    "store_wf J root'" "abs_db J root' = abs_db J root" "json_object_get J root' tag = Some a"
proof (cases "json_object_get J root tag")
  case (Some a)
  with assms show ?thesis
    by (intro that [of root a]) (auto simp: get_or_create_array_def dest: store_wf_array)
next
  case None
  let ?r = "json_object_set_new J root tag (json_array J)"
  have "store_wf J ?r"
    using assms None store_wf_set_coll store_wf_set_groups by auto
  moreover have "abs_db J ?r = abs_db J root"
    using assms(2) None store_wf_object [OF assms(1)]
    by (auto simp: abs_set) (simp_all add: abs_db_def coll_elems_def coll_names_def)
  ultimately show ?thesis
    using None store_wf_object [OF assms(1)]
    by (intro that [of ?r "json_array J"]) (auto simp: get_or_create_array_def)
qed

text \<open>A change inside a target that keeps its alias does not show in the database.\<close>

lemma put_target_frame:
  assumes "store_wf J root" "json_object_get J root TAG_TARGETS = Some targets"
    and "find_array J targets TAG_ALIAS v = Some (i, tgt)"
    and "json_member_string J TAG_ALIAS tgt' = json_member_string J TAG_ALIAS tgt"
  shows "store_wf J (put_target J root targets i tgt')"
    and "abs_db J (put_target J root targets i tgt') = abs_db J root"
proof -
  note f = find_array_SomeD [OF assms(3)]
  show "store_wf J (put_target J root targets i tgt')"
    using assms(1) f(4) by (simp add: put_target_def store_wf_set_coll)
  have "json_names J TAG_ALIAS (json_array_set J targets i tgt') = json_names J TAG_ALIAS targets"
    using f assms(4) by (simp add: names_set_same)
  then show "abs_db J (put_target J root targets i tgt') = abs_db J root"
    using assms(1,2) by (simp add: put_target_def abs_set store_wf_object abs_sel(3) [symmetric])
qed

end

end
