(* ===== verification/Json_Refine.thy ===== *)
theory Json_Refine
  imports Json_Store
begin

text \<open>
  Refinement of the abstract database: what each operation of the JSON configuration does to it.
  Operations below a target leave it unchanged; the others are described by the abstract
  operations of \<open>Json_Store\<close>.
\<close>

definition same_db :: "'j jansson \<Rightarrow> 'j \<Rightarrow> 'j \<Rightarrow> bool" where
  "same_db J root root' = (store_wf J root' \<and> abs_db J root' = abs_db J root)"

context jansson_api
begin

lemma same_db_refl [simp]: "store_wf J root \<Longrightarrow> same_db J root root"
  by (simp add: same_db_def)

lemma same_db_put [intro]:
  assumes "store_wf J root" "json_object_get J root TAG_TARGETS = Some targets"
    and "find_array J targets TAG_ALIAS v = Some (i, tgt)"
    and "json_member_string J TAG_ALIAS tgt' = json_member_string J TAG_ALIAS tgt"
  shows "same_db J root (put_target J root targets i tgt')"
  using put_target_frame [OF assms] by (simp add: same_db_def)

lemma same_db_inv: "same_db J root root' \<Longrightarrow> store_inv J root \<Longrightarrow> store_inv J root'"
  by (simp add: same_db_def store_inv_def)

lemma get_array_member [simp]:
  "json_get_array J x y = (x', r) \<Longrightarrow> tag \<noteq> y \<Longrightarrow> json_member_string J tag x' = json_member_string J tag x"
  by (auto simp: json_get_array_def split: if_splits option.splits)

lemma get_array_object:
  "json_get_array J x y = (x', r) \<Longrightarrow> json_is_object J x' = json_is_object J x"
  by (auto simp: json_get_array_def split: if_splits option.splits)

lemma found_object: "find_array J a tag v = Some (i, x) \<Longrightarrow> json_is_object J x"
  by (rule find_array_SomeD(5))

lemma del_json_subsys_frame:
  "store_wf J root \<Longrightarrow> del_json_subsys J root alias nqn = (root', ret, msg) \<Longrightarrow> same_db J root root'"
  by (auto simp: del_json_subsys_def del_from_array_def put_target_def [symmetric] ENOENT_def
      split: option.splits prod.splits if_splits intro!: same_db_put)

lemma del_json_portid_frame:
  "store_wf J root \<Longrightarrow> del_json_portid J root alias pid = (root', ret, msg) \<Longrightarrow> same_db J root root'"
  by (auto simp: del_json_portid_def del_int_from_array_def put_target_def [symmetric] ENOENT_def
      split: option.splits prod.splits if_splits intro!: same_db_put)

lemma del_json_ns_frame:
  "store_wf J root \<Longrightarrow> del_json_ns J root alias nqn ns = (root', ret, msg) \<Longrightarrow> same_db J root root'"
  by (auto simp: del_json_ns_def
      split: option.splits prod.splits if_splits intro!: same_db_put)

lemma set_json_subsys_frame:
  "store_wf J root \<Longrightarrow> set_json_subsys J root alias nqn data = Inr ((root', ret, msg), out) \<Longrightarrow>
     same_db J root root'"
  by (auto simp: set_json_subsys_def Let_def
      split: option.splits prod.splits if_splits sum.splits intro!: same_db_put
     )

lemma set_json_portid_frame:
  "store_wf J root \<Longrightarrow> set_json_portid J root alias pid data = Inr ((root', ret, msg), out) \<Longrightarrow>
     same_db J root root'"
  by (auto simp: set_json_portid_def Let_def
      split: option.splits prod.splits if_splits intro!: same_db_put)

lemma set_json_ns_frame:
  "store_wf J root \<Longrightarrow> set_json_ns J root alias nqn data = ((root', ret, msg), out) \<Longrightarrow>
     same_db J root root'"
  by (auto simp: set_json_ns_def Let_def
      split: option.splits prod.splits if_splits intro!: same_db_put)

lemma set_json_acl_frame:
  "store_wf J root \<Longrightarrow> set_json_acl J root tgt nqn alias data = Inr ((root', ret, msg), out) \<Longrightarrow>
     same_db J root root'"
  by (auto simp: set_json_acl_def Let_def
      split: option.splits prod.splits if_splits intro!: same_db_put)

lemma del_json_acl_frame:
  "store_wf J root \<Longrightarrow> del_json_acl J root tgt nqn host = (root', ret, msg) \<Longrightarrow> same_db J root root'"
  by (auto simp: del_json_acl_def Let_def
      split: option.splits prod.splits if_splits intro!: same_db_put)

lemma reset_array_member [simp]:
  "reset_array J x y = (x', a) \<Longrightarrow> tag \<noteq> y \<Longrightarrow> json_member_string J tag x' = json_member_string J tag x"
  by (auto simp: reset_array_def split: prod.splits option.splits)

lemma set_json_inb_nsdev_frame:
  "store_wf J root \<Longrightarrow> set_json_inb_nsdev J root alias d n = (root', ret) \<Longrightarrow> same_db J root root'"
  by (auto simp: set_json_inb_nsdev_def split: option.splits prod.splits intro!: same_db_put)

lemma init_json_inb_fabric_iface_frame:
  "store_wf J root \<Longrightarrow> init_json_inb_fabric_iface J root alias = (root', ret) \<Longrightarrow> same_db J root root'"
  using reset_array_member [OF prod.collapse [symmetric]]
  by (auto simp: init_json_inb_fabric_iface_def split: option.splits prod.splits intro!: same_db_put)

lemma set_json_inb_fabric_iface_frame:
  "store_wf J root \<Longrightarrow> set_json_inb_fabric_iface J root alias t f ad = (root', ret) \<Longrightarrow>
     same_db J root root'"
  by (auto simp: set_json_inb_fabric_iface_def split: option.splits prod.splits intro!: same_db_put)

lemma set_json_oob_nsdevs_frame:
  "store_wf J root \<Longrightarrow> set_json_oob_nsdevs J root alias devs data = Inr (root', devs', ret) \<Longrightarrow>
     same_db J root root'"
  by (auto simp: set_json_oob_nsdevs_def Let_def split: option.splits prod.splits if_splits
      intro!: same_db_put)

lemma set_json_oob_interfaces_frame:
  "store_wf J root \<Longrightarrow> set_json_oob_interfaces J root alias fs data = Inr (root', fs', ret) \<Longrightarrow>
     same_db J root root'"
  by (auto simp: set_json_oob_interfaces_def Let_def split: option.splits prod.splits if_splits
      intro!: same_db_put)

lemma set_json_inb_interface_frame:
  "store_wf J root \<Longrightarrow> set_json_inb_interface J root alias data resp = Inr ((root', ret, msg), out) \<Longrightarrow>
     same_db J root root'"
  by (auto simp: set_json_inb_interface_def split: option.splits prod.splits intro!: same_db_put)

lemma set_json_oob_interface_frame:
  "store_wf J root \<Longrightarrow> set_json_oob_interface J root alias data resp = Inr ((root', ret, msg), out) \<Longrightarrow>
     same_db J root root'"
  by (auto simp: set_json_oob_interface_def Let_def split: option.splits prod.splits intro!: same_db_put)

section \<open>Walks over all groups\<close>

lemma map_groups_wf:
  assumes "store_wf J root" "json_object_get J root TAG_GROUPS = Some groups"
    and "\<And>x y. f x = Some y \<Longrightarrow> group_wf J x \<Longrightarrow> group_wf J y"
  shows "store_wf J (json_object_set_new J root TAG_GROUPS (json_array_map J f groups))"
proof -
  have "list_all (group_wf J) (json_elems J (json_array_map J f groups))"
    using groups_wf [OF assms(1,2)] assms(3)
    by (auto simp: elems_array_map list_all_iff split: option.splits)
  then show ?thesis
    using assms(1,2) store_wf_array [OF assms(1) _ assms(2)]
    by (intro store_wf_set_groups) (simp_all add: is_array_array_map)
qed

lemma map_groups_abs:
  assumes "store_wf J root" "json_object_get J root TAG_GROUPS = Some groups"
    and "\<And>x. group_view J (case f x of None \<Rightarrow> x | Some y \<Rightarrow> y) = v (group_view J x)"
  shows "abs_db J (json_object_set_new J root TAG_GROUPS (json_array_map J f groups)) =
           (abs_db J root)\<lparr>db_groups := map v (db_groups (abs_db J root))\<rparr>"
  using assms by (simp add: abs_set store_wf_object abs_sel elems_array_map comp_def)

lemma member_list_set [simp]:
  "json_is_object J x \<Longrightarrow> member_list J (json_object_set_new J x k a) tag =
     (if tag = k then json_strings J a else member_list J x tag)"
  by (simp add: member_list_def)

lemma rename_member_list:
  assumes "rename_member J tag old new x = Some y" "json_string J (Some new) \<noteq> None"
  shows "member_list J y tag = replace1 old new (member_list J x tag)"
    and "tag' \<noteq> tag \<Longrightarrow> member_list J y tag' = member_list J x tag'"
    and "tag' \<noteq> tag \<Longrightarrow> json_member_string J tag' y = json_member_string J tag' x"
    and "group_wf J x \<Longrightarrow> group_wf J y"
proof -
  obtain array j item where a: "json_object_get J x tag = Some array"
    "find_array_string J array old = Some (j, item)"
    and y: "y = json_object_set_new J x tag (json_array_set J array j (json_string_set J item (Some new)))"
    using assms(1) by (auto simp: rename_member_def split: option.splits)
  note x = is_object_get [OF a(1)] and f = find_array_string_SomeD [OF a(2)]
  have "json_string_value J (json_string_set J item (Some new)) = Some new"
    using f(3) assms(2) by (simp add: string_value_set string_value_is_string)
  then show "member_list J y tag = replace1 old new (member_list J x tag)"
    using strings_found_set [OF a(2)] x a(1) unfolding y by (simp add: member_list_def)
  show "tag' \<noteq> tag \<Longrightarrow> member_list J y tag' = member_list J x tag'"
    and "tag' \<noteq> tag \<Longrightarrow> json_member_string J tag' y = json_member_string J tag' x"
    using x unfolding y by simp_all
  show "group_wf J x \<Longrightarrow> group_wf J y"
    using x a(1) f(4) unfolding y by (auto simp: group_wf_def array_or_absent_def split: option.splits)
qed

lemma rename_member_None:
  "rename_member J tag old new x = None \<Longrightarrow> replace1 old new (member_list J x tag) = member_list J x tag"
  by (auto simp: rename_member_def member_list_def find_array_string_None_iff split: option.splits)

lemma delete_member_list:
  assumes "delete_member J tag old x = Some y"
  shows "member_list J y tag = remove1 old (member_list J x tag)"
    and "tag' \<noteq> tag \<Longrightarrow> member_list J y tag' = member_list J x tag'"
    and "tag' \<noteq> tag \<Longrightarrow> json_member_string J tag' y = json_member_string J tag' x"
    and "group_wf J x \<Longrightarrow> group_wf J y"
proof -
  obtain array j item where a: "json_object_get J x tag = Some array"
    "find_array_string J array old = Some (j, item)"
    and y: "y = json_object_set_new J x tag (json_array_remove J array j)"
    using assms(1) by (auto simp: delete_member_def split: option.splits)
  note x = is_object_get [OF a(1)] and f = find_array_string_SomeD [OF a(2)]
  show "member_list J y tag = remove1 old (member_list J x tag)"
    using strings_found_remove [OF a(2)] x a(1) unfolding y by (simp add: member_list_def)
  show "tag' \<noteq> tag \<Longrightarrow> member_list J y tag' = member_list J x tag'"
    and "tag' \<noteq> tag \<Longrightarrow> json_member_string J tag' y = json_member_string J tag' x"
    using x unfolding y by simp_all
  show "group_wf J x \<Longrightarrow> group_wf J y"
    using x a(1) f(4) unfolding y by (auto simp: group_wf_def array_or_absent_def split: option.splits)
qed

lemma delete_member_None:
  "delete_member J tag old x = None \<Longrightarrow> remove1 old (member_list J x tag) = member_list J x tag"
  by (auto simp: delete_member_def member_list_def find_array_string_None_iff remove1_idem
      split: option.splits)

end

end
