(* ===== verification/Json_Database.thy ===== *)
theory Json_Database
  imports Json_Refine
begin

text \<open>
  Groups, hosts and targets as transactions on the abstract database of \<open>Json_Store\<close>: each
  operation of \<^verbatim>\<open>src/src/dem/json.c\<close> that adds, renames or deletes one of them is described by what
  it does to the database, on success and on every error.
\<close>

text \<open>The name an entry gets: none when the library refuses the string.\<close>

definition stored_name :: "'j jansson \<Rightarrow> string \<Rightarrow> string option" where
  "stored_name J s = (if json_string J (Some s) = None then None else Some s)"

fun kind_tag :: "member_kind \<Rightarrow> string" where
  "kind_tag Host_Member = TAG_HOSTS"
| "kind_tag Target_Member = TAG_TARGETS"

text \<open>The effect of renaming or adding an entry: the same for hosts and targets.\<close>

definition entry_change ::
  "(string \<Rightarrow> db \<Rightarrow> db) \<Rightarrow> (string \<Rightarrow> string \<Rightarrow> db \<Rightarrow> db) \<Rightarrow> string list \<Rightarrow> string option \<Rightarrow> string \<Rightarrow> db \<Rightarrow> db \<Rightarrow> bool"
where
  "entry_change add ren known old alias d d' =
     (case old of
        None \<Rightarrow> alias \<notin> set known \<and> d' = add alias d
      | Some h \<Rightarrow> h \<in> set known \<and>
          (if alias = h then d' = d else alias \<notin> set known \<and> d' = ren h alias d))"

context jansson_api
begin

section \<open>The walks that follow a rename or a deletion\<close>

lemma groups_absent: "json_object_get J root TAG_GROUPS = None \<Longrightarrow> db_groups (abs_db J root) = []"
  by (simp add: abs_db_def coll_elems_def)

lemma rename_member_view:
  assumes "json_string J (Some new) \<noteq> None"
  shows "group_view J (case rename_member J TAG_HOSTS old new x of None \<Rightarrow> x | Some y \<Rightarrow> y) =
           (\<lambda>(n, hs, ts). (n, replace1 old new hs, ts)) (group_view J x)"
    and "group_view J (case rename_member J TAG_TARGETS old new x of None \<Rightarrow> x | Some y \<Rightarrow> y) =
           (\<lambda>(n, hs, ts). (n, hs, replace1 old new ts)) (group_view J x)"
  using assms
  by (auto simp: group_view_def rename_member_None rename_member_list split: option.splits)

lemma delete_member_view:
  "group_view J (case delete_member J TAG_HOSTS old x of None \<Rightarrow> x | Some y \<Rightarrow> y) =
     (\<lambda>(n, hs, ts). (n, remove1 old hs, ts)) (group_view J x)"
  "group_view J (case delete_member J TAG_TARGETS old x of None \<Rightarrow> x | Some y \<Rightarrow> y) =
     (\<lambda>(n, hs, ts). (n, hs, remove1 old ts)) (group_view J x)"
  by (auto simp: group_view_def delete_member_None delete_member_list split: option.splits)

lemma rename_in_groups_abs:
  assumes "store_wf J root" "json_string J (Some new) \<noteq> None"
  shows "store_wf J (rename_in_groups J root tag old new)"
    and "abs_db J (rename_in_groups J root TAG_HOSTS old new) =
      (abs_db J root)\<lparr>db_groups := map (\<lambda>(n, hs, ts). (n, replace1 old new hs, ts)) (db_groups (abs_db J root))\<rparr>"
    and "abs_db J (rename_in_groups J root TAG_TARGETS old new) =
      (abs_db J root)\<lparr>db_groups := map (\<lambda>(n, hs, ts). (n, hs, replace1 old new ts)) (db_groups (abs_db J root))\<rparr>"
proof -
  note wf = rename_member_list(4) [OF _ assms(2)]
  show "store_wf J (rename_in_groups J root tag old new)"
    using assms map_groups_wf [OF assms(1)] wf by (auto simp: rename_in_groups_def split: option.splits)
  show "abs_db J (rename_in_groups J root TAG_HOSTS old new) =
      (abs_db J root)\<lparr>db_groups := map (\<lambda>(n, hs, ts). (n, replace1 old new hs, ts)) (db_groups (abs_db J root))\<rparr>"
    using map_groups_abs [OF assms(1) _ rename_member_view(1) [OF assms(2), where old = old]]
    by (auto simp: rename_in_groups_def groups_absent split: option.splits)
  show "abs_db J (rename_in_groups J root TAG_TARGETS old new) =
      (abs_db J root)\<lparr>db_groups := map (\<lambda>(n, hs, ts). (n, hs, replace1 old new ts)) (db_groups (abs_db J root))\<rparr>"
    using map_groups_abs [OF assms(1) _ rename_member_view(2) [OF assms(2), where old = old]]
    by (auto simp: rename_in_groups_def groups_absent split: option.splits)
qed

lemma del_from_groups_abs:
  assumes "store_wf J root"
  shows "store_wf J (del_from_groups J root tag old)"
    and "abs_db J (del_from_groups J root TAG_HOSTS old) =
      (abs_db J root)\<lparr>db_groups := map (\<lambda>(n, hs, ts). (n, remove1 old hs, ts)) (db_groups (abs_db J root))\<rparr>"
    and "abs_db J (del_from_groups J root TAG_TARGETS old) =
      (abs_db J root)\<lparr>db_groups := map (\<lambda>(n, hs, ts). (n, hs, remove1 old ts)) (db_groups (abs_db J root))\<rparr>"
proof -
  show "store_wf J (del_from_groups J root tag old)"
    using assms map_groups_wf [OF assms(1)] delete_member_list(4)
    by (auto simp: del_from_groups_def split: option.splits)
  show "abs_db J (del_from_groups J root TAG_HOSTS old) =
      (abs_db J root)\<lparr>db_groups := map (\<lambda>(n, hs, ts). (n, remove1 old hs, ts)) (db_groups (abs_db J root))\<rparr>"
    using map_groups_abs [OF assms(1) _ delete_member_view(1) [where old = old]]
    by (auto simp: del_from_groups_def groups_absent split: option.splits)
  show "abs_db J (del_from_groups J root TAG_TARGETS old) =
      (abs_db J root)\<lparr>db_groups := map (\<lambda>(n, hs, ts). (n, hs, remove1 old ts)) (db_groups (abs_db J root))\<rparr>"
    using map_groups_abs [OF assms(1) _ delete_member_view(2) [where old = old]]
    by (auto simp: del_from_groups_def groups_absent split: option.splits)
qed

lemma rename_in_allowed_hosts_frame:
  assumes "store_wf J root"
  shows "same_db J root (rename_in_allowed_hosts J root old new)"
proof (cases "json_object_get J root TAG_TARGETS")
  case None
  then show ?thesis using assms by (simp add: rename_in_allowed_hosts_def)
next
  case (Some targets)
  have "json_names J TAG_ALIAS (json_array_map J (rename_in_target J old new) targets) =
      json_names J TAG_ALIAS targets"
    by (rule names_array_map) (auto simp: rename_in_target_def split: option.splits)
  then show ?thesis
    using assms Some store_wf_array [OF assms _ Some]
    by (simp add: rename_in_allowed_hosts_def same_db_def store_wf_set_coll is_array_array_map
        abs_set store_wf_object abs_sel(3) [symmetric])
qed

lemma del_allowed_target_names:
  assumes "json_is_array J targets"
  shows "json_is_array J (del_allowed_target J alias i targets)"
    and "json_names J TAG_ALIAS (del_allowed_target J alias i targets) = json_names J TAG_ALIAS targets"
  using assms
  by (auto simp: del_allowed_target_def array_get_elems names_set_same split: option.splits if_splits)

lemma del_from_allowed_hosts_frame:
  assumes "store_wf J root"
  shows "same_db J root (del_from_allowed_hosts J root alias)"
proof (cases "json_object_get J root TAG_TARGETS")
  case None
  then show ?thesis using assms by (simp add: del_from_allowed_hosts_def)
next
  case (Some targets)
  have "json_is_array J t \<Longrightarrow> json_is_array J (fold (del_allowed_target J alias) is t) \<and>
      json_names J TAG_ALIAS (fold (del_allowed_target J alias) is t) = json_names J TAG_ALIAS t" for "is" t
    by (induction "is" arbitrary: t) (simp_all add: del_allowed_target_names)
  then show ?thesis
    using assms Some store_wf_array [OF assms _ Some]
    by (simp add: del_from_allowed_hosts_def same_db_def store_wf_set_coll
        abs_set store_wf_object abs_sel(3) [symmetric])
qed

section \<open>Groups\<close>

lemma find_group_iff:
  "json_object_get J root TAG_GROUPS = Some a \<Longrightarrow>
     find_array J a TAG_NAME g = None \<longleftrightarrow> g \<notin> set (db_group_names (abs_db J root))"
  by (simp add: find_array_None_iff abs_group_names)

lemma find_host_iff:
  "json_object_get J root TAG_HOSTS = Some a \<Longrightarrow>
     find_array J a TAG_ALIAS h = None \<longleftrightarrow> h \<notin> set (db_hosts (abs_db J root))"
  by (simp add: find_array_None_iff abs_sel)

lemma find_target_iff:
  "json_object_get J root TAG_TARGETS = Some a \<Longrightarrow>
     find_array J a TAG_ALIAS t = None \<longleftrightarrow> t \<notin> set (db_targets (abs_db J root))"
  by (simp add: find_array_None_iff abs_sel)

lemma find_group_name:
  "json_object_get J root TAG_GROUPS = Some a \<Longrightarrow> find_array J a TAG_NAME g = Some ix \<Longrightarrow>
     g \<in> set (db_group_names (abs_db J root))"
  using find_group_iff [of root a g] by auto

lemma group_view_fst: "(json_member_string J TAG_NAME x = Some n) = (fst (group_view J x) = Some n)"
  by (simp add: group_view_def)

lemma put_group_abs:
  assumes "store_wf J root" "json_object_get J root TAG_GROUPS = Some a"
    and "find_array J a TAG_NAME g = Some (i, x)" "group_wf J x \<Longrightarrow> group_wf J y"
    and "group_view J y = f (group_view J x)"
  shows "store_wf J (json_object_set_new J root TAG_GROUPS (json_array_set J a i y))"
    and "abs_db J (json_object_set_new J root TAG_GROUPS (json_array_set J a i y)) =
           (abs_db J root)\<lparr>db_groups := update_named g f (db_groups (abs_db J root))\<rparr>"
proof -
  note x = find_array_SomeD [OF assms(3)]
  have "group_wf J x"
    using groups_wf [OF assms(1,2)] x(1,2) by (metis length_elems list_all_length)
  then show "store_wf J (json_object_set_new J root TAG_GROUPS (json_array_set J a i y))"
    using assms(1,4) x groups_all_set [OF groups_wf [OF assms(1,2)] x(1)]
    by (intro store_wf_set_groups) auto
  show "abs_db J (json_object_set_new J root TAG_GROUPS (json_array_set J a i y)) =
           (abs_db J root)\<lparr>db_groups := update_named g f (db_groups (abs_db J root))\<rparr>"
    using map_named(1) [OF assms(3) [unfolded find_array_def group_view_fst], where f = f, OF assms(5)] assms(1,2) x(1)
    by (simp add: abs_set store_wf_object abs_sel)
qed

lemma append_group_abs:
  assumes "store_wf J root" "json_object_get J root TAG_GROUPS = Some a" "group_wf J x"
    and "group_view J x = (n, [], [])"
  shows "store_wf J (json_object_set_new J root TAG_GROUPS (json_array_append_new J a x))"
    and "abs_db J (json_object_set_new J root TAG_GROUPS (json_array_append_new J a x)) =
           spec_add_group n (abs_db J root)"
  using assms store_wf_array [OF assms(1) _ assms(2)] groups_wf [OF assms(1,2)]
  by (auto simp: abs_set store_wf_object abs_sel spec_add_group_def intro!: store_wf_set_groups)

lemma new_group_view:
  "group_wf J (json_object_set_new J (json_object_set_new J
      (json_set_string J (json_object J) TAG_NAME (Some g)) TAG_TARGETS (json_array J)) TAG_HOSTS (json_array J))"
  "group_view J (json_object_set_new J (json_object_set_new J
      (json_set_string J (json_object J) TAG_NAME (Some g)) TAG_TARGETS (json_array J)) TAG_HOSTS (json_array J)) =
     (stored_name J g, [], [])"
  "group_wf J (json_object_set_new J (json_object_set_new J
      (json_set_string J (json_object J) TAG_NAME (Some g)) TAG_HOSTS (json_array J)) TAG_TARGETS (json_array J))"
  "group_view J (json_object_set_new J (json_object_set_new J
      (json_set_string J (json_object J) TAG_NAME (Some g)) TAG_HOSTS (json_array J)) TAG_TARGETS (json_array J)) =
     (stored_name J g, [], [])"
  by (simp_all add: group_wf_def array_or_absent_def group_view_def member_list_def stored_name_def
      member_string_set_string_new)

theorem add_json_group_abs:
  assumes "store_wf J root"
  shows "\<exists>root' msg. add_json_group J root g =
           Inr (root', if g \<in> set (db_group_names (abs_db J root)) then - EEXIST else 0, msg) \<and>
         store_wf J root' \<and>
         abs_db J root' = (if g \<in> set (db_group_names (abs_db J root)) then abs_db J root
                           else spec_add_group (stored_name J g) (abs_db J root))"
proof -
  obtain root' a where r: "get_or_create_array J root TAG_GROUPS = Inr (root', a)" "json_is_array J a"
    "store_wf J root'" "abs_db J root' = abs_db J root" "json_object_get J root' TAG_GROUPS = Some a"
    using get_or_create [OF assms, of TAG_GROUPS] by blast
  show ?thesis
    using r append_group_abs [OF r(3,5) new_group_view(1,2)] find_group_iff [OF r(5), of g]
    by (auto simp: add_json_group_def Let_def)
qed

theorem del_json_group_abs:
  assumes "store_wf J root"
  shows "\<exists>root' msg. del_json_group J root g =
           (root', if g \<in> set (db_group_names (abs_db J root)) then 0 else - ENOENT, msg) \<and>
         store_wf J root' \<and>
         abs_db J root' = (if g \<in> set (db_group_names (abs_db J root))
                           then spec_del_group g (abs_db J root) else abs_db J root)"
proof (cases "json_object_get J root TAG_GROUPS")
  case None
  then show ?thesis
    using assms by (simp add: del_json_group_def db_group_names_def groups_absent)
next
  case (Some a)
  show ?thesis
  proof (cases "find_array J a TAG_NAME g")
    case None
    then show ?thesis
      using assms Some find_group_iff [OF Some, of g] by (simp add: del_json_group_def)
  next
    case (Some ix)
    then obtain i x where ix: "find_array J a TAG_NAME g = Some (i, x)" by (cases ix) auto
    have "list_all (group_wf J) (json_elems J (json_array_remove J a i))"
      using groups_wf [OF assms \<open>json_object_get J root TAG_GROUPS = Some a\<close>]
      by (auto simp: elems_remove list_all_iff remove_at_def dest: in_set_takeD in_set_dropD)
    then show ?thesis
      using ix assms \<open>json_object_get J root TAG_GROUPS = Some a\<close> find_array_SomeD(4) [OF ix]
        find_group_name [OF _ ix] map_named(2) [OF ix [unfolded find_array_def group_view_fst]]
      by (simp add: del_json_group_def abs_set store_wf_object abs_sel elems_remove spec_del_group_def
          store_wf_set_groups)
  qed
qed

lemma update_string_name:
  assumes "json_object_get J new tag = Some val" "json_string_value J val = Some s"
    and "json_member_string J tag x = Some old"
  shows "json_member_string J tag (json_update_string J x new tag) = Some s"
proof -
  obtain v where v: "json_object_get J x tag = Some v" "json_string_value J v = Some old"
    and x: "json_is_object J x"
    using member_string_SomeD [OF assms(3)] by blast
  then have "json_is_string J v" by (simp add: string_value_is_string)
  then show ?thesis
    using assms(1,2) x v(1) string_of_value [OF assms(2)]
    by (auto simp: json_update_string_def intro!: member_string_set_string)
qed

lemma update_string_other [simp]:
  "k \<noteq> tag \<Longrightarrow> json_object_get J (json_update_string J x new tag) k = json_object_get J x k"
  by (auto simp: json_update_string_def split: option.splits)

lemma member_list_cong: "json_object_get J x k = json_object_get J y k \<Longrightarrow> member_list J x k = member_list J y k"
  by (simp add: member_list_def)

lemma update_name_group:
  assumes "json_object_get J new TAG_NAME = Some val" "json_string_value J val = Some s"
    and "json_member_string J TAG_NAME x = Some old"
  shows "group_wf J x \<Longrightarrow> group_wf J (json_update_string J x new TAG_NAME)"
    and "group_view J (json_update_string J x new TAG_NAME) = (\<lambda>(_, hs, ts). (Some s, hs, ts)) (group_view J x)"
  using update_string_name [OF assms]
  by (auto simp: group_wf_def array_or_absent_def group_view_def intro: member_list_cong)

lemma update_named_same:
  "(\<And>g. fst g = Some n \<Longrightarrow> f g = g) \<Longrightarrow> update_named n f gs = gs"
  by (induction gs) auto

lemma spec_rename_group_same [simp]: "spec_rename_group n n d = d"
  unfolding spec_rename_group_def by (subst update_named_same) (auto split: prod.splits)

lemma rename_group_abs:
  assumes "store_wf J root" "json_object_get J root TAG_GROUPS = Some a"
    and "find_array J a TAG_NAME g = Some (i, x)"
    and "json_object_get J new TAG_NAME = Some val" "json_string_value J val = Some s"
  shows "store_wf J (json_object_set_new J root TAG_GROUPS
           (json_array_set J a i (json_update_string J x new TAG_NAME)))"
    and "abs_db J (json_object_set_new J root TAG_GROUPS
           (json_array_set J a i (json_update_string J x new TAG_NAME))) =
         spec_rename_group g s (abs_db J root)"
  using put_group_abs [where f = "\<lambda>(_, hs, ts). (Some s, hs, ts)",
      OF assms(1-3) update_name_group [OF assms(4,5) find_array_SomeD(3) [OF assms(3)]]]
  by (simp_all add: spec_rename_group_def)

text \<open>Updating a group: a new one, a rename, or no change of the database.\<close>

theorem update_json_group_abs:
  assumes "store_wf J root" "update_json_group J root grp data = Inr ((root', ret, msg), out)"
  shows "store_wf J root'"
    and "ret = 0 \<Longrightarrow> out \<noteq> None \<and>
           abs_db J root' = (case grp of None \<Rightarrow> spec_add_group out (abs_db J root)
                             | Some g \<Rightarrow> spec_rename_group g (the out) (abs_db J root)) \<and>
           (case grp of None \<Rightarrow> the out \<noteq> [] \<longrightarrow> the out \<notin> set (db_group_names (abs_db J root))
            | Some g \<Rightarrow> g \<in> set (db_group_names (abs_db J root)) \<and>
                (the out = g \<or> the out \<notin> set (db_group_names (abs_db J root))))"
    and "ret \<noteq> 0 \<Longrightarrow> abs_db J root' = abs_db J root"
proof -
  obtain root1 a where r: "get_or_create_array J root TAG_GROUPS = Inr (root1, a)" "json_is_array J a"
    "store_wf J root1" "abs_db J root1 = abs_db J root" "json_object_get J root1 TAG_GROUPS = Some a"
    using get_or_create [OF assms(1), of TAG_GROUPS] by blast
  show "store_wf J root'"
    using assms r
    by (auto simp: update_json_group_def Let_def append_group_abs new_group_view
        split: option.splits prod.splits if_splits intro: rename_group_abs(1))
  show "ret = 0 \<Longrightarrow> out \<noteq> None \<and>
           abs_db J root' = (case grp of None \<Rightarrow> spec_add_group out (abs_db J root)
                             | Some g \<Rightarrow> spec_rename_group g (the out) (abs_db J root)) \<and>
           (case grp of None \<Rightarrow> the out \<noteq> [] \<longrightarrow> the out \<notin> set (db_group_names (abs_db J root))
            | Some g \<Rightarrow> g \<in> set (db_group_names (abs_db J root)) \<and>
                (the out = g \<or> the out \<notin> set (db_group_names (abs_db J root))))"
    using assms(2) r
    by (auto simp: update_json_group_def Let_def append_group_abs new_group_view stored_name_def
          string_of_value find_group_iff rename_group_abs(2) errno_defs
        split: option.splits prod.splits if_splits dest: string_of_value intro: find_group_name)
  show "ret \<noteq> 0 \<Longrightarrow> abs_db J root' = abs_db J root"
    using assms(2) r
    by (auto simp: update_json_group_def Let_def split: option.splits prod.splits if_splits)
qed

lemma kind_tag_simps [simp]: "kind_tag k \<noteq> TAG_NAME" "TAG_NAME \<noteq> kind_tag k"
  by (cases k; simp)+

lemma known_iff:
  "json_object_get J root (kind_tag k) = Some a \<Longrightarrow>
     find_array J a TAG_ALIAS m = None \<longleftrightarrow> m \<notin> set (db_known k (abs_db J root))"
  by (cases k) (simp_all add: find_host_iff find_target_iff)

lemma member_view_set:
  assumes "json_is_object J x" "json_is_array J ms" "json_strings J ms = f (member_list J x (kind_tag k))"
  shows "group_view J (json_object_set_new J x (kind_tag k) ms) = map_members k f (group_view J x)"
    and "group_wf J x \<Longrightarrow> group_wf J (json_object_set_new J x (kind_tag k) ms)"
  using assms by (cases k; simp add: group_view_def group_wf_def array_or_absent_def)+

lemma map_members_id [simp]: "map_members k (\<lambda>ms. ms) g = g"
  by (cases "(k, \<lambda>ms :: string list. ms, g)" rule: map_members.cases) simp_all

lemma map_members_same:
  "f (member_list J x (kind_tag k)) = member_list J x (kind_tag k) \<Longrightarrow>
     map_members k f (group_view J x) = group_view J x"
  by (cases k) (simp_all add: group_view_def)

lemma group_member_array:
  assumes "group_wf J x" "json_object_get J x (kind_tag k) = Some ms"
  shows "json_is_array J ms"
  using assms by (cases k) (simp_all add: group_wf_def array_or_absent_def)

text \<open>The step that adds a member to the entry of a group.\<close>

lemma add_member_view:
  assumes "group_wf J x" "json_is_object J x" "json_string J (Some m) \<noteq> None"
  shows "group_wf J (add_group_member J (kind_tag k) m x)"
    and "group_view J (add_group_member J (kind_tag k) m x) =
           map_members k (\<lambda>ms. if m \<in> set ms then ms else ms @ [m]) (group_view J x)"
proof -
  let ?f = "\<lambda>ms. if m \<in> set ms then ms else ms @ [m]"
  define x1 where "x1 = (if json_object_get J x (kind_tag k) = None
               then json_object_set_new J x (kind_tag k) (json_array J) else x)"
  define ms where "ms = (case json_object_get J x (kind_tag k) of None \<Rightarrow> json_array J | Some a \<Rightarrow> a)"
  have arr: "json_is_array J ms"
    using group_member_array [OF assms(1), of k] by (auto simp: ms_def split: option.split)
  have x1: "json_is_object J x1" "member_list J x1 (kind_tag k) = json_strings J ms" "group_wf J x1"
    "group_view J x1 = group_view J x"
    using assms(1,2) member_view_set [OF assms(2) is_array_new, of "\<lambda>ms. ms" k]
    by (auto simp: member_list_def x1_def ms_def split: option.splits)
  obtain v where v: "json_string J (Some m) = Some v" using assms(3) by blast
  have "m \<notin> set (json_strings J ms) \<Longrightarrow> json_strings J (json_array_append_new J ms v) = ?f (member_list J x1 (kind_tag k))"
    using arr x1 string_value_string [OF v] by simp
  from member_view_set [where f = ?f, OF x1(1) is_array_append [OF arr] this]
  show "group_wf J (add_group_member J (kind_tag k) m x)"
    "group_view J (add_group_member J (kind_tag k) m x) = map_members k ?f (group_view J x)"
    using x1 map_members_same [of ?f x1 k]
    unfolding add_group_member_def Let_def x1_def [symmetric] ms_def [symmetric]
    by (simp_all add: v find_array_string_None_iff)
qed

lemma found_valid: "find_array J a tag v \<noteq> None \<Longrightarrow> json_string J (Some v) \<noteq> None"
  by (auto dest!: find_array_SomeD(3) member_string_SomeD(2) dest: string_of_value)

lemma group_wf_found:
  "store_wf J root \<Longrightarrow> json_object_get J root TAG_GROUPS = Some a \<Longrightarrow>
     find_array J a TAG_NAME g = Some (i, x) \<Longrightarrow> group_wf J x"
  using groups_wf find_array_SomeD(1,2) by (metis length_elems list_all_length)

theorem set_json_group_member_abs:
  assumes "store_wf J root"
    and "set_json_group_member J root g data alias tag (kind_tag k) = Inr ((root', ret, msg), out)"
  shows "ret \<noteq> 0 \<Longrightarrow> root' = root"
    and "ret = 0 \<Longrightarrow> \<exists>m. out = Some m \<and> g \<in> set (db_group_names (abs_db J root)) \<and>
           m \<in> set (db_known k (abs_db J root)) \<and> store_wf J root' \<and>
           abs_db J root' = spec_add_member k g m (abs_db J root)"
proof -
  show "ret \<noteq> 0 \<Longrightarrow> root' = root"
    using assms(2) by (auto simp: set_json_group_member_def Let_def split: option.splits prod.splits if_splits)
  assume "ret = 0"
  then obtain a i x m parent where a: "json_object_get J root TAG_GROUPS = Some a"
    "find_array J a TAG_NAME g = Some (i, x)" and p: "json_object_get J root (kind_tag k) = Some parent"
    "find_array J parent TAG_ALIAS m \<noteq> None" and out: "out = Some m"
    and root': "root' = json_object_set_new J root TAG_GROUPS
      (json_array_set J a i (add_group_member J (kind_tag k) m x))"
    using assms(2)
    by (fastforce simp: set_json_group_member_def errno_defs split: option.splits prod.splits if_splits)
  note x = group_wf_found [OF assms(1) a] find_array_SomeD(5) [OF a(2)]
  note view = add_member_view [OF x found_valid [OF p(2)], of k]
  have "m \<in> set (db_known k (abs_db J root))" using p known_iff [OF p(1), of m] by simp
  then show "\<exists>m. out = Some m \<and> g \<in> set (db_group_names (abs_db J root)) \<and>
           m \<in> set (db_known k (abs_db J root)) \<and> store_wf J root' \<and>
           abs_db J root' = spec_add_member k g m (abs_db J root)"
    using find_group_name [OF a] out put_group_abs [where f = "map_members k (\<lambda>ms. if m \<in> set ms then ms else ms @ [m])",
      OF assms(1) a view]
    unfolding root' by (simp add: spec_add_member_def)
qed

theorem del_json_group_member_abs:
  assumes "store_wf J root" "del_json_group_member J root g m tag (kind_tag k) = (root', ret, msg)"
  shows "ret \<noteq> 0 \<Longrightarrow> root' = root"
    and "ret = 0 \<Longrightarrow> g \<in> set (db_group_names (abs_db J root)) \<and> store_wf J root' \<and>
           abs_db J root' = spec_del_member k g m (abs_db J root)"
proof -
  show "ret \<noteq> 0 \<Longrightarrow> root' = root"
    using assms(2) by (auto simp: del_json_group_member_def split: option.splits prod.splits)
  assume "ret = 0"
  then obtain a i x ms j v where a: "json_object_get J root TAG_GROUPS = Some a"
    "find_array J a TAG_NAME g = Some (i, x)" and ms: "json_object_get J x (kind_tag k) = Some ms"
    "find_array_string J ms m = Some (j, v)" and root': "root' = json_object_set_new J root TAG_GROUPS
      (json_array_set J a i (json_object_set_new J x (kind_tag k) (json_array_remove J ms j)))"
    using assms(2) by (auto simp: del_json_group_member_def errno_defs split: option.splits prod.splits)
  have "json_strings J (json_array_remove J ms j) = remove1 m (member_list J x (kind_tag k))"
    using strings_found_remove [OF ms(2)] ms(1) by (simp add: member_list_def)
  note view = member_view_set [where f = "remove1 m", OF find_array_SomeD(5) [OF a(2)]
      is_array_remove [OF find_array_string_SomeD(4) [OF ms(2)]] this]
  show "g \<in> set (db_group_names (abs_db J root)) \<and> store_wf J root' \<and>
           abs_db J root' = spec_del_member k g m (abs_db J root)"
    using find_group_name [OF a] put_group_abs [where f = "map_members k (remove1 m)", OF assms(1) a view(2,1)]
    unfolding root' by (simp add: spec_del_member_def)
qed

section \<open>Hosts\<close>

lemma new_entry_name:
  "json_member_string J tag (json_set_string J (json_object J) tag (Some s)) = stored_name J s"
  by (simp add: stored_name_def member_string_set_string_new)

lemma stored_name_value: "json_string_value J v = Some s \<Longrightarrow> stored_name J s = Some s"
  using string_of_value by (simp add: stored_name_def)

lemma append_host_abs:
  assumes "store_wf J root" "json_object_get J root TAG_HOSTS = Some a"
  shows "store_wf J (json_object_set_new J root TAG_HOSTS (json_array_append_new J a x))"
    and "abs_db J (json_object_set_new J root TAG_HOSTS (json_array_append_new J a x)) =
           (case json_member_string J TAG_ALIAS x of None \<Rightarrow> abs_db J root
            | Some h \<Rightarrow> spec_add_host h (abs_db J root))"
  using assms store_wf_array [OF assms(1) _ assms(2)]
  by (auto simp: abs_set store_wf_object store_wf_set_coll spec_add_host_def abs_sel(2) [symmetric]
      split: option.split)

lemma append_target_abs:
  assumes "store_wf J root" "json_object_get J root TAG_TARGETS = Some a"
  shows "store_wf J (json_object_set_new J root TAG_TARGETS (json_array_append_new J a x))"
    and "abs_db J (json_object_set_new J root TAG_TARGETS (json_array_append_new J a x)) =
           (case json_member_string J TAG_ALIAS x of None \<Rightarrow> abs_db J root
            | Some h \<Rightarrow> spec_add_target h (abs_db J root))"
  using assms store_wf_array [OF assms(1) _ assms(2)]
  by (auto simp: abs_set store_wf_object store_wf_set_coll spec_add_target_def abs_sel(3) [symmetric]
      split: option.split)

theorem add_json_host_abs:
  assumes "store_wf J root"
  shows "\<exists>root' msg. add_json_host J root h =
           Inr (root', if h \<in> set (db_hosts (abs_db J root)) then - EEXIST else 0, msg) \<and>
         store_wf J root' \<and>
         abs_db J root' = (if h \<in> set (db_hosts (abs_db J root)) \<or> stored_name J h = None then abs_db J root
                           else spec_add_host h (abs_db J root))"
proof -
  obtain root' a where r: "get_or_create_array J root TAG_HOSTS = Inr (root', a)" "json_is_array J a"
    "store_wf J root'" "abs_db J root' = abs_db J root" "json_object_get J root' TAG_HOSTS = Some a"
    using get_or_create [OF assms, of TAG_HOSTS] by blast
  show ?thesis
    using r append_host_abs [OF r(3,5)] find_host_iff [OF r(5), of h]
    by (auto simp: add_json_host_def Let_def new_entry_name) (simp add: stored_name_def split: if_splits)
qed

theorem del_json_host_abs:
  assumes "store_wf J root" "del_json_host J root h = Inr ((root', ret, msg), out)"
  shows "ret \<noteq> 0 \<Longrightarrow> root' = root"
    and "ret = 0 \<Longrightarrow> h \<in> set (db_hosts (abs_db J root)) \<and> store_wf J root' \<and>
           abs_db J root' = spec_del_host h (abs_db J root)"
proof -
  show "ret \<noteq> 0 \<Longrightarrow> root' = root"
    using assms(2) by (auto simp: del_json_host_def Let_def split: option.splits prod.splits)
  assume "ret = 0"
  then obtain a i x where a: "json_object_get J root TAG_HOSTS = Some a"
    "find_array J a TAG_ALIAS h = Some (i, x)"
    and root': "root' = del_from_groups J (del_from_allowed_hosts J
      (json_object_set_new J root TAG_HOSTS (json_array_remove J a i)) h) TAG_HOSTS h"
    using assms(2) by (auto simp: del_json_host_def Let_def errno_defs split: option.splits prod.splits)
  let ?r = "json_object_set_new J root TAG_HOSTS (json_array_remove J a i)"
  have r: "store_wf J ?r" "abs_db J ?r = (abs_db J root)\<lparr>db_hosts := remove1 h (db_hosts (abs_db J root))\<rparr>"
    using assms(1) a find_array_SomeD(4) [OF a(2)]
    by (simp_all add: store_wf_set_coll abs_set store_wf_object abs_sel names_found_remove)
  from del_from_allowed_hosts_frame [OF r(1)] del_from_groups_abs
  show "h \<in> set (db_hosts (abs_db J root)) \<and> store_wf J root' \<and>
           abs_db J root' = spec_del_host h (abs_db J root)"
    using r(2) a find_array_Some_name [OF a(2)] unfolding root' same_db_def
    by (simp add: abs_sel spec_del_host_def)
qed

lemma get_rename_groups [simp]:
  "k \<noteq> TAG_GROUPS \<Longrightarrow> json_object_get J (rename_in_groups J root tag old new) k = json_object_get J root k"
  by (auto simp: rename_in_groups_def dest: is_object_get split: option.splits)

lemma get_rename_allowed [simp]:
  "k \<noteq> TAG_TARGETS \<Longrightarrow> json_object_get J (rename_in_allowed_hosts J root old new) k = json_object_get J root k"
  by (auto simp: rename_in_allowed_hosts_def dest: is_object_get split: option.splits)

lemma rename_host_abs:
  assumes "store_wf J root" "json_object_get J root TAG_HOSTS = Some hosts"
    and "find_array J hosts TAG_ALIAS h = Some (i, x)"
    and "json_object_get J new TAG_ALIAS = Some val" "json_string_value J val = Some alias"
    and "hosts' = json_array_set J hosts i (json_update_string J x new TAG_ALIAS)"
    and "root' = rename_in_groups J (rename_in_allowed_hosts J
           (json_object_set_new J root TAG_HOSTS hosts') h alias) TAG_HOSTS h alias"
  shows "store_wf J root'" "abs_db J root' = spec_rename_host h alias (abs_db J root)"
    and "json_object_get J root' TAG_HOSTS = Some hosts'"
proof -
  note x = find_array_SomeD [OF assms(3)]
  let ?r = "json_object_set_new J root TAG_HOSTS hosts'"
  have r: "store_wf J ?r"
    "abs_db J ?r = (abs_db J root)\<lparr>db_hosts := replace1 h alias (db_hosts (abs_db J root))\<rparr>"
    using assms(1,2) x(4) update_string_name [OF assms(4,5) x(3)] names_found_set [OF assms(3)]
    by (simp_all add: assms(6) store_wf_set_coll abs_set store_wf_object abs_sel)
  note frame = rename_in_allowed_hosts_frame [OF r(1), unfolded same_db_def, where old = h]
  note gr = rename_in_groups_abs [OF conjunct1 [OF frame] string_of_value [OF assms(5)], where old = h]
  show "store_wf J root'" "abs_db J root' = spec_rename_host h alias (abs_db J root)"
    using gr frame r(2) by (simp_all add: assms(7) spec_rename_host_def)
  show "json_object_get J root' TAG_HOSTS = Some hosts'"
    using store_wf_object [OF assms(1)] by (simp add: assms(7))
qed

lemma host_entry_abs:
  assumes "store_wf J root" "json_object_get J root TAG_HOSTS = Some hosts" "json_is_array J hosts"
    and "found = (case host of None \<Rightarrow> None | Some h \<Rightarrow> find_array J hosts TAG_ALIAS h)"
    and "host \<noteq> None \<longrightarrow> found \<noteq> None"
  shows "host_entry J root hosts host found new = Inr (Inl (root', ret, msg)) \<Longrightarrow> root' = root \<and> ret \<noteq> 0"
    and "host_entry J root hosts host found new = Inr (Inr (root', hosts', None, alias)) \<Longrightarrow> root' = root"
    and "host_entry J root hosts host found new = Inr (Inr (root', hosts', Some (i, x), alias)) \<Longrightarrow>
      store_wf J root' \<and> json_object_get J root' TAG_HOSTS = Some hosts' \<and> json_is_array J hosts' \<and>
      i < json_array_size J hosts' \<and> json_elems J hosts' ! i = x \<and>
      entry_change spec_add_host spec_rename_host (db_hosts (abs_db J root)) host alias
        (abs_db J root) (abs_db J root')"
proof -
  show "host_entry J root hosts host found new = Inr (Inl (root', ret, msg)) \<Longrightarrow> root' = root \<and> ret \<noteq> 0"
    and "host_entry J root hosts host found new = Inr (Inr (root', hosts', None, alias)) \<Longrightarrow> root' = root"
    using assms(5) by (auto simp: host_entry_def Let_def errno_defs split: option.splits if_splits)
  note app = append_host_abs [OF assms(1,2)]
  show "host_entry J root hosts host found new = Inr (Inr (root', hosts', Some (i, x), alias)) \<Longrightarrow>
      store_wf J root' \<and> json_object_get J root' TAG_HOSTS = Some hosts' \<and> json_is_array J hosts' \<and>
      i < json_array_size J hosts' \<and> json_elems J hosts' ! i = x \<and>
      entry_change spec_add_host spec_rename_host (db_hosts (abs_db J root)) host alias
        (abs_db J root) (abs_db J root')"
  proof (cases host)
    case None
    assume "host_entry J root hosts host found new = Inr (Inr (root', hosts', Some (i, x), alias))"
    then show ?thesis
      using None assms(1-4) store_wf_object [OF assms(1)] find_host_iff [OF assms(2)]
      by (auto simp: host_entry_def app new_entry_name entry_change_def nth_append Let_def
          dest!: stored_name_value split: option.splits if_splits)
  next
    case (Some h)
    assume e: "host_entry J root hosts host found new = Inr (Inr (root', hosts', Some (i, x), alias))"
    obtain j y where y: "find_array J hosts TAG_ALIAS h = Some (j, y)"
      using assms(4,5) Some by fastforce
    note m = find_array_SomeD [OF y] find_array_Some_name [OF y]
    show ?thesis
      using e Some y assms(1-4) m find_host_iff [OF assms(2)]
        rename_host_abs [OF assms(1,2) y _ _ refl refl]
      by (auto simp: host_entry_def entry_change_def abs_sel Let_def split: option.splits if_splits)
  qed
qed

lemma update_string_ex_other:
  assumes "json_update_string_ex J cap x new k = Inr (y, s)"
  shows "tag \<noteq> k \<Longrightarrow> json_member_string J tag y = json_member_string J tag x"
  using assms by (auto simp: json_update_string_ex_def split: option.splits if_splits)

lemma put_host_frame:
  assumes "store_wf J root" "json_object_get J root TAG_HOSTS = Some a" "json_is_array J a"
    and "i < json_array_size J a" "json_member_string J TAG_ALIAS y = json_member_string J TAG_ALIAS (json_elems J a ! i)"
  shows "same_db J root (json_object_set_new J root TAG_HOSTS (json_array_set J a i y))"
  using assms names_set_same [OF assms(4,5)]
  by (simp add: same_db_def store_wf_set_coll abs_set store_wf_object abs_sel(2) [symmetric])

theorem update_json_host_abs:
  assumes "store_wf J root" "update_json_host J root host data = Inr ((root', ret, msg), out)"
  shows "store_wf J root'"
    and "ret \<noteq> 0 \<Longrightarrow> abs_db J root' = abs_db J root"
    and "ret = 0 \<Longrightarrow> \<exists>alias nqn. out = Some (alias, nqn) \<and>
           entry_change spec_add_host spec_rename_host (db_hosts (abs_db J root)) host alias
             (abs_db J root) (abs_db J root')"
proof -
  obtain root1 a where r: "get_or_create_array J root TAG_HOSTS = Inr (root1, a)" "json_is_array J a"
    "store_wf J root1" "abs_db J root1 = abs_db J root" "json_object_get J root1 TAG_HOSTS = Some a"
    using get_or_create [OF assms(1), of TAG_HOSTS] by blast
  define found where "found = (case host of None \<Rightarrow> None | Some h \<Rightarrow> find_array J a TAG_ALIAS h)"
  have upd: "update_json_host J root host data =
     (if data = [] then Inr ((root, - EINVAL, invalid_json_syntax), None)
      else if host \<noteq> None \<and> found = None
      then Inr ((root1, - ENOENT, msg_not_found TAG_HOST (the host)), None)
      else case json_loads J data of
             None \<Rightarrow> Inr ((root1, - EINVAL, invalid_json_syntax), None)
           | Some new \<Rightarrow> exec_bind (host_entry J root1 a host found new) (update_host_fields J host new))"
    by (cases "json_loads J data") (simp_all add: update_json_host_def r(1) Let_def found_def)
  consider (err) "root' = root \<or> root' = root1" "ret \<noteq> 0"
    | (step) new root2 hosts i x y al nqn where "host \<noteq> None \<longrightarrow> found \<noteq> None"
        "host_entry J root1 a host found new = Inr (Inr (root2, hosts, Some (i, x), al))"
        "json_update_string_ex J (MAX_NQN_SIZE + 1) x new TAG_HOSTNQN = Inr (y, nqn)"
        "root' = json_object_set_new J root2 TAG_HOSTS (json_array_set J hosts i y)" "ret = 0"
        "out = Some (al, nqn)"
  proof (cases "data = [] \<or> host \<noteq> None \<and> found = None \<or> json_loads J data = None")
    case True
    then show ?thesis
      using assms(2) err unfolding upd by (auto simp: errno_defs split: if_splits)
  next
    case False
    then obtain new st where n: "host_entry J root1 a host found new = Inr st"
      "update_host_fields J host new st = Inr ((root', ret, msg), out)" "host \<noteq> None \<longrightarrow> found \<noteq> None"
      using assms(2) unfolding upd by (auto split: if_splits)
    note e = host_entry_abs(1,2) [OF r(3,5,2) found_def n(3), of new]
    show ?thesis
      using n(2) e n(1) err step [OF n(3), where new = new]
      by (auto simp: update_host_fields_def errno_defs split: sum.splits option.splits)
  qed
  then have "store_wf J root' \<and> (ret \<noteq> 0 \<longrightarrow> abs_db J root' = abs_db J root) \<and>
     (ret = 0 \<longrightarrow> (\<exists>alias nqn. out = Some (alias, nqn) \<and>
        entry_change spec_add_host spec_rename_host (db_hosts (abs_db J root)) host alias
             (abs_db J root) (abs_db J root')))"
  proof cases
    case err
    then show ?thesis using assms(1) r by auto
  next
    case step
    note e = host_entry_abs(3) [OF r(3,5,2) found_def step(1,2)]
    have "same_db J root2 root'"
      using e update_string_ex_other [OF step(3)] unfolding step(4) by (intro put_host_frame) simp_all
    then show ?thesis using e step(5,6) r(4) by (auto simp: same_db_def)
  qed
  then show "store_wf J root'" "ret \<noteq> 0 \<Longrightarrow> abs_db J root' = abs_db J root"
    "ret = 0 \<Longrightarrow> \<exists>alias nqn. out = Some (alias, nqn) \<and>
           entry_change spec_add_host spec_rename_host (db_hosts (abs_db J root)) host alias
             (abs_db J root) (abs_db J root')"
    by simp_all
qed

section \<open>Targets\<close>

theorem add_json_target_abs:
  assumes "store_wf J root"
  shows "\<exists>root' msg. add_json_target J root t =
           Inr (root', if t \<in> set (db_targets (abs_db J root)) then - EEXIST else 0, msg) \<and>
         store_wf J root' \<and>
         abs_db J root' = (if t \<in> set (db_targets (abs_db J root)) \<or> stored_name J t = None then abs_db J root
                           else spec_add_target t (abs_db J root))"
proof -
  obtain root' a where r: "get_or_create_array J root TAG_TARGETS = Inr (root', a)" "json_is_array J a"
    "store_wf J root'" "abs_db J root' = abs_db J root" "json_object_get J root' TAG_TARGETS = Some a"
    using get_or_create [OF assms, of TAG_TARGETS] by blast
  show ?thesis
    using r append_target_abs [OF r(3,5)] find_target_iff [OF r(5), of t]
    by (auto simp: add_json_target_def Let_def new_entry_name) (simp add: stored_name_def split: if_splits)
qed

lemma rename_target_abs:
  assumes "store_wf J root" "json_object_get J root TAG_TARGETS = Some targets"
    and "find_array J targets TAG_ALIAS t = Some (i, x)"
    and "json_object_get J new TAG_ALIAS = Some val" "json_string_value J val = Some s"
    and "targets' = json_array_set J targets i (json_update_string J x new TAG_ALIAS)"
    and "root' = rename_in_groups J (json_object_set_new J root TAG_TARGETS targets') TAG_TARGETS t s"
  shows "store_wf J root'" "abs_db J root' = spec_rename_target t s (abs_db J root)"
    and "json_object_get J root' TAG_TARGETS = Some targets'"
proof -
  note x = find_array_SomeD [OF assms(3)]
  let ?r = "json_object_set_new J root TAG_TARGETS targets'"
  have r: "store_wf J ?r"
    "abs_db J ?r = (abs_db J root)\<lparr>db_targets := replace1 t s (db_targets (abs_db J root))\<rparr>"
    using assms(1,2) x(4) update_string_name [OF assms(4,5) x(3)] names_found_set [OF assms(3)]
    by (simp_all add: assms(6) store_wf_set_coll abs_set store_wf_object abs_sel)
  note gr = rename_in_groups_abs [OF r(1) string_of_value [OF assms(5)], where old = t]
  show "store_wf J root'" "abs_db J root' = spec_rename_target t s (abs_db J root)"
    using gr r(2) by (simp_all add: assms(7) spec_rename_target_def)
  show "json_object_get J root' TAG_TARGETS = Some targets'"
    using store_wf_object [OF assms(1)] by (simp add: assms(7))
qed

lemma target_entry_abs:
  assumes "store_wf J root" "json_object_get J root TAG_TARGETS = Some targets" "json_is_array J targets"
    and "found = (case tgt of None \<Rightarrow> None | Some h \<Rightarrow> find_array J targets TAG_ALIAS h)"
    and "tgt \<noteq> None \<longrightarrow> found \<noteq> None"
  shows "target_entry J root targets tgt found new = Inr (Inl (root', ret, msg)) \<Longrightarrow> root' = root \<and> ret \<noteq> 0"
    and "target_entry J root targets tgt found new = Inr (Inr (root', targets', None, s)) \<Longrightarrow> root' = root"
    and "target_entry J root targets tgt found new = Inr (Inr (root', targets', Some (i, x), s)) \<Longrightarrow>
      store_wf J root' \<and> json_object_get J root' TAG_TARGETS = Some targets' \<and> json_is_array J targets' \<and>
      i < json_array_size J targets' \<and> json_elems J targets' ! i = x \<and>
      entry_change spec_add_target spec_rename_target (db_targets (abs_db J root)) tgt s
        (abs_db J root) (abs_db J root')"
proof -
  show "target_entry J root targets tgt found new = Inr (Inl (root', ret, msg)) \<Longrightarrow> root' = root \<and> ret \<noteq> 0"
    and "target_entry J root targets tgt found new = Inr (Inr (root', targets', None, s)) \<Longrightarrow> root' = root"
    using assms(5) by (auto simp: target_entry_def Let_def errno_defs split: option.splits if_splits)
  note app = append_target_abs [OF assms(1,2)]
  show "target_entry J root targets tgt found new = Inr (Inr (root', targets', Some (i, x), s)) \<Longrightarrow>
      store_wf J root' \<and> json_object_get J root' TAG_TARGETS = Some targets' \<and> json_is_array J targets' \<and>
      i < json_array_size J targets' \<and> json_elems J targets' ! i = x \<and>
      entry_change spec_add_target spec_rename_target (db_targets (abs_db J root)) tgt s
        (abs_db J root) (abs_db J root')"
  proof (cases tgt)
    case None
    assume "target_entry J root targets tgt found new = Inr (Inr (root', targets', Some (i, x), s))"
    then show ?thesis
      using None assms(1-4) store_wf_object [OF assms(1)] find_target_iff [OF assms(2)]
      by (auto simp: target_entry_def app new_entry_name entry_change_def nth_append Let_def
          dest!: stored_name_value split: option.splits if_splits)
  next
    case (Some h)
    assume e: "target_entry J root targets tgt found new = Inr (Inr (root', targets', Some (i, x), s))"
    obtain j y where y: "find_array J targets TAG_ALIAS h = Some (j, y)"
      using assms(4,5) Some by fastforce
    note m = find_array_SomeD [OF y] find_array_Some_name [OF y]
    show ?thesis
      using e Some y assms(1-4) m find_target_iff [OF assms(2)]
        rename_target_abs [OF assms(1,2) y _ _ refl refl]
      by (auto simp: target_entry_def entry_change_def abs_sel Let_def split: option.splits if_splits)
  qed
qed

lemma update_int_ex_other [simp]:
  "json_update_int_ex J x new k = (y, s) \<Longrightarrow> tag \<noteq> k \<Longrightarrow> json_member_string J tag y = json_member_string J tag x"
  by (auto simp: json_update_int_ex_def member_string_eq split: option.splits if_splits)

lemma target_settings_alias:
  assumes "target_settings J x new = Inr (y, out)"
  shows "json_member_string J TAG_ALIAS y = json_member_string J TAG_ALIAS x"
  using assms
  by (auto simp: target_settings_def Let_def update_string_ex_other
      split: prod.splits option.splits if_splits)

lemma put_target_at_frame:
  assumes "store_wf J root" "json_object_get J root TAG_TARGETS = Some a" "json_is_array J a"
    and "i < json_array_size J a" "json_member_string J TAG_ALIAS y = json_member_string J TAG_ALIAS (json_elems J a ! i)"
  shows "same_db J root (put_target J root a i y)"
  using assms names_set_same [OF assms(4,5)]
  by (simp add: put_target_def same_db_def store_wf_set_coll abs_set store_wf_object abs_sel(3) [symmetric])

theorem update_json_target_abs:
  assumes "store_wf J root" "update_json_target J root tgt data = Inr ((root', ret, msg), out)"
  shows "store_wf J root'"
    and "ret \<noteq> 0 \<Longrightarrow> abs_db J root' = abs_db J root"
    and "ret = 0 \<Longrightarrow> \<exists>s t. out = Some t \<and> to_alias t = take MAX_ALIAS_SIZE s \<and>
           entry_change spec_add_target spec_rename_target (db_targets (abs_db J root)) tgt s
             (abs_db J root) (abs_db J root')"
proof -
  obtain root1 a where r: "get_or_create_array J root TAG_TARGETS = Inr (root1, a)" "json_is_array J a"
    "store_wf J root1" "abs_db J root1 = abs_db J root" "json_object_get J root1 TAG_TARGETS = Some a"
    using get_or_create [OF assms(1), of TAG_TARGETS] by blast
  define found where "found = (case tgt of None \<Rightarrow> None | Some h \<Rightarrow> find_array J a TAG_ALIAS h)"
  have upd: "update_json_target J root tgt data =
     (if data = [] then Inr ((root, - EINVAL, invalid_json_syntax), None)
      else if tgt \<noteq> None \<and> found = None
      then Inr ((root1, - ENOENT, msg_not_found TAG_TARGET (the tgt)), None)
      else case json_loads J data of
             None \<Rightarrow> Inr ((root1, - EINVAL, invalid_json_syntax), None)
           | Some new \<Rightarrow> exec_bind (target_entry J root1 a tgt found new) (update_target_fields J tgt new))"
    by (cases "json_loads J data") (simp_all add: update_json_target_def r(1) Let_def found_def)
  have "store_wf J root' \<and> (ret \<noteq> 0 \<longrightarrow> abs_db J root' = abs_db J root) \<and>
     (ret = 0 \<longrightarrow> (\<exists>s t. out = Some t \<and> to_alias t = take MAX_ALIAS_SIZE s \<and>
           entry_change spec_add_target spec_rename_target (db_targets (abs_db J root)) tgt s
             (abs_db J root) (abs_db J root')))"
  proof (cases "data = [] \<or> tgt \<noteq> None \<and> found = None \<or> json_loads J data = None")
    case True
    then show ?thesis
      using assms r unfolding upd by (auto simp: errno_defs split: if_splits)
  next
    case False
    then obtain new st where n: "target_entry J root1 a tgt found new = Inr st"
      "update_target_fields J tgt new st = Inr ((root', ret, msg), out)" "tgt \<noteq> None \<longrightarrow> found \<noteq> None"
      using assms(2) unfolding upd by (auto split: if_splits)
    note e = target_entry_abs [OF r(3,5,2) found_def n(3), of new]
    consider (err) "root' = root1" "ret \<noteq> 0"
      | (step) root2 targets i x s y rest t where "st = Inr (root2, targets, Some (i, x), s)"
        "target_settings J x new = Inr (y, rest)"
        "root' = put_target J root2 targets i y" "ret = 0" "out = Some t" "to_alias t = take MAX_ALIAS_SIZE s"
      using n(2) e(1,2) n(1)
      by (auto simp: update_target_fields_def errno_defs split: sum.splits option.splits)
    then show ?thesis
    proof cases
      case err
      then show ?thesis using r by simp
    next
      case step
      note e3 = e(3) [OF n(1) [unfolded step(1)]]
      have "same_db J root2 root'"
        using e3 target_settings_alias [OF step(2)] unfolding step(3) by (intro put_target_at_frame) simp_all
      then show ?thesis using e3 step(4-6) r(4) by (auto simp: same_db_def)
    qed
  qed
  then show "store_wf J root'" "ret \<noteq> 0 \<Longrightarrow> abs_db J root' = abs_db J root"
    "ret = 0 \<Longrightarrow> \<exists>s t. out = Some t \<and> to_alias t = take MAX_ALIAS_SIZE s \<and>
           entry_change spec_add_target spec_rename_target (db_targets (abs_db J root)) tgt s
             (abs_db J root) (abs_db J root')"
    by simp_all
qed

text \<open>Deleting a target deletes its subsystems first; they stay below the target.\<close>

lemma find_array_set:
  assumes "find_array J a tag v = Some (i, x)" "json_member_string J tag y = Some v"
  shows "find_array J (json_array_set J a i y) tag v = Some (i, y)"
  using assms find_array_SomeD(1) [OF assms(1)]
  by (auto simp: find_array_def first_match_Some_iff nth_list_update)

lemma del_json_subsys_found:
  assumes "json_object_get J root TAG_TARGETS = Some a" "find_array J a TAG_ALIAS t = Some (i, x)"
  shows "\<exists>a' x'. json_object_get J (fst (del_json_subsys J root t nqn)) TAG_TARGETS = Some a' \<and>
           find_array J a' TAG_ALIAS t = Some (i, x')"
  using assms find_array_SomeD(3,5) [OF assms(2)] is_object_get [OF assms(1)] find_array_set [OF assms(2)]
  by (auto simp: del_json_subsys_def del_from_array_def split: option.splits)

lemma del_subsystems_frame:
  assumes "store_wf J root" "del_subsystems J t n root = Inr root'"
    and "json_object_get J root TAG_TARGETS = Some a" "find_array J a TAG_ALIAS t = Some (i, x)"
  shows "same_db J root root' \<and> (\<exists>a' x'. json_object_get J root' TAG_TARGETS = Some a' \<and>
           find_array J a' TAG_ALIAS t = Some (i, x'))"
  using assms
proof (induction n arbitrary: root a x)
  case (Suc n)
  show ?case
  proof (cases "del_subsystems J t (Suc n) root = Inr root \<and> root' = root")
    case True
    then show ?thesis using Suc.prems by auto
  next
    case False
    then obtain nqn where "del_subsystems J t n (fst (del_json_subsys J root t nqn)) = Inr root'"
      using Suc.prems by (auto split: option.splits)
    moreover have "same_db J root (fst (del_json_subsys J root t nqn))"
      using del_json_subsys_frame [OF Suc.prems(1)] by (metis prod.collapse)
    ultimately show ?thesis
      using Suc.IH del_json_subsys_found [OF Suc.prems(3,4), of nqn] by (auto simp: same_db_def)
  qed
qed auto

theorem del_json_target_abs:
  assumes "store_wf J root" "del_json_target J root t = Inr (root', ret, msg)"
  shows "ret \<noteq> 0 \<Longrightarrow> root' = root"
    and "ret = 0 \<Longrightarrow> t \<in> set (db_targets (abs_db J root)) \<and> store_wf J root' \<and>
           abs_db J root' = spec_del_target t (abs_db J root)"
proof -
  show "ret \<noteq> 0 \<Longrightarrow> root' = root"
    using assms(2) by (auto simp: del_json_target_def Let_def split: option.splits prod.splits)
  assume "ret = 0"
  then obtain a i x where a: "json_object_get J root TAG_TARGETS = Some a"
    "find_array J a TAG_ALIAS t = Some (i, x)"
    using assms(2) by (auto simp: del_json_target_def errno_defs split: option.splits)
  then obtain root1 where s: "(case json_object_get J x TAG_SUBSYSTEMS of None \<Rightarrow> Inr root
      | Some array \<Rightarrow> del_subsystems J t (json_array_size J array) root) = Inr root1"
    using assms(2) by (auto simp: del_json_target_def)
  then obtain a' x' where r1: "same_db J root root1" "json_object_get J root1 TAG_TARGETS = Some a'"
    "find_array J a' TAG_ALIAS t = Some (i, x')"
    using assms(1) a del_subsystems_frame [OF assms(1) _ a] by (auto split: option.splits)
  let ?r = "json_object_set_new J root1 TAG_TARGETS (json_array_remove J a' i)"
  have root': "root' = del_from_groups J ?r TAG_TARGETS t"
    using assms(2) a s r1(2) by (simp add: del_json_target_def)
  have wf: "store_wf J root1" and ab: "abs_db J root1 = abs_db J root" using r1(1) by (simp_all add: same_db_def)
  have r: "store_wf J ?r" "abs_db J ?r = (abs_db J root)\<lparr>db_targets := remove1 t (db_targets (abs_db J root))\<rparr>"
    using wf r1(2) ab find_array_SomeD(4) [OF r1(3)] names_found_remove [OF r1(3)] abs_sel(3) [OF r1(2)]
    by (simp_all add: store_wf_set_coll abs_set store_wf_object)
  show "t \<in> set (db_targets (abs_db J root)) \<and> store_wf J root' \<and>
           abs_db J root' = spec_del_target t (abs_db J root)"
    using del_from_groups_abs [OF r(1)] r(2) a find_array_Some_name [OF a(2)] unfolding root'
    by (simp add: abs_sel spec_del_target_def)
qed

end

end
