(* ===== verification/Json_System.thy ===== *)
theory Json_System
  imports Json_Database
begin

text \<open>
  The JSON configuration as a state machine: the operations of \<^verbatim>\<open>src/src/dem/json.c\<close> that other
  components call are the transitions, a fault has no successor, and the initial configuration is
  the empty object of \<^verbatim>\<open>init_json\<close> when there is no file. Every transition is a transition of the
  abstract database, so the invariant of the database holds in every reachable configuration.
\<close>

datatype store_op =
    Add_Group string
  | Update_Group "string option" string
  | Del_Group string
  | Set_Member member_kind string "string option" "string option" string
  | Del_Member member_kind string string string
  | Add_Host string
  | Update_Host "string option" string
  | Del_Host string
  | Show_Host "string \<Rightarrow> bool exec" string
  | Add_Target string
  | Update_Target "string option" string
  | Del_Target string
  | Set_Subsys string "string option" string
  | Del_Subsys string string
  | Set_Portid string int string
  | Del_Portid string int
  | Set_Ns string string string
  | Del_Ns string string int
  | Set_Acl string string "string option" string
  | Del_Acl string string string
  | Set_Inb_Interface string string
  | Set_Oob_Interface string string
  | Set_Inb_Nsdev string int int
  | Init_Inb_Ifaces string
  | Set_Inb_Iface string string string string
  | Set_Oob_Nsdevs string "nsdev list" string
  | Set_Oob_Ifaces string "fabric_iface list" string

definition exec_map :: "('a \<Rightarrow> 'b) \<Rightarrow> 'a exec \<Rightarrow> 'b exec" where
  "exec_map f e = exec_bind e (\<lambda>x. Inr (f x))"

lemma exec_map_Inr [simp]: "exec_map f e = Inr y \<longleftrightarrow> (\<exists>x. e = Inr x \<and> y = f x)"
  by (cases e) (auto simp: exec_map_def)

fun store_step :: "'j jansson \<Rightarrow> store_op \<Rightarrow> 'j \<Rightarrow> 'j exec" where
  "store_step J (Add_Group g) root = exec_map fst (add_json_group J root g)"
| "store_step J (Update_Group g data) root = exec_map (fst \<circ> fst) (update_json_group J root g data)"
| "store_step J (Del_Group g) root = (case del_json_group J root g of (root', _) \<Rightarrow> Inr root')"
| "store_step J (Set_Member k g data m tag) root =
     exec_map (fst \<circ> fst) (set_json_group_member J root g data m tag (kind_tag k))"
| "store_step J (Del_Member k g m tag) root = (case del_json_group_member J root g m tag (kind_tag k) of (root', _) \<Rightarrow> Inr root')"
| "store_step J (Add_Host h) root = exec_map fst (add_json_host J root h)"
| "store_step J (Update_Host h data) root = exec_map (fst \<circ> fst) (update_json_host J root h data)"
| "store_step J (Del_Host h) root = exec_map (fst \<circ> fst) (del_json_host J root h)"
| "store_step J (Show_Host hides h) root = exec_map fst (show_json_host J hides root h)"
| "store_step J (Add_Target t) root = exec_map fst (add_json_target J root t)"
| "store_step J (Update_Target t data) root = exec_map (fst \<circ> fst) (update_json_target J root t data)"
| "store_step J (Del_Target t) root = exec_map fst (del_json_target J root t)"
| "store_step J (Set_Subsys t nqn data) root = exec_map (fst \<circ> fst) (set_json_subsys J root t nqn data)"
| "store_step J (Del_Subsys t nqn) root = (case del_json_subsys J root t nqn of (root', _) \<Rightarrow> Inr root')"
| "store_step J (Set_Portid t p data) root = exec_map (fst \<circ> fst) (set_json_portid J root t p data)"
| "store_step J (Del_Portid t p) root = (case del_json_portid J root t p of (root', _) \<Rightarrow> Inr root')"
| "store_step J (Set_Ns t nqn data) root = (case set_json_ns J root t nqn data of ((root', _), _) \<Rightarrow> Inr root')"
| "store_step J (Del_Ns t nqn n) root = (case del_json_ns J root t nqn n of (root', _) \<Rightarrow> Inr root')"
| "store_step J (Set_Acl t nqn h data) root = exec_map (fst \<circ> fst) (set_json_acl J root t nqn h data)"
| "store_step J (Del_Acl t nqn h) root = (case del_json_acl J root t nqn h of (root', _) \<Rightarrow> Inr root')"
| "store_step J (Set_Inb_Interface t data) root =
     exec_map (fst \<circ> fst) (set_json_inb_interface J root t data [])"
| "store_step J (Set_Oob_Interface t data) root =
     exec_map (fst \<circ> fst) (set_json_oob_interface J root t data [])"
| "store_step J (Set_Inb_Nsdev t d n) root = (case set_json_inb_nsdev J root t d n of (root', _) \<Rightarrow> Inr root')"
| "store_step J (Init_Inb_Ifaces t) root = (case init_json_inb_fabric_iface J root t of (root', _) \<Rightarrow> Inr root')"
| "store_step J (Set_Inb_Iface t ty f ad) root = (case set_json_inb_fabric_iface J root t ty f ad of (root', _) \<Rightarrow> Inr root')"
| "store_step J (Set_Oob_Nsdevs t ds data) root = exec_map fst (set_json_oob_nsdevs J root t ds data)"
| "store_step J (Set_Oob_Ifaces t fs data) root = exec_map fst (set_json_oob_interfaces J root t fs data)"

text \<open>A sequence of requests; a fault stops it.\<close>

fun run_ops :: "'j jansson \<Rightarrow> store_op list \<Rightarrow> 'j \<Rightarrow> 'j exec" where
  "run_ops J [] root = Inr root"
| "run_ops J (p # ps) root = exec_bind (store_step J p root) (run_ops J ps)"

inductive store_reachable :: "'j jansson \<Rightarrow> 'j \<Rightarrow> bool" for J where
  init: "store_reachable J (json_object J)"
| step: "store_reachable J root \<Longrightarrow> store_step J op root = Inr root' \<Longrightarrow> store_reachable J root'"

inductive_cases store_reachableE: "store_reachable J root"

lemma run_ops_reachable:
  "run_ops J ops root = Inr root' \<Longrightarrow> store_reachable J root \<Longrightarrow> store_reachable J root'"
  by (induction ops arbitrary: root) (auto intro: store_reachable.step)

lemma reachable_run_ops: "store_reachable J root \<Longrightarrow> \<exists>ops. run_ops J ops (json_object J) = Inr root"
proof (induction rule: store_reachable.induct)
  case init
  show ?case by (rule exI [of _ "[]"]) simp
next
  case (step root op root')
  then obtain ops where "run_ops J ops (json_object J) = Inr root" by blast
  moreover have "run_ops J (ps @ [op]) r = Inr root'" if "run_ops J ps r = Inr root" for ps r
    using that step.hyps(2) by (induction ps arbitrary: r) auto
  ultimately show ?case by blast
qed

definition refines_step :: "'j jansson \<Rightarrow> 'j \<Rightarrow> 'j \<Rightarrow> bool" where
  "refines_step J root root' = (store_wf J root' \<and> db_step (abs_db J root) (abs_db J root'))"

context jansson_api
begin

lemma same_db_refines: "same_db J root root' \<Longrightarrow> refines_step J root root'"
  by (simp add: same_db_def refines_step_def db_skip)

lemma host_targets_loop_names:
  assumes "host_targets_loop J hides h is targets acc = Inr (targets', acc')" "json_is_array J targets"
  shows "json_is_array J targets' \<and> json_names J TAG_ALIAS targets' = json_names J TAG_ALIAS targets"
  using assms
proof (induction "is" arbitrary: targets acc)
  case (Cons i "is")
  have step: "json_is_array J (json_array_set J targets i y) \<and>
      json_names J TAG_ALIAS (json_array_set J targets i y) = json_names J TAG_ALIAS targets"
    if "json_array_get J targets i = Some x" "json_get_array J x TAG_SUBSYSTEMS = (y, r)" for x y r
    using that Cons.prems(2) get_array_member [OF that(2), of TAG_ALIAS]
    by (auto simp: array_get_elems names_set_same split: if_splits)
  show ?case
    using Cons.prems step by (auto simp: Let_def split: option.splits prod.splits dest!: Cons.IH)
qed simp

lemma show_json_host_frame:
  assumes "store_wf J root" "show_json_host J hides root h = Inr (root', ret, msg)"
  shows "same_db J root root'"
  using assms store_wf_array [OF assms(1)] host_targets_loop_names
  by (fastforce simp: show_json_host_def get_host_subsystems_def same_db_def store_wf_set_coll abs_set
      store_wf_object abs_sel(3) [symmetric] split: option.splits prod.splits)

lemma store_step_frame:
  assumes "store_wf J root" "store_step J op root = Inr root'"
    and "\<not> (case op of Add_Group _ \<Rightarrow> True | Update_Group _ _ \<Rightarrow> True | Del_Group _ \<Rightarrow> True
            | Set_Member _ _ _ _ _ \<Rightarrow> True | Del_Member _ _ _ _ \<Rightarrow> True
            | Add_Host _ \<Rightarrow> True | Update_Host _ _ \<Rightarrow> True | Del_Host _ \<Rightarrow> True
            | Add_Target _ \<Rightarrow> True | Update_Target _ _ \<Rightarrow> True | Del_Target _ \<Rightarrow> True | _ \<Rightarrow> False)"
  shows "same_db J root root'"
  using assms
  by (cases op)
    (auto split: prod.splits dest: show_json_host_frame set_json_subsys_frame set_json_portid_frame set_json_acl_frame
      set_json_inb_interface_frame set_json_oob_interface_frame set_json_oob_nsdevs_frame
      set_json_oob_interfaces_frame del_json_subsys_frame del_json_portid_frame set_json_ns_frame
      del_json_ns_frame del_json_acl_frame set_json_inb_nsdev_frame init_json_inb_fabric_iface_frame
      set_json_inb_fabric_iface_frame)

lemma group_step_refines:
  assumes "store_wf J root"
  shows "add_json_group J root g = Inr (root', ret, msg) \<Longrightarrow> refines_step J root root'"
    and "del_json_group J root g = (root', ret, msg) \<Longrightarrow> refines_step J root root'"
    and "update_json_group J root grp data = Inr ((root', ret, msg), out) \<Longrightarrow> refines_step J root root'"
    and "set_json_group_member J root g data' m tag (kind_tag k) = Inr ((root', ret, msg), out) \<Longrightarrow>
           refines_step J root root'"
    and "del_json_group_member J root g n tag (kind_tag k) = (root', ret, msg) \<Longrightarrow> refines_step J root root'"
proof -
  show "add_json_group J root g = Inr (root', ret, msg) \<Longrightarrow> refines_step J root root'"
    using add_json_group_abs [OF assms, of g]
    by (auto simp: refines_step_def stored_name_def split: if_splits intro!: db_add_group db_skip)
  show "del_json_group J root g = (root', ret, msg) \<Longrightarrow> refines_step J root root'"
    using del_json_group_abs [OF assms, of g]
    by (auto simp: refines_step_def split: if_splits intro!: db_del_group db_skip)
  show "refines_step J root root'" if u: "update_json_group J root grp data = Inr ((root', ret, msg), out)"
  proof (cases "ret = 0")
    case True
    then show ?thesis
      using update_json_group_abs(1,2) [OF assms, of grp data root' ret msg out] u
      by (auto simp: refines_step_def split: option.splits intro: db_add_group db_rename_group db_skip)
  next
    case False
    then show ?thesis
      using update_json_group_abs(1,3) [OF assms, of grp data root' ret msg out] u
      by (auto simp: refines_step_def intro!: db_skip)
  qed
  show "refines_step J root root'"
    if u: "set_json_group_member J root g data' m tag (kind_tag k) = Inr ((root', ret, msg), out)"
    using set_json_group_member_abs [OF assms, of g data' m tag k root' ret msg out] u assms
    by (cases "ret = 0") (auto simp: refines_step_def intro!: db_add_member db_skip)
  show "refines_step J root root'" if u: "del_json_group_member J root g n tag (kind_tag k) = (root', ret, msg)"
    using del_json_group_member_abs [OF assms, of g n tag k root' ret msg] u assms
    by (cases "ret = 0") (auto simp: refines_step_def intro!: db_del_member db_skip)
qed

lemma entry_change_host:
  "entry_change spec_add_host spec_rename_host (db_hosts d) old s d d' \<Longrightarrow> db_step d d'"
  by (auto simp: entry_change_def split: option.splits if_splits intro: db_step.intros)

lemma entry_change_target:
  "entry_change spec_add_target spec_rename_target (db_targets d) old s d d' \<Longrightarrow> db_step d d'"
  by (auto simp: entry_change_def split: option.splits if_splits intro: db_step.intros)

lemma entry_step_refines:
  assumes "store_wf J root"
  shows "add_json_host J root h = Inr (root', ret, msg) \<Longrightarrow> refines_step J root root'"
    and "update_json_host J root old data = Inr ((root', ret, msg), out) \<Longrightarrow> refines_step J root root'"
    and "del_json_host J root h = Inr ((root', ret, msg), nqn) \<Longrightarrow> refines_step J root root'"
    and "add_json_target J root h = Inr (root', ret, msg) \<Longrightarrow> refines_step J root root'"
    and "update_json_target J root old data = Inr ((root', ret, msg), out') \<Longrightarrow> refines_step J root root'"
    and "del_json_target J root h = Inr (root', ret, msg) \<Longrightarrow> refines_step J root root'"
proof -
  show "add_json_host J root h = Inr (root', ret, msg) \<Longrightarrow> refines_step J root root'"
    using add_json_host_abs [OF assms, of h]
    by (auto simp: refines_step_def split: if_splits intro!: db_add_host db_skip)
  show "refines_step J root root'" if u: "update_json_host J root old data = Inr ((root', ret, msg), out)"
    using update_json_host_abs [OF assms, of old data root' ret msg out] u
    by (cases "ret = 0") (auto simp: refines_step_def intro!: db_skip dest: entry_change_host)
  show "refines_step J root root'" if u: "del_json_host J root h = Inr ((root', ret, msg), nqn)"
    using del_json_host_abs [OF assms, of h root' ret msg nqn] u assms
    by (cases "ret = 0") (auto simp: refines_step_def intro!: db_del_host db_skip)
  show "add_json_target J root h = Inr (root', ret, msg) \<Longrightarrow> refines_step J root root'"
    using add_json_target_abs [OF assms, of h]
    by (auto simp: refines_step_def split: if_splits intro!: db_add_target db_skip)
  show "refines_step J root root'" if u: "update_json_target J root old data = Inr ((root', ret, msg), out')"
    using update_json_target_abs [OF assms, of old data root' ret msg out'] u
    by (cases "ret = 0") (auto simp: refines_step_def intro!: db_skip dest: entry_change_target)
  show "refines_step J root root'" if u: "del_json_target J root h = Inr (root', ret, msg)"
    using del_json_target_abs [OF assms, of h root' ret msg] u assms
    by (cases "ret = 0") (auto simp: refines_step_def intro!: db_del_target db_skip)
qed

lemma store_step_refines:
  assumes "store_wf J root" "store_step J op root = Inr root'"
  shows "refines_step J root root'"
  using assms store_step_frame [OF assms, THEN same_db_refines]
  by (cases op)
    (auto split: prod.splits dest: group_step_refines [OF assms(1)] entry_step_refines [OF assms(1)])

lemma store_init: "store_inv J (json_object J)"
  by (simp add: store_inv_def store_wf_def array_or_absent_def coll_elems_def abs_db_def coll_names_def
      db_inv_def db_group_names_def nonempty_names_def)

lemma store_step_inv: "store_inv J root \<Longrightarrow> store_step J op root = Inr root' \<Longrightarrow> store_inv J root'"
  using store_step_refines [of root op root'] db_step_inv by (auto simp: store_inv_def refines_step_def)

lemma store_reachable_inv: "store_reachable J root \<Longrightarrow> store_inv J root"
  by (induction rule: store_reachable.induct) (auto intro: store_init store_step_inv)

end

end
