(* ===== verification/Parse.thy ===== *)
theory Parse
  imports Prelude "HOL-Library.Word"
begin

text \<open>
  The parsers of \<^verbatim>\<open>src/src/common/parse.c\<close>: lines \<^verbatim>\<open>tag = value\<close> of the configuration files, textual
  addresses, and the names of the NVMe-oF enumerations.

  A \<^verbatim>\<open>FILE\<close> is the text not yet read, the end-of-file indicator, and whether reads beyond that text fail, as all
  reads from a directory do. A read that fails gives end of file like one at the end, but does not set the
  indicator. A \<^verbatim>\<open>char\<close> holds the result of \<^verbatim>\<open>fgetc\<close>, so end of file is the character with code 255; pushing that back is refused by
  \<^verbatim>\<open>ungetc\<close>, which otherwise clears the indicator.
\<close>

section \<open>Streams\<close>

record stream =
  fs_rest :: string
  fs_eof :: bool
  fs_fails :: bool

definition EOF_char :: char where "EOF_char = CHR 0xFF"

definition feof :: "stream \<Rightarrow> bool" where
  "feof fd = fs_eof fd"

definition fgetc :: "stream \<Rightarrow> char \<times> stream" where
  "fgetc fd = (case fs_rest fd of
                 [] \<Rightarrow> (EOF_char, if fs_fails fd then fd else fd\<lparr>fs_eof := True\<rparr>)
               | c # cs \<Rightarrow> (c, fd\<lparr>fs_rest := cs\<rparr>))"

definition ungetc :: "char \<Rightarrow> stream \<Rightarrow> stream" where
  "ungetc c fd = (if c = EOF_char then fd else fd\<lparr>fs_rest := c # fs_rest fd, fs_eof := False\<rparr>)"

text \<open>What is left to read, the end-of-file indicator included.\<close>

definition stream_size :: "stream \<Rightarrow> nat" where
  "stream_size fd = length (fs_rest fd) + (if fs_eof fd then 0 else 1)"

lemma fgetc_size: "fgetc fd = (c, fd') \<Longrightarrow> \<not> feof fd \<Longrightarrow> c \<noteq> EOF_char \<Longrightarrow> stream_size fd' < stream_size fd"
  by (auto simp: fgetc_def feof_def stream_size_def split: list.splits)

text \<open>A stream with nothing left to read that does not say so.\<close>

definition stuck :: "stream \<Rightarrow> bool" where
  "stuck fd = (fs_rest fd = [] \<and> fs_fails fd \<and> \<not> feof fd)"

lemma fgetc_less: "fgetc fd = (c, fd') \<Longrightarrow> \<not> feof fd \<Longrightarrow> \<not> stuck fd \<Longrightarrow> stream_size fd' < stream_size fd"
  by (auto simp: fgetc_def feof_def stuck_def stream_size_def split: list.splits if_splits)

lemma fgetc_stuck: "stuck fd \<Longrightarrow> fgetc fd = (EOF_char, fd)"
  by (simp add: stuck_def fgetc_def)

section \<open>Lines of a configuration file\<close>

definition is_whitespace :: "char \<Rightarrow> bool" where
  "is_whitespace c = (c = CHR '' '' \<or> c = CHR 0x09 \<or> c = CHR 0x0D)"

definition is_quote :: "char \<Rightarrow> bool" where
  "is_quote c = (c = CHR 0x27 \<or> c = CHR 0x22)"

definition is_eol :: "char \<Rightarrow> bool" where
  "is_eol c = (c = CHR 0x0A \<or> c = EOF_char)"

definition COMMENT :: char where "COMMENT = CHR ''#''"
definition EQUAL :: char where "EQUAL = CHR ''=''"
definition MAX_EQUAL :: int where "MAX_EQUAL = 2"

function consume_line :: "stream \<Rightarrow> int \<times> stream" where
  "consume_line fd =
     (if feof fd then (1, fd)
      else case fgetc fd of (c, fd') \<Rightarrow> if is_eol c then (0, fd') else consume_line fd')"
  by pat_completeness auto
termination
  by (relation "measure stream_size") (auto dest!: fgetc_size [OF sym] simp: is_eol_def is_quote_def EQUAL_def EOF_char_def)

function consume_whitespace :: "stream \<Rightarrow> int \<times> stream" where
  "consume_whitespace fd =
     (if feof fd then (1, fd)
      else case fgetc fd of (c, fd') \<Rightarrow>
        if c = COMMENT then (1, fd')
        else if \<not> is_whitespace c \<or> is_eol c then (0, ungetc c fd')
        else consume_whitespace fd')"
  by pat_completeness auto
termination
  by (relation "measure stream_size") (auto dest!: fgetc_size [OF sym] simp: is_eol_def is_quote_def EQUAL_def EOF_char_def)

text \<open>
  The loop of \<^verbatim>\<open>parse_word\<close>: \<open>n\<close> is the space left, \<open>w\<close> the characters stored so far. A quote
  switches the treatment of the comment character only.
\<close>

function word_loop :: "bool \<Rightarrow> int \<Rightarrow> string \<Rightarrow> stream \<Rightarrow> string \<times> stream" where
  "word_loop quoted n w fd =
     (if feof fd then (w, fd)
      else case fgetc fd of (c, fd') \<Rightarrow>
        if c = COMMENT \<and> \<not> quoted then (w, fd')
        else if is_quote c then word_loop (\<not> quoted) n w fd'
        else if is_whitespace c \<or> is_eol c \<or> c = EQUAL then (w, ungetc c fd')
        else if n - 1 = 0 then (w @ [c], fd')
        else word_loop quoted (n - 1) (w @ [c]) fd')"
  by pat_completeness auto
termination
  by (relation "measure (\<lambda>(_, _, _, fd). stream_size fd)") (auto dest!: fgetc_size [OF sym] simp: is_eol_def is_quote_def EQUAL_def EOF_char_def)

text \<open>The return code, the word written (with its terminator) on success, and the stream.\<close>

definition parse_word :: "stream \<Rightarrow> int \<Rightarrow> int \<times> string \<times> stream" where
  "parse_word fd n = (case word_loop False n [] fd of (w, fd') \<Rightarrow> (if w = [] then 1 else 0, w, fd'))"

function equal_loop :: "int \<Rightarrow> string \<Rightarrow> stream \<Rightarrow> string \<times> stream" where
  "equal_loop n w fd =
     (if feof fd then (w, fd)
      else case fgetc fd of (c, fd') \<Rightarrow>
        if c = COMMENT then (w, fd')
        else if c \<noteq> EQUAL then (w, ungetc c fd')
        else if n - 1 = 0 then (w @ [c], fd')
        else equal_loop (n - 1) (w @ [c]) fd')"
  by pat_completeness auto
termination
  by (relation "measure (\<lambda>(_, _, fd). stream_size fd)") (auto dest!: fgetc_size [OF sym] simp: is_eol_def is_quote_def EQUAL_def EOF_char_def)

definition parse_equal :: "stream \<Rightarrow> int \<Rightarrow> int \<times> string \<times> stream" where
  "parse_equal fd n = (case equal_loop n [] fd of (w, fd') \<Rightarrow> (if w = [] then 1 else 0, w, fd'))"

declare consume_line.simps [simp del] consume_whitespace.simps [simp del]
  word_loop.simps [simp del] equal_loop.simps [simp del]

text \<open>
  The return code, the words written to the buffers \<^verbatim>\<open>tag\<close> and \<^verbatim>\<open>value\<close> (\<^const>\<open>None\<close>: the buffer was
  not completed) and the stream after the line.
\<close>

definition parse_line ::
  "stream \<Rightarrow> int \<Rightarrow> int \<Rightarrow> int \<times> string option \<times> string option \<times> stream" where
  "parse_line fd tag_max value_max =
     (let out = (\<lambda>ret tag val fd. (ret, tag, val, snd (consume_line fd))) in
      case consume_whitespace fd of (ret, fd) \<Rightarrow>
        if ret \<noteq> 0 then out ret None None fd
        else case parse_word fd tag_max of (ret, tag, fd) \<Rightarrow>
          if ret \<noteq> 0 then out ret None None fd
          else case consume_whitespace fd of (ret, fd) \<Rightarrow>
            if ret \<noteq> 0 then out ret (Some tag) None fd
            else case parse_equal fd MAX_EQUAL of (ret, equal, fd) \<Rightarrow>
              if ret \<noteq> 0 then out ret (Some tag) None fd
              else if equal \<noteq> [EQUAL] then out (-1) (Some tag) None fd
              else case consume_whitespace fd of (ret, fd) \<Rightarrow>
                if ret \<noteq> 0 then out ret (Some tag) None fd
                else case parse_word fd value_max of (ret, val, fd) \<Rightarrow>
                  out ret (Some tag) (if ret = 0 then Some val else None) fd)"

section \<open>Textual addresses\<close>

definition NIBBLE_SIZE :: nat where "NIBBLE_SIZE = 8"

text \<open>
  The loop of \<^verbatim>\<open>string_to_addr\<close>. \<open>nibble\<close> holds the characters of the current part, \<open>addr\<close> the numbers
  stored so far, and the last argument the text from \<^verbatim>\<open>p\<close> on without its terminator. The result is
  \<^const>\<open>None\<close> where the code returns -1; otherwise the numbers and the text at \<^verbatim>\<open>p\<close> when the loop
  ends before the terminator was passed. A part longer than the buffer overflows it.
\<close>

fun addr_loop ::
  "nat \<Rightarrow> nat \<Rightarrow> char \<Rightarrow> string \<Rightarrow> int list \<Rightarrow> string \<Rightarrow> ((int list \<times> string option) option) exec"
where
  "addr_loop len width delim nibble addr p =
     (if length addr \<ge> len then Inr (Some (addr, Some p))
      else
        let num = (if nibble = [] then 0 else atoi nibble) in
        case p of
          [] \<Rightarrow> if length nibble > width then Inr None else Inr (Some (addr @ [num], None))
        | c # cs \<Rightarrow>
            if c = delim \<or> c = CHR ''/''
            then if length nibble > width then Inr None
                 else if c = CHR ''/'' then Inr (Some (addr @ [num], Some p))
                 else addr_loop len width delim [] (addr @ [num]) cs
            else if length nibble \<ge> NIBBLE_SIZE then Inl Buffer_overflow
            else addr_loop len width delim (nibble @ [c]) addr cs)"

declare addr_loop.simps [simp del]

text \<open>The return value, the array and the text of the caller, cut at the slash.\<close>

definition string_to_addr ::
  "string \<Rightarrow> nat \<Rightarrow> nat \<Rightarrow> char \<Rightarrow> (int \<times> int list option \<times> string) exec" where
  "string_to_addr p len width delim =
     exec_bind (addr_loop len width delim [] [] p) (\<lambda>r.
       case r of
         None \<Rightarrow> Inr (-1, None, p)
       | Some (addr, at) \<Rightarrow>
           let addr' = addr @ replicate (len - length addr) 0 in
           (case at of
              Some (c # rest) \<Rightarrow>
                if c = CHR ''/'' then Inr (atoi rest, Some addr', take (length p - Suc (length rest)) p)
                else Inr (0, Some addr', p)
            | _ \<Rightarrow> Inr (0, Some addr', p)))"

definition ipv4_to_addr :: "string \<Rightarrow> (int \<times> int list option \<times> string) exec" where
  "ipv4_to_addr p = string_to_addr p 4 3 (CHR ''.'')"

definition ipv6_to_addr :: "string \<Rightarrow> (int \<times> int list option \<times> string) exec" where
  "ipv6_to_addr p = string_to_addr p 8 4 (CHR '':'')"

definition fc_to_addr :: "string \<Rightarrow> (int \<times> int list option \<times> string) exec" where
  "fc_to_addr p = string_to_addr p 8 2 (CHR '':'')"

section \<open>Names of enumerations\<close>

type_synonym u8 = "8 word"

text \<open>A sparse table of strings: the entries, and the number of slots of the array.\<close>

definition arg_str :: "(nat \<times> string) list \<Rightarrow> nat \<Rightarrow> u8 \<Rightarrow> string" where
  "arg_str strings array_size idx =
     (if unat idx < array_size
      then case map_of strings (unat idx) of Some s \<Rightarrow> s | None \<Rightarrow> ''unrecognized''
      else ''unrecognized'')"

definition NVMF_TRTYPE_RDMA :: nat where "NVMF_TRTYPE_RDMA = 1"
definition NVMF_TRTYPE_FC :: nat where "NVMF_TRTYPE_FC = 2"
definition NVMF_TRTYPE_TCP :: nat where "NVMF_TRTYPE_TCP = 3"
definition NVMF_TRTYPE_LOOP :: nat where "NVMF_TRTYPE_LOOP = 254"

definition NVMF_ADDR_FAMILY_PCI :: nat where "NVMF_ADDR_FAMILY_PCI = 0"
definition NVMF_ADDR_FAMILY_IP4 :: nat where "NVMF_ADDR_FAMILY_IP4 = 1"
definition NVMF_ADDR_FAMILY_IP6 :: nat where "NVMF_ADDR_FAMILY_IP6 = 2"
definition NVMF_ADDR_FAMILY_IB :: nat where "NVMF_ADDR_FAMILY_IB = 3"
definition NVMF_ADDR_FAMILY_FC :: nat where "NVMF_ADDR_FAMILY_FC = 4"

lemmas enum_defs = NVMF_TRTYPE_RDMA_def NVMF_TRTYPE_FC_def NVMF_TRTYPE_TCP_def NVMF_TRTYPE_LOOP_def
  NVMF_ADDR_FAMILY_PCI_def NVMF_ADDR_FAMILY_IP4_def NVMF_ADDR_FAMILY_IP6_def NVMF_ADDR_FAMILY_IB_def
  NVMF_ADDR_FAMILY_FC_def

definition trtypes :: "(nat \<times> string) list" where
  "trtypes = [(NVMF_TRTYPE_RDMA, ''rdma''), (NVMF_TRTYPE_FC, ''fc''), (NVMF_TRTYPE_LOOP, ''loop''),
              (NVMF_TRTYPE_TCP, ''tcp'')]"

definition trtype_str :: "u8 \<Rightarrow> string" where
  "trtype_str trtype = arg_str trtypes 255 trtype"

definition adrfams :: "(nat \<times> string) list" where
  "adrfams = [(NVMF_ADDR_FAMILY_PCI, ''pci''), (NVMF_ADDR_FAMILY_IP4, ''ipv4''),
              (NVMF_ADDR_FAMILY_IP6, ''ipv6''), (NVMF_ADDR_FAMILY_IB, ''ib''), (NVMF_ADDR_FAMILY_FC, ''fc'')]"

definition adrfam_str :: "u8 \<Rightarrow> string" where
  "adrfam_str adrfam = arg_str adrfams 5 adrfam"

definition subtypes :: "(nat \<times> string) list" where
  "subtypes = [(1, ''discovery subsystem''), (2, ''nvme subsystem'')]"

definition subtype_str :: "u8 \<Rightarrow> string" where
  "subtype_str subtype = arg_str subtypes 3 subtype"

definition treqs :: "(nat \<times> string) list" where
  "treqs = [(0, ''not specified''), (1, ''required''), (2, ''not required'')]"

definition treq_str :: "u8 \<Rightarrow> string" where
  "treq_str treq = arg_str treqs 3 treq"

definition prtypes :: "(nat \<times> string) list" where
  "prtypes = [(1, ''not specified''), (2, ''infiniband''), (3, ''roce''), (4, ''roce-v2''), (5, ''iwarp'')]"

definition prtype_str :: "u8 \<Rightarrow> string" where
  "prtype_str prtype = arg_str prtypes 6 prtype"

definition qptypes :: "(nat \<times> string) list" where
  "qptypes = [(1, ''connected''), (2, ''datagram'')]"

definition qptype_str :: "u8 \<Rightarrow> string" where
  "qptype_str qptype = arg_str qptypes 3 qptype"

definition cms :: "(nat \<times> string) list" where
  "cms = [(1, ''rdma-cm'')]"

definition cms_str :: "u8 \<Rightarrow> string" where
  "cms_str cm = arg_str cms 2 cm"

definition to_trtype :: "string \<Rightarrow> u8" where
  "to_trtype str =
     (if str = ''rdma'' then of_nat NVMF_TRTYPE_RDMA
      else if str = ''fc'' then of_nat NVMF_TRTYPE_FC
      else if str = ''tcp'' then of_nat NVMF_TRTYPE_TCP
      else 0)"

definition to_adrfam :: "string \<Rightarrow> u8" where
  "to_adrfam str =
     (if str = ''ipv4'' then of_nat NVMF_ADDR_FAMILY_IP4
      else if str = ''ipv6'' then of_nat NVMF_ADDR_FAMILY_IP6
      else if str = ''fc'' then of_nat NVMF_ADDR_FAMILY_FC
      else 0)"

section \<open>Lemmas on streams and words\<close>

text \<open>
  Every operation leaves the stream as it is or makes progress on it, and the end of a stream whose reads fail
  is never seen.
\<close>

definition advances :: "stream \<Rightarrow> stream \<Rightarrow> bool" where
  "advances fd fd' =
     ((fd' = fd \<or> stream_size fd' < stream_size fd) \<and> fs_fails fd' = fs_fails fd \<and>
      (fs_fails fd \<longrightarrow> \<not> feof fd \<longrightarrow> \<not> feof fd'))"

lemma advances_refl [simp]: "advances fd fd"
  by (simp add: advances_def)

lemma advances_trans: "advances fd fd' \<Longrightarrow> advances fd' fd'' \<Longrightarrow> advances fd fd''"
  by (auto simp: advances_def)

lemma advances_fgetc: "fgetc fd = (c, fd') \<Longrightarrow> \<not> feof fd \<Longrightarrow> advances fd fd'"
  by (cases "stuck fd")
    (auto simp: advances_def fgetc_stuck dest: fgetc_less, auto simp: fgetc_def feof_def split: list.splits if_splits)

lemma advances_ungetc:
  assumes "fgetc fd = (c, fd')" "\<not> feof fd"
  shows "advances fd (ungetc c fd')"
proof (cases "c = EOF_char")
  case True
  then show ?thesis using advances_fgetc [OF assms] by (simp add: ungetc_def)
next
  case False
  then have "ungetc c fd' = fd"
    using assms by (cases fd) (auto simp: fgetc_def ungetc_def feof_def split: list.splits if_splits)
  then show ?thesis by simp
qed

lemma consume_line_advances: "advances fd (snd (consume_line fd))"
proof (induction fd rule: consume_line.induct)
  case (1 fd)
  show ?case
    using 1 by (subst consume_line.simps)
      (auto split: prod.split intro: advances_fgetc advances_trans)
qed

lemma consume_line_progress:
  assumes "\<not> feof fd" "\<not> stuck fd"
  shows "stream_size (snd (consume_line fd)) < stream_size fd"
proof -
  obtain c fd' where c: "fgetc fd = (c, fd')" by fastforce
  have "stream_size (snd (consume_line fd')) \<le> stream_size fd'"
    using consume_line_advances [of fd'] by (auto simp: advances_def)
  then show ?thesis
    using fgetc_less [OF c assms] assms c by (subst consume_line.simps) simp
qed

lemma consume_whitespace_advances: "advances fd (snd (consume_whitespace fd))"
proof (induction fd rule: consume_whitespace.induct)
  case (1 fd)
  show ?case
    using 1 by (subst consume_whitespace.simps)
      (auto split: prod.split intro: advances_fgetc advances_ungetc advances_trans)
qed

lemma word_loop_advances: "advances fd (snd (word_loop q n w fd))"
proof (induction q n w fd rule: word_loop.induct)
  case (1 q n w fd)
  show ?case
    using 1 by (subst word_loop.simps)
      (auto split: prod.split intro: advances_fgetc advances_ungetc advances_trans)
qed

lemma equal_loop_advances: "advances fd (snd (equal_loop n w fd))"
proof (induction n w fd rule: equal_loop.induct)
  case (1 n w fd)
  show ?case
    using 1 by (subst equal_loop.simps)
      (auto split: prod.split intro: advances_fgetc advances_ungetc advances_trans)
qed

lemma word_loop_length: "0 < n \<Longrightarrow> int (length (fst (word_loop q n w fd))) \<le> int (length w) + n"
proof (induction q n w fd rule: word_loop.induct)
  case (1 q n w fd)
  show ?case
    using 1 by (subst word_loop.simps) (fastforce split: prod.split)
qed

lemma parse_word_advances: "parse_word fd n = (ret, w, fd') \<Longrightarrow> advances fd fd'"
  using word_loop_advances [of fd False n "[]"] by (auto simp: parse_word_def split: prod.splits)

lemma parse_equal_advances: "parse_equal fd n = (ret, w, fd') \<Longrightarrow> advances fd fd'"
  using equal_loop_advances [of fd n "[]"] by (auto simp: parse_equal_def split: prod.splits)

lemma whitespace_advances: "consume_whitespace fd = (ret, fd') \<Longrightarrow> advances fd fd'"
  using consume_whitespace_advances [of fd] by simp

lemma parse_word_length: "parse_word fd n = (ret, w, fd') \<Longrightarrow> 0 < n \<Longrightarrow> int (length w) \<le> n"
  using word_loop_length [of n False "[]" fd] by (auto simp: parse_word_def split: prod.splits)

text \<open>\<^verbatim>\<open>parse_line\<close> ends with \<^verbatim>\<open>consume_line\<close> on a stream that is at or after its first one.\<close>

lemma parse_line_stages:
  obtains fd1 where "advances fd fd1" "snd (snd (snd (parse_line fd m n))) = snd (consume_line fd1)"
proof -
  obtain r1 fd1 where 1: "consume_whitespace fd = (r1, fd1)" by fastforce
  obtain r2 tag fd2 where 2: "parse_word fd1 m = (r2, tag, fd2)" using prod_cases3 by blast
  obtain r3 fd3 where 3: "consume_whitespace fd2 = (r3, fd3)" by fastforce
  obtain r4 eq fd4 where 4: "parse_equal fd3 MAX_EQUAL = (r4, eq, fd4)" using prod_cases3 by blast
  obtain r5 fd5 where 5: "consume_whitespace fd4 = (r5, fd5)" by fastforce
  obtain r6 val fd6 where 6: "parse_word fd5 n = (r6, val, fd6)" using prod_cases3 by blast
  have a1: "advances fd fd1" by (rule whitespace_advances [OF 1])
  have a2: "advances fd fd2" by (rule advances_trans [OF a1 parse_word_advances [OF 2]])
  have a3: "advances fd fd3" by (rule advances_trans [OF a2 whitespace_advances [OF 3]])
  have a4: "advances fd fd4" by (rule advances_trans [OF a3 parse_equal_advances [OF 4]])
  have a5: "advances fd fd5" by (rule advances_trans [OF a4 whitespace_advances [OF 5]])
  have a6: "advances fd fd6" by (rule advances_trans [OF a5 parse_word_advances [OF 6]])
  have "snd (snd (snd (parse_line fd m n))) \<in> (\<lambda>f. snd (consume_line f)) ` {fd1, fd2, fd3, fd4, fd5, fd6}"
    unfolding parse_line_def Let_def 1 2 3 4 5 6 prod.case by simp
  then show ?thesis using that a1 a2 a3 a4 a5 a6 by blast
qed

text \<open>Characters that make up a word, and what follows it.\<close>

definition plain :: "char \<Rightarrow> bool" where
  "plain c = (\<not> is_whitespace c \<and> \<not> is_eol c \<and> \<not> is_quote c \<and> c \<noteq> COMMENT \<and> c \<noteq> EQUAL)"

definition ends_word :: "char \<Rightarrow> bool" where
  "ends_word c = (is_whitespace c \<or> c = CHR 0x0A \<or> c = EQUAL)"

lemmas char_class_defs = plain_def ends_word_def is_whitespace_def is_eol_def is_quote_def COMMENT_def
  EQUAL_def EOF_char_def

definition text_stream :: "string \<Rightarrow> stream" where
  "text_stream s = \<lparr>fs_rest = s, fs_eof = False, fs_fails = False\<rparr>"

lemma stream_read [simp]:
  "feof (text_stream s) = False" "fgetc (text_stream (c # s)) = (c, text_stream s)"
  "c \<noteq> EOF_char \<Longrightarrow> ungetc c (text_stream s) = text_stream (c # s)"
  by (simp_all add: text_stream_def feof_def fgetc_def ungetc_def)

lemma word_loop_plain:
  assumes "list_all plain v" "ends_word d" "int (length v) \<le> n"
  shows "word_loop False n w (text_stream (v @ d # ds)) = (w @ v, text_stream (d # ds))"
  using assms
proof (induction v arbitrary: n w)
  case Nil
  then show ?case
    by (subst word_loop.simps) (auto simp: char_class_defs)
next
  case (Cons c v)
  show ?case
  proof (cases "n = 1")
    case True
    then show ?thesis
      using Cons.prems by (subst word_loop.simps) (auto simp: plain_def)
  next
    case False
    then show ?thesis
      using Cons.prems Cons.IH [of "n - 1" "w @ [c]"] by (subst word_loop.simps) (auto simp: plain_def)
  qed
qed

lemma parse_word_plain:
  assumes "list_all plain v" "v \<noteq> []" "ends_word d" "int (length v) \<le> n"
  shows "parse_word (text_stream (v @ d # ds)) n = (0, v, text_stream (d # ds))"
  using assms by (simp add: parse_word_def word_loop_plain)

lemma consume_whitespace_skip:
  assumes "list_all is_whitespace v" "\<not> is_whitespace d" "d \<noteq> COMMENT" "d \<noteq> EOF_char"
  shows "consume_whitespace (text_stream (v @ d # ds)) = (0, text_stream (d # ds))"
  using assms
proof (induction v)
  case Nil
  then show ?case by (subst consume_whitespace.simps) simp
next
  case (Cons c v)
  then show ?case by (subst consume_whitespace.simps) (auto simp: char_class_defs)
qed

lemma consume_line_skip:
  assumes "list_all (\<lambda>c. \<not> is_eol c) v"
  shows "consume_line (text_stream (v @ CHR 0x0A # ds)) = (0, text_stream ds)"
  using assms
proof (induction v)
  case Nil
  then show ?case by (subst consume_line.simps) (simp add: is_eol_def)
next
  case (Cons c v)
  then show ?case by (subst consume_line.simps) simp
qed

lemma parse_equal_one:
  assumes "d \<noteq> EQUAL" "d \<noteq> COMMENT" "d \<noteq> EOF_char"
  shows "parse_equal (text_stream (EQUAL # d # ds)) MAX_EQUAL = (0, [EQUAL], text_stream (d # ds))"
proof -
  have "equal_loop 1 [EQUAL] (text_stream (d # ds)) = ([EQUAL], text_stream (d # ds))"
    using assms by (subst equal_loop.simps) simp
  then have "equal_loop 2 [] (text_stream (EQUAL # d # ds)) = ([EQUAL], text_stream (d # ds))"
    by (subst equal_loop.simps) (simp add: COMMENT_def EQUAL_def)
  then show ?thesis by (simp add: parse_equal_def MAX_EQUAL_def)
qed

section \<open>Properties\<close>

lemma parse_line_less:
  assumes "\<not> feof fd" "\<not> stuck fd"
  shows "stream_size (snd (snd (snd (parse_line fd tag_max value_max)))) < stream_size fd"
proof -
  obtain fd1 where fd1: "advances fd fd1"
    "snd (snd (snd (parse_line fd tag_max value_max))) = snd (consume_line fd1)"
    by (rule parse_line_stages)
  show ?thesis
  proof (cases "feof fd1 \<or> stuck fd1")
    case True
    then have "snd (consume_line fd1) = fd1" by (subst consume_line.simps) (auto simp: fgetc_stuck is_eol_def)
    moreover have "fd1 \<noteq> fd" using assms True by auto
    ultimately show ?thesis using fd1 by (auto simp: advances_def)
  next
    case False
    then show ?thesis
      using consume_line_progress [of fd1] fd1 by (auto simp: advances_def)
  qed
qed

lemma parse_line_advances: "advances fd (snd (snd (snd (parse_line fd tag_max value_max))))"
  by (rule parse_line_stages [of fd tag_max value_max]) (metis advances_trans consume_line_advances)

lemma parse_line_stuck:
  assumes "stuck fd"
  shows "parse_line fd tag_max value_max = (1, None, None, fd)"
proof -
  have e: "\<not> feof fd" using assms by (simp add: stuck_def)
  have "EOF_char \<noteq> COMMENT" "is_eol EOF_char" "\<not> is_quote EOF_char" by (simp_all add: char_class_defs)
  then have "consume_whitespace fd = (0, fd)" "word_loop False n [] fd = ([], fd)" "consume_line fd = (0, fd)" for n
    using e fgetc_stuck [OF assms]
    by (simp_all add: consume_whitespace.simps [of fd] word_loop.simps [of _ _ _ fd] consume_line.simps [of fd] ungetc_def)
  then show ?thesis by (simp add: parse_line_def parse_word_def)
qed

text \<open>
  C35. Reading a line makes progress: from a stream that is not at its end, \<^verbatim>\<open>parse_line\<close> returns with strictly
  less left to read, whatever the text, so that the loops \<^verbatim>\<open>while (!feof(fd))\<close> of its callers end. The exception is a
  stream whose text is used up and whose reads fail instead of reaching the end, such as a directory that was
  opened as a file: then the line is refused and the stream is as before, so that these loops never end.
\<close>

theorem parse_line_progress:
  assumes "\<not> feof fd"
  shows "if stuck fd then parse_line fd tag_max value_max = (1, None, None, fd)
         else stream_size (snd (snd (snd (parse_line fd tag_max value_max)))) < stream_size fd"
  using assms by (simp add: parse_line_less parse_line_stuck)

theorem parse_line_progress_witness:
  "stream_size (snd (snd (snd (parse_line (text_stream ''a=b'') 8 40)))) < 4 \<and>
   parse_line \<lparr>fs_rest = [], fs_eof = False, fs_fails = True\<rparr> 8 40 =
     (1, None, None, \<lparr>fs_rest = [], fs_eof = False, fs_fails = True\<rparr>)"
  using parse_line_progress [of "text_stream ''a=b''" 8 40]
    parse_line_progress [of "\<lparr>fs_rest = [], fs_eof = False, fs_fails = True\<rparr>" 8 40]
  by (simp add: stream_size_def text_stream_def feof_def stuck_def)

text \<open>
  C36. The words never exceed the sizes passed, so the buffers of size + 1 bytes that the callers
  declare hold them with the terminator.
\<close>

theorem parse_line_bounds:
  assumes "0 < tag_max" "0 < value_max" "parse_line fd tag_max value_max = (ret, tag, val, fd')"
  shows "(\<forall>t. tag = Some t \<longrightarrow> int (length t) \<le> tag_max) \<and> (\<forall>v. val = Some v \<longrightarrow> int (length v) \<le> value_max)"
  using assms
  by (auto simp: parse_line_def Let_def split: prod.splits if_splits dest: parse_word_length)

theorem parse_line_bounds_witness:
  "fst (snd (parse_line (text_stream ''averylongtag=b'') 8 40)) = Some ''averylon'' \<and> int (length ''averylon'') \<le> 8"
proof -
  define r where "r = parse_line (text_stream ''averylongtag=b'') 8 40"
  obtain ret tag val fd' where r: "r = (ret, tag, val, fd')" using prod_cases4 by blast
  have "fst (snd r) = Some ''averylon''" unfolding r_def by code_simp
  then show ?thesis
    using parse_line_bounds [OF _ _ r [unfolded r_def]] by (simp add: r r_def [symmetric])
qed

text \<open>
  C34. Round trip: a line \<^verbatim>\<open>tag = value\<close>, with any blanks around the parts, is read back as exactly
  that tag and value when they are made of plain characters and fit the sizes, and the stream is
  left at the next line.
\<close>

theorem parse_line_roundtrip:
  assumes "list_all plain tag" "tag \<noteq> []" "int (length tag) \<le> tag_max"
    and "list_all plain val" "val \<noteq> []" "int (length val) \<le> value_max"
    and "list_all is_whitespace ws1" "list_all is_whitespace ws2" "list_all is_whitespace ws3"
      "list_all is_whitespace ws4"
  shows "parse_line (text_stream (ws1 @ tag @ ws2 @ EQUAL # ws3 @ val @ ws4 @ CHR 0x0A # rest)) tag_max value_max =
           (0, Some tag, Some val, text_stream rest)"
proof -
  obtain t tag' v val' where tv: "tag = t # tag'" "val = v # val'"
    using assms(2,5) by (meson neq_Nil_conv)
  obtain d ds where d: "ws2 @ EQUAL # ws3 @ val @ ws4 @ CHR 0x0A # rest = d # ds" "ends_word d"
    using assms(8) by (cases ws2) (auto simp: ends_word_def)
  obtain e es where e: "ws4 @ CHR 0x0A # rest = e # es" "ends_word e"
    using assms(10) by (cases ws4) (auto simp: ends_word_def)
  obtain f fs where f: "ws3 @ val @ ws4 @ CHR 0x0A # rest = f # fs" "f \<noteq> EQUAL" "f \<noteq> COMMENT" "f \<noteq> EOF_char"
    using assms(4,9) tv by (cases ws3) (auto simp: char_class_defs)
  have 1: "consume_whitespace (text_stream (ws1 @ tag @ d # ds)) = (0, text_stream (tag @ d # ds))"
    using consume_whitespace_skip [OF assms(7), of t] assms(1) tv by (auto simp: plain_def is_eol_def)
  have 2: "parse_word (text_stream (tag @ d # ds)) tag_max = (0, tag, text_stream (d # ds))"
    by (rule parse_word_plain [OF assms(1,2) d(2) assms(3)])
  have 3: "consume_whitespace (text_stream (d # ds)) = (0, text_stream (EQUAL # f # fs))"
    using consume_whitespace_skip [OF assms(8), of EQUAL "f # fs"] d(1) f(1) by (auto simp: char_class_defs)
  have 4: "parse_equal (text_stream (EQUAL # f # fs)) MAX_EQUAL = (0, [EQUAL], text_stream (f # fs))"
    by (rule parse_equal_one [OF f(2-4)])
  have 5: "consume_whitespace (text_stream (f # fs)) = (0, text_stream (val @ e # es))"
    using consume_whitespace_skip [OF assms(9), of v "val' @ e # es"] assms(4) tv f(1) e(1) by (auto simp: plain_def is_eol_def)
  have 6: "parse_word (text_stream (val @ e # es)) value_max = (0, val, text_stream (e # es))"
    by (rule parse_word_plain [OF assms(4,5) e(2) assms(6)])
  have blank: "list_all (\<lambda>c. \<not> is_eol c) ws4"
    using assms(10) by (rule list.pred_mono_strong) (auto simp: is_whitespace_def is_eol_def EOF_char_def)
  have 7: "consume_line (text_stream (e # es)) = (0, text_stream rest)"
    using consume_line_skip [OF blank, of rest] e(1) by simp
  have "ws1 @ tag @ ws2 @ EQUAL # ws3 @ val @ ws4 @ CHR 0x0A # rest = ws1 @ tag @ d # ds"
    using d(1) by simp
  then show ?thesis by (simp add: parse_line_def 1 2 3 4 5 6 7)
qed

theorem parse_line_roundtrip_witness:
  "parse_line (text_stream ('' '' @ ''Type'' @ '' '' @ EQUAL # ''  '' @ ''rdma'' @ [] @ CHR 0x0A # ''x=1'')) 8 40 =
     (0, Some ''Type'', Some ''rdma'', text_stream ''x=1'')"
  by (rule parse_line_roundtrip) (simp_all add: char_class_defs)

text \<open>Numbers written in decimal are read back by \<^const>\<open>atoi\<close>.\<close>

lemma digit_char: "d < 10 \<Longrightarrow> (of_char (char_of (48 + d)) :: nat) = 48 + d"
  by simp

lemma digit_char_int: "d < 10 \<Longrightarrow> (of_char (char_of (48 + d :: nat)) :: int) = 48 + int d"
  using digit_char [of d] of_nat_of_char [of "char_of (48 + d)", where ?'a = int] by simp

lemma show_nat_digits: "list_all is_digit (show_nat n)"
proof (induction n rule: show_nat.induct)
  case (1 n)
  have "is_digit (char_of (48 + d))" if "d < 10" for d :: nat
    using digit_char [OF that] that by (simp add: is_digit_def del: of_char_of)
  then show ?case using 1 by (subst show_nat.simps) simp
qed

lemma digits_value_snoc: "digits_value (ds @ [c]) = 10 * digits_value ds + (of_char c - 48)"
  by (simp add: digits_value_def)

lemma digits_value_show: "digits_value (show_nat n) = int n"
proof (induction n rule: show_nat.induct)
  case (1 n)
  show ?case
  proof (cases "n < 10")
    case True
    then show ?thesis
      by (subst show_nat.simps) (simp add: digits_value_def digit_char_int)
  next
    case False
    then have "digits_value (show_nat n) = 10 * int (n div 10) + int (n mod 10)"
      using 1 digit_char_int [of "n mod 10"] by (subst show_nat.simps) (simp add: digits_value_snoc)
    then show ?thesis using arg_cong [OF mult_div_mod_eq [of 10 n], of int] by linarith
  qed
qed

lemma show_nat_nonempty [simp]: "show_nat n \<noteq> []"
  by (subst show_nat.simps) simp

lemma digit_not_special: "is_digit c \<Longrightarrow> \<not> is_space c \<and> c \<noteq> CHR ''-'' \<and> c \<noteq> CHR ''+'' \<and> c \<noteq> CHR ''/'' \<and> c \<noteq> CHR ''.''"
  by (auto simp: is_digit_def is_space_def)

lemma atoi_show_append:
  assumes "case rest of [] \<Rightarrow> True | c # _ \<Rightarrow> \<not> is_digit c"
  shows "atoi (show_nat n @ rest) = int n"
proof -
  obtain c cs where c: "show_nat n = c # cs" by (meson neq_Nil_conv show_nat_nonempty)
  have d: "is_digit c" using show_nat_digits [of n] by (simp add: c)
  have "takeWhile is_digit (show_nat n @ rest) = show_nat n"
    using show_nat_digits [of n] assms by (cases rest) (auto simp: list_all_iff takeWhile_append)
  then show ?thesis
    using digit_not_special [OF d] digits_value_show [of n] by (simp add: atoi_def c)
qed

lemma atoi_show: "atoi (show_nat n) = int n"
  using atoi_show_append [of "[]" n] by simp

lemma length_show_nat: "n < 10 ^ k \<Longrightarrow> 0 < k \<Longrightarrow> length (show_nat n) \<le> k"
proof (induction k arbitrary: n)
  case (Suc k)
  show ?case
  proof (cases "n < 10")
    case True
    then show ?thesis by (subst show_nat.simps) simp
  next
    case False
    then have "n div 10 < 10 ^ k" "0 < k" using Suc.prems by (auto intro!: gr0I)
    then show ?thesis using False Suc.IH [of "n div 10"] by (subst show_nat.simps) simp
  qed
qed simp

text \<open>One part of an address followed by the delimiter, by a slash, or by the end of the text.\<close>

lemma addr_loop_part:
  assumes "length addr < len" "list_all is_digit part" "length nibble + length part \<le> NIBBLE_SIZE"
    "delim = CHR ''.'' \<or> delim = CHR '':''"
  shows "addr_loop len width delim nibble addr (part @ cs) = addr_loop len width delim (nibble @ part) addr cs"
  using assms
proof (induction part arbitrary: nibble)
  case (Cons c part)
  have "c \<noteq> delim" "c \<noteq> CHR ''/''"
    using Cons.prems(2,4) by (auto simp: is_digit_def)
  then show ?case
    using Cons.prems Cons.IH [of "nibble @ [c]"] by (subst addr_loop.simps) simp
qed simp

definition fits :: "nat \<Rightarrow> string \<Rightarrow> bool" where
  "fits width part = (list_all is_digit part \<and> part \<noteq> [] \<and> length part \<le> width)"

lemma addr_loop_ends:
  assumes "length addr < len" "fits width part" "width \<le> NIBBLE_SIZE" "delim = CHR ''.'' \<or> delim = CHR '':''"
  shows "addr_loop len width delim [] addr (part @ delim # cs) =
           addr_loop len width delim [] (addr @ [atoi part]) cs"
    and "addr_loop len width delim [] addr (part @ CHR ''/'' # cs) =
           Inr (Some (addr @ [atoi part], Some (CHR ''/'' # cs)))"
    and "addr_loop len width delim [] addr part = Inr (Some (addr @ [atoi part], None))"
proof -
  note p = addr_loop_part [OF assms(1), of part "[]" delim width]
  have *: "list_all is_digit part" "length part \<le> NIBBLE_SIZE" "part \<noteq> []" "\<not> width < length part"
    using assms(2,3) by (auto simp: fits_def)
  show "addr_loop len width delim [] addr (part @ delim # cs) =
           addr_loop len width delim [] (addr @ [atoi part]) cs"
    using p [OF *(1) _ assms(4), of "delim # cs"] * assms(1,4)
    by simp (subst addr_loop.simps, auto)
  show "addr_loop len width delim [] addr (part @ CHR ''/'' # cs) =
           Inr (Some (addr @ [atoi part], Some (CHR ''/'' # cs)))"
    using p [OF *(1) _ assms(4), of "CHR ''/'' # cs"] * assms(1,4)
    by simp (subst addr_loop.simps, simp)
  show "addr_loop len width delim [] addr part = Inr (Some (addr @ [atoi part], None))"
    using p [OF *(1) _ assms(4), of "[]"] * assms(1,4)
    by simp (subst addr_loop.simps, simp)
qed

definition show_ipv4 :: "nat \<Rightarrow> nat \<Rightarrow> nat \<Rightarrow> nat \<Rightarrow> string" where
  "show_ipv4 a b c d =
     show_nat a @ CHR ''.'' # show_nat b @ CHR ''.'' # show_nat c @ CHR ''.'' # show_nat d"

lemma fits_show: "n < 1000 \<Longrightarrow> fits 3 (show_nat n)"
  using length_show_nat [of n 3] show_nat_digits by (simp add: fits_def)

lemma addr_loop_ipv4:
  assumes "a < 1000" "b < 1000" "c < 1000" "d < 1000"
  shows "addr_loop 4 3 (CHR ''.'') [] [] (show_ipv4 a b c d) =
           Inr (Some ([int a, int b, int c, int d], None))"
    and "addr_loop 4 3 (CHR ''.'') [] [] (show_ipv4 a b c d @ CHR ''/'' # cs) =
           Inr (Some ([int a, int b, int c, int d], Some (CHR ''/'' # cs)))"
  using assms by (simp_all add: show_ipv4_def addr_loop_ends fits_show NIBBLE_SIZE_def atoi_show)

text \<open>
  C37. An IPv4 address in dotted decimal is read back as its four numbers with return value 0; with
  a prefix length after a slash, that length is returned and the caller's text is cut at the slash.
\<close>

theorem ipv4_to_addr_roundtrip:
  assumes "a < 1000" "b < 1000" "c < 1000" "d < 1000"
  shows "ipv4_to_addr (show_ipv4 a b c d) = Inr (0, Some [int a, int b, int c, int d], show_ipv4 a b c d) \<and>
         ipv4_to_addr (show_ipv4 a b c d @ CHR ''/'' # show_nat m) =
           Inr (int m, Some [int a, int b, int c, int d], show_ipv4 a b c d)"
  using addr_loop_ipv4 [OF assms] by (simp add: ipv4_to_addr_def string_to_addr_def atoi_show)

theorem ipv4_to_addr_roundtrip_witness:
  "ipv4_to_addr (show_ipv4 192 168 1 25 @ CHR ''/'' # show_nat 24) = Inr (24, Some [192, 168, 1, 25], ''192.168.1.25'')"
proof -
  have "show_ipv4 192 168 1 25 = ''192.168.1.25''" by code_simp
  then show ?thesis using ipv4_to_addr_roundtrip [of 192 168 1 25 24] by simp
qed

text \<open>
  The names of transports and address families: every supported name is mapped to its code and
  back, the two parsers never produce a code without a name except 0, and a transport name that is
  not supported gives 0, whose name is the marker for an unknown value (while 0 is the PCI family).
\<close>

theorem trtype_adrfam_names:
  "(s \<in> {''rdma'', ''fc'', ''tcp''} \<longleftrightarrow> to_trtype s \<noteq> 0) \<and>
   trtype_str (to_trtype s) = (if s \<in> {''rdma'', ''fc'', ''tcp''} then s else ''unrecognized'') \<and>
   (t \<in> {''ipv4'', ''ipv6'', ''fc''} \<longleftrightarrow> to_adrfam t \<noteq> 0) \<and>
   adrfam_str (to_adrfam t) = (if t \<in> {''ipv4'', ''ipv6'', ''fc''} then t else ''pci'')"
  by (simp add: to_trtype_def to_adrfam_def trtype_str_def adrfam_str_def arg_str_def trtypes_def adrfams_def
      enum_defs)

text \<open>
  The IPv6 and Fibre Channel parsers read every part as a decimal number: a part with a
  hexadecimal digit is cut there, so that different addresses give the same numbers.
\<close>

theorem ipv6_to_addr_decimal:
  "ipv6_to_addr ''fe80:0:0:0:0:0:0:1a'' = Inr (0, Some [0, 0, 0, 0, 0, 0, 0, 1], ''fe80:0:0:0:0:0:0:1a'') \<and>
   map_sum id (fst \<circ> snd) (ipv6_to_addr ''fe80:0:0:0:0:0:0:1a'') =
     map_sum id (fst \<circ> snd) (ipv6_to_addr ''fc00:0:0:0:0:0:0:1b'') \<and>
   fc_to_addr ''ab:00:00:00:00:00:00:0f'' = Inr (0, Some [0, 0, 0, 0, 0, 0, 0, 0], ''ab:00:00:00:00:00:00:0f'')"
  by code_simp

text \<open>
  C38. A part of an address with more than eight characters overflows the local buffer of
  \<^verbatim>\<open>string_to_addr\<close>, since its length is compared with the width only at the next delimiter.
\<close>

theorem string_to_addr_overflow:
  assumes "list_all is_digit part" "length part > NIBBLE_SIZE"
  shows "ipv4_to_addr part = Inl Buffer_overflow"
proof -
  obtain c cs where c: "drop NIBBLE_SIZE part = c # cs"
    using assms(2) by (cases "drop NIBBLE_SIZE part") auto
  have t: "list_all is_digit (take NIBBLE_SIZE part)" "is_digit c"
    using assms(1) c append_take_drop_id [of NIBBLE_SIZE part]
    by (metis list_all_append list.pred_inject(2))+
  have "addr_loop 4 3 (CHR ''.'') [] [] (take NIBBLE_SIZE part @ c # cs) =
      addr_loop 4 3 (CHR ''.'') (take NIBBLE_SIZE part) [] (c # cs)"
    using addr_loop_part [of "[]" 4 "take NIBBLE_SIZE part" "[]" "CHR ''.''" 3 "c # cs"] t by simp
  also have "\<dots> = Inl Buffer_overflow"
    using digit_not_special [OF t(2)] assms(2) by (subst addr_loop.simps) simp
  finally show ?thesis
    using append_take_drop_id [of NIBBLE_SIZE part] by (simp add: c ipv4_to_addr_def string_to_addr_def)
qed

theorem string_to_addr_overflow_witness: "ipv4_to_addr ''123456789'' = Inl Buffer_overflow"
  by (rule string_to_addr_overflow) (simp_all add: is_digit_def NIBBLE_SIZE_def)

end

