(* ===== verification/Dem_State.thy ===== *)
theory Dem_State
  imports Json_System Parse
begin

text \<open>
  The in-memory state of the discovery controller (\<^verbatim>\<open>src/src/dem/common.h\<close> and the globals of
  \<^verbatim>\<open>src/src/dem/daemon.c\<close>), and the searches of \<^verbatim>\<open>src/src/dem/config.c\<close>.

  A list linked through \<^verbatim>\<open>node\<close> is a HOL list of its entries in order; theory \<open>Linked_List\<close> shows that
  the list operations of \<^verbatim>\<open>utils.h\<close> behave like that. An object other objects point to has an address,
  drawn from a counter, so that an address is never used twice; a pointer is an address.

  What is outside of the controller (the NVMe connections to targets and hosts, the HTTP client) is a
  record of functions on a state of its own, \<open>network\<close>, a parameter of the definitions that use it.
\<close>

section \<open>Objects\<close>

type_synonym ptr = nat

record portid =
  pt_ptr :: ptr
  pt_portid :: int
  pt_type :: string
  pt_family :: string
  pt_address :: string
  pt_port :: string
  pt_port_num :: int
  pt_addr :: "int list"

record host =
  hs_alias :: string
  hs_nqn :: string

record ns =
  ns_nsid :: int
  ns_devid :: int
  ns_devns :: int

text \<open>\<^verbatim>\<open>struct nvmf_disc_rsp_page_entry\<close>, the fields the code reads.\<close>

record disc_entry =
  de_trtype :: u8
  de_adrfam :: u8
  de_subtype :: u8
  de_treq :: u8
  de_portid :: int
  de_trsvcid :: string
  de_subnqn :: string
  de_traddr :: string
  de_prtype :: u8
  de_qptype :: u8
  de_cms :: u8
  de_pkey :: int

record logpage =
  lp_portid :: ptr
  lp_e :: disc_entry
  lp_valid :: bool

record subsystem =
  ss_ptr :: ptr
  ss_hosts :: "host list"
  ss_nss :: "ns list"
  ss_logpages :: "logpage list"
  ss_nqn :: string
  ss_access :: int

text \<open>
  A discovery queue. The \<^verbatim>\<open>target\<close> it points to is the one whose list it is in; the endpoint in it is
  known to the network by the address of the queue.
\<close>

record ctrl_queue =
  cq_ptr :: ptr
  cq_portid :: ptr
  cq_subsys :: "ptr option"
  cq_hostnqn :: string
  cq_connected :: bool
  cq_failed_kato :: bool

text \<open>
  \<^verbatim>\<open>union sc_iface\<close>. The address of the out-of-band interface takes up the first 41 bytes of the union
  and its port the bytes from 44; in the other member the pointer \<^verbatim>\<open>portid\<close> is at byte 16 and that to the
  transport's endpoint at byte 40. \<open>sc_oob\<close> is what was last written through the first member,
  \<open>sc_inb_portid\<close> the port the pointer refers to, \<open>sc_inb_freed\<close> tells that the port it points to was
  freed, \<open>sc_ops\<close> tells that the operations of a transport are
  registered, and \<open>sc_ep_valid\<close> tells that the endpoint pointer has not
  been overwritten since the endpoint was made. \<^verbatim>\<open>connected\<close>, \<^verbatim>\<open>failed_kato\<close> and the name of the host lie
  beyond the first member.
\<close>

record sc_iface =
  sc_oob :: "string \<times> int"
  sc_inb_portid :: "portid option"
  sc_inb_freed :: bool
  sc_ops :: bool
  sc_ep_valid :: bool
  sc_hostnqn :: string
  sc_connected :: bool
  sc_failed_kato :: bool

record target =
  tg_ptr :: ptr
  tg_subsystems :: "subsystem list"
  tg_portids :: "portid list"
  tg_devices :: "nsdev list"
  tg_queues :: "ctrl_queue list"
  tg_unattached :: "logpage list"
  tg_fabric_ifaces :: "fabric_iface list"
  tg_sc_iface :: sc_iface
  tg_alias :: string
  tg_mgmt_mode :: mgmt_mode
  tg_refresh :: int
  tg_log_page_retry_count :: int
  tg_refresh_countdown :: int
  tg_kato_countdown :: int
  tg_group_member :: bool

record group =
  gr_ptr :: ptr
  gr_targets :: "ptr list"
  gr_name :: string

record group_host_link =
  gl_group :: ptr
  gl_alias :: string
  gl_nqn :: string

text \<open>
  An entry of \<^verbatim>\<open>aen_req_list\<close>, and the endpoint of a connected host: \<open>ep_cmd\<close> tells that its command
  buffer is not null, \<open>ep_connected\<close> that its state is \<^verbatim>\<open>CONNECTED\<close>.
\<close>

record aen_req =
  ar_ptr :: ptr
  ar_ep :: ptr
  ar_nqn :: string

record endpoint =
  ep_nqn :: string
  ep_cmd :: bool
  ep_connected :: bool
  ep_csts :: int

text \<open>
  The state of the controller: the JSON document, the four lists, the endpoints that have not been
  freed, the next address and the state of the network.
\<close>

record ('j, 'w) dem =
  dm_root :: 'j
  dm_targets :: "target list"
  dm_groups :: "group list"
  dm_hosts :: "group_host_link list"
  dm_aen :: "aen_req list"
  dm_endpoints :: "ptr \<rightharpoonup> endpoint"
  dm_next :: ptr
  dm_shared_nqn :: string
  dm_net :: 'w

section \<open>The network\<close>

text \<open>The in-band configuration messages, with the fields of the entries of \<^verbatim>\<open>nvme.h\<close>.\<close>

datatype inb_msg =
    Set_port_config int u8 u8 u8 string string
  | Set_subsys_config string u8
  | Set_ns_config string int int int
  | Set_host_config string
  | Link_host_config string string
  | Unlink_host_config string string
  | Link_port_config string int
  | Unlink_port_config string int
  | Del_host_config string
  | Del_port_config int
  | Del_subsys_config string
  | Del_ns_config string int
  | Reset_config

text \<open>The control connection of a target and its discovery queues.\<close>

datatype conn = Control ptr | Queue ptr

text \<open>
  What the controller calls of \<^verbatim>\<open>nvmeof.c\<close>, \<^verbatim>\<open>curl.c\<close> and the transports: each takes the state of the
  network and returns a code, the data received, and the new state. Connecting may note that the target
  rejected a keep-alive timeout. \<open>nw_inet_pton family address\<close> is the library function of that name.
\<close>

record 'w network =
  nw_inet_pton :: "string \<Rightarrow> string \<Rightarrow> bool"
  nw_connect :: "conn \<Rightarrow> portid \<Rightarrow> string \<Rightarrow> bool \<Rightarrow> 'w \<Rightarrow> int \<times> bool \<times> 'w"
  nw_disconnect :: "conn \<Rightarrow> 'w \<Rightarrow> 'w"
  nw_mi_send :: "conn \<Rightarrow> inb_msg \<Rightarrow> 'w \<Rightarrow> int \<times> 'w"
  nw_ns_devices :: "conn \<Rightarrow> 'w \<Rightarrow> int \<times> (int \<times> int) list \<times> 'w"
  nw_transports :: "conn \<Rightarrow> 'w \<Rightarrow> int \<times> (u8 \<times> u8 \<times> string) list \<times> 'w"
  nw_log_page :: "conn \<Rightarrow> nat \<Rightarrow> 'w \<Rightarrow> int \<times> (nat \<times> nat \<times> disc_entry list) \<times> 'w"
  nw_keep_alive :: "conn \<Rightarrow> 'w \<Rightarrow> int \<times> 'w"
  nw_get :: "string \<Rightarrow> 'w \<Rightarrow> int \<times> string \<times> 'w"
  nw_post :: "string \<Rightarrow> string \<Rightarrow> 'w \<Rightarrow> int \<times> 'w"
  nw_delete :: "string \<Rightarrow> 'w \<Rightarrow> int \<times> 'w"
  nw_send_aer :: "ptr \<Rightarrow> 'w \<Rightarrow> 'w"

section \<open>Searches\<close>

definition is_restricted :: "subsystem \<Rightarrow> bool" where
  "is_restricted ss = (ss_access ss = RESTRICTED)"

definition find_target :: "('j, 'w) dem \<Rightarrow> string \<Rightarrow> target option" where
  "find_target s alias = List.find (\<lambda>t. tg_alias t = alias) (dm_targets s)"

definition find_subsys :: "target \<Rightarrow> string \<Rightarrow> subsystem option" where
  "find_subsys t nqn = List.find (\<lambda>ss. ss_nqn ss = nqn) (tg_subsystems t)"

definition find_portid :: "target \<Rightarrow> int \<Rightarrow> portid option" where
  "find_portid t pid = List.find (\<lambda>p. pt_portid p = pid) (tg_portids t)"

definition find_ns :: "subsystem \<Rightarrow> int \<Rightarrow> ns option" where
  "find_ns ss nsid = List.find (\<lambda>n. ns_nsid n = nsid) (ss_nss ss)"

definition find_group :: "('j, 'w) dem \<Rightarrow> string \<Rightarrow> group option" where
  "find_group s name = List.find (\<lambda>g. gr_name g = name) (dm_groups s)"

text \<open>Null when no link of the group matches; the links of all groups are in one list.\<close>

definition find_group_host :: "('j, 'w) dem \<Rightarrow> ptr \<Rightarrow> string \<Rightarrow> group_host_link option" where
  "find_group_host s g nqn = List.find (\<lambda>l. gl_group l = g \<and> gl_nqn l = nqn) (dm_hosts s)"

text \<open>\<^verbatim>\<open>strncpy\<close> of at most \<open>n\<close> characters into a zeroed array of \<open>n + 1\<close>.\<close>

definition cut :: "nat \<Rightarrow> string \<Rightarrow> string" where
  "cut n s = take n s"

text \<open>Changing the objects at an address; assignments through a pointer.\<close>

definition upd_target :: "ptr \<Rightarrow> (target \<Rightarrow> target) \<Rightarrow> ('j, 'w) dem \<Rightarrow> ('j, 'w) dem" where
  "upd_target p f s = s\<lparr>dm_targets := map (\<lambda>t. if tg_ptr t = p then f t else t) (dm_targets s)\<rparr>"

definition upd_group :: "ptr \<Rightarrow> (group \<Rightarrow> group) \<Rightarrow> ('j, 'w) dem \<Rightarrow> ('j, 'w) dem" where
  "upd_group p f s = s\<lparr>dm_groups := map (\<lambda>g. if gr_ptr g = p then f g else g) (dm_groups s)\<rparr>"

text \<open>The object at an address; it is gone when it was freed.\<close>

definition get_target :: "('j, 'w) dem \<Rightarrow> ptr \<Rightarrow> target option" where
  "get_target s p = List.find (\<lambda>t. tg_ptr t = p) (dm_targets s)"

text \<open>Running a function on a target and the network.\<close>

definition on_target ::
  "ptr \<Rightarrow> (target \<Rightarrow> 'w \<Rightarrow> ('a \<times> target \<times> 'w) exec) \<Rightarrow> ('j, 'w) dem \<Rightarrow> ('a \<times> ('j, 'w) dem) exec" where
  "on_target p f s =
     (case get_target s p of
        None \<Rightarrow> Inl Use_after_free
      | Some t \<Rightarrow> exec_bind (f t (dm_net s)) (\<lambda>(x, t', w').
          Inr (x, (upd_target p (\<lambda>_. t') s)\<lparr>dm_net := w'\<rparr>)))"

lemma upd_target_sel [simp]:
  "dm_root (upd_target p f s) = dm_root s" "dm_groups (upd_target p f s) = dm_groups s"
  "dm_hosts (upd_target p f s) = dm_hosts s" "dm_aen (upd_target p f s) = dm_aen s"
  "dm_next (upd_target p f s) = dm_next s" "dm_endpoints (upd_target p f s) = dm_endpoints s"
  "dm_net (upd_target p f s) = dm_net s" "dm_shared_nqn (upd_target p f s) = dm_shared_nqn s"
  by (simp_all add: upd_target_def)

lemma upd_group_sel [simp]:
  "dm_root (upd_group p f s) = dm_root s" "dm_targets (upd_group p f s) = dm_targets s"
  "dm_hosts (upd_group p f s) = dm_hosts s" "dm_aen (upd_group p f s) = dm_aen s"
  "dm_next (upd_group p f s) = dm_next s" "dm_endpoints (upd_group p f s) = dm_endpoints s"
  "dm_net (upd_group p f s) = dm_net s" "dm_shared_nqn (upd_group p f s) = dm_shared_nqn s"
  by (simp_all add: upd_group_def)

end
