(* ===== verification/Dem_Notify.thy ===== *)
theory Dem_Notify
  imports Dem_State
begin

text \<open>
  Asynchronous event notifications (\<^verbatim>\<open>src/src/dem/config.c\<close>, notification functions): a host that asked
  for events has a request in \<^verbatim>\<open>aen_req_list\<close>; a change of the configuration builds a list of the hosts
  concerned and answers one request of each.
\<close>

section \<open>Definitions\<close>

text \<open>\<^verbatim>\<open>struct event_notification\<close> in a list of notifications.\<close>

record notification =
  nt_req :: ptr
  nt_ep :: ptr
  nt_nqn :: string
  nt_valid :: bool

definition in_notification_list :: "notification list \<Rightarrow> string \<Rightarrow> bool" where
  "in_notification_list l nqn = list_ex (\<lambda>e. nt_nqn e = nqn) l"

definition create_notification_entry :: "aen_req \<Rightarrow> notification list \<Rightarrow> notification list" where
  "create_notification_entry r l =
     l @ [\<lparr>nt_req = ar_ptr r, nt_ep = ar_ep r, nt_nqn = cut MAX_NQN_SIZE (ar_nqn r), nt_valid = False\<rparr>]"

definition create_notification_list :: "('j, 'w) dem \<Rightarrow> notification list" where
  "create_notification_list s =
     fold (\<lambda>r l. if in_notification_list l (ar_nqn r) then l else create_notification_entry r l) (dm_aen s) []"

definition any_subsys_unrestricted :: "target \<Rightarrow> bool" where
  "any_subsys_unrestricted t = list_ex (\<lambda>ss. \<not> is_restricted ss) (tg_subsystems t)"

text \<open>The comparisons are of the result of \<^verbatim>\<open>strcmp\<close> itself, which is not zero for different names.\<close>

definition flag_by_group_hosts :: "('j, 'w) dem \<Rightarrow> ptr \<Rightarrow> notification list \<Rightarrow> notification list" where
  "flag_by_group_hosts s g =
     map (\<lambda>e. if list_ex (\<lambda>h. gl_group h = g \<and> gl_nqn h \<noteq> nt_nqn e) (dm_hosts s)
              then e\<lparr>nt_valid := True\<rparr> else e)"

definition flag_by_access_list :: "subsystem \<Rightarrow> notification list \<Rightarrow> notification list" where
  "flag_by_access_list ss =
     map (\<lambda>e. if list_ex (\<lambda>h. hs_nqn h \<noteq> nt_nqn e) (ss_hosts ss) then e\<lparr>nt_valid := True\<rparr> else e)"

definition prune_notification_list :: "notification list \<Rightarrow> notification list" where
  "prune_notification_list = filter nt_valid"

definition enable_entire_list :: "notification list \<Rightarrow> notification list" where
  "enable_entire_list = map (\<lambda>e. e\<lparr>nt_valid := True\<rparr>)"

definition create_event_host_list_for_subsys :: "('j, 'w) dem \<Rightarrow> subsystem \<Rightarrow> notification list" where
  "create_event_host_list_for_subsys s ss =
     (let l = create_notification_list s in
      if l = [] then l
      else if \<not> is_restricted ss then enable_entire_list l
      else prune_notification_list (flag_by_access_list ss l))"

definition create_event_host_list_for_target :: "('j, 'w) dem \<Rightarrow> target \<Rightarrow> notification list" where
  "create_event_host_list_for_target s t =
     (let l = create_notification_list s in
      if l = [] then l
      else if any_subsys_unrestricted t then enable_entire_list l
      else prune_notification_list (fold flag_by_access_list (tg_subsystems t) l))"

text \<open>
  The flags set for the hosts of the group stay set, so the second filter keeps everything the first one
  kept.
\<close>

definition create_event_host_list_for_group :: "('j, 'w) dem \<Rightarrow> ptr \<Rightarrow> target \<Rightarrow> notification list" where
  "create_event_host_list_for_group s g t =
     (let l = create_notification_list s in
      if l = [] then l
      else
        let l = prune_notification_list (flag_by_group_hosts s g l) in
        if l = [] then l
        else if any_subsys_unrestricted t then enable_entire_list l
        else prune_notification_list (fold flag_by_access_list (tg_subsystems t) l))"

definition create_event_host_list_for_host :: "('j, 'w) dem \<Rightarrow> string \<Rightarrow> notification list" where
  "create_event_host_list_for_host s nqn =
     (case List.find (\<lambda>r. ar_nqn r = nqn) (dm_aen s) of
        None \<Rightarrow> []
      | Some r \<Rightarrow> create_notification_entry r [])"

text \<open>
  The requests keep the address of the endpoint they came from; it may have been freed since, when the
  host disconnected.
\<close>

fun send_notifications :: "'w network \<Rightarrow> notification list \<Rightarrow> ('j, 'w) dem \<Rightarrow> ('j, 'w) dem exec" where
  "send_notifications N [] s = Inr s"
| "send_notifications N (e # l) s =
     (case dm_endpoints s (nt_ep e) of
        None \<Rightarrow> Inl Use_after_free
      | Some ep \<Rightarrow>
          let s = (if ep_cmd ep \<and> ep_connected ep
                   then s\<lparr>dm_net := nw_send_aer N (nt_ep e) (dm_net s)\<rparr> else s)
          in send_notifications N l (s\<lparr>dm_aen := filter (\<lambda>r. ar_ptr r \<noteq> nt_req e) (dm_aen s)\<rparr>))"

section \<open>Lemmas\<close>

text \<open>The requests of a list of notifications are answered and removed, and nothing else changes.\<close>

definition live_endpoints :: "('j, 'w) dem \<Rightarrow> bool" where
  "live_endpoints s = list_all (\<lambda>r. dm_endpoints s (ar_ep r) \<noteq> None) (dm_aen s)"

definition answered :: "'w network \<Rightarrow> (ptr \<rightharpoonup> endpoint) \<Rightarrow> notification list \<Rightarrow> 'w \<Rightarrow> 'w" where
  "answered N eps l w =
     fold (\<lambda>e. nw_send_aer N (nt_ep e))
       (filter (\<lambda>e. case eps (nt_ep e) of None \<Rightarrow> False | Some ep \<Rightarrow> ep_cmd ep \<and> ep_connected ep) l) w"

lemma send_notifications_eq:
  assumes "list_all (\<lambda>e. dm_endpoints s (nt_ep e) \<noteq> None) l"
  shows "send_notifications N l s =
     Inr (s\<lparr>dm_net := answered N (dm_endpoints s) l (dm_net s),
           dm_aen := filter (\<lambda>r. ar_ptr r \<notin> nt_req ` set l) (dm_aen s)\<rparr>)"
  using assms by (induction l arbitrary: s) (auto simp: answered_def Let_def conj_commute cong: filter_cong)

lemma send_notifications_frame:
  "send_notifications N l s = Inr s' \<Longrightarrow>
     dm_root s' = dm_root s \<and> dm_targets s' = dm_targets s \<and> dm_groups s' = dm_groups s \<and>
     dm_hosts s' = dm_hosts s \<and> dm_endpoints s' = dm_endpoints s \<and> dm_next s' = dm_next s \<and>
     dm_shared_nqn s' = dm_shared_nqn s \<and> set (dm_aen s') \<subseteq> set (dm_aen s)"
  by (induction l arbitrary: s) (auto simp: Let_def split: option.splits if_splits, fastforce+)

lemma live_endpoints_send:
  "live_endpoints s \<Longrightarrow> send_notifications N l s = Inr s' \<Longrightarrow> live_endpoints s'"
  using send_notifications_frame [of N l s s'] by (fastforce simp: live_endpoints_def list_all_iff)

text \<open>The list of notifications: the first request of each host.\<close>

definition notes_of :: "aen_req list \<Rightarrow> notification list \<Rightarrow> bool" where
  "notes_of rs l =
     (distinct (map nt_nqn l) \<and> nt_nqn ` set l = ar_nqn ` set rs \<and>
      (\<forall>e \<in> set l. \<exists>r. List.find (\<lambda>r. ar_nqn r = nt_nqn e) rs = Some r \<and> nt_req e = ar_ptr r \<and> nt_ep e = ar_ep r))"

definition nqns_fit :: "('j, 'w) dem \<Rightarrow> bool" where
  "nqns_fit s = list_all (\<lambda>r. length (ar_nqn r) \<le> MAX_NQN_SIZE) (dm_aen s)"

lemma find_append: "List.find P (xs @ ys) = (case List.find P xs of None \<Rightarrow> List.find P ys | Some x \<Rightarrow> Some x)"
  by (induction xs) auto

lemma find_None_set: "List.find P xs = None \<longleftrightarrow> (\<forall>x\<in>set xs. \<not> P x)"
  by (auto simp: find_None_iff)

lemma notes_of_snoc:
  assumes "notes_of rs l" "length (ar_nqn r) \<le> MAX_NQN_SIZE"
  shows "notes_of (rs @ [r]) (if in_notification_list l (ar_nqn r) then l else create_notification_entry r l)"
proof (cases "in_notification_list l (ar_nqn r)")
  case True
  then have "ar_nqn r \<in> nt_nqn ` set l" by (force simp: in_notification_list_def list_ex_iff)
  then show ?thesis using assms(1) True by (auto simp: notes_of_def find_append)
next
  case False
  then have new: "ar_nqn r \<notin> nt_nqn ` set l" by (auto simp: in_notification_list_def list_ex_iff)
  then have "List.find (\<lambda>x. ar_nqn x = ar_nqn r) rs = None"
    using assms(1) by (simp add: notes_of_def find_None_set) (metis imageI)
  then show ?thesis
    using assms new False by (auto simp: notes_of_def find_append create_notification_entry_def cut_def)
qed

lemma create_notification_list_notes:
  assumes "nqns_fit s"
  shows "notes_of (dm_aen s) (create_notification_list s)"
proof -
  have "notes_of rs (fold (\<lambda>r l. if in_notification_list l (ar_nqn r) then l else create_notification_entry r l) rs [])"
    if "list_all (\<lambda>r. length (ar_nqn r) \<le> MAX_NQN_SIZE) rs" for rs
    using that
  proof (induction rs rule: rev_induct)
    case Nil
    then show ?case by (simp add: notes_of_def)
  next
    case (snoc r rs)
    then show ?case using notes_of_snoc [of rs] by simp
  qed
  then show ?thesis using assms by (simp add: create_notification_list_def nqns_fit_def)
qed

end
