(* ===== verification/Dem_Groups.thy ===== *)
theory Dem_Groups
  imports Dem_Notify
begin

text \<open>
  Groups in the controller (\<^verbatim>\<open>src/src/dem/config.c\<close>, from \<^verbatim>\<open>init_group\<close> to \<^verbatim>\<open>indirect_shared_group\<close>): a
  group joins hosts and targets, and a target that is a member of a group is only shown to the hosts it
  shares a group with. Each request changes the JSON document first and then the lists.

  The names in requests are pointers that may be null. A null name reaches \<^verbatim>\<open>strcmp\<close> or \<^verbatim>\<open>strncpy\<close> in each
  of these functions, at the latest when the group is made, and is reported as such.
\<close>

section \<open>Operations\<close>

text \<open>The null pointer.\<close>

definition NULL :: ptr where "NULL = 0"

type_synonym ('j, 'w) result = "(('j, 'w) dem \<times> int \<times> string) exec"

text \<open>
  The new group and the state. The memory is not cleared: a name that fills the array is left without
  the terminator that the next search needs.
\<close>

definition init_group :: "string \<Rightarrow> ('j, 'w) dem \<Rightarrow> (ptr \<times> ('j, 'w) dem) exec" where
  "init_group name s =
     (if length name < MAX_ALIAS_SIZE
      then Inr (dm_next s, s\<lparr>dm_groups := dm_groups s @ [\<lparr>gr_ptr = dm_next s, gr_targets = [], gr_name = name\<rparr>],
                             dm_next := Suc (dm_next s)\<rparr>)
      else Inl Uninitialised)"

definition add_group :: "'j jansson \<Rightarrow> string option \<Rightarrow> ('j, 'w) dem \<Rightarrow> ('j, 'w) result" where
  "add_group J name s =
     (case name of
        None \<Rightarrow> Inl Null_deref
      | Some g \<Rightarrow>
          exec_bind (add_json_group J (dm_root s) g) (\<lambda>(root, ret, resp).
            let s = s\<lparr>dm_root := root\<rparr> in
            if ret \<noteq> 0 then Inr (s, ret, resp)
            else exec_bind (init_group g s) (\<lambda>(_, s). Inr (s, 0, resp))))"

text \<open>The group is looked up by its new name; one with that name is given the name again.\<close>

definition update_group :: "'j jansson \<Rightarrow> string option \<Rightarrow> string \<Rightarrow> ('j, 'w) dem \<Rightarrow> ('j, 'w) result" where
  "update_group J name data s =
     exec_bind (update_json_group J (dm_root s) name data) (\<lambda>((root, ret, resp), new).
       let s = s\<lparr>dm_root := root\<rparr> in
       if ret \<noteq> 0 then Inr (s, ret, resp)
       else case new of
         None \<Rightarrow> Inl Uninitialised
       | Some n \<Rightarrow>
           (case find_group s n of
              None \<Rightarrow> exec_bind (init_group n s) (\<lambda>(_, s). Inr (s, 0, resp))
            | Some g \<Rightarrow> Inr (upd_group (gr_ptr g) (\<lambda>g. g\<lparr>gr_name := cut MAX_ALIAS_SIZE n\<rparr>) s, 0, resp)))"

text \<open>
  The NQN of the host is read from the document without looking at the return code: for a host that has
  none, the text of an uninitialised array is copied.
\<close>

definition add_host_to_group :: "'j jansson \<Rightarrow> ptr \<Rightarrow> string \<Rightarrow> ('j, 'w) dem \<Rightarrow> ('j, 'w) dem exec" where
  "add_host_to_group J g alias s =
     exec_bind (get_json_host_nqn J (dm_root s) alias) (\<lambda>(_, nqn).
       case nqn of
         None \<Rightarrow> Inl Uninitialised
       | Some q \<Rightarrow>
           exec_bind (c_strcpy (MAX_ALIAS_SIZE + 1) (Some alias)) (\<lambda>alias.
             Inr (s\<lparr>dm_hosts := dm_hosts s @ [\<lparr>gl_group = g, gl_alias = alias, gl_nqn = q\<rparr>]\<rparr>)))"

definition add_target_to_group :: "'w network \<Rightarrow> ptr \<Rightarrow> string \<Rightarrow> ('j, 'w) dem \<Rightarrow> ('j, 'w) dem exec" where
  "add_target_to_group N g alias s =
     (case find_target s alias of
        None \<Rightarrow> Inr s
      | Some t \<Rightarrow>
          if g = NULL then Inl Null_deref
          else
            let s = upd_target (tg_ptr t) (\<lambda>t. t\<lparr>tg_group_member := True\<rparr>) s;
                s = upd_group g (\<lambda>gr. gr\<lparr>gr_targets := gr_targets gr @ [tg_ptr t]\<rparr>) s
            in send_notifications N (create_event_host_list_for_group s g t) s)"

text \<open>The address of a group found by its name, or null.\<close>

definition group_ptr :: "('j, 'w) dem \<Rightarrow> string \<Rightarrow> ptr" where
  "group_ptr s name = (case find_group s name of None \<Rightarrow> NULL | Some g \<Rightarrow> gr_ptr g)"

definition set_group_member ::
  "'j jansson \<Rightarrow> 'w network \<Rightarrow> string option \<Rightarrow> string option \<Rightarrow> string option \<Rightarrow> string \<Rightarrow> string \<Rightarrow>
     ('j, 'w) dem \<Rightarrow> ('j, 'w) result" where
  "set_group_member J N name data alias tag parent_tag s =
     (case name of
        None \<Rightarrow> Inl Null_deref
      | Some g \<Rightarrow>
          exec_bind (set_json_group_member J (dm_root s) g data alias tag parent_tag) (\<lambda>((root, ret, resp), out).
            let s = s\<lparr>dm_root := root\<rparr> in
            if ret \<noteq> 0 then Inr (s, ret, resp)
            else case out of
              None \<Rightarrow> Inl Uninitialised
            | Some a \<Rightarrow>
                exec_bind (if tag \<noteq> TAG_TARGET then add_host_to_group J (group_ptr s g) a s
                           else add_target_to_group N (group_ptr s g) a s)
                  (\<lambda>s. Inr (s, 0, resp))))"

text \<open>The link is searched by comparing the NQN in it with the alias.\<close>

definition del_host_from_group :: "ptr \<Rightarrow> string \<Rightarrow> ('j, 'w) dem \<Rightarrow> ('j, 'w) dem" where
  "del_host_from_group g alias s =
     (case find_group_host s g alias of
        None \<Rightarrow> s
      | Some l \<Rightarrow> s\<lparr>dm_hosts := remove1 l (dm_hosts s)\<rparr>)"

text \<open>
  After the last link of the target is gone, the loop variable \<^verbatim>\<open>group\<close> has run off the end of the list of
  groups, so that no link of a host belongs to it when the notifications are built.
\<close>

definition del_target_from_group :: "'w network \<Rightarrow> ptr \<Rightarrow> string \<Rightarrow> ('j, 'w) dem \<Rightarrow> ('j, 'w) dem exec" where
  "del_target_from_group N g alias s =
     (case find_target s alias of
        None \<Rightarrow> Inr s
      | Some t \<Rightarrow>
          (case List.find (\<lambda>gr. gr_ptr gr = g) (dm_groups s) of
             None \<Rightarrow> Inl Null_deref
           | Some gr \<Rightarrow>
               if tg_ptr t \<notin> set (gr_targets gr) then Inr s
               else
                 let s = upd_group g (\<lambda>gr. gr\<lparr>gr_targets := remove1 (tg_ptr t) (gr_targets gr)\<rparr>) s in
                 if list_ex (\<lambda>gr. tg_ptr t \<in> set (gr_targets gr)) (dm_groups s) then Inr s
                 else
                   let s = upd_target (tg_ptr t) (\<lambda>t. t\<lparr>tg_group_member := False\<rparr>) s
                   in send_notifications N (create_event_host_list_for_group s NULL t) s))"

definition del_group_member ::
  "'j jansson \<Rightarrow> 'w network \<Rightarrow> string option \<Rightarrow> string option \<Rightarrow> string \<Rightarrow> string \<Rightarrow>
     ('j, 'w) dem \<Rightarrow> ('j, 'w) result" where
  "del_group_member J N name alias tag parent_tag s =
     (case name of
        None \<Rightarrow> Inl Null_deref
      | Some g \<Rightarrow>
          (case alias of
             None \<Rightarrow> Inl Null_deref
           | Some a \<Rightarrow>
               (case del_json_group_member J (dm_root s) g a tag parent_tag of
                  (root, ret, resp) \<Rightarrow>
                    let s = s\<lparr>dm_root := root\<rparr> in
                    if ret \<noteq> 0 then Inr (s, ret, resp)
                    else if tag \<noteq> TAG_TARGET then Inr (del_host_from_group (group_ptr s g) a s, 0, resp)
                    else exec_bind (del_target_from_group N (group_ptr s g) a s) (\<lambda>s. Inr (s, 0, resp)))))"

text \<open>The targets of the group are not visited: their flags stay as they are.\<close>

definition del_group :: "'j jansson \<Rightarrow> string option \<Rightarrow> ('j, 'w) dem \<Rightarrow> ('j, 'w) result" where
  "del_group J name s =
     (case name of
        None \<Rightarrow> Inl Null_deref
      | Some n \<Rightarrow>
          (case del_json_group J (dm_root s) n of
             (root, ret, resp) \<Rightarrow>
               let s = s\<lparr>dm_root := root\<rparr> in
               if ret \<noteq> 0 then Inr (s, ret, resp)
               else case find_group s n of
                 None \<Rightarrow> Inl Null_deref
               | Some g \<Rightarrow>
                   Inr (s\<lparr>dm_hosts := filter (\<lambda>l. gl_group l \<noteq> gr_ptr g) (dm_hosts s),
                          dm_groups := remove1 g (dm_groups s)\<rparr>, 0, resp)))"

section \<open>Which hosts see which targets\<close>

text \<open>
  The links of the host in order, each followed to its group. A group that is not in the list any more
  is memory that was freed or the null pointer.
\<close>

fun in_shared_group :: "(group_host_link \<Rightarrow> bool) \<Rightarrow> ptr \<Rightarrow> group list \<Rightarrow> group_host_link list \<Rightarrow> bool exec" where
  "in_shared_group P t groups [] = Inr False"
| "in_shared_group P t groups (l # ls) =
     (if \<not> P l then in_shared_group P t groups ls
      else case List.find (\<lambda>g. gr_ptr g = gl_group l) groups of
        None \<Rightarrow> Inl (if gl_group l = NULL then Null_deref else Use_after_free)
      | Some g \<Rightarrow> if t \<in> set (gr_targets g) then Inr True else in_shared_group P t groups ls)"

definition shared_group :: "('j, 'w) dem \<Rightarrow> target \<Rightarrow> string \<Rightarrow> bool exec" where
  "shared_group s t nqn = in_shared_group (\<lambda>l. gl_nqn l = nqn) (tg_ptr t) (dm_groups s) (dm_hosts s)"

definition indirect_shared_group :: "('j, 'w) dem \<Rightarrow> target \<Rightarrow> string \<Rightarrow> bool exec" where
  "indirect_shared_group s t alias = in_shared_group (\<lambda>l. gl_alias l = alias) (tg_ptr t) (dm_groups s) (dm_hosts s)"

end
