(* ===== verification/Dem_Logpages.thy ===== *)
theory Dem_Logpages
  imports Dem_Groups
begin

text \<open>
  Discovery log pages: fetching them from the targets (\<^verbatim>\<open>src/src/common/logpages.c\<close>), keeping them with
  the subsystems they describe (\<^verbatim>\<open>src/src/dem/logpages.c\<close>), and the discovery queues they are fetched
  through (\<^verbatim>\<open>src/src/dem/daemon.c\<close>, \<^verbatim>\<open>src/src/dem/interfaces.c\<close>, and the queue functions of
  \<^verbatim>\<open>src/src/dem/config.c\<close>).

  Most functions work on one target and the network.
\<close>

section \<open>Fetching\<close>

definition trim :: "string \<Rightarrow> string" where
  "trim p = takeWhile (\<lambda>c. c \<noteq> CHR '' '') p"

definition trim_entry :: "disc_entry \<Rightarrow> disc_entry" where
  "trim_entry e = e\<lparr>de_traddr := trim (de_traddr e), de_subnqn := trim (de_subnqn e), de_trsvcid := trim (de_trsvcid e)\<rparr>"

definition HDR_SIZE :: nat where "HDR_SIZE = 1024"
definition ENTRY_SIZE :: nat where "ENTRY_SIZE = 1024"

text \<open>Numbers of 32 bits.\<close>

definition u32 :: "nat \<Rightarrow> nat" where
  "u32 n = nat (int n mod 2 ^ 32)"

text \<open>
  The number of records is read first and the whole page then, with a size that is computed in 32 bits:
  a size of two gigabytes or more is negative as an \<^verbatim>\<open>int\<close> and cannot be allocated, and one that has
  wrapped around is too small for the records that are trimmed. The counters are the first two components
  of a page. The command that reads a page is an argument: the controller reaches it through the
  network, the discovery clients send it themselves.
\<close>

definition get_logpages_via ::
  "(nat \<Rightarrow> 'w \<Rightarrow> (int \<times> (nat \<times> nat \<times> disc_entry list) \<times> 'w) exec) \<Rightarrow> 'w \<Rightarrow> (int \<times> disc_entry list \<times> 'w) exec" where
  "get_logpages_via get_log_page w =
     exec_bind (get_log_page 16 w) (\<lambda>(ret, (genctr, numrec, _), w).
        if ret \<noteq> 0 then Inr (- ENODATA, [], w)
        else
          let numrec = u32 numrec in
          if numrec = 0 then Inr (0, [], w)
          else
            let log_size = u32 (HDR_SIZE + ENTRY_SIZE * numrec) in
            if int log_size \<ge> 2 ^ 31 then Inr (- ENODATA, [], w)
            else
              exec_bind (get_log_page log_size w) (\<lambda>(ret, (genctr', numrec', entries), w).
                 if ret \<noteq> 0 then Inr (- ENODATA, [], w)
                 else if numrec \<noteq> u32 numrec' \<or> genctr \<noteq> genctr' then Inr (- EINVAL, [], w)
                 else if log_size < HDR_SIZE + ENTRY_SIZE * numrec then Inl Buffer_overflow
                 else Inr (0, map trim_entry (take numrec entries), w)))"

definition get_logpages :: "'w network \<Rightarrow> conn \<Rightarrow> 'w \<Rightarrow> (int \<times> disc_entry list \<times> 'w) exec" where
  "get_logpages N c = get_logpages_via (\<lambda>size w. Inr (nw_log_page N c size w))"

section \<open>Keeping the pages\<close>

definition invalidate_log_pages :: "target \<Rightarrow> target" where
  "invalidate_log_pages t =
     t\<lparr>tg_subsystems := map (\<lambda>ss. ss\<lparr>ss_logpages := map (\<lambda>lp. lp\<lparr>lp_valid := False\<rparr>) (ss_logpages ss)\<rparr>) (tg_subsystems t),
       tg_unattached := []\<rparr>"

definition match_logpage :: "logpage \<Rightarrow> disc_entry \<Rightarrow> bool" where
  "match_logpage lp e =
     (de_traddr e = de_traddr (lp_e lp) \<and> de_trsvcid e = de_trsvcid (lp_e lp) \<and>
      de_trtype e = de_trtype (lp_e lp) \<and> de_adrfam e = de_adrfam (lp_e lp))"

definition store_logpage :: "disc_entry \<Rightarrow> ptr \<Rightarrow> logpage" where
  "store_logpage e portid = \<lparr>lp_portid = portid, lp_e = e, lp_valid = True\<rparr>"

text \<open>The pages of a subsystem with one more: the first that matches is overwritten, else it is appended.\<close>

fun save_in :: "disc_entry \<Rightarrow> ptr \<Rightarrow> logpage list \<Rightarrow> logpage list" where
  "save_in e portid [] = [store_logpage e portid]"
| "save_in e portid (lp # lps) =
     (if match_logpage lp e then store_logpage e portid # lps else lp # save_in e portid lps)"

text \<open>The first subsystem of that name gets the page; \<^const>\<open>None\<close> when there is none.\<close>

fun save_in_subsys :: "disc_entry \<Rightarrow> ptr \<Rightarrow> subsystem list \<Rightarrow> subsystem list option" where
  "save_in_subsys e portid [] = None"
| "save_in_subsys e portid (ss # sss) =
     (if ss_nqn ss = de_subnqn e
      then Some (ss\<lparr>ss_logpages := save_in e portid (ss_logpages ss)\<rparr> # sss)
      else map_option ((#) ss) (save_in_subsys e portid sss))"

definition save_log_page :: "ptr \<Rightarrow> disc_entry \<Rightarrow> target \<Rightarrow> target" where
  "save_log_page portid e t =
     (case save_in_subsys e portid (tg_subsystems t) of
        Some sss \<Rightarrow> t\<lparr>tg_subsystems := sss\<rparr>
      | None \<Rightarrow>
          if list_ex (\<lambda>lp. de_subnqn (lp_e lp) = de_subnqn e \<and> match_logpage lp e) (tg_unattached t) then t
          else t\<lparr>tg_unattached := tg_unattached t @ [store_logpage e portid]\<rparr>)"

definition save_log_pages :: "disc_entry list \<Rightarrow> ptr \<Rightarrow> target \<Rightarrow> target" where
  "save_log_pages es portid t = fold (save_log_page portid) es t"

definition fetch_log_pages :: "'w network \<Rightarrow> ctrl_queue \<Rightarrow> target \<Rightarrow> 'w \<Rightarrow> (target \<times> 'w) exec" where
  "fetch_log_pages N dq t w =
     exec_bind (get_logpages N (Queue (cq_ptr dq)) w) (\<lambda>(ret, es, w).
       if ret \<noteq> 0 then Inr (t, w) else Inr (save_log_pages es (cq_portid dq) t, w))"

section \<open>Discovery queues\<close>

text \<open>
  The part of \<^verbatim>\<open>connect_ctrl\<close> before the transport is used: the address is parsed, then the operations of
  the transport are called through \<^verbatim>\<open>ops\<close>.
\<close>

definition connect_ctrl ::
  "'w network \<Rightarrow> conn \<Rightarrow> portid option \<Rightarrow> bool \<Rightarrow> string \<Rightarrow> bool \<Rightarrow> 'w \<Rightarrow> (int \<times> bool \<times> 'w) exec" where
  "connect_ctrl N c portid ops hostnqn failed_kato w =
     (case portid of
        None \<Rightarrow> Inl Null_deref
      | Some p \<Rightarrow>
          if pt_family p \<notin> {''ipv4'', ''ipv6''} \<or> \<not> nw_inet_pton N (pt_family p) (pt_address p)
          then Inr (- EINVAL, failed_kato, w)
          else if \<not> ops then Inl Null_deref
          else Inr (nw_connect N c p hostnqn failed_kato w))"

text \<open>\<^verbatim>\<open>register_ops\<close> knows two transports.\<close>

definition register_ops :: "string \<Rightarrow> bool" where
  "register_ops typ = (typ = ''rdma'' \<or> typ = ''tcp'')"

definition get_portid :: "target \<Rightarrow> ptr \<Rightarrow> portid exec" where
  "get_portid t p =
     (case List.find (\<lambda>x. pt_ptr x = p) (tg_portids t) of None \<Rightarrow> Inl Use_after_free | Some x \<Rightarrow> Inr x)"

definition get_subsys :: "target \<Rightarrow> ptr \<Rightarrow> subsystem exec" where
  "get_subsys t p =
     (case List.find (\<lambda>x. ss_ptr x = p) (tg_subsystems t) of None \<Rightarrow> Inl Use_after_free | Some x \<Rightarrow> Inr x)"

definition upd_queue :: "ptr \<Rightarrow> (ctrl_queue \<Rightarrow> ctrl_queue) \<Rightarrow> target \<Rightarrow> target" where
  "upd_queue p f t = t\<lparr>tg_queues := map (\<lambda>q. if cq_ptr q = p then f q else q) (tg_queues t)\<rparr>"

text \<open>\<^verbatim>\<open>connect_ctrl(dq)\<close>: it does not note that the queue is connected.\<close>

definition connect_queue :: "'w network \<Rightarrow> ctrl_queue \<Rightarrow> target \<Rightarrow> 'w \<Rightarrow> (int \<times> target \<times> 'w) exec" where
  "connect_queue N dq t w =
     exec_bind (get_portid t (cq_portid dq)) (\<lambda>p.
     exec_bind (connect_ctrl N (Queue (cq_ptr dq)) (Some p) True (cq_hostnqn dq) (cq_failed_kato dq) w)
       (\<lambda>(ret, fk, w). Inr (ret, upd_queue (cq_ptr dq) (\<lambda>q. q\<lparr>cq_failed_kato := fk\<rparr>) t, w)))"

definition disconnect_queue :: "'w network \<Rightarrow> ptr \<Rightarrow> target \<Rightarrow> 'w \<Rightarrow> target \<times> 'w" where
  "disconnect_queue N q t w = (upd_queue q (\<lambda>q. q\<lparr>cq_connected := False\<rparr>) t, nw_disconnect N (Queue q) w)"

text \<open>\<^verbatim>\<open>if (dq->failed_kato) disconnect_ctrl(dq, 0);\<close>\<close>

definition disconnect_failed :: "'w network \<Rightarrow> ptr \<Rightarrow> target \<Rightarrow> 'w \<Rightarrow> target \<times> 'w" where
  "disconnect_failed N q t w =
     (if list_ex (\<lambda>x. cq_ptr x = q \<and> cq_failed_kato x) (tg_queues t) then disconnect_queue N q t w else (t, w))"

definition target_with_allow_any_subsys :: "target \<Rightarrow> bool" where
  "target_with_allow_any_subsys t = list_ex (\<lambda>ss. \<not> is_restricted ss) (tg_subsystems t)"

definition avilable_dq :: "ctrl_queue \<Rightarrow> target \<Rightarrow> bool exec" where
  "avilable_dq dq t =
     (case cq_subsys dq of
        None \<Rightarrow> Inr (target_with_allow_any_subsys t)
      | Some p \<Rightarrow> exec_bind (get_subsys t p) (\<lambda>ss. Inr (ss_hosts ss \<noteq> [])))"

definition LOG_PAGE_RETRY :: int where "LOG_PAGE_RETRY = 200"

text \<open>One round of the loop of \<^verbatim>\<open>refresh_log_pages\<close>.\<close>

definition refresh_queue :: "'w network \<Rightarrow> ctrl_queue \<Rightarrow> target \<Rightarrow> 'w \<Rightarrow> (target \<times> 'w) exec" where
  "refresh_queue N dq t w =
     (let fetch = (\<lambda>t w. exec_bind (fetch_log_pages N dq t w) (\<lambda>(t, w). Inr (disconnect_failed N (cq_ptr dq) t w)))
      in if cq_connected dq then fetch t w
         else exec_bind (avilable_dq dq t) (\<lambda>ok.
           if \<not> ok then Inr (t, w)
           else exec_bind (connect_queue N dq t w) (\<lambda>(ret, t, w).
             if ret \<noteq> 0 then Inr (t\<lparr>tg_log_page_retry_count := LOG_PAGE_RETRY\<rparr>, w)
             else fetch t w)))"

fun refresh_queues :: "'w network \<Rightarrow> ctrl_queue list \<Rightarrow> target \<Rightarrow> 'w \<Rightarrow> (target \<times> 'w) exec" where
  "refresh_queues N [] t w = Inr (t, w)"
| "refresh_queues N (dq # dqs) t w = exec_bind (refresh_queue N dq t w) (\<lambda>(t, w). refresh_queues N dqs t w)"

definition refresh_log_pages :: "'w network \<Rightarrow> target \<Rightarrow> 'w \<Rightarrow> (target \<times> 'w) exec" where
  "refresh_log_pages N t w = refresh_queues N (tg_queues t) (invalidate_log_pages t) w"

definition target_refresh :: "'w network \<Rightarrow> string \<Rightarrow> ('j, 'w) dem \<Rightarrow> (int \<times> ('j, 'w) dem) exec" where
  "target_refresh N alias s =
     (case find_target s alias of
        None \<Rightarrow> Inr (- ENOENT, s)
      | Some t \<Rightarrow>
          exec_bind (on_target (tg_ptr t) (\<lambda>t w. exec_bind (refresh_log_pages N t w) (\<lambda>(t, w). Inr ((), t, w))) s)
            (\<lambda>(_, s). Inr (0, s)))"

text \<open>A queue for a subsystem on another port that already uses one of its hosts.\<close>

definition dq_exists :: "target \<Rightarrow> subsystem \<Rightarrow> ptr \<Rightarrow> bool" where
  "dq_exists t ss portid =
     list_ex (\<lambda>dq. cq_subsys dq \<noteq> None \<and> cq_portid dq \<noteq> portid \<and>
                list_ex (\<lambda>h. hs_nqn h = cq_hostnqn dq) (ss_hosts ss)) (tg_queues t)"

text \<open>
  A queue without a subsystem is for the pages open to any host. The arguments are the next free address
  and the name the controller uses for itself; the result is the next free address.
\<close>

definition create_discovery_queue ::
  "'w network \<Rightarrow> string \<Rightarrow> subsystem option \<Rightarrow> portid \<Rightarrow> ptr \<Rightarrow> target \<Rightarrow> 'w \<Rightarrow> (ptr \<times> target \<times> 'w) exec" where
  "create_discovery_queue N shared subsys p nxt t w =
     (if (case subsys of
            None \<Rightarrow> False
          | Some ss \<Rightarrow> \<not> is_restricted ss \<or> ss_hosts ss = [] \<or> dq_exists t ss (pt_ptr p))
      then Inr (nxt, t, w)
      else if \<not> register_ops (pt_type p) then Inr (nxt, t, w)
      else
        let nqn = (case subsys of None \<Rightarrow> shared | Some ss \<Rightarrow> hs_nqn (hd (ss_hosts ss)));
            dq = \<lparr>cq_ptr = nxt, cq_portid = pt_ptr p, cq_subsys = map_option ss_ptr subsys,
                  cq_hostnqn = cut MAX_NQN_SIZE nqn, cq_connected = False, cq_failed_kato = False\<rparr>;
            t = t\<lparr>tg_queues := tg_queues t @ [dq]\<rparr>
        in exec_bind (connect_queue N dq t w) (\<lambda>(ret, t, w).
             if ret \<noteq> 0 then Inr (Suc nxt, t, w)
             else exec_bind (fetch_log_pages N dq t w) (\<lambda>(t, w).
               case disconnect_failed N nxt t w of (t, w) \<Rightarrow> Inr (Suc nxt, t, w))))"

text \<open>The same on the state of the controller, for the target at an address.\<close>

definition new_queue ::
  "'w network \<Rightarrow> ptr \<Rightarrow> subsystem option \<Rightarrow> portid \<Rightarrow> ('j, 'w) dem \<Rightarrow> ('j, 'w) dem exec" where
  "new_queue N p subsys portid s =
     exec_bind (on_target p (create_discovery_queue N (dm_shared_nqn s) subsys portid (dm_next s)) s)
       (\<lambda>(nxt, s). Inr (s\<lparr>dm_next := nxt\<rparr>))"

section \<open>Queues of a subsystem\<close>

text \<open>
  The functions of \<^verbatim>\<open>config.c\<close> that adapt the first queue of a subsystem, given by the address of its
  target and its own; the pages are fetched again afterwards, for the first target of the same alias.
\<close>

definition first_queue :: "target \<Rightarrow> ptr \<Rightarrow> ctrl_queue option" where
  "first_queue t ss = List.find (\<lambda>dq. cq_subsys dq = Some ss) (tg_queues t)"

definition refresh_target :: "'w network \<Rightarrow> ptr \<Rightarrow> ('j, 'w) dem \<Rightarrow> ('j, 'w) dem exec" where
  "refresh_target N p s =
     (case get_target s p of
        None \<Rightarrow> Inl Use_after_free
      | Some t \<Rightarrow> exec_bind (target_refresh N (tg_alias t) s) (\<lambda>(_, s). Inr s))"

definition del_subsys_dq :: "'w network \<Rightarrow> ptr \<Rightarrow> ptr \<Rightarrow> ('j, 'w) dem \<Rightarrow> ('j, 'w) dem exec" where
  "del_subsys_dq N p ss s =
     (case get_target s p of
        None \<Rightarrow> Inl Use_after_free
      | Some t \<Rightarrow>
          (case first_queue t ss of
             None \<Rightarrow> Inr s
           | Some dq \<Rightarrow>
               refresh_target N p (upd_target p (\<lambda>t. t\<lparr>tg_queues := filter (\<lambda>q. cq_ptr q \<noteq> cq_ptr dq) (tg_queues t)\<rparr>) s)))"

fun new_queues ::
  "'w network \<Rightarrow> ptr \<Rightarrow> subsystem option \<Rightarrow> portid list \<Rightarrow> ('j, 'w) dem \<Rightarrow> ('j, 'w) dem exec" where
  "new_queues N p ss [] s = Inr s"
| "new_queues N p ss (x # xs) s = exec_bind (new_queue N p ss x s) (new_queues N p ss xs)"

definition reset_subsys_dq :: "'w network \<Rightarrow> ptr \<Rightarrow> subsystem \<Rightarrow> string \<Rightarrow> ('j, 'w) dem \<Rightarrow> ('j, 'w) dem exec" where
  "reset_subsys_dq N p ss nqn s =
     (case get_target s p of
        None \<Rightarrow> Inl Use_after_free
      | Some t \<Rightarrow>
          (case first_queue t (ss_ptr ss) of
             Some dq \<Rightarrow>
               refresh_target N p (upd_target p (upd_queue (cq_ptr dq) (\<lambda>q. q\<lparr>cq_hostnqn := cut MAX_NQN_SIZE nqn\<rparr>)) s)
           | None \<Rightarrow> new_queues N p (Some ss) (tg_portids t) s))"

text \<open>\<^verbatim>\<open>if (dq->connected) disconnect_ctrl(dq, 0);\<close>\<close>

definition drop_connection :: "'w network \<Rightarrow> ptr \<Rightarrow> ctrl_queue \<Rightarrow> ('j, 'w) dem \<Rightarrow> ('j, 'w) dem exec" where
  "drop_connection N p dq s =
     (if cq_connected dq
      then exec_bind (on_target p (\<lambda>t w. Inr ((), disconnect_queue N (cq_ptr dq) t w)) s) (\<lambda>(_, s). Inr s)
      else Inr s)"

definition update_subsys_dq ::
  "'w network \<Rightarrow> ptr \<Rightarrow> subsystem \<Rightarrow> string \<Rightarrow> string \<Rightarrow> ('j, 'w) dem \<Rightarrow> ('j, 'w) dem exec" where
  "update_subsys_dq N p ss old_nqn new_nqn s =
     (case get_target s p of
        None \<Rightarrow> Inl Use_after_free
      | Some t \<Rightarrow>
          (case first_queue t (ss_ptr ss) of
             None \<Rightarrow> Inr s
           | Some dq \<Rightarrow>
               if old_nqn \<noteq> cq_hostnqn dq then Inr s
               else exec_bind (drop_connection N p dq s) (\<lambda>s.
                 refresh_target N p
                   (if ss_hosts ss \<noteq> []
                    then upd_target p (upd_queue (cq_ptr dq) (\<lambda>q. q\<lparr>cq_hostnqn := cut MAX_NQN_SIZE new_nqn\<rparr>)) s
                    else s))))"

definition reset_subsys_dq_nqn :: "'w network \<Rightarrow> ptr \<Rightarrow> subsystem \<Rightarrow> string \<Rightarrow> ('j, 'w) dem \<Rightarrow> ('j, 'w) dem exec" where
  "reset_subsys_dq_nqn N p ss nqn s =
     (case get_target s p of
        None \<Rightarrow> Inl Use_after_free
      | Some t \<Rightarrow>
          (case first_queue t (ss_ptr ss) of
             None \<Rightarrow> Inr s
           | Some dq \<Rightarrow>
               if nqn \<noteq> cq_hostnqn dq then Inr s
               else exec_bind (drop_connection N p dq s) (\<lambda>s.
                 refresh_target N p
                   (case ss_hosts ss of
                      [] \<Rightarrow> upd_target p (\<lambda>t. t\<lparr>tg_queues := filter (\<lambda>q. cq_ptr q \<noteq> cq_ptr dq) (tg_queues t)\<rparr>) s
                    | h # _ \<Rightarrow> upd_target p (upd_queue (cq_ptr dq) (\<lambda>q. q\<lparr>cq_hostnqn := cut MAX_NQN_SIZE (hs_nqn h)\<rparr>)) s))))"

end
