(* ===== verification/Dem_Messages.thy ===== *)
theory Dem_Messages
  imports Dem_Logpages
begin

text \<open>
  The messages that configure a target (\<^verbatim>\<open>src/src/dem/config.c\<close>, from the message formatting functions
  on): in band, an NVMe-MI command on the control connection with an entry of \<^verbatim>\<open>nvme.h\<close>; out of band, an
  HTTP request to the endpoint manager. All functions here take the target and the state of the network.
  The return code of the last message is that of the function; a target in local mode gets none.
\<close>

section \<open>In-band entries\<close>

definition NVMF_TREQ_NOT_REQUIRED :: u8 where "NVMF_TREQ_NOT_REQUIRED = 2"
definition NVMF_TRADDR_SIZE :: nat where "NVMF_TRADDR_SIZE = 256"
definition NVMF_NULLB_DEVID :: int where "NVMF_NULLB_DEVID = 255"

text \<open>A value stored in a field of 16 or 32 bits.\<close>

definition le16 :: "int \<Rightarrow> int" where "le16 x = x mod 2 ^ 16"
definition le32 :: "int \<Rightarrow> int" where "le32 x = x mod 2 ^ 32"

definition build_set_port_config_inb :: "portid \<Rightarrow> inb_msg exec" where
  "build_set_port_config_inb p =
     exec_bind (c_strcpy NVMF_TRADDR_SIZE (Some (pt_address p))) (\<lambda>traddr.
       Inr (Set_port_config (le16 (pt_portid p)) NVMF_TREQ_NOT_REQUIRED (to_trtype (pt_type p))
              (to_adrfam (pt_family p)) traddr (show_int (pt_port_num p))))"

definition build_subsys_config_inb :: "subsystem \<Rightarrow> inb_msg" where
  "build_subsys_config_inb ss = Set_subsys_config (cut MAX_NQN_SIZE (ss_nqn ss)) (word_of_int (ss_access ss))"

definition build_link_host_inb :: "subsystem \<Rightarrow> host \<Rightarrow> string \<times> string" where
  "build_link_host_inb ss h = (cut MAX_NQN_SIZE (ss_nqn ss), cut MAX_NQN_SIZE (hs_nqn h))"

definition build_host_config_inb :: "string \<Rightarrow> inb_msg" where
  "build_host_config_inb nqn = Set_host_config (cut MAX_NQN_SIZE nqn)"

definition build_host_delete_inb :: "string \<Rightarrow> inb_msg" where
  "build_host_delete_inb nqn = Del_host_config (cut MAX_NQN_SIZE nqn)"

definition build_link_port_inb :: "subsystem \<Rightarrow> portid \<Rightarrow> string \<times> int" where
  "build_link_port_inb ss p = (cut MAX_NQN_SIZE (ss_nqn ss), le16 (pt_portid p))"

definition build_port_delete_inb :: "portid \<Rightarrow> inb_msg" where
  "build_port_delete_inb p = Del_port_config (le16 (pt_portid p))"

definition build_subsys_delete_inb :: "subsystem \<Rightarrow> inb_msg" where
  "build_subsys_delete_inb ss = Del_subsys_config (cut MAX_NQN_SIZE (ss_nqn ss))"

definition build_ns_config_inb :: "subsystem \<Rightarrow> ns \<Rightarrow> inb_msg" where
  "build_ns_config_inb ss n =
     Set_ns_config (cut MAX_NQN_SIZE (ss_nqn ss)) (le32 (ns_nsid n))
       (le32 (if ns_devid n = NULL_BLK_DEVID then NVMF_NULLB_DEVID else ns_devid n)) (le32 (ns_devns n))"

definition build_ns_delete_inb :: "subsystem \<Rightarrow> ns \<Rightarrow> inb_msg" where
  "build_ns_delete_inb ss n = Del_ns_config (cut MAX_NQN_SIZE (ss_nqn ss)) (le32 (ns_nsid n))"

section \<open>Out-of-band texts\<close>

definition get_uri :: "target \<Rightarrow> string" where
  "get_uri t = (case sc_oob (tg_sc_iface t) of (addr, port) \<Rightarrow> ''http://'' @ addr @ '':'' @ show_int port @ ''/'')"

text \<open>\<^verbatim>\<open>snprintf\<close> into a buffer of \<^verbatim>\<open>MAX_BODY_SIZE\<close> bytes.\<close>

definition body_text :: "string list \<Rightarrow> string" where
  "body_text members = take (MAX_BODY_SIZE - 1) (''{'' @ comma_join members @ ''}'')"

definition build_set_port_oob :: "portid \<Rightarrow> string" where
  "build_set_port_oob p =
     body_text [js_str TAG_TYPE (pt_type p), js_str TAG_FAMILY (pt_family p), js_str TAG_ADDRESS (pt_address p),
                js_int TAG_TRSVCID (pt_port_num p)]"

definition build_set_host_oob :: "string \<Rightarrow> string" where
  "build_set_host_oob nqn = body_text [js_str TAG_HOSTNQN nqn]"

definition build_set_subsys_oob :: "subsystem \<Rightarrow> string" where
  "build_set_subsys_oob ss = body_text [js_str TAG_SUBNQN (ss_nqn ss), js_int TAG_ALLOW_ANY (ss_access ss)]"

definition build_set_ns_oob :: "ns \<Rightarrow> string" where
  "build_set_ns_oob n =
     body_text [js_int TAG_NSID (ns_nsid n), js_int TAG_DEVID (ns_devid n), js_int TAG_DEVNSID (ns_devns n)]"

definition build_set_portid_oob :: "int \<Rightarrow> string" where
  "build_set_portid_oob pid = body_text [js_int TAG_PORTID pid]"

section \<open>Sending\<close>

text \<open>
  The result of sending: the code, the target (the state of its control connection may change) and the
  network. The URI is made in an array of \<^verbatim>\<open>MAX_URI_SIZE\<close> bytes, with \<^verbatim>\<open>sprintf\<close>.
\<close>

type_synonym 'w sent = "(int \<times> target \<times> 'w) exec"

definition oob_uri :: "target \<Rightarrow> string \<Rightarrow> string exec" where
  "oob_uri t path = c_strcpy MAX_URI_SIZE (Some (get_uri t @ path))"

definition oob_post :: "'w network \<Rightarrow> string \<Rightarrow> string \<Rightarrow> target \<Rightarrow> 'w \<Rightarrow> 'w sent" where
  "oob_post N path body t w =
     exec_bind (oob_uri t path) (\<lambda>uri. case nw_post N uri body w of (ret, w) \<Rightarrow> Inr (ret, t, w))"

definition oob_delete :: "'w network \<Rightarrow> string \<Rightarrow> target \<Rightarrow> 'w \<Rightarrow> 'w sent" where
  "oob_delete N path t w =
     exec_bind (oob_uri t path) (\<lambda>uri. case nw_delete N uri w of (ret, w) \<Rightarrow> Inr (ret, t, w))"

definition send_get_config_oob :: "'w network \<Rightarrow> string \<Rightarrow> target \<Rightarrow> 'w \<Rightarrow> (int \<times> string \<times> 'w) exec" where
  "send_get_config_oob N tag t w = exec_bind (oob_uri t tag) (\<lambda>uri. Inr (nw_get N uri w))"

definition send_set_portid_oob :: "'w network \<Rightarrow> string \<Rightarrow> int \<Rightarrow> target \<Rightarrow> 'w \<Rightarrow> 'w sent" where
  "send_set_portid_oob N buf pid = oob_post N (URI_PORTID @ ''/'' @ show_int pid) buf"

definition send_set_config_oob :: "'w network \<Rightarrow> string \<Rightarrow> string \<Rightarrow> target \<Rightarrow> 'w \<Rightarrow> 'w sent" where
  "send_set_config_oob N tag buf = oob_post N tag buf"

definition send_update_subsys_oob :: "'w network \<Rightarrow> string \<Rightarrow> string \<Rightarrow> string \<Rightarrow> target \<Rightarrow> 'w \<Rightarrow> 'w sent" where
  "send_update_subsys_oob N nqn tag buf = oob_post N (URI_SUBSYSTEM @ ''/'' @ nqn @ ''/'' @ tag) buf"

text \<open>The control connection: \<^verbatim>\<open>connect_ctrl\<close> and \<^verbatim>\<open>disconnect_ctrl\<close> on \<^verbatim>\<open>sc_iface.inb\<close>.\<close>

definition upd_sc :: "(sc_iface \<Rightarrow> sc_iface) \<Rightarrow> target \<Rightarrow> target" where
  "upd_sc f t = t\<lparr>tg_sc_iface := f (tg_sc_iface t)\<rparr>"

definition connect_control :: "'w network \<Rightarrow> target \<Rightarrow> 'w \<Rightarrow> 'w sent" where
  "connect_control N t w =
     (let sc = tg_sc_iface t in
      exec_bind (connect_ctrl N (Control (tg_ptr t)) (sc_inb_portid sc) (sc_ops sc) (sc_hostnqn sc) (sc_failed_kato sc) w)
        (\<lambda>(ret, fk, w).
          Inr (ret, upd_sc (\<lambda>sc. sc\<lparr>sc_failed_kato := fk, sc_ep_valid := (ret = 0 \<or> sc_ep_valid sc)\<rparr>) t, w)))"

definition disconnect_control :: "'w network \<Rightarrow> target \<Rightarrow> 'w \<Rightarrow> (target \<times> 'w) exec" where
  "disconnect_control N t w =
     (if \<not> sc_ep_valid (tg_sc_iface t) then Inl Wild_pointer
      else Inr (upd_sc (\<lambda>sc. sc\<lparr>sc_connected := False\<rparr>) t, nw_disconnect N (Control (tg_ptr t)) w))"

text \<open>
  A message on the control connection; when it is lost or was not there, the message is sent once more
  after a new connection. \<open>_send_set_config\<close> and \<^verbatim>\<open>_send_reset_config\<close> differ in the message only.
\<close>

definition send_set_config :: "'w network \<Rightarrow> inb_msg \<Rightarrow> target \<Rightarrow> 'w \<Rightarrow> 'w sent" where
  "send_set_config N msg t w =
     (let again = (\<lambda>t w.
            exec_bind (connect_control N t w) (\<lambda>(ret, t, w).
              if ret \<noteq> 0 then Inr (ret, t, w)
              else
                let t = upd_sc (\<lambda>sc. sc\<lparr>sc_connected := True\<rparr>) t
                in case nw_mi_send N (Control (tg_ptr t)) msg w of (ret, w) \<Rightarrow> Inr (ret, t, w)))
      in if sc_connected (tg_sc_iface t)
         then case nw_mi_send N (Control (tg_ptr t)) msg w of (ret, w) \<Rightarrow>
                if ret = 0 then Inr (0, t, w)
                else again (upd_sc (\<lambda>sc. sc\<lparr>sc_connected := False\<rparr>) t) w
         else again t w)"

definition by_mode ::
  "(target \<Rightarrow> 'w \<Rightarrow> 'w sent) \<Rightarrow> (target \<Rightarrow> 'w \<Rightarrow> 'w sent) \<Rightarrow> target \<Rightarrow> 'w \<Rightarrow> 'w sent" where
  "by_mode inb oob t w =
     (case tg_mgmt_mode t of
        IN_BAND_MGMT \<Rightarrow> inb t w
      | OUT_OF_BAND_MGMT \<Rightarrow> oob t w
      | LOCAL_MGMT \<Rightarrow> Inr (0, t, w))"

text \<open>Two messages, the second when the first succeeded; and a message whose code is ignored.\<close>

definition send_then ::
  "(target \<Rightarrow> 'w \<Rightarrow> 'w sent) \<Rightarrow> (target \<Rightarrow> 'w \<Rightarrow> 'w sent) \<Rightarrow> target \<Rightarrow> 'w \<Rightarrow> 'w sent" where
  "send_then f g t w = exec_bind (f t w) (\<lambda>(ret, t, w). if ret \<noteq> 0 then Inr (ret, t, w) else g t w)"

definition send_both ::
  "(target \<Rightarrow> 'w \<Rightarrow> 'w sent) \<Rightarrow> (target \<Rightarrow> 'w \<Rightarrow> 'w sent) \<Rightarrow> target \<Rightarrow> 'w \<Rightarrow> 'w sent" where
  "send_both f g t w = exec_bind (f t w) (\<lambda>(_, t, w). g t w)"

definition send_nothing :: "target \<Rightarrow> 'w \<Rightarrow> 'w sent" where
  "send_nothing t w = Inr (0, t, w)"

text \<open>A message for each element of a list: up to the first that fails, or all of them.\<close>

definition send_until :: "('a \<Rightarrow> target \<Rightarrow> 'w \<Rightarrow> 'w sent) \<Rightarrow> 'a list \<Rightarrow> target \<Rightarrow> 'w \<Rightarrow> 'w sent" where
  "send_until f xs = foldr (\<lambda>x. send_then (f x)) xs send_nothing"

definition send_all :: "('a \<Rightarrow> target \<Rightarrow> 'w \<Rightarrow> 'w sent) \<Rightarrow> 'a list \<Rightarrow> target \<Rightarrow> 'w \<Rightarrow> 'w sent" where
  "send_all f xs = foldr (\<lambda>x. send_both (f x)) xs send_nothing"

section \<open>Hosts\<close>

definition send_host_config_inb :: "'w network \<Rightarrow> host \<Rightarrow> target \<Rightarrow> 'w \<Rightarrow> 'w sent" where
  "send_host_config_inb N h = send_set_config N (build_host_config_inb (hs_nqn h))"

definition send_link_host_inb :: "'w network \<Rightarrow> subsystem \<Rightarrow> host \<Rightarrow> target \<Rightarrow> 'w \<Rightarrow> 'w sent" where
  "send_link_host_inb N ss h = send_set_config N (case build_link_host_inb ss h of (s, q) \<Rightarrow> Link_host_config s q)"

definition send_link_host_oob :: "'w network \<Rightarrow> subsystem \<Rightarrow> host \<Rightarrow> target \<Rightarrow> 'w \<Rightarrow> 'w sent" where
  "send_link_host_oob N ss h =
     (let buf = build_set_host_oob (hs_nqn h) in
      send_then (oob_post N URI_HOST buf)
        (oob_post N (URI_SUBSYSTEM @ ''/'' @ ss_nqn ss @ ''/'' @ URI_HOST) buf))"

definition link_host_msg :: "'w network \<Rightarrow> subsystem \<Rightarrow> host \<Rightarrow> target \<Rightarrow> 'w \<Rightarrow> 'w sent" where
  "link_host_msg N ss h =
     by_mode (send_then (send_host_config_inb N h) (send_link_host_inb N ss h)) (send_link_host_oob N ss h)"

definition send_unlink_host_inb :: "'w network \<Rightarrow> subsystem \<Rightarrow> host \<Rightarrow> target \<Rightarrow> 'w \<Rightarrow> 'w sent" where
  "send_unlink_host_inb N ss h = send_set_config N (case build_link_host_inb ss h of (s, q) \<Rightarrow> Unlink_host_config s q)"

definition send_unlink_host_oob :: "'w network \<Rightarrow> subsystem \<Rightarrow> host \<Rightarrow> target \<Rightarrow> 'w \<Rightarrow> 'w sent" where
  "send_unlink_host_oob N ss h =
     oob_delete N (URI_SUBSYSTEM @ ''/'' @ ss_nqn ss @ ''/'' @ URI_HOST @ ''/'' @ hs_nqn h)"

definition unlink_host_msg :: "'w network \<Rightarrow> subsystem \<Rightarrow> host \<Rightarrow> target \<Rightarrow> 'w \<Rightarrow> 'w sent" where
  "unlink_host_msg N ss h = by_mode (send_unlink_host_inb N ss h) (send_unlink_host_oob N ss h)"

definition send_del_host_inb :: "'w network \<Rightarrow> string \<Rightarrow> target \<Rightarrow> 'w \<Rightarrow> 'w sent" where
  "send_del_host_inb N nqn = send_set_config N (build_host_delete_inb nqn)"

definition send_del_host_oob :: "'w network \<Rightarrow> string \<Rightarrow> target \<Rightarrow> 'w \<Rightarrow> 'w sent" where
  "send_del_host_oob N nqn = oob_delete N (URI_HOST @ ''/'' @ nqn)"

definition del_host_msg :: "'w network \<Rightarrow> string \<Rightarrow> target \<Rightarrow> 'w \<Rightarrow> 'w sent" where
  "del_host_msg N nqn = by_mode (send_del_host_inb N nqn) (send_del_host_oob N nqn)"

section \<open>Ports\<close>

definition send_link_portid_inb :: "'w network \<Rightarrow> subsystem \<Rightarrow> portid \<Rightarrow> target \<Rightarrow> 'w \<Rightarrow> 'w sent" where
  "send_link_portid_inb N ss p = send_set_config N (case build_link_port_inb ss p of (s, i) \<Rightarrow> Link_port_config s i)"

definition send_link_portid_oob :: "'w network \<Rightarrow> subsystem \<Rightarrow> portid \<Rightarrow> target \<Rightarrow> 'w \<Rightarrow> 'w sent" where
  "send_link_portid_oob N ss p =
     send_update_subsys_oob N (ss_nqn ss) URI_PORTID (build_set_portid_oob (pt_portid p))"

text \<open>A subsystem restricted to its hosts is not linked to a port while it has none.\<close>

definition link_portid_msg :: "'w network \<Rightarrow> subsystem \<Rightarrow> portid \<Rightarrow> target \<Rightarrow> 'w \<Rightarrow> 'w sent" where
  "link_portid_msg N ss p t w =
     (if is_restricted ss \<and> ss_hosts ss = [] then Inr (0, t, w)
      else by_mode (send_link_portid_inb N ss p) (send_link_portid_oob N ss p) t w)"

definition send_unlink_portid_inb :: "'w network \<Rightarrow> subsystem \<Rightarrow> portid \<Rightarrow> target \<Rightarrow> 'w \<Rightarrow> 'w sent" where
  "send_unlink_portid_inb N ss p = send_set_config N (case build_link_port_inb ss p of (s, i) \<Rightarrow> Unlink_port_config s i)"

definition send_unlink_portid_oob :: "'w network \<Rightarrow> subsystem \<Rightarrow> portid \<Rightarrow> target \<Rightarrow> 'w \<Rightarrow> 'w sent" where
  "send_unlink_portid_oob N ss p =
     oob_delete N (URI_SUBSYSTEM @ ''/'' @ ss_nqn ss @ ''/'' @ URI_PORTID @ ''/'' @ show_int (pt_portid p))"

definition unlink_portid_msg :: "'w network \<Rightarrow> subsystem \<Rightarrow> portid \<Rightarrow> target \<Rightarrow> 'w \<Rightarrow> 'w sent" where
  "unlink_portid_msg N ss p = by_mode (send_unlink_portid_inb N ss p) (send_unlink_portid_oob N ss p)"

definition send_del_portid_inb :: "'w network \<Rightarrow> portid \<Rightarrow> target \<Rightarrow> 'w \<Rightarrow> 'w sent" where
  "send_del_portid_inb N p = send_set_config N (build_port_delete_inb p)"

definition send_del_portid_oob :: "'w network \<Rightarrow> portid \<Rightarrow> target \<Rightarrow> 'w \<Rightarrow> 'w sent" where
  "send_del_portid_oob N p = oob_delete N (URI_PORTID @ ''/'' @ show_int (pt_portid p))"

definition del_portid_msg :: "'w network \<Rightarrow> portid \<Rightarrow> target \<Rightarrow> 'w \<Rightarrow> 'w sent" where
  "del_portid_msg N p = by_mode (send_del_portid_inb N p) (send_del_portid_oob N p)"

definition config_portid_inb :: "'w network \<Rightarrow> portid \<Rightarrow> target \<Rightarrow> 'w \<Rightarrow> 'w sent" where
  "config_portid_inb N p t w = exec_bind (build_set_port_config_inb p) (\<lambda>msg. send_set_config N msg t w)"

definition config_portid_oob :: "'w network \<Rightarrow> portid \<Rightarrow> target \<Rightarrow> 'w \<Rightarrow> 'w sent" where
  "config_portid_oob N p = send_set_portid_oob N (build_set_port_oob p) (pt_portid p)"

definition config_portid_msg :: "'w network \<Rightarrow> portid \<Rightarrow> target \<Rightarrow> 'w \<Rightarrow> 'w sent" where
  "config_portid_msg N p = by_mode (config_portid_inb N p) (config_portid_oob N p)"

section \<open>Namespaces\<close>

definition send_set_ns_inb :: "'w network \<Rightarrow> subsystem \<Rightarrow> ns \<Rightarrow> target \<Rightarrow> 'w \<Rightarrow> 'w sent" where
  "send_set_ns_inb N ss n = send_set_config N (build_ns_config_inb ss n)"

definition ns_path :: "subsystem \<Rightarrow> ns \<Rightarrow> string" where
  "ns_path ss n = URI_SUBSYSTEM @ ''/'' @ ss_nqn ss @ ''/'' @ URI_NAMESPACE @ ''/'' @ show_int (ns_nsid n)"

definition send_set_ns_oob :: "'w network \<Rightarrow> subsystem \<Rightarrow> ns \<Rightarrow> target \<Rightarrow> 'w \<Rightarrow> 'w sent" where
  "send_set_ns_oob N ss n = oob_post N (ns_path ss n) (build_set_ns_oob n)"

definition set_ns_msg :: "'w network \<Rightarrow> subsystem \<Rightarrow> ns \<Rightarrow> target \<Rightarrow> 'w \<Rightarrow> 'w sent" where
  "set_ns_msg N ss n = by_mode (send_set_ns_inb N ss n) (send_set_ns_oob N ss n)"

definition send_del_ns_inb :: "'w network \<Rightarrow> subsystem \<Rightarrow> ns \<Rightarrow> target \<Rightarrow> 'w \<Rightarrow> 'w sent" where
  "send_del_ns_inb N ss n = send_set_config N (build_ns_delete_inb ss n)"

definition send_del_ns_oob :: "'w network \<Rightarrow> subsystem \<Rightarrow> ns \<Rightarrow> target \<Rightarrow> 'w \<Rightarrow> 'w sent" where
  "send_del_ns_oob N ss n = oob_delete N (ns_path ss n)"

section \<open>Subsystems\<close>

definition send_del_subsys_inb :: "'w network \<Rightarrow> subsystem \<Rightarrow> target \<Rightarrow> 'w \<Rightarrow> 'w sent" where
  "send_del_subsys_inb N ss = send_set_config N (build_subsys_delete_inb ss)"

definition send_del_subsys_oob :: "'w network \<Rightarrow> subsystem \<Rightarrow> target \<Rightarrow> 'w \<Rightarrow> 'w sent" where
  "send_del_subsys_oob N ss = oob_delete N (URI_SUBSYSTEM @ ''/'' @ ss_nqn ss)"

definition del_subsys_msg :: "'w network \<Rightarrow> subsystem \<Rightarrow> target \<Rightarrow> 'w \<Rightarrow> 'w sent" where
  "del_subsys_msg N ss = by_mode (send_del_subsys_inb N ss) (send_del_subsys_oob N ss)"

definition config_subsys_inb :: "'w network \<Rightarrow> subsystem \<Rightarrow> target \<Rightarrow> 'w \<Rightarrow> 'w sent" where
  "config_subsys_inb N ss = send_set_config N (build_subsys_config_inb ss)"

text \<open>
  Out of band the namespaces, hosts and ports of the subsystem are sent with it; only a failure of the
  first message is reported.
\<close>

definition config_subsys_oob :: "'w network \<Rightarrow> subsystem \<Rightarrow> target \<Rightarrow> 'w \<Rightarrow> 'w sent" where
  "config_subsys_oob N ss =
     send_then (send_set_config_oob N URI_SUBSYSTEM (build_set_subsys_oob ss))
       (send_both (send_all (\<lambda>n. send_update_subsys_oob N (ss_nqn ss) URI_NAMESPACE (build_set_ns_oob n)) (ss_nss ss))
       (send_both (send_all (\<lambda>h.
            let buf = build_set_host_oob (hs_nqn h)
            in send_then (send_set_config_oob N URI_HOST buf) (send_update_subsys_oob N (ss_nqn ss) URI_HOST buf)) (ss_hosts ss))
       (\<lambda>t. send_both
          (if is_restricted ss \<and> ss_hosts ss = [] then send_nothing
           else send_all (send_link_portid_oob N ss) (tg_portids t)) send_nothing t)))"

section \<open>Whole targets\<close>

definition config_target_inb_subsys :: "'w network \<Rightarrow> portid list \<Rightarrow> subsystem \<Rightarrow> target \<Rightarrow> 'w \<Rightarrow> 'w sent" where
  "config_target_inb_subsys N ports ss =
     send_then (config_subsys_inb N ss)
     (send_then (if is_restricted ss
                 then send_until (\<lambda>h. send_then (send_host_config_inb N h) (send_link_host_inb N ss h)) (ss_hosts ss)
                 else send_nothing)
     (send_then (send_until (send_set_ns_inb N ss) (ss_nss ss))
        (if is_restricted ss \<and> ss_hosts ss = [] then send_nothing
         else send_until (send_link_portid_inb N ss) ports)))"

text \<open>
  The messages of \<^verbatim>\<open>config_target_inb\<close> after it has connected, and of \<^verbatim>\<open>config_target_oob\<close>.
\<close>

definition config_target_inb_msgs :: "'w network \<Rightarrow> target \<Rightarrow> 'w \<Rightarrow> 'w sent" where
  "config_target_inb_msgs N t =
     send_then (send_until (config_portid_inb N) (tg_portids t))
       (send_until (config_target_inb_subsys N (tg_portids t)) (tg_subsystems t)) t"

definition send_del_target_inb :: "'w network \<Rightarrow> target \<Rightarrow> 'w \<Rightarrow> 'w sent" where
  "send_del_target_inb N = send_set_config N Reset_config"

definition send_del_target_oob :: "'w network \<Rightarrow> target \<Rightarrow> 'w \<Rightarrow> 'w sent" where
  "send_del_target_oob N = oob_delete N URI_CONFIG"

text \<open>The codes of the messages are dropped.\<close>

definition send_del_target :: "'w network \<Rightarrow> target \<Rightarrow> 'w \<Rightarrow> 'w sent" where
  "send_del_target N = send_both (by_mode (send_del_target_inb N) (send_del_target_oob N)) send_nothing"

end
