(* ===== verification/Dem_Requests.thy ===== *)
theory Dem_Requests
  imports Dem_Messages
begin

text \<open>
  The requests to the controller (\<^verbatim>\<open>src/src/dem/config.c\<close>): each changes the JSON document, then the lists
  of the controller, and configures the target. A message that fails is reported in the response, and the
  notifications are sent in any case.

  A request that names no target, subsystem or host where one is needed passes a null pointer to \<^verbatim>\<open>strcmp\<close>
  or \<^verbatim>\<open>sprintf\<close>.
\<close>

section \<open>Helpers\<close>

definition config_alert :: "string \<Rightarrow> string" where
  "config_alert alias = ''ALERT - DEM config updated but failed to connect to '' @ squoted alias"

definition INTERNAL_ERR :: string where "INTERNAL_ERR = '' - unable to comply, internal error''"
definition TARGET_ERR :: string where "TARGET_ERR = '' - target not found''"
definition NSDEV_ERR :: string where "NSDEV_ERR = '' - invalid ns device''"
definition MGT_MODE_ERR :: string where "MGT_MODE_ERR = '' - invalid mgmt mode for setting interface''"

text \<open>Changing or unlinking the first entry of a list that matches.\<close>

fun upd_first :: "('a \<Rightarrow> bool) \<Rightarrow> ('a \<Rightarrow> 'a) \<Rightarrow> 'a list \<Rightarrow> 'a list" where
  "upd_first P f [] = []"
| "upd_first P f (x # xs) = (if P x then f x # xs else x # upd_first P f xs)"

fun del_first :: "('a \<Rightarrow> bool) \<Rightarrow> 'a list \<Rightarrow> 'a list" where
  "del_first P [] = []"
| "del_first P (x # xs) = (if P x then xs else x # del_first P xs)"

definition upd_subsys :: "ptr \<Rightarrow> ptr \<Rightarrow> (subsystem \<Rightarrow> subsystem) \<Rightarrow> ('j, 'w) dem \<Rightarrow> ('j, 'w) dem" where
  "upd_subsys p q f = upd_target p (\<lambda>t. t\<lparr>tg_subsystems := map (\<lambda>ss. if ss_ptr ss = q then f ss else ss) (tg_subsystems t)\<rparr>)"

definition with_subsys :: "ptr \<Rightarrow> ptr \<Rightarrow> (target \<Rightarrow> subsystem \<Rightarrow> ('j, 'w) dem \<Rightarrow> 'a exec) \<Rightarrow> ('j, 'w) dem \<Rightarrow> 'a exec" where
  "with_subsys p q k s =
     (case get_target s p of
        None \<Rightarrow> Inl Use_after_free
      | Some t \<Rightarrow> exec_bind (get_subsys t q) (\<lambda>ss. k t ss s))"

text \<open>Sending to the target at an address; with the response that an error gives.\<close>

definition send_to :: "ptr \<Rightarrow> (target \<Rightarrow> 'w \<Rightarrow> 'w sent) \<Rightarrow> ('j, 'w) dem \<Rightarrow> (int \<times> ('j, 'w) dem) exec" where
  "send_to = on_target"

definition send_quiet :: "ptr \<Rightarrow> (target \<Rightarrow> 'w \<Rightarrow> 'w sent) \<Rightarrow> ('j, 'w) dem \<Rightarrow> ('j, 'w) dem exec" where
  "send_quiet p f s = exec_bind (send_to p f s) (\<lambda>(_, s). Inr s)"

definition alert :: "('j, 'w) dem \<Rightarrow> ptr \<Rightarrow> int \<Rightarrow> string \<Rightarrow> string" where
  "alert s p ret resp =
     (if ret = 0 then resp else case get_target s p of None \<Rightarrow> resp | Some t \<Rightarrow> config_alert (tg_alias t))"

text \<open>The subsystems of all targets, in the order of the nested loops.\<close>

definition all_subsystems :: "('j, 'w) dem \<Rightarrow> (ptr \<times> ptr) list" where
  "all_subsystems s = concat (map (\<lambda>t. map (\<lambda>ss. (tg_ptr t, ss_ptr ss)) (tg_subsystems t)) (dm_targets s))"

section \<open>Hosts\<close>

text \<open>\<open>update_subsys_host\<close> is \<^verbatim>\<open>_update_host\<close> with the search for the host in one subsystem around it.\<close>

definition update_subsys_host ::
  "'w network \<Rightarrow> string \<Rightarrow> string \<Rightarrow> string option \<Rightarrow> ptr \<times> ptr \<Rightarrow> ('j, 'w) dem \<times> string \<Rightarrow> (('j, 'w) dem \<times> string) exec" where
  "update_subsys_host N alias newalias hostnqn pq st =
     (case (pq, st) of ((p, q), (s, resp)) \<Rightarrow>
        with_subsys p q (\<lambda>t ss s.
          case List.find (\<lambda>h. hs_alias h = alias) (ss_hosts ss) of
            None \<Rightarrow> Inr (s, resp)
          | Some h \<Rightarrow>
              (case hostnqn of
                 None \<Rightarrow> Inl Uninitialised
               | Some nqn \<Rightarrow>
                   exec_bind
                     (if hs_nqn h = nqn then Inr (s, resp)
                      else
                        exec_bind (send_quiet p (unlink_host_msg N ss h) s) (\<lambda>s.
                        let s = upd_subsys p q (\<lambda>ss. ss\<lparr>ss_hosts := upd_first (\<lambda>h. hs_alias h = alias)
                                  (\<lambda>h. h\<lparr>hs_nqn := nqn\<rparr>) (ss_hosts ss)\<rparr>) s
                        in
                        exec_bind (send_to p (link_host_msg N ss (h\<lparr>hs_nqn := nqn\<rparr>)) s) (\<lambda>(ret, s).
                        exec_bind (update_subsys_dq N p ss (hs_nqn h) nqn s) (\<lambda>s'.
                          Inr (s', alert s p ret resp)))))
                     (\<lambda>(s, resp).
                       Inr (upd_subsys p q (\<lambda>ss. ss\<lparr>ss_hosts := upd_first (\<lambda>h. hs_alias h = alias)
                              (\<lambda>h. h\<lparr>hs_alias := newalias\<rparr>) (ss_hosts ss)\<rparr>) s, resp)))) s)"

definition update_host :: "'j jansson \<Rightarrow> 'w network \<Rightarrow> string option \<Rightarrow> string \<Rightarrow> ('j, 'w) dem \<Rightarrow> ('j, 'w) result" where
  "update_host J N alias data s =
     exec_bind (update_json_host J (dm_root s) alias data) (\<lambda>((root, ret, resp), out).
       let s = s\<lparr>dm_root := root\<rparr> in
       if ret \<noteq> 0 then Inr (s, ret, resp)
       else case out of
         None \<Rightarrow> Inl Uninitialised
       | Some (newalias, hostnqn) \<Rightarrow>
           exec_bind (each (update_subsys_host N (case alias of None \<Rightarrow> newalias | Some a \<Rightarrow> a) newalias hostnqn)
                        (all_subsystems s) (s, resp))
             (\<lambda>(s, resp). Inr (s, 0, resp)))"

definition add_host :: "'j jansson \<Rightarrow> string option \<Rightarrow> ('j, 'w) dem \<Rightarrow> ('j, 'w) result" where
  "add_host J host s =
     (case host of
        None \<Rightarrow> Inl Null_deref
      | Some h \<Rightarrow> exec_bind (add_json_host J (dm_root s) h) (\<lambda>(root, ret, resp). Inr (s\<lparr>dm_root := root\<rparr>, ret, resp)))"

text \<open>The body of the loop over the subsystems of a target in \<^verbatim>\<open>del_host\<close>.\<close>

definition del_subsys_host :: "'j jansson \<Rightarrow> 'w network \<Rightarrow> string \<Rightarrow> ptr \<Rightarrow> ptr \<Rightarrow> ('j, 'w) dem \<Rightarrow> ('j, 'w) dem exec" where
  "del_subsys_host J N alias p q =
     with_subsys p q (\<lambda>t ss s.
       if \<not> is_restricted ss then Inr s
       else case List.find (\<lambda>h. hs_alias h = alias) (ss_hosts ss) of
         None \<Rightarrow> Inr s
       | Some h \<Rightarrow>
           exec_bind (send_quiet p (unlink_host_msg N ss h) s) (\<lambda>s.
           let rest = del_first (\<lambda>h. hs_alias h = alias) (ss_hosts ss);
               s = upd_subsys p q (\<lambda>ss. ss\<lparr>ss_hosts := rest\<rparr>) s
           in
           exec_bind (reset_subsys_dq_nqn N p (ss\<lparr>ss_hosts := rest\<rparr>) (hs_nqn h) s) (\<lambda>s.
             case del_json_acl J (dm_root s) (tg_alias t) (ss_nqn ss) (hs_alias h) of
               (root, _) \<Rightarrow> Inr (s\<lparr>dm_root := root\<rparr>))))"

text \<open>The body of the loop over the targets; the code is that of the last target.\<close>

definition del_target_host ::
  "'j jansson \<Rightarrow> 'w network \<Rightarrow> string \<Rightarrow> string option \<Rightarrow> ptr \<Rightarrow> ('j, 'w) dem \<times> int \<times> string \<Rightarrow>
     ('j, 'w) result" where
  "del_target_host J N alias hostnqn p st =
     (case st of (s, _, resp) \<Rightarrow>
        (case get_target s p of
           None \<Rightarrow> Inl Use_after_free
         | Some t \<Rightarrow>
             exec_bind (each (del_subsys_host J N alias p) (map ss_ptr (tg_subsystems t)) s) (\<lambda>s.
               if \<not> list_ex is_restricted (tg_subsystems t) then Inr (s, 0, resp)
               else if tg_mgmt_mode t = LOCAL_MGMT then Inr (s, 0, resp)
               else case hostnqn of
                 None \<Rightarrow> Inl Uninitialised
               | Some nqn \<Rightarrow>
                   exec_bind (send_to p (del_host_msg N nqn) s) (\<lambda>(ret, s). Inr (s, ret, alert s p ret resp)))))"

definition del_host :: "'j jansson \<Rightarrow> 'w network \<Rightarrow> string option \<Rightarrow> ('j, 'w) dem \<Rightarrow> ('j, 'w) result" where
  "del_host J N host s =
     (case host of
        None \<Rightarrow> Inl Null_deref
      | Some alias \<Rightarrow>
          exec_bind (del_json_host J (dm_root s) alias) (\<lambda>((root, ret, resp), hostnqn).
            let s = s\<lparr>dm_root := root\<rparr> in
            if ret \<noteq> 0 then Inr (s, ret, resp)
            else each (del_target_host J N alias hostnqn) (map tg_ptr (dm_targets s)) (s, 0, resp)))"

section \<open>Access lists\<close>

text \<open>
  The last part of \<^verbatim>\<open>link_host\<close>. A host that is in the list already is appended once more, which breaks
  the links of the list.
\<close>

definition link_new_host ::
  "'w network \<Rightarrow> ptr \<Rightarrow> ptr \<Rightarrow> host \<Rightarrow> string \<Rightarrow> ('j, 'w) dem \<Rightarrow> ('j, 'w) result" where
  "link_new_host N p q h resp =
     with_subsys p q (\<lambda>t ss s.
       exec_bind (send_to p (link_host_msg N ss h) s) (\<lambda>(ret, s).
       let resp = alert s p ret resp in
       exec_bind
         (if ss_hosts ss = []
          then exec_bind (each (\<lambda>x. send_quiet p (link_portid_msg N ss x)) (tg_portids t) s) (\<lambda>s.
               let s = upd_subsys p q (\<lambda>ss. ss\<lparr>ss_hosts := h # ss_hosts ss\<rparr>) s
               in reset_subsys_dq N p (ss\<lparr>ss_hosts := h # ss_hosts ss\<rparr>) (hs_nqn h) s)
          else Inr (upd_subsys p q (\<lambda>ss. ss\<lparr>ss_hosts := ss_hosts ss @ [h]\<rparr>) s))
         (\<lambda>s.
       exec_bind (send_notifications N (create_event_host_list_for_host s (hs_nqn h)) s) (\<lambda>s.
         Inr (s, ret, resp)))))"

definition link_host ::
  "'j jansson \<Rightarrow> 'w network \<Rightarrow> string option \<Rightarrow> string \<Rightarrow> string option \<Rightarrow> string \<Rightarrow> ('j, 'w) dem \<Rightarrow> ('j, 'w) result" where
  "link_host J N tgt subnqn alias data s =
     (case tgt of
        None \<Rightarrow> Inl Null_deref
      | Some tgt \<Rightarrow>
          exec_bind (set_json_acl J (dm_root s) tgt subnqn alias data) (\<lambda>((root, ret, resp), out).
            let s = s\<lparr>dm_root := root\<rparr> in
            if ret \<noteq> 0 then Inr (s, ret, resp)
            else case find_target s tgt of
              None \<Rightarrow> Inr (s, 0, resp)
            | Some t \<Rightarrow>
                (case find_subsys t subnqn of
                   None \<Rightarrow> Inr (s, 0, resp)
                 | Some ss \<Rightarrow>
                     (case out of
                        None \<Rightarrow> Inl Uninitialised
                      | Some (newalias, hostnqn) \<Rightarrow>
                          let a = (case alias of None \<Rightarrow> newalias | Some a \<Rightarrow> a) in
                          if list_ex (\<lambda>h. hs_alias h = a) (ss_hosts ss) then Inl List_corrupted
                          else exec_bind (c_strcpy (MAX_ALIAS_SIZE + 1) (Some a)) (\<lambda>a.
                            link_new_host N (tg_ptr t) (ss_ptr ss) \<lparr>hs_alias = a, hs_nqn = hostnqn\<rparr> resp s)))))"

definition unlink_host ::
  "'j jansson \<Rightarrow> 'w network \<Rightarrow> string option \<Rightarrow> string \<Rightarrow> string \<Rightarrow> ('j, 'w) dem \<Rightarrow> ('j, 'w) result" where
  "unlink_host J N tgt subnqn alias s =
     (case tgt of
        None \<Rightarrow> Inl Null_deref
      | Some tgt \<Rightarrow>
          (case del_json_acl J (dm_root s) tgt subnqn alias of (root, ret, resp) \<Rightarrow>
            let s = s\<lparr>dm_root := root\<rparr> in
            if ret \<noteq> 0 then Inr (s, ret, resp)
            else case find_target s tgt of
              None \<Rightarrow> Inr (s, 0, resp)
            | Some t \<Rightarrow>
                (case find_subsys t subnqn of
                   None \<Rightarrow> Inr (s, 0, resp)
                 | Some ss \<Rightarrow>
                     (case List.find (\<lambda>h. hs_alias h = alias) (ss_hosts ss) of
                        None \<Rightarrow> Inr (s, 0, resp)
                      | Some h \<Rightarrow>
                          let p = tg_ptr t; q = ss_ptr ss;
                              rest = del_first (\<lambda>h. hs_alias h = alias) (ss_hosts ss)
                          in
                          exec_bind (send_quiet p (unlink_host_msg N ss h) s) (\<lambda>s.
                          let s = upd_subsys p q (\<lambda>ss. ss\<lparr>ss_hosts := rest\<rparr>) s in
                          exec_bind (reset_subsys_dq_nqn N p (ss\<lparr>ss_hosts := rest\<rparr>) (hs_nqn h) s) (\<lambda>s.
                          exec_bind
                            (case get_target s p of
                               None \<Rightarrow> Inl Use_after_free
                             | Some t \<Rightarrow>
                                 if list_ex (\<lambda>ss. list_ex (\<lambda>h. hs_alias h = alias) (ss_hosts ss)) (tg_subsystems t)
                                 then Inr (s, resp)
                                 else exec_bind (send_to p (del_host_msg N alias) s) (\<lambda>(ret, s).
                                        Inr (s, alert s p ret resp)))
                            (\<lambda>(s, resp).
                          exec_bind (send_notifications N (create_event_host_list_for_host s (hs_nqn h)) s) (\<lambda>s.
                            Inr (s, 0, resp)))))))))"

section \<open>Subsystems\<close>

definition del_subsys :: "'j jansson \<Rightarrow> 'w network \<Rightarrow> string option \<Rightarrow> string \<Rightarrow> ('j, 'w) dem \<Rightarrow> ('j, 'w) result" where
  "del_subsys J N tgt nqn s =
     (case tgt of
        None \<Rightarrow> Inl Null_deref
      | Some alias \<Rightarrow>
          (case del_json_subsys J (dm_root s) alias nqn of (root, ret, resp) \<Rightarrow>
            let s = s\<lparr>dm_root := root\<rparr> in
            if ret \<noteq> 0 then Inr (s, ret, resp)
            else case find_target s alias of
              None \<Rightarrow> Inr (s, 0, resp)
            | Some t \<Rightarrow>
                (case find_subsys t nqn of
                   None \<Rightarrow> Inr (s, 0, resp)
                 | Some ss \<Rightarrow>
                     let p = tg_ptr t in
                     exec_bind (send_to p (del_subsys_msg N ss) s) (\<lambda>(ret, s).
                     let resp = alert s p ret resp in
                     exec_bind (send_notifications N (create_event_host_list_for_subsys s ss) s) (\<lambda>s.
                     exec_bind (del_subsys_dq N p (ss_ptr ss) s) (\<lambda>s.
                       Inr (upd_target p (\<lambda>t. t\<lparr>tg_subsystems := filter (\<lambda>x. ss_ptr x \<noteq> ss_ptr ss) (tg_subsystems t)\<rparr>) s,
                            ret, resp)))))))"

text \<open>\<^verbatim>\<open>new_subsys\<close> of \<^verbatim>\<open>interfaces.c\<close>: an empty subsystem at the end of the list of the target.\<close>

definition new_subsys :: "ptr \<Rightarrow> string \<Rightarrow> ('j, 'w) dem \<Rightarrow> (ptr \<times> ('j, 'w) dem) exec" where
  "new_subsys p nqn s =
     exec_bind (c_strcpy (MAX_NQN_SIZE + 1) (Some nqn)) (\<lambda>nqn.
       let q = dm_next s;
           ss = \<lparr>ss_ptr = q, ss_hosts = [], ss_nss = [], ss_logpages = [], ss_nqn = nqn, ss_access = 0\<rparr>
       in Inr (q, (upd_target p (\<lambda>t. t\<lparr>tg_subsystems := tg_subsystems t @ [ss]\<rparr>) s)\<lparr>dm_next := Suc q\<rparr>))"

text \<open>\<^verbatim>\<open>_config_subsys\<close>: the hosts of a subsystem that any host may use are unlinked.\<close>

definition config_subsys :: "'w network \<Rightarrow> ptr \<Rightarrow> ptr \<Rightarrow> ('j, 'w) dem \<Rightarrow> (int \<times> ('j, 'w) dem) exec" where
  "config_subsys N p q =
     with_subsys p q (\<lambda>t ss s.
       exec_bind (send_to p (by_mode (config_subsys_inb N ss) (config_subsys_oob N ss)) s) (\<lambda>(ret, s).
         if is_restricted ss then Inr (ret, s)
         else exec_bind (del_subsys_dq N p q s) (\<lambda>s.
              exec_bind (each (\<lambda>h s. exec_bind (send_quiet p (unlink_host_msg N ss h) s) (\<lambda>s.
                           Inr (upd_subsys p q (\<lambda>ss. ss\<lparr>ss_hosts := tl (ss_hosts ss)\<rparr>) s))) (ss_hosts ss) s)
                (\<lambda>s. Inr (ret, s)))))"

text \<open>The changes that an update makes before the subsystem is configured.\<close>

definition change_subsys ::
  "'w network \<Rightarrow> ptr \<Rightarrow> string \<Rightarrow> subsys_out \<Rightarrow> subsystem \<Rightarrow> ('j, 'w) dem \<Rightarrow> ('j, 'w) dem exec" where
  "change_subsys N p nqn new ss s =
     (if (so_nqn new \<noteq> [] \<and> nqn \<noteq> so_nqn new) \<or>
         (so_access new \<noteq> UNDEFINED_ACCESS \<and> so_access new \<noteq> ss_access ss)
      then
        exec_bind (send_quiet p (del_subsys_msg N ss) s) (\<lambda>s.
        let f = (\<lambda>ss. ss\<lparr>ss_nqn := (if so_nqn new \<noteq> [] then so_nqn new else ss_nqn ss),
                         ss_access := (if so_access new \<noteq> UNDEFINED_ACCESS then so_access new else ss_access ss)\<rparr>);
            s = upd_subsys p (ss_ptr ss) f s
        in if is_restricted (f ss) then Inr s
           else each (\<lambda>h. send_quiet p (del_host_msg N (hs_alias h))) (ss_hosts ss) s)
      else Inr s)"

text \<open>The part of \<^verbatim>\<open>set_subsys\<close> after the subsystem was found or made.\<close>

definition apply_set_subsys :: "'w network \<Rightarrow> ptr \<Rightarrow> ptr \<Rightarrow> string \<Rightarrow> ('j, 'w) dem \<Rightarrow> ('j, 'w) result" where
  "apply_set_subsys N p q resp s =
     exec_bind (config_subsys N p q s) (\<lambda>(ret, s).
     exec_bind
       (if ret \<noteq> 0 then Inr s
        else case get_target s p of
          None \<Rightarrow> Inl Use_after_free
        | Some t \<Rightarrow>
            exec_bind (each (\<lambda>x s. with_subsys p q (\<lambda>_ ss s.
                 exec_bind (send_quiet p (link_portid_msg N ss x) s) (\<lambda>s. new_queue N p (Some ss) x s)) s)
               (tg_portids t) s) (refresh_target N p))
       (\<lambda>s'.
     with_subsys p q (\<lambda>_ ss s'.
       exec_bind (send_notifications N (create_event_host_list_for_subsys s' ss) s') (\<lambda>s'.
         Inr (s', ret, alert s p ret resp))) s'))"

definition set_subsys ::
  "'j jansson \<Rightarrow> 'w network \<Rightarrow> string option \<Rightarrow> string option \<Rightarrow> string \<Rightarrow> ('j, 'w) dem \<Rightarrow> ('j, 'w) result" where
  "set_subsys J N tgt nqn data s =
     (case tgt of
        None \<Rightarrow> Inl Null_deref
      | Some alias \<Rightarrow>
          exec_bind (set_json_subsys J (dm_root s) alias nqn data) (\<lambda>((root, ret, resp), new).
            let s = s\<lparr>dm_root := root\<rparr> in
            if ret \<noteq> 0 then Inr (s, ret, resp)
            else case find_target s alias of
              None \<Rightarrow> Inr (s, - ENOENT, resp)
            | Some t \<Rightarrow>
                let p = tg_ptr t in
                (case nqn of
                   None \<Rightarrow>
                     exec_bind (new_subsys p (so_nqn new) s) (\<lambda>(q, s).
                       apply_set_subsys N p q resp (upd_subsys p q (\<lambda>ss. ss\<lparr>ss_access := so_access new\<rparr>) s))
                 | Some nqn \<Rightarrow>
                     (case find_subsys t nqn of
                        None \<Rightarrow> Inr (s, - ENOENT, resp)
                      | Some ss \<Rightarrow>
                          exec_bind (change_subsys N p nqn new ss s) (apply_set_subsys N p (ss_ptr ss) resp)))))"

end
