(* ===== verification/Dem_Targets.thy ===== *)
theory Dem_Targets
  imports Dem_Requests
begin

text \<open>
  The second half of the requests of \<^verbatim>\<open>src/src/dem/config.c\<close>: ports, namespaces and targets, with the
  functions that read the devices and transports of a target and those that configure a whole target
  (\<^verbatim>\<open>target_reconfig\<close> is in \<^verbatim>\<open>src/src/dem/interfaces.c\<close>).
\<close>

section \<open>Ports\<close>

definition del_portid :: "'j jansson \<Rightarrow> 'w network \<Rightarrow> string option \<Rightarrow> int \<Rightarrow> ('j, 'w) dem \<Rightarrow> ('j, 'w) result" where
  "del_portid J N tgt pid s =
     (case tgt of
        None \<Rightarrow> Inl Null_deref
      | Some alias \<Rightarrow>
          (case del_json_portid J (dm_root s) alias pid of (root, ret, resp) \<Rightarrow>
            let s = s\<lparr>dm_root := root\<rparr> in
            if ret \<noteq> 0 then Inr (s, ret, resp)
            else case find_target s alias of
              None \<Rightarrow> Inr (s, 0, resp)
            | Some t \<Rightarrow>
                (case find_portid t pid of
                   None \<Rightarrow> Inr (s, 0, resp)
                 | Some x \<Rightarrow>
                     let p = tg_ptr t;
                         mine = filter (\<lambda>dq. cq_portid dq = pt_ptr x) (tg_queues t)
                     in
                     exec_bind (each (drop_connection N p) mine s) (\<lambda>s.
                     let s = upd_target p (\<lambda>t. t\<lparr>tg_queues := filter (\<lambda>dq. cq_portid dq \<noteq> pt_ptr x) (tg_queues t),
                               tg_subsystems := map (\<lambda>ss. ss\<lparr>ss_logpages := filter (\<lambda>lp. lp_portid lp \<noteq> pt_ptr x)
                                 (ss_logpages ss)\<rparr>) (tg_subsystems t)\<rparr>) s
                     in
                     exec_bind (send_to p (del_portid_msg N x) s) (\<lambda>(ret, s).
                     let resp = alert s p ret resp;
                         s = upd_target p (\<lambda>t. t\<lparr>tg_portids := filter (\<lambda>y. pt_ptr y \<noteq> pt_ptr x) (tg_portids t)\<rparr>) s
                     in
                     exec_bind (send_notifications N (create_event_host_list_for_target s t) s) (\<lambda>s.
                       Inr (s, ret, resp)))))))"

text \<open>
  The values that \<^verbatim>\<open>set_json_portid\<close> writes to a local structure that is not initialised: all of them are
  read afterwards.
\<close>

definition portid_values :: "portid_out \<Rightarrow> (int \<times> int \<times> string \<times> string \<times> string) exec" where
  "portid_values out =
     (case (po_portid out, po_port_num out, po_type out, po_address out, po_family out) of
        (Some i, Some n, Some ty, Some ad, Some fa) \<Rightarrow> Inr (i, n, ty, ad, fa)
      | _ \<Rightarrow> Inl Uninitialised)"

text \<open>The entry for the port: the one with the number asked for, or a new one at the end.\<close>

definition port_entry :: "ptr \<Rightarrow> int \<Rightarrow> target \<Rightarrow> ('j, 'w) dem \<Rightarrow> ptr \<times> ('j, 'w) dem" where
  "port_entry p pid t s =
     (case find_portid t pid of
        Some x \<Rightarrow> (pt_ptr x, s)
      | None \<Rightarrow>
          let q = dm_next s;
              x = \<lparr>pt_ptr = q, pt_portid = 0, pt_type = [], pt_family = [], pt_address = [], pt_port = [],
                   pt_port_num = 0, pt_addr = []\<rparr>
          in (q, (upd_target p (\<lambda>t. t\<lparr>tg_portids := tg_portids t @ [x]\<rparr>) s)\<lparr>dm_next := Suc q\<rparr>))"

text \<open>\<open>_del_portid_dq\<close>: the first queue of the port.\<close>

definition del_portid_dq :: "ptr \<Rightarrow> ptr \<Rightarrow> ('j, 'w) dem \<Rightarrow> ('j, 'w) dem" where
  "del_portid_dq p x = upd_target p (\<lambda>t. t\<lparr>tg_queues := del_first (\<lambda>dq. cq_portid dq = x) (tg_queues t)\<rparr>)"

definition with_portid :: "ptr \<Rightarrow> ptr \<Rightarrow> (target \<Rightarrow> portid \<Rightarrow> ('j, 'w) dem \<Rightarrow> 'a exec) \<Rightarrow> ('j, 'w) dem \<Rightarrow> 'a exec" where
  "with_portid p x k s =
     (case get_target s p of
        None \<Rightarrow> Inl Use_after_free
      | Some t \<Rightarrow> exec_bind (get_portid t x) (\<lambda>port. k t port s))"

text \<open>The messages and queues of a port that was added or changed, for a target that is managed.\<close>

definition config_changed_port ::
  "'w network \<Rightarrow> ptr \<Rightarrow> ptr \<Rightarrow> int \<Rightarrow> ('j, 'w) dem \<Rightarrow> (int \<times> ('j, 'w) dem) exec" where
  "config_changed_port N p x pid =
     with_portid p x (\<lambda>t port s.
       let old = port\<lparr>pt_portid := pid\<rparr>;
           qs = map ss_ptr (tg_subsystems t)
       in
       exec_bind (each (\<lambda>ss. send_quiet p (unlink_portid_msg N ss old)) (tg_subsystems t) s) (\<lambda>s.
       exec_bind (if pt_portid port \<noteq> pid then send_quiet p (del_portid_msg N old) s else Inr s) (\<lambda>s.
       exec_bind (send_to p (config_portid_msg N port) s) (\<lambda>(ret, s).
         if ret \<noteq> 0 then Inr (ret, s)
         else
           exec_bind (new_queue N p None port (del_portid_dq p x s)) (\<lambda>s.
           exec_bind (each (\<lambda>q s. with_subsys p q (\<lambda>_ ss s.
                exec_bind (send_quiet p (link_portid_msg N ss port) s) (new_queue N p (Some ss) port)) s) qs s) (\<lambda>s.
           exec_bind (refresh_target N p s) (\<lambda>s. Inr (0, s))))))))"

definition set_portid ::
  "'j jansson \<Rightarrow> 'w network \<Rightarrow> string option \<Rightarrow> int \<Rightarrow> string \<Rightarrow> ('j, 'w) dem \<Rightarrow> ('j, 'w) result" where
  "set_portid J N tgt pid data s =
     (case tgt of
        None \<Rightarrow> Inl Null_deref
      | Some alias \<Rightarrow>
          exec_bind (set_json_portid J (dm_root s) alias pid data) (\<lambda>((root, ret, resp), out).
            let s = s\<lparr>dm_root := root\<rparr> in
            if ret \<noteq> 0 then Inr (s, ret, resp)
            else case find_target s alias of
              None \<Rightarrow> Inr (s, - ENOENT, TARGET_ERR)
            | Some t \<Rightarrow>
                exec_bind (portid_values out) (\<lambda>(i, num, typ, addr, fam).
                let p = tg_ptr t; pid = (if pid = 0 then i else pid) in
                (case port_entry p pid t s of (x, s) \<Rightarrow>
                let s = upd_target p (\<lambda>t. t\<lparr>tg_portids := map (\<lambda>y. if pt_ptr y = x
                          then y\<lparr>pt_portid := i, pt_port_num := num, pt_type := typ, pt_address := addr, pt_family := fam\<rparr>
                          else y) (tg_portids t)\<rparr>) s
                in
                exec_bind
                  (if tg_mgmt_mode t = LOCAL_MGMT
                   then with_portid p x (\<lambda>_ port s. exec_bind (new_queue N p None port s) (\<lambda>s. Inr (0, s))) s
                   else config_changed_port N p x pid s)
                  (\<lambda>(ret, s).
                case get_target s p of
                  None \<Rightarrow> Inl Use_after_free
                | Some t' \<Rightarrow>
                    exec_bind (send_notifications N (create_event_host_list_for_target s t') s) (\<lambda>s.
                      Inr (s, ret, alert s p ret resp)))))))"

section \<open>Namespaces\<close>

definition set_ns ::
  "'j jansson \<Rightarrow> 'w network \<Rightarrow> string option \<Rightarrow> string \<Rightarrow> string \<Rightarrow> ('j, 'w) dem \<Rightarrow> ('j, 'w) result" where
  "set_ns J N tgt nqn data s =
     (case tgt of
        None \<Rightarrow> Inl Null_deref
      | Some alias \<Rightarrow>
          (case set_json_ns J (dm_root s) alias nqn data of ((root, ret, resp), out) \<Rightarrow>
            let s = s\<lparr>dm_root := root\<rparr> in
            if ret \<noteq> 0 then Inr (s, ret, resp)
            else case find_target s alias of
              None \<Rightarrow> Inr (s, 0, resp)
            | Some t \<Rightarrow>
                (case (no_nsid out, no_devid out) of
                   (Some nsid, Some devid) \<Rightarrow>
                     let devns = (if tg_mgmt_mode t \<noteq> LOCAL_MGMT \<and> devid = NULL_BLK_DEVID then Some 0 else no_devns out) in
                     (case devns of
                        None \<Rightarrow> Inl Uninitialised
                      | Some devns \<Rightarrow>
                          if tg_mgmt_mode t \<noteq> LOCAL_MGMT \<and>
                             \<not> list_ex (\<lambda>d. nd_nsdev d = devid \<and> nd_nsid d = devns) (tg_devices t)
                          then Inr (s, - ENOENT, NSDEV_ERR)
                          else case find_subsys t nqn of
                            None \<Rightarrow> Inr (s, 0, resp)
                          | Some ss \<Rightarrow>
                              let p = tg_ptr t; q = ss_ptr ss;
                                  n = \<lparr>ns_nsid = nsid, ns_devid = devid, ns_devns = devns\<rparr>;
                                  nss = (if find_ns ss nsid = None then ss_nss ss @ [n]
                                         else upd_first (\<lambda>x. ns_nsid x = nsid) (\<lambda>_. n) (ss_nss ss));
                                  s = upd_subsys p q (\<lambda>ss. ss\<lparr>ss_nss := nss\<rparr>) s
                              in exec_bind (send_to p (set_ns_msg N ss n) s) (\<lambda>(ret, s). Inr (s, ret, alert s p ret resp)))
                 | _ \<Rightarrow> Inl Uninitialised)))"

definition del_ns ::
  "'j jansson \<Rightarrow> 'w network \<Rightarrow> string option \<Rightarrow> string \<Rightarrow> int \<Rightarrow> ('j, 'w) dem \<Rightarrow> ('j, 'w) result" where
  "del_ns J N tgt nqn nsid s =
     (case tgt of
        None \<Rightarrow> Inl Null_deref
      | Some alias \<Rightarrow>
          (case del_json_ns J (dm_root s) alias nqn nsid of (root, ret, resp) \<Rightarrow>
            let s = s\<lparr>dm_root := root\<rparr> in
            if ret \<noteq> 0 then Inr (s, ret, resp)
            else case find_target s alias of
              None \<Rightarrow> Inr (s, 0, resp)
            | Some t \<Rightarrow>
                (case find_subsys t nqn of
                   None \<Rightarrow> Inr (s, 0, resp)
                 | Some ss \<Rightarrow>
                     (case find_ns ss nsid of
                        None \<Rightarrow> Inr (s, 0, resp)
                      | Some n \<Rightarrow>
                          let p = tg_ptr t; q = ss_ptr ss in
                          exec_bind (send_to p (by_mode (send_del_ns_inb N ss n) (send_del_ns_oob N ss n)) s) (\<lambda>(ret, s).
                            Inr (upd_subsys p q (\<lambda>ss. ss\<lparr>ss_nss := del_first (\<lambda>x. ns_nsid x = nsid) (ss_nss ss)\<rparr>) s,
                                 ret, alert s p ret resp))))))"

section \<open>Devices and transports of a target\<close>

text \<open>
  In band. A device that was not known is stored in the document; devices that are not reported any more
  stay in the list.
\<close>

fun inb_devices ::
  "'j jansson \<Rightarrow> string \<Rightarrow> (int \<times> int) list \<Rightarrow> 'j \<Rightarrow> nsdev list \<Rightarrow> 'j \<times> nsdev list" where
  "inb_devices J alias [] root devs = (root, devs)"
| "inb_devices J alias ((d, n) # es) root devs =
     (let devid = (if d = NVMF_NULLB_DEVID then NULL_BLK_DEVID else d) in
      if list_ex (\<lambda>x. nd_nsdev x = devid \<and> nd_nsid x = n) devs
      then inb_devices J alias es root
             (upd_first (\<lambda>x. nd_nsdev x = devid \<and> nd_nsid x = n) (\<lambda>x. x\<lparr>nd_valid := True\<rparr>) devs)
      else inb_devices J alias es (fst (set_json_inb_nsdev J root alias devid n))
             (devs @ [\<lparr>nd_nsdev = devid, nd_nsid = n, nd_valid = True\<rparr>]))"

definition get_inb_nsdevs :: "'j jansson \<Rightarrow> 'w network \<Rightarrow> ptr \<Rightarrow> ('j, 'w) dem \<Rightarrow> (int \<times> ('j, 'w) dem) exec" where
  "get_inb_nsdevs J N p s =
     (case get_target s p of
        None \<Rightarrow> Inl Use_after_free
      | Some t \<Rightarrow>
          (case nw_ns_devices N (Control p) (dm_net s) of (ret, es, w) \<Rightarrow>
             let s = s\<lparr>dm_net := w\<rparr> in
             if ret \<noteq> 0 \<or> es = [] then Inr (ret, s)
             else
               (case inb_devices J (tg_alias t) es (dm_root s) (map (\<lambda>d. d\<lparr>nd_valid := False\<rparr>) (tg_devices t)) of
                  (root, devs) \<Rightarrow> Inr (0, (upd_target p (\<lambda>t. t\<lparr>tg_devices := devs\<rparr>) s)\<lparr>dm_root := root\<rparr>))))"

text \<open>
  The transports likewise; here the ones not reported are removed. The name of a type or family that is not
  known does not fit its array.
\<close>

fun inb_transports ::
  "'j jansson \<Rightarrow> string \<Rightarrow> (u8 \<times> u8 \<times> string) list \<Rightarrow> 'j \<Rightarrow> fabric_iface list \<Rightarrow> ('j \<times> fabric_iface list) exec" where
  "inb_transports J alias [] root fs = Inr (root, fs)"
| "inb_transports J alias ((ty, fa, ad) # es) root fs =
     exec_bind (c_strcpy (CONFIG_TYPE_SIZE + 1) (Some (trtype_str ty))) (\<lambda>typ.
     exec_bind (c_strcpy (CONFIG_FAMILY_SIZE + 1) (Some (adrfam_str fa))) (\<lambda>fam.
     let addr = cut CONFIG_ADDRESS_SIZE ad;
         same = (\<lambda>f. fi_addr f = addr \<and> fi_fam f = fam \<and> fi_type f = typ)
     in if list_ex same fs
        then inb_transports J alias es root (upd_first same (\<lambda>f. f\<lparr>fi_valid := True\<rparr>) fs)
        else inb_transports J alias es (fst (set_json_inb_fabric_iface J root alias typ fam addr))
               (fs @ [\<lparr>fi_type = typ, fi_fam = fam, fi_addr = addr, fi_valid = True\<rparr>])))"

definition get_inb_xports :: "'j jansson \<Rightarrow> 'w network \<Rightarrow> ptr \<Rightarrow> ('j, 'w) dem \<Rightarrow> (int \<times> ('j, 'w) dem) exec" where
  "get_inb_xports J N p s =
     (case get_target s p of
        None \<Rightarrow> Inl Use_after_free
      | Some t \<Rightarrow>
          (case nw_transports N (Control p) (dm_net s) of (ret, es, w) \<Rightarrow>
             let s = s\<lparr>dm_net := w\<rparr> in
             if ret \<noteq> 0 \<or> es = [] then Inr (ret, s)
             else
               exec_bind (inb_transports J (tg_alias t) es (fst (init_json_inb_fabric_iface J (dm_root s) (tg_alias t)))
                            (map (\<lambda>f. f\<lparr>fi_valid := False\<rparr>) (tg_fabric_ifaces t))) (\<lambda>(root, fs).
                 Inr (0, (upd_target p (\<lambda>t. t\<lparr>tg_fabric_ifaces := filter fi_valid fs\<rparr>) s)\<lparr>dm_root := root\<rparr>))))"

text \<open>\<^verbatim>\<open>if (ret) disconnect_ctrl(ctrl, 0);\<close> and the like, on the control connection.\<close>

definition disconnect_if :: "'w network \<Rightarrow> ptr \<Rightarrow> bool \<Rightarrow> ('j, 'w) dem \<Rightarrow> ('j, 'w) dem exec" where
  "disconnect_if N p c s =
     (if c then exec_bind (on_target p (\<lambda>t w. exec_bind (disconnect_control N t w) (\<lambda>r. Inr ((), r))) s) (\<lambda>(_, s). Inr s)
      else Inr s)"

definition get_inb_config :: "'j jansson \<Rightarrow> 'w network \<Rightarrow> ptr \<Rightarrow> ('j, 'w) dem \<Rightarrow> (int \<times> ('j, 'w) dem) exec" where
  "get_inb_config J N p s =
     (case get_target s p of
        None \<Rightarrow> Inl Use_after_free
      | Some t \<Rightarrow>
          (case sc_inb_portid (tg_sc_iface t) of
             None \<Rightarrow> Inl Null_deref
           | Some x \<Rightarrow>
               let s = upd_target p (upd_sc (\<lambda>sc. sc\<lparr>sc_ops := register_ops (pt_type x)\<rparr>)) s in
               if \<not> register_ops (pt_type x) then Inr (- EINVAL, s)
               else
                 exec_bind (disconnect_if N p (sc_connected (tg_sc_iface t)) s) (\<lambda>s.
                 exec_bind (send_to p (connect_control N) s) (\<lambda>(ret, s).
                   if ret \<noteq> 0 then Inr (ret, s)
                   else
                     let s = upd_target p (upd_sc (\<lambda>sc. sc\<lparr>sc_connected := True\<rparr>)) s in
                     exec_bind (get_inb_nsdevs J N p s) (\<lambda>(ret, s).
                     exec_bind (if ret \<noteq> 0 then Inr (ret, s) else get_inb_xports J N p s) (\<lambda>(ret, s).
                     exec_bind (disconnect_if N p (ret \<noteq> 0) s) (\<lambda>s. Inr (ret, s))))))))"

text \<open>Out of band: a request for the text, which is stored as in \<^verbatim>\<open>json.c\<close>.\<close>

definition get_oob_nsdevs :: "'j jansson \<Rightarrow> 'w network \<Rightarrow> ptr \<Rightarrow> ('j, 'w) dem \<Rightarrow> (int \<times> ('j, 'w) dem) exec" where
  "get_oob_nsdevs J N p s =
     (case get_target s p of
        None \<Rightarrow> Inl Use_after_free
      | Some t \<Rightarrow>
          exec_bind (send_get_config_oob N URI_NSDEV t (dm_net s)) (\<lambda>(ret, data, w).
            let s = s\<lparr>dm_net := w\<rparr> in
            if ret \<noteq> 0 then Inr (ret, s)
            else exec_bind (set_json_oob_nsdevs J (dm_root s) (tg_alias t) (tg_devices t) data) (\<lambda>(root, devs, ret).
              Inr (ret, (upd_target p (\<lambda>t. t\<lparr>tg_devices := devs\<rparr>) s)\<lparr>dm_root := root\<rparr>))))"

definition get_oob_xports :: "'j jansson \<Rightarrow> 'w network \<Rightarrow> ptr \<Rightarrow> ('j, 'w) dem \<Rightarrow> (int \<times> ('j, 'w) dem) exec" where
  "get_oob_xports J N p s =
     (case get_target s p of
        None \<Rightarrow> Inl Use_after_free
      | Some t \<Rightarrow>
          exec_bind (send_get_config_oob N URI_INTERFACE t (dm_net s)) (\<lambda>(ret, data, w).
            let s = s\<lparr>dm_net := w\<rparr> in
            if ret \<noteq> 0 then Inr (ret, s)
            else exec_bind (set_json_oob_interfaces J (dm_root s) (tg_alias t) (tg_fabric_ifaces t) data) (\<lambda>(root, fs, ret).
              Inr (ret, (upd_target p (\<lambda>t. t\<lparr>tg_fabric_ifaces := fs\<rparr>) s)\<lparr>dm_root := root\<rparr>))))"

definition get_oob_config :: "'j jansson \<Rightarrow> 'w network \<Rightarrow> ptr \<Rightarrow> ('j, 'w) dem \<Rightarrow> (int \<times> ('j, 'w) dem) exec" where
  "get_oob_config J N p s =
     exec_bind (get_oob_nsdevs J N p s) (\<lambda>(ret, s).
       if ret \<noteq> 0 then Inr (ret, s) else get_oob_xports J N p s)"

definition get_config :: "'j jansson \<Rightarrow> 'w network \<Rightarrow> ptr \<Rightarrow> ('j, 'w) dem \<Rightarrow> (int \<times> ('j, 'w) dem) exec" where
  "get_config J N p s =
     (case get_target s p of
        None \<Rightarrow> Inl Use_after_free
      | Some t \<Rightarrow>
          (case tg_mgmt_mode t of
             IN_BAND_MGMT \<Rightarrow> get_inb_config J N p s
           | OUT_OF_BAND_MGMT \<Rightarrow> get_oob_config J N p s
           | LOCAL_MGMT \<Rightarrow> Inr (0, s)))"

section \<open>Configuring a whole target\<close>

definition config_target_inb :: "'w network \<Rightarrow> ptr \<Rightarrow> ('j, 'w) dem \<Rightarrow> (int \<times> ('j, 'w) dem) exec" where
  "config_target_inb N p s =
     (case get_target s p of
        None \<Rightarrow> Inl Use_after_free
      | Some t \<Rightarrow>
          exec_bind (if sc_connected (tg_sc_iface t) then Inr (0, s) else send_to p (connect_control N) s) (\<lambda>(ret, s).
            if ret \<noteq> 0 then Inr (ret, s)
            else
              exec_bind (send_to p (config_target_inb_msgs N) s) (\<lambda>(ret, s).
                if ret = 0 then exec_bind (refresh_target N p s) (\<lambda>s. Inr (0, s))
                else
                  exec_bind (disconnect_if N p (case get_target s p of None \<Rightarrow> False
                     | Some t \<Rightarrow> sc_failed_kato (tg_sc_iface t)) s) (\<lambda>s. Inr (ret, s)))))"

text \<open>A subsystem that fails ends the loop, but the pages are refreshed as after a success.\<close>

definition config_target_oob :: "'w network \<Rightarrow> ptr \<Rightarrow> ('j, 'w) dem \<Rightarrow> (int \<times> ('j, 'w) dem) exec" where
  "config_target_oob N p s =
     exec_bind (send_to p (\<lambda>t. send_until (config_portid_oob N) (tg_portids t) t) s) (\<lambda>(ret, s).
       if ret \<noteq> 0 then Inr (ret, s)
       else
         exec_bind (send_to p (\<lambda>t. send_until (config_subsys_oob N) (tg_subsystems t) t) s) (\<lambda>(ret, s).
         exec_bind (refresh_target N p s) (\<lambda>s. Inr (ret, s))))"

definition config_target :: "'w network \<Rightarrow> ptr \<Rightarrow> ('j, 'w) dem \<Rightarrow> (int \<times> ('j, 'w) dem) exec" where
  "config_target N p s =
     (case get_target s p of
        None \<Rightarrow> Inl Use_after_free
      | Some t \<Rightarrow>
          (case tg_mgmt_mode t of
             IN_BAND_MGMT \<Rightarrow> config_target_inb N p s
           | OUT_OF_BAND_MGMT \<Rightarrow> config_target_oob N p s
           | LOCAL_MGMT \<Rightarrow> Inr (0, s)))"

definition target_reconfig :: "'w network \<Rightarrow> string \<Rightarrow> ('j, 'w) dem \<Rightarrow> (int \<times> ('j, 'w) dem) exec" where
  "target_reconfig N alias s =
     (case find_target s alias of
        None \<Rightarrow> Inr (- ENOENT, s)
      | Some t \<Rightarrow>
          let p = tg_ptr t; s = upd_target p (\<lambda>t. t\<lparr>tg_unattached := []\<rparr>) s in
          exec_bind (send_to p (send_del_target N) s) (\<lambda>(ret, s).
            if ret \<noteq> 0 then Inr (ret, s) else config_target N p s))"

section \<open>Targets\<close>

definition del_target :: "'j jansson \<Rightarrow> 'w network \<Rightarrow> string option \<Rightarrow> ('j, 'w) dem \<Rightarrow> ('j, 'w) result" where
  "del_target J N tgt s =
     (case tgt of
        None \<Rightarrow> Inl Null_deref
      | Some alias \<Rightarrow>
          exec_bind (del_json_target J (dm_root s) alias) (\<lambda>(root, ret, resp).
            let s = s\<lparr>dm_root := root\<rparr> in
            if ret \<noteq> 0 then Inr (s, ret, resp)
            else case find_target s alias of
              None \<Rightarrow> Inr (s, 0, resp)
            | Some t \<Rightarrow>
                let p = tg_ptr t in
                exec_bind (each (\<lambda>ss s.
                    exec_bind (send_quiet p (del_subsys_msg N ss) s)
                      (each (\<lambda>h. send_quiet p (del_host_msg N (hs_alias h))) (ss_hosts ss))) (tg_subsystems t) s) (\<lambda>s.
                exec_bind (each (\<lambda>x. send_quiet p (del_portid_msg N x)) (tg_portids t) s) (\<lambda>s.
                let s = s\<lparr>dm_targets := filter (\<lambda>t. tg_ptr t \<noteq> p) (dm_targets s)\<rparr> in
                exec_bind (send_notifications N (create_event_host_list_for_target s t) s) (\<lambda>s.
                  Inr (s, 0, resp))))))"

text \<open>
  The pointer \<^verbatim>\<open>portid\<close> of the union lies under the bytes of an out-of-band address of more than 16
  characters.
\<close>

definition inb_pointer_clobbered :: "sc_iface \<Rightarrow> bool" where
  "inb_pointer_clobbered sc = (length (fst (sc_oob sc)) > 16)"

definition set_oob_interface :: "string \<Rightarrow> int \<Rightarrow> sc_iface \<Rightarrow> sc_iface exec" where
  "set_oob_interface addr port sc =
     (if inb_pointer_clobbered sc then Inl Wild_pointer
      else if sc_inb_freed sc then Inl Use_after_free
      else exec_bind (c_strcpy (CONFIG_ADDRESS_SIZE + 1) (Some addr)) (\<lambda>addr.
        Inr (sc\<lparr>sc_oob := (addr, port), sc_inb_portid := None, sc_ep_valid := False\<rparr>)))"

definition set_inb_interface :: "string \<Rightarrow> string \<Rightarrow> string \<Rightarrow> int \<Rightarrow> sc_iface \<Rightarrow> sc_iface exec" where
  "set_inb_interface typ fam addr num sc =
     (if inb_pointer_clobbered sc then Inl Wild_pointer
      else if sc_inb_freed sc then Inl Use_after_free
      else
        let x = (case sc_inb_portid sc of
                   Some x \<Rightarrow> x
                 | None \<Rightarrow> \<lparr>pt_ptr = NULL, pt_portid = 0, pt_type = [], pt_family = [], pt_address = [], pt_port = [],
                            pt_port_num = 0, pt_addr = []\<rparr>)
        in Inr (sc\<lparr>sc_inb_portid := Some (x\<lparr>pt_type := typ, pt_family := fam, pt_address := addr, pt_port_num := num\<rparr>)\<rparr>))"

text \<open>
  The interface read from the request goes to a local union that is not initialised. In band it is written
  through the pointer in it; out of band an address that is not given is what was there.
\<close>

definition set_interface :: "'j jansson \<Rightarrow> string option \<Rightarrow> string \<Rightarrow> string \<Rightarrow> ('j, 'w) dem \<Rightarrow> ('j, 'w) result" where
  "set_interface J tgt data resp s =
     (case tgt of
        None \<Rightarrow> Inl Null_deref
      | Some alias \<Rightarrow>
          (case find_target s alias of
             None \<Rightarrow> Inr (s, - ENOENT, TARGET_ERR)
           | Some t \<Rightarrow>
               (case tg_mgmt_mode t of
                  LOCAL_MGMT \<Rightarrow> Inr (s, - EINVAL, MGT_MODE_ERR)
                | OUT_OF_BAND_MGMT \<Rightarrow>
                    exec_bind (set_json_oob_interface J (dm_root s) alias data resp) (\<lambda>((root, ret, resp), out).
                      let s = s\<lparr>dm_root := root\<rparr> in
                      if ret \<noteq> 0 then Inr (s, ret, resp)
                      else case (io_address out, io_port out) of
                        (Some a, Some n) \<Rightarrow>
                          exec_bind (set_oob_interface a n (tg_sc_iface t)) (\<lambda>sc.
                            Inr (upd_target (tg_ptr t) (\<lambda>t. t\<lparr>tg_sc_iface := sc\<rparr>) s, 0, resp))
                      | _ \<Rightarrow> Inl Uninitialised)
                | IN_BAND_MGMT \<Rightarrow>
                    exec_bind (set_json_inb_interface J (dm_root s) alias data resp) (\<lambda>((root, ret, resp), out).
                      if ret \<noteq> 0 then Inr (s\<lparr>dm_root := root\<rparr>, ret, resp) else Inl Uninitialised))))"

definition sc_iface_zero :: sc_iface where
  "sc_iface_zero =
     \<lparr>sc_oob = ([], 0), sc_inb_portid = None, sc_inb_freed = False, sc_ops = False, sc_ep_valid = True, sc_hostnqn = [],
      sc_connected = False, sc_failed_kato = False\<rparr>"

definition alloc_target :: "string \<Rightarrow> ('j, 'w) dem \<Rightarrow> ptr \<times> ('j, 'w) dem" where
  "alloc_target alias s =
     (let p = dm_next s;
          t = \<lparr>tg_ptr = p, tg_subsystems = [], tg_portids = [], tg_devices = [], tg_queues = [], tg_unattached = [],
               tg_fabric_ifaces = [], tg_sc_iface = sc_iface_zero, tg_alias = cut MAX_ALIAS_SIZE alias,
               tg_mgmt_mode = LOCAL_MGMT, tg_refresh = 0, tg_log_page_retry_count = 0, tg_refresh_countdown = 0,
               tg_kato_countdown = 0, tg_group_member = False\<rparr>
      in (p, s\<lparr>dm_targets := dm_targets s @ [t], dm_next := Suc p\<rparr>))"

text \<open>Any error of \<^verbatim>\<open>add_json_target\<close> is reported as an existing target.\<close>

definition add_target :: "'j jansson \<Rightarrow> string option \<Rightarrow> ('j, 'w) dem \<Rightarrow> ('j, 'w) result" where
  "add_target J tgt s =
     (case tgt of
        None \<Rightarrow> Inl Null_deref
      | Some alias \<Rightarrow>
          exec_bind (add_json_target J (dm_root s) alias) (\<lambda>(root, ret, resp).
            let s = s\<lparr>dm_root := root\<rparr> in
            if ret \<noteq> 0 then Inr (s, - EEXIST, resp)
            else Inr (snd (alloc_target alias s), 0, resp)))"

text \<open>
  The interface that an update gives: the local structures are zeroed, so what the request leaves out is
  empty.
\<close>

definition update_interface :: "target_out \<Rightarrow> sc_iface \<Rightarrow> sc_iface exec" where
  "update_interface out sc =
     (let io = to_iface out;
          str = (\<lambda>x. case x of None \<Rightarrow> [] | Some v \<Rightarrow> v);
          num = (case io_port io of None \<Rightarrow> 0 | Some n \<Rightarrow> n)
      in case to_mode out of
           OUT_OF_BAND_MGMT \<Rightarrow> set_oob_interface (str (io_address io)) num sc
         | IN_BAND_MGMT \<Rightarrow> set_inb_interface (str (io_type io)) (str (io_family io)) (str (io_address io)) num sc
         | LOCAL_MGMT \<Rightarrow> Inr sc)"

definition update_target ::
  "'j jansson \<Rightarrow> 'w network \<Rightarrow> string option \<Rightarrow> string option \<Rightarrow> ('j, 'w) dem \<Rightarrow> ('j, 'w) result" where
  "update_target J N alias data s =
     (case data of
        None \<Rightarrow> Inl Null_deref
      | Some data \<Rightarrow>
          exec_bind (update_json_target J (dm_root s) alias data) (\<lambda>((root, ret, resp), out).
            let s = s\<lparr>dm_root := root\<rparr> in
            if ret \<noteq> 0 then Inr (s, ret, resp)
            else case out of
              None \<Rightarrow> Inl Uninitialised
            | Some out \<Rightarrow>
                (case (case alias of
                         None \<Rightarrow> Some (alloc_target (to_alias out) s)
                       | Some a \<Rightarrow> map_option (\<lambda>t. (tg_ptr t, s)) (find_target s a)) of
                   None \<Rightarrow> Inr (s, - EFAULT, resp)
                 | Some (p, s) \<Rightarrow>
                     let s = upd_target p (\<lambda>t. t\<lparr>tg_alias := to_alias out, tg_mgmt_mode := to_mode out,
                               tg_refresh := (case to_refresh out of None \<Rightarrow> 0 | Some r \<Rightarrow> r)\<rparr>) s
                     in
                     exec_bind (on_target p (\<lambda>t w. exec_bind (update_interface out (tg_sc_iface t)) (\<lambda>sc.
                         Inr ((), t\<lparr>tg_sc_iface := sc\<rparr>, w))) s) (\<lambda>(_, s).
                     exec_bind (get_config J N p s) (\<lambda>(ret, s).
                       case get_target s p of
                         None \<Rightarrow> Inl Use_after_free
                       | Some t \<Rightarrow>
                           let resp = (if ret = 0 then ''DEM configuration updated for target '' @ squoted (tg_alias t)
                                       else config_alert (tg_alias t))
                           in exec_bind (send_notifications N (create_event_host_list_for_target s t) s) (\<lambda>s.
                                Inr (s, ret, resp)))))))"

end
