(* ===== verification/Restful.thy ===== *)
theory Restful
  imports Jansson
begin

text \<open>
  The HTTP interface of the discovery controller (\<^verbatim>\<open>src/src/dem/restful.c\<close>): splitting the URI,
  checking the signature, choosing the operation for a method and path, and turning return codes into
  HTTP statuses.

  The operations themselves are reached through \<open>backend\<close>: \<open>bk_run\<close> executes a call into
  \<^verbatim>\<open>config.c\<close>, \<^verbatim>\<open>interfaces.c\<close>, \<^verbatim>\<open>logpages.c\<close> or \<^verbatim>\<open>json.c\<close> on the state of the controller and returns its
  return code and the text in the response buffer; \<open>bk_store\<close> is \<^verbatim>\<open>store_json_config_file\<close>. Allocation
  does not fail, and requests are handled one at a time (the handler holds the lock of the JSON
  context). A pointer that may be null is an option.
\<close>

section \<open>Requests\<close>

datatype request =
    Req_list_target "string option"
  | Req_show_target string
  | Req_target_usage string
  | Req_target_logpage string
  | Req_del_target "string option"
  | Req_del_subsys "string option" string
  | Req_del_ns "string option" string int
  | Req_unlink_host "string option" string string
  | Req_del_portid "string option" int
  | Req_update_target "string option" "string option"
  | Req_set_interface "string option" string
  | Req_set_subsys "string option" "string option" string
  | Req_set_ns "string option" string string
  | Req_link_host "string option" string "string option" string
  | Req_set_portid "string option" int string
  | Req_add_target "string option"
  | Req_target_reconfig "string option"
  | Req_target_refresh "string option"
  | Req_list_host
  | Req_show_host string
  | Req_host_logpage string
  | Req_del_host "string option"
  | Req_update_host "string option" string
  | Req_add_host "string option"
  | Req_list_group
  | Req_show_group string
  | Req_update_group "string option" string
  | Req_set_group_member "string option" "string option" "string option" string string
  | Req_add_group "string option"
  | Req_del_group "string option"
  | Req_del_group_member "string option" "string option" string string
  | Req_shutdown_dem

type_synonym 's outcome = "'s \<times> int \<times> string"

record 's backend =
  bk_run :: "request \<Rightarrow> 's \<Rightarrow> 's outcome exec"
  bk_store :: "'s \<Rightarrow> 's"

text \<open>The parts of \<^verbatim>\<open>struct http_message\<close> the code reads.\<close>

record http_message =
  hm_method :: string
  hm_uri :: string
  hm_query_string :: string
  hm_headers :: "(string \<times> string) list"
  hm_body :: string

record host_iface =
  hi_type :: string
  hi_family :: string
  hi_address :: string
  hi_port :: string

section \<open>Constants\<close>

definition SMALL_RSP :: nat where "SMALL_RSP = 128"
definition LARGE_RSP :: nat where "LARGE_RSP = 512"
definition MAX_DEPTH :: nat where "MAX_DEPTH = 8"
definition HTTP_ERR_NOT_FOUND :: int where "HTTP_ERR_NOT_FOUND = 402"
definition HTTP_ERR_INTERNAL :: int where "HTTP_ERR_INTERNAL = 403"
definition HTTP_ERR_PAGE_NOT_FOUND :: int where "HTTP_ERR_PAGE_NOT_FOUND = 404"
definition HTTP_ERR_NOT_IMPLEMENTED :: int where "HTTP_ERR_NOT_IMPLEMENTED = 405"
definition HTTP_ERR_FORBIDDEN :: int where "HTTP_ERR_FORBIDDEN = 403"
definition HTTP_ERR_CONFLICT :: int where "HTTP_ERR_CONFLICT = 409"
definition HTTP_ERR_CONNECT_TIMEOUT :: int where "HTTP_ERR_CONNECT_TIMEOUT = 599"

lemmas http_defs = HTTP_ERR_NOT_FOUND_def HTTP_ERR_INTERNAL_def HTTP_ERR_PAGE_NOT_FOUND_def
  HTTP_ERR_NOT_IMPLEMENTED_def HTTP_ERR_FORBIDDEN_def HTTP_ERR_CONFLICT_def HTTP_ERR_CONNECT_TIMEOUT_def

section \<open>Helpers\<close>

definition http_error :: "int \<Rightarrow> int" where
  "http_error err =
     (if err = 0 then 0
      else if err = - ENOENT then HTTP_ERR_NOT_FOUND
      else if err = - EEXIST then HTTP_ERR_CONFLICT
      else if err = - ECONNREFUSED \<or> err = - ENOTCONN then HTTP_ERR_CONNECT_TIMEOUT
      else HTTP_ERR_INTERNAL)"

definition method_not_implemented :: string where
  "method_not_implemented = ''Method Not Implemented''"

text \<open>\<^verbatim>\<open>bad_request\<close>: the text and the return value.\<close>

definition bad_request :: "'s \<Rightarrow> 's outcome" where
  "bad_request s = (s, HTTP_ERR_NOT_IMPLEMENTED, method_not_implemented)"

text \<open>
  The text between slashes. \<^verbatim>\<open>parse_uri\<close> overwrites each slash with a terminator and stores a
  pointer to the text after it, for at most \<open>depth\<close> of them; with one more slash it reads the
  element after the end of the array. A URI that does not start with a slash loses six characters.
  The result is the number of parts (-1 when there is none) with the parts.
\<close>

fun split_slash :: "string \<Rightarrow> string list" where
  "split_slash [] = [[]]"
| "split_slash (c # cs) =
     (if c = CHR ''/'' then [] # split_slash cs
      else case split_slash cs of [] \<Rightarrow> [[c]] | w # ws \<Rightarrow> (c # w) # ws)"

definition parse_uri :: "string \<Rightarrow> nat \<Rightarrow> (int \<times> string list) exec" where
  "parse_uri p depth =
     exec_bind
       (case p of
          [] \<Rightarrow> Inl Buffer_overflow
        | c # _ \<Rightarrow> if c = CHR ''/'' then Inr p
                  else if length p < 6 then Inl Buffer_overflow else Inr (drop 6 p))
       (\<lambda>p. let parts = tl (split_slash p) in
         if parts = [] then Inr (-1, [])
         else if length parts > depth then Inl Buffer_overflow
         else Inr (int (length parts), parts))"

text \<open>\<^verbatim>\<open>parts[i]\<close>: null beyond the parts found.\<close>

definition part :: "string list \<Rightarrow> nat \<Rightarrow> string option" where
  "part parts i = (if i < length parts then Some (parts ! i) else None)"

text \<open>\<^verbatim>\<open>strcmp(p, s) == 0\<close> on a pointer that may be null.\<close>

definition part_is :: "string option \<Rightarrow> string \<Rightarrow> bool exec" where
  "part_is p s = (case p of None \<Rightarrow> Inl Null_deref | Some t \<Rightarrow> Inr (t = s))"

text \<open>\<^verbatim>\<open>strncpy(data, body->p, min(size, body->len))\<close> into a zeroed buffer of size + 1 bytes.\<close>

definition copy_body :: "nat \<Rightarrow> string \<Rightarrow> string" where
  "copy_body n body = takeWhile (\<lambda>c. c \<noteq> CHR 0x00) (take n body)"

text \<open>The end of the handlers that change the configuration: an error status, or the file is stored.\<close>

definition finish :: "'s backend \<Rightarrow> 's outcome \<Rightarrow> 's outcome" where
  "finish B r = (case r of (s, ret, resp) \<Rightarrow>
     if ret \<noteq> 0 then (s, http_error ret, resp) else (bk_store B s, 0, resp))"

definition to_status :: "'s outcome \<Rightarrow> 's outcome" where
  "to_status r = (case r of (s, ret, resp) \<Rightarrow> (s, http_error ret, resp))"

definition not_found_text :: "string \<Rightarrow> string \<Rightarrow> string" where
  "not_found_text tag name = tag @ '' '' @ squoted name @ '' not found''"

section \<open>Targets\<close>

definition get_target_request ::
  "'s backend \<Rightarrow> string option \<Rightarrow> string list \<Rightarrow> nat \<Rightarrow> string \<Rightarrow> 's \<Rightarrow> 's outcome exec" where
  "get_target_request B target p n query s =
     exec_bind
       (case target of
          Some (c # cs) \<Rightarrow>
            if n = 0 then bk_run B (Req_show_target (c # cs)) s
            else if n = 1 \<and> part p 0 = Some URI_USAGE
            then exec_bind (bk_run B (Req_target_usage (c # cs)) s) (\<lambda>(s, ret, resp).
                   Inr (s, ret, if ret \<noteq> 0 then not_found_text TAG_TARGET (c # cs) else resp))
            else if n = 1 \<and> part p 0 = Some URI_LOG_PAGE
            then exec_bind (bk_run B (Req_target_logpage (c # cs)) s) (\<lambda>(s, ret, resp).
                   Inr (s, ret, if ret \<noteq> 0 then not_found_text TAG_TARGET (c # cs) else resp))
            else Inr (bad_request s)
        | _ \<Rightarrow>
            if take (length URI_PARM_MODE) query = URI_PARM_MODE \<and> length URI_PARM_MODE < length query
            then bk_run B (Req_list_target (Some query)) s
            else if take (length URI_PARM_FABRIC) query = URI_PARM_FABRIC \<and>
                    length URI_PARM_FABRIC < length query
            then bk_run B (Req_list_target (Some query)) s
            else bk_run B (Req_list_target None) s)
       (\<lambda>r. Inr (to_status r))"

text \<open>\<^verbatim>\<open>goto bad_req\<close>: the text of \<^verbatim>\<open>bad_request\<close> with the code \<^verbatim>\<open>-EINVAL\<close>.\<close>

definition bad_req :: "'s \<Rightarrow> 's outcome" where
  "bad_req s = (s, - EINVAL, method_not_implemented)"

definition delete_target_request ::
  "'s backend \<Rightarrow> string option \<Rightarrow> string list \<Rightarrow> nat \<Rightarrow> 's \<Rightarrow> 's outcome exec" where
  "delete_target_request B target p n s =
     exec_bind
       (if n = 0 then bk_run B (Req_del_target target) s
        else exec_bind (part_is (part p 0) URI_SUBSYSTEM) (\<lambda>is_subsys.
          if is_subsys
          then
            if n = 2 then bk_run B (Req_del_subsys target (p ! 1)) s
            else if n \<noteq> 4 then Inr (bad_req s)
            else if p ! 2 = URI_NSID then bk_run B (Req_del_ns target (p ! 1) (atoi (p ! 3))) s
            else if p ! 2 = URI_HOST then bk_run B (Req_unlink_host target (p ! 1) (p ! 3)) s
            else Inr (bad_req s)
          else if part p 0 = Some URI_PORTID \<and> n = 2
          then if atoi (p ! 1) = 0 then Inr (bad_req s)
               else bk_run B (Req_del_portid target (atoi (p ! 1))) s
          else Inr (bad_req s)))
       (\<lambda>r. Inr (finish B r))"

definition put_target_request ::
  "'s backend \<Rightarrow> string option \<Rightarrow> string list \<Rightarrow> nat \<Rightarrow> string \<Rightarrow> 's \<Rightarrow> 's outcome exec" where
  "put_target_request B target p n body s =
     (let data = copy_body LARGE_RSP body in
      exec_bind
        (if n = 0 then bk_run B (Req_update_target target (Some data)) s
         else exec_bind (part_is (part p 0) URI_INTERFACE) (\<lambda>is_iface.
           if is_iface then bk_run B (Req_set_interface target data) s
           else if part p 0 = Some URI_SUBSYSTEM
           then
             if n \<le> 2 then bk_run B (Req_set_subsys target (part p 1) data) s
             else if n \<le> 4
             then if p ! 2 = URI_NSID then bk_run B (Req_set_ns target (p ! 1) data) s
                  else if p ! 2 = URI_HOST then bk_run B (Req_link_host target (p ! 1) (part p 3) data) s
                  else Inr (bad_req s)
             else Inr (bad_req s)
           else if part p 0 = Some URI_PORTID \<and> n \<le> 2
           then if n = 1 then bk_run B (Req_set_portid target 0 data) s
                else if atoi (p ! 1) = 0 then Inr (bad_req s)
                else bk_run B (Req_set_portid target (atoi (p ! 1)) data) s
           else Inr (bad_req s)))
        (\<lambda>r. Inr (finish B r)))"

text \<open>The texts of \<^verbatim>\<open>reconfig\<close> and \<^verbatim>\<open>refresh\<close>; a null target is printed by \<^verbatim>\<open>sprintf\<close>, a fault.\<close>

definition target_action_text :: "string \<Rightarrow> string \<Rightarrow> string \<Rightarrow> int \<Rightarrow> string" where
  "target_action_text target done_text verb_text ret =
     (if ret = 0 then TAG_TARGET @ '' '' @ squoted target @ '' '' @ done_text
      else if ret = - ENOENT then not_found_text TAG_TARGET target
      else if ret = - ECONNREFUSED \<or> ret = - ENOTCONN
      then TAG_TARGET @ '' '' @ squoted target @ '' not responding''
      else ''Unable to '' @ verb_text @ '' '' @ TAG_TARGET @ '' '' @ squoted target @ '' error '' @ show_int ret)"

definition target_action ::
  "'s backend \<Rightarrow> request \<Rightarrow> string option \<Rightarrow> string \<Rightarrow> string \<Rightarrow> 's \<Rightarrow> 's outcome exec" where
  "target_action B req target done_text verb_text s =
     exec_bind (bk_run B req s) (\<lambda>(s, ret, _).
       case target of
         None \<Rightarrow> Inl Null_deref
       | Some t \<Rightarrow> Inr (s, ret, target_action_text t done_text verb_text ret))"

text \<open>The request that \<^verbatim>\<open>POST target/<alias>/subsystem/<nqn>\<close> without a body makes up.\<close>

definition new_subsys_data :: "string option \<Rightarrow> string exec" where
  "new_subsys_data nqn =
     (case nqn of
        None \<Rightarrow> Inl Null_deref
      | Some q \<Rightarrow> c_strcpy (SMALL_RSP + 1)
                    (Some (''{'' @ js_str TAG_SUBNQN q @ '','' @ js_int TAG_ALLOW_ANY 1 @ ''}'')))"

definition post_target_request ::
  "'s backend \<Rightarrow> string option \<Rightarrow> string list \<Rightarrow> nat \<Rightarrow> string \<Rightarrow> 's \<Rightarrow> 's outcome exec" where
  "post_target_request B target p n body s =
     exec_bind
       (if body \<noteq> []
        then
          let data = copy_body SMALL_RSP body in
          if n \<noteq> 0
          then exec_bind (part_is (part p 0) URI_SUBSYSTEM) (\<lambda>is_subsys.
                 if is_subsys then bk_run B (Req_set_subsys target (part p 1) data) s
                 else Inr (s, - EINVAL, []))
          else bk_run B (Req_update_target target target) s
        else if n = 0 then bk_run B (Req_add_target target) s
        else exec_bind (part_is (part p 0) METHOD_RECONFIG) (\<lambda>is_reconfig.
          if is_reconfig
          then target_action B (Req_target_reconfig target) target ''reconfigured'' ''reconfigure'' s
          else if part p 0 = Some METHOD_REFRESH
          then target_action B (Req_target_refresh target) target ''refreshed'' ''refresh'' s
          else if part p 0 = Some URI_SUBSYSTEM
          then exec_bind (new_subsys_data (part p 1)) (\<lambda>data.
                 bk_run B (Req_set_subsys target None data) s)
          else Inr (s, - EINVAL, [])))
       (\<lambda>r. Inr (finish B r))"

definition patch_target_request ::
  "'s backend \<Rightarrow> string option \<Rightarrow> string list \<Rightarrow> nat \<Rightarrow> string \<Rightarrow> 's \<Rightarrow> 's outcome exec" where
  "patch_target_request B target p n body s =
     (if body = [] then Inr (finish B (s, - EINVAL, ''no data provided''))
      else
        let data = copy_body LARGE_RSP body in
        exec_bind
          (if n \<noteq> 0
           then exec_bind (part_is (part p 0) URI_SUBSYSTEM) (\<lambda>is_subsys.
                  if is_subsys then bk_run B (Req_set_subsys target (part p 1) data) s
                  else Inr (s, - EINVAL, []))
           else bk_run B (Req_update_target target (Some data)) s)
          (\<lambda>r. Inr (finish B r)))"

definition handle_target_requests ::
  "'s backend \<Rightarrow> string list \<Rightarrow> nat \<Rightarrow> http_message \<Rightarrow> 's \<Rightarrow> 's outcome exec" where
  "handle_target_requests B parts n hm s =
     (let target = part parts 1;
          p = drop 2 parts;
          n = (if n > 2 then n - 2 else 0);
          query = copy_body 31 (hm_query_string hm)
      in if hm_method hm = ''GET'' then get_target_request B target p n query s
         else if hm_method hm = ''PUT'' then put_target_request B target p n (hm_body hm) s
         else if hm_method hm = ''DELETE'' then delete_target_request B target p n s
         else if hm_method hm = ''POST'' then post_target_request B target p n (hm_body hm) s
         else if hm_method hm = ''PATCH'' then patch_target_request B target p n (hm_body hm) s
         else Inr (bad_request s))"

section \<open>Hosts\<close>

definition get_host_request ::
  "'s backend \<Rightarrow> string option \<Rightarrow> string list \<Rightarrow> nat \<Rightarrow> 's \<Rightarrow> 's outcome exec" where
  "get_host_request B host p n s =
     exec_bind
       (case host of
          None \<Rightarrow> bk_run B Req_list_host s
        | Some h \<Rightarrow>
            if n = 0 then bk_run B (Req_show_host h) s
            else if n = 1 \<and> part p 0 = Some URI_LOG_PAGE
            then exec_bind (bk_run B (Req_host_logpage h) s) (\<lambda>(s, ret, resp).
                   Inr (s, ret, if ret \<noteq> 0 then not_found_text TAG_HOST h else resp))
            else Inr (s, - EINVAL, []))
       (\<lambda>r. Inr (to_status r))"

definition delete_host_request :: "'s backend \<Rightarrow> string option \<Rightarrow> nat \<Rightarrow> 's \<Rightarrow> 's outcome exec" where
  "delete_host_request B host n s =
     (if n \<noteq> 0 then Inr (s, http_error (- EINVAL), method_not_implemented)
      else exec_bind (bk_run B (Req_del_host host) s) (\<lambda>r. Inr (finish B r)))"

definition put_host_request :: "'s backend \<Rightarrow> string option \<Rightarrow> nat \<Rightarrow> string \<Rightarrow> 's \<Rightarrow> 's outcome exec" where
  "put_host_request B host n body s =
     (if n \<noteq> 0 then Inr (s, http_error (- EINVAL), method_not_implemented)
      else exec_bind (bk_run B (Req_update_host host (copy_body LARGE_RSP body)) s) (\<lambda>r. Inr (finish B r)))"

definition post_host_request :: "'s backend \<Rightarrow> string option \<Rightarrow> nat \<Rightarrow> string \<Rightarrow> 's \<Rightarrow> 's outcome exec" where
  "post_host_request B host n body s =
     (if n \<noteq> 0 then Inr (s, http_error (- EINVAL), [])
      else exec_bind
        (if body = [] then bk_run B (Req_add_host host) s
         else bk_run B (Req_update_host host (copy_body SMALL_RSP body)) s)
        (\<lambda>r. Inr (finish B r)))"

definition patch_host_request :: "'s backend \<Rightarrow> string option \<Rightarrow> nat \<Rightarrow> string \<Rightarrow> 's \<Rightarrow> 's outcome exec" where
  "patch_host_request B host n body s =
     exec_bind
       (if body = [] then Inr (s, - EINVAL, ''no data provided'')
        else if host \<noteq> None \<and> n = 0 then bk_run B (Req_update_host host (copy_body SMALL_RSP body)) s
        else Inr (bad_req s))
       (\<lambda>r. Inr (finish B r))"

definition handle_host_requests ::
  "'s backend \<Rightarrow> string list \<Rightarrow> nat \<Rightarrow> http_message \<Rightarrow> 's \<Rightarrow> 's outcome exec" where
  "handle_host_requests B parts n hm s =
     (let host = part parts 1;
          p = drop 2 parts;
          n = (if n > 2 then n - 2 else 0)
      in if hm_method hm = ''GET'' then get_host_request B host p n s
         else if hm_method hm = ''PUT'' then put_host_request B host n (hm_body hm) s
         else if hm_method hm = ''DELETE'' then delete_host_request B host n s
         else if hm_method hm = ''POST'' then post_host_request B host n (hm_body hm) s
         else if hm_method hm = ''PATCH'' then patch_host_request B host n (hm_body hm) s
         else Inr (bad_request s))"

section \<open>Groups\<close>

text \<open>Here the count \<open>n\<close> is that of all parts of the URI.\<close>

definition get_group_request :: "'s backend \<Rightarrow> string option \<Rightarrow> 's \<Rightarrow> 's outcome exec" where
  "get_group_request B grp s =
     exec_bind
       (case grp of None \<Rightarrow> bk_run B Req_list_group s | Some g \<Rightarrow> bk_run B (Req_show_group g) s)
       (\<lambda>r. Inr (to_status r))"

definition put_group_request ::
  "'s backend \<Rightarrow> string option \<Rightarrow> string list \<Rightarrow> nat \<Rightarrow> string \<Rightarrow> 's \<Rightarrow> 's outcome exec" where
  "put_group_request B grp p n body s =
     (let data = copy_body LARGE_RSP body in
      exec_bind
        (if n \<le> 2 then bk_run B (Req_update_group grp data) s
         else exec_bind (part_is (part p 0) URI_HOST) (\<lambda>is_host.
           if is_host then bk_run B (Req_set_group_member grp (Some data) None TAG_HOST TAG_HOSTS) s
           else if part p 0 = Some URI_TARGET
           then bk_run B (Req_set_group_member grp (Some data) None TAG_TARGET TAG_TARGETS) s
           else Inr (bad_request s)))
        (\<lambda>r. Inr (finish B r)))"

definition post_group_request ::
  "'s backend \<Rightarrow> string option \<Rightarrow> string list \<Rightarrow> nat \<Rightarrow> 's \<Rightarrow> 's outcome exec" where
  "post_group_request B grp p n s =
     exec_bind
       (if n \<le> 2 then bk_run B (Req_add_group grp) s
        else if n = 4 \<and> part p 0 = Some URI_HOST
        then bk_run B (Req_set_group_member grp None (part p 1) TAG_HOST TAG_HOSTS) s
        else if n = 4 \<and> part p 0 = Some URI_TARGET
        then bk_run B (Req_set_group_member grp None (part p 1) TAG_TARGET TAG_TARGETS) s
        else Inr (bad_request s))
       (\<lambda>r. Inr (finish B r))"

definition delete_group_request ::
  "'s backend \<Rightarrow> string option \<Rightarrow> string list \<Rightarrow> nat \<Rightarrow> 's \<Rightarrow> 's outcome exec" where
  "delete_group_request B grp p n s =
     exec_bind
       (if n = 2 then bk_run B (Req_del_group grp) s
        else exec_bind (part_is (part p 0) URI_HOST) (\<lambda>is_host.
          if is_host then bk_run B (Req_del_group_member grp (part p 1) TAG_HOST TAG_HOSTS) s
          else if part p 0 = Some URI_TARGET
          then bk_run B (Req_del_group_member grp (part p 1) TAG_TARGET TAG_TARGETS) s
          else Inr (bad_request s)))
       (\<lambda>r. Inr (finish B r))"

definition patch_group_request :: "'s backend \<Rightarrow> string option \<Rightarrow> string \<Rightarrow> 's \<Rightarrow> 's outcome exec" where
  "patch_group_request B grp body s =
     exec_bind (bk_run B (Req_update_group grp (copy_body LARGE_RSP body)) s) (\<lambda>r. Inr (finish B r))"

definition handle_group_requests ::
  "'s backend \<Rightarrow> string list \<Rightarrow> nat \<Rightarrow> http_message \<Rightarrow> 's \<Rightarrow> 's outcome exec" where
  "handle_group_requests B parts n hm s =
     (let grp = part parts 1;
          p = drop 2 parts
      in if hm_method hm = ''GET'' then get_group_request B grp s
         else if hm_method hm = ''PUT'' then put_group_request B grp p n (hm_body hm) s
         else if hm_method hm = ''DELETE'' then delete_group_request B grp p n s
         else if hm_method hm = ''POST'' then post_group_request B grp p n s
         else if hm_method hm = ''PATCH'' then patch_group_request B grp (hm_body hm) s
         else Inr (bad_request s))"

text \<open>The Redfish handler is a stub.\<close>

definition handle_redfish_requests :: "'s \<Rightarrow> 's outcome exec" where
  "handle_redfish_requests s = Inr (s, 0, [])"

section \<open>The controller itself and the signature\<close>

text \<open>
  \<^verbatim>\<open>s_signature\<close> points to the built-in signature or to the one set by a request. The latter is a
  string made with \<^verbatim>\<open>mg_mk_str_n\<close>, which keeps the pointer it is given, and \<^verbatim>\<open>update_signature\<close>
  frees that memory before it returns: what is left of the signature is its length.
\<close>

datatype signature = Signature string | Freed_signature nat

record 's server =
  sv_signature :: signature
  sv_interfaces :: "host_iface list"
  sv_state :: 's

definition s_signature_default :: signature where
  "s_signature_default = Signature ''Basic QjU6v9wxOTU4QGBlgPztOCQ6QTsD''"

definition iface_text :: "nat \<Rightarrow> host_iface \<Rightarrow> string" where
  "iface_text i f =
     (if i \<noteq> 0 then '','' else []) @ ''{'' @ js_int TAG_ID (int i) @ '','' @ js_str TAG_TYPE (hi_type f) @ '','' @
     js_str TAG_FAMILY (hi_family f) @ '','' @ js_str TAG_ADDRESS (hi_address f) @ '','' @
     js_int TAG_TRSVCID (atoi (hi_port f)) @ ''}''"

definition ifaces_text :: "host_iface list \<Rightarrow> string" where
  "ifaces_text fs = concat (map (\<lambda>(i, f). iface_text i f) (enumerate 0 fs))"

text \<open>The text is written to the response buffer without a check of its size.\<close>

definition get_dem_request :: "string option \<Rightarrow> 's server \<Rightarrow> 's server outcome exec" where
  "get_dem_request verb s =
     (if verb \<noteq> None \<and> verb \<noteq> Some [] then Inr (bad_request s)
      else exec_bind
        (c_strcpy BODY_SIZE (Some (''{'' @ dquoted TAG_INTERFACES @ '':['' @ ifaces_text (sv_interfaces s) @ '']}'')))
        (\<lambda>resp. Inr (s, 0, resp)))"

text \<open>
  \<^verbatim>\<open>update_signature\<close> of \<^verbatim>\<open>json.c\<close>: the new signature, the return code and the text. \<open>writable\<close>: the
  signature file can be opened. A signature that was set before is read after it was freed.
\<close>

definition update_signature ::
  "'j jansson \<Rightarrow> bool \<Rightarrow> signature \<Rightarrow> string \<Rightarrow> (signature \<times> int \<times> string) exec" where
  "update_signature J writable sg data =
     (let invalid = Inr (sg, - EINVAL, ''invalid json syntax'') in
      if data = [] then invalid
      else case json_loads J data of
        None \<Rightarrow> invalid
      | Some request \<Rightarrow>
          (case json_object_get J request TAG_OLD of
             None \<Rightarrow> invalid
           | Some old \<Rightarrow>
               if \<not> json_is_string J old then invalid
               else case json_object_get J request TAG_NEW of
                 None \<Rightarrow> invalid
               | Some new \<Rightarrow>
                   if \<not> json_is_string J new then invalid
                   else case sg of
                     Freed_signature _ \<Rightarrow> Inl Use_after_free
                   | Signature t \<Rightarrow>
                       if Some t \<noteq> map_option (\<lambda>v. ''Basic '' @ v) (json_string_value J old) then invalid
                       else if \<not> writable then Inr (sg, - EPERM, ''unable to update'')
                       else case json_string_value J new of
                         None \<Rightarrow> Inl Null_deref
                       | Some v \<Rightarrow> Inr (Freed_signature (length (''Basic '' @ v)), 0, ''update successful'')))"

definition post_dem_request ::
  "'j jansson \<Rightarrow> bool \<Rightarrow> 's backend \<Rightarrow> string option \<Rightarrow> string \<Rightarrow> 's server \<Rightarrow> 's server outcome exec" where
  "post_dem_request J writable B verb body s =
     exec_bind (part_is verb METHOD_SHUTDOWN) (\<lambda>is_shutdown.
       if is_shutdown
       then exec_bind (bk_run B Req_shutdown_dem (sv_state s)) (\<lambda>(t, _, _).
              Inr (s\<lparr>sv_state := t\<rparr>, 0, ''DEM shutting down''))
       else if verb = Some URI_SIGNATURE
       then exec_bind (update_signature J writable (sv_signature s) (copy_body LARGE_RSP body))
              (\<lambda>(sg, ret, resp). Inr (s\<lparr>sv_signature := sg\<rparr>, ret, resp))
       else Inr (bad_request s))"

definition handle_dem_requests ::
  "'j jansson \<Rightarrow> bool \<Rightarrow> 's backend \<Rightarrow> string option \<Rightarrow> http_message \<Rightarrow> 's server \<Rightarrow> 's server outcome exec" where
  "handle_dem_requests J writable B verb hm s =
     (if hm_method hm = ''GET'' then get_dem_request verb s
      else if hm_method hm = ''POST'' then post_dem_request J writable B verb (hm_body hm) s
      else Inr (bad_request s))"

section \<open>The request handler\<close>

definition on_state :: "('s \<Rightarrow> 's outcome exec) \<Rightarrow> 's server \<Rightarrow> 's server outcome exec" where
  "on_state h s = exec_bind (h (sv_state s)) (\<lambda>(t, ret, resp). Inr (s\<lparr>sv_state := t\<rparr>, ret, resp))"

text \<open>The part from \<^verbatim>\<open>parse_uri\<close> to the label \<^verbatim>\<open>out\<close>. The comparisons are with a prefix of the first part.\<close>

definition starts :: "string \<Rightarrow> string \<Rightarrow> bool" where
  "starts pre s = (take (length pre) s = pre)"

definition dispatch ::
  "'j jansson \<Rightarrow> bool \<Rightarrow> 's backend \<Rightarrow> http_message \<Rightarrow> 's server \<Rightarrow> 's server outcome exec" where
  "dispatch J writable B hm s =
     exec_bind (parse_uri (hm_uri hm) MAX_DEPTH) (\<lambda>(n, parts).
       let bad_page = exec_bind (c_strcpy BODY_SIZE (Some (''Bad page '' @ hm_uri hm)))
                        (\<lambda>resp. Inr (s, HTTP_ERR_PAGE_NOT_FOUND, resp)) in
       if n < 0 then bad_page
       else if starts URI_DEM (parts ! 0) then handle_dem_requests J writable B (part parts 1) hm s
       else if starts URI_V1 (parts ! 0) then on_state handle_redfish_requests s
       else if starts URI_GROUP (parts ! 0) then on_state (handle_group_requests B parts (nat n) hm) s
       else if starts URI_HOST (parts ! 0) then on_state (handle_host_requests B parts (nat n) hm) s
       else if starts URI_TARGET (parts ! 0) then on_state (handle_target_requests B parts (nat n) hm) s
       else bad_page)"

text \<open>
  The header that is compared with the signature: the first one of that name. Without one the
  comparison is skipped.
\<close>

definition authorization :: "http_message \<Rightarrow> string option" where
  "authorization hm = map_of (hm_headers hm) ''Authorization''"

definition authorized :: "signature \<Rightarrow> http_message \<Rightarrow> bool exec" where
  "authorized sg hm =
     (case authorization hm of
        None \<Rightarrow> Inr True
      | Some v \<Rightarrow>
          (case sg of
             Signature t \<Rightarrow> Inr (v = t)
           | Freed_signature len \<Rightarrow> if length v \<noteq> len then Inr False else Inl Use_after_free))"

text \<open>The result is the server, the code at the label \<^verbatim>\<open>out\<close> and the response buffer, if any.\<close>

definition handle_http_request ::
  "'j jansson \<Rightarrow> bool \<Rightarrow> 's backend \<Rightarrow> http_message \<Rightarrow> 's server \<Rightarrow> ('s server \<times> int \<times> string option) exec" where
  "handle_http_request J writable B hm s =
     (if hm_uri hm = [] then Inr (s, HTTP_ERR_PAGE_NOT_FOUND, None)
      else if hm_method hm = ''OPTIONS'' then Inr (s, -1, Some [])
      else exec_bind (authorized (sv_signature s) hm) (\<lambda>ok.
        if \<not> ok then Inr (s, HTTP_ERR_FORBIDDEN, Some [])
        else exec_bind (dispatch J writable B hm s) (\<lambda>(s, ret, resp). Inr (s, ret, Some resp))))"

text \<open>The reply that is sent for a code and response buffer.\<close>

definition crlf :: string where "crlf = [CHR 0x0D, CHR 0x0A]"

definition HTTP_ALLOW :: string where "HTTP_ALLOW = ''Access-Control-Allow-Origin:*''"

definition HTTP_ALLOW_CONTROL :: string where
  "HTTP_ALLOW_CONTROL =
     ''Access-Control-Allow-Methods:GET,PUT,POST,DELETE,PATCH,OPTIONS'' @ crlf @
     ''Access-Control-Allow-Headers:'' @
     ''access-control-allow-origin,origin,content-type,accept,x-requested-with,'' @
     ''authorization,client-security-token,accept-encoding''"

definition http_reply :: "int \<Rightarrow> string option \<Rightarrow> string" where
  "http_reply ret resp =
     (if ret = 0 then ''HTTP/1.1 200 OK'' @ crlf @ HTTP_ALLOW
      else if ret = -1 then ''HTTP/1.1 200 OK'' @ crlf @ HTTP_ALLOW @ crlf @ HTTP_ALLOW_CONTROL
      else ''HTTP/1.1 '' @ show_int ret @ crlf @
           (case resp of Some r \<Rightarrow> r | None \<Rightarrow> ''Internal Error'') @ crlf @ HTTP_ALLOW) @
     crlf @ ''Content-Type: plain/text'' @
     (case resp of
        Some r \<Rightarrow> crlf @ ''Content-Length: '' @ show_nat (length r) @ crlf @ crlf @ r @ crlf @ crlf
      | None \<Rightarrow> crlf @ ''Content-Length: 14'' @ crlf @ crlf @ ''Internal Error'' @ crlf @ crlf)"

section \<open>Lemmas\<close>

lemmas handler_defs = handle_target_requests_def get_target_request_def delete_target_request_def
  put_target_request_def post_target_request_def patch_target_request_def target_action_def
  handle_host_requests_def get_host_request_def delete_host_request_def put_host_request_def
  post_host_request_def patch_host_request_def
  handle_group_requests_def get_group_request_def put_group_request_def post_group_request_def
  delete_group_request_def patch_group_request_def handle_redfish_requests_def

lemmas dem_defs = handle_dem_requests_def get_dem_request_def post_dem_request_def

lemma split_slash_append:
  "CHR ''/'' \<notin> set w \<Longrightarrow> split_slash (w @ CHR ''/'' # s) = w # split_slash s"
  by (induction w) auto

lemma split_slash_word: "CHR ''/'' \<notin> set w \<Longrightarrow> split_slash w = [w]"
  by (induction w) auto

definition join_uri :: "string list \<Rightarrow> string" where
  "join_uri ps = concat (map (\<lambda>p. CHR ''/'' # p) ps)"

lemma split_slash_join: "list_all (\<lambda>p. CHR ''/'' \<notin> set p) ps \<Longrightarrow> split_slash (join_uri ps) = [] # ps"
proof -
  have "list_all (\<lambda>p. CHR ''/'' \<notin> set p) ps \<Longrightarrow> CHR ''/'' \<notin> set w \<Longrightarrow> split_slash (w @ join_uri ps) = w # ps" for w
    by (induction ps arbitrary: w) (simp_all add: join_uri_def split_slash_append split_slash_word)
  from this [of "[]"] show "list_all (\<lambda>p. CHR ''/'' \<notin> set p) ps \<Longrightarrow> split_slash (join_uri ps) = [] # ps" by simp
qed

lemma set_headers_sel:
  "hm_method (hm\<lparr>hm_headers := hs\<rparr>) = hm_method hm" "hm_body (hm\<lparr>hm_headers := hs\<rparr>) = hm_body hm"
  "hm_uri (hm\<lparr>hm_headers := hs\<rparr>) = hm_uri hm" "hm_query_string (hm\<lparr>hm_headers := hs\<rparr>) = hm_query_string hm"
  by simp_all

lemma set_store_run: "bk_run (B\<lparr>bk_store := f\<rparr>) = bk_run B"
  by simp

lemma handler_headers:
  "handle_dem_requests J writable B verb (hm\<lparr>hm_headers := hs\<rparr>) = handle_dem_requests J writable B verb hm"
  "handle_group_requests B parts n (hm\<lparr>hm_headers := hs\<rparr>) = handle_group_requests B parts n hm"
  "handle_host_requests B parts n (hm\<lparr>hm_headers := hs\<rparr>) = handle_host_requests B parts n hm"
  "handle_target_requests B parts n (hm\<lparr>hm_headers := hs\<rparr>) = handle_target_requests B parts n hm"
  unfolding fun_eq_iff handle_dem_requests_def handle_group_requests_def handle_host_requests_def
    handle_target_requests_def set_headers_sel by simp_all

lemma dispatch_headers [simp]: "dispatch J writable B (hm\<lparr>hm_headers := hs\<rparr>) s = dispatch J writable B hm s"
  unfolding dispatch_def handler_headers set_headers_sel by simp

lemma get_handlers_store:
  assumes "hm_method hm = ''GET''"
  shows "handle_dem_requests J writable (B\<lparr>bk_store := f\<rparr>) verb hm = handle_dem_requests J writable B verb hm"
    and "handle_group_requests (B\<lparr>bk_store := f\<rparr>) parts n hm = handle_group_requests B parts n hm"
    and "handle_host_requests (B\<lparr>bk_store := f\<rparr>) parts n hm = handle_host_requests B parts n hm"
    and "handle_target_requests (B\<lparr>bk_store := f\<rparr>) parts n hm = handle_target_requests B parts n hm"
  using assms unfolding fun_eq_iff handle_dem_requests_def handle_group_requests_def handle_host_requests_def
    handle_target_requests_def get_group_request_def get_host_request_def get_target_request_def set_store_run
  by simp_all

lemma dispatch_store:
  assumes "hm_method hm = ''GET''"
  shows "dispatch J writable B hm s = dispatch J writable (B\<lparr>bk_store := f\<rparr>) hm s"
  unfolding dispatch_def get_handlers_store [OF assms] ..

lemma http_error_zero: "http_error err = 0 \<longleftrightarrow> err = 0"
  by (simp add: http_error_def http_defs)

lemmas change_handler_defs = put_target_request_def post_target_request_def delete_target_request_def
  patch_target_request_def put_host_request_def post_host_request_def delete_host_request_def
  patch_host_request_def put_group_request_def post_group_request_def delete_group_request_def
  patch_group_request_def

text \<open>A request to change groups, hosts or targets.\<close>

definition changing :: "http_message \<Rightarrow> bool" where
  "changing hm =
     (hm_method hm \<in> {''PUT'', ''POST'', ''DELETE'', ''PATCH''} \<and> hm_uri hm \<noteq> [] \<and>
      (case parse_uri (hm_uri hm) MAX_DEPTH of
         Inl _ \<Rightarrow> False
       | Inr (n, parts) \<Rightarrow> 0 \<le> n \<and> \<not> starts URI_DEM (parts ! 0) \<and> \<not> starts URI_V1 (parts ! 0)))"

section \<open>Storing the configuration\<close>

text \<open>
  A backend with a condition \<open>U\<close> that calls keep and a condition \<open>S\<close> that storing establishes. An outcome is
  \<open>settled\<close> when the second holds after success and the first after an error.
\<close>

locale storing_backend =
  fixes B :: "'s backend" and U S :: "'s \<Rightarrow> bool"
  assumes run: "U s \<Longrightarrow> ensures (bk_run B r s) (\<lambda>(s', _). U s')"
    and store: "U s \<Longrightarrow> S (bk_store B s)"
begin

definition unstored :: "'s outcome exec \<Rightarrow> bool" where
  "unstored e = ensures e (\<lambda>(s', _). U s')"

definition settled :: "'s outcome exec \<Rightarrow> bool" where
  "settled e = ensures e (\<lambda>(s', ret, _). if ret = 0 then S s' else U s')"

lemma unstored_intros:
  "U s \<Longrightarrow> unstored (bk_run B r s)"
  "U s \<Longrightarrow> unstored (Inr (bad_request s))" "U s \<Longrightarrow> unstored (Inr (bad_req s))"
  "U s \<Longrightarrow> unstored (Inr (s, x))" "unstored (Inl f)"
  "(c \<Longrightarrow> unstored e) \<Longrightarrow> (\<not> c \<Longrightarrow> unstored e1) \<Longrightarrow> unstored (if c then e else e1)"
  "U s \<Longrightarrow> unstored (target_action B r t done_text verb s)"
  by (auto simp: unstored_def bad_request_def bad_req_def target_action_def split: option.split
      intro!: ensures_mono [OF run] run)

lemma unstored_bind: "(\<And>x. unstored (k x)) \<Longrightarrow> unstored (exec_bind e k)"
  by (cases e) (simp_all add: unstored_intros)

lemma settled_finish: "unstored e \<Longrightarrow> settled (exec_bind e (\<lambda>r. Inr (finish B r)))"
  by (auto simp: settled_def unstored_def finish_def http_error_zero store split: prod.splits elim!: ensures_mono)

lemma settled_error:
  "U s \<Longrightarrow> settled (Inr (s, http_error (- EINVAL), resp))"
  "U s \<Longrightarrow> settled (Inr (bad_request s))"
  "U s \<Longrightarrow> settled (Inr (finish B (s, - EINVAL, resp)))"
  "U s \<Longrightarrow> settled (Inr (finish B (bad_req s)))"
  "U s \<Longrightarrow> settled (Inr (finish B (bad_request s)))"
  by (simp_all add: settled_def bad_request_def bad_req_def finish_def http_error_def http_defs errno_defs)

lemma settled_if: "(c \<Longrightarrow> settled e) \<Longrightarrow> (\<not> c \<Longrightarrow> settled e1) \<Longrightarrow> settled (if c then e else e1)"
  by simp

lemma change_handlers_settled:
  assumes "U s"
  shows "settled (put_target_request B t p n body s)" "settled (post_target_request B t p n body s)"
    "settled (delete_target_request B t p n s)" "settled (patch_target_request B t p n body s)"
    "settled (put_host_request B t n body s)" "settled (post_host_request B t n body s)"
    "settled (delete_host_request B t n s)" "settled (patch_host_request B t n body s)"
    "settled (put_group_request B t p n body s)" "settled (post_group_request B t p n s)"
    "settled (delete_group_request B t p n s)" "settled (patch_group_request B t body s)"
  using assms unfolding change_handler_defs Let_def
  by (auto intro!: settled_finish unstored_intros unstored_bind settled_error split: if_split)

lemma change_groups_settled:
  assumes m: "hm_method hm \<in> {''PUT'', ''POST'', ''DELETE'', ''PATCH''}" and s: "U s"
  shows "settled (handle_group_requests B parts n hm s)" "settled (handle_host_requests B parts n hm s)"
    "settled (handle_target_requests B parts n hm s)"
proof -
  have get: "hm_method hm = ''GET'' \<Longrightarrow> settled e" for e using m by auto
  note rules = settled_if change_handlers_settled [OF s] settled_error(2) [OF s]
  show "settled (handle_group_requests B parts n hm s)"
    unfolding handle_group_requests_def Let_def by (rule settled_if, erule get) (intro rules)
  show "settled (handle_host_requests B parts n hm s)"
    unfolding handle_host_requests_def Let_def by (rule settled_if, erule get) (intro rules)
  show "settled (handle_target_requests B parts n hm s)"
    unfolding handle_target_requests_def Let_def by (rule settled_if, erule get) (intro rules)
qed

abbreviation server_settled :: "'s server \<times> int \<times> 'a \<Rightarrow> bool" where
  "server_settled \<equiv> (\<lambda>(s', ret, _). if ret = 0 then S (sv_state s') else U (sv_state s'))"

lemma settled_on_state: "settled (h (sv_state s)) \<Longrightarrow> ensures (on_state h s) server_settled"
  by (auto simp: on_state_def settled_def elim!: ensures_mono split: if_splits)

lemma dispatch_change_settled:
  assumes "changing hm" "U (sv_state s)"
  shows "ensures (dispatch J writable B hm s) server_settled"
proof -
  obtain n parts where uri: "parse_uri (hm_uri hm) MAX_DEPTH = Inr (n, parts)" "0 \<le> n"
      "\<not> starts URI_DEM (parts ! 0)" "\<not> starts URI_V1 (parts ! 0)"
    and m: "hm_method hm \<in> {''PUT'', ''POST'', ''DELETE'', ''PATCH''}"
    using assms(1) unfolding changing_def by (auto split: sum.splits)
  show ?thesis
    using uri assms(2)
    by (auto simp: dispatch_def Let_def http_defs intro!: settled_on_state change_groups_settled m
        ensuresI [of "c_strcpy n x" for n x])
qed

lemma handle_http_request_settled:
  assumes "changing hm" "U (sv_state s)"
  shows "ensures (handle_http_request J writable B hm s) server_settled"
proof -
  have "hm_uri hm \<noteq> []" "hm_method hm \<noteq> ''OPTIONS''" using assms(1) by (auto simp: changing_def)
  then show ?thesis
    using assms(2) dispatch_change_settled [OF assms, of J writable]
    by (auto simp: handle_http_request_def http_defs intro!: ensuresI [of "authorized sg hm" for sg]
        elim!: ensures_mono split: if_splits)
qed

end

text \<open>A backend that records whether the configuration was stored.\<close>

definition logged :: "'s backend \<Rightarrow> ('s \<times> bool) backend" where
  "logged B =
     \<lparr>bk_run = (\<lambda>r s. exec_bind (bk_run B r (fst s)) (\<lambda>(s', ret, resp). Inr ((s', snd s), ret, resp))),
      bk_store = (\<lambda>s. (bk_store B (fst s), True))\<rparr>"

interpretation logged: storing_backend "logged B" "\<lambda>s. \<not> snd s" snd for B
  by unfold_locales (auto simp: logged_def intro!: ensuresI)

section \<open>Properties\<close>

text \<open>
  C33. A URI made of at most eight parts is split into exactly these parts; with more parts the code
  reads beyond the end of its array.
\<close>

theorem parse_uri_roundtrip:
  assumes "list_all (\<lambda>p. CHR ''/'' \<notin> set p) ps" "ps \<noteq> []"
  shows "parse_uri (join_uri ps) depth =
           (if length ps \<le> depth then Inr (int (length ps), ps) else Inl Buffer_overflow)"
proof -
  obtain w ws where "ps = w # ws" using assms(2) by (cases ps) auto
  then have "\<exists>cs. join_uri ps = CHR ''/'' # cs" by (simp add: join_uri_def)
  then obtain cs where "join_uri ps = CHR ''/'' # cs" by blast
  then show ?thesis using split_slash_join [OF assms(1)] assms(2) by (auto simp: parse_uri_def Let_def)
qed

theorem parse_uri_roundtrip_witness:
  "parse_uri (join_uri [''target'', ''t1'', ''subsystem'', ''nqn.1'']) MAX_DEPTH =
     Inr (4, [''target'', ''t1'', ''subsystem'', ''nqn.1''])"
  using parse_uri_roundtrip [of "[''target'', ''t1'', ''subsystem'', ''nqn.1'']" MAX_DEPTH]
  by (simp add: MAX_DEPTH_def)

definition demo_get :: "(string \<times> string) list \<Rightarrow> string \<Rightarrow> string \<Rightarrow> http_message" where
  "demo_get headers method uri = \<lparr>hm_method = method, hm_uri = uri, hm_query_string = [],
     hm_headers = headers, hm_body = []\<rparr>"

definition demo_server :: "nat server" where
  "demo_server = \<lparr>sv_signature = s_signature_default, sv_interfaces = [], sv_state = 0\<rparr>"

definition demo_backend :: "nat backend" where
  "demo_backend = \<lparr>bk_run = (\<lambda>r s. Inr (s + 1, 0, ''ok'')), bk_store = (\<lambda>s. s + 100)\<rparr>"

definition demo_json :: "json jansson" where
  "demo_json = ref_jansson (\<lambda>_. None) (\<lambda>_. [])"

text \<open>
  A request without an \<^verbatim>\<open>Authorization\<close> header is handled exactly as the same request with the right
  signature: the check only applies to requests that bring the header.
\<close>

theorem missing_authorization_accepted:
  assumes "authorization hm = None" "sv_signature s = Signature t"
  shows "handle_http_request J writable B hm s =
           handle_http_request J writable B (hm\<lparr>hm_headers := (''Authorization'', t) # hm_headers hm\<rparr>) s"
  using assms by (simp add: handle_http_request_def authorized_def authorization_def)

theorem missing_authorization_accepted_witness:
  "handle_http_request demo_json True demo_backend (demo_get [] ''DELETE'' ''/host/h1'') demo_server =
     Inr (demo_server\<lparr>sv_state := 101\<rparr>, 0, Some ''ok'')"
proof -
  define hm where "hm = demo_get [] ''DELETE'' ''/host/h1''"
  define t where "t = ''Basic QjU6v9wxOTU4QGBlgPztOCQ6QTsD''"
  have "handle_http_request demo_json True demo_backend hm demo_server =
      handle_http_request demo_json True demo_backend (hm\<lparr>hm_headers := (''Authorization'', t) # hm_headers hm\<rparr>) demo_server"
    by (rule missing_authorization_accepted)
      (simp_all add: hm_def demo_get_def authorization_def demo_server_def s_signature_default_def t_def)
  also have "\<dots> = Inr (demo_server\<lparr>sv_state := 101\<rparr>, 0, Some ''ok'')"
    unfolding hm_def t_def by code_simp
  finally show ?thesis unfolding hm_def .
qed

text \<open>
  Reading requests never store the configuration: the answer to a \<^verbatim>\<open>GET\<close> request and the state after
  it do not depend on what storing does.
\<close>

theorem get_requests_do_not_store:
  assumes "hm_method hm = ''GET''"
  shows "handle_http_request J writable B hm s = handle_http_request J writable (B\<lparr>bk_store := f\<rparr>) hm s"
  unfolding handle_http_request_def dispatch_store [OF assms, of J writable B s f] ..

theorem get_requests_do_not_store_witness:
  "handle_http_request demo_json True (demo_backend\<lparr>bk_store := (\<lambda>s. 0)\<rparr>) (demo_get [] ''GET'' ''/host/h1'') demo_server =
     Inr (demo_server\<lparr>sv_state := 1\<rparr>, 0, Some ''ok'')"
proof -
  have "hm_method (demo_get [] ''GET'' ''/host/h1'') = ''GET''" by (simp add: demo_get_def)
  note get_requests_do_not_store [OF this, of demo_json True demo_backend demo_server "\<lambda>s. 0"]
  moreover have "handle_http_request demo_json True demo_backend (demo_get [] ''GET'' ''/host/h1'') demo_server =
     Inr (demo_server\<lparr>sv_state := 1\<rparr>, 0, Some ''ok'')" by code_simp
  ultimately show ?thesis by simp
qed

text \<open>
  C30. A request that changes groups, hosts or targets stores the configuration file exactly when it is
  answered with success: a refused or failed request leaves the file alone, and a successful one is never
  lost.
\<close>

theorem change_stored_iff_ok:
  assumes "changing hm" "\<not> snd (sv_state s)"
    and "handle_http_request J writable (logged B) hm s = Inr (s', ret, resp)"
  shows "snd (sv_state s') \<longleftrightarrow> ret = 0"
  using ensuresD [OF logged.handle_http_request_settled [OF assms(1,2)] assms(3)] by (auto split: if_splits)

theorem change_stored_iff_ok_witness:
  "\<exists>s' ret resp. handle_http_request demo_json True (logged demo_backend) (demo_get [] ''PUT'' ''/group/g1/host'')
       \<lparr>sv_signature = s_signature_default, sv_interfaces = [], sv_state = (0, False)\<rparr> = Inr (s', ret, resp) \<and>
     ret = 0 \<and> snd (sv_state s')"
proof -
  define hm where "hm = demo_get [] ''PUT'' ''/group/g1/host''"
  define s :: "(nat \<times> bool) server"
    where "s = \<lparr>sv_signature = s_signature_default, sv_interfaces = [], sv_state = (0, False)\<rparr>"
  have r: "handle_http_request demo_json True (logged demo_backend) hm s =
      Inr (s\<lparr>sv_state := (101, True)\<rparr>, 0, Some ''ok'')"
    unfolding hm_def s_def by code_simp
  have "changing hm" unfolding hm_def by code_simp
  then have "snd (sv_state (s\<lparr>sv_state := (101, True)\<rparr>)) \<longleftrightarrow> (0 :: int) = 0"
    by (rule change_stored_iff_ok [OF _ _ r]) (simp add: s_def)
  then show ?thesis using r unfolding hm_def s_def by blast
qed

text \<open>
  C32. Once the signature was changed through \<^verbatim>\<open>POST /dem/signature\<close> nobody passes the check of the
  \<^verbatim>\<open>Authorization\<close> header: a header of another length than the new signature is refused, and one of the same
  length, in particular the new signature itself, is compared with memory that was freed. (This holds for every
  request with a URI and a method other than \<^verbatim>\<open>OPTIONS\<close>, which are answered before the check.)
\<close>

theorem changed_signature_use_after_free:
  assumes "update_signature J writable sg data = Inr (sg', 0, text)"
    and "json_loads J data = Some request" "json_object_get J request TAG_NEW = Some new" "json_string_value J new = Some v"
    and "sv_signature s = sg'" "hm_uri hm \<noteq> []" "hm_method hm \<noteq> ''OPTIONS''" "authorization hm = Some header"
  shows "handle_http_request J writable B hm s =
    (if length header = length (''Basic '' @ v) then Inl Use_after_free else Inr (s, HTTP_ERR_FORBIDDEN, Some []))"
proof -
  have "sg' = Freed_signature (length (''Basic '' @ v))"
    using assms(1-4)
    by (auto simp: update_signature_def Let_def errno_defs split: if_splits option.splits signature.splits)
  then show ?thesis using assms(5-8) by (simp add: handle_http_request_def authorized_def)
qed

definition demo_signature :: "json jansson" where
  "demo_signature = ref_jansson
     (\<lambda>_. Some (JObject [(TAG_OLD, JString ''QjU6v9wxOTU4QGBlgPztOCQ6QTsD''), (TAG_NEW, JString ''abc'')])) (\<lambda>_. [])"

theorem changed_signature_use_after_free_witness:
  "handle_http_request demo_signature True demo_backend (demo_get [] ''POST'' ''/dem/signature'' \<lparr>hm_body := ''x''\<rparr>) demo_server =
     Inr (demo_server\<lparr>sv_signature := Freed_signature 9\<rparr>, 0, Some ''update successful'') \<and>
   handle_http_request demo_signature True demo_backend (demo_get [(''Authorization'', ''Basic abc'')] ''GET'' ''/host'')
     (demo_server\<lparr>sv_signature := Freed_signature 9\<rparr>) = Inl Use_after_free \<and>
   handle_http_request demo_signature True demo_backend (demo_get [(''Authorization'', ''Basic abcd'')] ''GET'' ''/host'')
     (demo_server\<lparr>sv_signature := Freed_signature 9\<rparr>) =
       Inr (demo_server\<lparr>sv_signature := Freed_signature 9\<rparr>, HTTP_ERR_FORBIDDEN, Some [])"
proof -
  have post: "handle_http_request demo_signature True demo_backend (demo_get [] ''POST'' ''/dem/signature'' \<lparr>hm_body := ''x''\<rparr>)
      demo_server = Inr (demo_server\<lparr>sv_signature := Freed_signature 9\<rparr>, 0, Some ''update successful'')"
    by code_simp
  have u: "update_signature demo_signature True s_signature_default ''x'' = Inr (Freed_signature 9, 0, ''update successful'')"
    by code_simp
  let ?request = "JObject [(TAG_OLD, JString ''QjU6v9wxOTU4QGBlgPztOCQ6QTsD''), (TAG_NEW, JString ''abc'')]"
  have j: "json_loads demo_signature ''x'' = Some ?request"
    "json_object_get demo_signature ?request TAG_NEW = Some (JString ''abc'')"
    "json_string_value demo_signature (JString ''abc'') = Some ''abc''"
    by code_simp+
  note after = changed_signature_use_after_free [OF u j, of "demo_server\<lparr>sv_signature := Freed_signature 9\<rparr>"
      "demo_get [(''Authorization'', h)] ''GET'' ''/host''" h demo_backend for h]
  show ?thesis
    using post after [of "''Basic abc''"] after [of "''Basic abcd''"] by (simp add: demo_get_def authorization_def)
qed

text \<open>
  \<^verbatim>\<open>DELETE /group\<close> without a name and \<^verbatim>\<open>POST /dem\<close> without a verb compare a null pointer, whatever
  the configuration; both crash the controller.
\<close>

theorem missing_part_crashes:
  assumes "authorization hm = None"
    and "hm_method hm = ''DELETE'' \<and> hm_uri hm = ''/group'' \<or> hm_method hm = ''POST'' \<and> hm_uri hm = ''/dem''"
  shows "handle_http_request J writable B hm s = Inl Null_deref"
proof -
  have "parse_uri ''/group'' MAX_DEPTH = Inr (1, [''group''])" "parse_uri ''/dem'' MAX_DEPTH = Inr (1, [''dem''])"
    by code_simp+
  with assms show ?thesis
    by (auto simp: handle_http_request_def authorized_def dispatch_def Let_def handle_group_requests_def on_state_def
        delete_group_request_def handle_dem_requests_def post_dem_request_def part_def part_is_def starts_def uri_defs)
qed

theorem missing_part_crashes_witness:
  "handle_http_request demo_json True demo_backend (demo_get [] ''DELETE'' ''/group'') demo_server = Inl Null_deref"
  by (rule missing_part_crashes) (simp_all add: demo_get_def authorization_def)

end
