(* ===== verification/Dem_Interfaces.thy ===== *)
theory Dem_Interfaces
  imports Dem_Targets Restful
begin

text \<open>
  Start-up of the controller (\<^verbatim>\<open>src/src/dem/interfaces.c\<close>): the lists of targets and groups are built from
  the JSON document, and the interfaces of the controller are read from the files of a directory.

  A string of the document that is not one is a null pointer. The elements of an array are visited with
  \<open>json_elems\<close>; the array of something that is not one is empty.
\<close>

section \<open>Subsystems of a target\<close>

text \<open>The entries for a host: one for every element of the access list that names it.\<close>

fun check_host :: "'j jansson \<Rightarrow> string option \<Rightarrow> string option \<Rightarrow> 'j list \<Rightarrow> host list exec" where
  "check_host J alias nqn [] = Inr []"
| "check_host J alias nqn (x # xs) =
     (case (alias, json_string_value J x) of
        (Some a, Some v) \<Rightarrow>
          if a \<noteq> v then check_host J alias nqn xs
          else
            exec_bind (c_strcpy (MAX_NQN_SIZE + 1) nqn) (\<lambda>q.
            exec_bind (c_strcpy (MAX_ALIAS_SIZE + 1) (Some a)) (\<lambda>a.
            exec_bind (check_host J alias nqn xs) (\<lambda>hs. Inr (\<lparr>hs_alias = a, hs_nqn = q\<rparr> # hs))))
      | _ \<Rightarrow> Inl Null_deref)"

fun check_namespaces :: "'j jansson \<Rightarrow> 'j list \<Rightarrow> ns list" where
  "check_namespaces J [] = []"
| "check_namespaces J (x # xs) =
     (case (json_object_get J x TAG_NSID, json_object_get J x TAG_DEVID) of
        (Some n, Some d) \<Rightarrow>
          if json_is_integer J n \<and> json_is_integer J d
          then
            let devid = c_int (json_integer_value J d);
                devns = (case json_object_get J x TAG_DEVNSID of
                           None \<Rightarrow> 0
                         | Some v \<Rightarrow> if devid = NULL_BLK_DEVID \<or> \<not> json_is_integer J v then 0
                                    else c_int (json_integer_value J v))
            in \<lparr>ns_nsid = c_int (json_integer_value J n), ns_devid = devid, ns_devns = devns\<rparr> # check_namespaces J xs
          else check_namespaces J xs
      | _ \<Rightarrow> check_namespaces J xs)"

fun check_hosts :: "'j jansson \<Rightarrow> 'j \<Rightarrow> 'j list \<Rightarrow> host list exec" where
  "check_hosts J acl [] = Inr []"
| "check_hosts J acl (x # xs) =
     (case (json_object_get J x TAG_ALIAS, json_object_get J x TAG_HOSTNQN) of
        (Some a, Some q) \<Rightarrow>
          exec_bind (check_host J (json_string_value J a) (json_string_value J q) (json_elems J acl)) (\<lambda>hs.
          exec_bind (check_hosts J acl xs) (\<lambda>hs'. Inr (hs @ hs')))
      | _ \<Rightarrow> check_hosts J acl xs)"

fun check_subsystems ::
  "'j jansson \<Rightarrow> ptr \<Rightarrow> 'j option \<Rightarrow> 'j list \<Rightarrow> ('j, 'w) dem \<Rightarrow> ('j, 'w) dem exec" where
  "check_subsystems J p hosts [] s = Inr s"
| "check_subsystems J p hosts (x # xs) s =
     (case json_object_get J x TAG_SUBNQN of
        None \<Rightarrow> check_subsystems J p hosts xs s
      | Some n \<Rightarrow>
          (case json_string_value J n of
             None \<Rightarrow> Inl Null_deref
           | Some nqn \<Rightarrow>
               exec_bind (new_subsys p nqn s) (\<lambda>(q, s).
               let nss = (case json_object_get J x TAG_NSIDS of None \<Rightarrow> [] | Some a \<Rightarrow> check_namespaces J (json_elems J a));
                   access = (case json_object_get J x TAG_ALLOW_ANY of
                               None \<Rightarrow> 0
                             | Some v \<Rightarrow> if json_is_integer J v then c_int (json_integer_value J v) else 0)
               in
               exec_bind
                 (case (json_object_get J x TAG_HOSTS, hosts) of
                    (Some acl, Some hs) \<Rightarrow> if access = 0 then check_hosts J acl (json_elems J hs) else Inr []
                  | _ \<Rightarrow> Inr [])
                 (\<lambda>hs. check_subsystems J p hosts xs
                    (upd_subsys p q (\<lambda>ss. ss\<lparr>ss_nss := nss, ss_access := access, ss_hosts := hs\<rparr>) s)))))"

section \<open>Ports\<close>

definition NVME_RDMA_IP_PORT :: int where "NVME_RDMA_IP_PORT = 4420"

definition json_get_string :: "'j jansson \<Rightarrow> 'j \<Rightarrow> string \<Rightarrow> string option option" where
  "json_get_string J x tag = map_option (json_string_value J) (json_object_get J x tag)"

text \<open>
  \<^const>\<open>None\<close> where the code reports an error. The parser of addresses works on the text in the document and
  cuts it at a slash, so the object may change.
\<close>

definition get_transport_info :: "'j jansson \<Rightarrow> 'j \<Rightarrow> portid \<Rightarrow> (portid option \<times> 'j) exec" where
  "get_transport_info J grp x =
     (case json_get_string J grp TAG_TYPE of
        None \<Rightarrow> Inr (None, grp)
      | Some None \<Rightarrow> Inl Null_deref
      | Some (Some typ) \<Rightarrow>
          let pid = (case json_object_get J grp TAG_PORTID of None \<Rightarrow> 0 | Some v \<Rightarrow> c_int (json_integer_value J v)) in
          (case json_get_string J grp TAG_FAMILY of
             None \<Rightarrow> Inr (None, grp)
           | Some None \<Rightarrow> Inl Null_deref
           | Some (Some family) \<Rightarrow>
               let fam = cut CONFIG_FAMILY_SIZE family in
               (case json_get_string J grp TAG_ADDRESS of
                  None \<Rightarrow> Inr (None, grp)
                | Some text \<Rightarrow>
                    if fam \<notin> {''ipv4'', ''ipv6'', ''fc''} then Inr (None, grp)
                    else case text of
                      None \<Rightarrow> Inl Null_deref
                    | Some str \<Rightarrow>
                        exec_bind (if fam = ''ipv4'' then ipv4_to_addr str
                                   else if fam = ''ipv6'' then ipv6_to_addr str else fc_to_addr str)
                          (\<lambda>(ret, addr, str').
                        let grp' = (case json_object_get J grp TAG_ADDRESS of
                                      None \<Rightarrow> grp
                                    | Some v \<Rightarrow> json_object_set_new J grp TAG_ADDRESS (json_string_set J v (Some str')))
                        in if ret < 0 then Inr (None, grp')
                           else
                             let num = (case json_object_get J grp TAG_TRSVCID of
                                          None \<Rightarrow> NVME_RDMA_IP_PORT
                                        | Some v \<Rightarrow> c_int (json_integer_value J v))
                             in Inr (Some (x\<lparr>pt_portid := pid, pt_type := cut CONFIG_TYPE_SIZE typ, pt_family := fam,
                                    pt_address := cut CONFIG_ADDRESS_SIZE str',
                                    pt_addr := (case addr of None \<Rightarrow> [] | Some a \<Rightarrow> a),
                                    pt_port_num := num, pt_port := take (CONFIG_PORT_SIZE - 1) (show_int num)\<rparr>), grp')))))"

definition portid_zero :: "ptr \<Rightarrow> portid" where
  "portid_zero q =
     \<lparr>pt_ptr = q, pt_portid = 0, pt_type = [], pt_family = [], pt_address = [], pt_port = [], pt_port_num = 0, pt_addr = []\<rparr>"

text \<open>
  A port is linked before it is filled in, and freed when that fails, but not unlinked: the list then runs
  through freed memory, and \<^verbatim>\<open>init_targets\<close> walks it next. A target that could not be set up is null.
\<close>

definition add_port_to_target ::
  "'j jansson \<Rightarrow> ptr option \<Rightarrow> 'j \<Rightarrow> ('j, 'w) dem \<Rightarrow> ('j \<times> ('j, 'w) dem) exec" where
  "add_port_to_target J p obj s =
     (case p of
        None \<Rightarrow> Inl Null_deref
      | Some p \<Rightarrow>
          exec_bind (get_transport_info J obj (portid_zero (dm_next s))) (\<lambda>(port, obj).
            case port of
              None \<Rightarrow> Inl Use_after_free
            | Some x \<Rightarrow> Inr (obj, (upd_target p (\<lambda>t. t\<lparr>tg_portids := tg_portids t @ [x]\<rparr>) s)\<lparr>dm_next := Suc (dm_next s)\<rparr>)))"

fun add_ports ::
  "'j jansson \<Rightarrow> ptr option \<Rightarrow> nat list \<Rightarrow> 'j \<Rightarrow> ('j, 'w) dem \<Rightarrow> ('j \<times> ('j, 'w) dem) exec" where
  "add_ports J p [] ports s = Inr (ports, s)"
| "add_ports J p (j # js) ports s =
     (case json_array_get J ports j of
        None \<Rightarrow> Inl Null_deref
      | Some obj \<Rightarrow>
          exec_bind (add_port_to_target J p obj s) (\<lambda>(obj, s). add_ports J p js (json_array_set J ports j obj) s))"

section \<open>Targets\<close>

text \<open>The interface of a target; \<^const>\<open>False\<close> where the code reports an error.\<close>

definition setup_oob_target :: "'j jansson \<Rightarrow> 'j \<Rightarrow> sc_iface \<Rightarrow> (bool \<times> sc_iface) exec" where
  "setup_oob_target J parent sc =
     (case json_object_get J parent TAG_INTERFACE of
        None \<Rightarrow> Inr (False, sc)
      | Some iface \<Rightarrow>
          (case json_object_get J iface TAG_IFADDRESS of
             None \<Rightarrow> Inr (False, sc)
           | Some a \<Rightarrow>
               if \<not> json_is_string J a then Inr (False, sc)
               else exec_bind (c_strcpy (CONFIG_ADDRESS_SIZE + 1) (json_string_value J a)) (\<lambda>addr.
                 case json_object_get J iface TAG_IFPORT of
                   None \<Rightarrow> Inr (False, sc\<lparr>sc_oob := (addr, 0)\<rparr>)
                 | Some n \<Rightarrow>
                     if \<not> json_is_integer J n then Inr (False, sc\<lparr>sc_oob := (addr, 0)\<rparr>)
                     else Inr (True, sc\<lparr>sc_oob := (addr, c_int (json_integer_value J n))\<rparr>))))"

definition DISCOVERY_CTRL_NQN :: string where "DISCOVERY_CTRL_NQN = ''DEM_Discovery_Controller''"

text \<open>
  The port in the description, copied with \<^verbatim>\<open>strcpy\<close>; \<^const>\<open>None\<close> when a value is missing.
\<close>

definition inb_port :: "'j jansson \<Rightarrow> 'j \<Rightarrow> portid option exec" where
  "inb_port J iface =
     (let str = (\<lambda>tag. case json_object_get J iface tag of
                         None \<Rightarrow> None | Some v \<Rightarrow> if json_is_string J v then json_string_value J v else None)
      in case str TAG_TYPE of
           None \<Rightarrow> Inr None
         | Some typ \<Rightarrow>
             exec_bind (c_strcpy (CONFIG_TYPE_SIZE + 1) (Some typ)) (\<lambda>typ.
             case str TAG_FAMILY of
               None \<Rightarrow> Inr None
             | Some fam \<Rightarrow>
                 exec_bind (c_strcpy (CONFIG_FAMILY_SIZE + 1) (Some fam)) (\<lambda>fam.
                 case str TAG_ADDRESS of
                   None \<Rightarrow> Inr None
                 | Some addr \<Rightarrow>
                     exec_bind (c_strcpy (CONFIG_ADDRESS_SIZE + 1) (Some addr)) (\<lambda>addr.
                     case json_object_get J iface TAG_TRSVCID of
                       None \<Rightarrow> Inr None
                     | Some n \<Rightarrow>
                         if \<not> json_is_integer J n then Inr None
                         else Inr (Some ((portid_zero NULL)\<lparr>pt_type := typ, pt_family := fam, pt_address := addr,
                                pt_port_num := c_int (json_integer_value J n)\<rparr>))))))"

text \<open>A target that is not described completely is switched to local management; its port is freed only.\<close>

definition setup_inb_target :: "'j jansson \<Rightarrow> 'j \<Rightarrow> target \<Rightarrow> target exec" where
  "setup_inb_target J parent t =
     (let t = upd_sc (\<lambda>sc. sc\<lparr>sc_hostnqn := DISCOVERY_CTRL_NQN\<rparr>) t;
          reset = upd_sc (\<lambda>sc. sc\<lparr>sc_inb_freed := True\<rparr>) (t\<lparr>tg_mgmt_mode := LOCAL_MGMT\<rparr>)
      in case json_object_get J parent TAG_INTERFACE of
           None \<Rightarrow> Inr reset
         | Some iface \<Rightarrow>
             exec_bind (inb_port J iface) (\<lambda>port.
               case port of
                 None \<Rightarrow> Inr reset
               | Some x \<Rightarrow> Inr (upd_sc (\<lambda>sc. sc\<lparr>sc_inb_portid := Some x\<rparr>) t)))"

definition add_to_target_list ::
  "'j jansson \<Rightarrow> 'j \<Rightarrow> 'j option \<Rightarrow> ('j, 'w) dem \<Rightarrow> (ptr option \<times> ('j, 'w) dem) exec" where
  "add_to_target_list J parent hosts s =
     (case json_get_string J parent TAG_ALIAS of
        None \<Rightarrow> Inr (None, s)
      | Some None \<Rightarrow> Inl Null_deref
      | Some (Some alias) \<Rightarrow>
          (case alloc_target (cut MAX_ALIAS_SIZE alias) s of (p, s) \<Rightarrow>
             let refresh = (case json_object_get J parent TAG_REFRESH of
                              None \<Rightarrow> 0 | Some v \<Rightarrow> if json_is_integer J v then c_int (json_integer_value J v) else 0);
                 mode = (case json_object_get J parent TAG_MGMT_MODE of
                           None \<Rightarrow> LOCAL_MGMT
                         | Some v \<Rightarrow> (case (if json_is_string J v then json_string_value J v else None) of
                                       None \<Rightarrow> LOCAL_MGMT | Some m \<Rightarrow> get_mgmt_mode m));
                 s = upd_target p (\<lambda>t. t\<lparr>tg_mgmt_mode := mode\<rparr>) s
             in
             exec_bind
               (on_target p (\<lambda>t w.
                  case mode of
                    OUT_OF_BAND_MGMT \<Rightarrow> exec_bind (setup_oob_target J parent (tg_sc_iface t)) (\<lambda>(ok, sc).
                                          Inr (ok, t\<lparr>tg_sc_iface := sc\<rparr>, w))
                  | IN_BAND_MGMT \<Rightarrow> exec_bind (setup_inb_target J parent t) (\<lambda>t. Inr (True, t, w))
                  | LOCAL_MGMT \<Rightarrow> Inr (True, t, w)) s)
               (\<lambda>(ok, s).
             if \<not> ok then Inr (None, s)
             else
               let s = upd_target p (\<lambda>t. t\<lparr>tg_refresh := refresh\<rparr>) s in
               exec_bind (case json_object_get J parent TAG_SUBSYSTEMS of
                            None \<Rightarrow> Inr s
                          | Some a \<Rightarrow> check_subsystems J p hosts (json_elems J a) s)
                 (\<lambda>s. Inr (Some p, s)))))"

text \<open>The body of the loop of \<^verbatim>\<open>build_target_list\<close>.\<close>

definition build_target :: "'j jansson \<Rightarrow> 'j option \<Rightarrow> 'j \<Rightarrow> ('j, 'w) dem \<Rightarrow> ('j \<times> ('j, 'w) dem) exec" where
  "build_target J hosts iter s =
     exec_bind (add_to_target_list J iter hosts s) (\<lambda>(p, s).
       case json_object_get J iter TAG_PORTIDS of
         None \<Rightarrow> Inr (iter, s)
       | Some ports \<Rightarrow>
           exec_bind (add_ports J p [0..<json_array_size J ports] ports s) (\<lambda>(ports, s).
             Inr (json_object_set_new J iter TAG_PORTIDS ports, s)))"

fun build_targets ::
  "'j jansson \<Rightarrow> 'j option \<Rightarrow> nat list \<Rightarrow> 'j \<Rightarrow> ('j, 'w) dem \<Rightarrow> ('j \<times> ('j, 'w) dem) exec" where
  "build_targets J hosts [] array s = Inr (array, s)"
| "build_targets J hosts (i # is) array s =
     (case json_array_get J array i of
        None \<Rightarrow> Inl Null_deref
      | Some iter \<Rightarrow>
          exec_bind (build_target J hosts iter s) (\<lambda>(iter, s). build_targets J hosts is (json_array_set J array i iter) s))"

definition build_target_list :: "'j jansson \<Rightarrow> ('j, 'w) dem \<Rightarrow> ('j, 'w) dem exec" where
  "build_target_list J s =
     (case json_object_get J (dm_root s) TAG_TARGETS of
        None \<Rightarrow> Inr s
      | Some array \<Rightarrow>
          exec_bind (build_targets J (json_object_get J (dm_root s) TAG_HOSTS) [0..<json_array_size J array] array s)
            (\<lambda>(array, s). Inr (s\<lparr>dm_root := json_object_set_new J (dm_root s) TAG_TARGETS array\<rparr>)))"

section \<open>Groups\<close>

text \<open>The links of a group; a name that is not a string is compared as a null pointer, when there is one to compare with.\<close>

definition link_target :: "'j jansson \<Rightarrow> 'w network \<Rightarrow> ptr \<Rightarrow> 'j \<Rightarrow> ('j, 'w) dem \<Rightarrow> ('j, 'w) dem exec" where
  "link_target J N g x s =
     (case json_string_value J x of
        None \<Rightarrow> if dm_targets s = [] then Inr s else Inl Null_deref
      | Some a \<Rightarrow> add_target_to_group N g a s)"

definition link_group_host :: "'j jansson \<Rightarrow> ptr \<Rightarrow> 'j \<Rightarrow> ('j, 'w) dem \<Rightarrow> ('j, 'w) dem exec" where
  "link_group_host J g x s =
     (case json_string_value J x of None \<Rightarrow> Inl Null_deref | Some a \<Rightarrow> add_host_to_group J g a s)"

definition links :: "'j jansson \<Rightarrow> 'j \<Rightarrow> string \<Rightarrow> 'j list" where
  "links J iter tag = (case json_object_get J iter tag of None \<Rightarrow> [] | Some a \<Rightarrow> json_elems J a)"

definition build_group :: "'j jansson \<Rightarrow> 'w network \<Rightarrow> 'j \<Rightarrow> ('j, 'w) dem \<Rightarrow> ('j, 'w) dem exec" where
  "build_group J N iter s =
     (case json_get_string J iter TAG_NAME of
        Some (Some name) \<Rightarrow>
          exec_bind (init_group name s) (\<lambda>(g, s).
          exec_bind (each (link_target J N g) (links J iter TAG_TARGETS) s) (\<lambda>s.
            each (link_group_host J g) (links J iter TAG_HOSTS) s))
      | _ \<Rightarrow> Inl Null_deref)"

definition build_group_list :: "'j jansson \<Rightarrow> 'w network \<Rightarrow> ('j, 'w) dem \<Rightarrow> ('j, 'w) dem exec" where
  "build_group_list J N s = each (build_group J N) (links J (dm_root s) TAG_GROUPS) s"

definition build_lists :: "'j jansson \<Rightarrow> 'w network \<Rightarrow> ('j, 'w) dem \<Rightarrow> ('j, 'w) dem exec" where
  "build_lists J N s = exec_bind (build_target_list J s) (build_group_list J N)"

section \<open>Interfaces of the controller\<close>

definition CONFIG_FILENAME :: string where "CONFIG_FILENAME = ''config''"
definition SIGNATURE_FILE_FILENAME :: string where "SIGNATURE_FILE_FILENAME = ''signature''"
definition LARGEST_TAG :: int where "LARGEST_TAG = 8"
definition LARGEST_VAL :: int where "LARGEST_VAL = 40"

text \<open>\<^verbatim>\<open>strcasecmp\<close> of equal strings.\<close>

definition to_lower :: "char \<Rightarrow> char" where
  "to_lower c = (let n = (of_char c :: nat) in if 65 \<le> n \<and> n \<le> 90 then char_of (n + 32) else c)"

definition same_ignoring_case :: "string \<Rightarrow> string \<Rightarrow> bool" where
  "same_ignoring_case a b = (map to_lower a = map to_lower b)"

definition host_iface_zero :: host_iface where
  "host_iface_zero = \<lparr>hi_type = [], hi_family = [], hi_address = [], hi_port = []\<rparr>"

text \<open>A line of a file: the interface and the stream behind the line.\<close>

definition read_dem_config :: "stream \<Rightarrow> host_iface \<Rightarrow> host_iface \<times> stream" where
  "read_dem_config fid iface =
     (case parse_line fid LARGEST_TAG LARGEST_VAL of (ret, tag, val, fid) \<Rightarrow>
        (case (ret = 0, tag, val) of
           (True, Some t, Some v) \<Rightarrow>
             (if same_ignoring_case t TAG_TYPE then iface\<lparr>hi_type := cut CONFIG_TYPE_SIZE v\<rparr>
              else if same_ignoring_case t TAG_FAMILY then iface\<lparr>hi_family := cut CONFIG_FAMILY_SIZE v\<rparr>
              else if same_ignoring_case t TAG_ADDRESS then iface\<lparr>hi_address := cut CONFIG_ADDRESS_SIZE v\<rparr>
              else if same_ignoring_case t TAG_TRSVCID then iface\<lparr>hi_port := cut CONFIG_PORT_SIZE v\<rparr>
              else iface, fid)
         | _ \<Rightarrow> (iface, fid)))"

lemma read_dem_config_stream: "snd (read_dem_config fid iface) = snd (snd (snd (parse_line fid LARGEST_TAG LARGEST_VAL)))"
  by (simp add: read_dem_config_def split: prod.split option.split bool.split)

text \<open>
  \<^verbatim>\<open>while (!feof(fid)) read_dem_config(fid, iface);\<close> returns for a stream whose reads do not fail, and does not
  return for a stream whose reads do.
\<close>

partial_function (option) read_config_lines :: "stream \<Rightarrow> host_iface \<Rightarrow> host_iface option" where
  "read_config_lines fid iface =
     (if feof fid then Some iface
      else read_config_lines (snd (read_dem_config fid iface)) (fst (read_dem_config fid iface)))"

declare read_config_lines.simps [code]

lemma read_config_lines_returns: "\<not> fs_fails fid \<Longrightarrow> \<exists>i. read_config_lines fid iface = Some i"
proof (induction "stream_size fid" arbitrary: fid iface rule: less_induct)
  case less
  show ?case
  proof (cases "feof fid")
    case True
    then show ?thesis by (simp add: read_config_lines.simps [of fid])
  next
    case False
    let ?fid = "snd (read_dem_config fid iface)"
    have "\<not> stuck fid" using less.prems by (simp add: stuck_def)
    then have "stream_size ?fid < stream_size fid" using parse_line_less [OF False] by (simp add: read_dem_config_stream)
    moreover have "\<not> fs_fails ?fid" using less.prems parse_line_advances [of fid] by (simp add: read_dem_config_stream advances_def)
    ultimately obtain i where "read_config_lines ?fid (fst (read_dem_config fid iface)) = Some i" using less.hyps by blast
    then show ?thesis using False by (simp add: read_config_lines.simps [of fid])
  qed
qed

lemma read_config_lines_endless:
  assumes "fs_fails fid" "\<not> feof fid"
  shows "read_config_lines fid iface = None"
proof -
  have "\<not> (fs_fails fid \<and> \<not> feof fid)" if "read_config_lines fid iface = Some i" for i
  proof (rule read_config_lines.raw_induct [OF _ that, where P = "\<lambda>fid _ _. \<not> (fs_fails fid \<and> \<not> feof fid)"])
    fix lines fid iface i
    assume rec: "\<And>fid iface i. lines fid iface = Some i \<Longrightarrow> \<not> (fs_fails fid \<and> \<not> feof fid)"
      and body: "(if feof fid then Some iface
        else lines (snd (read_dem_config fid iface)) (fst (read_dem_config fid iface))) = Some i"
    show "\<not> (fs_fails fid \<and> \<not> feof fid)"
      using rec [of "snd (read_dem_config fid iface)" "fst (read_dem_config fid iface)" i] body
        parse_line_advances [of fid LARGEST_TAG LARGEST_VAL]
      by (auto simp: read_dem_config_stream advances_def split: if_splits)
  qed
  then show ?thesis using assms by (cases "read_config_lines fid iface") auto
qed

text \<open>
  The numbers of the address are not used; what the parser does to the text is. A family that is not
  supported keeps the port as it is.
\<close>

definition translate_addr_to_array :: "host_iface \<Rightarrow> host_iface exec" where
  "translate_addr_to_array iface =
     (if hi_family iface \<notin> {''ipv4'', ''ipv6'', ''fc''} then Inr iface
      else
        exec_bind (if hi_family iface = ''ipv4'' then ipv4_to_addr (hi_address iface)
                   else if hi_family iface = ''ipv6'' then ipv6_to_addr (hi_address iface)
                   else fc_to_addr (hi_address iface)) (\<lambda>(_, _, addr).
          Inr (iface\<lparr>hi_address := addr, hi_port := (if hi_port iface = [] then show_int NVME_RDMA_IP_PORT else hi_port iface)\<rparr>)))"

definition valid_trtype :: "string \<Rightarrow> bool" where
  "valid_trtype typ = (typ = ''rdma'' \<or> typ = ''tcp'')"

text \<open>
  The directory: names with what is opened, \<^const>\<open>None\<close> when it cannot be opened; a directory can be opened, and
  cannot be read. The entry of the table that the next file fills keeps what files that were ignored have left in it.
\<close>

type_synonym directory = "(string \<times> stream option) list"

definition interface_file :: "string \<Rightarrow> bool" where
  "interface_file name = (name \<notin> {''.'', ''..'', CONFIG_FILENAME, SIGNATURE_FILE_FILENAME})"

definition count_dem_config_files :: "directory option \<Rightarrow> int" where
  "count_dem_config_files dir =
     (case dir of None \<Rightarrow> - ENOENT | Some es \<Rightarrow> int (length (filter (interface_file \<circ> fst) es)))"

definition complete_iface :: "host_iface \<Rightarrow> bool" where
  "complete_iface i = (hi_type i \<noteq> [] \<and> hi_family i \<noteq> [] \<and> hi_address i \<noteq> [] \<and> valid_trtype (hi_type i))"

fun read_dem_config_files :: "directory \<Rightarrow> host_iface \<Rightarrow> host_iface list exec" where
  "read_dem_config_files [] cur = Inr []"
| "read_dem_config_files ((name, file) # es) cur =
     (if \<not> interface_file name then read_dem_config_files es cur
      else case file of
        None \<Rightarrow> read_dem_config_files es cur
      | Some fid \<Rightarrow>
          case read_config_lines fid cur of
            None \<Rightarrow> Inl Endless_loop
          | Some i \<Rightarrow>
              if \<not> complete_iface i then read_dem_config_files es i
              else exec_bind (translate_addr_to_array i) (\<lambda>i.
                   exec_bind (read_dem_config_files es host_iface_zero) (\<lambda>is. Inr (i # is))))"

text \<open>The return code, which is the number of files, and the table of interfaces.\<close>

definition init_interfaces :: "directory option \<Rightarrow> (int \<times> host_iface list) exec" where
  "init_interfaces dir =
     (let count = count_dem_config_files dir in
      case dir of
        None \<Rightarrow> Inr (count, [])
      | Some es \<Rightarrow>
          if count = 0 then Inr (- EINVAL, [])
          else exec_bind (read_dem_config_files es host_iface_zero) (\<lambda>is.
            if is = [] then Inr (- ENODATA, []) else Inr (count, is)))"

end
