(* ===== verification/Dem_Show.thy ===== *)
theory Dem_Show
  imports Dem_Interfaces
begin

text \<open>
  The texts that show the log pages of a target or of a host (\<^verbatim>\<open>src/src/dem/logpages.c\<close>), and the usage of a
  target (\<^verbatim>\<open>src/src/dem/interfaces.c\<close>).
\<close>

section \<open>Definitions\<close>

text \<open>\<^verbatim>\<open>%04x\<close> of a number of 16 bits.\<close>

definition hex_digit :: "nat \<Rightarrow> char" where
  "hex_digit d = (if d < 10 then char_of (48 + d) else char_of (87 + d))"

definition hex4 :: "int \<Rightarrow> string" where
  "hex4 n = (let m = nat n in map hex_digit [m div 4096 mod 16, m div 256 mod 16, m div 16 mod 16, m mod 16])"

definition bold :: "string \<Rightarrow> string \<Rightarrow> string" where
  "bold tag val = tag @ ''=<b>'' @ val @ ''</b> ''"

definition format_logpage :: "disc_entry \<Rightarrow> string exec" where
  "format_logpage e =
     c_strcpy (MAX_BODY_SIZE + 1) (Some
       (''<p>'' @ bold ''subnqn'' (dquoted (de_subnqn e)) @ bold ''subtype'' (dquoted (subtype_str (de_subtype e))) @
        bold ''portid'' (show_int (de_portid e)) @ bold ''trtype'' (dquoted (trtype_str (de_trtype e))) @
        bold ''adrfam'' (dquoted (adrfam_str (de_adrfam e))) @ bold ''traddr'' (de_traddr e) @
        bold ''trsvcid'' (de_trsvcid e) @ ''treq=<b>'' @ dquoted (treq_str (de_treq e)) @ ''</b><br>'' @
        (if unat (de_trtype e) = NVMF_TRTYPE_RDMA
         then '' &nbsp; rdma: '' @ bold ''prtype'' (dquoted (prtype_str (de_prtype e))) @
              bold ''qptype'' (dquoted (qptype_str (de_qptype e))) @ bold ''cms'' (dquoted (cms_str (de_cms e))) @
              ''pkey=<b>0x'' @ hex4 (de_pkey e) @ ''</b>''
         else []) @ ''</p>''))"

text \<open>
  Appending to the response. \<open>bytes\<close> is what the code takes for the size of the buffer, which is allocated by
  \<^verbatim>\<open>handle_http_request\<close> and enlarged by one more piece when the text does not fit. The terminator is not
  counted.
\<close>

definition append_text :: "string \<Rightarrow> nat \<times> string \<Rightarrow> (nat \<times> string) exec" where
  "append_text buf st =
     (case st of (bytes, txt) \<Rightarrow>
        let bytes = (if length txt + length buf > bytes then bytes + MAX_BODY_SIZE else bytes) in
        if length txt + length buf < bytes then Inr (bytes, txt @ buf) else Inl Buffer_overflow)"

definition append_page :: "logpage \<Rightarrow> nat \<times> string \<Rightarrow> (nat \<times> string) exec" where
  "append_page lp st = exec_bind (format_logpage (lp_e lp)) (\<lambda>buf. append_text buf st)"

definition no_pages :: "nat \<times> string \<Rightarrow> string" where
  "no_pages st = (if snd st = [] then ''No valid Log Pages'' else snd st)"

definition unattached_title :: string where
  "unattached_title = ''<p><p><b style='' @ squoted ''color:red'' @ ''>Unattached Log Pages</b><p>''"

definition valid_pages :: "subsystem \<Rightarrow> logpage list" where
  "valid_pages ss = filter lp_valid (ss_logpages ss)"

definition target_logpage :: "string \<Rightarrow> ('j, 'w) dem \<Rightarrow> (int \<times> string) exec" where
  "target_logpage alias s =
     (case find_target s alias of
        None \<Rightarrow> Inr (- ENOENT, [])
      | Some t \<Rightarrow>
          exec_bind (each append_page (concat (map valid_pages (tg_subsystems t))) (MAX_BODY_SIZE, [])) (\<lambda>st.
          exec_bind (if tg_unattached t = [] then Inr st
                     else exec_bind (append_text unattached_title st) (each append_page (tg_unattached t))) (\<lambda>st.
            Inr (0, no_pages st))))"

text \<open>The pages a host may see, of the targets from the front of the list on.\<close>

fun host_pages :: "('j, 'w) dem \<Rightarrow> string \<Rightarrow> target list \<Rightarrow> logpage list exec" where
  "host_pages s alias [] = Inr []"
| "host_pages s alias (t # ts) =
     exec_bind (if tg_group_member t then indirect_shared_group s t alias else Inr True) (\<lambda>ok.
     exec_bind (host_pages s alias ts) (\<lambda>ps.
       Inr ((if ok
             then concat (map valid_pages (filter (\<lambda>ss. \<not> is_restricted ss \<or>
                    list_ex (\<lambda>h. hs_alias h = alias) (ss_hosts ss)) (tg_subsystems t)))
             else []) @ ps)))"

definition host_logpage :: "string \<Rightarrow> ('j, 'w) dem \<Rightarrow> (int \<times> string) exec" where
  "host_logpage alias s =
     exec_bind (host_pages s alias (dm_targets s)) (\<lambda>ps.
     exec_bind (each append_page ps (MAX_BODY_SIZE, [])) (\<lambda>st. Inr (0, no_pages st)))"

definition target_usage :: "string \<Rightarrow> ('j, 'w) dem \<Rightarrow> int \<times> string" where
  "target_usage alias s =
     (case find_target s alias of None \<Rightarrow> (- ENOENT, []) | Some _ \<Rightarrow> (0, ''TODO return Target Usage info''))"

end
