(* ===== verification/Dem_Pseudo.thy ===== *)
theory Dem_Pseudo
  imports Dem_Show
begin

text \<open>
  The pseudo target (\<^verbatim>\<open>src/src/dem/pseudo_target.c\<close>): the discovery controller as the hosts see it. A host is
  connected through an endpoint; its commands are handled one at a time.

  The transport is a parameter: reading from and writing to the memory of the host, sending a response,
  and ending the connection.
\<close>

section \<open>Commands\<close>

text \<open>The fields of \<^verbatim>\<open>struct nvme_command\<close> that are read, by the member of the union they are read through.\<close>

record nvme_command =
  nc_opcode :: nat
  nc_command_id :: nat
  nc_fctype :: nat
  nc_offset :: nat
  nc_value :: int
  nc_cdw10 :: nat
  nc_cdw11 :: nat
  nc_cns :: nat
  nc_addr :: nat
  nc_len :: nat
  nc_key :: nat

text \<open>\<^verbatim>\<open>struct nvmf_connect_data\<close> and \<^verbatim>\<open>struct nvme_completion\<close>.\<close>

record connect_data =
  cd_hostnqn :: string
  cd_subsysnqn :: string
  cd_cntlid :: int

record nvme_completion =
  rs_command_id :: nat
  rs_result :: int
  rs_status :: int

text \<open>What is written to the memory of a host: the identification, or a log page with its entries.\<close>

datatype host_data =
    Id_ctrl int nat int string
  | Log_header nat nat
  | Log_page nat nat "disc_entry list"

text \<open>A connection to a host, with its keep-alive timeout counted in rounds of the thread.\<close>

record host_conn =
  hc_ep :: ptr
  hc_countdown :: int
  hc_kato :: int
  hc_inst :: nat

record 'w host_io =
  hx_rma_read :: "ptr \<Rightarrow> nat \<Rightarrow> nat \<Rightarrow> nat \<Rightarrow> 'w \<Rightarrow> int \<times> connect_data \<times> 'w"
  hx_rma_write :: "ptr \<Rightarrow> host_data \<Rightarrow> nat \<Rightarrow> nat \<Rightarrow> nat \<Rightarrow> 'w \<Rightarrow> int \<times> 'w"
  hx_alloc_key :: "ptr \<Rightarrow> nat \<Rightarrow> 'w \<Rightarrow> int \<times> 'w"
  hx_send_rsp :: "ptr \<Rightarrow> nvme_completion \<Rightarrow> 'w \<Rightarrow> 'w"
  hx_disconnect :: "ptr \<Rightarrow> bool \<Rightarrow> 'w \<Rightarrow> 'w"

section \<open>Constants\<close>

definition nvme_admin_get_log_page :: nat where "nvme_admin_get_log_page = 0x02"
definition nvme_admin_identify :: nat where "nvme_admin_identify = 0x06"
definition nvme_admin_set_features :: nat where "nvme_admin_set_features = 0x09"
definition nvme_admin_get_features :: nat where "nvme_admin_get_features = 0x0A"
definition nvme_admin_async_event :: nat where "nvme_admin_async_event = 0x0C"
definition nvme_admin_keep_alive :: nat where "nvme_admin_keep_alive = 0x18"
definition nvme_fabrics_command :: nat where "nvme_fabrics_command = 0x7F"
definition nvme_fabrics_type_property_set :: nat where "nvme_fabrics_type_property_set = 0x00"
definition nvme_fabrics_type_connect :: nat where "nvme_fabrics_type_connect = 0x01"
definition nvme_fabrics_type_property_get :: nat where "nvme_fabrics_type_property_get = 0x04"

definition NVME_SC_INVALID_OPCODE :: int where "NVME_SC_INVALID_OPCODE = 0x1"
definition NVME_SC_INVALID_FIELD :: int where "NVME_SC_INVALID_FIELD = 0x2"
definition NVME_SC_INTERNAL :: int where "NVME_SC_INTERNAL = 0x6"
definition NVME_SC_BAD_ATTRIBUTES :: int where "NVME_SC_BAD_ATTRIBUTES = 0x180"
definition NVME_SC_CONNECT_INVALID_PARAM :: int where "NVME_SC_CONNECT_INVALID_PARAM = 0x182"
definition NVME_SC_CONNECT_INVALID_HOST :: int where "NVME_SC_CONNECT_INVALID_HOST = 0x184"
definition NVME_SC_WRITE_FAULT :: int where "NVME_SC_WRITE_FAULT = 0x280"
definition NVME_SC_READ_ERROR :: int where "NVME_SC_READ_ERROR = 0x281"
definition NVME_SC_DNR :: int where "NVME_SC_DNR = 0x4000"

definition NVME_REG_CAP :: nat where "NVME_REG_CAP = 0"
definition NVME_REG_VS :: nat where "NVME_REG_VS = 0x08"
definition NVME_REG_CC :: nat where "NVME_REG_CC = 0x14"
definition NVME_REG_CSTS :: nat where "NVME_REG_CSTS = 0x1C"
definition NVME_FEAT_ASYNC_EVENT :: nat where "NVME_FEAT_ASYNC_EVENT = 0x0B"
definition NVME_FEAT_KATO :: nat where "NVME_FEAT_KATO = 0x0F"
definition NVME_AER_NOTICE_LOG_PAGE_CHANGE :: int where "NVME_AER_NOTICE_LOG_PAGE_CHANGE = 0xF002"
definition NVME_ID_CNS_CTRL :: nat where "NVME_ID_CNS_CTRL = 1"
definition NVMF_DQ_DEPTH :: nat where "NVMF_DQ_DEPTH = 2"
definition NVME_DISC_SUBSYS_NAME :: string where "NVME_DISC_SUBSYS_NAME = ''nqn.2014-08.org.nvmexpress.discovery''"
definition NVME_VER :: int where "NVME_VER = 0x10201"
definition RETRY_COUNT :: int where "RETRY_COUNT = 200"
definition DELAY_TIMEOUT :: int where "DELAY_TIMEOUT = 100"
definition KATO_INTERVAL :: int where "KATO_INTERVAL = 500"
definition EAGAIN :: int where "EAGAIN = 11"

named_theorems nvme_defs \<open>the values of the constants of the protocol\<close>

declare nvme_admin_get_log_page_def [nvme_defs] nvme_admin_identify_def [nvme_defs]
  nvme_admin_set_features_def [nvme_defs] nvme_admin_get_features_def [nvme_defs]
  nvme_admin_async_event_def [nvme_defs] nvme_admin_keep_alive_def [nvme_defs]
  nvme_fabrics_command_def [nvme_defs] nvme_fabrics_type_property_set_def [nvme_defs]
  nvme_fabrics_type_connect_def [nvme_defs] nvme_fabrics_type_property_get_def [nvme_defs]
  NVME_SC_INVALID_OPCODE_def [nvme_defs] NVME_SC_INVALID_FIELD_def [nvme_defs] NVME_SC_INTERNAL_def [nvme_defs]
  NVME_SC_BAD_ATTRIBUTES_def [nvme_defs] NVME_SC_CONNECT_INVALID_PARAM_def [nvme_defs]
  NVME_SC_CONNECT_INVALID_HOST_def [nvme_defs] NVME_SC_WRITE_FAULT_def [nvme_defs]
  NVME_SC_READ_ERROR_def [nvme_defs] NVME_SC_DNR_def [nvme_defs] NVME_REG_CAP_def [nvme_defs]
  NVME_REG_VS_def [nvme_defs] NVME_REG_CC_def [nvme_defs] NVME_REG_CSTS_def [nvme_defs]
  NVME_FEAT_ASYNC_EVENT_def [nvme_defs] NVME_FEAT_KATO_def [nvme_defs]
  NVME_AER_NOTICE_LOG_PAGE_CHANGE_def [nvme_defs] NVME_ID_CNS_CTRL_def [nvme_defs] NVME_VER_def [nvme_defs]
  RETRY_COUNT_def [nvme_defs] DELAY_TIMEOUT_def [nvme_defs] KATO_INTERVAL_def [nvme_defs] EAGAIN_def [nvme_defs]

section \<open>Properties and features\<close>

text \<open>The status and the new value of \<^verbatim>\<open>csts\<close>.\<close>

definition handle_property_set :: "nvme_command \<Rightarrow> int \<Rightarrow> int \<times> int" where
  "handle_property_set cmd csts =
     (if nc_offset cmd = NVME_REG_CC then (0, if nc_value cmd = 0x460001 then 1 else 8)
      else (NVME_SC_INVALID_FIELD, csts))"

text \<open>The status and the result, which is left alone on an error.\<close>

definition handle_property_get :: "nvme_command \<Rightarrow> int \<Rightarrow> int \<times> int option" where
  "handle_property_get cmd csts =
     (if nc_offset cmd = NVME_REG_CSTS then (0, Some csts)
      else if nc_offset cmd = NVME_REG_CAP then (0, Some 0x200f0003ff)
      else if nc_offset cmd = NVME_REG_VS then (0, Some NVME_VER)
      else (NVME_SC_INVALID_FIELD, None))"

definition handle_get_features :: "nvme_command \<Rightarrow> host_conn \<Rightarrow> int \<times> int option" where
  "handle_get_features cmd host =
     (if nc_cdw10 cmd mod 256 = NVME_FEAT_ASYNC_EVENT then (0, Some NVME_AER_NOTICE_LOG_PAGE_CHANGE)
      else if nc_cdw10 cmd mod 256 = NVME_FEAT_KATO then (0, Some (hc_kato host mod 2 ^ 32))
      else (NVME_SC_INVALID_FIELD, None))"

definition handle_set_features :: "nvme_command \<Rightarrow> host_conn \<Rightarrow> int \<times> host_conn" where
  "handle_set_features cmd host =
     (if nc_cdw10 cmd mod 256 = NVME_FEAT_ASYNC_EVENT then (0, host)
      else if nc_cdw10 cmd mod 256 = NVME_FEAT_KATO
      then (0, host\<lparr>hc_kato := c_int (int (nc_cdw11 cmd) mod 2 ^ 32 * (KATO_INTERVAL div DELAY_TIMEOUT))\<rparr>)
      else (NVME_SC_INVALID_FIELD, host))"

section \<open>Connecting and events\<close>

definition handle_async_event :: "ptr \<Rightarrow> endpoint \<Rightarrow> ('j, 'w) dem \<Rightarrow> ('j, 'w) dem" where
  "handle_async_event e ep s =
     s\<lparr>dm_aen := \<lparr>ar_ptr = dm_next s, ar_ep = e, ar_nqn = ep_nqn ep\<rparr> # dm_aen s, dm_next := Suc (dm_next s)\<rparr>"

definition handle_connect ::
  "'w host_io \<Rightarrow> nvme_command \<Rightarrow> ptr \<Rightarrow> endpoint \<Rightarrow> 'w \<Rightarrow> int \<times> endpoint \<times> 'w" where
  "handle_connect X cmd e ep w =
     (case hx_rma_read X e (nc_addr cmd) (nc_len cmd) (nc_key cmd) w of (ret, data, w) \<Rightarrow>
        if ret \<noteq> 0 then (NVME_SC_READ_ERROR, ep, w)
        else
          (if cd_cntlid data \<noteq> 0xffff then NVME_SC_CONNECT_INVALID_PARAM
           else if cd_subsysnqn data \<noteq> NVME_DISC_SUBSYS_NAME then NVME_SC_CONNECT_INVALID_HOST
           else 0,
           ep\<lparr>ep_nqn := cut MAX_NQN_SIZE (cd_hostnqn data)\<rparr>, w))"

definition ID_CTRL_SIZE :: nat where "ID_CTRL_SIZE = 4096"

definition handle_identify :: "'w host_io \<Rightarrow> nvme_command \<Rightarrow> ptr \<Rightarrow> 'w \<Rightarrow> int \<times> 'w" where
  "handle_identify X cmd e w =
     (if nc_cns cmd \<noteq> NVME_ID_CNS_CTRL then (NVME_SC_BAD_ATTRIBUTES, w)
      else
        let id = Id_ctrl NVME_VER NVMF_DQ_DEPTH (2 ^ 0 + 2 ^ 2 + 2 ^ 20) NVME_DISC_SUBSYS_NAME in
        case hx_rma_write X e id (nc_addr cmd) (min (nc_len cmd) ID_CTRL_SIZE) (nc_key cmd) w of (ret, w) \<Rightarrow>
          (if ret \<noteq> 0 then NVME_SC_WRITE_FAULT else 0, w))"

section \<open>Log pages\<close>

definition host_access :: "subsystem \<Rightarrow> string \<Rightarrow> bool" where
  "host_access ss nqn = list_ex (\<lambda>h. hs_nqn h = nqn) (ss_hosts ss)"

text \<open>The subsystems of a target that a host may use.\<close>

definition visible_subsys :: "string \<Rightarrow> subsystem \<Rightarrow> bool" where
  "visible_subsys nqn ss = (ss_access ss \<noteq> 0 \<or> host_access ss nqn)"

text \<open>The loop of \<^verbatim>\<open>handle_get_log_page_count\<close>.\<close>

fun count_pages :: "('j, 'w) dem \<Rightarrow> string \<Rightarrow> target list \<Rightarrow> nat \<Rightarrow> nat exec" where
  "count_pages s nqn [] numrec = Inr numrec"
| "count_pages s nqn (t # ts) numrec =
     exec_bind (if tg_group_member t then shared_group s t nqn else Inr True) (\<lambda>ok.
       count_pages s nqn ts
         (if ok then fold (\<lambda>ss n. fold (\<lambda>p n. if lp_valid p \<and> visible_subsys nqn ss then Suc n else n)
                (ss_logpages ss) n) (tg_subsystems t) numrec
          else numrec))"

text \<open>
  The loop of \<^verbatim>\<open>handle_get_log_pages\<close>: the entries are copied behind each other; \<open>len\<close> is the size of the
  buffer, which the host has chosen.
\<close>

definition copy_page :: "nat \<Rightarrow> logpage \<Rightarrow> disc_entry list \<Rightarrow> disc_entry list exec" where
  "copy_page len p es =
     (if HDR_SIZE + ENTRY_SIZE * Suc (length es) \<le> len then Inr (es @ [lp_e p]) else Inl Buffer_overflow)"

definition copy_subsys :: "nat \<Rightarrow> string \<Rightarrow> subsystem \<Rightarrow> disc_entry list \<Rightarrow> disc_entry list exec" where
  "copy_subsys len nqn ss =
     each (\<lambda>p es. if lp_valid p \<and> visible_subsys nqn ss then copy_page len p es else Inr es) (ss_logpages ss)"

fun copy_pages :: "nat \<Rightarrow> ('j, 'w) dem \<Rightarrow> string \<Rightarrow> target list \<Rightarrow> disc_entry list \<Rightarrow> disc_entry list exec" where
  "copy_pages len s nqn [] es = Inr es"
| "copy_pages len s nqn (t # ts) es =
     exec_bind (if tg_group_member t then shared_group s t nqn else Inr True) (\<lambda>ok.
     exec_bind (if ok then each (copy_subsys len nqn) (tg_subsystems t) es else Inr es) (copy_pages len s nqn ts))"

definition handle_get_log_page_count ::
  "'w host_io \<Rightarrow> nvme_command \<Rightarrow> ptr \<Rightarrow> endpoint \<Rightarrow> ('j, 'w) dem \<Rightarrow> (int \<times> 'w) exec" where
  "handle_get_log_page_count X cmd e ep s =
     exec_bind (count_pages s (ep_nqn ep) (dm_targets s) 0) (\<lambda>numrec.
       case hx_rma_write X e (Log_header 1 numrec) (nc_addr cmd) (nc_len cmd) (nc_key cmd) (dm_net s) of (ret, w) \<Rightarrow>
         Inr (if ret \<noteq> 0 then NVME_SC_WRITE_FAULT else 0, w))"

text \<open>The counters are the first 16 bytes of the buffer.\<close>

definition handle_get_log_pages ::
  "'w host_io \<Rightarrow> nvme_command \<Rightarrow> ptr \<Rightarrow> endpoint \<Rightarrow> ('j, 'w) dem \<Rightarrow> (int \<times> 'w) exec" where
  "handle_get_log_pages X cmd e ep s =
     (case hx_alloc_key X e (nc_len cmd) (dm_net s) of (ret, w) \<Rightarrow>
        if ret \<noteq> 0 then Inr (NVME_SC_INTERNAL, w)
        else
          exec_bind (copy_pages (nc_len cmd) s (ep_nqn ep) (dm_targets s) []) (\<lambda>es.
            if nc_len cmd < 16 then Inl Buffer_overflow
            else
              case hx_rma_write X e (Log_page 1 (length es) es) (nc_addr cmd) (nc_len cmd) (nc_key cmd) w of (ret, w) \<Rightarrow>
                Inr (if ret \<noteq> 0 then NVME_SC_WRITE_FAULT else 0, w)))"

section \<open>Requests\<close>

text \<open>
  A command of a host: the status, the connection and the state afterwards. The response is written to the
  command buffer of the endpoint, so it is sent to the host in any case.
\<close>

definition handle_command ::
  "'w host_io \<Rightarrow> nvme_command \<Rightarrow> host_conn \<Rightarrow> endpoint \<Rightarrow> ('j, 'w) dem \<Rightarrow>
     (int \<times> int option \<times> host_conn \<times> ('j, 'w) dem) exec" where
  "handle_command X cmd host ep s =
     (let e = hc_ep host;
          op = nc_opcode cmd;
          put = (\<lambda>ep s. s\<lparr>dm_endpoints := (dm_endpoints s)(e \<mapsto> ep)\<rparr>)
      in
      if op = nvme_fabrics_command
      then
        (if nc_fctype cmd = nvme_fabrics_type_property_set
         then case handle_property_set cmd (ep_csts ep) of (ret, csts) \<Rightarrow> Inr (ret, None, host, put (ep\<lparr>ep_csts := csts\<rparr>) s)
         else if nc_fctype cmd = nvme_fabrics_type_property_get
         then case handle_property_get cmd (ep_csts ep) of (ret, result) \<Rightarrow> Inr (ret, result, host, s)
         else if nc_fctype cmd = nvme_fabrics_type_connect
         then case handle_connect X cmd e ep (dm_net s) of (ret, ep, w) \<Rightarrow> Inr (ret, None, host, (put ep s)\<lparr>dm_net := w\<rparr>)
         else Inr (NVME_SC_INVALID_OPCODE, None, host, s))
      else if op = nvme_admin_identify
      then case handle_identify X cmd e (dm_net s) of (ret, w) \<Rightarrow> Inr (ret, None, host, s\<lparr>dm_net := w\<rparr>)
      else if op = nvme_admin_keep_alive then Inr (0, None, host, s)
      else if op = nvme_admin_get_log_page
      then exec_bind (if nc_len cmd = 16 then handle_get_log_page_count X cmd e ep s else handle_get_log_pages X cmd e ep s)
             (\<lambda>(ret, w). Inr (ret, None, host, s\<lparr>dm_net := w\<rparr>))
      else if op = nvme_admin_get_features
      then case handle_get_features cmd host of (ret, result) \<Rightarrow> Inr (ret, result, host, s)
      else if op = nvme_admin_set_features
      then case handle_set_features cmd host of (ret, host) \<Rightarrow> Inr (ret, None, host, s)
      else if op = nvme_admin_async_event then Inr (0, None, host, handle_async_event e ep s)
      else Inr (NVME_SC_INVALID_OPCODE, None, host, s))"

text \<open>\<^verbatim>\<open>(NVME_SC_DNR | ret) << 1\<close> in a field of 16 bits; no status has the bit of \<^verbatim>\<open>NVME_SC_DNR\<close>.\<close>

definition rsp_status :: "int \<Rightarrow> int" where
  "rsp_status ret = (if ret = 0 then 0 else ((NVME_SC_DNR + ret) * 2) mod 2 ^ 16)"

definition handle_request ::
  "'w host_io \<Rightarrow> nvme_command \<Rightarrow> host_conn \<Rightarrow> ('j, 'w) dem \<Rightarrow> (int \<times> host_conn \<times> ('j, 'w) dem) exec" where
  "handle_request X cmd host s =
     (case dm_endpoints s (hc_ep host) of
        None \<Rightarrow> Inl Use_after_free
      | Some ep \<Rightarrow>
          exec_bind (handle_command X cmd host ep s) (\<lambda>(ret, result, host, s).
            let resp = \<lparr>rs_command_id = nc_command_id cmd,
                        rs_result = (case result of None \<Rightarrow> 0 | Some v \<Rightarrow> v), rs_status = rsp_status ret\<rparr>
            in Inr (ret, host, s\<lparr>dm_net := hx_send_rsp X (hc_ep host) resp (dm_net s)\<rparr>)))"

section \<open>The thread that serves the hosts\<close>

text \<open>
  One round for a host: the commands that have arrived are handled in order, up to the first that fails, and
  the round ends with the code of the next poll. The connection goes on when there was nothing to read and
  the countdown has not run out; otherwise it is closed and the endpoint freed, without a look at
  \<^verbatim>\<open>aen_req_list\<close>.
\<close>

fun serve_commands ::
  "'w host_io \<Rightarrow> nvme_command list \<Rightarrow> int \<Rightarrow> host_conn \<Rightarrow> ('j, 'w) dem \<Rightarrow> (int \<times> host_conn \<times> ('j, 'w) dem) exec" where
  "serve_commands X [] code host s = Inr (code, host, s)"
| "serve_commands X (cmd # cmds) code host s =
     exec_bind (handle_request X cmd host s) (\<lambda>(ret, host, s).
       if ret \<noteq> 0 then Inr (ret, host, s)
       else serve_commands X cmds code (host\<lparr>hc_countdown := hc_kato host\<rparr>) s)"

definition close_host :: "'w host_io \<Rightarrow> host_conn \<Rightarrow> ('j, 'w) dem \<Rightarrow> ('j, 'w) dem" where
  "close_host X host s =
     s\<lparr>dm_net := hx_disconnect X (hc_ep host) True (dm_net s),
       dm_endpoints := (dm_endpoints s)(hc_ep host := None)\<rparr>"

definition serve_host ::
  "'w host_io \<Rightarrow> nvme_command list \<Rightarrow> int \<Rightarrow> host_conn \<Rightarrow> ('j, 'w) dem \<Rightarrow> (host_conn option \<times> ('j, 'w) dem) exec" where
  "serve_host X cmds code host s =
     exec_bind (serve_commands X cmds code host s) (\<lambda>(ret, host, s).
       if ret = - EAGAIN \<and> hc_countdown host - 1 > 0
       then Inr (Some (host\<lparr>hc_countdown := hc_countdown host - 1\<rparr>), s)
       else Inr (None, close_host X host s))"

text \<open>A new connection taken from the queue; a host that has not given its name yet is called by a number.\<close>

definition accept_host :: "nat \<Rightarrow> ptr \<Rightarrow> ('j, 'w) dem \<Rightarrow> (host_conn \<times> ('j, 'w) dem) exec" where
  "accept_host inst e s =
     (case dm_endpoints s e of
        None \<Rightarrow> Inl Use_after_free
      | Some ep \<Rightarrow>
          let ep = (if ep_nqn ep = [] then ep\<lparr>ep_nqn := ''new host inst '' @ show_nat inst\<rparr> else ep)
          in Inr (\<lparr>hc_ep = e, hc_countdown = RETRY_COUNT, hc_kato = RETRY_COUNT, hc_inst = inst\<rparr>,
                  s\<lparr>dm_endpoints := (dm_endpoints s)(e \<mapsto> ep)\<rparr>))"

text \<open>\<^verbatim>\<open>run_pseudo_target\<close> gives a connected endpoint; the part of \<^verbatim>\<open>add_host_to_queue\<close> before the queue.\<close>

definition new_endpoint :: "('j, 'w) dem \<Rightarrow> ptr \<times> ('j, 'w) dem" where
  "new_endpoint s =
     (dm_next s, s\<lparr>dm_endpoints := (dm_endpoints s)(dm_next s \<mapsto> \<lparr>ep_nqn = [], ep_cmd = True, ep_connected = True, ep_csts = 0\<rparr>),
                   dm_next := Suc (dm_next s)\<rparr>)"

text \<open>
  One round of the thread over the connected hosts; \<open>inbox\<close> gives for each endpoint the commands that have
  arrived and the code of the poll after them.
\<close>

fun serve_round ::
  "'w host_io \<Rightarrow> (ptr \<Rightarrow> nvme_command list \<times> int) \<Rightarrow> host_conn list \<Rightarrow> ('j, 'w) dem \<Rightarrow>
     (host_conn list \<times> ('j, 'w) dem) exec" where
  "serve_round X inbox [] s = Inr ([], s)"
| "serve_round X inbox (h # hs) s =
     (case inbox (hc_ep h) of (cmds, code) \<Rightarrow>
        exec_bind (serve_host X cmds code h s) (\<lambda>(h', s).
        exec_bind (serve_round X inbox hs s) (\<lambda>(hs', s).
          Inr (case h' of None \<Rightarrow> hs' | Some h \<Rightarrow> h # hs', s))))"

end
