(* ===== verification/Dem_Daemon.thy ===== *)
theory Dem_Daemon
  imports Dem_Pseudo
begin

text \<open>
  The main program of the controller (\<^verbatim>\<open>src/src/dem/daemon.c\<close>): the queues and the configuration of the
  targets at start-up, the periodic work on the targets, the signature file, and what is freed at the end.
\<close>

section \<open>Periodic work\<close>

definition IDLE_TIMEOUT :: int where "IDLE_TIMEOUT = 100"
definition MINUTES :: int where "MINUTES = 60 * 1000"
definition KEEP_ALIVE_TIMER :: int where "KEEP_ALIVE_TIMER = 120000"

text \<open>\<^verbatim>\<open>refresh * MINUTES / IDLE_TIMEOUT\<close> with the arithmetic of 32-bit integers.\<close>

definition refresh_ticks :: "int \<Rightarrow> int" where
  "refresh_ticks r = (let x = c_int (r * MINUTES) in sgn x * (\<bar>x\<bar> div IDLE_TIMEOUT))"

fun keep_alive_queues :: "'w network \<Rightarrow> ctrl_queue list \<Rightarrow> target \<Rightarrow> 'w \<Rightarrow> int \<times> target \<times> 'w" where
  "keep_alive_queues N [] t w = (0, t, w)"
| "keep_alive_queues N (dq # dqs) t w =
     (if \<not> cq_connected dq \<or> cq_failed_kato dq then keep_alive_queues N dqs t w
      else case nw_keep_alive N (Queue (cq_ptr dq)) w of (ret, w) \<Rightarrow>
        if ret = 0 then keep_alive_queues N dqs t w
        else case disconnect_queue N (cq_ptr dq) t w of (t, w) \<Rightarrow>
          (ret, t\<lparr>tg_log_page_retry_count := LOG_PAGE_RETRY\<rparr>, w))"

definition keep_alive_control :: "'w network \<Rightarrow> target \<Rightarrow> 'w \<Rightarrow> (target \<times> 'w) exec" where
  "keep_alive_control N t w =
     (if tg_mgmt_mode t \<noteq> IN_BAND_MGMT then Inr (t, w)
      else if sc_connected (tg_sc_iface t)
      then case nw_keep_alive N (Control (tg_ptr t)) w of (ret, w) \<Rightarrow>
             Inr (if ret = 0 then t else upd_sc (\<lambda>sc. sc\<lparr>sc_connected := False\<rparr>) t, w)
      else exec_bind (connect_control N t w) (\<lambda>(ret, t, w).
             Inr (if ret = 0 then upd_sc (\<lambda>sc. sc\<lparr>sc_connected := True\<rparr>) t else t, w)))"

definition keep_alive_work :: "'w network \<Rightarrow> target \<Rightarrow> 'w \<Rightarrow> 'w sent" where
  "keep_alive_work N t w =
     (let t = t\<lparr>tg_kato_countdown := tg_kato_countdown t - 1\<rparr> in
      if tg_kato_countdown t > 0 then Inr (0, t, w)
      else case keep_alive_queues N (tg_queues t) t w of (ret, t, w) \<Rightarrow>
        if ret \<noteq> 0 then Inr (ret, t, w)
        else exec_bind (keep_alive_control N t w) (\<lambda>(t, w).
          Inr (0, t\<lparr>tg_kato_countdown := KEEP_ALIVE_TIMER div IDLE_TIMEOUT div 2\<rparr>, w)))"

text \<open>
  The countdowns of a target after the keep-alive: whether it is time to refresh. The second one goes on only
  when the first has run out.
\<close>

definition count_down :: "target \<Rightarrow> bool \<times> target" where
  "count_down t =
     (let retry = (if tg_log_page_retry_count t = 0 then 0 else tg_log_page_retry_count t - 1);
          t = t\<lparr>tg_log_page_retry_count := retry\<rparr>
      in if retry \<noteq> 0 then (False, t)
         else
           let t = t\<lparr>tg_refresh_countdown := tg_refresh_countdown t - 1\<rparr>
           in (tg_refresh_countdown t = 0, t))"

definition refresh_all :: "'w network \<Rightarrow> ptr \<Rightarrow> ('j, 'w) dem \<Rightarrow> ('j, 'w) dem exec" where
  "refresh_all N p s =
     exec_bind (on_target p (\<lambda>t w. exec_bind (refresh_log_pages N t w) (\<lambda>(t, w).
        Inr ((), t\<lparr>tg_refresh_countdown := refresh_ticks (tg_refresh t)\<rparr>, w))) s) (\<lambda>(_, s). Inr s)"

text \<open>The body of the loop of \<^verbatim>\<open>periodic_work\<close>, for the target at an address.\<close>

definition periodic_target :: "'j jansson \<Rightarrow> 'w network \<Rightarrow> ptr \<Rightarrow> ('j, 'w) dem \<Rightarrow> ('j, 'w) dem exec" where
  "periodic_target J N p s =
     exec_bind (on_target p (keep_alive_work N) s) (\<lambda>(ret, s).
       if ret \<noteq> 0 then Inr s
       else
         exec_bind (on_target p (\<lambda>t w. case count_down t of (due, t) \<Rightarrow> Inr (due, t, w)) s) (\<lambda>(due, s).
           if \<not> due then Inr s
           else
             case get_target s p of
               None \<Rightarrow> Inl Use_after_free
             | Some t \<Rightarrow>
                 exec_bind (if tg_mgmt_mode t \<noteq> LOCAL_MGMT then exec_bind (get_config J N p s) (\<lambda>(_, s). Inr s) else Inr s)
                   (refresh_all N p)))"

definition periodic_work :: "'j jansson \<Rightarrow> 'w network \<Rightarrow> ('j, 'w) dem \<Rightarrow> ('j, 'w) dem exec" where
  "periodic_work J N s = each (periodic_target J N) (map tg_ptr (dm_targets s)) s"

section \<open>Start\<close>

definition init_discovery_queue :: "'w network \<Rightarrow> ptr \<Rightarrow> portid \<Rightarrow> ('j, 'w) dem \<Rightarrow> ('j, 'w) dem exec" where
  "init_discovery_queue N p x s =
     exec_bind (new_queue N p None x s) (\<lambda>s.
       case get_target s p of
         None \<Rightarrow> Inl Use_after_free
       | Some t \<Rightarrow> each (\<lambda>q s. with_subsys p q (\<lambda>_ ss s. new_queue N p (Some ss) x s) s) (map ss_ptr (tg_subsystems t)) s)"

definition init_target :: "'j jansson \<Rightarrow> 'w network \<Rightarrow> ptr \<Rightarrow> ('j, 'w) dem \<Rightarrow> ('j, 'w) dem exec" where
  "init_target J N p s =
     (let s = upd_target p (\<lambda>t. t\<lparr>tg_refresh_countdown := refresh_ticks (tg_refresh t),
                                 tg_log_page_retry_count := LOG_PAGE_RETRY\<rparr>) s
      in case get_target s p of
           None \<Rightarrow> Inl Use_after_free
         | Some t \<Rightarrow>
             exec_bind
               (if tg_mgmt_mode t = LOCAL_MGMT then Inr s
                else exec_bind (get_config J N p s) (\<lambda>(ret, s).
                  if ret \<noteq> 0 then Inr s else exec_bind (config_target N p s) (\<lambda>(_, s). Inr s)))
               (each (init_discovery_queue N p) (tg_portids t)))"

definition init_targets :: "'j jansson \<Rightarrow> 'w network \<Rightarrow> ('j, 'w) dem \<Rightarrow> ('j, 'w) dem exec" where
  "init_targets J N s = each (init_target J N) (map tg_ptr (dm_targets s)) s"

text \<open>
  The first line of the file, of at most 248 characters, is put behind \<^verbatim>\<open>Basic\<close> into memory that is freed
  before the function returns, and the string keeps pointing there, with the length of that text.
\<close>

definition signature_line :: "string \<Rightarrow> string" where
  "signature_line text = takeWhile (\<lambda>c. c \<noteq> CHR 0x0A \<and> c \<noteq> CHR 0x00) (take 248 text)"

definition set_signature :: "string option \<Rightarrow> signature \<Rightarrow> signature" where
  "set_signature file sg = (case file of None \<Rightarrow> sg | Some text \<Rightarrow> Freed_signature (length (''Basic '' @ signature_line text)))"

text \<open>
  The part of \<^verbatim>\<open>main\<close> from the signature to the targets, with the document that \<^verbatim>\<open>init_json\<close> has read: the
  server, or the code the program ends with.
\<close>

definition dem_empty :: "'j \<Rightarrow> string \<Rightarrow> 'w \<Rightarrow> ('j, 'w) dem" where
  "dem_empty root shared w =
     \<lparr>dm_root = root, dm_targets = [], dm_groups = [], dm_hosts = [], dm_aen = [], dm_endpoints = Map.empty,
      dm_next = 1, dm_shared_nqn = shared, dm_net = w\<rparr>"

definition start_dem ::
  "'j jansson \<Rightarrow> 'w network \<Rightarrow> string option \<Rightarrow> directory option \<Rightarrow> 'j \<Rightarrow> string \<Rightarrow> 'w \<Rightarrow>
     (int + ('j, 'w) dem server) exec" where
  "start_dem J N sigfile dir root shared w =
     (let sg = set_signature sigfile s_signature_default in
      exec_bind (init_interfaces dir) (\<lambda>(ret, ifaces).
        if ret < 0 then Inr (Inl ret)
        else
          exec_bind (build_lists J N (dem_empty root shared w)) (\<lambda>s.
          exec_bind (init_targets J N s) (\<lambda>s.
            Inr (Inr \<lparr>sv_signature = sg, sv_interfaces = ifaces, sv_state = s\<rparr>)))))"

section \<open>End\<close>

text \<open>The connections of a target that are closed, and the port of its interface that is freed.\<close>

definition cleanup_target :: "'w network \<Rightarrow> target \<Rightarrow> 'w \<Rightarrow> 'w exec" where
  "cleanup_target N t w =
     (let w = fold (\<lambda>dq. if cq_connected dq then nw_disconnect N (Queue (cq_ptr dq)) else id) (tg_queues t) w in
      if tg_mgmt_mode t = IN_BAND_MGMT \<and> inb_pointer_clobbered (tg_sc_iface t) then Inl Wild_pointer
      else if tg_mgmt_mode t = IN_BAND_MGMT \<and> sc_inb_freed (tg_sc_iface t) then Inl Use_after_free
      else Inr w)"

definition cleanup_target_list :: "'w network \<Rightarrow> ('j, 'w) dem \<Rightarrow> ('j, 'w) dem exec" where
  "cleanup_target_list N s =
     exec_bind (each (cleanup_target N) (dm_targets s) (dm_net s)) (\<lambda>w. Inr (s\<lparr>dm_targets := [], dm_net := w\<rparr>))"

definition cleanup_lists :: "'w network \<Rightarrow> ('j, 'w) dem \<Rightarrow> ('j, 'w) dem exec" where
  "cleanup_lists N s = cleanup_target_list N (s\<lparr>dm_hosts := [], dm_groups := []\<rparr>)"

end
