(* ===== verification/Dem_Frame.thy ===== *)
theory Dem_Frame
  imports Dem_Daemon
begin

text \<open>
  What the functions that talk to a target leave alone. Messages and log pages change the connections, the
  queues and the pages of a target, never which targets there are, nor the document, the groups and the
  links of hosts. The locale \<open>framed\<close> states this for every assertion on the controller that does not
  depend on those parts, as rules that are applied backwards along the code.
\<close>

section \<open>The skeleton of the controller\<close>

definition core :: "target \<Rightarrow> ptr \<times> bool" where
  "core t = (tg_ptr t, tg_group_member t)"

definition frame :: "('j, 'w) dem \<Rightarrow> ('j, 'w) dem \<Rightarrow> bool" where
  "frame s s' =
     (dm_root s' = dm_root s \<and> dm_groups s' = dm_groups s \<and> dm_hosts s' = dm_hosts s \<and>
      dm_endpoints s' = dm_endpoints s \<and> dm_shared_nqn s' = dm_shared_nqn s \<and>
      map core (dm_targets s') = map core (dm_targets s) \<and> dm_next s \<le> dm_next s' \<and>
      set (dm_aen s') \<subseteq> set (dm_aen s))"

lemma frame_refl [simp]: "frame s s"
  by (simp add: frame_def)

lemma frame_trans: "frame s s' \<Longrightarrow> frame s' s'' \<Longrightarrow> frame s s''"
  by (auto simp: frame_def)

text \<open>A function on a target that keeps its address and its flag.\<close>

definition kept :: "(target \<Rightarrow> 'w \<Rightarrow> ('a \<times> target \<times> 'w) exec) \<Rightarrow> bool" where
  "kept f = (\<forall>t w. ensures (f t w) (\<lambda>(_, t', _). core t' = core t))"

lemma keptI: "(\<And>t w. ensures (f t w) (\<lambda>(_, t', _). core t' = core t)) \<Longrightarrow> kept f"
  by (simp add: kept_def)

lemma keptE: "kept f \<Longrightarrow> (\<And>x t' w'. core t' = core t \<Longrightarrow> Q (x, t', w')) \<Longrightarrow> ensures (f t w) Q"
  unfolding kept_def by (rule ensures_mono [of "f t w" "\<lambda>(_, t', _). core t' = core t" Q]) auto

named_theorems kept_intros \<open>functions on a target that keep its address and flag\<close>

section \<open>Messages\<close>

lemma core_upd_sc [simp]: "core (upd_sc f t) = core t"
  by (simp add: upd_sc_def core_def)

lemma core_upd_queue [simp]: "core (upd_queue p f t) = core t"
  by (simp add: upd_queue_def core_def)

lemma kept_oob [kept_intros]: "kept (oob_post N path body)" "kept (oob_delete N path)"
  by (auto simp: kept_def oob_post_def oob_delete_def split: prod.split intro: ensuresI)

lemma kept_connect [kept_intros]: "kept (connect_control N)"
  by (auto simp: kept_def connect_control_def Let_def split: prod.split intro: ensuresI)

lemma kept_send_set_config [kept_intros]: "kept (send_set_config N msg)"
proof (rule keptI)
  fix t w
  have again: "ensures (connect_control N t w) (\<lambda>(ret, t', w). core t' = core t0)" if "core t = core t0" for t w t0
    using that by (intro keptE [OF kept_connect]) simp
  show "ensures (send_set_config N msg t w) (\<lambda>(_, t', _). core t' = core t)"
    unfolding send_set_config_def Let_def
    by (auto split: prod.split intro!: ensures_mono [OF again])
qed

lemma kept_then [kept_intros]: "kept f \<Longrightarrow> kept g \<Longrightarrow> kept (send_then f g)"
  by (auto simp: send_then_def intro!: keptI elim!: keptE)

lemma kept_both [kept_intros]: "kept f \<Longrightarrow> kept g \<Longrightarrow> kept (send_both f g)"
  by (auto simp: send_both_def intro!: keptI elim!: keptE)

lemma kept_nothing [kept_intros]: "kept send_nothing"
  by (simp add: kept_def send_nothing_def)

lemma kept_by_mode [kept_intros]: "kept f \<Longrightarrow> kept g \<Longrightarrow> kept (by_mode f g)"
  by (auto simp: by_mode_def intro!: keptI elim!: keptE split: mgmt_mode.split)

lemma kept_until [kept_intros]: "(\<And>x. kept (f x)) \<Longrightarrow> kept (send_until f xs)"
  unfolding send_until_def by (induction xs) (auto intro!: kept_intros)

lemma kept_all [kept_intros]: "(\<And>x. kept (f x)) \<Longrightarrow> kept (send_all f xs)"
  unfolding send_all_def by (induction xs) (auto intro!: kept_intros)

lemmas message_defs =
  send_set_portid_oob_def send_set_config_oob_def send_update_subsys_oob_def
  send_host_config_inb_def send_link_host_inb_def send_link_host_oob_def link_host_msg_def
  send_unlink_host_inb_def send_unlink_host_oob_def unlink_host_msg_def send_del_host_inb_def
  send_del_host_oob_def del_host_msg_def send_link_portid_inb_def send_link_portid_oob_def
  send_unlink_portid_inb_def send_unlink_portid_oob_def unlink_portid_msg_def
  send_del_portid_inb_def send_del_portid_oob_def del_portid_msg_def config_portid_oob_def
  config_portid_msg_def send_set_ns_inb_def send_set_ns_oob_def set_ns_msg_def send_del_ns_inb_def
  send_del_ns_oob_def send_del_subsys_inb_def send_del_subsys_oob_def del_subsys_msg_def config_subsys_inb_def
  send_del_target_inb_def send_del_target_oob_def send_del_target_def config_target_inb_subsys_def

lemma kept_config_portid_inb [kept_intros]: "kept (config_portid_inb N p)"
  by (auto simp: config_portid_inb_def intro!: keptI ensuresI [of "build_set_port_config_inb p"]
      keptE [OF kept_send_set_config])

lemma kept_link_portid [kept_intros]: "kept (link_portid_msg N ss p)"
proof -
  have "kept (by_mode (send_link_portid_inb N ss p) (send_link_portid_oob N ss p))"
    unfolding message_defs by (intro kept_intros)
  then show ?thesis by (auto simp: link_portid_msg_def intro!: keptI elim: keptE)
qed

lemma kept_diag:
  assumes "\<And>t. kept (f t)"
  shows "kept (\<lambda>t. f t t)"
proof (rule keptI)
  show "ensures (f t t w) (\<lambda>(_, t', _). core t' = core t)" for t w
    by (rule keptE [OF assms]) simp
qed

lemma kept_config_subsys_oob [kept_intros]: "kept (config_subsys_oob N ss)"
proof -
  have ports: "kept (\<lambda>t. send_both (if c then send_nothing else send_all (send_link_portid_oob N ss) (tg_portids t))
      send_nothing t)" for c
    by (rule kept_diag [of "\<lambda>t. send_both (if c then send_nothing
          else send_all (send_link_portid_oob N ss) (tg_portids t)) send_nothing"])
      (auto simp: message_defs intro!: kept_intros)
  show ?thesis
    unfolding config_subsys_oob_def Let_def message_defs
    by (intro kept_intros) (rule ports [unfolded message_defs])
qed

lemma kept_config_target_inb_msgs [kept_intros]: "kept (config_target_inb_msgs N)"
proof (rule keptI)
  fix t w
  have "kept (send_then (send_until (config_portid_inb N) ps) (send_until (config_target_inb_subsys N ps) sss))" for ps sss
    unfolding message_defs by (auto intro!: kept_intros)
  then show "ensures (config_target_inb_msgs N t w) (\<lambda>(_, t', _). core t' = core t)"
    unfolding config_target_inb_msgs_def by (rule keptE) simp
qed

section \<open>Log pages\<close>

lemma core_save_log_page [simp]: "core (save_log_page portid e t) = core t"
  by (simp add: save_log_page_def core_def split: option.split)

lemma core_save_log_pages [simp]: "core (save_log_pages es portid t) = core t"
  unfolding save_log_pages_def by (induction es arbitrary: t) simp_all

lemma core_invalidate [simp]: "core (invalidate_log_pages t) = core t"
  by (simp add: invalidate_log_pages_def core_def)

lemma core_disconnect_failed: "disconnect_failed N q t w = (t', w') \<Longrightarrow> core t' = core t"
  by (auto simp: disconnect_failed_def disconnect_queue_def split: if_splits)

lemma core_upd [simp]:
  "core (t\<lparr>tg_log_page_retry_count := n\<rparr>) = core t" "core (t\<lparr>tg_queues := qs\<rparr>) = core t"
  "core (t\<lparr>tg_refresh_countdown := n\<rparr>) = core t" "core (t\<lparr>tg_kato_countdown := n\<rparr>) = core t"
  "core (t\<lparr>tg_refresh := n\<rparr>) = core t" "core (t\<lparr>tg_subsystems := sss\<rparr>) = core t"
  "core (t\<lparr>tg_portids := ps\<rparr>) = core t" "core (t\<lparr>tg_sc_iface := sc\<rparr>) = core t"
  "core (t\<lparr>tg_devices := ds\<rparr>) = core t" "core (t\<lparr>tg_fabric_ifaces := fs\<rparr>) = core t"
  "core (t\<lparr>tg_unattached := lps\<rparr>) = core t" "core (t\<lparr>tg_alias := a\<rparr>) = core t"
  "core (t\<lparr>tg_mgmt_mode := m\<rparr>) = core t"
  by (simp_all add: core_def)

lemma core_fetch: "fetch_log_pages N dq t w = Inr (t', w') \<Longrightarrow> core t' = core t"
  by (auto simp: fetch_log_pages_def split: prod.splits if_splits)

lemma core_connect_queue: "connect_queue N dq t w = Inr (ret, t', w') \<Longrightarrow> core t' = core t"
  by (auto simp: connect_queue_def split: prod.splits)

lemma core_refresh_queue: "refresh_queue N dq t w = Inr (t', w') \<Longrightarrow> core t' = core t"
  by (auto simp: refresh_queue_def Let_def split: if_splits
      dest!: core_fetch core_connect_queue core_disconnect_failed)

lemma core_refresh_queues: "refresh_queues N dqs t w = Inr (t', w') \<Longrightarrow> core t' = core t"
  by (induction dqs arbitrary: t w) (auto dest: core_refresh_queue)

lemma core_refresh_log_pages: "refresh_log_pages N t w = Inr (t', w') \<Longrightarrow> core t' = core t"
  by (auto simp: refresh_log_pages_def dest: core_refresh_queues)

lemma kept_refresh [kept_intros]:
  "kept (\<lambda>t w. exec_bind (refresh_log_pages N t w) (\<lambda>(t, w). Inr ((), t, w)))"
  by (auto intro!: keptI ensuresI dest: core_refresh_log_pages split: prod.splits)

lemma kept_create_queue [kept_intros]: "kept (create_discovery_queue N shared ss p nxt)"
  by (auto simp: create_discovery_queue_def Let_def intro!: keptI ensuresI
      dest!: core_fetch core_connect_queue core_disconnect_failed split: prod.splits if_splits)

section \<open>Assertions on the skeleton\<close>

lemma map_core_upd:
  "(\<And>t. t \<in> set ts \<Longrightarrow> tg_ptr t = p \<Longrightarrow> core (f t) = core t) \<Longrightarrow>
     map core (map (\<lambda>t. if tg_ptr t = p then f t else t) ts) = map core ts"
  by (induction ts) auto

lemma find_SomeD: "List.find P xs = Some x \<Longrightarrow> x \<in> set xs \<and> P x"
  by (auto simp: find_Some_iff)

text \<open>
  An assertion that depends on the skeleton only. The rules for the functions on a target follow once, for
  each such assertion.
\<close>

locale framed =
  fixes I :: "('j, 'w) dem \<Rightarrow> bool"
  assumes stable: "frame s s' \<Longrightarrow> I s \<Longrightarrow> I s'"
    and distinct_targets: "I s \<Longrightarrow> distinct (map tg_ptr (dm_targets s))"
begin

lemma upd_target_I:
  "I s \<Longrightarrow> (\<And>t. core (f t) = core t) \<Longrightarrow> I (upd_target p f s)"
  by (rule stable [of s]) (simp_all add: frame_def upd_target_def map_core_upd del: map_map)

lemma upd_net_I: "I s \<Longrightarrow> I (s\<lparr>dm_net := w\<rparr>)"
  by (rule stable [of s]) (simp_all add: frame_def)

lemma upd_next_I: "I s \<Longrightarrow> dm_next s \<le> n \<Longrightarrow> I (s\<lparr>dm_next := n\<rparr>)"
  by (rule stable [of s]) (simp_all add: frame_def)

lemma on_target_I:
  assumes "I s" "kept f" "\<And>x s'. I s' \<Longrightarrow> Q (x, s')"
  shows "ensures (on_target p f s) Q"
proof (cases "get_target s p")
  case (Some t)
  then have p: "tg_ptr t = p" by (auto simp: get_target_def find_Some_iff)
  have same: "t2 = t" if "t2 \<in> set (dm_targets s)" "tg_ptr t2 = p" for t2
    using that Some p distinct_targets [OF assms(1)]
    by (auto simp: get_target_def distinct_map inj_on_def dest!: find_SomeD)
  have "I ((upd_target p (\<lambda>_. t') s)\<lparr>dm_net := w'\<rparr>)" if "core t' = core t" for t' w'
    using that same by (intro stable [OF _ assms(1)]) (auto simp: frame_def upd_target_def intro!: map_core_upd)
  then show ?thesis
    using assms(3) Some by (auto simp: on_target_def intro!: keptE [OF assms(2)])
qed (simp add: on_target_def)

lemma send_to_I: "I s \<Longrightarrow> kept f \<Longrightarrow> (\<And>x s'. I s' \<Longrightarrow> Q (x, s')) \<Longrightarrow> ensures (send_to p f s) Q"
  unfolding send_to_def by (rule on_target_I)

lemma send_quiet_I: "I s \<Longrightarrow> kept f \<Longrightarrow> (\<And>s'. I s' \<Longrightarrow> Q s') \<Longrightarrow> ensures (send_quiet p f s) Q"
  by (auto simp: send_quiet_def intro!: send_to_I)

lemma with_subsys_I:
  "I s \<Longrightarrow> (\<And>t ss. get_target s p = Some t \<Longrightarrow> ensures (k t ss s) Q) \<Longrightarrow> ensures (with_subsys p q k s) Q"
  by (auto simp: with_subsys_def get_subsys_def split: option.split)

lemma with_portid_I:
  "I s \<Longrightarrow> (\<And>t x. get_target s p = Some t \<Longrightarrow> ensures (k t x s) Q) \<Longrightarrow> ensures (with_portid p q k s) Q"
  by (auto simp: with_portid_def get_portid_def split: option.split)

lemma each_I:
  assumes "I s" "\<And>x s. I s \<Longrightarrow> ensures (f x s) I" "\<And>s'. I s' \<Longrightarrow> Q s'"
  shows "ensures (each f xs s) Q"
proof -
  have "ensures (each f xs s) I"
    using assms(1)
  proof (induction xs arbitrary: s)
    case (Cons x xs)
    then show ?case using ensures_mono [OF assms(2) [OF Cons.prems]] by simp
  qed simp
  then show ?thesis using assms(3) by (rule ensures_mono)
qed

lemma upd_subsys_I: "I s \<Longrightarrow> I (upd_subsys p q f s)"
  unfolding upd_subsys_def by (rule upd_target_I) simp_all

lemma target_refresh_I: "I s \<Longrightarrow> (\<And>x s'. I s' \<Longrightarrow> Q (x, s')) \<Longrightarrow> ensures (target_refresh N a s) Q"
  by (auto simp: target_refresh_def split: option.split intro!: on_target_I kept_refresh)

lemma refresh_target_I: "I s \<Longrightarrow> (\<And>s'. I s' \<Longrightarrow> Q s') \<Longrightarrow> ensures (refresh_target N p s) Q"
  by (auto simp: refresh_target_def split: option.split intro!: target_refresh_I)

lemma new_queue_I:
  assumes "I s" "\<And>s'. I s' \<Longrightarrow> Q s'"
  shows "ensures (new_queue N p ss x s) Q"
proof (cases "get_target s p")
  case (Some t)
  have "dm_next s \<le> nxt"
    if "create_discovery_queue N (dm_shared_nqn s) ss x (dm_next s) t w = Inr (nxt, t', w')" for nxt t' w' w
    using that by (auto simp: create_discovery_queue_def Let_def split: if_splits prod.splits)
  then have "ensures (new_queue N p ss x s) (\<lambda>s'. I s')"
    using on_target_I [OF assms(1) kept_create_queue, of "\<lambda>(_, s). I s" p N "dm_shared_nqn s" ss x "dm_next s"] Some
    by (auto simp: new_queue_def on_target_def ensures_def split: sum.splits prod.splits intro!: upd_next_I)
  then show ?thesis using assms(2) by (rule ensures_mono)
qed (simp add: new_queue_def on_target_def)

lemma new_queues_I: "I s \<Longrightarrow> (\<And>s'. I s' \<Longrightarrow> Q s') \<Longrightarrow> ensures (new_queues N p ss xs s) Q"
  by (induction xs arbitrary: s) (auto intro!: new_queue_I)

lemma drop_connection_I: "I s \<Longrightarrow> (\<And>s'. I s' \<Longrightarrow> Q s') \<Longrightarrow> ensures (drop_connection N p dq s) Q"
  by (auto simp: drop_connection_def disconnect_queue_def kept_def intro!: on_target_I)

lemma del_subsys_dq_I: "I s \<Longrightarrow> (\<And>s'. I s' \<Longrightarrow> Q s') \<Longrightarrow> ensures (del_subsys_dq N p q s) Q"
  by (auto simp: del_subsys_dq_def split: option.split intro!: refresh_target_I upd_target_I)

lemma reset_subsys_dq_I: "I s \<Longrightarrow> (\<And>s'. I s' \<Longrightarrow> Q s') \<Longrightarrow> ensures (reset_subsys_dq N p ss nqn s) Q"
  by (auto simp: reset_subsys_dq_def split: option.split intro!: refresh_target_I upd_target_I new_queues_I)

lemma update_subsys_dq_I: "I s \<Longrightarrow> (\<And>s'. I s' \<Longrightarrow> Q s') \<Longrightarrow> ensures (update_subsys_dq N p ss a b s) Q"
  by (auto simp: update_subsys_dq_def split: option.split intro!: drop_connection_I refresh_target_I upd_target_I)

lemma reset_subsys_dq_nqn_I: "I s \<Longrightarrow> (\<And>s'. I s' \<Longrightarrow> Q s') \<Longrightarrow> ensures (reset_subsys_dq_nqn N p ss a s) Q"
  by (auto simp: reset_subsys_dq_nqn_def split: option.split list.split
      intro!: drop_connection_I refresh_target_I upd_target_I)

lemma send_notifications_I:
  assumes "I s" "\<And>s'. I s' \<Longrightarrow> Q s'"
  shows "ensures (send_notifications N l s) Q"
  using assms(2) stable [OF _ assms(1)] send_notifications_frame
  by (intro ensuresI) (fastforce simp: frame_def)

lemmas wp_I = send_to_I send_quiet_I with_subsys_I with_portid_I upd_subsys_I upd_target_I refresh_target_I
  new_queue_I drop_connection_I del_subsys_dq_I reset_subsys_dq_I update_subsys_dq_I reset_subsys_dq_nqn_I
  send_notifications_I

lemma config_subsys_I: "I s \<Longrightarrow> (\<And>x s'. I s' \<Longrightarrow> Q (x, s')) \<Longrightarrow> ensures (config_subsys N p q s) Q"
  unfolding config_subsys_def message_defs
  by (auto intro!: wp_I each_I kept_intros)

lemma change_subsys_I: "I s \<Longrightarrow> (\<And>s'. I s' \<Longrightarrow> Q s') \<Longrightarrow> ensures (change_subsys N p nqn new ss s) Q"
  unfolding change_subsys_def message_defs Let_def
  by (auto intro!: wp_I each_I kept_intros)

lemma apply_set_subsys_I:
  "I s \<Longrightarrow> (\<And>s' x. I s' \<Longrightarrow> Q (s', x)) \<Longrightarrow> ensures (apply_set_subsys N p q resp s) Q"
  unfolding apply_set_subsys_def message_defs
  by (auto intro!: config_subsys_I wp_I each_I kept_intros split: option.split)

lemma link_new_host_I:
  "I s \<Longrightarrow> (\<And>s' x. I s' \<Longrightarrow> Q (s', x)) \<Longrightarrow> ensures (link_new_host N p q h resp s) Q"
  unfolding link_new_host_def message_defs Let_def
  by (auto intro!: wp_I each_I kept_intros)

lemma config_changed_port_I:
  "I s \<Longrightarrow> (\<And>x s'. I s' \<Longrightarrow> Q (x, s')) \<Longrightarrow> ensures (config_changed_port N p x pid s) Q"
  unfolding config_changed_port_def message_defs Let_def del_portid_dq_def
  by (auto intro!: wp_I each_I kept_intros)

end

end
