(* ===== verification/Dem_Sub.thy ===== *)
theory Dem_Sub
  imports Dem_Frame
begin

text \<open>
  The requests that work inside one target: its subsystems, ports, namespaces, access lists, devices and
  interfaces. The locale \<open>sub_framed\<close> is for assertions that, besides not depending on the connections, are
  kept by the operations of \<^verbatim>\<open>json.c\<close> below a target; every such request then keeps the assertion.
\<close>

fun sub_op :: "store_op \<Rightarrow> bool" where
  "sub_op (Add_Group _) = False"
| "sub_op (Update_Group _ _) = False"
| "sub_op (Del_Group _) = False"
| "sub_op (Set_Member _ _ _ _ _) = False"
| "sub_op (Del_Member _ _ _ _) = False"
| "sub_op (Add_Host _) = False"
| "sub_op (Update_Host _ _) = False"
| "sub_op (Del_Host _) = False"
| "sub_op (Add_Target _) = False"
| "sub_op (Update_Target _ _) = False"
| "sub_op (Del_Target _) = False"
| "sub_op _ = True"

lemma interface_resp:
  "set_json_oob_interface J root a data resp = Inr ((root', ret, msg), out) \<Longrightarrow>
     \<exists>msg'. set_json_oob_interface J root a data [] = Inr ((root', ret, msg'), out)"
  "set_json_inb_interface J root a data resp = Inr ((root', ret, msg), out) \<Longrightarrow>
     \<exists>msg'. set_json_inb_interface J root a data [] = Inr ((root', ret, msg'), out)"
  by (auto simp: set_json_oob_interface_def set_json_inb_interface_def Let_def split: option.splits prod.splits)

locale sub_framed = framed I for I :: "('j, 'w) dem \<Rightarrow> bool" +
  fixes J :: "'j jansson"
  assumes sub_stable: "store_step J op (dm_root s) = Inr root \<Longrightarrow> sub_op op \<Longrightarrow> I s \<Longrightarrow> I (s\<lparr>dm_root := root\<rparr>)"
begin

lemma sub_root:
  "set_json_subsys J (dm_root s) t nqn data = Inr ((root, r), out) \<Longrightarrow> I s \<Longrightarrow> I (s\<lparr>dm_root := root\<rparr>)"
  "del_json_subsys J (dm_root s) t q = (root, r) \<Longrightarrow> I s \<Longrightarrow> I (s\<lparr>dm_root := root\<rparr>)"
  "set_json_portid J (dm_root s) t i data = Inr ((root, r), out') \<Longrightarrow> I s \<Longrightarrow> I (s\<lparr>dm_root := root\<rparr>)"
  "del_json_portid J (dm_root s) t i = (root, r) \<Longrightarrow> I s \<Longrightarrow> I (s\<lparr>dm_root := root\<rparr>)"
  "set_json_ns J (dm_root s) t q data = ((root, r), out'') \<Longrightarrow> I s \<Longrightarrow> I (s\<lparr>dm_root := root\<rparr>)"
  "del_json_ns J (dm_root s) t q i = (root, r) \<Longrightarrow> I s \<Longrightarrow> I (s\<lparr>dm_root := root\<rparr>)"
  "set_json_acl J (dm_root s) t q h data = Inr ((root, r), o3) \<Longrightarrow> I s \<Longrightarrow> I (s\<lparr>dm_root := root\<rparr>)"
  "del_json_acl J (dm_root s) t q a = (root, r) \<Longrightarrow> I s \<Longrightarrow> I (s\<lparr>dm_root := root\<rparr>)"
  using sub_stable [of "Set_Subsys t nqn data" s root] sub_stable [of "Del_Subsys t q" s root]
    sub_stable [of "Set_Portid t i data" s root] sub_stable [of "Del_Portid t i" s root]
    sub_stable [of "Set_Ns t q data" s root] sub_stable [of "Del_Ns t q i" s root]
    sub_stable [of "Set_Acl t q h data" s root] sub_stable [of "Del_Acl t q a" s root]
  by (auto simp: exec_map_def)

lemma del_subsys_I: "I s \<Longrightarrow> ensures (del_subsys J N tgt nqn s) (\<lambda>(s', _). I s')"
  unfolding del_subsys_def message_defs Let_def
  by (auto split: option.split prod.split dest: sub_root intro!: wp_I kept_intros)

lemma set_subsys_I: "I s \<Longrightarrow> ensures (set_subsys J N tgt nqn data s) (\<lambda>(s', _). I s')"
proof -
  assume I: "I s"
  have new: "ensures (new_subsys p n s') Q" if "I s'" "\<And>q s2. I s2 \<Longrightarrow> Q (q, s2)" for p n s' Q
    using that(1) by (auto simp: new_subsys_def Let_def intro!: ensuresI that(2) upd_next_I upd_target_I)
  show ?thesis
    unfolding set_subsys_def Let_def
    using I by (auto split: option.split prod.split intro!: ensuresI [of "set_json_subsys J (dm_root s) t q d" for t q d]
        dest!: sub_root(1) [OF _ I] intro!: new apply_set_subsys_I change_subsys_I upd_subsys_I)
qed

lemma link_host_I: "I s \<Longrightarrow> ensures (link_host J N tgt subnqn a data s) (\<lambda>(s', _). I s')"
  unfolding link_host_def Let_def
  by (auto split: option.split prod.split intro!: ensuresI [of "set_json_acl J (dm_root s) t q h d" for t q h d]
      ensuresI [of "c_strcpy n x" for n x] link_new_host_I dest: sub_root)

lemma unlink_host_I: "I s \<Longrightarrow> ensures (unlink_host J N tgt subnqn a s) (\<lambda>(s', _). I s')"
  unfolding unlink_host_def Let_def message_defs
  by (auto split: option.split prod.split dest: sub_root intro!: wp_I kept_intros)

lemma del_portid_I: "I s \<Longrightarrow> ensures (del_portid J N tgt pid s) (\<lambda>(s', _). I s')"
  unfolding del_portid_def Let_def message_defs
  by (auto split: option.split prod.split dest: sub_root intro!: wp_I each_I kept_intros)

lemma set_portid_I: "I s \<Longrightarrow> ensures (set_portid J N tgt pid data s) (\<lambda>(s', _). I s')"
proof -
  assume I: "I s"
  have entry: "I s3" if "port_entry p i t s2 = (x, s3)" "I s2" for p i t s2 x s3
    using that by (auto simp: port_entry_def Let_def split: option.splits intro!: upd_next_I upd_target_I)
  show ?thesis
    unfolding set_portid_def Let_def
    using I by (auto split: option.split prod.split dest!: sub_root(3) [OF _ I] entry
        intro!: ensuresI [of "set_json_portid J (dm_root s) t q d" for t q d] ensuresI [of "portid_values x" for x]
        wp_I config_changed_port_I)
qed

lemma set_ns_I: "I s \<Longrightarrow> ensures (set_ns J N tgt nqn data s) (\<lambda>(s', _). I s')"
  unfolding set_ns_def Let_def message_defs
  by (auto split: option.split prod.split dest: sub_root intro!: wp_I kept_intros)

lemma del_ns_I: "I s \<Longrightarrow> ensures (del_ns J N tgt nqn nsid s) (\<lambda>(s', _). I s')"
  unfolding del_ns_def Let_def message_defs
  by (auto split: option.split prod.split dest: sub_root intro!: wp_I kept_intros)

lemma upd_root_twice: "s\<lparr>dm_root := a\<rparr>\<lparr>dm_root := b\<rparr> = s\<lparr>dm_root := b\<rparr>"
  by simp

lemma sub_step: "I (s\<lparr>dm_root := r\<rparr>) \<Longrightarrow> store_step J op r = Inr r' \<Longrightarrow> sub_op op \<Longrightarrow> I (s\<lparr>dm_root := r'\<rparr>)"
  using sub_stable [of op "s\<lparr>dm_root := r\<rparr>" r'] by simp

lemma inb_devices_I:
  "inb_devices J a es r devs = (r', devs') \<Longrightarrow> I (s\<lparr>dm_root := r\<rparr>) \<Longrightarrow> I (s\<lparr>dm_root := r'\<rparr>)"
proof (induction es arbitrary: r devs)
  case (Cons x es)
  have "I (s\<lparr>dm_root := fst (set_json_inb_nsdev J r a d n)\<rparr>)" for d n
    using sub_step [OF Cons.prems(2), of "Set_Inb_Nsdev a d n"] by (simp split: prod.split)
  then show ?case using Cons by (cases x) (auto simp: Let_def split: if_splits)
qed simp

lemma inb_transports_I:
  "inb_transports J a es r fs = Inr (r', fs') \<Longrightarrow> I (s\<lparr>dm_root := r\<rparr>) \<Longrightarrow> I (s\<lparr>dm_root := r'\<rparr>)"
proof (induction es arbitrary: r fs)
  case (Cons x es)
  have "I (s\<lparr>dm_root := fst (set_json_inb_fabric_iface J r a ty fa ad)\<rparr>)" for ty fa ad
    using sub_step [OF Cons.prems(2), of "Set_Inb_Iface a ty fa ad"] by (simp split: prod.split)
  then show ?case using Cons by (cases x) (auto simp: Let_def split: if_splits)
qed simp

lemma wpI: "ensures e (\<lambda>(_, s'). I s') \<Longrightarrow> (\<And>x s'. I s' \<Longrightarrow> Q (x, s')) \<Longrightarrow> ensures e Q"
  by (erule ensures_mono) auto

lemma upd_target_root_I:
  assumes "I (s\<lparr>dm_root := r\<rparr>)" "\<And>t. core (f t) = core t"
  shows "I ((upd_target p f (s\<lparr>dm_net := w\<rparr>))\<lparr>dm_root := r\<rparr>)"
proof -
  have "(upd_target p f (s\<lparr>dm_net := w\<rparr>))\<lparr>dm_root := r\<rparr> = upd_target p f (s\<lparr>dm_root := r\<rparr>\<lparr>dm_net := w\<rparr>)"
    by (simp add: upd_target_def)
  then show ?thesis using assms upd_target_I upd_net_I by metis
qed

lemma get_inb_nsdevs_I: "I s \<Longrightarrow> ensures (get_inb_nsdevs J N p s) (\<lambda>(_, s'). I s')"
  unfolding get_inb_nsdevs_def Let_def
  by (auto split: option.split prod.split dest: inb_devices_I [where s = s] intro!: upd_net_I upd_target_root_I)

lemma get_inb_xports_I: "I s \<Longrightarrow> ensures (get_inb_xports J N p s) (\<lambda>(_, s'). I s')"
proof -
  assume I: "I s"
  have "I (s\<lparr>dm_root := fst (init_json_inb_fabric_iface J (dm_root s) a)\<rparr>)" for a
    using sub_stable [of "Init_Inb_Ifaces a" s] I by (simp split: prod.splits)
  then show ?thesis
    unfolding get_inb_xports_def Let_def
    using I by (auto split: option.split prod.split intro!: upd_net_I upd_target_root_I
        ensuresI [of "inb_transports J a es r fs" for a es r fs] dest: inb_transports_I [where s = s])
qed

lemma disconnect_if_I: "I s \<Longrightarrow> (\<And>s'. I s' \<Longrightarrow> Q s') \<Longrightarrow> ensures (disconnect_if N p c s) Q"
  by (auto simp: disconnect_if_def disconnect_control_def kept_def intro!: on_target_I)

lemma get_inb_config_I: "I s \<Longrightarrow> ensures (get_inb_config J N p s) (\<lambda>(_, s'). I s')"
  unfolding get_inb_config_def Let_def
  by (auto split: option.split intro!: upd_target_I disconnect_if_I send_to_I kept_connect
      wpI [OF get_inb_nsdevs_I] wpI [OF get_inb_xports_I])

lemma oob_root:
  "set_json_oob_nsdevs J (dm_root s) a ds data = Inr (root, r) \<Longrightarrow> I s \<Longrightarrow> I (s\<lparr>dm_root := root\<rparr>)"
  "set_json_oob_interfaces J (dm_root s) a fs data = Inr (root, r') \<Longrightarrow> I s \<Longrightarrow> I (s\<lparr>dm_root := root\<rparr>)"
  using sub_stable [of "Set_Oob_Nsdevs a ds data" s root] sub_stable [of "Set_Oob_Ifaces a fs data" s root]
  by (auto simp: exec_map_def)

lemma interface_root:
  assumes "I s"
  shows "set_json_oob_interface J (dm_root s) a data resp = Inr ((root, ret, msg), out) \<Longrightarrow> I (s\<lparr>dm_root := root\<rparr>)"
    and "set_json_inb_interface J (dm_root s) a data resp = Inr ((root, ret, msg), out) \<Longrightarrow> I (s\<lparr>dm_root := root\<rparr>)"
  using interface_resp [of J "dm_root s" a data resp root ret msg out] assms
    sub_stable [of "Set_Oob_Interface a data" s root] sub_stable [of "Set_Inb_Interface a data" s root]
  by (force simp: exec_map_def)+

lemma get_oob_nsdevs_I: "I s \<Longrightarrow> ensures (get_oob_nsdevs J N p s) (\<lambda>(_, s'). I s')"
  unfolding get_oob_nsdevs_def Let_def
  by (auto split: option.split intro!: upd_net_I upd_target_root_I ensuresI [of "send_get_config_oob N u t w" for u t w]
      ensuresI [of "set_json_oob_nsdevs J r a ds d" for r a ds d]) (rule oob_root(1))

lemma get_oob_xports_I: "I s \<Longrightarrow> ensures (get_oob_xports J N p s) (\<lambda>(_, s'). I s')"
  unfolding get_oob_xports_def Let_def
  by (auto split: option.split intro!: upd_net_I upd_target_root_I ensuresI [of "send_get_config_oob N u t w" for u t w]
      ensuresI [of "set_json_oob_interfaces J r a fs d" for r a fs d]) (rule oob_root(2))

lemma get_oob_config_I: "I s \<Longrightarrow> ensures (get_oob_config J N p s) (\<lambda>(_, s'). I s')"
  unfolding get_oob_config_def by (auto intro!: wpI [OF get_oob_nsdevs_I] wpI [OF get_oob_xports_I])

lemma get_config_I: "I s \<Longrightarrow> ensures (get_config J N p s) (\<lambda>(_, s'). I s')"
  unfolding get_config_def
  by (auto split: option.split mgmt_mode.split intro!: wpI [OF get_inb_config_I] wpI [OF get_oob_config_I])

lemma set_interface_I: "I s \<Longrightarrow> ensures (set_interface J tgt data resp s) (\<lambda>(s', _). I s')"
  unfolding set_interface_def Let_def
  by (auto split: option.split mgmt_mode.split dest: interface_root intro!: upd_target_I
      ensuresI [of "set_json_oob_interface J r a d m" for r a d m] ensuresI [of "set_oob_interface a n sc" for a n sc]
      ensuresI [of "set_json_inb_interface J r a d m" for r a d m])

lemma config_target_inb_I: "I s \<Longrightarrow> ensures (config_target_inb N p s) (\<lambda>(_, s'). I s')"
  unfolding config_target_inb_def
  by (auto split: option.split intro!: wp_I disconnect_if_I kept_intros)

lemma config_target_oob_I: "I s \<Longrightarrow> ensures (config_target_oob N p s) (\<lambda>(_, s'). I s')"
proof -
  have "kept (\<lambda>t. send_until (config_portid_oob N) (tg_portids t) t)"
    "kept (\<lambda>t. send_until (config_subsys_oob N) (tg_subsystems t) t)"
    by (auto simp: message_defs intro!: kept_diag [of "\<lambda>t. send_until f (g t)" for f g] kept_intros)
  then show "I s \<Longrightarrow> ?thesis"
    unfolding config_target_oob_def by (auto intro!: wp_I)
qed

lemma config_target_I: "I s \<Longrightarrow> ensures (config_target N p s) (\<lambda>(_, s'). I s')"
  unfolding config_target_def
  by (auto split: option.split mgmt_mode.split intro!: wpI [OF config_target_inb_I] wpI [OF config_target_oob_I])

lemma target_reconfig_I: "I s \<Longrightarrow> ensures (target_reconfig N a s) (\<lambda>(_, s'). I s')"
  unfolding target_reconfig_def message_defs Let_def
  by (auto split: option.split intro!: wp_I kept_intros wpI [OF config_target_I])

lemma kept_keep_alive: "kept (keep_alive_work N)"
proof -
  have queues: "keep_alive_queues N dqs t w = (r, t', w') \<Longrightarrow> core t' = core t" for dqs t w r t' w'
    by (induction dqs arbitrary: w) (auto simp: disconnect_queue_def split: if_splits prod.splits)
  have control: "keep_alive_control N t w = Inr (t', w') \<Longrightarrow> core t' = core t" for t t' w w'
    by (auto simp: keep_alive_control_def connect_control_def Let_def split: if_splits prod.splits)
  show ?thesis
    by (auto simp: keep_alive_work_def Let_def intro!: keptI ensuresI split: if_splits prod.splits
        dest!: queues control)
qed

lemma kept_count_down: "kept (\<lambda>t w. case count_down t of (due, t) \<Rightarrow> Inr (due, t, w))"
  by (auto simp: count_down_def Let_def kept_def)

lemma refresh_all_I: "I s \<Longrightarrow> ensures (refresh_all N p s) I"
  unfolding refresh_all_def
  by (auto intro!: on_target_I keptI ensuresI [of "refresh_log_pages N t w" for t w])
    (rule core_refresh_log_pages)

lemma periodic_target_I: "I s \<Longrightarrow> ensures (periodic_target J N p s) I"
  unfolding periodic_target_def
  by (auto split: option.split intro!: on_target_I kept_keep_alive kept_count_down refresh_all_I wpI [OF get_config_I])

lemma periodic_work_I: "I s \<Longrightarrow> ensures (periodic_work J N s) I"
  unfolding periodic_work_def by (rule each_I) (auto intro: periodic_target_I)

lemma init_target_I: "I s \<Longrightarrow> ensures (init_target J N p s) I"
proof -
  have queue: "ensures (init_discovery_queue N p x s) I" if "I s" for x and s :: "('j, 'w) dem"
    unfolding init_discovery_queue_def using that
    by (auto split: option.split intro!: wp_I each_I)
  show "I s \<Longrightarrow> ensures (init_target J N p s) I"
    unfolding init_target_def Let_def
    by (auto split: option.split intro!: each_I queue upd_target_I wpI [OF get_config_I] wpI [OF config_target_I])
qed

lemma init_targets_I: "I s \<Longrightarrow> ensures (init_targets J N s) I"
  unfolding init_targets_def by (rule each_I) (auto intro: init_target_I)

end

end
