(* ===== verification/Dem_Invariant.thy ===== *)
theory Dem_Invariant
  imports Dem_Sub
begin

text \<open>
  The invariant of the controller: the document is well-formed, the lists of targets and groups have
  distinct addresses, every link of a host leads to a group that exists, every group of the document is
  in the list of groups, and a target in a group carries the flag that restricts it to the hosts of its
  groups. Every request keeps it.

  A group with an empty name is the exception: the document may hold several of them and the list only one
  (\<^verbatim>\<open>update_json_group\<close> does not compare empty names, \<^verbatim>\<open>update_group\<close> gives the one of the list its name
  again), and the deletion of one then leaves a name of the document without a group in the list. A host that is
  added to it is linked to the null pointer. The invariant therefore says nothing about the empty name, and has
  two forms: one in which a link may lead to the null pointer, which every request keeps, and one in which each
  leads to a group, which is kept as long as every group of the document has a name.
\<close>

section \<open>The invariant\<close>

definition group_names :: "'j jansson \<Rightarrow> ('j, 'w) dem \<Rightarrow> string list" where
  "group_names J s = db_group_names (abs_db J (dm_root s))"

definition named :: "'j jansson \<Rightarrow> ('j, 'w) dem \<Rightarrow> bool" where
  "named J s = ([] \<notin> set (group_names J s))"

text \<open>Addresses.\<close>

definition alloc_ok :: "('j, 'w) dem \<Rightarrow> bool" where
  "alloc_ok s =
     (distinct (map tg_ptr (dm_targets s)) \<and> distinct (map gr_ptr (dm_groups s)) \<and>
      (\<forall>t \<in> set (dm_targets s). tg_ptr t < dm_next s) \<and>
      (\<forall>g \<in> set (dm_groups s). NULL < gr_ptr g \<and> gr_ptr g < dm_next s \<and> (\<forall>p \<in> set (gr_targets g). p < dm_next s)) \<and>
      NULL < dm_next s)"

text \<open>Links.\<close>

definition links_ok :: "bool \<Rightarrow> ('j, 'w) dem \<Rightarrow> bool" where
  "links_ok linked s =
     ((\<forall>l \<in> set (dm_hosts s). gl_group l \<in> gr_ptr ` set (dm_groups s) \<or> \<not> linked \<and> gl_group l = NULL) \<and>
      (\<forall>g \<in> set (dm_groups s). \<forall>t \<in> set (dm_targets s). tg_ptr t \<in> set (gr_targets g) \<longrightarrow> tg_group_member t))"

definition lists_ok :: "bool \<Rightarrow> ('j, 'w) dem \<Rightarrow> bool" where
  "lists_ok lk s = (alloc_ok s \<and> links_ok lk s \<and> (\<forall>g \<in> set (dm_groups s). length (gr_name g) < MAX_ALIAS_SIZE))"

definition dem_inv_at :: "bool \<Rightarrow> 'j jansson \<Rightarrow> ('j, 'w) dem \<Rightarrow> bool" where
  "dem_inv_at linked J s =
     (store_inv J (dm_root s) \<and> lists_ok linked s \<and> set (group_names J s) \<subseteq> insert [] (gr_name ` set (dm_groups s)))"

definition dem_inv :: "'j jansson \<Rightarrow> ('j, 'w) dem \<Rightarrow> bool" where
  "dem_inv J s = dem_inv_at True J s"

lemma dem_inv_at_weaken: "dem_inv_at b J s \<Longrightarrow> dem_inv_at (b \<and> c) J s"
  by (auto simp: dem_inv_at_def lists_ok_def links_ok_def)

lemma dem_inv_at_mono: "dem_inv_at True J s \<Longrightarrow> dem_inv_at b J s"
  using dem_inv_at_weaken [of True J s b] by simp

lemma core_targets:
  assumes "map core ts = map core ts'"
  shows "map tg_ptr ts = map tg_ptr ts'" "core ` set ts = core ` set ts'"
proof -
  have "map fst (map core ts) = map fst (map core ts')" "set (map core ts) = set (map core ts')"
    using assms by simp_all
  then show "map tg_ptr ts = map tg_ptr ts'" "core ` set ts = core ` set ts'"
    by (simp_all add: core_def comp_def)
qed

lemma frame_targets:
  assumes "frame s s'"
  shows "map tg_ptr (dm_targets s') = map tg_ptr (dm_targets s)"
    and "core ` set (dm_targets s') = core ` set (dm_targets s)"
    and "tg_ptr ` set (dm_targets s') = tg_ptr ` set (dm_targets s)"
proof -
  have "map core (dm_targets s') = map core (dm_targets s)" using assms by (simp add: frame_def)
  note c = core_targets [OF this]
  moreover have "tg_ptr ` set (dm_targets s') = tg_ptr ` set (dm_targets s)" by (metis c(1) list.set_map)
  ultimately show "map tg_ptr (dm_targets s') = map tg_ptr (dm_targets s)"
    "core ` set (dm_targets s') = core ` set (dm_targets s)"
    "tg_ptr ` set (dm_targets s') = tg_ptr ` set (dm_targets s)" by blast+
qed

lemma ptr_bound: "(\<forall>t \<in> A. tg_ptr t < n) \<longleftrightarrow> (\<forall>p \<in> tg_ptr ` A. p < n)"
  by simp

lemma core_flags: "(\<forall>t \<in> A. tg_ptr t \<in> X \<longrightarrow> tg_group_member t) \<longleftrightarrow> (\<forall>c \<in> core ` A. fst c \<in> X \<longrightarrow> snd c)"
  by (simp add: core_def)

lemma alloc_ok_frame: "frame s s' \<Longrightarrow> alloc_ok s \<Longrightarrow> alloc_ok s'"
proof -
  assume f: "frame s s'" and a: "alloc_ok s"
  have e: "dm_groups s' = dm_groups s" "dm_next s \<le> dm_next s'" using f by (simp_all add: frame_def)
  show ?thesis
    using a e(2) unfolding alloc_ok_def ptr_bound frame_targets [OF f] e(1) by (meson order_less_le_trans)
qed

lemma links_ok_frame: "frame s s' \<Longrightarrow> links_ok lk s \<Longrightarrow> links_ok lk s'"
proof -
  assume f: "frame s s'" and a: "links_ok lk s"
  have e: "dm_groups s' = dm_groups s" "dm_hosts s' = dm_hosts s" using f by (simp_all add: frame_def)
  show ?thesis
    using a unfolding links_ok_def core_flags frame_targets [OF f] e .
qed

lemma dem_inv_frame: "frame s s' \<Longrightarrow> dem_inv_at lk J s \<Longrightarrow> dem_inv_at lk J s'"
proof -
  assume f: "frame s s'" and i: "dem_inv_at lk J s"
  have "dm_root s' = dm_root s" "dm_groups s' = dm_groups s" using f by (simp_all add: frame_def)
  then show ?thesis
    using i alloc_ok_frame [OF f] links_ok_frame [OF f] by (simp add: dem_inv_at_def lists_ok_def group_names_def)
qed

section \<open>Requests inside a target\<close>

text \<open>The controller on a JSON library that behaves as documented and any network.\<close>

locale dem_api = jansson_api J for J :: "'j jansson" +
  fixes N :: "'w network"
begin

text \<open>A change of the document that leaves the groups alone.\<close>

lemma dem_inv_root:
  assumes "dem_inv_at lk J s" "store_inv J root" "set (db_group_names (abs_db J root)) = set (group_names J s)"
  shows "dem_inv_at lk J (s\<lparr>dm_root := root\<rparr>)"
  using assms by (simp add: dem_inv_at_def group_names_def lists_ok_def alloc_ok_def links_ok_def)

lemma sub_op_same_db:
  assumes "store_wf J root" "store_step J op root = Inr root'" "sub_op op"
  shows "same_db J root root'"
  using store_step_frame [OF assms(1,2)] assms(3) by (cases op) simp_all

lemma dem_inv_sub:
  assumes "store_step J op (dm_root s) = Inr root" "sub_op op" "dem_inv_at lk J s"
  shows "dem_inv_at lk J (s\<lparr>dm_root := root\<rparr>)"
proof -
  have i: "store_inv J (dm_root s)" using assms(3) by (simp add: dem_inv_at_def)
  then have "store_wf J (dm_root s)" by (simp add: store_inv_def)
  from sub_op_same_db [OF this assms(1,2)] have "abs_db J root = abs_db J (dm_root s)" by (simp add: same_db_def)
  then show ?thesis
    using store_step_inv [OF i assms(1)] by (intro dem_inv_root [OF assms(3)]) (simp_all add: group_names_def)
qed

end

sublocale dem_api \<subseteq> dem: sub_framed "dem_inv_at lk J :: ('j, 'w) dem \<Rightarrow> bool" J for lk
proof
  show "dem_inv_at lk J s'" if "frame s s'" "dem_inv_at lk J s" for s s' :: "('j, 'w) dem"
    using that by (rule dem_inv_frame)
  show "distinct (map tg_ptr (dm_targets s))" if "dem_inv_at lk J s" for s :: "('j, 'w) dem"
    using that by (simp add: dem_inv_at_def lists_ok_def alloc_ok_def)
  show "dem_inv_at lk J (s\<lparr>dm_root := root\<rparr>)"
    if "store_step J op (dm_root s) = Inr root" "sub_op op" "dem_inv_at lk J s" for op root and s :: "('j, 'w) dem"
    using that by (rule dem_inv_sub)
qed

section \<open>Changes of the lists\<close>

lemma lists_ok_root [simp]: "lists_ok lk (s\<lparr>dm_root := r\<rparr>) = lists_ok lk s"
  by (simp add: lists_ok_def alloc_ok_def links_ok_def)

lemma lists_ok_init_group:
  assumes "lists_ok lk s" "length n < MAX_ALIAS_SIZE"
  shows "lists_ok lk (s\<lparr>dm_groups := dm_groups s @ [\<lparr>gr_ptr = dm_next s, gr_targets = [], gr_name = n\<rparr>], dm_next := Suc (dm_next s)\<rparr>)"
  using assms by (auto simp: lists_ok_def alloc_ok_def links_ok_def less_SucI)

lemma lists_ok_add_link:
  "lists_ok lk s \<Longrightarrow> g \<in> gr_ptr ` set (dm_groups s) \<or> \<not> lk \<and> g = NULL \<Longrightarrow>
     lists_ok lk (s\<lparr>dm_hosts := dm_hosts s @ [\<lparr>gl_group = g, gl_alias = a, gl_nqn = q\<rparr>]\<rparr>)"
  by (auto simp: lists_ok_def alloc_ok_def links_ok_def)

lemma lists_ok_hosts: "lists_ok lk s \<Longrightarrow> set ls \<subseteq> set (dm_hosts s) \<Longrightarrow> lists_ok lk (s\<lparr>dm_hosts := ls\<rparr>)"
  by (auto simp: lists_ok_def alloc_ok_def links_ok_def)

lemma map_group_upd:
  "(\<And>g. gr_ptr (f g) = gr_ptr g) \<Longrightarrow> map gr_ptr (dm_groups (upd_group p f s)) = map gr_ptr (dm_groups s)"
  "(\<And>g. gr_name (f g) = gr_name g) \<Longrightarrow> map gr_name (dm_groups (upd_group p f s)) = map gr_name (dm_groups s)"
  by (simp_all add: upd_group_def)

lemma map_target_upd:
  "(\<And>t. tg_ptr (f t) = tg_ptr t) \<Longrightarrow> map tg_ptr (dm_targets (upd_target p f s)) = map tg_ptr (dm_targets s)"
  by (simp add: upd_target_def)

lemma in_remove1D: "x \<in> set (remove1 y xs) \<Longrightarrow> x \<in> set xs"
  by (metis notin_set_remove1)

text \<open>Members and flags may change as long as they fit each other.\<close>

lemma lists_okI:
  assumes "lists_ok lk s" "map gr_ptr (dm_groups s') = map gr_ptr (dm_groups s)"
    and "map gr_name (dm_groups s') = map gr_name (dm_groups s)" "map tg_ptr (dm_targets s') = map tg_ptr (dm_targets s)"
    and "dm_next s' = dm_next s" "dm_hosts s' = dm_hosts s"
    and flags: "\<And>g t. g \<in> set (dm_groups s') \<Longrightarrow> t \<in> set (dm_targets s') \<Longrightarrow> tg_ptr t \<in> set (gr_targets g) \<Longrightarrow> tg_group_member t"
    and bound: "\<And>g p. g \<in> set (dm_groups s') \<Longrightarrow> p \<in> set (gr_targets g) \<Longrightarrow> p < dm_next s"
  shows "lists_ok lk s'"
proof -
  have ptrs: "gr_ptr ` set (dm_groups s') = gr_ptr ` set (dm_groups s)" by (metis assms(2) list.set_map)
  have names: "gr_name ` set (dm_groups s') = gr_name ` set (dm_groups s)" by (metis assms(3) list.set_map)
  have targets: "tg_ptr ` set (dm_targets s') = tg_ptr ` set (dm_targets s)" by (metis assms(4) list.set_map)
  have "\<forall>p \<in> gr_ptr ` set (dm_groups s'). NULL < p \<and> p < dm_next s"
    unfolding ptrs using assms(1) by (auto simp: lists_ok_def alloc_ok_def)
  then have groups: "\<forall>g \<in> set (dm_groups s'). NULL < gr_ptr g \<and> gr_ptr g < dm_next s" by simp
  have "\<forall>n \<in> gr_name ` set (dm_groups s'). length n < MAX_ALIAS_SIZE"
    unfolding names using assms(1) by (auto simp: lists_ok_def)
  then have short: "\<forall>g \<in> set (dm_groups s'). length (gr_name g) < MAX_ALIAS_SIZE" by simp
  have "\<forall>p \<in> tg_ptr ` set (dm_targets s'). p < dm_next s"
    unfolding targets using assms(1) by (auto simp: lists_ok_def alloc_ok_def)
  then have "\<forall>t \<in> set (dm_targets s'). tg_ptr t < dm_next s" by simp
  with groups short show ?thesis
    using assms(1) flags bound unfolding lists_ok_def alloc_ok_def links_ok_def assms(2,4,5,6) ptrs by auto
qed

lemma lists_ok_add_target:
  assumes "lists_ok lk s" "t \<in> set (dm_targets s)"
  shows "lists_ok lk (upd_group g (\<lambda>gr. gr\<lparr>gr_targets := gr_targets gr @ [tg_ptr t]\<rparr>)
           (upd_target (tg_ptr t) (\<lambda>t. t\<lparr>tg_group_member := True\<rparr>) s))"
  using assms
  by (intro lists_okI [OF assms(1)])
    (auto simp: map_group_upd map_target_upd upd_group_def upd_target_def lists_ok_def alloc_ok_def links_ok_def
      split: if_splits)

lemma lists_ok_del_target:
  assumes "lists_ok lk s" "t \<in> set (dm_targets s)"
    and s': "s' = upd_group g (\<lambda>gr. gr\<lparr>gr_targets := remove1 (tg_ptr t) (gr_targets gr)\<rparr>) s"
  shows "lists_ok lk s'"
    and "\<not> list_ex (\<lambda>gr. tg_ptr t \<in> set (gr_targets gr)) (dm_groups s') \<Longrightarrow>
           lists_ok lk (upd_target (tg_ptr t) (\<lambda>t. t\<lparr>tg_group_member := False\<rparr>) s')"
proof -
  show s'_ok: "lists_ok lk s'"
    using assms(1,2) unfolding s'
    by (intro lists_okI [OF assms(1)])
      (auto simp: map_group_upd upd_group_def lists_ok_def alloc_ok_def links_ok_def
        split: if_splits dest!: in_remove1D)
  assume "\<not> list_ex (\<lambda>gr. tg_ptr t \<in> set (gr_targets gr)) (dm_groups s')"
  then show "lists_ok lk (upd_target (tg_ptr t) (\<lambda>t. t\<lparr>tg_group_member := False\<rparr>) s')"
    using s'_ok
    by (intro lists_okI [OF s'_ok])
      (auto simp: map_target_upd upd_target_def lists_ok_def alloc_ok_def links_ok_def list_ex_iff)
qed

lemma lists_ok_del_group:
  assumes "lists_ok lk s" "g \<in> set (dm_groups s)"
  shows "lists_ok lk (s\<lparr>dm_hosts := filter (\<lambda>l. gl_group l \<noteq> gr_ptr g) (dm_hosts s), dm_groups := remove1 g (dm_groups s)\<rparr>)"
proof -
  have d: "distinct (map gr_ptr (dm_groups s))" using assms(1) by (simp add: lists_ok_def alloc_ok_def)
  then have "set (remove1 g (dm_groups s)) = set (dm_groups s) - {g}" by (simp add: distinct_map set_remove1_eq)
  moreover have "distinct (map gr_ptr (remove1 g (dm_groups s)))"
    using d by (auto simp: distinct_map inj_on_def distinct_remove1)
  moreover have "gl_group l \<in> gr_ptr ` (set (dm_groups s) - {g}) \<or> \<not> lk \<and> gl_group l = NULL"
    if "l \<in> set (dm_hosts s)" "gl_group l \<noteq> gr_ptr g" for l
    using that assms(1) by (auto simp: lists_ok_def links_ok_def)
  ultimately show ?thesis
    using assms(1) by (auto simp: lists_ok_def alloc_ok_def links_ok_def)
qed

lemma lists_ok_alloc_target: "lists_ok lk s \<Longrightarrow> alloc_target a s = (p, s') \<Longrightarrow> lists_ok lk s'"
  by (fastforce simp: alloc_target_def Let_def lists_ok_def alloc_ok_def links_ok_def less_Suc_eq)

lemma lists_ok_remove_target: "lists_ok lk s \<Longrightarrow> lists_ok lk (s\<lparr>dm_targets := filter P (dm_targets s)\<rparr>)"
  by (auto simp: lists_ok_def alloc_ok_def links_ok_def distinct_map inj_on_def)

section \<open>Requests on groups\<close>

lemma remove_name: "distinct (nonempty_names ns) \<Longrightarrow> set (remove1 n ns) \<subseteq> insert [] (set ns - {n})"
  by (induction ns) (auto simp: nonempty_names_def split: if_splits)

lemma map_members_name [simp]: "fst (map_members k f g) = fst g"
  by (cases "(k, f, g)" rule: map_members.cases) simp_all

lemma names_spec:
  "set (db_group_names (spec_add_group n d)) = set (db_group_names d) \<union> set_option n"
  "set (db_group_names (spec_rename_group old new d)) \<subseteq> insert new (set (db_group_names d))"
  "db_group_names (spec_del_group old d) = remove1 old (db_group_names d)"
  "db_group_names (spec_add_member k old m d) = db_group_names d"
  "db_group_names (spec_del_member k old m d) = db_group_names d"
  "db_group_names (spec_add_host h d) = db_group_names d"
  "db_group_names (spec_rename_host h h' d) = db_group_names d"
  "db_group_names (spec_del_host h d) = db_group_names d"
  "db_group_names (spec_add_target h d) = db_group_names d"
  "db_group_names (spec_rename_target h h' d) = db_group_names d"
  "db_group_names (spec_del_target h d) = db_group_names d"
proof -
  show "set (db_group_names (spec_add_group n d)) = set (db_group_names d) \<union> set_option n"
    by (cases n) (auto simp: spec_add_group_def db_group_names_def map_filter_append map_filter_simps)
  have "set (List.map_filter fst (update_named old (\<lambda>(_, hs, ts). (Some new, hs, ts)) gs)) \<subseteq>
      insert new (set (List.map_filter fst gs))" for gs
    by (induction gs) (auto simp: map_filter_Cons split: option.splits)
  then show "set (db_group_names (spec_rename_group old new d)) \<subseteq> insert new (set (db_group_names d))"
    by (simp add: spec_rename_group_def db_group_names_def)
qed (simp_all add: db_group_names_def spec_del_group_def spec_add_member_def spec_del_member_def spec_add_host_def
      spec_rename_host_def spec_del_host_def spec_add_target_def spec_rename_target_def spec_del_target_def
      names_remove_named names_update_named group_names_map split_beta)

context dem_api
begin

lemma inv_parts:
  assumes "dem_inv_at lk J s"
  shows "store_wf J (dm_root s)" "store_inv J (dm_root s)" "lists_ok lk s"
    and "set (db_group_names (abs_db J (dm_root s))) \<subseteq> insert [] (gr_name ` set (dm_groups s))"
  using assms by (simp_all add: dem_inv_at_def store_inv_def group_names_def)

lemma init_group_inv:
  assumes "store_inv J (dm_root s)" "lists_ok lk s" "set (group_names J s) \<subseteq> insert n (insert [] (gr_name ` set (dm_groups s)))"
  shows "ensures (init_group n s) (\<lambda>(_, s'). dem_inv_at lk J s')"
  using assms lists_ok_init_group [OF assms(2)]
  by (auto simp: init_group_def dem_inv_at_def group_names_def)

lemma add_group_inv:
  assumes "dem_inv_at lk J s"
  shows "ensures (add_group J name s) (\<lambda>(s', _). dem_inv_at lk J s')"
proof (cases name)
  case (Some g)
  note p = inv_parts [OF assms]
  have step: "store_inv J root" if "add_json_group J (dm_root s) g = Inr (root, r)" for root r
    using store_step_inv [OF p(2), of "Add_Group g" root] that by (auto simp: exec_map_def)
  obtain root ret msg where r: "add_json_group J (dm_root s) g = Inr (root, ret, msg)"
    and same: "ret \<noteq> 0 \<Longrightarrow> abs_db J root = abs_db J (dm_root s)"
    and new: "set (db_group_names (abs_db J root)) \<subseteq> insert g (set (db_group_names (abs_db J (dm_root s))))"
    using add_json_group_abs [OF p(1), of g]
    by (auto simp: names_spec stored_name_def subset_insertI split: if_splits)
  show ?thesis
  proof (cases "ret = 0")
    case True
    have "set (group_names J (s\<lparr>dm_root := root\<rparr>)) \<subseteq> insert g (insert [] (gr_name ` set (dm_groups s)))"
      using new p(4) by (auto simp: group_names_def)
    then show ?thesis
      using init_group_inv [of "s\<lparr>dm_root := root\<rparr>" lk g] step [OF r] p(3) True Some r
      by (auto simp: add_group_def elim!: ensures_mono)
  next
    case False
    then show ?thesis
      using dem_inv_root [OF assms step [OF r]] same Some r by (simp add: add_group_def group_names_def)
  qed
qed (simp add: add_group_def)

lemma gr_name_same: "gr_name x = n \<Longrightarrow> x\<lparr>gr_name := n\<rparr> = x"
  by (cases x) simp

lemma rename_same_group:
  assumes "lists_ok lk s" "find_group s n = Some g"
  shows "upd_group (gr_ptr g) (\<lambda>g. g\<lparr>gr_name := cut MAX_ALIAS_SIZE n\<rparr>) s = s"
proof -
  have g: "g \<in> set (dm_groups s)" "gr_name g = n" using assms(2) by (auto simp: find_group_def dest: find_SomeD)
  then have "cut MAX_ALIAS_SIZE n = n" using assms(1) by (auto simp: lists_ok_def cut_def)
  moreover have "gr_name x = n" if "x \<in> set (dm_groups s)" "gr_ptr x = gr_ptr g" for x
    using that g assms(1) by (auto simp: lists_ok_def alloc_ok_def distinct_map inj_on_def)
  ultimately have "map (\<lambda>x. if gr_ptr x = gr_ptr g then x\<lparr>gr_name := cut MAX_ALIAS_SIZE n\<rparr> else x) (dm_groups s) = dm_groups s"
    by (intro map_idI) (auto simp: gr_name_same)
  then show ?thesis by (simp add: upd_group_def)
qed

lemma update_group_inv:
  assumes "dem_inv_at lk J s"
  shows "ensures (update_group J name data s) (\<lambda>(s', _). dem_inv_at lk J s')"
proof (cases "update_json_group J (dm_root s) name data")
  case (Inr r)
  obtain root ret msg out where e: "update_json_group J (dm_root s) name data = Inr ((root, ret, msg), out)"
    using Inr by (metis prod.collapse)
  note p = inv_parts [OF assms]
  have inv: "store_inv J root"
    using store_step_inv [OF p(2), of "Update_Group name data" root] e by (simp add: exec_map_def)
  show ?thesis
  proof (cases "ret = 0")
    case True
    obtain n where n: "out = Some n" and new: "set (db_group_names (abs_db J root)) \<subseteq> insert n (set (db_group_names (abs_db J (dm_root s))))"
      using update_json_group_abs(2) [OF p(1) e True] names_spec(1) [of out] names_spec(2) [of _ "the out"]
      by (cases out) (auto split: option.splits)
    have sub: "set (group_names J (s\<lparr>dm_root := root\<rparr>)) \<subseteq> insert n (insert [] (gr_name ` set (dm_groups s)))"
      using new p(4) by (auto simp: group_names_def)
    show ?thesis
    proof (cases "find_group (s\<lparr>dm_root := root\<rparr>) n")
      case None
      then show ?thesis
        using init_group_inv [of "s\<lparr>dm_root := root\<rparr>" lk n] inv p(3) sub True n e
        by (auto simp: update_group_def elim!: ensures_mono)
    next
      case (Some g)
      then have "n \<in> gr_name ` set (dm_groups s)" by (auto simp: find_group_def dest!: find_SomeD)
      then show ?thesis
        using rename_same_group [OF _ Some] sub inv p(3) True n e Some
        by (simp add: update_group_def dem_inv_at_def insert_absorb)
    qed
  next
    case False
    then show ?thesis
      using dem_inv_root [OF assms inv] update_json_group_abs(3) [OF p(1) e] e
      by (simp add: update_group_def group_names_def)
  qed
qed (simp add: update_group_def)

lemma group_ptr_known:
  assumes "n \<in> gr_name ` set (dm_groups s)"
  obtains g where "g \<in> set (dm_groups s)" "group_ptr s n = gr_ptr g" "gr_name g = n"
  using assms by (cases "find_group s n") (auto simp: group_ptr_def find_group_def find_None_set dest!: find_SomeD)

lemma group_ptr_cases: "group_ptr s n = NULL \<or> group_ptr s n \<in> gr_ptr ` set (dm_groups s)"
  by (auto simp: group_ptr_def find_group_def split: option.split dest!: find_SomeD)

lemma root_changed:
  assumes "dem_inv_at lk J s" "store_inv J root" "db_group_names (abs_db J root) = group_names J s" "lists_ok lk s'"
    and "dm_root s' = root" "map gr_name (dm_groups s') = map gr_name (dm_groups s)"
  shows "dem_inv_at lk J s'"
proof -
  have "gr_name ` set (dm_groups s') = gr_name ` set (dm_groups s)" by (metis assms(6) list.set_map)
  then show ?thesis using assms by (simp add: dem_inv_at_def group_names_def)
qed

lemma set_group_member_inv:
  assumes "dem_inv_at lk J s" "lk \<Longrightarrow> named J s"
  shows "ensures (set_group_member J N name data m tag (kind_tag k) s) (\<lambda>(s', _). dem_inv_at lk J s')"
proof (cases name)
  case (Some n)
  note p = inv_parts [OF assms(1)]
  have "dem_inv_at lk J s2"
    if e: "set_json_group_member J (dm_root s) n data m tag (kind_tag k) = Inr ((root, ret, msg), out)"
      and s2: "if ret \<noteq> 0 then s2 = s\<lparr>dm_root := root\<rparr> else \<exists>a. out = Some a \<and>
        (if tag \<noteq> TAG_TARGET then add_host_to_group J (group_ptr (s\<lparr>dm_root := root\<rparr>) n) a (s\<lparr>dm_root := root\<rparr>)
         else add_target_to_group N (group_ptr (s\<lparr>dm_root := root\<rparr>) n) a (s\<lparr>dm_root := root\<rparr>)) = Inr s2"
    for root ret msg out s2
  proof (cases "ret = 0")
    case False
    then show ?thesis using s2 set_json_group_member_abs(1) [OF p(1) e] assms(1) by simp
  next
    case True
    have inv: "store_inv J root"
      using store_step_inv [OF p(2), of "Set_Member k n data m tag" root] e by (simp add: exec_map_def)
    have n: "n \<in> set (group_names J s)" and same: "db_group_names (abs_db J root) = group_names J s"
      using set_json_group_member_abs(2) [OF p(1) e True] by (auto simp: names_spec group_names_def)
    note changed = root_changed [OF assms(1) inv same]
    define g where "g = group_ptr (s\<lparr>dm_root := root\<rparr>) n"
    have g: "g \<in> gr_ptr ` set (dm_groups s) \<or> \<not> lk \<and> g = NULL"
    proof (cases "n \<in> gr_name ` set (dm_groups s)")
      case True
      then have "n \<in> gr_name ` set (dm_groups (s\<lparr>dm_root := root\<rparr>))" by simp
      then obtain g0 where "g0 \<in> set (dm_groups (s\<lparr>dm_root := root\<rparr>))" "g = gr_ptr g0"
        unfolding g_def by (rule group_ptr_known)
      then show ?thesis by simp
    next
      case False
      then have "n = []" "\<not> lk" using n p(4) assms(2) by (auto simp: group_names_def named_def)
      then show ?thesis
        using group_ptr_cases [of "s\<lparr>dm_root := root\<rparr>" n] unfolding g_def by auto
    qed
    obtain a where a: "(if tag \<noteq> TAG_TARGET then add_host_to_group J g a (s\<lparr>dm_root := root\<rparr>)
         else add_target_to_group N g a (s\<lparr>dm_root := root\<rparr>)) = Inr s2" using s2 True unfolding g_def by auto
    show ?thesis
    proof (cases "tag = TAG_TARGET")
      case False
      have link: "lists_ok lk (s\<lparr>dm_root := root, dm_hosts := dm_hosts s @ [\<lparr>gl_group = g, gl_alias = x, gl_nqn = q\<rparr>]\<rparr>)" for x q
        using lists_ok_add_link [of lk "s\<lparr>dm_root := root\<rparr>" g x q] g p(3) by simp
      show ?thesis
        using False a link
        by (auto simp: add_host_to_group_def split: option.splits intro!: changed)
    next
      case True
      have "ensures (add_target_to_group N g a (s\<lparr>dm_root := root\<rparr>)) (dem_inv_at lk J)"
        unfolding add_target_to_group_def Let_def
        using lists_ok_add_target [of lk "s\<lparr>dm_root := root\<rparr>"] p(3)
        by (auto simp: find_target_def map_group_upd split: option.split dest!: find_SomeD
            intro!: dem.send_notifications_I [where lk = lk] changed)
      then show ?thesis using a True by simp
    qed
  qed
  then show ?thesis
    using Some by (auto simp: set_group_member_def Let_def intro!: ensuresI split: option.splits if_splits)
qed (simp add: set_group_member_def)

lemma del_group_member_inv:
  assumes "dem_inv_at lk J s"
  shows "ensures (del_group_member J N name m tag (kind_tag k) s) (\<lambda>(s', _). dem_inv_at lk J s')"
proof -
  note p = inv_parts [OF assms]
  have host: "dem_inv_at lk J (del_host_from_group g a s')" if "dem_inv_at lk J s'" for g a and s' :: "('j, 'w) dem"
    using that
    by (auto simp: del_host_from_group_def dem_inv_at_def group_names_def split: option.split
        intro!: lists_ok_hosts dest!: in_remove1D)
  have target: "ensures (del_target_from_group N g a s') (dem_inv_at lk J)" if i: "dem_inv_at lk J s'" for g a and s' :: "('j, 'w) dem"
  proof -
    have keep: "dem_inv_at lk J s2" if "lists_ok lk s2" "dm_root s2 = dm_root s'" "map gr_name (dm_groups s2) = map gr_name (dm_groups s')"
      for s2 :: "('j, 'w) dem"
      using root_changed [OF i inv_parts(2) [OF i] _ that] by (simp add: group_names_def)
    show ?thesis
      unfolding del_target_from_group_def Let_def
      using i lists_ok_del_target(1) [OF inv_parts(3) [OF i] _ refl] lists_ok_del_target(2) [OF inv_parts(3) [OF i] _ refl]
      by (auto simp: find_target_def map_group_upd split: option.split dest!: find_SomeD
          intro!: dem.send_notifications_I [where lk = lk] keep)
  qed
  have root: "dem_inv_at lk J (s\<lparr>dm_root := root\<rparr>)"
    if e: "del_json_group_member J (dm_root s) n a tag (kind_tag k) = (root, ret, msg)" for n a root ret msg
  proof (cases "ret = 0")
    case False
    then show ?thesis using del_json_group_member_abs(1) [OF p(1) e] assms by simp
  next
    case True
    show ?thesis
      using store_step_inv [OF p(2), of "Del_Member k n a tag" root] e del_json_group_member_abs(2) [OF p(1) e True]
      by (intro dem_inv_root [OF assms]) (simp_all add: names_spec group_names_def)
  qed
  show ?thesis
    unfolding del_group_member_def Let_def
    by (auto split: option.split prod.split intro!: root host ensures_mono [OF target [OF root]])
qed

lemma del_group_inv:
  assumes "dem_inv_at lk J s"
  shows "ensures (del_group J name s) (\<lambda>(s', _). dem_inv_at lk J s')"
proof (cases name)
  case (Some n)
  note p = inv_parts [OF assms]
  obtain root msg where e: "del_json_group J (dm_root s) n =
      (root, if n \<in> set (group_names J s) then 0 else - ENOENT, msg)"
    and a: "abs_db J root = (if n \<in> set (group_names J s) then spec_del_group n (abs_db J (dm_root s)) else abs_db J (dm_root s))"
    using del_json_group_abs [OF p(1), of n] by (auto simp: group_names_def)
  have inv: "store_inv J root" using store_step_inv [OF p(2), of "Del_Group n" root] e by simp
  show ?thesis
  proof (cases "n \<in> set (group_names J s)")
    case False
    then show ?thesis
      using Some e a dem_inv_root [OF assms inv] by (simp add: del_group_def ENOENT_def group_names_def)
  next
    case True
    have distinct: "distinct (nonempty_names (group_names J s))"
      using p(2) by (simp add: store_inv_def db_inv_def group_names_def)
    note left = remove_name [OF distinct, of n]
    have "dem_inv_at lk J (s\<lparr>dm_root := root, dm_hosts := filter (\<lambda>l. gl_group l \<noteq> gr_ptr g) (dm_hosts s),
        dm_groups := remove1 g (dm_groups s)\<rparr>)" if "find_group (s\<lparr>dm_root := root\<rparr>) n = Some g" for g
    proof -
      have g: "g \<in> set (dm_groups s)" "gr_name g = n" using that by (auto simp: find_group_def dest: find_SomeD)
      have "set (db_group_names (abs_db J root)) \<subseteq> insert [] (set (group_names J s) - {n})"
        using a True left by (simp add: names_spec group_names_def)
      moreover have "gr_name ` set (dm_groups s) - {n} \<subseteq> gr_name ` set (remove1 g (dm_groups s))"
        using g(2) by (auto simp: image_iff) (metis in_set_remove1)
      ultimately have "set (db_group_names (abs_db J root)) \<subseteq> insert [] (gr_name ` set (remove1 g (dm_groups s)))"
        using p(4) unfolding group_names_def by blast
      then show ?thesis
        using lists_ok_del_group [of lk "s\<lparr>dm_root := root\<rparr>" g] g(1) p(3) inv
        by (simp add: dem_inv_at_def group_names_def)
    qed
    then show ?thesis using Some e True by (auto simp: del_group_def Let_def split: option.split)
  qed
qed (simp add: del_group_def)

end

section \<open>Requests on hosts and targets\<close>

context dem_api
begin

lemma add_host_inv: "dem_inv_at lk J s \<Longrightarrow> ensures (add_host J h s) (\<lambda>(s', _). dem_inv_at lk J s')"
proof (cases h)
  case (Some a)
  assume i: "dem_inv_at lk J s"
  note p = inv_parts [OF i]
  have "dem_inv_at lk J (s\<lparr>dm_root := root\<rparr>)" if "add_json_host J (dm_root s) a = Inr (root, r)" for root r
    using store_step_inv [OF p(2), of "Add_Host a" root] that add_json_host_abs [OF p(1), of a]
    by (intro dem_inv_root [OF i]) (auto simp: exec_map_def names_spec group_names_def split: if_splits)
  then show ?thesis using Some by (auto simp: add_host_def intro!: ensuresI)
qed (simp add: add_host_def)

lemma update_subsys_host_inv:
  assumes "dem_inv_at lk J (fst st)"
  shows "ensures (update_subsys_host N a b q pq st) (\<lambda>st'. dem_inv_at lk J (fst st'))"
  using assms unfolding update_subsys_host_def message_defs Let_def
  by (auto split: prod.split option.split intro!: dem.wp_I kept_intros)

lemma each_pair:
  assumes "P st" "\<And>x st. P st \<Longrightarrow> ensures (f x st) P"
  shows "ensures (each f xs st) P"
  using assms(1)
proof (induction xs arbitrary: st)
  case (Cons x xs)
  then show ?case using ensures_mono [OF assms(2) [OF Cons.prems]] by simp
qed simp

lemma entry_change_names:
  "entry_change spec_add_host spec_rename_host known old n d d' \<Longrightarrow> db_group_names d' = db_group_names d"
  "entry_change spec_add_target spec_rename_target known old n d d' \<Longrightarrow> db_group_names d' = db_group_names d"
  by (auto simp: entry_change_def names_spec split: option.splits if_splits)

lemma update_host_inv:
  assumes "dem_inv_at lk J s"
  shows "ensures (update_host J N h data s) (\<lambda>(s', _). dem_inv_at lk J s')"
proof -
  note p = inv_parts [OF assms]
  have "dem_inv_at lk J (s\<lparr>dm_root := root\<rparr>)" if e: "update_json_host J (dm_root s) h data = Inr ((root, ret, msg), out)"
    for root ret msg out
  proof -
    have "store_inv J root"
      using store_step_inv [OF p(2), of "Update_Host h data" root] e by (simp add: exec_map_def)
    moreover have "db_group_names (abs_db J root) = group_names J s"
      using update_json_host_abs(2,3) [OF p(1) e] entry_change_names(1)
      by (cases "ret = 0") (auto simp: group_names_def)
    ultimately show ?thesis by (intro dem_inv_root [OF assms]) simp_all
  qed
  then show ?thesis
    unfolding update_host_def Let_def
    by (auto split: option.split prod.split intro!: ensuresI [of "update_json_host J r h d" for r h d]
        ensures_mono [OF each_pair [where P = "\<lambda>st. dem_inv_at lk J (fst st)"]] update_subsys_host_inv)
qed

lemma del_host_inv:
  assumes "dem_inv_at lk J s"
  shows "ensures (del_host J N h s) (\<lambda>(s', _). dem_inv_at lk J s')"
proof -
  note p = inv_parts [OF assms]
  have root: "dem_inv_at lk J (s\<lparr>dm_root := root\<rparr>)" if e: "del_json_host J (dm_root s) a = Inr ((root, ret, msg), out)"
    for a root ret msg out
    using store_step_inv [OF p(2), of "Del_Host a" root] e del_json_host_abs [OF p(1) e]
    by (cases "ret = 0") (auto intro!: dem_inv_root [OF assms] simp: exec_map_def group_names_def names_spec assms)
  have subsys: "ensures (del_subsys_host J N a p q s') (dem_inv_at lk J)" if "dem_inv_at lk J s'" for a p q and s' :: "('j, 'w) dem"
    unfolding del_subsys_host_def message_defs Let_def
    using that by (auto split: option.split prod.split dest: dem.sub_root intro!: dem.wp_I kept_intros)
  have target: "ensures (del_target_host J N a q p st) (\<lambda>st'. dem_inv_at lk J (fst st'))"
    if "dem_inv_at lk J (fst st)" for a q p and st :: "('j, 'w) dem \<times> int \<times> string"
    unfolding del_target_host_def message_defs
    using that by (auto split: prod.split option.split intro!: dem.each_I subsys dem.wp_I kept_intros)
  show ?thesis
    unfolding del_host_def Let_def
    by (auto split: option.split intro!: ensuresI [of "del_json_host J r a" for r a] root
        ensures_mono [OF each_pair [where P = "\<lambda>st. dem_inv_at lk J (fst st)", OF _ target]])
qed

lemma update_target_root:
  assumes "dem_inv_at lk J s" "update_json_target J (dm_root s) a data = Inr ((root, ret, msg), out)"
  shows "dem_inv_at lk J (s\<lparr>dm_root := root\<rparr>)"
proof -
  note p = inv_parts [OF assms(1)]
  have "store_inv J root"
    using store_step_inv [OF p(2), of "Update_Target a data" root] assms(2) by (simp add: exec_map_def)
  moreover have "db_group_names (abs_db J root) = group_names J s"
    using update_json_target_abs(2,3) [OF p(1) assms(2)] entry_change_names(2)
    by (cases "ret = 0") (auto simp: group_names_def)
  ultimately show ?thesis by (intro dem_inv_root [OF assms(1)]) simp_all
qed

lemma lists_ok_inv: "dem_inv_at lk J s \<Longrightarrow> lists_ok lk s' \<Longrightarrow> dm_root s' = dm_root s \<Longrightarrow> dm_groups s' = dm_groups s \<Longrightarrow> dem_inv_at lk J s'"
  by (simp add: dem_inv_at_def group_names_def)

lemma alloc_target_inv: "dem_inv_at lk J s \<Longrightarrow> alloc_target a s = (p, s') \<Longrightarrow> dem_inv_at lk J s'"
  using lists_ok_alloc_target [of lk s a p s'] by (auto simp: alloc_target_def Let_def dem_inv_at_def group_names_def)

lemma add_target_inv:
  fixes s :: "('j, 'w) dem"
  assumes i: "dem_inv_at lk J s"
  shows "ensures (add_target J tgt s) (\<lambda>(s', _). dem_inv_at lk J s')"
proof -
  note p = inv_parts [OF i]
  have root: "dem_inv_at lk J (s\<lparr>dm_root := root\<rparr>)" if "add_json_target J (dm_root s) a = Inr (root, r)" for a root r
    using store_step_inv [OF p(2), of "Add_Target a" root] that add_json_target_abs [OF p(1), of a]
    by (intro dem_inv_root [OF i]) (auto simp: exec_map_def names_spec group_names_def split: if_splits)
  have new: "dem_inv_at lk J (snd (alloc_target a s'))" if "dem_inv_at lk J s'" for a and s' :: "('j, 'w) dem"
    using alloc_target_inv [OF that] by (metis prod.collapse)
  show ?thesis
    unfolding add_target_def Let_def
    by (auto split: option.split intro!: ensuresI [of "add_json_target J r a" for r a] new dest!: root)
qed

lemma kept_interface: "kept (\<lambda>t w. exec_bind (update_interface out (tg_sc_iface t)) (\<lambda>sc. Inr ((), t\<lparr>tg_sc_iface := sc\<rparr>, w)))"
  by (auto intro!: keptI ensuresI)

lemma update_target_inv:
  assumes "dem_inv_at lk J s"
  shows "ensures (update_target J N a data s) (\<lambda>(s', _). dem_inv_at lk J s')"
proof -
  have rest: "ensures (exec_bind (get_config J N p s1) (\<lambda>(ret, s).
       case get_target s p of
         None \<Rightarrow> Inl Use_after_free
       | Some t \<Rightarrow> exec_bind (send_notifications N (create_event_host_list_for_target s t) s) (\<lambda>s. Inr (s, ret, f ret t))))
       (\<lambda>(s', _). dem_inv_at lk J s')" if "dem_inv_at lk J s1" for p f and s1 :: "('j, 'w) dem"
    using that by (auto split: option.split intro!: dem.wpI [OF dem.get_config_I] dem.send_notifications_I)
  have upd: "dem_inv_at lk J (upd_target p (\<lambda>t. t\<lparr>tg_alias := x, tg_mgmt_mode := m, tg_refresh := r\<rparr>) s')"
    if "dem_inv_at lk J s'" for p x m r and s' :: "('j, 'w) dem"
    using that by (rule dem.upd_target_I) (simp add: core_def)
  show ?thesis
    unfolding update_target_def Let_def
    by (auto split: option.split dest!: update_target_root [OF assms] intro: alloc_target_inv
        intro!: ensuresI [of "update_json_target J r a d" for r a d] dem.on_target_I [where lk = lk] kept_interface upd rest [simplified])
qed

lemma del_target_inv:
  assumes "dem_inv_at lk J s"
  shows "ensures (del_target J N tgt s) (\<lambda>(s', _). dem_inv_at lk J s')"
proof -
  note p = inv_parts [OF assms]
  have root: "dem_inv_at lk J (s\<lparr>dm_root := root\<rparr>)" if e: "del_json_target J (dm_root s) a = Inr (root, ret, msg)"
    for a root ret msg
    using store_step_inv [OF p(2), of "Del_Target a" root] e del_json_target_abs [OF p(1) e]
    by (cases "ret = 0") (auto intro!: dem_inv_root [OF assms] simp: exec_map_def group_names_def names_spec assms)
  have removed: "dem_inv_at lk J (s'\<lparr>dm_targets := filter P (dm_targets s')\<rparr>)" if "dem_inv_at lk J s'" for P and s' :: "('j, 'w) dem"
    using that by (rule lists_ok_inv) (simp_all add: lists_ok_remove_target inv_parts [OF that])
  show ?thesis
    unfolding del_target_def Let_def message_defs
    by (auto split: option.split intro!: ensuresI [of "del_json_target J r a" for r a] root removed
        dem.each_I dem.wp_I kept_intros)
qed

end

end
