(* ===== verification/Dem_System.thy ===== *)
theory Dem_System
  imports Dem_Invariant
begin

text \<open>
  The controller as a whole: the calls that the HTTP handlers of \<^verbatim>\<open>restful.c\<close> make into the other files,
  the configuration file, the start of the program and the sequences of requests, periodic work and host
  commands it executes.

  The locale \<open>request_backend\<close> states what the handlers rely on, as a condition before and after a call;
  it is interpreted on the controller with its invariant.
\<close>

section \<open>The calls of the HTTP handlers\<close>

text \<open>
  The test of \<^verbatim>\<open>get_host_subsystems\<close> on the lists: the target is in a group, and in none of the host's.
\<close>

definition hides_target :: "('j, 'w) dem \<Rightarrow> string \<Rightarrow> string \<Rightarrow> bool exec" where
  "hides_target s host alias =
     (case find_target s alias of
        None \<Rightarrow> Inr False
      | Some t \<Rightarrow>
          if tg_group_member t
          then exec_bind (indirect_shared_group s t host) (\<lambda>shared. Inr (\<not> shared))
          else Inr False)"

text \<open>
  A null alias is compared with the alias of every target, a fault unless there is none. The buffer for the
  answer has been cleared.
\<close>

definition target_call ::
  "string option \<Rightarrow> (string \<Rightarrow> ('j, 'w) dem \<Rightarrow> (int \<times> ('j, 'w) dem) exec) \<Rightarrow> ('j, 'w) dem \<Rightarrow> ('j, 'w) result" where
  "target_call tgt f s =
     (case tgt of
        None \<Rightarrow> if dm_targets s = [] then Inr (s, - ENOENT, []) else Inl Null_deref
      | Some a \<Rightarrow> exec_bind (f a s) (\<lambda>(ret, s). Inr (s, ret, [])))"

fun dem_run :: "'j jansson \<Rightarrow> 'w network \<Rightarrow> request \<Rightarrow> ('j, 'w) dem \<Rightarrow> ('j, 'w) dem outcome exec" where
  "dem_run J N (Req_list_target query) s = exec_bind (list_json_target J (dm_root s) query) (\<lambda>r. Inr (s, r))"
| "dem_run J N (Req_show_target a) s = Inr (s, show_json_target J (dm_root s) a)"
| "dem_run J N (Req_target_usage a) s = Inr (s, target_usage a s)"
| "dem_run J N (Req_target_logpage a) s = exec_bind (target_logpage a s) (\<lambda>r. Inr (s, r))"
| "dem_run J N (Req_del_target tgt) s = del_target J N tgt s"
| "dem_run J N (Req_del_subsys tgt nqn) s = del_subsys J N tgt nqn s"
| "dem_run J N (Req_del_ns tgt nqn nsid) s = del_ns J N tgt nqn nsid s"
| "dem_run J N (Req_unlink_host tgt nqn a) s = unlink_host J N tgt nqn a s"
| "dem_run J N (Req_del_portid tgt pid) s = del_portid J N tgt pid s"
| "dem_run J N (Req_update_target tgt data) s = update_target J N tgt data s"
| "dem_run J N (Req_set_interface tgt data) s = set_interface J tgt data [] s"
| "dem_run J N (Req_set_subsys tgt nqn data) s = set_subsys J N tgt nqn data s"
| "dem_run J N (Req_set_ns tgt nqn data) s = set_ns J N tgt nqn data s"
| "dem_run J N (Req_link_host tgt nqn a data) s = link_host J N tgt nqn a data s"
| "dem_run J N (Req_set_portid tgt pid data) s = set_portid J N tgt pid data s"
| "dem_run J N (Req_add_target tgt) s = add_target J tgt s"
| "dem_run J N (Req_target_reconfig tgt) s = target_call tgt (target_reconfig N) s"
| "dem_run J N (Req_target_refresh tgt) s = target_call tgt (target_refresh N) s"
| "dem_run J N Req_list_host s = exec_bind (list_json_host J (dm_root s)) (\<lambda>r. Inr (s, r))"
| "dem_run J N (Req_show_host h) s =
     exec_bind (show_json_host J (hides_target s h) (dm_root s) h) (\<lambda>(root, r). Inr (s\<lparr>dm_root := root\<rparr>, r))"
| "dem_run J N (Req_host_logpage h) s = exec_bind (host_logpage h s) (\<lambda>r. Inr (s, r))"
| "dem_run J N (Req_del_host h) s = del_host J N h s"
| "dem_run J N (Req_update_host h data) s = update_host J N h data s"
| "dem_run J N (Req_add_host h) s = add_host J h s"
| "dem_run J N Req_list_group s = exec_bind (list_json_group J (dm_root s)) (\<lambda>r. Inr (s, r))"
| "dem_run J N (Req_show_group g) s = Inr (s, show_json_group J (dm_root s) g)"
| "dem_run J N (Req_update_group g data) s = update_group J g data s"
| "dem_run J N (Req_set_group_member g data a tag parent) s = set_group_member J N g data a tag parent s"
| "dem_run J N (Req_add_group g) s = add_group J g s"
| "dem_run J N (Req_del_group g) s = del_group J g s"
| "dem_run J N (Req_del_group_member g a tag parent) s = del_group_member J N g a tag parent s"
| "dem_run J N Req_shutdown_dem s = Inr (s, 0, [])"

section \<open>The configuration file and the server\<close>

text \<open>
  The program with the value in its configuration file; \<open>None\<close> is a file that does not exist or does not
  parse (writing a document and reading it back gives the document). \<^verbatim>\<open>json_dump_file\<close> has one of three outcomes:
  it writes the document, it cannot open the file, or it cannot write all of it, which leaves a text that does
  not parse. The caller is told, and prints a message, but the request that stores the configuration is answered
  as if nothing had happened.
\<close>

datatype dump_outcome = Dumped | Not_opened | Cut_short

fun json_dump_file :: "dump_outcome \<Rightarrow> 'j \<Rightarrow> 'j option \<Rightarrow> 'j option" where
  "json_dump_file Dumped root file = Some root"
| "json_dump_file Not_opened root file = file"
| "json_dump_file Cut_short root file = None"

record ('j, 'w) system =
  sy_dem :: "('j, 'w) dem"
  sy_file :: "'j option"
  sy_stopped :: bool

definition store_json_config_file :: "dump_outcome \<Rightarrow> ('j, 'w) system \<Rightarrow> ('j, 'w) system" where
  "store_json_config_file disk s = s\<lparr>sy_file := json_dump_file disk (dm_root (sy_dem s)) (sy_file s)\<rparr>"

definition shutdown_dem :: "('j, 'w) system \<Rightarrow> ('j, 'w) system" where
  "shutdown_dem s = s\<lparr>sy_stopped := True\<rparr>"

definition dem_backend :: "'j jansson \<Rightarrow> 'w network \<Rightarrow> dump_outcome \<Rightarrow> ('j, 'w) system backend" where
  "dem_backend J N disk =
     \<lparr>bk_run = (\<lambda>r s.
        if r = Req_shutdown_dem then Inr (shutdown_dem s, 0, [])
        else exec_bind (dem_run J N r (sy_dem s)) (\<lambda>(d, ret, resp). Inr (s\<lparr>sy_dem := d\<rparr>, ret, resp))),
      bk_store = store_json_config_file disk\<rparr>"

text \<open>\<^verbatim>\<open>parse_config_file\<close>: the document, and the file after it.\<close>

definition parse_config_file :: "'j jansson \<Rightarrow> dump_outcome \<Rightarrow> 'j option \<Rightarrow> 'j \<times> 'j option" where
  "parse_config_file J disk file =
     (case file of
        Some root \<Rightarrow> (root, file)
      | None \<Rightarrow> (json_object J, json_dump_file disk (json_object J) None))"

text \<open>\<^verbatim>\<open>main\<close> from \<^verbatim>\<open>init_json\<close> to the threads: the server, or the code the program ends with.\<close>

definition main_start ::
  "'j jansson \<Rightarrow> 'w network \<Rightarrow> dump_outcome \<Rightarrow> string option \<Rightarrow> directory option \<Rightarrow> 'j option \<Rightarrow> string \<Rightarrow> 'w \<Rightarrow>
     (int + ('j, 'w) system server) exec" where
  "main_start J N disk sigfile dir file shared w =
     (case parse_config_file J disk file of (root, file') \<Rightarrow>
        exec_bind (start_dem J N sigfile dir root shared w) (\<lambda>r.
          Inr (case r of
                 Inl ret \<Rightarrow> Inl ret
               | Inr sv \<Rightarrow> Inr \<lparr>sv_signature = sv_signature sv, sv_interfaces = sv_interfaces sv,
                               sv_state = \<lparr>sy_dem = sv_state sv, sy_file = file', sy_stopped = False\<rparr>\<rparr>)))"

section \<open>What the handlers rely on\<close>

text \<open>
  The lists of members a request names are the two the document has.
\<close>

fun proper :: "request \<Rightarrow> bool" where
  "proper (Req_set_group_member g data a tag parent) = (parent = TAG_HOSTS \<or> parent = TAG_TARGETS)"
| "proper (Req_del_group_member g a tag parent) = (parent = TAG_HOSTS \<or> parent = TAG_TARGETS)"
| "proper _ = True"

text \<open>
  A condition \<open>I\<close> before a call and \<open>Q\<close> after it. Every handler makes at most one call and stores the
  configuration at most once after it.
\<close>

locale request_backend =
  fixes B :: "'s backend" and I Q :: "'s \<Rightarrow> bool"
  assumes run: "I s \<Longrightarrow> proper r \<Longrightarrow> ensures (bk_run B r s) (\<lambda>(s', _). Q s')"
    and store: "Q s \<Longrightarrow> Q (bk_store B s)"
    and weaken: "I s \<Longrightarrow> Q s"
begin

definition good :: "'s outcome exec \<Rightarrow> bool" where
  "good e = ensures e (\<lambda>(s', _). Q s')"

lemma good_intros:
  "I s \<Longrightarrow> proper r \<Longrightarrow> good (bk_run B r s)"
  "I s \<Longrightarrow> good (Inr (s, x))" "I s \<Longrightarrow> good (Inr (bad_request s))" "I s \<Longrightarrow> good (Inr (bad_req s))"
  "I s \<Longrightarrow> good (Inr (finish B (s, x)))"
  "(c \<Longrightarrow> good e) \<Longrightarrow> (\<not> c \<Longrightarrow> good e1) \<Longrightarrow> good (if c then e else e1)"
  "good e \<Longrightarrow> good (exec_bind e (\<lambda>r. Inr (finish B r)))"
  "good e \<Longrightarrow> good (exec_bind e (\<lambda>r. Inr (to_status r)))"
  "good e \<Longrightarrow> good (exec_bind e (\<lambda>(s, ret, resp). Inr (s, f ret resp)))"
  "I s \<Longrightarrow> proper r \<Longrightarrow> good (target_action B r t done_text verb s)"
  by (auto simp: good_def run weaken store bad_request_def bad_req_def finish_def to_status_def target_action_def
      split: prod.splits option.splits elim!: ensures_mono intro!: ensures_mono [OF run])

lemma good_bind: "(\<And>x. good (k x)) \<Longrightarrow> good (exec_bind e k)"
  by (cases e) (simp_all add: good_def)

lemma good_case:
  "good e \<Longrightarrow> (\<And>x. good (f x)) \<Longrightarrow> good (case_option e f a)"
  "good e \<Longrightarrow> (\<And>x xs. good (g x xs)) \<Longrightarrow> good (case_list e g l)"
  by (simp_all split: option.split list.split)

lemmas good_rules = good_intros good_case good_bind

lemma handlers_good:
  assumes "I s"
  shows "good (handle_target_requests B parts n hm s)" "good (handle_host_requests B parts n hm s)"
    "good (handle_group_requests B parts n hm s)" "good (handle_redfish_requests s)"
  unfolding change_handler_defs handle_target_requests_def handle_host_requests_def handle_group_requests_def
    handle_redfish_requests_def get_target_request_def get_host_request_def get_group_request_def Let_def
  by (intro good_rules assms; simp)+

lemma on_state_good: "good (h (sv_state s)) \<Longrightarrow> ensures (on_state h s) (\<lambda>(s', _). Q (sv_state s'))"
  by (auto simp: on_state_def good_def elim!: ensures_mono)

lemma dem_requests_good:
  "I (sv_state s) \<Longrightarrow> ensures (handle_dem_requests J writable B verb hm s) (\<lambda>(s', _). Q (sv_state s'))"
  unfolding dem_defs
  by (auto simp: bad_request_def weaken intro!: ensures_mono [OF run] ensuresI [of "c_strcpy n x" for n x]
      ensuresI [of "part_is v x" for v x] ensuresI [of "update_signature J w g d" for w g d])

lemma handle_http_request_good:
  assumes "I (sv_state s)"
  shows "ensures (handle_http_request J writable B hm s) (\<lambda>(s', _). Q (sv_state s'))"
proof -
  have "ensures (dispatch J writable B hm s) (\<lambda>(s', _). Q (sv_state s'))"
    unfolding dispatch_def Let_def
    by (auto simp: weaken assms intro!: ensuresI [of "parse_uri u d" for u d] ensuresI [of "c_strcpy n x" for n x]
        on_state_good handlers_good dem_requests_good)
  then show ?thesis
    using assms by (auto simp: handle_http_request_def weaken intro!: ensuresI [of "authorized sg hm" for sg] elim!: ensures_mono)
qed

end

section \<open>The controller behind the handlers\<close>

context dem_api
begin

lemma proper_kind: "parent = TAG_HOSTS \<or> parent = TAG_TARGETS \<Longrightarrow> \<exists>k. parent = kind_tag k"
  by (metis kind_tag.simps)

lemma target_call_inv:
  assumes "dem_inv_at lk J s" "\<And>a. ensures (f a s) (\<lambda>(_, s'). dem_inv_at lk J s')"
  shows "ensures (target_call tgt f s) (\<lambda>(s', _). dem_inv_at lk J s')"
  using assms by (auto simp: target_call_def split: option.split intro!: ensures_mono [OF assms(2)])

lemma show_host_inv:
  assumes "dem_inv_at lk J s" "show_json_host J hides (dm_root s) h = Inr (root, r)"
  shows "dem_inv_at lk J (s\<lparr>dm_root := root\<rparr>)"
  using assms(2) by (intro dem_inv_sub [of "Show_Host hides h", OF _ _ assms(1)]) (simp_all add: exec_map_def)

lemma dem_run_inv:
  assumes "dem_inv_at lk J s" "lk \<Longrightarrow> named J s" "proper r"
  shows "ensures (dem_run J N r s) (\<lambda>(s', _). dem_inv_at lk J s')"
proof -
  note calls = del_target_inv del_host_inv update_host_inv add_host_inv del_group_inv add_target_inv update_target_inv
    set_group_member_inv del_group_member_inv dem.del_subsys_I dem.del_ns_I dem.unlink_host_I dem.del_portid_I
    dem.set_interface_I dem.set_subsys_I dem.set_ns_I dem.link_host_I dem.set_portid_I
  note later = target_call_inv [OF assms(1) dem.target_reconfig_I]
    target_call_inv [OF assms(1) dem.target_refresh_I]
  show ?thesis
    using assms
    by (cases r)
      (auto intro!: ensuresI [of "list_json_target J x y" for x y] ensuresI [of "list_json_host J x" for x]
        ensuresI [of "list_json_group J x" for x] ensuresI [of "target_logpage x s" for x]
        ensuresI [of "host_logpage x s" for x] ensuresI [of "show_json_host J h x y" for h x y]
        add_group_inv update_group_inv calls [THEN ensures_mono] later [THEN ensures_mono]
        dest: show_host_inv dest!: proper_kind)
qed

end

sublocale dem_api \<subseteq> http: request_backend "dem_backend J N disk"
    "\<lambda>s. dem_inv_at lk J (sy_dem s) \<and> (lk \<longrightarrow> named J (sy_dem s))" "\<lambda>s. dem_inv_at lk J (sy_dem s)" for disk lk
  by unfold_locales
    (auto simp: dem_backend_def store_json_config_file_def shutdown_dem_def intro!: ensures_mono [OF dem_run_inv])

text \<open>
  Storing does with the file what \<^verbatim>\<open>json_dump_file\<close> does with the document; no call touches the file.
\<close>

interpretation config_file: storing_backend "dem_backend J N disk" "\<lambda>s. sy_file s = file"
    "\<lambda>s. sy_file s = json_dump_file disk (dm_root (sy_dem s)) file" for J N disk "file"
  by unfold_locales
    (auto simp: dem_backend_def store_json_config_file_def shutdown_dem_def intro!: ensuresI)

end
