(* ===== verification/Dem_Start.thy ===== *)
theory Dem_Start
  imports Dem_System
begin

text \<open>
  The start of the controller establishes its invariant: \<^verbatim>\<open>build_lists\<close> makes the lists of targets and
  groups from the document, and \<^verbatim>\<open>init_targets\<close> keeps what it has made.
\<close>

section \<open>Lists under construction\<close>

text \<open>
  The document is \<open>root\<close>, the groups made so far have the names \<open>gs\<close> and those at the addresses \<open>G\<close> are
  among them.
\<close>

definition built :: "'j \<Rightarrow> string list \<Rightarrow> ptr set \<Rightarrow> ('j, 'w) dem \<Rightarrow> bool" where
  "built root gs G s =
     (lists_ok True s \<and> dm_root s = root \<and> map gr_name (dm_groups s) = gs \<and> G \<subseteq> gr_ptr ` set (dm_groups s))"

lemma lists_ok_frame: "frame s s' \<Longrightarrow> lists_ok True s \<Longrightarrow> lists_ok True s'"
  using alloc_ok_frame [of s s'] links_ok_frame [of s s' True] by (auto simp: lists_ok_def frame_def)

interpretation built: framed "built root gs G"
proof
  show "built root gs G s'" if f: "frame s s'" and b: "built root gs G s" for s s'
    using b lists_ok_frame [OF f] f by (auto simp: built_def frame_def)
  show "distinct (map tg_ptr (dm_targets s))" if "built root gs G s" for s
    using that by (simp add: built_def lists_ok_def alloc_ok_def)
qed

lemma built_ok: "built root gs G s \<Longrightarrow> lists_ok True s"
  by (simp add: built_def)

lemma new_subsys_built:
  "built root gs G s \<Longrightarrow> ensures (new_subsys p nqn s) (\<lambda>(_, s'). built root gs G s')"
  unfolding new_subsys_def Let_def
  by (auto intro!: ensuresI [of "c_strcpy n x" for n x] built.upd_next_I built.upd_target_I simp: core_def)

lemma check_subsystems_built:
  "built root gs G s \<Longrightarrow> ensures (check_subsystems J p hosts xs s) (built root gs G)"
proof (induction xs arbitrary: hosts s)
  case (Cons x xs)
  show ?case
    using Cons.prems
    by (auto simp: Let_def split: option.split
        intro!: ensures_mono [OF new_subsys_built] ensuresI [of "check_hosts J a b" for a b] Cons.IH built.upd_subsys_I)
qed simp

lemma add_ports_built:
  "built root gs G s \<Longrightarrow> ensures (add_ports J p js ports s) (\<lambda>(_, s'). built root gs G s')"
proof (induction js arbitrary: p ports s)
  case (Cons j js)
  show ?case
    using Cons.prems
    by (auto simp: add_port_to_target_def split: option.split
        intro!: ensuresI [of "get_transport_info J y x" for y x] Cons.IH built.upd_next_I built.upd_target_I
        simp: core_def)
qed simp

lemma alloc_target_built: "built root gs G s \<Longrightarrow> alloc_target a s = (p, s') \<Longrightarrow> built root gs G s'"
  using lists_ok_alloc_target [of True s a p s'] by (auto simp: built_def alloc_target_def Let_def)

lemma kept_setup:
  "kept (\<lambda>t w. exec_bind (setup_oob_target J parent (tg_sc_iface t)) (\<lambda>(ok, sc). Inr (ok, t\<lparr>tg_sc_iface := sc\<rparr>, w)))"
  "kept (\<lambda>t w. exec_bind (setup_inb_target J parent t) (\<lambda>t. Inr (True, t, w)))"
  "kept (\<lambda>t w. Inr (True, t, w))"
  by (auto simp: core_def setup_inb_target_def upd_sc_def Let_def split: option.split
      intro!: keptI ensuresI [of "setup_oob_target J x y" for x y] ensuresI [of "inb_port J x" for x])

lemma add_to_target_list_built:
  assumes "built root gs G s"
  shows "ensures (add_to_target_list J parent hosts s) (\<lambda>(_, s'). built root gs G s')"
proof -
  have mode: "built root gs G (upd_target p (\<lambda>t. t\<lparr>tg_mgmt_mode := m\<rparr>) s')"
    "built root gs G (upd_target p (\<lambda>t. t\<lparr>tg_refresh := r\<rparr>) s')" if "built root gs G s'" for p m r and s' :: "('a, 'b) dem"
    using that by (auto intro!: built.upd_target_I simp: core_def)
  have kept: "kept (\<lambda>t w.
                  case m of
                    OUT_OF_BAND_MGMT \<Rightarrow> exec_bind (setup_oob_target J parent (tg_sc_iface t)) (\<lambda>(ok, sc).
                                          Inr (ok, t\<lparr>tg_sc_iface := sc\<rparr>, w))
                  | IN_BAND_MGMT \<Rightarrow> exec_bind (setup_inb_target J parent t) (\<lambda>t. Inr (True, t, w))
                  | LOCAL_MGMT \<Rightarrow> Inr (True, t, w))" for m
    by (cases m) (simp_all add: kept_setup)
  show ?thesis
    unfolding add_to_target_list_def Let_def
    using alloc_target_built [OF assms] assms
    by (auto split: option.split prod.split intro!: built.on_target_I kept kept_setup mode check_subsystems_built [THEN ensures_mono])
qed

context dem_api
begin

lemma build_target_built:
  "built root gs G s \<Longrightarrow> ensures (build_target J hosts iter s)
     (\<lambda>(iter', s'). built root gs G s' \<and> json_member_string J TAG_ALIAS iter' = json_member_string J TAG_ALIAS iter)"
  unfolding build_target_def
  by (auto split: option.split intro!: ensures_mono [OF add_to_target_list_built] ensures_mono [OF add_ports_built])

lemma build_targets_built:
  assumes "built root gs G s" "json_is_array J array"
  shows "ensures (build_targets J hosts is array s)
     (\<lambda>(array', s'). built root gs G s' \<and> json_is_array J array' \<and> json_names J TAG_ALIAS array' = json_names J TAG_ALIAS array)"
  using assms
proof (induction "is" arbitrary: array s)
  case (Cons i "is")
  show ?case
  proof (cases "json_array_get J array i")
    case (Some iter)
    show ?thesis
      using Some Cons.prems names_set_same [of i array]
      by (auto simp: array_get_elems split: if_splits
          intro!: ensures_mono [OF build_target_built [OF Cons.prems(1)]] ensures_mono [OF Cons.IH])
  qed simp
qed simp

lemma build_target_list_built:
  assumes "built root gs G s" "store_inv J root"
  shows "ensures (build_target_list J s) (\<lambda>s'. \<exists>root'. built root' gs G s' \<and> store_inv J root' \<and> abs_db J root' = abs_db J root)"
proof -
  have s: "dm_root s = root" using assms(1) by (simp add: built_def)
  show ?thesis
  proof (cases "json_object_get J root TAG_TARGETS")
    case (Some array)
    have wf: "store_wf J root" using assms(2) by (simp add: store_inv_def)
    have set: "store_inv J (json_object_set_new J root TAG_TARGETS a) \<and>
        abs_db J (json_object_set_new J root TAG_TARGETS a) = abs_db J root"
      if "json_is_array J a" "json_names J TAG_ALIAS a = json_names J TAG_ALIAS array" for a
      using assms(2) that store_wf_set_coll [OF wf _ that(1), of TAG_TARGETS] Some
      by (simp add: store_inv_def abs_set store_wf_object [OF wf] abs_sel(3) [symmetric])
    show ?thesis
      using Some s set store_wf_array [OF wf _ Some] assms(1)
      by (auto simp: build_target_list_def built_def intro!: ensures_mono [OF build_targets_built [OF assms(1)]])
  qed (use assms s in \<open>auto simp: build_target_list_def\<close>)
qed

end

section \<open>Groups\<close>

lemma upd_group_ptrs: "gr_ptr ` set (dm_groups (upd_group g (\<lambda>gr. gr\<lparr>gr_targets := f gr\<rparr>) s)) = gr_ptr ` set (dm_groups s)"
proof -
  have "map gr_ptr (dm_groups (upd_group g (\<lambda>gr. gr\<lparr>gr_targets := f gr\<rparr>) s)) = map gr_ptr (dm_groups s)"
    by (rule map_group_upd) simp
  then show ?thesis by (metis list.set_map)
qed

lemma link_target_built:
  assumes "built root gs G s"
  shows "ensures (link_target J N g x s) (built root gs G)"
proof -
  have "built root gs G (upd_group g (\<lambda>gr. gr\<lparr>gr_targets := gr_targets gr @ [tg_ptr t]\<rparr>)
           (upd_target (tg_ptr t) (\<lambda>t. t\<lparr>tg_group_member := True\<rparr>) s))" if "t \<in> set (dm_targets s)" for t
    using assms lists_ok_add_target [OF built_ok [OF assms] that, of g]
    by (auto simp: built_def map_group_upd upd_group_ptrs)
  then show ?thesis
    using assms
    by (auto simp: link_target_def add_target_to_group_def find_target_def Let_def split: option.split
        intro!: built.send_notifications_I dest!: find_SomeD)
qed

lemma link_group_host_built:
  assumes "built root gs G s" "g \<in> G"
  shows "ensures (link_group_host J g x s) (built root gs G)"
proof -
  have "g \<in> gr_ptr ` set (dm_groups s)" using assms by (auto simp: built_def)
  then show ?thesis
    using assms lists_ok_add_link [of True s g]
    by (auto simp: link_group_host_def add_host_to_group_def built_def split: option.split
        intro!: ensuresI [of "get_json_host_nqn J r a" for r a] ensuresI [of "c_strcpy n x" for n x])
qed

lemma build_group_built:
  assumes "built root gs {} s"
  shows "ensures (build_group J N iter s) (\<lambda>s'. \<exists>name. json_get_string J iter TAG_NAME = Some (Some name) \<and> built root (gs @ [name]) {} s')"
proof -
  have new: "built root (gs @ [name]) {dm_next s} (s\<lparr>dm_groups := dm_groups s @ [\<lparr>gr_ptr = dm_next s, gr_targets = [], gr_name = name\<rparr>],
                             dm_next := Suc (dm_next s)\<rparr>)" if "length name < MAX_ALIAS_SIZE" for name
    using assms lists_ok_init_group [OF built_ok [OF assms] that] by (simp add: built_def)
  have links: "ensures (exec_bind (each (link_target J N g) xs s') (each (link_group_host J g) ys)) (built root names {})"
    if "built root names {g} s'" for names g xs ys and s' :: "('a, 'b) dem"
    using that
    by (auto intro!: built.each_I [where G = "{g}" and root = root and gs = names] link_target_built link_group_host_built)
      (simp add: built_def)
  show ?thesis
    using new links by (auto simp: build_group_def init_group_def split: option.split elim!: ensures_mono)
qed

lemma build_groups_built:
  "built root gs {} s \<Longrightarrow> ensures (each (build_group J N) xs s)
     (\<lambda>s'. \<exists>names. list_all2 (\<lambda>x n. json_get_string J x TAG_NAME = Some (Some n)) xs names \<and> built root (gs @ names) {} s')"
proof (induction xs arbitrary: gs s)
  case (Cons x xs)
  show ?case
    by (auto intro!: ensures_mono [OF build_group_built [OF Cons.prems]] ensures_mono [OF Cons.IH])
qed simp

context dem_api
begin

lemma group_names_built:
  assumes "list_all2 (\<lambda>x n. json_get_string J x TAG_NAME = Some (Some n)) xs names"
  shows "set (List.map_filter fst (map (group_view J) xs)) \<subseteq> set names"
  using assms
  by induction
    (auto simp: map_filter_simps group_view_def json_member_string_def json_get_string_def split: option.splits if_splits)

lemma build_lists_inv:
  assumes "store_inv J root"
  shows "ensures (build_lists J N (dem_empty root shared w)) (dem_inv_at True J)"
proof -
  have start: "built root [] {} (dem_empty root shared w)"
    by (simp add: built_def dem_empty_def lists_ok_def alloc_ok_def links_ok_def NULL_def)
  have groups: "ensures (build_group_list J N s') (dem_inv_at True J)"
    if b: "built root' [] {} s'" and i: "store_inv J root'" and a: "abs_db J root' = abs_db J root" for root' and s' :: "('j, 'w) dem"
  proof -
    have r: "dm_root s' = root'" using b by (simp add: built_def)
    have "dem_inv_at True J s2"
      if "list_all2 (\<lambda>x n. json_get_string J x TAG_NAME = Some (Some n)) (links J root' TAG_GROUPS) names"
        "built root' names {} s2" for names and s2 :: "('j, 'w) dem"
    proof -
      have "db_group_names (abs_db J root') = List.map_filter fst (map (group_view J) (links J root' TAG_GROUPS))"
        by (simp add: db_group_names_def abs_db_def coll_elems_def links_def)
      then have "set (db_group_names (abs_db J root')) \<subseteq> set names" using group_names_built [OF that(1)] by simp
      moreover have "set names = gr_name ` set (dm_groups s2)" using that(2) by (auto simp: built_def)
      ultimately show ?thesis
        using that(2) i by (auto simp: dem_inv_at_def group_names_def built_def)
    qed
    then show ?thesis
      unfolding build_group_list_def r by (intro ensures_mono [OF build_groups_built [OF b]]) auto
  qed
  show ?thesis
    unfolding build_lists_def
    by (auto intro!: ensures_mono [OF build_target_list_built [OF start assms]] groups)
qed

lemma main_start_inv:
  assumes "case file of None \<Rightarrow> True | Some root \<Rightarrow> store_inv J root"
  shows "ensures (main_start J N disk sigfile dir file shared w)
     (\<lambda>r. case r of Inl ret \<Rightarrow> ret < 0 | Inr sv \<Rightarrow> dem_inv_at True J (sy_dem (sv_state sv)))"
proof -
  obtain root file' where r: "parse_config_file J disk file = (root, file')" by fastforce
  have "store_inv J root"
    using assms r store_reachable_inv [OF store_reachable.init] by (auto simp: parse_config_file_def split: option.splits)
  then have "ensures (build_lists J N (dem_empty root shared w)) (dem_inv_at True J)" by (blast intro: build_lists_inv)
  then show ?thesis
    using r
    by (auto simp: main_start_def start_dem_def Let_def intro!: ensuresI [of "init_interfaces d" for d]
        ensures_mono [OF dem.init_targets_I [where lk = True]] elim!: ensures_mono)
qed

end

end
