(* ===== verification/Dem_Visible.thy ===== *)
theory Dem_Visible
  imports Dem_Start
begin

text \<open>
  What a host can see: the log pages it is sent and the ones shown to the administrator for it, against a
  specification on sets of groups, links and access lists.

  A target in a group is visible to a host when a link of the host leads to one of its groups, a target in no
  group to every host; a subsystem when any host may use it or the host is in its list. The exception are
  orphans: targets that were in a group that has been deleted, and are in no other. \<^verbatim>\<open>del_group\<close> does not visit
  its members, they keep the flag of a member, and no host sees them. The test on the groups follows pointers,
  so that it is safe is a consequence of the invariant.
\<close>

section \<open>The specification\<close>

definition shares_group :: "(group_host_link \<Rightarrow> bool) \<Rightarrow> ('j, 'w) dem \<Rightarrow> target \<Rightarrow> bool" where
  "shares_group P s t =
     list_ex (\<lambda>l. P l \<and> list_ex (\<lambda>g. gr_ptr g = gl_group l \<and> tg_ptr t \<in> set (gr_targets g)) (dm_groups s)) (dm_hosts s)"

definition grouped :: "('j, 'w) dem \<Rightarrow> target \<Rightarrow> bool" where
  "grouped s t = list_ex (\<lambda>g. tg_ptr t \<in> set (gr_targets g)) (dm_groups s)"

definition orphan :: "('j, 'w) dem \<Rightarrow> target \<Rightarrow> bool" where
  "orphan s t = (tg_group_member t \<and> \<not> grouped s t)"

definition sees_target :: "(group_host_link \<Rightarrow> bool) \<Rightarrow> ('j, 'w) dem \<Rightarrow> target \<Rightarrow> bool" where
  "sees_target P s t = (if grouped s t then shares_group P s t else \<not> orphan s t)"

text \<open>The code decides by the flag, which every member of a group has.\<close>

lemma shares_group_grouped: "shares_group P s t \<Longrightarrow> grouped s t"
  by (auto simp: shares_group_def grouped_def list_ex_iff)

lemma sees_target_flag:
  assumes "lists_ok b s" "t \<in> set (dm_targets s)"
  shows "sees_target P s t = (tg_group_member t \<longrightarrow> shares_group P s t)"
proof -
  have "grouped s t \<Longrightarrow> tg_group_member t"
    using assms by (auto simp: grouped_def lists_ok_def links_ok_def list_ex_iff)
  then show ?thesis
    using shares_group_grouped [of P s t] by (auto simp: sees_target_def orphan_def)
qed

text \<open>\<open>P\<close> selects the links of the host, \<open>H\<close> its entries in the access lists.\<close>

definition pages_for ::
  "(group_host_link \<Rightarrow> bool) \<Rightarrow> (host \<Rightarrow> bool) \<Rightarrow> ('j, 'w) dem \<Rightarrow> target list \<Rightarrow> logpage list" where
  "pages_for P H s ts =
     concat (map (\<lambda>t. concat (map valid_pages (filter (\<lambda>ss. ss_access ss \<noteq> 0 \<or> list_ex H (ss_hosts ss)) (tg_subsystems t))))
       (filter (sees_target P s) ts))"

abbreviation link_nqn :: "string \<Rightarrow> group_host_link \<Rightarrow> bool" where
  "link_nqn q \<equiv> (\<lambda>l. gl_nqn l = q)"

abbreviation link_alias :: "string \<Rightarrow> group_host_link \<Rightarrow> bool" where
  "link_alias a \<equiv> (\<lambda>l. gl_alias l = a)"

definition host_entries :: "('j, 'w) dem \<Rightarrow> string \<Rightarrow> disc_entry list" where
  "host_entries s nqn = map lp_e (pages_for (link_nqn nqn) (\<lambda>h. hs_nqn h = nqn) s (dm_targets s))"

section \<open>Groups\<close>

lemma in_shared_group_spec:
  assumes "distinct (map gr_ptr groups)" "\<forall>l \<in> set ls. gl_group l \<in> gr_ptr ` set groups"
  shows "in_shared_group P p groups ls =
    Inr (list_ex (\<lambda>l. P l \<and> list_ex (\<lambda>g. gr_ptr g = gl_group l \<and> p \<in> set (gr_targets g)) groups) ls)"
  using assms(2)
proof (induction ls)
  case (Cons l ls)
  then obtain g where g: "g \<in> set groups" "gr_ptr g = gl_group l" by auto
  have same: "g' = g" if "g' \<in> set groups" "gr_ptr g' = gl_group l" for g'
    using assms(1) that g unfolding distinct_map by (metis inj_onD)
  have "List.find (\<lambda>g. gr_ptr g = gl_group l) groups = Some g"
  proof (cases "List.find (\<lambda>g. gr_ptr g = gl_group l) groups")
    case None
    then show ?thesis using g by (simp add: find_None_iff)
  next
    case (Some g')
    then show ?thesis using same [of g'] find_SomeD [OF Some] by simp
  qed
  moreover have "list_ex (\<lambda>g. gr_ptr g = gl_group l \<and> p \<in> set (gr_targets g)) groups \<longleftrightarrow> p \<in> set (gr_targets g)"
    unfolding list_ex_iff using g same by blast
  ultimately show ?case using Cons by auto
qed simp

lemma shared_group_spec:
  assumes "lists_ok True s"
  shows "shared_group s t nqn = Inr (shares_group (link_nqn nqn) s t)"
    and "indirect_shared_group s t a = Inr (shares_group (link_alias a) s t)"
  using assms
  by (simp_all add: shared_group_def indirect_shared_group_def shares_group_def in_shared_group_spec lists_ok_def
      alloc_ok_def links_ok_def)

section \<open>Pages\<close>

lemma visible_test:
  assumes "lists_ok True s" "t \<in> set (dm_targets s)"
  shows "(if tg_group_member t then shared_group s t nqn else Inr True) = Inr (sees_target (link_nqn nqn) s t)"
    and "(if tg_group_member t then indirect_shared_group s t a else Inr True) = Inr (sees_target (link_alias a) s t)"
  using shared_group_spec [OF assms(1)] by (simp_all add: sees_target_flag [OF assms])

lemma pages_for_simps [simp]:
  "pages_for P H s [] = []"
  "pages_for P H s (t # ts) =
     (if sees_target P s t
      then concat (map valid_pages (filter (\<lambda>ss. ss_access ss \<noteq> 0 \<or> list_ex H (ss_hosts ss)) (tg_subsystems t))) else []) @
     pages_for P H s ts"
  by (simp_all add: pages_for_def)

lemma host_pages_spec:
  assumes "lists_ok True s" "set ts \<subseteq> set (dm_targets s)"
  shows "host_pages s a ts = Inr (pages_for (link_alias a) (\<lambda>h. hs_alias h = a) s ts)"
  using assms(2) by (induction ts) (simp_all add: visible_test [OF assms(1)] is_restricted_def RESTRICTED_def)

text \<open>The number of pages is the length of the list that is sent.\<close>

lemma count_subsys:
  "fold (\<lambda>p n. if lp_valid p \<and> b then Suc n else n) ps n = n + length (if b then filter lp_valid ps else [])"
  by (induction ps arbitrary: n) auto

lemma count_target:
  "fold (\<lambda>ss n. fold (\<lambda>p n. if lp_valid p \<and> visible_subsys q ss then Suc n else n) (ss_logpages ss) n) sss n =
     n + length (concat (map valid_pages (filter (visible_subsys q) sss)))"
  by (induction sss arbitrary: n) (simp_all add: count_subsys valid_pages_def)

lemma visible_subsys_eq: "visible_subsys q = (\<lambda>ss. ss_access ss \<noteq> 0 \<or> list_ex (\<lambda>h. hs_nqn h = q) (ss_hosts ss))"
  by (simp add: fun_eq_iff visible_subsys_def host_access_def)

lemma nqn_pages:
  "pages_for (link_nqn q) (\<lambda>h. hs_nqn h = q) s (t # ts) =
     (if sees_target (link_nqn q) s t
      then concat (map valid_pages (filter (visible_subsys q) (tg_subsystems t))) else []) @
     pages_for (link_nqn q) (\<lambda>h. hs_nqn h = q) s ts"
  by (simp add: visible_subsys_eq)

lemma count_pages_spec:
  assumes "lists_ok True s" "set ts \<subseteq> set (dm_targets s)"
  shows "count_pages s q ts n = Inr (n + length (pages_for (link_nqn q) (\<lambda>h. hs_nqn h = q) s ts))"
  using assms(2) by (induction ts arbitrary: n) (simp_all add: visible_test [OF assms(1)] count_target nqn_pages del: pages_for_simps(2))

text \<open>Copying entries into a buffer of a given size.\<close>

definition put_all :: "nat \<Rightarrow> disc_entry list \<Rightarrow> disc_entry list \<Rightarrow> disc_entry list exec" where
  "put_all len new es =
     (if new = [] \<or> HDR_SIZE + ENTRY_SIZE * (length es + length new) \<le> len then Inr (es @ new) else Inl Buffer_overflow)"

lemma put_all_append: "exec_bind (put_all len xs es) (put_all len ys) = put_all len (xs @ ys) es"
  by (auto simp: put_all_def ENTRY_SIZE_def HDR_SIZE_def)

lemma copy_subsys_spec:
  "copy_subsys len q ss = put_all len (map lp_e (if visible_subsys q ss then valid_pages ss else []))"
proof
  fix es
  have "each (\<lambda>p es. if lp_valid p \<and> b then copy_page len p es else Inr es) ps es =
      put_all len (map lp_e (if b then filter lp_valid ps else [])) es" (is "each (?f b) ps es = _") for b ps
  proof (induction ps arbitrary: es)
    case (Cons p ps)
    have IH: "each (?f b) ps = put_all len (map lp_e (if b then filter lp_valid ps else []))" using Cons.IH by blast
    have "copy_page len p es = put_all len [lp_e p] es" by (simp add: copy_page_def put_all_def)
    then show ?case
      using put_all_append [of len "[lp_e p]" es "map lp_e (filter lp_valid ps)"]
      unfolding each.simps IH by simp
  qed (simp add: put_all_def)
  then show "copy_subsys len q ss es = put_all len (map lp_e (if visible_subsys q ss then valid_pages ss else [])) es"
    by (simp add: copy_subsys_def valid_pages_def)
qed

lemma each_put_all: "each (\<lambda>x. put_all len (f x)) xs es = put_all len (concat (map f xs)) es"
proof (induction xs arbitrary: es)
  case (Cons x xs)
  have "each (\<lambda>x. put_all len (f x)) xs = put_all len (concat (map f xs))" using Cons.IH by blast
  then show ?case by (simp add: put_all_append)
qed (simp add: put_all_def)

lemma concat_filter: "concat (map (\<lambda>x. map g (if P x then f x else [])) xs) = map g (concat (map f (filter P xs)))"
  by (induction xs) simp_all

lemma copy_pages_spec:
  assumes "lists_ok True s" "set ts \<subseteq> set (dm_targets s)"
  shows "copy_pages len s q ts es = put_all len (map lp_e (pages_for (link_nqn q) (\<lambda>h. hs_nqn h = q) s ts)) es"
  using assms(2)
proof (induction ts arbitrary: es)
  case (Cons t ts)
  have "each (copy_subsys len q) (tg_subsystems t) es =
      put_all len (map lp_e (concat (map valid_pages (filter (visible_subsys q) (tg_subsystems t))))) es"
    unfolding copy_subsys_spec each_put_all concat_filter ..
  moreover have "copy_pages len s q ts = put_all len (map lp_e (pages_for (link_nqn q) (\<lambda>h. hs_nqn h = q) s ts))"
    using Cons by fastforce
  ultimately show ?case
    using Cons.prems by (simp add: visible_test [OF assms(1)] put_all_append nqn_pages del: map_concat pages_for_simps(2))
qed (simp add: put_all_def)

section \<open>What is sent\<close>

definition reply_code :: "int \<times> 'w \<Rightarrow> int \<times> 'w" where
  "reply_code r = (if fst r \<noteq> 0 then NVME_SC_WRITE_FAULT else 0, snd r)"

lemma log_page_count_spec:
  "lists_ok True s \<Longrightarrow> handle_get_log_page_count X cmd e ep s =
     Inr (reply_code (hx_rma_write X e (Log_header 1 (length (host_entries s (ep_nqn ep))))
       (nc_addr cmd) (nc_len cmd) (nc_key cmd) (dm_net s)))"
  by (simp add: handle_get_log_page_count_def count_pages_spec host_entries_def reply_code_def split: prod.split)

lemma log_pages_spec:
  "lists_ok True s \<Longrightarrow> handle_get_log_pages X cmd e ep s =
     (let es = host_entries s (ep_nqn ep) in
      case hx_alloc_key X e (nc_len cmd) (dm_net s) of (ret, w) \<Rightarrow>
        if ret \<noteq> 0 then Inr (NVME_SC_INTERNAL, w)
        else if nc_len cmd < (if es = [] then 16 else 1024 * (1 + length es)) then Inl Buffer_overflow
        else Inr (reply_code (hx_rma_write X e (Log_page 1 (length es) es) (nc_addr cmd) (nc_len cmd) (nc_key cmd) w)))"
  by (auto simp: handle_get_log_pages_def copy_pages_spec host_entries_def put_all_def HDR_SIZE_def ENTRY_SIZE_def
      Let_def reply_code_def split: prod.split)

text \<open>The links and access lists name a host by its alias and by its NQN consistently.\<close>

definition names_agree :: "string \<Rightarrow> string \<Rightarrow> ('j, 'w) dem \<Rightarrow> bool" where
  "names_agree a q s =
     (list_all (\<lambda>l. gl_alias l = a \<longleftrightarrow> gl_nqn l = q) (dm_hosts s) \<and>
      list_all (\<lambda>t. list_all (\<lambda>ss. list_all (\<lambda>h. hs_alias h = a \<longleftrightarrow> hs_nqn h = q) (ss_hosts ss)) (tg_subsystems t)) (dm_targets s))"

lemma pages_by_alias:
  assumes "names_agree a q s"
  shows "pages_for (link_alias a) (\<lambda>h. hs_alias h = a) s (dm_targets s) =
    pages_for (link_nqn q) (\<lambda>h. hs_nqn h = q) s (dm_targets s)"
proof -
  have sees: "sees_target (link_alias a) s = sees_target (link_nqn q) s"
    using assms by (auto simp: sees_target_def shares_group_def names_agree_def list_ex_iff list_all_iff fun_eq_iff)
  have "list_ex (\<lambda>h. hs_alias h = a) (ss_hosts ss) = list_ex (\<lambda>h. hs_nqn h = q) (ss_hosts ss)"
    if "t \<in> set (dm_targets s)" "ss \<in> set (tg_subsystems t)" for t ss
    using that assms by (auto simp: names_agree_def list_all_iff list_ex_iff)
  then have "filter (\<lambda>ss. ss_access ss \<noteq> 0 \<or> list_ex (\<lambda>h. hs_alias h = a) (ss_hosts ss)) (tg_subsystems t) =
      filter (\<lambda>ss. ss_access ss \<noteq> 0 \<or> list_ex (\<lambda>h. hs_nqn h = q) (ss_hosts ss)) (tg_subsystems t)"
    if "t \<in> set (dm_targets s)" for t
    using that by (intro filter_cong) auto
  then show ?thesis
    unfolding pages_for_def sees by (intro arg_cong [where f = concat] map_cong refl) auto
qed

end
