(* ===== verification/Dem_Machine.thy ===== *)
theory Dem_Machine
  imports Dem_Visible
begin

text \<open>
  The running program as a transition system: after the start it handles HTTP requests, does the periodic
  work, accepts hosts and serves their commands, in any order. A step is one request, one round of the
  periodic work over all targets, or one round of \<^verbatim>\<open>host_thread\<close> over its hosts. (The threads that serve
  hosts read the lists without the lock that the HTTP handler holds; steps of the model do not overlap.)
\<close>

record ('j, 'w) machine =
  mc_server :: "('j, 'w) system server"
  mc_hosts :: "host_conn list"
  mc_count :: nat

definition mc_dem :: "('j, 'w) machine \<Rightarrow> ('j, 'w) dem" where
  "mc_dem m = sy_dem (sv_state (mc_server m))"

definition put_dem :: "('j, 'w) dem \<Rightarrow> ('j, 'w) machine \<Rightarrow> ('j, 'w) machine" where
  "put_dem d m = m\<lparr>mc_server := (mc_server m)\<lparr>sv_state := (sv_state (mc_server m))\<lparr>sy_dem := d\<rparr>\<rparr>\<rparr>"

lemma mc_dem_put [simp]: "mc_dem (put_dem d m) = d"
  by (simp add: mc_dem_def put_dem_def)

text \<open>A configuration file the program can start from: none, or one with a well-formed document.\<close>

definition file_ok :: "'j jansson \<Rightarrow> 'j option \<Rightarrow> bool" where
  "file_ok J file =
     (case file of None \<Rightarrow> True | Some root \<Rightarrow> store_inv J root)"

text \<open>
  Every state the program can be in. The flag says whether each group of the document has had a name ever since
  the start; it restricts nothing.
\<close>

inductive dem_reachable ::
  "'j jansson \<Rightarrow> 'w network \<Rightarrow> 'w host_io \<Rightarrow> bool \<Rightarrow> ('j, 'w) machine \<Rightarrow> bool" for J N X where
  start: "file_ok J file \<Longrightarrow> main_start J N disk sigfile dir file shared w = Inr (Inr sv) \<Longrightarrow>
     dem_reachable J N X (named J (sy_dem (sv_state sv))) \<lparr>mc_server = sv, mc_hosts = [], mc_count = 1\<rparr>"
| http: "dem_reachable J N X b m \<Longrightarrow>
     handle_http_request J sig_writable (dem_backend J N disk) hm (mc_server m) = Inr (sv, ret, resp) \<Longrightarrow>
     dem_reachable J N X (b \<and> named J (sy_dem (sv_state sv))) (m\<lparr>mc_server := sv\<rparr>)"
| tick: "dem_reachable J N X b m \<Longrightarrow> periodic_work J N (mc_dem m) = Inr d \<Longrightarrow>
     dem_reachable J N X (b \<and> named J d) (put_dem d m)"
| accept: "dem_reachable J N X b m \<Longrightarrow> new_endpoint (mc_dem m) = (e, d) \<Longrightarrow>
     accept_host (mc_count m) e d = Inr (h, d') \<Longrightarrow>
     dem_reachable J N X (b \<and> named J d') (put_dem d' (m\<lparr>mc_hosts := mc_hosts m @ [h], mc_count := Suc (mc_count m)\<rparr>))"
| serve: "dem_reachable J N X b m \<Longrightarrow> serve_round X inbox (mc_hosts m) (mc_dem m) = Inr (hs, d) \<Longrightarrow>
     dem_reachable J N X (b \<and> named J d) (put_dem d (m\<lparr>mc_hosts := hs\<rparr>))"

inductive_cases dem_reachableE: "dem_reachable J N X b m"

section \<open>What serving hosts leaves alone\<close>

definition same_lists :: "('j, 'w) dem \<Rightarrow> ('j, 'w) dem \<Rightarrow> bool" where
  "same_lists s s' =
     (dm_root s' = dm_root s \<and> dm_targets s' = dm_targets s \<and> dm_groups s' = dm_groups s \<and> dm_hosts s' = dm_hosts s \<and>
      dm_next s \<le> dm_next s')"

lemma same_lists_refl [simp]: "same_lists s s"
  by (simp add: same_lists_def)

lemma same_lists_trans: "same_lists s s' \<Longrightarrow> same_lists s' s'' \<Longrightarrow> same_lists s s''"
  by (simp add: same_lists_def)

lemma same_lists_upd [simp]:
  "same_lists s (s'\<lparr>dm_net := w\<rparr>) = same_lists s s'" "same_lists s (s'\<lparr>dm_endpoints := es\<rparr>) = same_lists s s'"
  by (simp_all add: same_lists_def)

lemma dem_inv_same_lists: "same_lists s s' \<Longrightarrow> dem_inv_at b J s \<Longrightarrow> dem_inv_at b J s'"
  by (auto simp: same_lists_def dem_inv_at_def group_names_def lists_ok_def alloc_ok_def links_ok_def
      intro: order_less_le_trans)

lemma handle_command_lists: "ensures (handle_command X cmd host ep s) (\<lambda>(_, _, _, s'). same_lists s s')"
  unfolding handle_command_def Let_def
  by (auto split: prod.split intro!: ensuresI simp: handle_async_event_def) (simp add: same_lists_def)

lemma handle_request_lists: "ensures (handle_request X cmd host s) (\<lambda>(_, _, s'). same_lists s s')"
  unfolding handle_request_def Let_def
  by (auto split: option.split intro!: ensures_mono [OF handle_command_lists])

lemma serve_commands_lists: "ensures (serve_commands X cmds code host s) (\<lambda>(_, _, s'). same_lists s s')"
proof (induction cmds arbitrary: host s)
  case (Cons cmd cmds)
  show ?case
    by (auto intro!: ensures_mono [OF handle_request_lists] ensures_mono [OF Cons.IH] intro: same_lists_trans)
qed simp

lemma serve_host_lists: "ensures (serve_host X cmds code host s) (\<lambda>(_, s'). same_lists s s')"
  unfolding serve_host_def
  by (auto simp: close_host_def intro!: ensures_mono [OF serve_commands_lists])

lemma serve_round_lists: "ensures (serve_round X inbox hs s) (\<lambda>(_, s'). same_lists s s')"
proof (induction hs arbitrary: s)
  case (Cons h hs)
  show ?case
    by (auto split: prod.split intro!: ensures_mono [OF serve_host_lists] ensures_mono [OF Cons.IH] intro: same_lists_trans)
qed simp

lemma accept_host_lists:
  "new_endpoint s = (e, s1) \<Longrightarrow> accept_host n e s1 = Inr (h, s2) \<Longrightarrow> same_lists s s2"
  by (auto simp: new_endpoint_def accept_host_def same_lists_def Let_def)

section \<open>The invariant\<close>

context dem_api
begin

lemma dem_reachable_inv:
  "dem_reachable J N X b m \<Longrightarrow> dem_inv_at b J (mc_dem m) \<and> (b \<longrightarrow> named J (mc_dem m))"
proof (induction rule: dem_reachable.induct)
  case (start cfg disk sigfile dir shared w sv)
  then show ?case
    using ensuresD [OF main_start_inv [of cfg disk sigfile dir shared w]] dem_inv_at_mono
    by (auto simp: mc_dem_def file_ok_def)
next
  case (http b m sig_writable disk hm sv ret resp)
  have "ensures (handle_http_request J sig_writable (dem_backend J N disk) hm (mc_server m))
      (\<lambda>(s', _). dem_inv_at b J (sy_dem (sv_state s')))"
    using http.IH by (intro http.handle_http_request_good) (simp add: mc_dem_def)
  from ensuresD [OF this http.hyps(2)] show ?case by (auto simp: mc_dem_def intro: dem_inv_at_weaken)
next
  case (tick b m d)
  then show ?case using ensuresD [OF dem.periodic_work_I [of b]] by (auto intro: dem_inv_at_weaken)
next
  case (accept b m e d h d')
  have "dem_inv_at b J d'" using dem_inv_same_lists [OF accept_host_lists [OF accept.hyps(2,3)]] accept.IH by blast
  then show ?case by (simp add: dem_inv_at_weaken)
next
  case (serve b m inbox hs d)
  have "same_lists (mc_dem m) d" using ensuresD [OF serve_round_lists serve.hyps(2)] by simp
  then have "dem_inv_at b J d" using dem_inv_same_lists serve.IH by blast
  then show ?case by (simp add: dem_inv_at_weaken)
qed

end

interpretation ref_dem: dem_api "ref_jansson parse dump" N for parse dump N
  by unfold_locales

end
