(* ===== verification/Json_Properties.thy ===== *)
theory Json_Properties
  imports Json_System
begin

text \<open>
  The properties of the JSON configuration. They hold for every library that obeys the laws of
  \<^const>\<open>jansson_api\<close>; each witness evaluates the operations on the reference implementation.
\<close>

section \<open>A library instance and two configurations for the witnesses\<close>

text \<open>The parser knows a few request bodies.\<close>

definition demo_parse :: "string \<Rightarrow> json option" where
  "demo_parse = map_of
     [(''alias h2'', JObject [(''Alias'', JString ''h2'')]),
      (''host h9'', JObject [(''Alias'', JString ''h9''), (''HOSTNQN'', JString ''nqn.h9'')]),
      (''name g2'', JObject [(''Name'', JString ''g2'')]),
      (''name empty'', JObject [(''Name'', JString '''')]),
      (''target t2'', JObject [(''Alias'', JString ''t2''), (''Refresh'', JInteger 5)])]"

definition demo :: "json jansson" where
  "demo = ref_jansson demo_parse (\<lambda>_. [])"

lemma demo_api: "jansson_api demo"
  unfolding demo_def by (rule ref.jansson_api_axioms)

lemma demo_init: "json_object demo = JObject []"
  by (simp add: demo_def ref_jansson_def)

text \<open>One host and one target, both members of a group.\<close>

definition demo_ops :: "store_op list" where
  "demo_ops = [Add_Host ''h1'', Add_Target ''t1'', Add_Group ''g1'',
     Set_Member Host_Member ''g1'' None (Some ''h1'') ''Host'',
     Set_Member Target_Member ''g1'' None (Some ''t1'') ''Target'']"

definition demo_root :: json where
  "demo_root = JObject
     [(''Hosts'', JArray [JObject [(''Alias'', JString ''h1'')]]),
      (''Targets'', JArray [JObject [(''Alias'', JString ''t1''), (''PortIDs'', JArray []), (''Subsystems'', JArray [])]]),
      (''Groups'', JArray [JObject [(''Name'', JString ''g1''), (''Targets'', JArray [JString ''t1'']),
                                    (''Hosts'', JArray [JString ''h1''])]])]"

lemma demo_run: "run_ops demo demo_ops (JObject []) = Inr demo_root"
  by code_simp

lemma demo_reachable: "store_reachable demo demo_root"
  by (rule run_ops_reachable [OF demo_run]) (use store_reachable.init [of demo] in \<open>simp add: demo_init\<close>)

lemma demo_wf: "store_wf demo demo_root"
  by code_simp

text \<open>Executable test of a successful reply.\<close>

definition reply_ok :: "('j reply \<times> 'o) exec \<Rightarrow> 'o \<Rightarrow> bool" where
  "reply_ok e x = (case e of Inl _ \<Rightarrow> False | Inr ((_, ret, _), out) \<Rightarrow> ret = 0 \<and> out = x)"

lemma reply_okE:
  assumes "reply_ok e x"
  obtains root' msg where "e = Inr ((root', 0, msg), x)"
  using assms that by (auto simp: reply_ok_def split: sum.splits)

definition reply_root :: "('j reply \<times> 'o) exec \<Rightarrow> 'j" where
  "reply_root e = fst (fst (projr e))"

lemma reply_root_Inr [simp]: "reply_root (Inr ((root, r), x)) = root"
  by (simp add: reply_root_def)

section \<open>The invariant\<close>

text \<open>
  C23. In every configuration reachable from the empty one by the operations of \<^verbatim>\<open>json.c\<close>, whatever
  the request bodies and whatever the library's parser does: the collections are arrays, the
  aliases of hosts and of targets are unique, the non-empty names of groups are unique, and each
  group lists each of its members once and only hosts and targets that exist.
\<close>

theorem store_reachable_invariant:
  assumes "jansson_api J" "store_reachable J root"
  shows "store_inv J root"
  using assms by (rule jansson_api.store_reachable_inv)

theorem store_reachable_invariant_witness:
  "store_inv demo demo_root \<and> db_hosts (abs_db demo demo_root) = [''h1'']"
proof
  show "store_inv demo demo_root" by (rule store_reachable_invariant [OF demo_api demo_reachable])
  show "db_hosts (abs_db demo demo_root) = [''h1'']" by code_simp
qed

text \<open>
  C24. Forward simulation: each operation that does not fault takes a well-formed configuration to a
  well-formed one and is one transition of the abstract database, or leaves it unchanged.
\<close>

theorem store_step_simulates:
  assumes "jansson_api J" "store_wf J root" "store_step J op root = Inr root'"
  shows "store_wf J root' \<and> db_step (abs_db J root) (abs_db J root')"
  using jansson_api.store_step_refines [OF assms] by (simp add: refines_step_def)

definition demo_deleted :: json where
  "demo_deleted = JObject
     [(''Hosts'', JArray []),
      (''Targets'', JArray [JObject [(''Alias'', JString ''t1''), (''PortIDs'', JArray []), (''Subsystems'', JArray [])]]),
      (''Groups'', JArray [JObject [(''Name'', JString ''g1''), (''Targets'', JArray [JString ''t1'']),
                                    (''Hosts'', JArray [])]])]"

theorem store_step_simulates_witness:
  "store_wf demo demo_deleted \<and> db_step (abs_db demo demo_root) (abs_db demo demo_deleted)"
proof (rule store_step_simulates [OF demo_api demo_wf])
  show "store_step demo (Del_Host ''h1'') demo_root = Inr demo_deleted" by code_simp
qed

section \<open>Groups\<close>

text \<open>
  Adding a group never faults: it answers \<^verbatim>\<open>-EEXIST\<close> and changes nothing when the name is taken, and
  otherwise returns 0 with exactly one new, empty group at the end of the database.
\<close>

theorem add_json_group_correct:
  assumes "jansson_api J" "store_wf J root"
  shows "\<exists>root' msg. add_json_group J root g =
           Inr (root', if g \<in> set (db_group_names (abs_db J root)) then - EEXIST else 0, msg) \<and>
         store_wf J root' \<and>
         abs_db J root' = (if g \<in> set (db_group_names (abs_db J root)) then abs_db J root
                           else spec_add_group (stored_name J g) (abs_db J root))"
  using assms by (rule jansson_api.add_json_group_abs)

theorem add_json_group_correct_witness:
  "\<exists>root' msg. add_json_group demo demo_root ''g2'' = Inr (root', 0, msg) \<and>
     db_group_names (abs_db demo root') = [''g1'', ''g2'']"
proof -
  have n: "''g2'' \<notin> set (db_group_names (abs_db demo demo_root))" by code_simp
  have "db_group_names (spec_add_group (stored_name demo ''g2'') (abs_db demo demo_root)) = [''g1'', ''g2'']"
    by code_simp
  then show ?thesis using add_json_group_correct [OF demo_api demo_wf, of "''g2''"] n by force
qed

text \<open>
  C25. Updating a group. Success with no group named in the URI adds the group of the request;
  success with one renames that group, keeps its members, and the new name was free; every error
  leaves the database as it was. The freeness of a new name is checked unless it is empty.
\<close>

theorem update_json_group_correct:
  assumes "jansson_api J" "store_wf J root"
    and "update_json_group J root grp data = Inr ((root', ret, msg), out)"
  shows "store_wf J root' \<and>
    (if ret = 0
     then \<exists>n. out = Some n \<and>
       (case grp of
          None \<Rightarrow> (n = [] \<or> n \<notin> set (db_group_names (abs_db J root))) \<and>
                  abs_db J root' = spec_add_group (Some n) (abs_db J root)
        | Some g \<Rightarrow> g \<in> set (db_group_names (abs_db J root)) \<and>
                    (n = g \<or> n \<notin> set (db_group_names (abs_db J root))) \<and>
                    abs_db J root' = spec_rename_group g n (abs_db J root))
     else abs_db J root' = abs_db J root)"
  using jansson_api.update_json_group_abs [OF assms] by (auto split: option.splits)

theorem update_json_group_correct_witness:
  "db_groups (abs_db demo (reply_root (update_json_group demo demo_root (Some ''g1'') ''name g2''))) =
     [(Some ''g2'', [''h1''], [''t1''])]"
proof -
  have "reply_ok (update_json_group demo demo_root (Some ''g1'') ''name g2'') (Some ''g2'')"
    by code_simp
  then obtain root' msg
    where r: "update_json_group demo demo_root (Some ''g1'') ''name g2'' = Inr ((root', 0, msg), Some ''g2'')"
    by (rule reply_okE)
  have "db_groups (spec_rename_group ''g1'' ''g2'' (abs_db demo demo_root)) = [(Some ''g2'', [''h1''], [''t1''])]"
    by code_simp
  then show ?thesis using update_json_group_correct [OF demo_api demo_wf r] by (simp add: r)
qed

text \<open>
  C26. Adding a member to a group. On success the group exists, the member is a known host or
  target, and the database gains exactly this membership (nothing when it is there already); on
  any error the configuration is untouched.
\<close>

theorem set_json_group_member_correct:
  assumes "jansson_api J" "store_wf J root"
    and "set_json_group_member J root g data alias tag (kind_tag k) = Inr ((root', ret, msg), out)"
  shows "if ret = 0
    then \<exists>m. out = Some m \<and> g \<in> set (db_group_names (abs_db J root)) \<and>
           m \<in> set (db_known k (abs_db J root)) \<and> store_wf J root' \<and>
           abs_db J root' = spec_add_member k g m (abs_db J root)
    else root' = root"
  using jansson_api.set_json_group_member_abs [OF assms] by auto

theorem set_json_group_member_correct_witness:
  "abs_db demo (reply_root (set_json_group_member demo demo_root ''g1'' None (Some ''h1'') ''Host''
      (kind_tag Host_Member))) = abs_db demo demo_root"
proof -
  have "reply_ok (set_json_group_member demo demo_root ''g1'' None (Some ''h1'') ''Host''
      (kind_tag Host_Member)) (Some ''h1'')"
    by code_simp
  then obtain root' msg where r: "set_json_group_member demo demo_root ''g1'' None (Some ''h1'') ''Host''
      (kind_tag Host_Member) = Inr ((root', 0, msg), Some ''h1'')"
    by (rule reply_okE)
  have "spec_add_member Host_Member ''g1'' ''h1'' (abs_db demo demo_root) = abs_db demo demo_root"
    by code_simp
  then show ?thesis using set_json_group_member_correct [OF demo_api demo_wf r] r by simp
qed

section \<open>Hosts and targets\<close>

text \<open>
  C27. Updating a host. Success without a host in the URI adds the alias of the request, which was
  free; success with one renames that host, in the list of hosts and in every group it is a
  member of, and the new alias was free or is the old one. Every error leaves the database as it
  was.
\<close>

theorem update_json_host_correct:
  assumes "jansson_api J" "store_wf J root"
    and "update_json_host J root host data = Inr ((root', ret, msg), out)"
  shows "store_wf J root' \<and>
    (if ret = 0
     then \<exists>alias nqn. out = Some (alias, nqn) \<and>
       entry_change spec_add_host spec_rename_host (db_hosts (abs_db J root)) host alias
         (abs_db J root) (abs_db J root')
     else abs_db J root' = abs_db J root)"
  using jansson_api.update_json_host_abs [OF assms] by auto

theorem update_json_host_correct_witness:
  "abs_db demo (reply_root (update_json_host demo demo_root (Some ''h1'') ''alias h2'')) =
     \<lparr>db_groups = [(Some ''g1'', [''h2''], [''t1''])], db_hosts = [''h2''], db_targets = [''t1'']\<rparr>"
proof -
  have "reply_ok (update_json_host demo demo_root (Some ''h1'') ''alias h2'') (Some (''h2'', None))"
    by code_simp
  then obtain root' msg where r: "update_json_host demo demo_root (Some ''h1'') ''alias h2'' =
      Inr ((root', 0, msg), Some (''h2'', None))"
    by (rule reply_okE)
  have "spec_rename_host ''h1'' ''h2'' (abs_db demo demo_root) =
     \<lparr>db_groups = [(Some ''g1'', [''h2''], [''t1''])], db_hosts = [''h2''], db_targets = [''t1'']\<rparr>"
    by code_simp
  then show ?thesis
    using update_json_host_correct [OF demo_api demo_wf r] by (simp add: r entry_change_def)
qed

text \<open>Deleting a host writes to the hosts, the groups and the targets only.\<close>

context jansson_api
begin

lemma get_del_groups:
  "k \<noteq> TAG_GROUPS \<Longrightarrow> json_object_get J (del_from_groups J root tag v) k = json_object_get J root k"
  by (auto simp: del_from_groups_def dest: is_object_get split: option.splits)

lemma get_del_allowed:
  "k \<noteq> TAG_TARGETS \<Longrightarrow> json_object_get J (del_from_allowed_hosts J root a) k = json_object_get J root k"
  by (auto simp: del_from_allowed_hosts_def dest: is_object_get split: option.splits)

lemma del_json_host_frame:
  assumes "store_wf J root" "del_json_host J root h = Inr ((root', ret, msg), out)" "k \<notin> {TAG_HOSTS, TAG_GROUPS, TAG_TARGETS}"
  shows "json_object_get J root' k = json_object_get J root k"
  using assms
  by (auto simp: del_json_host_def Let_def get_del_groups get_del_allowed store_wf_object split: option.splits prod.splits)

end

text \<open>
  C28. Deleting a host, and the names of the database: the alias is removed from the list of hosts and from the
  member list of every group, and the names of hosts, targets, groups and members are otherwise as before;
  members of the document other than the hosts, groups and targets are untouched; when the host does
  not exist the whole document is. What is inside a target is not covered, and is not safe: the
  access lists are searched with the wrong index, and the deletion can take a subsystem with it
  (\<open>host_deletion_loses_subsystem\<close>).
\<close>

theorem del_json_host_correct:
  assumes "jansson_api J" "store_wf J root"
    and "del_json_host J root h = Inr ((root', ret, msg), out)"
  shows "if ret = 0
    then h \<in> set (db_hosts (abs_db J root)) \<and> store_wf J root' \<and>
         abs_db J root' = spec_del_host h (abs_db J root) \<and>
         (\<forall>k. k \<notin> {TAG_HOSTS, TAG_GROUPS, TAG_TARGETS} \<longrightarrow> json_object_get J root' k = json_object_get J root k)
    else root' = root"
  using jansson_api.del_json_host_abs [OF assms] jansson_api.del_json_host_frame [OF assms] by auto

text \<open>A target with one subsystem that the host may use: deleting the host deletes the subsystem.\<close>

definition used_subsys :: json where
  "used_subsys = JObject [(TAG_SUBNQN, JString ''nqn.s1''), (TAG_HOSTS, JArray [JString ''h1''])]"

definition one_target_root :: "json list \<Rightarrow> json list \<Rightarrow> json" where
  "one_target_root hosts subsystems =
     JObject [(TAG_HOSTS, JArray hosts), (TAG_TARGETS, JArray [JObject [(TAG_ALIAS, JString ''t1''), (TAG_SUBSYSTEMS, JArray subsystems)]])]"

lemma host_deletion_loses_subsystem:
  "reply_root (del_json_host demo (one_target_root [JObject [(TAG_ALIAS, JString ''h1'')]] [used_subsys]) ''h1'') = one_target_root [] []"
  by code_simp

theorem del_json_host_correct_witness:
  "abs_db demo (reply_root (del_json_host demo demo_root ''h1'')) =
     \<lparr>db_groups = [(Some ''g1'', [], [''t1''])], db_hosts = [], db_targets = [''t1'']\<rparr>"
proof -
  have "reply_ok (del_json_host demo demo_root ''h1'') None"
    by code_simp
  then obtain root' msg where r: "del_json_host demo demo_root ''h1'' = Inr ((root', 0, msg), None)"
    by (rule reply_okE)
  have "spec_del_host ''h1'' (abs_db demo demo_root) =
     \<lparr>db_groups = [(Some ''g1'', [], [''t1''])], db_hosts = [], db_targets = [''t1'']\<rparr>"
    by code_simp
  then show ?thesis using del_json_host_correct [OF demo_api demo_wf r] by (simp add: r)
qed

text \<open>
  C29. Updating a target: as for a host, and the alias handed to the in-memory target is the one
  stored, cut to \<^verbatim>\<open>MAX_ALIAS_SIZE\<close> characters.
\<close>

theorem update_json_target_correct:
  assumes "jansson_api J" "store_wf J root"
    and "update_json_target J root tgt data = Inr ((root', ret, msg), out)"
  shows "store_wf J root' \<and>
    (if ret = 0
     then \<exists>s t. out = Some t \<and> to_alias t = take MAX_ALIAS_SIZE s \<and>
       entry_change spec_add_target spec_rename_target (db_targets (abs_db J root)) tgt s
         (abs_db J root) (abs_db J root')
     else abs_db J root' = abs_db J root)"
  using jansson_api.update_json_target_abs [OF assms] by auto

theorem update_json_target_correct_witness:
  "\<exists>s. take MAX_ALIAS_SIZE s = ''t2'' \<and>
     entry_change spec_add_target spec_rename_target [''t1''] (Some ''t1'') s (abs_db demo demo_root)
       (abs_db demo (reply_root (update_json_target demo demo_root (Some ''t1'') ''target t2'')))"
proof -
  have d: "db_targets (abs_db demo demo_root) = [''t1'']" by code_simp
  have "reply_ok (update_json_target demo demo_root (Some ''t1'') ''target t2'')
     (Some \<lparr>to_alias = ''t2'', to_refresh = Some 5, to_mode = LOCAL_MGMT, to_iface = iface_out_init\<rparr>)"
    by code_simp
  then obtain root' msg where r: "update_json_target demo demo_root (Some ''t1'') ''target t2'' =
      Inr ((root', 0, msg),
        Some \<lparr>to_alias = ''t2'', to_refresh = Some 5, to_mode = LOCAL_MGMT, to_iface = iface_out_init\<rparr>)"
    by (rule reply_okE)
  show ?thesis using update_json_target_correct [OF demo_api demo_wf r] by (auto simp: r d)
qed

text \<open>
  Deleting a target, after the loop that deletes its subsystems one by one, removes its alias
  from the targets and from every group, and nothing else of the database; when the target does
  not exist the configuration is untouched.
\<close>

theorem del_json_target_correct:
  assumes "jansson_api J" "store_wf J root" "del_json_target J root t = Inr (root', ret, msg)"
  shows "if ret = 0
    then t \<in> set (db_targets (abs_db J root)) \<and> store_wf J root' \<and>
         abs_db J root' = spec_del_target t (abs_db J root)
    else root' = root"
  using jansson_api.del_json_target_abs [OF assms] by auto

theorem del_json_target_correct_witness:
  "abs_db demo (fst (projr (del_json_target demo demo_root ''t1''))) =
     \<lparr>db_groups = [(Some ''g1'', [''h1''], [])], db_hosts = [''h1''], db_targets = []\<rparr>"
proof -
  have "case del_json_target demo demo_root ''t1'' of Inl _ \<Rightarrow> False | Inr (_, ret, _) \<Rightarrow> ret = 0"
    by code_simp
  then obtain root' msg where r: "del_json_target demo demo_root ''t1'' = Inr (root', 0, msg)"
    by (auto split: sum.splits)
  have "spec_del_target ''t1'' (abs_db demo demo_root) =
     \<lparr>db_groups = [(Some ''g1'', [''h1''], [])], db_hosts = [''h1''], db_targets = []\<rparr>"
    by code_simp
  then show ?thesis using del_json_target_correct [OF demo_api demo_wf r] by (simp add: r)
qed

end
