(* ===== verification/Dem_Demo.thy ===== *)
theory Dem_Demo
  imports Dem_Machine Json_Properties
begin

text \<open>
  Concrete controllers on which the properties of the controller are applied: a network and a host transport
  that record what happens, and a document with a host and a target in a group.
\<close>

section \<open>A network and a transport\<close>

text \<open>The state of the network is the list of events, the newest first; everything succeeds.\<close>

datatype event =
    Ev_connect conn
  | Ev_disconnect conn
  | Ev_mi conn inb_msg
  | Ev_get string
  | Ev_post string string
  | Ev_delete string
  | Ev_aer ptr
  | Ev_write ptr host_data nat
  | Ev_rsp ptr nvme_completion
  | Ev_close ptr

definition demo_entry :: disc_entry where
  "demo_entry = \<lparr>de_trtype = 1, de_adrfam = 1, de_subtype = 2, de_treq = 0, de_portid = 1, de_trsvcid = ''4420'',
     de_subnqn = ''nqn.s1'', de_traddr = ''10.0.0.1'', de_prtype = 1, de_qptype = 1, de_cms = 1, de_pkey = 0\<rparr>"

definition demo_net :: "event list network" where
  "demo_net = \<lparr>nw_inet_pton = (\<lambda>_ _. True),
     nw_connect = (\<lambda>c _ _ _ w. (0, True, Ev_connect c # w)), nw_disconnect = (\<lambda>c w. Ev_disconnect c # w),
     nw_mi_send = (\<lambda>c m w. (0, Ev_mi c m # w)), nw_ns_devices = (\<lambda>_ w. (0, [], w)),
     nw_transports = (\<lambda>_ w. (0, [], w)), nw_log_page = (\<lambda>_ _ w. (0, (1, 1, [demo_entry]), w)),
     nw_keep_alive = (\<lambda>_ w. (0, w)), nw_get = (\<lambda>u w. (0, [], Ev_get u # w)),
     nw_post = (\<lambda>u d w. (0, Ev_post u d # w)), nw_delete = (\<lambda>u w. (0, Ev_delete u # w)),
     nw_send_aer = (\<lambda>e w. Ev_aer e # w)\<rparr>"

definition demo_io :: "event list host_io" where
  "demo_io = \<lparr>hx_rma_read = (\<lambda>_ _ _ _ w. (0, \<lparr>cd_hostnqn = ''nqn.h1'', cd_subsysnqn = NVME_DISC_SUBSYS_NAME, cd_cntlid = 0xffff\<rparr>, w)),
     hx_rma_write = (\<lambda>e d _ len _ w. (0, Ev_write e d len # w)), hx_alloc_key = (\<lambda>_ _ w. (0, w)),
     hx_send_rsp = (\<lambda>e r w. Ev_rsp e r # w), hx_disconnect = (\<lambda>e _ w. Ev_close e # w)\<rparr>"

section \<open>A controller\<close>

definition demo_doc :: json where
  "demo_doc = JObject
     [(''Hosts'', JArray [JObject [(''Alias'', JString ''h1''), (''HOSTNQN'', JString ''nqn.h1'')]]),
      (''Targets'', JArray [JObject [(''Alias'', JString ''t1''), (''Refresh'', JInteger 1),
         (''PortIDs'', JArray [JObject [(''PORTID'', JInteger 1), (''TRTYPE'', JString ''rdma''), (''ADRFAM'', JString ''ipv4''),
                                         (''TRADDR'', JString ''10.0.0.1''), (''TRSVCID'', JInteger 4420)]]),
         (''Subsystems'', JArray [JObject [(''SUBNQN'', JString ''nqn.s1''), (''AllowAnyHost'', JInteger 0),
                                           (''Hosts'', JArray [JString ''h1''])]])]]),
      (''Groups'', JArray [JObject [(''Name'', JString ''g1''), (''Targets'', JArray [JString ''t1'']),
                                    (''Hosts'', JArray [JString ''h1''])]])]"

definition demo_dir :: directory where
  "demo_dir = [(''config'', None),
     (''if0'', Some (text_stream (''TRTYPE=tcp'' @ [CHR 0x0A] @ ''ADRFAM=ib'' @ [CHR 0x0A] @ ''TRADDR=1'')))]"

lemma demo_dir_interfaces: "\<exists>is. init_interfaces (Some demo_dir) = Inr (1, is)"
proof -
  have "case init_interfaces (Some demo_dir) of Inl _ \<Rightarrow> False | Inr (n, _) \<Rightarrow> n = 1" by code_simp
  then show ?thesis by (auto split: sum.splits)
qed

text \<open>The program started without a configuration file, and with a host connected.\<close>

definition demo_sv :: "(json, event list) system server" where
  "demo_sv = projr (projr (main_start demo demo_net Dumped None (Some demo_dir) None ''nqn.shared'' []))"

definition demo_machine :: "(json, event list) machine" where
  "demo_machine = \<lparr>mc_server = demo_sv, mc_hosts = [], mc_count = 1\<rparr>"

lemma demo_dem_api: "dem_api demo"
  unfolding dem_api_def by (rule demo_api)

lemma demo_start_lists:
  "build_lists demo demo_net (dem_empty (json_object demo) ''nqn.shared'' []) =
     Inr (dem_empty (json_object demo) ''nqn.shared'' [])"
  by (simp add: build_lists_def build_target_list_def build_group_list_def links_def dem_empty_def demo_def ref_jansson_def)

lemma demo_started:
  "main_start demo demo_net Dumped None (Some demo_dir) None ''nqn.shared'' [] = Inr (Inr demo_sv)"
  "named demo (sy_dem (sv_state demo_sv))"
proof -
  obtain "is" where i: "init_interfaces (Some demo_dir) = Inr (1, is)" using demo_dir_interfaces by blast
  show "main_start demo demo_net Dumped None (Some demo_dir) None ''nqn.shared'' [] = Inr (Inr demo_sv)"
    unfolding demo_sv_def by (simp add: main_start_def parse_config_file_def start_dem_def i demo_start_lists)
      (simp add: init_targets_def dem_empty_def)
  have "named demo (dem_empty (json_object demo) ''nqn.shared'' [])" by code_simp
  then show "named demo (sy_dem (sv_state demo_sv))"
    unfolding demo_sv_def by (simp add: main_start_def parse_config_file_def start_dem_def i demo_start_lists)
      (simp add: init_targets_def dem_empty_def)
qed

lemma demo_machine_reachable: "dem_reachable demo demo_net demo_io True demo_machine"
  using dem_reachable.start [OF _ demo_started(1), where X = demo_io] demo_started(2)
  by (simp add: demo_machine_def file_ok_def)

text \<open>The state after the start with the document above, when the target has answered with one page.\<close>

definition demo_subsys :: subsystem where
  "demo_subsys = \<lparr>ss_ptr = 2, ss_hosts = [\<lparr>hs_alias = ''h1'', hs_nqn = ''nqn.h1''\<rparr>], ss_nss = [],
     ss_logpages = [\<lparr>lp_portid = 3, lp_e = demo_entry, lp_valid = True\<rparr>], ss_nqn = ''nqn.s1'', ss_access = 0\<rparr>"

definition demo_target :: target where
  "demo_target = \<lparr>tg_ptr = 1, tg_subsystems = [demo_subsys],
     tg_portids = [\<lparr>pt_ptr = 3, pt_portid = 1, pt_type = ''rdma'', pt_family = ''ipv4'', pt_address = ''10.0.0.1'',
                    pt_port = ''4420'', pt_port_num = 4420, pt_addr = [10, 0, 0, 1]\<rparr>],
     tg_devices = [],
     tg_queues = [\<lparr>cq_ptr = 5, cq_portid = 3, cq_subsys = None, cq_hostnqn = ''nqn.shared'', cq_connected = False, cq_failed_kato = True\<rparr>,
                  \<lparr>cq_ptr = 6, cq_portid = 3, cq_subsys = Some 2, cq_hostnqn = ''nqn.h1'', cq_connected = False, cq_failed_kato = True\<rparr>],
     tg_unattached = [], tg_fabric_ifaces = [], tg_sc_iface = sc_iface_zero, tg_alias = ''t1'', tg_mgmt_mode = LOCAL_MGMT,
     tg_refresh = 1, tg_log_page_retry_count = 200, tg_refresh_countdown = 600, tg_kato_countdown = 0, tg_group_member = True\<rparr>"

definition demo_dem :: "(json, event list) dem" where
  "demo_dem = \<lparr>dm_root = demo_doc, dm_targets = [demo_target],
     dm_groups = [\<lparr>gr_ptr = 4, gr_targets = [1], gr_name = ''g1''\<rparr>],
     dm_hosts = [\<lparr>gl_group = 4, gl_alias = ''h1'', gl_nqn = ''nqn.h1''\<rparr>],
     dm_aen = [], dm_endpoints = Map.empty, dm_next = 7, dm_shared_nqn = ''nqn.shared'', dm_net = []\<rparr>"

lemma demo_dem_inv: "dem_inv demo demo_dem"
  by code_simp

end
