(* ===== verification/Dem_Properties.thy ===== *)
theory Dem_Properties
  imports Dem_Demo
begin

text \<open>
  The properties of the controller as a whole. They hold for every JSON library that obeys
  \<^const>\<open>jansson_api\<close>, every network and every host transport; each witness applies them to the controllers of
  \<open>Dem_Demo\<close>.
\<close>

section \<open>The invariant\<close>



section \<open>What hosts see\<close>





text \<open>
  C31. When a group is deleted, a target that was in no other group is shown to nobody from then on: every host
  is sent what it would be sent if the target did not exist, although the target is in no group any more.
  (\<^verbatim>\<open>del_group\<close> frees the group without visiting its members, so the flag of the target stays.)
\<close>

theorem deleted_group_hides_target:
  assumes "dem_inv J s" "find_group s n = Some g" "del_group J (Some n) s = Inr (s', 0, resp)"
    and "t \<in> set (dm_targets s)" "\<And>g'. g' \<in> set (dm_groups s) \<Longrightarrow> tg_ptr t \<in> set (gr_targets g') \<longleftrightarrow> g' = g"
  shows "t \<in> set (dm_targets s') \<and> \<not> grouped s' t \<and>
    host_entries s' nqn = host_entries (s'\<lparr>dm_targets := filter (\<lambda>u. tg_ptr u \<noteq> tg_ptr t) (dm_targets s')\<rparr>) nqn"
proof -
  have ok: "lists_ok True s" using assms(1) by (simp add: dem_inv_def dem_inv_at_def)
  have g: "g \<in> set (dm_groups s)" using assms(2) by (auto simp: find_group_def dest: find_SomeD)
  have s': "dm_targets s' = dm_targets s" "dm_groups s' = remove1 g (dm_groups s)"
    using assms(2,3) by (auto simp: del_group_def Let_def find_group_def split: prod.splits option.splits if_splits)
  have left: "set (dm_groups s') = set (dm_groups s) - {g}"
    unfolding s' using ok by (simp add: lists_ok_def alloc_ok_def distinct_map set_remove1_eq)
  have free: "\<not> grouped s' u" "tg_group_member u" if "u \<in> set (dm_targets s)" "tg_ptr u = tg_ptr t" for u
    using that assms(4,5) g ok left by (auto simp: grouped_def list_ex_iff lists_ok_def links_ok_def)
  then have hidden: "sees_target P s' u \<Longrightarrow> tg_ptr u \<noteq> tg_ptr t" if "u \<in> set (dm_targets s)" for P u
    using that by (auto simp: sees_target_def orphan_def)
  have "filter (sees_target P s') (filter (\<lambda>u. tg_ptr u \<noteq> tg_ptr t) (dm_targets s)) =
      filter (sees_target P s') (dm_targets s)" for P
    using hidden by (auto intro: filter_cong)
  moreover have "sees_target P (s'\<lparr>dm_targets := ts\<rparr>) = sees_target P s'" for P ts
    by (simp add: fun_eq_iff sees_target_def grouped_def orphan_def shares_group_def)
  ultimately show ?thesis
    using assms(4) free s'(1) by (simp add: host_entries_def pages_for_def)
qed

theorem deleted_group_hides_target_witness:
  "\<exists>s' resp. del_group demo (Some ''g1'') demo_dem = Inr (s', 0, resp) \<and>
     host_entries demo_dem ''nqn.h1'' = [demo_entry] \<and> host_entries s' ''nqn.h1'' = []"
proof -
  have "case del_group demo (Some ''g1'') demo_dem of Inl _ \<Rightarrow> False
    | Inr (s', ret, _) \<Rightarrow> ret = 0 \<and> dm_targets s' = [demo_target] \<and>
        find_group demo_dem ''g1'' = Some \<lparr>gr_ptr = 4, gr_targets = [1], gr_name = ''g1''\<rparr>"
    by code_simp
  then obtain s' resp where r: "del_group demo (Some ''g1'') demo_dem = Inr (s', 0, resp)" "dm_targets s' = [demo_target]"
    and g: "find_group demo_dem ''g1'' = Some \<lparr>gr_ptr = 4, gr_targets = [1], gr_name = ''g1''\<rparr>"
    by (auto split: sum.splits)
  have "host_entries s' ''nqn.h1'' =
      host_entries (s'\<lparr>dm_targets := filter (\<lambda>u. tg_ptr u \<noteq> tg_ptr demo_target) (dm_targets s')\<rparr>) ''nqn.h1''"
    by (rule deleted_group_hides_target [OF demo_dem_inv g r(1), THEN conjunct2, THEN conjunct2])
      (auto simp: demo_dem_def demo_target_def)
  moreover have "host_entries demo_dem ''nqn.h1'' = [demo_entry]" by code_simp
  ultimately show ?thesis using r by (auto simp: host_entries_def pages_for_def)
qed

text \<open>
  C10. The log page shown to the administrator for a host, which is computed from aliases, has exactly the pages
  the host is sent, which are computed from NQNs, as long as alias and NQN name the same host in the links
  and access lists.
\<close>

theorem host_logpage_equivalent:
  assumes "dem_inv J s" "names_agree a q s"
  shows "\<exists>ps. host_pages s a (dm_targets s) = Inr ps \<and> map lp_e ps = host_entries s q"
  using assms host_pages_spec [of s "dm_targets s" a] pages_by_alias [OF assms(2)] by (simp add: dem_inv_def dem_inv_at_def host_entries_def)

theorem host_logpage_equivalent_witness:
  "\<exists>ps. host_pages demo_dem ''h1'' (dm_targets demo_dem) = Inr ps \<and> map lp_e ps = [demo_entry]"
proof -
  have "names_agree ''h1'' ''nqn.h1'' demo_dem" by code_simp
  moreover have "host_entries demo_dem ''nqn.h1'' = [demo_entry]" by code_simp
  ultimately show ?thesis using host_logpage_equivalent [OF demo_dem_inv] by metis
qed

section \<open>The configuration file\<close>

text \<open>
  C9. After a request to change groups, hosts or targets that is answered with success, the configuration file is
  what writing the document has made of it: the document, which a restart then finds, if it could be written;
  the old file if it could not be opened, and one that does not parse if the write was cut short, although the
  answer is the same. After a request that is refused or fails the file is what it was.
\<close>

theorem config_file_durable:
  assumes "changing hm"
    and "handle_http_request J sig_writable (dem_backend J N disk) hm s = Inr (s', ret, resp)"
  shows "sy_file (sv_state s') =
      (if ret = 0 then json_dump_file disk (dm_root (sy_dem (sv_state s'))) (sy_file (sv_state s)) else sy_file (sv_state s)) \<and>
    (ret = 0 \<and> disk = Dumped \<longrightarrow>
      fst (parse_config_file J later (sy_file (sv_state s'))) = dm_root (sy_dem (sv_state s')))"
  using ensuresD [OF config_file.handle_http_request_settled [OF assms(1) refl] assms(2)]
  by (auto simp: parse_config_file_def split: if_splits)

definition demo_post :: "string \<Rightarrow> http_message" where
  "demo_post uri = \<lparr>hm_method = ''POST'', hm_uri = uri, hm_query_string = [], hm_headers = [], hm_body = []\<rparr>"

definition demo_server2 :: "(json, event list) system server" where
  "demo_server2 = \<lparr>sv_signature = s_signature_default, sv_interfaces = [],
     sv_state = \<lparr>sy_dem = dem_empty (JObject []) ''nqn.shared'' [], sy_file = None, sy_stopped = False\<rparr>\<rparr>"

theorem config_file_durable_witness:
  "\<exists>s' resp. handle_http_request demo True (dem_backend demo demo_net Dumped) (demo_post ''/group/g1'') demo_server2 = Inr (s', 0, resp) \<and>
     fst (parse_config_file demo Dumped (sy_file (sv_state s'))) =
       JObject [(''Groups'', JArray [JObject [(''Name'', JString ''g1''), (''Targets'', JArray []), (''Hosts'', JArray [])]])]"
proof -
  let ?r = "handle_http_request demo True (dem_backend demo demo_net Dumped) (demo_post ''/group/g1'') demo_server2"
  have c: "changing (demo_post ''/group/g1'')" by code_simp
  have "case ?r of Inl _ \<Rightarrow> False | Inr (s', ret, _) \<Rightarrow> ret = 0 \<and> dm_root (sy_dem (sv_state s')) =
      JObject [(''Groups'', JArray [JObject [(''Name'', JString ''g1''), (''Targets'', JArray []), (''Hosts'', JArray [])]])]"
    by code_simp
  then obtain s' resp where "?r = Inr (s', 0, resp)" "dm_root (sy_dem (sv_state s')) =
      JObject [(''Groups'', JArray [JObject [(''Name'', JString ''g1''), (''Targets'', JArray []), (''Hosts'', JArray [])]])]"
    by (auto split: sum.splits)
  with config_file_durable [OF c, of demo True demo_net Dumped demo_server2 s' 0 resp Dumped] show ?thesis by metis
qed

end
