(* ===== verification/Linked_List.thy ===== *)
theory Linked_List
  imports Prelude
begin

text \<open>
  The circular doubly linked lists of \<^verbatim>\<open>src/src/incl/utils.h\<close>: a heap gives each node its two
  pointers, the functions update them in the order of the code, and the iteration macros are
  loops over the heap, which need not end on a heap where the pointers do not form a list.

  \<open>is_list h l xs\<close> says that the list with head node \<open>l\<close> has the entries \<open>xs\<close>. Each function is
  refined to the operation on \<open>xs\<close>; the interface \<open>list_ops\<close> collects what its users rely on.
\<close>

section \<open>Heap and operations\<close>

record 'a ll_heap =
  ll_next :: "'a \<Rightarrow> 'a"
  ll_prev :: "'a \<Rightarrow> 'a"

definition set_next :: "'a \<Rightarrow> 'a \<Rightarrow> 'a ll_heap \<Rightarrow> 'a ll_heap" where
  "set_next p v h = h\<lparr>ll_next := (ll_next h)(p := v)\<rparr>"

definition set_prev :: "'a \<Rightarrow> 'a \<Rightarrow> 'a ll_heap \<Rightarrow> 'a ll_heap" where
  "set_prev p v h = h\<lparr>ll_prev := (ll_prev h)(p := v)\<rparr>"

definition INIT_LINKED_LIST :: "'a \<Rightarrow> 'a ll_heap \<Rightarrow> 'a ll_heap" where
  "INIT_LINKED_LIST ptr h = set_prev ptr ptr (set_next ptr ptr h)"

definition list_add_between :: "'a \<Rightarrow> 'a \<Rightarrow> 'a \<Rightarrow> 'a ll_heap \<Rightarrow> 'a ll_heap" where
  "list_add_between entry prev next h =
     (let h = set_prev next entry h;
          h = set_next entry next h;
          h = set_prev entry prev h
      in set_next prev entry h)"

definition list_add :: "'a \<Rightarrow> 'a \<Rightarrow> 'a ll_heap \<Rightarrow> 'a ll_heap" where
  "list_add entry l h = list_add_between entry l (ll_next h l) h"

definition list_add_tail :: "'a \<Rightarrow> 'a \<Rightarrow> 'a ll_heap \<Rightarrow> 'a ll_heap" where
  "list_add_tail entry l h = list_add_between entry (ll_prev h l) l h"

definition list_del :: "'a \<Rightarrow> 'a ll_heap \<Rightarrow> 'a ll_heap" where
  "list_del entry h =
     (let h = set_prev (ll_next h entry) (ll_prev h entry) h
      in set_next (ll_prev h entry) (ll_next h entry) h)"

definition list_empty :: "'a ll_heap \<Rightarrow> 'a \<Rightarrow> bool" where
  "list_empty h l = (ll_next h l = l)"

text \<open>
  \<^verbatim>\<open>list_for_each\<close> and \<^verbatim>\<open>list_for_each_entry\<close>: the entries visited by a body that does not change
  the heap. \<^const>\<open>None\<close> is a loop that does not end.
\<close>

partial_function (option) list_for_each_from :: "'a ll_heap \<Rightarrow> 'a \<Rightarrow> 'a \<Rightarrow> 'a list option" where
  "list_for_each_from h l entry =
     (if entry = l then Some []
      else Option.bind (list_for_each_from h l (ll_next h entry)) (\<lambda>es. Some (entry # es)))"

definition list_for_each :: "'a ll_heap \<Rightarrow> 'a \<Rightarrow> 'a list option" where
  "list_for_each h l = list_for_each_from h l (ll_next h l)"

text \<open>
  \<^verbatim>\<open>list_for_each_entry_safe\<close> with the body of every purge loop of the program: unlink the entries
  that satisfy a test. The next entry is read before the body runs.
\<close>

partial_function (option) list_purge_from ::
  "('a \<Rightarrow> bool) \<Rightarrow> 'a \<Rightarrow> 'a \<Rightarrow> 'a \<Rightarrow> 'a ll_heap \<Rightarrow> 'a ll_heap option" where
  "list_purge_from P l entry tmp h =
     (if entry = l then Some h
      else let h' = (if P entry then list_del entry h else h)
           in list_purge_from P l tmp (ll_next h' tmp) h')"

definition list_purge :: "('a \<Rightarrow> bool) \<Rightarrow> 'a \<Rightarrow> 'a ll_heap \<Rightarrow> 'a ll_heap option" where
  "list_purge P l h = list_purge_from P l (ll_next h l) (ll_next h (ll_next h l)) h"

section \<open>Lists in the heap\<close>

fun linked :: "'a ll_heap \<Rightarrow> 'a list \<Rightarrow> bool" where
  "linked h (a # b # xs) = (ll_next h a = b \<and> ll_prev h b = a \<and> linked h (b # xs))"
| "linked h _ = True"

definition is_list :: "'a ll_heap \<Rightarrow> 'a \<Rightarrow> 'a list \<Rightarrow> bool" where
  "is_list h l xs = (distinct (l # xs) \<and> linked h (l # xs @ [l]))"

lemma heap_simps [simp]:
  "ll_next (set_next p v h) = (ll_next h)(p := v)" "ll_prev (set_next p v h) = ll_prev h"
  "ll_prev (set_prev p v h) = (ll_prev h)(p := v)" "ll_next (set_prev p v h) = ll_next h"
  by (simp_all add: set_next_def set_prev_def)

lemma linked_append: "linked h (xs @ [a]) \<Longrightarrow> linked h (a # ys) \<Longrightarrow> linked h (xs @ a # ys)"
  by (induction h xs rule: linked.induct) auto

lemma linked_appendD:
  "linked h (xs @ a # ys) \<Longrightarrow> linked h (xs @ [a])" "linked h (xs @ a # ys) \<Longrightarrow> linked h (a # ys)"
  by (induction h xs rule: linked.induct) auto

lemma linked_split: "linked h (xs @ a # ys) \<longleftrightarrow> linked h (xs @ [a]) \<and> linked h (a # ys)"
  using linked_append linked_appendD by metis

text \<open>A chain only depends on the successors of its nodes but the last and the predecessors of its nodes but the first.\<close>

lemma linked_cong:
  assumes "linked h xs" "\<forall>a\<in>set (butlast xs). ll_next h' a = ll_next h a"
    and "\<forall>a\<in>set (tl xs). ll_prev h' a = ll_prev h a"
  shows "linked h' xs"
  using assms by (induction h xs rule: linked.induct) auto

lemma linked_join:
  "linked h (ps @ [a]) \<Longrightarrow> linked h (b # qs) \<Longrightarrow> ll_next h a = b \<Longrightarrow> ll_prev h b = a \<Longrightarrow>
     linked h (ps @ a # b # qs)"
  using linked_append [of h ps a "b # qs"] by simp

lemma is_list_frame:
  assumes "is_list h l xs" "\<forall>a\<in>set (l # xs). ll_next h' a = ll_next h a \<and> ll_prev h' a = ll_prev h a"
  shows "is_list h' l xs"
proof -
  have "linked h' ys" if "linked h ys" "\<forall>a\<in>set ys. ll_next h' a = ll_next h a \<and> ll_prev h' a = ll_prev h a" for ys
    using that by (induction h ys rule: linked.induct) auto
  from this [of "l # xs @ [l]"] show ?thesis using assms by (simp add: is_list_def)
qed

lemma is_list_next: "is_list h l xs \<Longrightarrow> ll_next h l = hd (xs @ [l])"
  by (cases xs) (auto simp: is_list_def)

lemma linked_last: "linked h (a # xs @ [b]) \<Longrightarrow> ll_prev h b = last (a # xs) \<and> ll_next h (last (a # xs)) = b"
  by (induction xs arbitrary: a) auto

lemma is_list_prev: "is_list h l xs \<Longrightarrow> ll_prev h l = last (l # xs)"
  using linked_last [of h l xs l] by (simp add: is_list_def)

text \<open>Inserting a fresh node between two neighbours of the ring.\<close>

lemma list_add_between_linked:
  assumes "linked h (ps @ [a])" "linked h (b # qs)" "e \<notin> set (ps @ [a])" "e \<notin> set (b # qs)"
    and "a \<notin> set ps" "b \<notin> set (tl (ps @ [a]))" "a \<notin> set (butlast (b # qs))" "b \<notin> set qs"
  shows "linked (list_add_between e a b h) (ps @ a # e # b # qs)"
proof -
  let ?h = "list_add_between e a b h"
  have nx: "ll_next ?h x = ll_next h x" if "x \<noteq> a" "x \<noteq> e" for x
    using that by (simp add: list_add_between_def Let_def)
  have pv: "ll_prev ?h x = ll_prev h x" if "x \<noteq> b" "x \<noteq> e" for x
    using that by (simp add: list_add_between_def Let_def)
  have p: "linked ?h (ps @ [a])"
  proof (rule linked_cong [OF assms(1)])
    show "\<forall>x\<in>set (butlast (ps @ [a])). ll_next ?h x = ll_next h x"
      using assms(3,5) by (auto intro!: nx)
    show "\<forall>x\<in>set (tl (ps @ [a])). ll_prev ?h x = ll_prev h x"
      using assms(3,6) by (cases ps) (auto intro!: pv)
  qed
  have q: "linked ?h (b # qs)"
  proof (rule linked_cong [OF assms(2)])
    show "\<forall>x\<in>set (butlast (b # qs)). ll_next ?h x = ll_next h x"
      using assms(4,7) by (metis in_set_butlastD nx)
    show "\<forall>x\<in>set (tl (b # qs)). ll_prev ?h x = ll_prev h x"
      using assms(4,8) by (auto intro!: pv)
  qed
  have "linked ?h ([e] @ b # qs)"
    using q assms by (auto simp: list_add_between_def Let_def)
  then show ?thesis
    using p assms by (intro linked_join) (auto simp: list_add_between_def Let_def)
qed

lemma linked_butlast: "linked h (xs @ [a]) \<Longrightarrow> linked h xs"
  by (induction h xs rule: linked.induct) auto

lemma is_list_split:
  assumes "is_list h l xs"
  obtains ps a where "l # xs = ps @ [a]" "a = ll_prev h l" "linked h (ps @ [a])" "distinct (ps @ [a])"
proof -
  have "l # xs = butlast (l # xs) @ [last (l # xs)]" by simp
  moreover have "linked h (l # xs)" using assms linked_butlast [of h "l # xs" l] by (simp add: is_list_def)
  ultimately show ?thesis
    using that [of "butlast (l # xs)" "last (l # xs)"] is_list_prev [OF assms] assms
    unfolding is_list_def by metis
qed

lemma list_add_tail_list:
  assumes "is_list h l xs" "e \<notin> set (l # xs)"
  shows "is_list (list_add_tail e l h) l (xs @ [e])"
proof -
  obtain ps a where p: "l # xs = ps @ [a]" "a = ll_prev h l" "linked h (ps @ [a])" "distinct (ps @ [a])"
    using is_list_split [OF assms(1)] by blast
  have l: "l \<notin> set (tl (ps @ [a]))" using assms(1) unfolding p(1) [symmetric] by (simp add: is_list_def)
  have e: "e \<notin> set (ps @ [a])" "e \<noteq> l" using assms(2) unfolding p(1) [symmetric] by simp_all
  have "linked (list_add_between e a l h) (ps @ a # e # l # [])"
    using p(4) l e by (intro list_add_between_linked [OF p(3)]) simp_all
  then have "linked (list_add_between e a l h) ((l # xs) @ [e, l])" unfolding p(1) by simp
  then show ?thesis using assms p(2) by (auto simp: is_list_def list_add_tail_def)
qed

lemma list_add_list:
  assumes "is_list h l xs" "e \<notin> set (l # xs)"
  shows "is_list (list_add e l h) l (e # xs)"
proof -
  obtain b qs where b: "xs @ [l] = b # qs" by (cases "xs @ [l]") auto
  have n: "ll_next h l = b" using is_list_next [OF assms(1)] b by simp
  have d: "distinct (b # qs)" using assms(1) unfolding b [symmetric] by (auto simp: is_list_def)
  have "linked (list_add_between e l b h) ([] @ l # e # b # qs)"
  proof (rule list_add_between_linked)
    show "linked h (b # qs)" using assms(1) b by (auto simp: is_list_def)
    show "l \<notin> set (butlast (b # qs))" using assms(1) by (simp add: is_list_def flip: b)
    show "e \<notin> set (b # qs)" using assms(2) by (simp flip: b)
  qed (use assms d in auto)
  then show ?thesis
    using assms n by (auto simp: is_list_def list_add_def simp flip: b)
qed

lemma list_del_list:
  assumes "is_list h l (ys @ e # zs)"
  shows "is_list (list_del e h) l (ys @ zs)"
proof -
  let ?h = "list_del e h"
  obtain b qs where b: "zs @ [l] = b # qs" by (cases "zs @ [l]") auto
  obtain ps a where a: "l # ys = ps @ [a]" by (metis append_butlast_last_id list.distinct(1))
  have lk: "linked h ((ps @ [a]) @ e # b # qs)"
    using assms unfolding a [symmetric] b [symmetric] by (simp add: is_list_def)
  have d: "distinct (ps @ a # e # zs)" "distinct (e # b # qs)"
    using assms unfolding a [symmetric] b [symmetric] is_list_def
    by (metis a append_Cons append_assoc append_self_conv2, auto)
  have l: "l \<in> set (ps @ [a])" "l \<notin> set (tl (ps @ [a]))" "l \<notin> set zs"
    using assms unfolding a [symmetric] by (auto simp: is_list_def)
  have pq: "linked h (ps @ [a])" "linked h (b # qs)" "ll_prev h e = a" "ll_next h e = b"
    using lk linked_appendD [of h "ps @ [a]" e "b # qs"] linked_appendD [of h ps a "e # b # qs"]
    by auto
  have ne: "e \<noteq> b" using d(2) by simp
  have h': "ll_next ?h = (ll_next h)(a := b)" "ll_prev ?h = (ll_prev h)(b := a)"
    using pq(3,4) ne by (simp_all add: list_del_def Let_def)
  have b': "b = l \<or> b \<in> set zs" using b by (cases zs) auto
  have "linked ?h (ps @ [a])"
  proof (rule linked_cong [OF pq(1)])
    show "\<forall>x\<in>set (butlast (ps @ [a])). ll_next ?h x = ll_next h x" using d(1) by (auto simp: h')
    have "b \<notin> set (tl (ps @ [a]))" using b' l d(1) by (cases ps) auto
    then show "\<forall>x\<in>set (tl (ps @ [a])). ll_prev ?h x = ll_prev h x" by (auto simp: h')
  qed
  moreover have "linked ?h (b # qs)"
  proof (rule linked_cong [OF pq(2)])
    have "butlast (b # qs) = zs" by (metis b butlast_snoc)
    then show "\<forall>x\<in>set (butlast (b # qs)). ll_next ?h x = ll_next h x" using d(1) by (auto simp: h')
    show "\<forall>x\<in>set (tl (b # qs)). ll_prev ?h x = ll_prev h x" using d(2) by (auto simp: h')
  qed
  ultimately have "linked ?h ((ps @ [a]) @ b # qs)" using linked_join [of ?h ps a b qs] by (simp add: h')
  then have "linked ?h (l # (ys @ zs) @ [l])" unfolding a [symmetric] b [symmetric] by simp
  then show ?thesis using assms by (auto simp: is_list_def)
qed

lemma list_empty_iff: "is_list h l xs \<Longrightarrow> list_empty h l \<longleftrightarrow> xs = []"
  by (cases xs) (auto simp: is_list_def list_empty_def)

lemma init_list: "is_list (INIT_LINKED_LIST l h) l []"
  by (simp add: is_list_def INIT_LINKED_LIST_def)

lemma list_for_each_from_list:
  "linked h (xs @ [l]) \<Longrightarrow> l \<notin> set xs \<Longrightarrow> list_for_each_from h l (hd (xs @ [l])) = Some xs"
proof (induction xs)
  case Nil
  show ?case by (subst list_for_each_from.simps) simp
next
  case (Cons x xs)
  have "ll_next h x = hd (xs @ [l])" "linked h (xs @ [l])"
    using Cons.prems(1) by (cases xs; auto)+
  then show ?case
    using Cons by (subst list_for_each_from.simps) auto
qed

lemma is_list_linked: "is_list h l xs \<Longrightarrow> linked h (xs @ [l]) \<and> l \<notin> set xs"
  by (cases xs) (auto simp: is_list_def)

lemma list_for_each_list: "is_list h l xs \<Longrightarrow> list_for_each h l = Some xs"
  using list_for_each_from_list is_list_linked is_list_next by (metis list_for_each_def)

lemma is_list_succ: "is_list h l (ys @ e # zs) \<Longrightarrow> ll_next h e = hd (zs @ [l])"
  using linked_appendD(2) [of h "l # ys" e "zs @ [l]"] by (cases zs) (auto simp: is_list_def)

text \<open>The purge loop stops, and keeps the entries that fail the test, in order.\<close>

lemma list_purge_from_list:
  "is_list h l (ys @ xs) \<Longrightarrow>
     \<exists>h'. list_purge_from P l (hd (xs @ [l])) (ll_next h (hd (xs @ [l]))) h = Some h' \<and>
          is_list h' l (ys @ filter (\<lambda>x. \<not> P x) xs)"
proof (induction xs arbitrary: ys h)
  case Nil
  then show ?case by (subst list_purge_from.simps) simp
next
  case (Cons x xs)
  let ?h = "if P x then list_del x h else h" and ?ys = "if P x then ys else ys @ [x]"
  have "is_list ?h l (?ys @ xs)" using Cons.prems list_del_list by auto
  from Cons.IH [OF this] obtain h' where
    "list_purge_from P l (hd (xs @ [l])) (ll_next ?h (hd (xs @ [l]))) ?h = Some h'"
    "is_list h' l (?ys @ filter (\<lambda>x. \<not> P x) xs)" by blast
  moreover have "x \<noteq> l" using Cons.prems by (auto simp: is_list_def)
  ultimately show ?case
    using is_list_succ [OF Cons.prems]
    by (subst list_purge_from.simps) (auto simp: Let_def)
qed

lemma list_purge_list:
  assumes "is_list h l xs"
  shows "\<exists>h'. list_purge P l h = Some h' \<and> is_list h' l (filter (\<lambda>x. \<not> P x) xs)"
  using list_purge_from_list [of h l "[]" xs P] is_list_next [OF assms] assms
  by (simp add: list_purge_def)

section \<open>The interface\<close>

text \<open>
  What the rest of the program relies on: a representation of lists of nodes, and the effect of
  the operations on the list represented and on every list that shares no node with it.
\<close>

locale list_ops =
  fixes rep :: "'h \<Rightarrow> 'a \<Rightarrow> 'a list \<Rightarrow> bool"
    and add_tail :: "'a \<Rightarrow> 'a \<Rightarrow> 'h \<Rightarrow> 'h"
    and del :: "'a \<Rightarrow> 'h \<Rightarrow> 'h"
    and walk :: "'h \<Rightarrow> 'a \<Rightarrow> 'a list option"
  assumes rep_distinct: "rep h l xs \<Longrightarrow> distinct (l # xs)"
    and rep_add_tail: "rep h l xs \<Longrightarrow> e \<notin> set (l # xs) \<Longrightarrow> rep (add_tail e l h) l (xs @ [e])"
    and rep_del: "rep h l xs \<Longrightarrow> e \<in> set xs \<Longrightarrow> rep (del e h) l (remove1 e xs)"
    and rep_walk: "rep h l xs \<Longrightarrow> walk h l = Some xs"
    and add_tail_frame: "rep h l xs \<Longrightarrow> rep h m ys \<Longrightarrow> set (l # xs) \<inter> set (m # ys) = {} \<Longrightarrow>
      e \<notin> set (m # ys) \<Longrightarrow> rep (add_tail e l h) m ys"
    and del_frame: "rep h l xs \<Longrightarrow> rep h m ys \<Longrightarrow> set (l # xs) \<inter> set (m # ys) = {} \<Longrightarrow> e \<in> set xs \<Longrightarrow>
      rep (del e h) m ys"
begin

lemma rep_unique: "rep h l xs \<Longrightarrow> rep h l ys \<Longrightarrow> xs = ys"
  using rep_walk [of h l xs] rep_walk [of h l ys] by simp

text \<open>Entries appended one after the other are visited in the order in which they came.\<close>

lemma rep_fold_add:
  "rep h l xs \<Longrightarrow> distinct es \<Longrightarrow> set es \<inter> set (l # xs) = {} \<Longrightarrow>
     rep (fold (\<lambda>e. add_tail e l) es h) l (xs @ es)"
proof (induction es arbitrary: h xs)
  case (Cons e es)
  then have "rep (add_tail e l h) l (xs @ [e])" by (auto intro: rep_add_tail)
  from Cons.IH [OF this] show ?case using Cons.prems by auto
qed simp

text \<open>Moving an entry from one list to the tail of another one.\<close>

lemma rep_move:
  assumes "rep h l xs" "rep h m ys" "set (l # xs) \<inter> set (m # ys) = {}" "e \<in> set xs"
  shows "rep (add_tail e m (del e h)) l (remove1 e xs)" "rep (add_tail e m (del e h)) m (ys @ [e])"
proof -
  have l: "rep (del e h) l (remove1 e xs)" by (rule rep_del [OF assms(1,4)])
  have m: "rep (del e h) m ys" by (rule del_frame [OF assms])
  have e: "e \<notin> set (remove1 e xs)" "e \<notin> set (m # ys)" "e \<noteq> l"
    using rep_distinct [OF assms(1)] assms(3,4) by auto
  show "rep (add_tail e m (del e h)) m (ys @ [e])" by (rule rep_add_tail [OF m e(2)])
  have "set (m # ys) \<inter> set (l # remove1 e xs) = {}"
    using assms(3) set_remove1_subset [of e xs] by auto
  then show "rep (add_tail e m (del e h)) l (remove1 e xs)"
    using e by (intro add_tail_frame [OF m l]) auto
qed

end

lemma list_add_tail_frame:
  assumes "is_list h l xs" "is_list h m ys" "set (l # xs) \<inter> set (m # ys) = {}" "e \<notin> set (m # ys)"
  shows "is_list (list_add_tail e l h) m ys"
  using is_list_prev [OF assms(1)] assms(3,4) last_in_set [of "l # xs"]
  by (intro is_list_frame [OF assms(2)]) (auto simp: list_add_tail_def list_add_between_def Let_def)

lemma list_del_frame:
  assumes "is_list h l xs" "is_list h m ys" "set (l # xs) \<inter> set (m # ys) = {}" "e \<in> set xs"
  shows "is_list (list_del e h) m ys"
proof -
  obtain us vs where xs: "xs = us @ e # vs" using split_list [OF assms(4)] by blast
  have n: "ll_next h e \<in> set (l # xs)"
    using is_list_succ [of h l us e vs] assms(1) xs by (cases vs) auto
  have "ll_prev h e = last (l # us)"
    using linked_last [of h l us e] linked_appendD(1) [of h "l # us" e "vs @ [l]"] assms(1) xs
    by (simp add: is_list_def)
  then have p: "ll_prev h e \<in> set (l # xs)" using xs last_in_set [of "l # us"] by auto
  have "e \<in> set (l # xs)" using assms(4) by simp
  then show ?thesis
    using n p assms(3) by (intro is_list_frame [OF assms(2)]) (auto simp: list_del_def Let_def)
qed

interpretation ring: list_ops is_list list_add_tail list_del list_for_each
proof unfold_locales
  fix h :: "'a ll_heap" and l m e xs ys
  show "is_list h l xs \<Longrightarrow> distinct (l # xs)" by (simp add: is_list_def)
  show "is_list h l xs \<Longrightarrow> e \<notin> set (l # xs) \<Longrightarrow> is_list (list_add_tail e l h) l (xs @ [e])"
    by (rule list_add_tail_list)
  show "is_list h l xs \<Longrightarrow> e \<in> set xs \<Longrightarrow> is_list (list_del e h) l (remove1 e xs)"
  proof -
    assume i: "is_list h l xs" and "e \<in> set xs"
    then obtain us vs where xs: "xs = us @ e # vs" "e \<notin> set us" using split_list_first by metis
    then show ?thesis using list_del_list [of h l us e vs] i by (simp add: remove1_append)
  qed
  show "is_list h l xs \<Longrightarrow> list_for_each h l = Some xs" by (rule list_for_each_list)
  show "is_list h l xs \<Longrightarrow> is_list h m ys \<Longrightarrow> set (l # xs) \<inter> set (m # ys) = {} \<Longrightarrow> e \<notin> set (m # ys) \<Longrightarrow>
      is_list (list_add_tail e l h) m ys"
    by (rule list_add_tail_frame)
  show "is_list h l xs \<Longrightarrow> is_list h m ys \<Longrightarrow> set (l # xs) \<inter> set (m # ys) = {} \<Longrightarrow> e \<in> set xs \<Longrightarrow>
      is_list (list_del e h) m ys"
    by (rule list_del_frame)
qed

section \<open>Properties\<close>

text \<open>
  A heap with two lists for the witnesses: head 0 with the entries 1 and 2, head 10 with the entry 11.
\<close>

definition demo_heap :: "nat ll_heap" where
  "demo_heap = list_add_tail 11 10 (list_add_tail 2 0 (list_add_tail 1 0
     (INIT_LINKED_LIST 10 (INIT_LINKED_LIST 0 \<lparr>ll_next = (\<lambda>x. x), ll_prev = (\<lambda>x. x)\<rparr>))))"

lemma demo_heap_lists: "is_list demo_heap 0 [1, 2]" "is_list demo_heap 10 [11]"
  by code_simp+

text \<open>
  Appending entries one by one to a list leaves a well-formed ring, and walking it visits the old
  entries and then the new ones in the order in which they were appended.
\<close>

theorem list_append_order:
  assumes "is_list h l xs" "distinct es" "set es \<inter> set (l # xs) = {}"
  shows "list_for_each (fold (\<lambda>e. list_add_tail e l) es h) l = Some (xs @ es)"
  by (rule ring.rep_walk [OF ring.rep_fold_add [OF assms]])

theorem list_append_order_witness:
  "list_for_each (fold (\<lambda>e. list_add_tail e 0) [5, 4] demo_heap) 0 = Some [1, 2, 5, 4]"
  using list_append_order [OF demo_heap_lists(1), of "[5, 4]"] by simp

text \<open>
  C40. Unlinking an entry removes exactly that entry from its list, in either direction of the ring,
  and leaves every list that shares no node with it unchanged.
\<close>

theorem list_unlink:
  assumes "is_list h l xs" "is_list h m ys" "set (l # xs) \<inter> set (m # ys) = {}" "e \<in> set xs"
  shows "is_list (list_del e h) l (remove1 e xs) \<and> is_list (list_del e h) m ys"
  using ring.rep_del [OF assms(1,4)] ring.del_frame [OF assms] by simp

theorem list_unlink_witness:
  "is_list (list_del 1 demo_heap) 0 [2] \<and> is_list (list_del 1 demo_heap) 10 [11]"
  using list_unlink [OF demo_heap_lists, of 1] by simp

text \<open>
  C39. The purge loop over \<^verbatim>\<open>list_for_each_entry_safe\<close> terminates although it unlinks the entry it
  stands on, and the list that remains has exactly the entries that fail the test, in order.
\<close>

theorem list_purge_filters:
  assumes "is_list h l xs"
  shows "\<exists>h'. list_purge P l h = Some h' \<and> list_for_each h' l = Some (filter (\<lambda>x. \<not> P x) xs)"
proof -
  obtain h' where h': "list_purge P l h = Some h'" "is_list h' l (filter (\<lambda>x. \<not> P x) xs)"
    using list_purge_list [OF assms] by blast
  show ?thesis using h'(1) list_for_each_list [OF h'(2)] by (intro exI [of _ h'] conjI)
qed

theorem list_purge_filters_witness:
  "\<exists>h'. list_purge (\<lambda>x. x = 1) 0 demo_heap = Some h' \<and> list_for_each h' 0 = Some [2]"
  using list_purge_filters [OF demo_heap_lists(1), of "\<lambda>x. x = 1"] by simp

end
