(* ===== verification/Host_Queue.thy ===== *)
theory Host_Queue
  imports Prelude
begin

text \<open>
  The queue of new connections of \<^verbatim>\<open>src/src/dem/pseudo_target.c\<close>: a ring of three slots that one
  \<^verbatim>\<open>interface_thread\<close> fills and one \<^verbatim>\<open>host_thread\<close> empties, without a lock. The functions are modelled
  as they are called, and again as sequences of single accesses to the shared memory, which the two
  threads interleave in any order. Accesses take effect in program order.

  The ring is refined to a bounded queue: the endpoints taken are those put in, in the same order, none lost
  and none twice.
\<close>

section \<open>The ring\<close>

definition HOST_QUEUE_MAX :: nat where "HOST_QUEUE_MAX = 3"

record 'e host_queue =
  hq_ep :: "'e option list"
  hq_tail :: nat
  hq_head :: nat

definition is_empty :: "'e host_queue \<Rightarrow> bool" where
  "is_empty q = (hq_head q = hq_tail q)"

definition is_full :: "'e host_queue \<Rightarrow> bool" where
  "is_full q = ((hq_head q + 1) mod HOST_QUEUE_MAX = hq_tail q)"

definition add_new_host_conn :: "'e host_queue \<Rightarrow> 'e \<Rightarrow> int \<times> 'e host_queue" where
  "add_new_host_conn q ep =
     (if is_full q then (-1, q)
      else
        let q = q\<lparr>hq_ep := (hq_ep q)[hq_head q := Some ep]\<rparr>
        in (0, q\<lparr>hq_head := (hq_head q + 1) mod HOST_QUEUE_MAX\<rparr>))"

text \<open>The code, the endpoint it stores through its argument and the queue.\<close>

definition get_new_host_conn :: "'e host_queue \<Rightarrow> int \<times> 'e option \<times> 'e host_queue" where
  "get_new_host_conn q =
     (if is_empty q then (-1, None, q)
      else case hq_ep q ! hq_tail q of
        None \<Rightarrow> (1, None, q)
      | Some ep \<Rightarrow>
          let q = q\<lparr>hq_ep := (hq_ep q)[hq_tail q := None]\<rparr>
          in (0, Some ep, q\<lparr>hq_tail := (hq_tail q + 1) mod HOST_QUEUE_MAX\<rparr>))"

definition queue_zero :: "'e host_queue" where
  "queue_zero = \<lparr>hq_ep = [None, None, None], hq_tail = 0, hq_head = 0\<rparr>"

section \<open>The threads\<close>

text \<open>
  Where a thread is: \<^verbatim>\<open>add_host_to_queue\<close> waits for a free slot, \<^verbatim>\<open>add_new_host_conn\<close> tests again, stores
  the endpoint and advances the head; \<^verbatim>\<open>get_new_host_conn\<close> tests the head, tests the slot, reads it, clears
  it and advances the tail.
\<close>

datatype 'e producer = P_accept | P_wait 'e | P_test 'e | P_store 'e | P_advance 'e

datatype 'e consumer = C_poll | C_slot | C_read | C_clear 'e | C_advance 'e

record 'e threads =
  th_queue :: "'e host_queue"
  th_producer :: "'e producer"
  th_consumer :: "'e consumer"
  th_stopped :: bool
  th_put :: "'e list"
  th_got :: "'e list"
  th_dropped :: "'e list"

text \<open>One access of the producer; \<open>e\<close> is the next endpoint that \<^verbatim>\<open>run_pseudo_target\<close> connects.\<close>

definition produce :: "'e \<Rightarrow> 'e threads \<Rightarrow> 'e threads" where
  "produce e s =
     (case th_producer s of
        P_accept \<Rightarrow> if th_stopped s then s else s\<lparr>th_producer := P_wait e\<rparr>
      | P_wait e \<Rightarrow> if is_full (th_queue s) \<and> \<not> th_stopped s then s else s\<lparr>th_producer := P_test e\<rparr>
      | P_test e \<Rightarrow> if is_full (th_queue s)
                     then s\<lparr>th_producer := P_accept, th_dropped := th_dropped s @ [e]\<rparr>
                     else s\<lparr>th_producer := P_store e\<rparr>
      | P_store e \<Rightarrow> s\<lparr>th_queue := (th_queue s)\<lparr>hq_ep := (hq_ep (th_queue s))[hq_head (th_queue s) := Some e]\<rparr>,
                       th_producer := P_advance e\<rparr>
      | P_advance e \<Rightarrow> s\<lparr>th_queue := (th_queue s)\<lparr>hq_head := (hq_head (th_queue s) + 1) mod HOST_QUEUE_MAX\<rparr>,
                         th_producer := P_accept, th_put := th_put s @ [e]\<rparr>)"

text \<open>One access of the consumer.\<close>

definition consume :: "'e threads \<Rightarrow> 'e threads" where
  "consume s =
     (let q = th_queue s in
      case th_consumer s of
        C_poll \<Rightarrow> if is_empty q then s else s\<lparr>th_consumer := C_slot\<rparr>
      | C_slot \<Rightarrow> (case hq_ep q ! hq_tail q of
                     None \<Rightarrow> s\<lparr>th_consumer := C_poll\<rparr>
                   | Some _ \<Rightarrow> s\<lparr>th_consumer := C_read\<rparr>)
      | C_read \<Rightarrow> (case hq_ep q ! hq_tail q of
                     None \<Rightarrow> s
                   | Some e \<Rightarrow> s\<lparr>th_consumer := C_clear e\<rparr>)
      | C_clear e \<Rightarrow> s\<lparr>th_queue := q\<lparr>hq_ep := (hq_ep q)[hq_tail q := None]\<rparr>, th_consumer := C_advance e\<rparr>
      | C_advance e \<Rightarrow> s\<lparr>th_queue := q\<lparr>hq_tail := (hq_tail q + 1) mod HOST_QUEUE_MAX\<rparr>,
                         th_consumer := C_poll, th_got := th_got s @ [e]\<rparr>)"

definition threads_start :: "'e threads" where
  "threads_start = \<lparr>th_queue = queue_zero, th_producer = P_accept, th_consumer = C_poll, th_stopped = False,
                    th_put = [], th_got = [], th_dropped = []\<rparr>"

text \<open>Any interleaving, and the signal that stops the program.\<close>

inductive run_threads :: "'e threads \<Rightarrow> bool" where
  start: "run_threads threads_start"
| produce: "run_threads s \<Longrightarrow> run_threads (produce e s)"
| consume: "run_threads s \<Longrightarrow> run_threads (consume s)"
| stop: "run_threads s \<Longrightarrow> run_threads (s\<lparr>th_stopped := True\<rparr>)"

section \<open>Contents\<close>

definition queue_ok :: "'e host_queue \<Rightarrow> bool" where
  "queue_ok q = (length (hq_ep q) = HOST_QUEUE_MAX \<and> hq_tail q < HOST_QUEUE_MAX \<and> hq_head q < HOST_QUEUE_MAX)"

definition pending :: "'e host_queue \<Rightarrow> 'e option list" where
  "pending q = take ((hq_head q + HOST_QUEUE_MAX - hq_tail q) mod HOST_QUEUE_MAX) (drop (hq_tail q) (hq_ep q @ hq_ep q))"

text \<open>The three slots, and the nine positions of the two indices.\<close>

lemma queue_cases:
  assumes "queue_ok q"
  obtains a b c t h where "q = \<lparr>hq_ep = [a, b, c], hq_tail = t, hq_head = h\<rparr>" "t \<in> {0, 1, 2}" "h \<in> {0, 1, 2}"
proof -
  obtain a b c where "hq_ep q = [a, b, c]"
    using assms by (auto simp: queue_ok_def HOST_QUEUE_MAX_def length_Suc_conv numeral_3_eq_3)
  moreover have "hq_tail q \<in> {0, 1, 2}" "hq_head q \<in> {0, 1, 2}"
    using assms by (auto simp: queue_ok_def HOST_QUEUE_MAX_def)
  ultimately show ?thesis using that by (cases q) auto
qed

lemmas ring_defs = pending_def is_full_def is_empty_def HOST_QUEUE_MAX_def

lemma pending_empty: "queue_ok q \<Longrightarrow> is_empty q \<longleftrightarrow> pending q = []"
  by (erule queue_cases) (auto simp: ring_defs)

lemma pending_full: "queue_ok q \<Longrightarrow> is_full q \<longleftrightarrow> length (pending q) = 2"
  by (erule queue_cases) (auto simp: ring_defs; presburger)

lemma pending_bound: "queue_ok q \<Longrightarrow> length (pending q) \<le> 2"
  by (erule queue_cases) (auto simp: ring_defs)

lemma pending_store:
  "queue_ok q \<Longrightarrow> \<not> is_full q \<Longrightarrow> pending (q\<lparr>hq_ep := (hq_ep q)[hq_head q := x]\<rparr>) = pending q"
  by (erule queue_cases) (auto simp: ring_defs)

lemma pending_advance_head:
  "queue_ok q \<Longrightarrow> \<not> is_full q \<Longrightarrow>
     pending (q\<lparr>hq_head := (hq_head q + 1) mod HOST_QUEUE_MAX\<rparr>) = pending q @ [hq_ep q ! hq_head q]"
  by (erule queue_cases) (auto simp: ring_defs)

lemma pending_tail:
  "queue_ok q \<Longrightarrow> pending q \<noteq> [] \<Longrightarrow> hq_ep q ! hq_tail q = hd (pending q)"
  by (erule queue_cases) (auto simp: ring_defs)

lemma pending_clear:
  "queue_ok q \<Longrightarrow> pending q \<noteq> [] \<Longrightarrow> pending (q\<lparr>hq_ep := (hq_ep q)[hq_tail q := x]\<rparr>) = x # tl (pending q)"
  by (erule queue_cases) (auto simp: ring_defs)

lemma pending_advance_tail:
  "queue_ok q \<Longrightarrow> pending q \<noteq> [] \<Longrightarrow> pending (q\<lparr>hq_tail := (hq_tail q + 1) mod HOST_QUEUE_MAX\<rparr>) = tl (pending q)"
  by (erule queue_cases) (auto simp: ring_defs)

lemma head_slot: "queue_ok q \<Longrightarrow> (hq_ep q)[hq_head q := x] ! hq_head q = x"
  by (simp add: queue_ok_def)

lemma clear_head_slot: "queue_ok q \<Longrightarrow> pending q \<noteq> [] \<Longrightarrow> (hq_ep q)[hq_tail q := x] ! hq_head q = hq_ep q ! hq_head q"
  by (erule queue_cases) (auto simp: ring_defs)

lemma queue_ok_upd:
  "queue_ok q \<Longrightarrow> queue_ok (q\<lparr>hq_ep := (hq_ep q)[i := x]\<rparr>)"
  "queue_ok q \<Longrightarrow> queue_ok (q\<lparr>hq_head := n mod HOST_QUEUE_MAX\<rparr>)"
  "queue_ok q \<Longrightarrow> queue_ok (q\<lparr>hq_tail := n mod HOST_QUEUE_MAX\<rparr>)"
  by (simp_all add: queue_ok_def HOST_QUEUE_MAX_def)

section \<open>The invariant of the threads\<close>

definition contents :: "'e threads \<Rightarrow> 'e option list" where
  "contents s = (case th_consumer s of C_advance e \<Rightarrow> Some e # tl (pending (th_queue s)) | _ \<Rightarrow> pending (th_queue s))"

definition consumer_ok :: "'e threads \<Rightarrow> bool" where
  "consumer_ok s =
     (case th_consumer s of
        C_poll \<Rightarrow> True
      | C_clear e \<Rightarrow> pending (th_queue s) \<noteq> [] \<and> hd (pending (th_queue s)) = Some e
      | _ \<Rightarrow> pending (th_queue s) \<noteq> [])"

definition producer_ok :: "'e threads \<Rightarrow> bool" where
  "producer_ok s =
     (case th_producer s of
        P_test e \<Rightarrow> is_full (th_queue s) \<longrightarrow> th_stopped s
      | P_store e \<Rightarrow> \<not> is_full (th_queue s)
      | P_advance e \<Rightarrow> \<not> is_full (th_queue s) \<and> hq_ep (th_queue s) ! hq_head (th_queue s) = Some e
      | _ \<Rightarrow> True)"

definition threads_inv :: "'e threads \<Rightarrow> bool" where
  "threads_inv s =
     (queue_ok (th_queue s) \<and> producer_ok s \<and> consumer_ok s \<and> map Some (th_put s) = map Some (th_got s) @ contents s \<and>
      (th_dropped s \<noteq> [] \<longrightarrow> th_stopped s))"

lemma consumed:
  assumes "queue_ok q" "pending q \<noteq> []"
  shows "\<not> is_full (q\<lparr>hq_tail := (hq_tail q + 1) mod HOST_QUEUE_MAX\<rparr>)"
    and "is_full (q\<lparr>hq_ep := eps\<rparr>) \<longleftrightarrow> is_full q"
proof -
  have "length (tl (pending q)) < 2" using pending_bound [OF assms(1)] assms(2) by (cases "pending q") auto
  then show "\<not> is_full (q\<lparr>hq_tail := (hq_tail q + 1) mod HOST_QUEUE_MAX\<rparr>)"
    using pending_full [OF queue_ok_upd(3) [OF assms(1), of "hq_tail q + 1"]] pending_advance_tail [OF assms] by simp
qed (simp add: is_full_def)

lemma consumer_irrelevant [simp]: "producer_ok (s\<lparr>th_consumer := c\<rparr>) = producer_ok s"
  by (simp add: producer_ok_def split: producer.split)

lemma producer_irrelevant [simp]:
  "consumer_ok (s\<lparr>th_producer := p\<rparr>) = consumer_ok s" "consumer_ok (s\<lparr>th_dropped := d\<rparr>) = consumer_ok s"
  "contents (s\<lparr>th_producer := p\<rparr>) = contents s" "contents (s\<lparr>th_dropped := d\<rparr>) = contents s"
  by (simp_all add: consumer_ok_def contents_def split: consumer.split)

lemma produce_inv:
  assumes "threads_inv s"
  shows "threads_inv (produce e s)"
proof -
  have q: "queue_ok (th_queue s)" using assms by (simp add: threads_inv_def)
  show ?thesis
  proof (cases "th_producer s")
    case (P_store x)
    then have "\<not> is_full (th_queue s)" using assms by (simp add: threads_inv_def producer_ok_def)
    then show ?thesis
      using assms P_store pending_store [OF q] queue_ok_upd(1) [OF q] head_slot [OF q]
      by (auto simp: threads_inv_def produce_def producer_ok_def consumer_ok_def contents_def is_full_def split: consumer.splits)
  next
    case (P_advance x)
    then have f: "\<not> is_full (th_queue s)" and h: "hq_ep (th_queue s) ! hq_head (th_queue s) = Some x"
      using assms by (simp_all add: threads_inv_def producer_ok_def)
    show ?thesis
      using assms P_advance h pending_advance_head [OF q f] queue_ok_upd(2) [OF q, of "Suc (hq_head (th_queue s))"]
      by (auto simp: threads_inv_def produce_def producer_ok_def consumer_ok_def contents_def split: consumer.splits)
  qed (use assms in \<open>auto simp: threads_inv_def produce_def producer_ok_def\<close>)
qed

lemma consume_inv:
  assumes "threads_inv s"
  shows "threads_inv (consume s)"
proof -
  let ?q = "th_queue s"
  have q: "queue_ok ?q" using assms by (simp add: threads_inv_def)
  have some: "hd (pending ?q) \<noteq> None" if "pending ?q \<noteq> []" "\<And>e. th_consumer s \<noteq> C_advance e"
  proof -
    have "pending ?q = contents s" using that by (simp add: contents_def split: consumer.split)
    then have "set (pending ?q) \<subseteq> set (map Some (th_put s))" using assms by (simp add: threads_inv_def)
    moreover have "hd (pending ?q) \<in> set (pending ?q)" using that(1) by simp
    ultimately show ?thesis by auto
  qed
  show ?thesis
  proof (cases "th_consumer s")
    case (C_clear e)
    then have p: "pending ?q \<noteq> []" "hd (pending ?q) = Some e" using assms by (simp_all add: threads_inv_def consumer_ok_def)
    then have "pending ?q = Some e # tl (pending ?q)" by (metis list.collapse)
    then show ?thesis
      using assms C_clear p(1) pending_clear [OF q p(1)] queue_ok_upd(1) [OF q] clear_head_slot [OF q p(1)] consumed(2) [OF q p(1)]
      by (auto simp: threads_inv_def consume_def producer_ok_def consumer_ok_def contents_def Let_def split: producer.splits)
  next
    case (C_advance e)
    then have p: "pending ?q \<noteq> []" using assms by (simp add: threads_inv_def consumer_ok_def)
    then show ?thesis
      using assms C_advance pending_advance_tail [OF q p] queue_ok_upd(3) [OF q, of "Suc (hq_tail ?q)"] consumed(1) [OF q p]
      by (auto simp: threads_inv_def consume_def producer_ok_def consumer_ok_def contents_def Let_def split: producer.splits)
  next
    case C_poll
    then show ?thesis
      using assms pending_empty [OF q]
      by (auto simp: threads_inv_def consume_def consumer_ok_def contents_def Let_def)
  next
    case C_slot
    then show ?thesis
      using assms by (auto simp: threads_inv_def consume_def consumer_ok_def contents_def Let_def split: option.split)
  next
    case C_read
    then have p: "pending ?q \<noteq> []" using assms by (simp add: threads_inv_def consumer_ok_def)
    then show ?thesis
      using assms C_read some pending_tail [OF q p]
      by (auto simp: threads_inv_def consume_def consumer_ok_def contents_def Let_def split: option.split)
  qed
qed

lemma threads_start_inv: "threads_inv threads_start"
  by (simp add: threads_inv_def threads_start_def queue_zero_def queue_ok_def HOST_QUEUE_MAX_def producer_ok_def
      consumer_ok_def contents_def pending_def)

lemma stop_inv: "threads_inv s \<Longrightarrow> threads_inv (s\<lparr>th_stopped := True\<rparr>)"
  by (auto simp: threads_inv_def producer_ok_def consumer_ok_def contents_def split: producer.splits consumer.splits)

lemma run_threads_inv: "run_threads s \<Longrightarrow> threads_inv s"
  by (induction rule: run_threads.induct) (simp_all add: threads_start_inv produce_inv consume_inv stop_inv)

section \<open>Properties\<close>

text \<open>
  C3. Whatever the interleaving of the two threads, the endpoints taken from the ring are a prefix of those
  put into it, at most two are waiting, and no endpoint is dropped before the program is stopped: without a
  lock nothing is lost, duplicated or reordered.
\<close>

theorem host_queue_fifo:
  assumes "run_threads s"
  shows "(\<exists>waiting. th_put s = th_got s @ waiting \<and> length waiting \<le> 2) \<and> (th_dropped s \<noteq> [] \<longrightarrow> th_stopped s)"
proof -
  have i: "threads_inv s" using assms by (rule run_threads_inv)
  then have "length (contents s) \<le> 2"
    using pending_bound [of "th_queue s"]
    by (auto simp: threads_inv_def contents_def consumer_ok_def split: consumer.splits)
  moreover have c: "map Some (th_put s) = map Some (th_got s) @ contents s" using i by (simp add: threads_inv_def)
  moreover have "th_put s = th_got s @ drop (length (th_got s)) (th_put s)"
  proof -
    have "map Some (take (length (th_got s)) (th_put s)) = map Some (th_got s)"
      using arg_cong [OF c, of "take (length (th_got s))"] by (simp add: take_map)
    then have "take (length (th_got s)) (th_put s) = th_got s" by (simp add: inj_map_eq_map)
    then show ?thesis by (metis append_take_drop_id)
  qed
  moreover have "length (th_put s) = length (th_got s) + length (contents s)" using arg_cong [OF c, of length] by simp
  ultimately have "\<exists>waiting. th_put s = th_got s @ waiting \<and> length waiting \<le> 2"
    by (intro exI [of _ "drop (length (th_got s)) (th_put s)"]) simp
  then show ?thesis using i by (simp add: threads_inv_def)
qed

definition demo_threads :: "nat threads" where
  "demo_threads = consume (consume (consume (produce 8 (consume (produce 8 (consume
     (produce 8 (produce 7 (produce 7 (produce 7 (produce 7 (produce 7 threads_start))))))))))))"

theorem host_queue_fifo_witness:
  "(\<exists>waiting. th_put demo_threads = th_got demo_threads @ waiting \<and> length waiting \<le> 2) \<and>
   th_got demo_threads = [7] \<and> th_dropped demo_threads = []"
proof (intro conjI)
  have "run_threads demo_threads" unfolding demo_threads_def by (intro run_threads.intros)
  then show "\<exists>waiting. th_put demo_threads = th_got demo_threads @ waiting \<and> length waiting \<le> 2"
    using host_queue_fifo by blast
  show "th_got demo_threads = [7]" by code_simp
  show "th_dropped demo_threads = []" by code_simp
qed

text \<open>
  C11. Called one after the other, the functions implement a queue of capacity two: adding appends or is refused
  when two endpoints wait, and getting takes the oldest one or reports an empty queue.
\<close>

theorem host_queue_refines:
  assumes "queue_ok q" "pending q = map Some es"
  shows "(case add_new_host_conn q e of (ret, q') \<Rightarrow>
            queue_ok q' \<and> ret = (if length es = 2 then -1 else 0) \<and> pending q' = map Some (if length es = 2 then es else es @ [e])) \<and>
         (case get_new_host_conn q of (ret, r, q') \<Rightarrow>
            queue_ok q' \<and> pending q' = map Some (tl es) \<and>
            (case es of [] \<Rightarrow> ret = -1 \<and> r = None | x # _ \<Rightarrow> ret = 0 \<and> r = Some x))" (is "?add \<and> ?get")
proof
  have full: "is_full q \<longleftrightarrow> length es = 2" using pending_full [OF assms(1)] assms(2) by simp
  let ?q = "q\<lparr>hq_ep := (hq_ep q)[hq_head q := Some e]\<rparr>"
  have "pending (?q\<lparr>hq_head := (hq_head ?q + 1) mod HOST_QUEUE_MAX\<rparr>) = pending q @ [Some e]" if "\<not> is_full q"
    using pending_advance_head [OF queue_ok_upd(1) [OF assms(1)]] pending_store [OF assms(1) that] that head_slot [OF assms(1)]
    by (simp add: is_full_def)
  then show ?add
    using full assms queue_ok_upd(1,2) [of _ "Suc (hq_head q)"]
    by (auto simp: add_new_host_conn_def Let_def queue_ok_upd)
  show ?get
  proof (cases es)
    case Nil
    then show ?thesis using assms pending_empty [OF assms(1)] by (simp add: get_new_host_conn_def)
  next
    case (Cons x xs)
    then have p: "pending q \<noteq> []" "hd (pending q) = Some x" using assms(2) by simp_all
    let ?r = "q\<lparr>hq_ep := (hq_ep q)[hq_tail q := None]\<rparr>"
    have "queue_ok ?r" "pending ?r = None # tl (pending q)"
      using queue_ok_upd(1) [OF assms(1)] pending_clear [OF assms(1) p(1)] by simp_all
    then show ?thesis
      using p pending_tail [OF assms(1) p(1)] pending_empty [OF assms(1)] pending_advance_tail [of ?r] assms(2) Cons
        queue_ok_upd(3) [of ?r "Suc (hq_tail q)"]
      by (simp add: get_new_host_conn_def Let_def)
  qed
qed

theorem host_queue_refines_witness:
  "pending (snd (add_new_host_conn (snd (add_new_host_conn queue_zero (7::nat))) 8)) = [Some 7, Some 8]"
proof -
  let ?q = "snd (add_new_host_conn queue_zero (7::nat))"
  have "queue_ok ?q" "pending ?q = map Some [7]" by code_simp+
  from host_queue_refines [OF this, of 8] show ?thesis by (simp add: split_beta)
qed

end
