(* ===== verification/Ep_Ops.thy ===== *)
theory Ep_Ops
  imports Restful
begin

text \<open>
  The endpoint manager (\<^verbatim>\<open>src/src/endpoint/\<close>) runs beside the targets and carries out what the discovery
  controller asks for. How is left to a table of operations, \<^verbatim>\<open>struct ops\<close> of \<^verbatim>\<open>common.h\<close>: one implementation
  writes the configuration file system of the kernel, the other calls the storage daemon of SPDK. This
  theory has the table, the state of the process, and the RESTful interface (\<^verbatim>\<open>restful.c\<close>).

  A name of this program that the controller uses too has the suffix \<open>_ep\<close>. An operation takes the state
  \<open>'s\<close> of its implementation and returns its code and the new state; a pointer that may be null is an option.
\<close>

section \<open>Data\<close>

record nsdev_ep =
  ed_devid :: int
  ed_nsid :: int

text \<open>\<^verbatim>\<open>struct portid\<close>, as the list of interfaces uses it.\<close>

record portid_ep =
  ei_type :: string
  ei_family :: string
  ei_address :: string

record 's ops =
  op_delete_subsys :: "string \<Rightarrow> 's \<Rightarrow> (int \<times> 's) exec"
  op_create_subsys :: "string \<Rightarrow> int \<Rightarrow> 's \<Rightarrow> (int \<times> 's) exec"
  op_create_ns :: "string \<Rightarrow> int \<Rightarrow> int \<Rightarrow> int \<Rightarrow> 's \<Rightarrow> (int \<times> 's) exec"
  op_delete_ns :: "string \<Rightarrow> int \<Rightarrow> 's \<Rightarrow> (int \<times> 's) exec"
  op_create_host :: "string option \<Rightarrow> 's \<Rightarrow> (int \<times> 's) exec"
  op_delete_host :: "string \<Rightarrow> 's \<Rightarrow> (int \<times> 's) exec"
  op_create_portid :: "int \<Rightarrow> string option \<Rightarrow> string option \<Rightarrow> int \<Rightarrow> string option \<Rightarrow> int \<Rightarrow> 's \<Rightarrow> (int \<times> 's) exec"
  op_delete_portid :: "int \<Rightarrow> 's \<Rightarrow> (int \<times> 's) exec"
  op_link_host_to_subsys :: "string \<Rightarrow> string option \<Rightarrow> 's \<Rightarrow> (int \<times> 's) exec"
  op_unlink_host_from_subsys :: "string \<Rightarrow> string \<Rightarrow> 's \<Rightarrow> (int \<times> 's) exec"
  op_link_port_to_subsys :: "string \<Rightarrow> int \<Rightarrow> 's \<Rightarrow> (int \<times> 's) exec"
  op_unlink_port_from_subsys :: "string \<Rightarrow> int \<Rightarrow> 's \<Rightarrow> (int \<times> 's) exec"
  op_enumerate_devices :: "nsdev_ep list \<Rightarrow> 's \<Rightarrow> (int \<times> nsdev_ep list \<times> 's) exec"
  op_reset_config :: "'s \<Rightarrow> 's exec"
  op_start_targets :: "portid_ep list \<Rightarrow> 's \<Rightarrow> (int \<times> 's) exec"
  op_stop_targets :: "'s \<Rightarrow> 's exec"

text \<open>The process: the state behind the operations, the lists made at the start and the flag that ends it.\<close>

record 's em =
  em_sys :: 's
  em_devices :: "nsdev_ep list"
  em_interfaces :: "portid_ep list"
  em_stopped :: bool

definition call_op :: "('s \<Rightarrow> (int \<times> 's) exec) \<Rightarrow> 's em \<Rightarrow> (int \<times> 's em) exec" where
  "call_op f s = exec_bind (f (em_sys s)) (\<lambda>(ret, y). Inr (ret, s\<lparr>em_sys := y\<rparr>))"

section \<open>Constants\<close>

definition MIN_PORTID :: int where "MIN_PORTID = 1"
definition MAX_PORTID :: int where "MAX_PORTID = 0xfffe"
definition BODY_SZ :: nat where "BODY_SZ = 1024"
definition HTTP_OK_ep :: int where "HTTP_OK_ep = 200"
definition HTTP_ERR_NOT_FOUND_ep :: int where "HTTP_ERR_NOT_FOUND_ep = 400"
definition HTTP_ERR_PAGE_NOT_FOUND_ep :: int where "HTTP_ERR_PAGE_NOT_FOUND_ep = 404"
definition HTTP_ERR_CONFLICT_ep :: int where "HTTP_ERR_CONFLICT_ep = 409"
definition HTTP_ERR_INTERNAL_ep :: int where "HTTP_ERR_INTERNAL_ep = 500"
definition HTTP_ERR_NOT_IMPLEMENTED_ep :: int where "HTTP_ERR_NOT_IMPLEMENTED_ep = 501"
definition TAG_TREQ :: string where "TAG_TREQ = ''TREQ''"

lemmas http_ep_defs = HTTP_OK_ep_def HTTP_ERR_NOT_FOUND_ep_def HTTP_ERR_PAGE_NOT_FOUND_ep_def
  HTTP_ERR_CONFLICT_ep_def HTTP_ERR_INTERNAL_ep_def HTTP_ERR_NOT_IMPLEMENTED_ep_def

section \<open>Helpers\<close>

definition http_error_ep :: "int \<Rightarrow> int" where
  "http_error_ep err =
     (if err = 0 then 0
      else if err = - ENOENT then HTTP_ERR_NOT_FOUND_ep
      else if err = - EEXIST then HTTP_ERR_CONFLICT_ep
      else HTTP_ERR_INTERNAL_ep)"

definition http_error_str :: "int \<Rightarrow> string" where
  "http_error_str err =
     (if err = HTTP_ERR_NOT_FOUND_ep then ''Bad Request''
      else if err = HTTP_ERR_CONFLICT_ep then ''Conflict''
      else if err = HTTP_ERR_PAGE_NOT_FOUND_ep then ''Not Found''
      else if err = HTTP_ERR_NOT_IMPLEMENTED_ep then ''Not Implemented''
      else ''Internal Server Error'')"

text \<open>A text printed into the response buffer, with the code the handler returns.\<close>

definition respond :: "'a \<Rightarrow> int \<Rightarrow> string \<Rightarrow> 'a outcome exec" where
  "respond s ret text = exec_bind (c_strcpy BODY_SZ (Some text)) (\<lambda>resp. Inr (s, ret, resp))"

definition bad_request_ep :: "'a \<Rightarrow> 'a outcome exec" where
  "bad_request_ep s = respond s HTTP_ERR_NOT_IMPLEMENTED_ep method_not_implemented"

text \<open>
  \<^verbatim>\<open>parse_uri\<close>: at most \<open>depth\<close> parts are stored, and one slash more ends the loop, so the array is not
  left; the result is one less than the number of slashes seen.
\<close>

definition parse_uri_ep :: "string \<Rightarrow> nat \<Rightarrow> int \<times> string list" where
  "parse_uri_ep p depth =
     (let parts = tl (split_slash p)
      in (int (min (length parts) (Suc depth)) - 1, take depth parts))"

section \<open>Reading\<close>

definition nsdev_text :: "nsdev_ep \<Rightarrow> string" where
  "nsdev_text d = ''{'' @ js_int TAG_DEVID (ed_devid d) @ '','' @ js_int TAG_DEVNSID (ed_nsid d) @ ''}''"

definition iface_text_ep :: "portid_ep \<Rightarrow> string" where
  "iface_text_ep i =
     ''{'' @ js_str TAG_TYPE (ei_type i) @ '','' @ js_str TAG_FAMILY (ei_family i) @ '','' @
     js_str TAG_ADDRESS (ei_address i) @ ''}''"

definition list_text_ep :: "string \<Rightarrow> string list \<Rightarrow> string" where
  "list_text_ep tag items = ''{ '' @ dquoted tag @ '': ['' @ comma_join items @ '']}''"

definition get_nsdev_ep :: "'s em \<Rightarrow> 's em outcome exec" where
  "get_nsdev_ep s = respond s 0 (list_text_ep TAG_NSDEVS (map nsdev_text (em_devices s)))"

definition get_interface :: "'s em \<Rightarrow> 's em outcome exec" where
  "get_interface s = respond s 0 (list_text_ep TAG_INTERFACES (map iface_text_ep (em_interfaces s)))"

definition get_request :: "string list \<Rightarrow> nat \<Rightarrow> 's em \<Rightarrow> 's em outcome exec" where
  "get_request p n s =
     (if n \<noteq> 1 then bad_request_ep s
      else if p ! 0 = URI_NSDEV then get_nsdev_ep s
      else if p ! 0 = URI_INTERFACE then get_interface s
      else bad_request_ep s)"

section \<open>Creating\<close>

text \<open>\<^verbatim>\<open>goto err\<close>\<close>

definition invalid_data :: "'a \<Rightarrow> 'a outcome exec" where
  "invalid_data s = respond s (http_error_ep (- EINVAL)) ''invalid data''"

text \<open>The body copied to a string and parsed; \<open>k\<close> is the rest of the handler.\<close>

definition load_body :: "'j jansson \<Rightarrow> string \<Rightarrow> 'a \<Rightarrow> ('j \<Rightarrow> 'a outcome exec) \<Rightarrow> 'a outcome exec" where
  "load_body J body s k =
     (case json_loads J (copy_body (length body) body) of
        None \<Rightarrow> respond s (http_error_ep (- EINVAL)) ''invalid json syntax''
      | Some new \<Rightarrow> k new)"

text \<open>An operation and the end of the handler: any error is reported as invalid data.\<close>

definition configure ::
  "('s \<Rightarrow> (int \<times> 's) exec) \<Rightarrow> string option \<Rightarrow> 's em \<Rightarrow> 's em outcome exec" where
  "configure f text s =
     exec_bind (call_op f s) (\<lambda>(ret, s).
       if ret \<noteq> 0 then invalid_data s
       else case text of None \<Rightarrow> Inl Null_deref | Some t \<Rightarrow> respond s 0 t)"

text \<open>\<^verbatim>\<open>json_integer_value(obj) ? 1 : 0\<close> where the member may be missing.\<close>

definition flag_member :: "'j jansson \<Rightarrow> 'j \<Rightarrow> string \<Rightarrow> int" where
  "flag_member J new tag =
     (case json_object_get J new tag of None \<Rightarrow> 0
      | Some obj \<Rightarrow> if json_integer_value J obj \<noteq> 0 then 1 else 0)"

definition post_portid ::
  "'j jansson \<Rightarrow> 's ops \<Rightarrow> string option \<Rightarrow> string \<Rightarrow> 's em \<Rightarrow> 's em outcome exec" where
  "post_portid J Ops port body s =
     (case port of
        None \<Rightarrow> Inl Null_deref
      | Some port \<Rightarrow>
          let portid = atoi port in
          if portid < MIN_PORTID \<or> portid > MAX_PORTID then invalid_data s
          else load_body J body s (\<lambda>new.
            case (json_object_get J new TAG_TYPE, json_object_get J new TAG_FAMILY,
                  json_object_get J new TAG_ADDRESS, json_object_get J new TAG_TRSVCID) of
              (Some typ, Some fam, Some addr, Some svcid) \<Rightarrow>
                configure
                  (op_create_portid Ops portid (json_string_value J fam) (json_string_value J typ)
                     (flag_member J new TAG_TREQ) (json_string_value J addr) (c_int (json_integer_value J svcid)))
                  (Some (''Configured portid '' @ show_int portid)) s
            | _ \<Rightarrow> invalid_data s))"

definition post_subsys ::
  "'j jansson \<Rightarrow> 's ops \<Rightarrow> string option \<Rightarrow> string \<Rightarrow> 's em \<Rightarrow> 's em outcome exec" where
  "post_subsys J Ops subsys body s =
     load_body J body s (\<lambda>new.
       let subsys = (case (json_object_get J new TAG_SUBNQN, subsys) of
                       (Some obj, None) \<Rightarrow> json_string_value J obj
                     | (_, q) \<Rightarrow> q)
       in case subsys of
            None \<Rightarrow> invalid_data s
          | Some nqn \<Rightarrow>
              configure (op_create_subsys Ops nqn (flag_member J new TAG_ALLOW_ANY))
                (Some (''Configured subsys '' @ nqn)) s)"

definition post_ns ::
  "'j jansson \<Rightarrow> 's ops \<Rightarrow> string \<Rightarrow> string option \<Rightarrow> string \<Rightarrow> 's em \<Rightarrow> 's em outcome exec" where
  "post_ns J Ops subsys ns body s =
     load_body J body s (\<lambda>new.
       let nsid = (case (json_object_get J new TAG_NSID, ns) of
                     (Some obj, None) \<Rightarrow> Some (c_int (json_integer_value J obj))
                   | (_, Some t) \<Rightarrow> Some (atoi t)
                   | (None, None) \<Rightarrow> None)
       in case (nsid, json_object_get J new TAG_DEVID) of
            (Some nsid, Some obj) \<Rightarrow>
              let devid = c_int (json_integer_value J obj);
                  devns = json_object_get J new TAG_DEVNSID
              in if devns = None \<and> devid \<noteq> NULL_BLK_DEVID then invalid_data s
                 else
                   configure
                     (op_create_ns Ops subsys nsid devid
                        (case devns of None \<Rightarrow> 0 | Some d \<Rightarrow> c_int (json_integer_value J d)))
                     (Some (''Configured nsid '' @ show_int nsid)) s
          | _ \<Rightarrow> invalid_data s)"

text \<open>\<^verbatim>\<open>post_request\<close> calls this without a host name, which is then read from the body.\<close>

definition post_host ::
  "'j jansson \<Rightarrow> 's ops \<Rightarrow> string option \<Rightarrow> string \<Rightarrow> 's em \<Rightarrow> 's em outcome exec" where
  "post_host J Ops host body s =
     (let create = (\<lambda>host. configure (op_create_host Ops host) (map_option (\<lambda>h. ''Configured host '' @ h) host) s)
      in case host of
           Some h \<Rightarrow> create (Some h)
         | None \<Rightarrow> load_body J body s (\<lambda>new.
             case json_object_get J new TAG_HOSTNQN of
               None \<Rightarrow> invalid_data s
             | Some obj \<Rightarrow> create (json_string_value J obj)))"

definition link_host_ep :: "'j jansson \<Rightarrow> 's ops \<Rightarrow> string \<Rightarrow> string \<Rightarrow> 's em \<Rightarrow> 's em outcome exec" where
  "link_host_ep J Ops subsys body s =
     load_body J body s (\<lambda>new.
       case json_object_get J new TAG_HOSTNQN of
         None \<Rightarrow> invalid_data s
       | Some obj \<Rightarrow>
           let host = json_string_value J obj
           in configure (op_link_host_to_subsys Ops subsys host)
                (map_option (\<lambda>h. ''Configured host '' @ h @ '' for subsys '' @ subsys) host) s)"

definition link_portid :: "'j jansson \<Rightarrow> 's ops \<Rightarrow> string \<Rightarrow> string \<Rightarrow> 's em \<Rightarrow> 's em outcome exec" where
  "link_portid J Ops subsys body s =
     load_body J body s (\<lambda>new.
       case json_object_get J new TAG_PORTID of
         None \<Rightarrow> invalid_data s
       | Some obj \<Rightarrow>
           let portid = c_int (json_integer_value J obj)
           in configure (op_link_port_to_subsys Ops subsys portid)
                (Some (''Enabled subsys '' @ subsys @ '' on portid '' @ show_int portid)) s)"

definition post_request ::
  "'j jansson \<Rightarrow> 's ops \<Rightarrow> string list \<Rightarrow> nat \<Rightarrow> string \<Rightarrow> 's em \<Rightarrow> 's em outcome exec" where
  "post_request J Ops p n body s =
     (if body = []
      then
        if n = 1 \<and> p ! 0 = METHOD_SHUTDOWN
        then respond (s\<lparr>em_stopped := True\<rparr>) 0 ''DEM Endpoint Config shutting down''
        else bad_request_ep s
      else if n = 1
      then
        if p ! 0 = URI_SUBSYSTEM then post_subsys J Ops None body s
        else if p ! 0 = URI_PORTID then post_portid J Ops None body s
        else if p ! 0 = URI_HOST then post_host J Ops None body s
        else bad_request_ep s
      else if n = 2
      then
        if p ! 0 = URI_SUBSYSTEM then post_subsys J Ops (Some (p ! 1)) body s
        else if p ! 0 = URI_PORTID then post_portid J Ops (Some (p ! 1)) body s
        else bad_request_ep s
      else if n = 3
      then
        if p ! 0 \<noteq> URI_SUBSYSTEM then bad_request_ep s
        else if p ! 2 = URI_NAMESPACE then post_ns J Ops (p ! 1) None body s
        else if p ! 2 = URI_HOST then link_host_ep J Ops (p ! 1) body s
        else if p ! 2 = URI_PORTID then link_portid J Ops (p ! 1) body s
        else bad_request_ep s
      else if n = 4
      then
        if p ! 0 \<noteq> URI_SUBSYSTEM then bad_request_ep s
        else if p ! 2 \<noteq> URI_NAMESPACE then bad_request_ep s
        else post_ns J Ops (p ! 1) (Some (p ! 3)) body s
      else bad_request_ep s)"

section \<open>Deleting\<close>

text \<open>The code of the operation is returned as it is, and becomes the status of the response.\<close>

definition remove_op ::
  "('s \<Rightarrow> (int \<times> 's) exec) \<Rightarrow> string \<Rightarrow> string \<Rightarrow> 's em \<Rightarrow> 's em outcome exec" where
  "remove_op f fail_text ok_text s =
     exec_bind (call_op f s) (\<lambda>(ret, s). respond s ret (if ret \<noteq> 0 then fail_text else ok_text))"

definition del_portid_ep :: "'s ops \<Rightarrow> string \<Rightarrow> 's em \<Rightarrow> 's em outcome exec" where
  "del_portid_ep Ops port =
     remove_op (op_delete_portid Ops (atoi port)) (''Unable to delete portid '' @ port) (''Deleted portid '' @ port)"

definition del_subsys_ep :: "'s ops \<Rightarrow> string \<Rightarrow> 's em \<Rightarrow> 's em outcome exec" where
  "del_subsys_ep Ops subsys =
     remove_op (op_delete_subsys Ops subsys) (''Unable to delete subsys '' @ subsys) (''Deleted subsys '' @ subsys)"

definition del_ns_ep :: "'s ops \<Rightarrow> string \<Rightarrow> string \<Rightarrow> 's em \<Rightarrow> 's em outcome exec" where
  "del_ns_ep Ops subsys ns =
     remove_op (op_delete_ns Ops subsys (atoi ns)) (''Unable to delete ns '' @ ns @ '' from subsys '' @ subsys)
       (''Deleted ns '' @ ns @ '' from subsys '' @ subsys)"

definition del_host_ep :: "'s ops \<Rightarrow> string \<Rightarrow> 's em \<Rightarrow> 's em outcome exec" where
  "del_host_ep Ops host =
     remove_op (op_delete_host Ops host) (''Unable to delete host '' @ host) (''Delete host '' @ host)"

definition unlink_host_ep :: "'s ops \<Rightarrow> string \<Rightarrow> string \<Rightarrow> 's em \<Rightarrow> 's em outcome exec" where
  "unlink_host_ep Ops subsys host =
     remove_op (op_unlink_host_from_subsys Ops subsys host)
       (''Unable to delete host '' @ host @ '' from subsys '' @ subsys)
       (''Deleted host '' @ host @ '' from subsys '' @ subsys)"

definition unlink_portid :: "'s ops \<Rightarrow> string \<Rightarrow> string \<Rightarrow> 's em \<Rightarrow> 's em outcome exec" where
  "unlink_portid Ops subsys portid =
     remove_op (op_unlink_port_from_subsys Ops subsys (atoi portid))
       (''Unable to delete port '' @ portid @ '' from subsys '' @ subsys)
       (''Deleted port '' @ portid @ '' from subsys '' @ subsys)"

definition delete_request :: "'s ops \<Rightarrow> string list \<Rightarrow> nat \<Rightarrow> 's em \<Rightarrow> 's em outcome exec" where
  "delete_request Ops p n s =
     (if n = 1 \<and> p ! 0 = URI_CONFIG
      then exec_bind (op_reset_config Ops (em_sys s)) (\<lambda>y.
             respond (s\<lparr>em_sys := y\<rparr>) 0 ''Target configuration deleted'')
      else if n = 2
      then
        if p ! 0 = URI_SUBSYSTEM then del_subsys_ep Ops (p ! 1) s
        else if p ! 0 = URI_PORTID then del_portid_ep Ops (p ! 1) s
        else if p ! 0 = URI_HOST then del_host_ep Ops (p ! 1) s
        else bad_request_ep s
      else if n = 4
      then
        if p ! 0 \<noteq> URI_SUBSYSTEM then bad_request_ep s
        else if p ! 2 = URI_NAMESPACE then del_ns_ep Ops (p ! 1) (p ! 3) s
        else if p ! 2 = URI_PORTID then unlink_portid Ops (p ! 1) (p ! 3) s
        else if p ! 2 = URI_HOST then unlink_host_ep Ops (p ! 1) (p ! 3) s
        else bad_request_ep s
      else bad_request_ep s)"

section \<open>Requests\<close>

definition handle_target_requests_ep ::
  "'j jansson \<Rightarrow> 's ops \<Rightarrow> string list \<Rightarrow> nat \<Rightarrow> http_message \<Rightarrow> 's em \<Rightarrow> 's em outcome exec" where
  "handle_target_requests_ep J Ops p n hm s =
     (if hm_method hm = ''GET'' then get_request p n s
      else if hm_method hm = ''POST'' then post_request J Ops p n (hm_body hm) s
      else if hm_method hm = ''DELETE'' then delete_request Ops p n s
      else bad_request_ep s)"

text \<open>The state, the status and the text of the response; without a URI there is no text.\<close>

definition handle_http_request_ep ::
  "'j jansson \<Rightarrow> 's ops \<Rightarrow> http_message \<Rightarrow> 's em \<Rightarrow> ('s em \<times> int \<times> string option) exec" where
  "handle_http_request_ep J Ops hm s =
     (if hm_uri hm = [] then Inr (s, HTTP_ERR_PAGE_NOT_FOUND_ep, None)
      else
        exec_bind
          (case parse_uri_ep (hm_uri hm) MAX_DEPTH of (n, parts) \<Rightarrow>
             if n < 0 then respond s HTTP_ERR_PAGE_NOT_FOUND_ep (''Bad page '' @ hm_uri hm)
             else handle_target_requests_ep J Ops parts (nat (n + 1)) hm s)
          (\<lambda>(s, ret, resp). Inr (s, ret, Some resp)))"

definition http_reply_ep :: "int \<Rightarrow> string option \<Rightarrow> string" where
  "http_reply_ep ret resp =
     (let nl = [CHR 0x0D, CHR 0x0A] in
      (if ret = 0 then ''HTTP/1.1 '' @ show_int HTTP_OK_ep @ '' OK''
       else ''HTTP/1.1 '' @ show_int ret @ '' '' @ http_error_str ret) @
      nl @ ''Content-Type: plain/text'' @
      (case resp of
         Some r \<Rightarrow> nl @ ''Content-Length: '' @ show_int (int (length r)) @ nl @ nl @ r @ nl @ nl
       | None \<Rightarrow> nl @ ''Content-Length: 14'' @ nl @ nl @ ''Internal Error'' @ nl @ nl))"

end
