(* ===== verification/Ep_Configfs.thy ===== *)
theory Ep_Configfs
  imports Ep_Ops Parse
begin

text \<open>
  The operations on the configuration file system of the kernel (\<^verbatim>\<open>src/src/endpoint/configfs.c\<close>).

  The process has a working directory, which the operations change and set back; a path is resolved
  against it, component by component. The kernel is a parameter: a record of what the system calls do
  at an absolute path, over a state \<open>'k\<close>; a call returns 0 or an error number. A directory is read as it was
  when it was opened. The paths of the program do not lead through symbolic links.
\<close>

section \<open>Paths and system calls\<close>

type_synonym path = "string list"

definition path_step :: "path \<Rightarrow> string \<Rightarrow> path" where
  "path_step q c = (if c = [] \<or> c = ''.'' then q else if c = ''..'' then butlast q else q @ [c])"

definition resolve :: "path \<Rightarrow> string \<Rightarrow> path" where
  "resolve cwd p = foldl path_step (if take 1 p = ''/'' then [] else cwd) (split_slash p)"

text \<open>The text \<^verbatim>\<open>getcwd\<close> gives for a directory.\<close>

definition path_text :: "path \<Rightarrow> string" where
  "path_text q = (if q = [] then ''/'' else join_uri q)"

record 'k kernel =
  fs_dir :: "path \<Rightarrow> 'k \<Rightarrow> int"
  fs_entries :: "path \<Rightarrow> 'k \<Rightarrow> string list"
  fs_mkdir :: "path \<Rightarrow> 'k \<Rightarrow> int \<times> 'k"
  fs_rmdir :: "path \<Rightarrow> 'k \<Rightarrow> int \<times> 'k"
  fs_remove :: "path \<Rightarrow> 'k \<Rightarrow> int \<times> 'k"
  fs_symlink :: "path \<Rightarrow> path \<Rightarrow> 'k \<Rightarrow> int \<times> 'k"
  fs_opens :: "path \<Rightarrow> 'k \<Rightarrow> bool"
  fs_write :: "path \<Rightarrow> string \<Rightarrow> 'k \<Rightarrow> 'k"
  fs_read :: "path \<Rightarrow> 'k \<Rightarrow> string option"
  fs_access :: "path \<Rightarrow> 'k \<Rightarrow> int"
  fs_system :: "string \<Rightarrow> 'k \<Rightarrow> int \<times> 'k"

record 'k proc =
  pr_cwd :: path
  pr_fs :: 'k

text \<open>A call on a path; the empty text names nothing.\<close>

definition at_path :: "(path \<Rightarrow> 'k \<Rightarrow> int \<times> 'k) \<Rightarrow> string \<Rightarrow> 'k proc \<Rightarrow> int \<times> 'k proc" where
  "at_path f p s =
     (if p = [] then (ENOENT, s)
      else case f (resolve (pr_cwd s) p) (pr_fs s) of (e, k) \<Rightarrow> (e, s\<lparr>pr_fs := k\<rparr>))"

definition chdir :: "'k kernel \<Rightarrow> string \<Rightarrow> 'k proc \<Rightarrow> int \<times> 'k proc" where
  "chdir K p s =
     (let q = resolve (pr_cwd s) p in
      if p = [] then (ENOENT, s)
      else if fs_dir K q (pr_fs s) = 0 then (0, s\<lparr>pr_cwd := q\<rparr>)
      else (fs_dir K q (pr_fs s), s))"

definition mkdir :: "'k kernel \<Rightarrow> string \<Rightarrow> 'k proc \<Rightarrow> int \<times> 'k proc" where
  "mkdir K = at_path (fs_mkdir K)"

definition rmdir :: "'k kernel \<Rightarrow> string \<Rightarrow> 'k proc \<Rightarrow> int \<times> 'k proc" where
  "rmdir K = at_path (fs_rmdir K)"

definition remove_path :: "'k kernel \<Rightarrow> string \<Rightarrow> 'k proc \<Rightarrow> int \<times> 'k proc" where
  "remove_path K = at_path (fs_remove K)"

definition symlink :: "'k kernel \<Rightarrow> string \<Rightarrow> string \<Rightarrow> 'k proc \<Rightarrow> int \<times> 'k proc" where
  "symlink K old = at_path (fs_symlink K (resolve [] old))"

text \<open>\<^verbatim>\<open>opendir\<close> with the names \<^verbatim>\<open>for_each_dir\<close> goes through, or the error number.\<close>

definition opendir :: "'k kernel \<Rightarrow> string \<Rightarrow> 'k proc \<Rightarrow> int + string list" where
  "opendir K p s =
     (let q = resolve (pr_cwd s) p in
      if p = [] then Inl ENOENT
      else if fs_dir K q (pr_fs s) = 0
      then Inr (filter (\<lambda>n. n \<noteq> ''.'' \<and> n \<noteq> ''..'') (fs_entries K q (pr_fs s)))
      else Inl (fs_dir K q (pr_fs s)))"

section \<open>Constants and macros\<close>

definition EBUSY :: int where "EBUSY = 16"

definition CFS_PATH :: string where "CFS_PATH = ''/sys/kernel/config/nvmet/''"
definition CFS_SUBSYS :: string where "CFS_SUBSYS = ''subsystems/''"
definition CFS_NS :: string where "CFS_NS = ''namespaces/''"
definition CFS_DEV_PATH :: string where "CFS_DEV_PATH = ''device_path''"
definition CFS_ALLOW_ANY :: string where "CFS_ALLOW_ANY = ''attr_allow_any_host''"
definition CFS_ENABLE :: string where "CFS_ENABLE = ''enable''"
definition CFS_PORTS :: string where "CFS_PORTS = ''ports/''"
definition CFS_TR_ADRFAM :: string where "CFS_TR_ADRFAM = ''addr_adrfam''"
definition CFS_TR_TYPE :: string where "CFS_TR_TYPE = ''addr_trtype''"
definition CFS_TREQ :: string where "CFS_TREQ = ''addr_treq''"
definition CFS_TR_ADDR :: string where "CFS_TR_ADDR = ''addr_traddr''"
definition CFS_TR_SVCID :: string where "CFS_TR_SVCID = ''addr_trsvcid''"
definition CFS_HOSTS :: string where "CFS_HOSTS = ''hosts/''"
definition CFS_ALLOWED :: string where "CFS_ALLOWED = ''allowed_hosts/''"
definition SYSFS_PATH :: string where "SYSFS_PATH = ''/sys/class/nvme''"
definition SYSFS_PREFIX :: string where "SYSFS_PREFIX = ''nvme''"
definition SYSFS_TRANSPORT :: string where "SYSFS_TRANSPORT = ''transport''"
definition SYSFS_PCIE :: string where "SYSFS_PCIE = ''pcie''"
definition NULL_BLK_DEVICE :: string where "NULL_BLK_DEVICE = ''/dev/nullb0''"
definition REQUIRED :: string where "REQUIRED = ''required''"
definition NOT_REQUIRED :: string where "NOT_REQUIRED = ''not required''"
definition NOT_SPECIFIED :: string where "NOT_SPECIFIED = ''not specified''"
definition MAXPATHLEN :: nat where "MAXPATHLEN = 512"
definition MAXSTRLEN :: nat where "MAXSTRLEN = 64"

lemmas cfs_defs = CFS_PATH_def CFS_SUBSYS_def CFS_NS_def CFS_DEV_PATH_def CFS_ALLOW_ANY_def CFS_ENABLE_def
  CFS_PORTS_def CFS_TR_ADRFAM_def CFS_TR_TYPE_def CFS_TREQ_def CFS_TR_ADDR_def CFS_TR_SVCID_def CFS_HOSTS_def
  CFS_ALLOWED_def

definition NVME_DEVICE :: "int \<Rightarrow> int \<Rightarrow> string" where
  "NVME_DEVICE devid nsid = ''/dev/nvme'' @ show_int devid @ ''n'' @ show_int nsid"

text \<open>A path printed into an array of \<^verbatim>\<open>MAXPATHLEN\<close> bytes.\<close>

definition path_buf :: "string \<Rightarrow> string exec" where
  "path_buf t = c_strcpy MAXPATHLEN (Some t)"

text \<open>\<^verbatim>\<open>fputs\<close> of a null pointer is reached only when the file opens.\<close>

definition write_str :: "'k kernel \<Rightarrow> string \<Rightarrow> string option \<Rightarrow> 'k proc \<Rightarrow> 'k proc exec" where
  "write_str K fn v s =
     (let q = resolve (pr_cwd s) fn in
      if fs_opens K q (pr_fs s)
      then case v of None \<Rightarrow> Inl Null_deref | Some t \<Rightarrow> Inr (s\<lparr>pr_fs := fs_write K q t (pr_fs s)\<rparr>)
      else Inr s)"

definition write_chr :: "'k kernel \<Rightarrow> string \<Rightarrow> char \<Rightarrow> 'k proc \<Rightarrow> 'k proc exec" where
  "write_chr K fn c = write_str K fn (Some [c])"

definition TRUE_chr :: char where "TRUE_chr = CHR ''1''"
definition FALSE_chr :: char where "FALSE_chr = CHR ''0''"

definition read_str :: "'k kernel \<Rightarrow> string \<Rightarrow> 'k proc \<Rightarrow> string" where
  "read_str K fn s =
     (case fs_read K (resolve (pr_cwd s) fn) (pr_fs s) of
        None \<Rightarrow> []
      | Some t \<Rightarrow> takeWhile (\<lambda>c. c \<noteq> CHR 0x0A) (take (MAXSTRLEN - 2) t))"

text \<open>\<^verbatim>\<open>snprintf(str, sizeof(str) - 1, "%d", n)\<close> with \<^verbatim>\<open>char str[8]\<close>\<close>

definition num_str :: "int \<Rightarrow> string" where
  "num_str n = take 6 (show_int n)"

text \<open>\<^verbatim>\<open>getcwd(dir, sizeof(dir))\<close>, which leaves the array alone when the text does not fit, and \<^verbatim>\<open>chdir(dir)\<close>.\<close>

definition getcwd :: "'k proc \<Rightarrow> string option" where
  "getcwd s = (let t = path_text (pr_cwd s) in if length t < MAXPATHLEN then Some t else None)"

definition go_back :: "'k kernel \<Rightarrow> string option \<Rightarrow> 'k proc \<Rightarrow> 'k proc exec" where
  "go_back K dir s = (case dir of None \<Rightarrow> Inl Uninitialised | Some d \<Rightarrow> Inr (snd (chdir K d s)))"

text \<open>The end of an operation: back to the directory it came from, with its code.\<close>

definition leave :: "'k kernel \<Rightarrow> string option \<Rightarrow> int \<Rightarrow> 'k proc \<Rightarrow> (int \<times> 'k proc) exec" where
  "leave K dir ret s = exec_bind (go_back K dir s) (\<lambda>s. Inr (ret, s))"

section \<open>Subsystems\<close>

definition delete_all_allowed_hosts :: "'k kernel \<Rightarrow> 'k proc \<Rightarrow> 'k proc exec" where
  "delete_all_allowed_hosts K s =
     (case opendir K CFS_ALLOWED s of
        Inl _ \<Rightarrow> Inr s
      | Inr names \<Rightarrow>
          each (\<lambda>n s. exec_bind (path_buf (CFS_ALLOWED @ n)) (\<lambda>path. Inr (snd (remove_path K path s)))) names s)"

definition delete_all_ns :: "'k kernel \<Rightarrow> 'k proc \<Rightarrow> 'k proc exec" where
  "delete_all_ns K s =
     (case opendir K CFS_NS s of
        Inl _ \<Rightarrow> Inr s
      | Inr names \<Rightarrow>
          each (\<lambda>n s.
            exec_bind (path_buf (CFS_NS @ n)) (\<lambda>path.
            exec_bind (write_chr K CFS_ENABLE FALSE_chr (snd (chdir K path s))) (\<lambda>s.
            Inr (snd (rmdir K path (snd (chdir K ''../..'' s))))))) names s)"

definition unlink_port :: "'k kernel \<Rightarrow> string \<Rightarrow> string \<Rightarrow> 'k proc \<Rightarrow> 'k proc exec" where
  "unlink_port K subsys port s =
     exec_bind (path_buf (CFS_PORTS @ port @ ''/'' @ CFS_SUBSYS)) (\<lambda>path.
       case opendir K path s of
         Inl _ \<Rightarrow> Inr s
       | Inr names \<Rightarrow>
           each (\<lambda>n s.
             if n = subsys
             then exec_bind (path_buf (CFS_PORTS @ port @ ''/'' @ CFS_SUBSYS @ subsys)) (\<lambda>path.
                    Inr (snd (remove_path K path s)))
             else Inr s) names s)"

definition unlink_all_ports :: "'k kernel \<Rightarrow> string \<Rightarrow> 'k proc \<Rightarrow> 'k proc exec" where
  "unlink_all_ports K subsys s =
     (let s = snd (chdir K CFS_PATH s) in
      case opendir K CFS_PORTS s of
        Inl _ \<Rightarrow> Inr s
      | Inr ports \<Rightarrow> each (unlink_port K subsys) ports s)"

definition cfgfs_delete_subsys :: "'k kernel \<Rightarrow> string \<Rightarrow> 'k proc \<Rightarrow> (int \<times> 'k proc) exec" where
  "cfgfs_delete_subsys K subsys s =
     (let dir = getcwd s in
      exec_bind (path_buf (CFS_PATH @ CFS_SUBSYS @ subsys)) (\<lambda>path.
      case chdir K path s of (ret, s) \<Rightarrow>
        if ret \<noteq> 0 then Inr (0, s)
        else
          exec_bind (delete_all_allowed_hosts K s) (\<lambda>s.
          exec_bind (delete_all_ns K s) (\<lambda>s.
          exec_bind (unlink_all_ports K subsys s) (\<lambda>s.
          let s = snd (chdir K (CFS_PATH @ CFS_SUBSYS) s);
              s = snd (rmdir K subsys s)
          in leave K dir 0 s)))))"

definition cfgfs_create_subsys :: "'k kernel \<Rightarrow> string \<Rightarrow> int \<Rightarrow> 'k proc \<Rightarrow> (int \<times> 'k proc) exec" where
  "cfgfs_create_subsys K subsys allowany s =
     (let dir = getcwd s in
      case chdir K (CFS_PATH @ CFS_SUBSYS) s of (ret, s) \<Rightarrow>
        if ret \<noteq> 0 then Inr (- ret, s)
        else case mkdir K subsys s of (err, s) \<Rightarrow>
          if err \<noteq> 0 \<and> err \<noteq> EEXIST then leave K dir (- err) s
          else
            exec_bind
              (write_chr K CFS_ALLOW_ANY (if allowany \<noteq> 0 then TRUE_chr else FALSE_chr) (snd (chdir K subsys s)))
              (leave K dir 0))"

section \<open>Namespaces\<close>

definition cfgfs_create_ns ::
  "'k kernel \<Rightarrow> string \<Rightarrow> int \<Rightarrow> int \<Rightarrow> int \<Rightarrow> 'k proc \<Rightarrow> (int \<times> 'k proc) exec" where
  "cfgfs_create_ns K subsys nsid devid devnsid s =
     (let dir = getcwd s in
      case chdir K (CFS_PATH @ CFS_SUBSYS) s of (ret, s) \<Rightarrow>
        if ret \<noteq> 0 then Inr (- ret, s)
        else
          exec_bind (path_buf (subsys @ ''/'' @ CFS_NS @ show_int nsid)) (\<lambda>path.
          case mkdir K path s of (err, s) \<Rightarrow>
            if err \<noteq> 0 \<and> err \<noteq> EEXIST then leave K dir (- err) s
            else
              exec_bind
                (write_str K CFS_DEV_PATH
                   (Some (if devid = NULL_BLK_DEVID then NULL_BLK_DEVICE else NVME_DEVICE devid devnsid))
                   (snd (chdir K path s))) (\<lambda>s.
              exec_bind (write_chr K CFS_ENABLE TRUE_chr s) (leave K dir 0))))"

definition cfgfs_delete_ns :: "'k kernel \<Rightarrow> string \<Rightarrow> int \<Rightarrow> 'k proc \<Rightarrow> (int \<times> 'k proc) exec" where
  "cfgfs_delete_ns K subsys nsid s =
     (let dir = getcwd s in
      case chdir K (CFS_PATH @ CFS_SUBSYS) s of (ret, s) \<Rightarrow>
        if ret \<noteq> 0 then Inr (0, s)
        else
          exec_bind (path_buf (subsys @ ''/'' @ CFS_NS @ show_int nsid)) (\<lambda>path.
          case chdir K path s of (ret, s) \<Rightarrow>
            if ret \<noteq> 0 then leave K dir 0 s
            else
              exec_bind (write_chr K CFS_ENABLE FALSE_chr s) (\<lambda>s.
                leave K dir 0 (snd (rmdir K path (snd (chdir K ''../../..'' s)))))))"

section \<open>Hosts\<close>

text \<open>\<^verbatim>\<open>mkdir\<close> of a null pointer fails with \<^verbatim>\<open>EFAULT\<close>.\<close>

definition cfgfs_create_host :: "'k kernel \<Rightarrow> string option \<Rightarrow> 'k proc \<Rightarrow> (int \<times> 'k proc) exec" where
  "cfgfs_create_host K host s =
     (let dir = getcwd s in
      case chdir K (CFS_PATH @ CFS_HOSTS) s of (ret, s) \<Rightarrow>
        if ret \<noteq> 0 then Inr (- ret, s)
        else case (case host of None \<Rightarrow> (EFAULT, s) | Some h \<Rightarrow> mkdir K h s) of (err, s) \<Rightarrow>
          leave K dir (if err = 0 \<or> err = EEXIST then 0 else - err) s)"

definition cfgfs_delete_host :: "'k kernel \<Rightarrow> string \<Rightarrow> 'k proc \<Rightarrow> (int \<times> 'k proc) exec" where
  "cfgfs_delete_host K host s =
     (let dir = getcwd s in
      case chdir K (CFS_PATH @ CFS_HOSTS) s of (ret, s) \<Rightarrow>
        if ret \<noteq> 0 then Inr (0, s)
        else leave K dir 0 (snd (rmdir K host s)))"

section \<open>Ports\<close>

definition NVMF_TREQ_REQUIRED :: int where "NVMF_TREQ_REQUIRED = 1"

text \<open>The text of a requirement (\<^verbatim>\<open>NVMF_TREQ_NOT_REQUIRED\<close> is 2).\<close>

definition treq_text :: "int \<Rightarrow> string" where
  "treq_text req =
     (if req = NVMF_TREQ_REQUIRED then REQUIRED else if req = 2 then NOT_REQUIRED else NOT_SPECIFIED)"

text \<open>\<^verbatim>\<open>strcmp(val, s)\<close>: whether the texts are the same.\<close>

definition same_str :: "string \<Rightarrow> string option \<Rightarrow> bool exec" where
  "same_str val v = (case v of None \<Rightarrow> Inl Null_deref | Some t \<Rightarrow> Inr (val = t))"

text \<open>The attributes of a port that existed before are read back, in this order, up to the first that differs.\<close>

fun same_attrs :: "'k kernel \<Rightarrow> (string \<times> string option) list \<Rightarrow> 'k proc \<Rightarrow> bool exec" where
  "same_attrs K [] s = Inr True"
| "same_attrs K ((fn, v) # as) s =
     exec_bind (same_str (read_str K fn s) v) (\<lambda>same. if same then same_attrs K as s else Inr False)"

definition port_attrs ::
  "string option \<Rightarrow> string option \<Rightarrow> int \<Rightarrow> string option \<Rightarrow> int \<Rightarrow> (string \<times> string option) list" where
  "port_attrs fam typ req addr svcid =
     [(CFS_TR_ADRFAM, fam), (CFS_TR_TYPE, typ), (CFS_TR_ADDR, addr), (CFS_TREQ, Some (treq_text req)),
      (CFS_TR_SVCID, Some (num_str svcid))]"

definition cfgfs_create_portid ::
  "'k kernel \<Rightarrow> int \<Rightarrow> string option \<Rightarrow> string option \<Rightarrow> int \<Rightarrow> string option \<Rightarrow> int \<Rightarrow> 'k proc \<Rightarrow>
     (int \<times> 'k proc) exec" where
  "cfgfs_create_portid K portid fam typ req addr svcid s =
     (let dir = getcwd s;
          attrs = port_attrs fam typ req addr svcid
      in
      case chdir K (CFS_PATH @ CFS_PORTS) s of (ret, s) \<Rightarrow>
        if ret \<noteq> 0 then Inr (- ret, s)
        else case mkdir K (num_str portid) s of (err, s) \<Rightarrow>
          if err \<noteq> 0 \<and> err \<noteq> EEXIST then leave K dir (- err) s
          else
            exec_bind (each (\<lambda>(fn, v). write_str K fn v) attrs (snd (chdir K (num_str portid) s))) (\<lambda>s.
              if err = 0 then leave K dir 0 s
              else exec_bind (same_attrs K attrs s) (\<lambda>same. leave K dir (if same then 0 else - EBUSY) s)))"

text \<open>The path made by \<^verbatim>\<open>snprintf\<close> ends with a slash, and another one is put in front of the name.\<close>

definition cfgfs_delete_portid :: "'k kernel \<Rightarrow> int \<Rightarrow> 'k proc \<Rightarrow> (int \<times> 'k proc) exec" where
  "cfgfs_delete_portid K portid s =
     (let dir = getcwd s in
      case chdir K (CFS_PATH @ CFS_PORTS) s of (ret, s) \<Rightarrow>
        if ret \<noteq> 0 then Inr (0, s)
        else
          let path = show_int portid @ ''/'' @ CFS_SUBSYS in
          case opendir K path s of
            Inl _ \<Rightarrow> leave K dir 0 s
          | Inr names \<Rightarrow>
              exec_bind
                (each (\<lambda>n s. exec_bind (path_buf (path @ ''/'' @ n)) (\<lambda>p. Inr (snd (remove_path K p s)))) names s)
                (\<lambda>s. leave K dir 0 (snd (rmdir K (show_int portid) s))))"

section \<open>Links\<close>

text \<open>\<^verbatim>\<open>%s\<close> of a null pointer.\<close>

definition with_name :: "string option \<Rightarrow> (string \<Rightarrow> 'a exec) \<Rightarrow> 'a exec" where
  "with_name v k = (case v of None \<Rightarrow> Inl Null_deref | Some t \<Rightarrow> k t)"

definition cfgfs_link_host_to_subsys :: "'k kernel \<Rightarrow> string \<Rightarrow> string option \<Rightarrow> 'k proc \<Rightarrow> (int \<times> 'k proc) exec" where
  "cfgfs_link_host_to_subsys K subsys host s =
     (let dir = getcwd s in
      case chdir K (CFS_PATH @ CFS_SUBSYS) s of (ret, s) \<Rightarrow>
        if ret \<noteq> 0 then Inr (- ret, s)
        else with_name host (\<lambda>host.
          exec_bind (path_buf (CFS_PATH @ CFS_HOSTS @ host)) (\<lambda>path.
          exec_bind (path_buf (subsys @ ''/'' @ CFS_ALLOWED @ host)) (\<lambda>link.
          case symlink K path link s of (err, s) \<Rightarrow> leave K dir (if err = 0 \<or> err = EEXIST then 0 else - err) s))))"

definition cfgfs_unlink_host_from_subsys :: "'k kernel \<Rightarrow> string \<Rightarrow> string \<Rightarrow> 'k proc \<Rightarrow> (int \<times> 'k proc) exec" where
  "cfgfs_unlink_host_from_subsys K subsys host s =
     (let dir = getcwd s in
      case chdir K (CFS_PATH @ CFS_SUBSYS) s of (ret, s) \<Rightarrow>
        if ret \<noteq> 0 then Inr (- ret, s)
        else exec_bind (path_buf (subsys @ ''/'' @ CFS_ALLOWED @ host)) (\<lambda>path.
          case remove_path K path s of (err, s) \<Rightarrow> leave K dir (if err = 0 \<or> err = ENOENT then 0 else - err) s))"

definition cfgfs_link_port_to_subsys :: "'k kernel \<Rightarrow> string \<Rightarrow> int \<Rightarrow> 'k proc \<Rightarrow> (int \<times> 'k proc) exec" where
  "cfgfs_link_port_to_subsys K subsys portid s =
     (let dir = getcwd s in
      case chdir K (CFS_PATH @ CFS_PORTS) s of (ret, s) \<Rightarrow>
        if ret \<noteq> 0 then Inr (- ret, s)
        else
          exec_bind (path_buf (CFS_PATH @ CFS_SUBSYS @ subsys)) (\<lambda>path.
          exec_bind (path_buf (show_int portid @ ''/'' @ CFS_SUBSYS @ subsys)) (\<lambda>link.
          case symlink K path link s of (err, s) \<Rightarrow> leave K dir (if err = 0 \<or> err = EEXIST then 0 else - err) s)))"

definition cfgfs_unlink_port_from_subsys :: "'k kernel \<Rightarrow> string \<Rightarrow> int \<Rightarrow> 'k proc \<Rightarrow> (int \<times> 'k proc) exec" where
  "cfgfs_unlink_port_from_subsys K subsys portid s =
     (let dir = getcwd s in
      case chdir K (CFS_PATH @ CFS_PORTS) s of (ret, s) \<Rightarrow>
        if ret \<noteq> 0 then Inr (- ret, s)
        else exec_bind (path_buf (show_int portid @ ''/'' @ CFS_SUBSYS @ subsys)) (\<lambda>path.
          case remove_path K path s of (err, s) \<Rightarrow> leave K dir (if err = 0 \<or> err = ENOENT then 0 else - err) s))"

section \<open>The whole configuration\<close>

text \<open>A directory of the configuration whose entries are deleted one by one; it may not open.\<close>

definition delete_entries ::
  "'k kernel \<Rightarrow> string \<Rightarrow> (string \<Rightarrow> 'k proc \<Rightarrow> (int \<times> 'k proc) exec) \<Rightarrow> 'k proc \<Rightarrow> 'k proc exec" where
  "delete_entries K sub f s =
     (case opendir K (CFS_PATH @ sub) s of
        Inl _ \<Rightarrow> Inr s
      | Inr names \<Rightarrow> each (\<lambda>n s. exec_bind (f n s) (\<lambda>(_, s). Inr s)) names s)"

definition cfgfs_reset_config :: "'k kernel \<Rightarrow> 'k proc \<Rightarrow> 'k proc exec" where
  "cfgfs_reset_config K s =
     (let dir = getcwd s in
      case chdir K CFS_PATH s of (ret, s) \<Rightarrow>
        if ret \<noteq> 0 then go_back K dir s
        else
          exec_bind (delete_entries K CFS_SUBSYS (cfgfs_delete_subsys K) s) (\<lambda>s.
          exec_bind (delete_entries K CFS_PORTS (\<lambda>n. cfgfs_delete_portid K (atoi n)) s) (\<lambda>s.
          exec_bind (delete_entries K CFS_HOSTS (cfgfs_delete_host K) s) (go_back K dir))))"

section \<open>Devices\<close>

text \<open>
  \<^verbatim>\<open>sscanf(name, "nvme%dn%d")\<close>: a number is an optional sign and digits, after white space. A name that
  does not match leaves a field of the new device without a value.
\<close>

definition scan_int :: "string \<Rightarrow> (int \<times> string) option" where
  "scan_int t =
     (let t = dropWhile is_space t;
          body = (case t of c # cs \<Rightarrow> if c = CHR ''-'' \<or> c = CHR ''+'' then cs else t | [] \<Rightarrow> []);
          ds = takeWhile is_digit body
      in if ds = [] then None else Some (c_int (atoi t), drop (length ds) body))"

definition create_device :: "string option \<Rightarrow> nsdev_ep list \<Rightarrow> (int \<times> nsdev_ep list) exec" where
  "create_device name devs =
     (case name of
        None \<Rightarrow> Inr (0, devs @ [\<lparr>ed_devid = NULL_BLK_DEVID, ed_nsid = 0\<rparr>])
      | Some n \<Rightarrow>
          case scan_int (drop (length SYSFS_PREFIX) n) of
            Some (devid, CHR ''n'' # rest) \<Rightarrow>
              (case scan_int rest of
                 Some (nsid, _) \<Rightarrow> Inr (0, devs @ [\<lparr>ed_devid = devid, ed_nsid = nsid\<rparr>])
               | None \<Rightarrow> Inl Uninitialised)
          | _ \<Rightarrow> Inl Uninitialised)"

definition add_devices :: "string list \<Rightarrow> nsdev_ep list \<Rightarrow> nsdev_ep list exec" where
  "add_devices names =
     each (\<lambda>n devs. if take (length SYSFS_PREFIX) n = SYSFS_PREFIX
                    then exec_bind (create_device (Some n) devs) (\<lambda>(_, devs). Inr devs) else Inr devs) names"

text \<open>
  One controller: \<open>buf\<close> is the array \<^verbatim>\<open>fgets\<close> reads the transport into, which keeps its contents when
  the file is empty.
\<close>

definition scan_ctrl ::
  "'k kernel \<Rightarrow> 'k proc \<Rightarrow> string \<Rightarrow> string option \<times> nsdev_ep list \<Rightarrow> (string option \<times> nsdev_ep list) exec" where
  "scan_ctrl K s n st =
     (case st of (buf, devs) \<Rightarrow>
      exec_bind (path_buf (n @ ''/'' @ SYSFS_TRANSPORT)) (\<lambda>path.
        case fs_read K (resolve (pr_cwd s) path) (pr_fs s) of
          None \<Rightarrow> Inr (buf, devs)
        | Some t \<Rightarrow>
            let line = take 4 (takeWhile (\<lambda>c. c \<noteq> CHR 0x0A) t @ (if CHR 0x0A \<in> set t then [CHR 0x0A] else []));
                buf = (if t = [] then buf else Some line)
            in case buf of
                 None \<Rightarrow> Inl Uninitialised
               | Some b \<Rightarrow>
                   if b = SYSFS_PCIE
                   then (case opendir K n s of
                           Inl _ \<Rightarrow> Inr (buf, devs)
                         | Inr subs \<Rightarrow> exec_bind (add_devices subs devs) (\<lambda>devs. Inr (buf, devs)))
                   else Inr (buf, devs)))"

text \<open>
  The result is the number of devices added. When the directory cannot be opened after the change to it,
  the function returns from there.
\<close>

definition cfgfs_enumerate_devices ::
  "'k kernel \<Rightarrow> nsdev_ep list \<Rightarrow> 'k proc \<Rightarrow> (int \<times> nsdev_ep list \<times> 'k proc) exec" where
  "cfgfs_enumerate_devices K devs s =
     (let dir = getcwd s;
          null_blk = (\<lambda>devs' s.
            exec_bind
              (if fs_access K (resolve [] NULL_BLK_DEVICE) (pr_fs s) = 0
               then exec_bind (create_device None devs') (\<lambda>(_, ds). Inr ds) else Inr devs') (\<lambda>devs'.
            exec_bind (go_back K dir s) (\<lambda>s. Inr (int (length devs') - int (length devs), devs', s))))
      in
      case chdir K SYSFS_PATH s of (ret, s) \<Rightarrow>
        if ret \<noteq> 0 then null_blk devs s
        else case opendir K ''.'' s of
          Inl err \<Rightarrow> Inr (- err, devs, s)
        | Inr names \<Rightarrow> exec_bind (each (scan_ctrl K s) names (None, devs)) (\<lambda>(_, devs'). null_blk devs' s))"

text \<open>\<open>debug\<close> is the build with \<^verbatim>\<open>CONFIG_DEBUG\<close>; the type of an interface is at most eight characters long.\<close>

definition cfgfs_start_targets ::
  "'k kernel \<Rightarrow> bool \<Rightarrow> portid_ep list \<Rightarrow> 'k proc \<Rightarrow> (int \<times> 'k proc) exec" where
  "cfgfs_start_targets K debug ifaces s =
     (let run = (\<lambda>cmd s. s\<lparr>pr_fs := snd (fs_system K cmd (pr_fs s))\<rparr>);
          s = run ''modprobe configfs'' s;
          s = (if debug then run ''modprobe null_blk'' s else s)
      in exec_bind
           (each (\<lambda>i s. exec_bind (c_strcpy 32 (Some (''modprobe nvmet-'' @ ei_type i))) (\<lambda>cmd. Inr (run cmd s))) ifaces s)
           (\<lambda>s. Inr (0, s)))"

definition cfgfs_stop_targets :: "'k proc \<Rightarrow> 'k proc exec" where
  "cfgfs_stop_targets s = Inr s"

definition cfgfs_register_ops :: "'k kernel \<Rightarrow> bool \<Rightarrow> 'k proc ops" where
  "cfgfs_register_ops K debug =
     \<lparr>op_delete_subsys = cfgfs_delete_subsys K,
      op_create_subsys = cfgfs_create_subsys K,
      op_create_ns = cfgfs_create_ns K,
      op_delete_ns = cfgfs_delete_ns K,
      op_create_host = cfgfs_create_host K,
      op_delete_host = cfgfs_delete_host K,
      op_create_portid = cfgfs_create_portid K,
      op_delete_portid = cfgfs_delete_portid K,
      op_link_host_to_subsys = cfgfs_link_host_to_subsys K,
      op_unlink_host_from_subsys = cfgfs_unlink_host_from_subsys K,
      op_link_port_to_subsys = cfgfs_link_port_to_subsys K,
      op_unlink_port_from_subsys = cfgfs_unlink_port_from_subsys K,
      op_enumerate_devices = cfgfs_enumerate_devices K,
      op_reset_config = cfgfs_reset_config K,
      op_start_targets = cfgfs_start_targets K debug,
      op_stop_targets = cfgfs_stop_targets\<rparr>"

end
