(* ===== verification/Ep_Nvmet.thy ===== *)
theory Ep_Nvmet
  imports Ep_Configfs
begin

text \<open>
  What the operations of \<^verbatim>\<open>configfs.c\<close> do to the configuration of the kernel's NVMe target.

  The locale \<open>nvmet_fs\<close> states how the target presents its configuration as a directory tree: making a
  directory makes an object, a symbolic link allows a host or opens a port, and an object in use is not
  removed. Writing an attribute may be refused, which the program does not notice. Inside the locale every
  operation is shown to implement a step of an abstract specification, \<open>nv_spec\<close>.
\<close>

section \<open>The configuration\<close>

record nv_subsystem =
  nvs_allow :: string
  nvs_hosts :: "string set"
  nvs_ns :: "string \<rightharpoonup> (string \<times> string)"

record nv_port =
  nvp_attr :: "string \<Rightarrow> string"
  nvp_subsys :: "string set"

record nvmet =
  nv_subsys :: "string \<rightharpoonup> nv_subsystem"
  nv_ports :: "string \<rightharpoonup> nv_port"
  nv_hosts :: "string set"

definition nv :: "path \<Rightarrow> path" where
  "nv q = [''sys'', ''kernel'', ''config'', ''nvmet''] @ q"

text \<open>A name that is one component of a path and not longer than a qualified name may be.\<close>

definition ok_name :: "string \<Rightarrow> bool" where
  "ok_name n = (n \<noteq> [] \<and> n \<noteq> ''.'' \<and> n \<noteq> ''..'' \<and> CHR ''/'' \<notin> set n \<and> length n \<le> 223)"

section \<open>Effects of the system calls\<close>

definition on_subsys :: "string \<Rightarrow> (nv_subsystem \<Rightarrow> nv_subsystem) \<Rightarrow> nvmet \<Rightarrow> nvmet" where
  "on_subsys n f v = v\<lparr>nv_subsys := (nv_subsys v)(n := map_option f (nv_subsys v n))\<rparr>"

definition on_port :: "string \<Rightarrow> (nv_port \<Rightarrow> nv_port) \<Rightarrow> nvmet \<Rightarrow> nvmet" where
  "on_port p f v = v\<lparr>nv_ports := (nv_ports v)(p := map_option f (nv_ports v p))\<rparr>"

definition add_subsys :: "string \<Rightarrow> nv_subsystem \<Rightarrow> nvmet \<Rightarrow> nvmet" where
  "add_subsys n new v = (if n \<in> dom (nv_subsys v) then v else v\<lparr>nv_subsys := (nv_subsys v)(n \<mapsto> new)\<rparr>)"

definition add_port :: "string \<Rightarrow> nv_port \<Rightarrow> nvmet \<Rightarrow> nvmet" where
  "add_port p new v = (if p \<in> dom (nv_ports v) then v else v\<lparr>nv_ports := (nv_ports v)(p \<mapsto> new)\<rparr>)"

definition nv_add_host :: "string \<Rightarrow> nvmet \<Rightarrow> nvmet" where
  "nv_add_host h v = v\<lparr>nv_hosts := insert h (nv_hosts v)\<rparr>"

definition add_ns :: "string \<Rightarrow> string \<Rightarrow> string \<times> string \<Rightarrow> nvmet \<Rightarrow> nvmet" where
  "add_ns n i new =
     on_subsys n (\<lambda>ss. if i \<in> dom (nvs_ns ss) then ss else ss\<lparr>nvs_ns := (nvs_ns ss)(i \<mapsto> new)\<rparr>)"

definition set_allow :: "string \<Rightarrow> string \<Rightarrow> nvmet \<Rightarrow> nvmet" where
  "set_allow n t = on_subsys n (\<lambda>ss. ss\<lparr>nvs_allow := t\<rparr>)"

definition on_ns :: "string \<Rightarrow> string \<Rightarrow> (string \<times> string \<Rightarrow> string \<times> string) \<Rightarrow> nvmet \<Rightarrow> nvmet" where
  "on_ns n i f = on_subsys n (\<lambda>ss. ss\<lparr>nvs_ns := (nvs_ns ss)(i := map_option f (nvs_ns ss i))\<rparr>)"

definition set_attr :: "string \<Rightarrow> string \<Rightarrow> string \<Rightarrow> nvmet \<Rightarrow> nvmet" where
  "set_attr p a t = on_port p (\<lambda>pt. pt\<lparr>nvp_attr := (nvp_attr pt)(a := t)\<rparr>)"

definition drop_ns :: "string \<Rightarrow> string \<Rightarrow> nvmet \<Rightarrow> nvmet" where
  "drop_ns n i = on_subsys n (\<lambda>ss. ss\<lparr>nvs_ns := (nvs_ns ss)(i := None)\<rparr>)"

definition allow_host :: "string \<Rightarrow> string \<Rightarrow> nvmet \<Rightarrow> nvmet" where
  "allow_host n h = on_subsys n (\<lambda>ss. ss\<lparr>nvs_hosts := insert h (nvs_hosts ss)\<rparr>)"

definition disallow_host :: "string \<Rightarrow> string \<Rightarrow> nvmet \<Rightarrow> nvmet" where
  "disallow_host n h = on_subsys n (\<lambda>ss. ss\<lparr>nvs_hosts := nvs_hosts ss - {h}\<rparr>)"

definition open_port :: "string \<Rightarrow> string \<Rightarrow> nvmet \<Rightarrow> nvmet" where
  "open_port p n = on_port p (\<lambda>pt. pt\<lparr>nvp_subsys := insert n (nvp_subsys pt)\<rparr>)"

definition close_port :: "string \<Rightarrow> string \<Rightarrow> nvmet \<Rightarrow> nvmet" where
  "close_port p n = on_port p (\<lambda>pt. pt\<lparr>nvp_subsys := nvp_subsys pt - {n}\<rparr>)"

text \<open>Objects in use stay.\<close>

definition subsys_busy :: "string \<Rightarrow> nvmet \<Rightarrow> bool" where
  "subsys_busy n v =
     ((\<exists>ss. nv_subsys v n = Some ss \<and> (nvs_hosts ss \<noteq> {} \<or> nvs_ns ss \<noteq> Map.empty)) \<or>
      (\<exists>p pt. nv_ports v p = Some pt \<and> n \<in> nvp_subsys pt))"

definition drop_subsys :: "string \<Rightarrow> nvmet \<Rightarrow> nvmet" where
  "drop_subsys n v = (if subsys_busy n v then v else v\<lparr>nv_subsys := (nv_subsys v)(n := None)\<rparr>)"

definition drop_port :: "string \<Rightarrow> nvmet \<Rightarrow> nvmet" where
  "drop_port p v =
     (if \<exists>pt. nv_ports v p = Some pt \<and> nvp_subsys pt \<noteq> {} then v else v\<lparr>nv_ports := (nv_ports v)(p := None)\<rparr>)"

definition drop_host :: "string \<Rightarrow> nvmet \<Rightarrow> nvmet" where
  "drop_host h v =
     (if \<exists>n ss. nv_subsys v n = Some ss \<and> h \<in> nvs_hosts ss then v else v\<lparr>nv_hosts := nv_hosts v - {h}\<rparr>)"

text \<open>\<^verbatim>\<open>mkdir\<close> and \<^verbatim>\<open>symlink\<close>: an object that is there already, one that is made, or an error.\<close>

definition makes :: "bool \<Rightarrow> int \<Rightarrow> nvmet \<Rightarrow> nvmet \<Rightarrow> nvmet \<Rightarrow> bool" where
  "makes present e v new v' =
     (if present then e = EEXIST \<and> v' = v
      else (e = 0 \<and> v' = new) \<or> (e \<noteq> 0 \<and> e \<noteq> EEXIST \<and> v' = v))"

section \<open>Resolving the paths of the program\<close>

definition walk :: "path \<Rightarrow> string \<Rightarrow> path" where
  "walk c p = foldl path_step c (split_slash p)"

lemma resolve_abs: "resolve c (CHR ''/'' # p) = walk [] p"
  by (simp add: resolve_def walk_def path_step_def)

lemma ok_name_step: "ok_name n \<Longrightarrow> path_step c n = c @ [n]"
  by (simp add: ok_name_def path_step_def)

lemma ok_name_no_slash: "ok_name n \<Longrightarrow> CHR ''/'' \<notin> set n"
  by (simp add: ok_name_def)

lemma ok_name_nonempty: "ok_name n \<Longrightarrow> n \<noteq> []"
  by (auto simp: ok_name_def)

lemma ok_name_length: "ok_name n \<Longrightarrow> length n \<le> 223"
  by (simp add: ok_name_def)

lemma take1_no_slash: "n \<noteq> [] \<Longrightarrow> CHR ''/'' \<notin> set n \<Longrightarrow> take 1 (n @ p) \<noteq> ''/''"
  by (cases n) auto

lemma walk_name: "ok_name n \<Longrightarrow> walk c n = c @ [n]"
  by (simp add: walk_def split_slash_word ok_name_step ok_name_no_slash)

lemma walk_name_slash: "CHR ''/'' \<notin> set n \<Longrightarrow> walk c (n @ CHR ''/'' # p) = walk (path_step c n) p"
  by (simp add: walk_def split_slash_append)

lemma walk_Nil: "walk c [] = c"
  by (simp add: walk_def path_step_def)

lemma resolve_rel: "n \<noteq> [] \<Longrightarrow> CHR ''/'' \<notin> set n \<Longrightarrow> resolve c (n @ p) = walk c (n @ p)"
  using take1_no_slash by (simp add: resolve_def walk_def)

lemma resolve_name: "ok_name n \<Longrightarrow> resolve c n = c @ [n]"
  using resolve_rel [of n c "[]"] by (simp add: walk_name ok_name_no_slash ok_name_nonempty)

lemma resolve_name_slash: "ok_name n \<Longrightarrow> resolve c (n @ CHR ''/'' # p) = walk (c @ [n]) p"
  by (simp add: resolve_rel walk_name_slash ok_name_step ok_name_no_slash ok_name_nonempty)

text \<open>The constant parts of the paths, followed by a name or by nothing.\<close>

lemma walk_literals:
  "walk c (''sys/kernel/config/nvmet/'' @ p) = walk (c @ [''sys'', ''kernel'', ''config'', ''nvmet'']) p"
  "walk c (''subsystems/'' @ p) = walk (c @ [''subsystems'']) p"
  "walk c (''namespaces/'' @ p) = walk (c @ [''namespaces'']) p"
  "walk c (''allowed_hosts/'' @ p) = walk (c @ [''allowed_hosts'']) p"
  "walk c (''ports/'' @ p) = walk (c @ [''ports'']) p"
  "walk c (''hosts/'' @ p) = walk (c @ [''hosts'']) p"
  "walk c (CHR ''/'' # p) = walk c p"
  using walk_name_slash [of "''subsystems''" c p] walk_name_slash [of "''namespaces''" c p]
    walk_name_slash [of "''allowed_hosts''" c p] walk_name_slash [of "''ports''" c p] walk_name_slash [of "''hosts''" c p]
    walk_name_slash [of "''sys''" c "''kernel/config/nvmet/'' @ p"]
    walk_name_slash [of "''kernel''" "c @ [''sys'']" "''config/nvmet/'' @ p"]
    walk_name_slash [of "''config''" "c @ [''sys'', ''kernel'']" "''nvmet/'' @ p"]
    walk_name_slash [of "''nvmet''" "c @ [''sys'', ''kernel'', ''config'']" p] walk_name_slash [of "[]" c p]
  by (simp_all add: path_step_def)

lemma resolve_cfs_path: "resolve c (CFS_PATH @ p) = walk (nv []) p"
  using resolve_abs [of c "''sys/kernel/config/nvmet/'' @ p"] walk_literals(1) [of "[]" p]
  by (simp add: CFS_PATH_def nv_def)

lemma resolve_rel_literals:
  "resolve c (CFS_ALLOWED @ p) = walk (c @ [''allowed_hosts'']) p"
  "resolve c (CFS_NS @ p) = walk (c @ [''namespaces'']) p"
  "resolve c (CFS_PORTS @ p) = walk (c @ [''ports'']) p"
  using resolve_name_slash [of "''allowed_hosts''" c p] resolve_name_slash [of "''namespaces''" c p]
    resolve_name_slash [of "''ports''" c p]
  by (simp_all add: cfs_defs ok_name_def)

lemma walk_cfs:
  "walk c (CFS_SUBSYS @ p) = walk (c @ [''subsystems'']) p"
  "walk c (CFS_NS @ p) = walk (c @ [''namespaces'']) p"
  "walk c (CFS_ALLOWED @ p) = walk (c @ [''allowed_hosts'']) p"
  "walk c (CFS_PORTS @ p) = walk (c @ [''ports'']) p"
  "walk c (CFS_HOSTS @ p) = walk (c @ [''hosts'']) p"
  by (simp_all only: cfs_defs walk_literals)

lemma walk_cfs_end:
  "walk c CFS_SUBSYS = c @ [''subsystems'']" "walk c CFS_NS = c @ [''namespaces'']"
  "walk c CFS_ALLOWED = c @ [''allowed_hosts'']" "walk c CFS_PORTS = c @ [''ports'']"
  "walk c CFS_HOSTS = c @ [''hosts'']"
  using walk_cfs [of c "[]"] by (simp_all add: walk_Nil)

lemma resolve_cfs_end:
  "resolve c CFS_PATH = nv []" "resolve c CFS_ALLOWED = c @ [''allowed_hosts'']"
  "resolve c CFS_NS = c @ [''namespaces'']" "resolve c CFS_PORTS = c @ [''ports'']"
  using resolve_cfs_path [of c "[]"] resolve_rel_literals [of c "[]"] by (simp_all add: walk_Nil)

lemma resolve_attr:
  "resolve c CFS_ALLOW_ANY = c @ [CFS_ALLOW_ANY]" "resolve c CFS_DEV_PATH = c @ [CFS_DEV_PATH]"
  "resolve c CFS_ENABLE = c @ [CFS_ENABLE]" "resolve c CFS_TR_ADRFAM = c @ [CFS_TR_ADRFAM]"
  "resolve c CFS_TR_TYPE = c @ [CFS_TR_TYPE]" "resolve c CFS_TR_ADDR = c @ [CFS_TR_ADDR]"
  "resolve c CFS_TREQ = c @ [CFS_TREQ]" "resolve c CFS_TR_SVCID = c @ [CFS_TR_SVCID]"
  by (rule resolve_name; simp add: ok_name_def cfs_defs)+

lemma resolve_up: "resolve (c @ [a, b]) ''../..'' = c" "resolve (c @ [a, b, d]) ''../../..'' = c"
  by (simp_all add: resolve_def path_step_def butlast_append)

lemma ok_name_show_nat: "n < 10 ^ 20 \<Longrightarrow> ok_name (show_nat n)"
  using show_nat_digits [of n] length_show_nat [of n 20] show_nat_nonempty [of n]
  by (auto simp: ok_name_def list_all_iff is_digit_def)

lemma ok_name_show_int: assumes "- (10 ^ 20) < i" "i < 10 ^ 20" shows "ok_name (show_int i)"
proof -
  have "nat i < 10 ^ 20" "nat (- i) < 10 ^ 20" using assms by auto
  then have "ok_name (show_nat (nat i))" "ok_name (show_nat (nat (- i)))" "length (show_nat (nat (- i))) \<le> 20"
    using length_show_nat [of "nat (- i)" 20] by (auto intro: ok_name_show_nat)
  then show ?thesis by (auto simp: show_int_def ok_name_def)
qed

lemma ok_name_literals: "ok_name ''sys''" "ok_name ''kernel''" "ok_name ''config''" "ok_name ''nvmet''"
  by (simp_all add: ok_name_def)

lemmas ok_name_simps [simp] = ok_name_step ok_name_no_slash ok_name_nonempty

lemmas resolve_simps = resolve_cfs_path resolve_rel_literals resolve_cfs_end resolve_attr resolve_name
  resolve_name_slash walk_cfs walk_cfs_end walk_name walk_name_slash walk_Nil walk_literals(7)

section \<open>The specification\<close>

datatype nv_cmd =
    Create_subsys string int
  | Delete_subsys string
  | Create_ns string int int int
  | Delete_ns string int
  | Create_host string
  | Delete_host string
  | Create_portid int string string int string int
  | Delete_portid int
  | Link_host string string
  | Unlink_host string string
  | Link_port string int
  | Unlink_port string int

text \<open>The operation of the table that a command calls.\<close>

fun run_cmd :: "'s ops \<Rightarrow> nv_cmd \<Rightarrow> 's \<Rightarrow> (int \<times> 's) exec" where
  "run_cmd Ops (Create_subsys n a) = op_create_subsys Ops n a"
| "run_cmd Ops (Delete_subsys n) = op_delete_subsys Ops n"
| "run_cmd Ops (Create_ns n i d dn) = op_create_ns Ops n i d dn"
| "run_cmd Ops (Delete_ns n i) = op_delete_ns Ops n i"
| "run_cmd Ops (Create_host h) = op_create_host Ops (Some h)"
| "run_cmd Ops (Delete_host h) = op_delete_host Ops h"
| "run_cmd Ops (Create_portid p fam typ req addr svcid) =
     op_create_portid Ops p (Some fam) (Some typ) req (Some addr) svcid"
| "run_cmd Ops (Delete_portid p) = op_delete_portid Ops p"
| "run_cmd Ops (Link_host n h) = op_link_host_to_subsys Ops n (Some h)"
| "run_cmd Ops (Unlink_host n h) = op_unlink_host_from_subsys Ops n h"
| "run_cmd Ops (Link_port n p) = op_link_port_to_subsys Ops n p"
| "run_cmd Ops (Unlink_port n p) = op_unlink_port_from_subsys Ops n p"

text \<open>Writes that the kernel accepts or refuses one by one.\<close>

fun attempts :: "(nvmet \<Rightarrow> nvmet) list \<Rightarrow> nvmet \<Rightarrow> nvmet \<Rightarrow> bool" where
  "attempts [] v v' = (v' = v)"
| "attempts (f # fs) v v' = (attempts fs v v' \<or> attempts fs (f v) v')"

text \<open>A subsystem with all that refers to it, and a port with its links.\<close>

definition purge_subsys :: "string \<Rightarrow> nvmet \<Rightarrow> nvmet" where
  "purge_subsys n v =
     (if n \<in> dom (nv_subsys v)
      then v\<lparr>nv_subsys := (nv_subsys v)(n := None),
             nv_ports := (\<lambda>p. map_option (\<lambda>pt. pt\<lparr>nvp_subsys := nvp_subsys pt - {n}\<rparr>) (nv_ports v p))\<rparr>
      else v)"

definition purge_port :: "string \<Rightarrow> nvmet \<Rightarrow> nvmet" where
  "purge_port p v = v\<lparr>nv_ports := (nv_ports v)(p := None)\<rparr>"

definition empty_nvmet :: nvmet where
  "empty_nvmet = \<lparr>nv_subsys = Map.empty, nv_ports = Map.empty, nv_hosts = {}\<rparr>"

text \<open>The attributes a port has, as they are read back.\<close>

definition attrs_match :: "(string \<times> string) list \<Rightarrow> nv_port option \<Rightarrow> bool" where
  "attrs_match as pt =
     (case pt of None \<Rightarrow> False | Some pt \<Rightarrow> list_all (\<lambda>(a, t). take (MAXSTRLEN - 2) (nvp_attr pt a) = t) as)"

definition port_values :: "string \<Rightarrow> string \<Rightarrow> int \<Rightarrow> string \<Rightarrow> int \<Rightarrow> (string \<times> string) list" where
  "port_values fam typ req addr svcid =
     [(CFS_TR_ADRFAM, fam), (CFS_TR_TYPE, typ), (CFS_TR_ADDR, addr), (CFS_TREQ, treq_text req),
      (CFS_TR_SVCID, num_str svcid)]"

text \<open>The files of the attributes.\<close>

definition port_files :: "string list" where
  "port_files = [CFS_TR_ADRFAM, CFS_TR_TYPE, CFS_TR_ADDR, CFS_TREQ, CFS_TR_SVCID]"

text \<open>
  What a command may do: its code and the configuration afterwards. An error leaves the configuration as
  it was, except that a port that exists is left with the attributes the kernel accepted.
\<close>

fun nv_spec :: "nv_cmd \<Rightarrow> nvmet \<Rightarrow> int \<Rightarrow> nvmet \<Rightarrow> bool" where
  "nv_spec (Create_subsys n a) v ret v' =
     (if ret = 0
      then \<exists>new. nvs_hosts new = {} \<and> nvs_ns new = Map.empty \<and>
             attempts [set_allow n (if a \<noteq> 0 then ''1'' else ''0'')] (add_subsys n new v) v'
      else v' = v \<and> n \<notin> dom (nv_subsys v))"
| "nv_spec (Delete_subsys n) v ret v' = (ret = 0 \<and> v' = purge_subsys n v)"
| "nv_spec (Create_ns n i d dn) v ret v' =
     (if ret = 0
      then n \<in> dom (nv_subsys v) \<and>
        (\<exists>new. attempts [on_ns n (show_int i) (apfst (\<lambda>_. if d = NULL_BLK_DEVID then NULL_BLK_DEVICE else NVME_DEVICE d dn)),
                    on_ns n (show_int i) (apsnd (\<lambda>_. ''1''))] (add_ns n (show_int i) new v) v')
      else v' = v)"
| "nv_spec (Delete_ns n i) v ret v' = (ret = 0 \<and> v' = drop_ns n (show_int i) v)"
| "nv_spec (Create_host h) v ret v' = (if ret = 0 then v' = nv_add_host h v else v' = v \<and> h \<notin> nv_hosts v)"
| "nv_spec (Delete_host h) v ret v' = (ret = 0 \<and> v' = drop_host h v)"
| "nv_spec (Create_portid p fam typ req addr svcid) v ret v' =
     (let q = num_str p; as = port_values fam typ req addr svcid in
      if q \<in> dom (nv_ports v)
      then attempts (map (\<lambda>(a, t). set_attr q a t) as) v v' \<and>
           ret = (if attrs_match as (nv_ports v' q) then 0 else - EBUSY)
      else if ret = 0
      then \<exists>new. nvp_subsys new = {} \<and> attempts (map (\<lambda>(a, t). set_attr q a t) as) (add_port q new v) v'
      else v' = v)"
| "nv_spec (Delete_portid p) v ret v' = (ret = 0 \<and> v' = purge_port (show_int p) v)"
| "nv_spec (Link_host n h) v ret v' =
     (if ret = 0 then n \<in> dom (nv_subsys v) \<and> v' = allow_host n h v else v' = v)"
| "nv_spec (Unlink_host n h) v ret v' = (ret = 0 \<and> v' = disallow_host n h v)"
| "nv_spec (Link_port n p) v ret v' =
     (if ret = 0 then show_int p \<in> dom (nv_ports v) \<and> v' = open_port (show_int p) n v else v' = v)"
| "nv_spec (Unlink_port n p) v ret v' = (ret = 0 \<and> v' = close_port (show_int p) n v)"

text \<open>Commands whose names are single components and whose numbers are those of an \<^verbatim>\<open>int\<close>.\<close>

definition c_range :: "int \<Rightarrow> bool" where
  "c_range i = (- 2147483648 \<le> i \<and> i < 2147483648)"

fun cmd_ok :: "nv_cmd \<Rightarrow> bool" where
  "cmd_ok (Create_subsys n a) = ok_name n"
| "cmd_ok (Delete_subsys n) = ok_name n"
| "cmd_ok (Create_ns n i d dn) = (ok_name n \<and> c_range i)"
| "cmd_ok (Delete_ns n i) = (ok_name n \<and> c_range i)"
| "cmd_ok (Create_host h) = ok_name h"
| "cmd_ok (Delete_host h) = ok_name h"
| "cmd_ok (Create_portid p fam typ req addr svcid) = c_range p"
| "cmd_ok (Delete_portid p) = c_range p"
| "cmd_ok (Link_host n h) = (ok_name n \<and> ok_name h)"
| "cmd_ok (Unlink_host n h) = (ok_name n \<and> ok_name h)"
| "cmd_ok (Link_port n p) = (ok_name n \<and> c_range p)"
| "cmd_ok (Unlink_port n p) = (ok_name n \<and> c_range p)"

text \<open>Ports made by this program have decimal names.\<close>

definition decimal_ports :: "nvmet \<Rightarrow> bool" where
  "decimal_ports v = (\<forall>p \<in> dom (nv_ports v). c_range (atoi p) \<and> show_int (atoi p) = p)"

text \<open>A directory that stays, with a path \<^verbatim>\<open>getcwd\<close> can give.\<close>

definition steady :: "'k kernel \<Rightarrow> path \<Rightarrow> bool" where
  "steady K c = ((\<forall>k. fs_dir K c k = 0) \<and> list_all ok_name c \<and> length (path_text c) < MAXPATHLEN)"

section \<open>The kernel\<close>

locale nvmet_fs =
  fixes K :: "'k kernel" and view :: "'k \<Rightarrow> nvmet"
  assumes dir_top: "fs_dir K (nv []) k = 0" "fs_dir K (nv [''subsystems'']) k = 0"
      "fs_dir K (nv [''ports'']) k = 0" "fs_dir K (nv [''hosts'']) k = 0"
    and dir_subsys: "fs_dir K (nv [''subsystems'', n]) k = 0 \<longleftrightarrow> n \<in> dom (nv_subsys (view k))"
    and dir_sub: "sub = ''namespaces'' \<or> sub = ''allowed_hosts'' \<Longrightarrow>
      fs_dir K (nv [''subsystems'', n, sub]) k = 0 \<longleftrightarrow> n \<in> dom (nv_subsys (view k))"
    and dir_ns: "fs_dir K (nv [''subsystems'', n, ''namespaces'', i]) k = 0 \<longleftrightarrow>
      (\<exists>ss. nv_subsys (view k) n = Some ss \<and> i \<in> dom (nvs_ns ss))"
    and dir_port: "fs_dir K (nv [''ports'', p]) k = 0 \<longleftrightarrow> p \<in> dom (nv_ports (view k))"
      "fs_dir K (nv [''ports'', p, ''subsystems'']) k = 0 \<longleftrightarrow> p \<in> dom (nv_ports (view k))"
    and entries_distinct: "distinct (fs_entries K q k)"
    and entries_top: "set (fs_entries K (nv [''subsystems'']) k) - {''.'', ''..''} = dom (nv_subsys (view k))"
      "set (fs_entries K (nv [''ports'']) k) - {''.'', ''..''} = dom (nv_ports (view k))"
      "set (fs_entries K (nv [''hosts'']) k) - {''.'', ''..''} = nv_hosts (view k)"
    and entries_hosts: "nv_subsys (view k) n = Some ss \<Longrightarrow>
      set (fs_entries K (nv [''subsystems'', n, ''allowed_hosts'']) k) - {''.'', ''..''} = nvs_hosts ss"
    and entries_ns: "nv_subsys (view k) n = Some ss \<Longrightarrow>
      set (fs_entries K (nv [''subsystems'', n, ''namespaces'']) k) - {''.'', ''..''} = dom (nvs_ns ss)"
    and entries_port: "nv_ports (view k) p = Some pt \<Longrightarrow>
      set (fs_entries K (nv [''ports'', p, ''subsystems'']) k) - {''.'', ''..''} = nvp_subsys pt"
    and names: "n \<in> dom (nv_subsys (view k)) \<union> dom (nv_ports (view k)) \<union> nv_hosts (view k) \<Longrightarrow> ok_name n"
    and names_in: "nv_subsys (view k) n = Some ss \<Longrightarrow> h \<in> nvs_hosts ss \<union> dom (nvs_ns ss) \<Longrightarrow> ok_name h"
      "nv_ports (view k) p = Some pt \<Longrightarrow> n \<in> nvp_subsys pt \<Longrightarrow> ok_name n"
    and mkdir_subsys: "fs_mkdir K (nv [''subsystems'', n]) k = (e, k') \<Longrightarrow>
      \<exists>new. nvs_hosts new = {} \<and> nvs_ns new = Map.empty \<and>
        makes (n \<in> dom (nv_subsys (view k))) e (view k) (add_subsys n new (view k)) (view k')"
    and mkdir_ns: "fs_mkdir K (nv [''subsystems'', n, ''namespaces'', i]) k = (e, k') \<Longrightarrow>
      (case nv_subsys (view k) n of
         None \<Rightarrow> e \<noteq> 0 \<and> e \<noteq> EEXIST \<and> view k' = view k
       | Some ss \<Rightarrow> \<exists>new. makes (i \<in> dom (nvs_ns ss)) e (view k) (add_ns n i new (view k)) (view k'))"
    and mkdir_host: "fs_mkdir K (nv [''hosts'', h]) k = (e, k') \<Longrightarrow>
      makes (h \<in> nv_hosts (view k)) e (view k) (nv_add_host h (view k)) (view k')"
    and mkdir_port: "fs_mkdir K (nv [''ports'', p]) k = (e, k') \<Longrightarrow>
      \<exists>new. nvp_subsys new = {} \<and>
        makes (p \<in> dom (nv_ports (view k))) e (view k) (add_port p new (view k)) (view k')"
    and rmdir_subsys: "view (snd (fs_rmdir K (nv [''subsystems'', n]) k)) = drop_subsys n (view k)"
    and rmdir_ns: "view (snd (fs_rmdir K (nv [''subsystems'', n, ''namespaces'', i]) k)) = drop_ns n i (view k)"
    and rmdir_port: "view (snd (fs_rmdir K (nv [''ports'', p]) k)) = drop_port p (view k)"
    and rmdir_host: "view (snd (fs_rmdir K (nv [''hosts'', h]) k)) = drop_host h (view k)"
    and remove_host: "fs_remove K (nv [''subsystems'', n, ''allowed_hosts'', h]) k = (e, k') \<Longrightarrow>
      (e = 0 \<or> e = ENOENT) \<and> view k' = disallow_host n h (view k)"
    and remove_port: "fs_remove K (nv [''ports'', p, ''subsystems'', n]) k = (e, k') \<Longrightarrow>
      (e = 0 \<or> e = ENOENT) \<and> view k' = close_port p n (view k)"
    and symlink_host: "fs_symlink K (nv [''hosts'', h]) (nv [''subsystems'', n, ''allowed_hosts'', h]) k = (e, k') \<Longrightarrow>
      (case nv_subsys (view k) n of
         None \<Rightarrow> e \<noteq> 0 \<and> e \<noteq> EEXIST \<and> view k' = view k
       | Some ss \<Rightarrow> makes (h \<in> nvs_hosts ss) e (view k) (allow_host n h (view k)) (view k'))"
    and symlink_port: "fs_symlink K (nv [''subsystems'', n]) (nv [''ports'', p, ''subsystems'', n]) k = (e, k') \<Longrightarrow>
      (case nv_ports (view k) p of
         None \<Rightarrow> e \<noteq> 0 \<and> e \<noteq> EEXIST \<and> view k' = view k
       | Some pt \<Rightarrow> makes (n \<in> nvp_subsys pt) e (view k) (open_port p n (view k)) (view k'))"
    and write_allow: "attempts [set_allow n t] (view k) (view (fs_write K (nv [''subsystems'', n, CFS_ALLOW_ANY]) t k))"
    and write_dev: "attempts [on_ns n i (apfst (\<lambda>_. t))] (view k)
      (view (fs_write K (nv [''subsystems'', n, ''namespaces'', i, CFS_DEV_PATH]) t k))"
    and write_enable: "attempts [on_ns n i (apsnd (\<lambda>_. t))] (view k)
      (view (fs_write K (nv [''subsystems'', n, ''namespaces'', i, CFS_ENABLE]) t k))"
    and write_attr: "a \<in> set port_files \<Longrightarrow>
      attempts [set_attr p a t] (view k) (view (fs_write K (nv [''ports'', p, a]) t k))"
    and read_attr: "nv_ports (view k) p = Some pt \<Longrightarrow> a \<in> set port_files \<Longrightarrow>
      fs_read K (nv [''ports'', p, a]) k = Some (nvp_attr pt a @ [CHR 0x0A]) \<and> CHR 0x0A \<notin> set (nvp_attr pt a)"
begin

subsection \<open>The working directory\<close>

lemma steady_nv: "steady K (nv [])"
  by (simp add: steady_def dir_top path_text_def join_uri_def MAXPATHLEN_def) (simp add: nv_def ok_name_literals)

lemma resolve_path_text: "list_all ok_name c \<Longrightarrow> resolve d (path_text c) = c"
proof (cases "c = []")
  case False
  assume ok: "list_all ok_name c"
  then have "split_slash (join_uri c) = [] # c" by (intro split_slash_join) (auto simp: list_all_iff)
  moreover have "foldl path_step b c = b @ c" for b using ok by (induction c arbitrary: b) auto
  moreover have "take 1 (join_uri c) = ''/''" using False by (cases c) (simp_all add: join_uri_def)
  ultimately show ?thesis using False by (simp add: path_text_def resolve_def path_step_def)
qed (simp add: path_text_def resolve_def path_step_def)

lemma path_text_nonempty: "path_text c \<noteq> []"
  by (cases c) (simp_all add: path_text_def join_uri_def)

lemma getcwd_steady: "steady K (pr_cwd s) \<Longrightarrow> getcwd s = Some (path_text (pr_cwd s))"
  by (simp add: getcwd_def steady_def)

lemma go_back_steady: "steady K c \<Longrightarrow> go_back K (Some (path_text c)) s = Inr (s\<lparr>pr_cwd := c\<rparr>)"
  by (simp add: go_back_def chdir_def steady_def resolve_path_text path_text_nonempty)

lemma leave_steady: "steady K c \<Longrightarrow> leave K (Some (path_text c)) ret s = Inr (ret, s\<lparr>pr_cwd := c\<rparr>)"
  by (simp add: leave_def go_back_steady)

lemmas steady_simps = getcwd_steady leave_steady go_back_steady

subsection \<open>Calls at the paths of the program\<close>

lemma nv_append [simp]: "nv q @ r = nv (q @ r)"
  by (simp add: nv_def)

lemma cfs_nonempty [simp]:
  "CFS_PATH \<noteq> []" "CFS_SUBSYS \<noteq> []" "CFS_NS \<noteq> []" "CFS_ALLOWED \<noteq> []" "CFS_PORTS \<noteq> []" "CFS_HOSTS \<noteq> []"
  by (simp_all add: cfs_defs)

lemma chdir_top [simp]:
  "chdir K (CFS_PATH @ CFS_SUBSYS) s = (0, s\<lparr>pr_cwd := nv [''subsystems'']\<rparr>)"
  "chdir K (CFS_PATH @ CFS_PORTS) s = (0, s\<lparr>pr_cwd := nv [''ports'']\<rparr>)"
  "chdir K (CFS_PATH @ CFS_HOSTS) s = (0, s\<lparr>pr_cwd := nv [''hosts'']\<rparr>)"
  "chdir K CFS_PATH s = (0, s\<lparr>pr_cwd := nv []\<rparr>)"
  by (simp_all add: chdir_def resolve_simps dir_top)

lemma path_buf_ok [simp]: "length t < MAXPATHLEN \<Longrightarrow> path_buf t = Inr t"
  by (simp add: path_buf_def c_strcpy_def)

lemma c_range_name: "c_range i \<Longrightarrow> ok_name (show_int i)"
  by (rule ok_name_show_int) (auto simp: c_range_def)

lemma name_lengths:
  "length CFS_PATH = 25" "length CFS_SUBSYS = 11" "length CFS_NS = 11" "length CFS_ALLOWED = 14" "length CFS_PORTS = 6"
  "length CFS_HOSTS = 6"
  by (simp_all add: cfs_defs)

lemma buf_ok:
  assumes "ok_name n" "ok_name m"
  shows "path_buf (CFS_PATH @ CFS_SUBSYS @ n) = Inr (CFS_PATH @ CFS_SUBSYS @ n)"
    "path_buf (CFS_PATH @ CFS_HOSTS @ n) = Inr (CFS_PATH @ CFS_HOSTS @ n)"
    "path_buf (n @ CHR ''/'' # CFS_ALLOWED @ m) = Inr (n @ CHR ''/'' # CFS_ALLOWED @ m)"
    "path_buf (n @ CHR ''/'' # CFS_NS @ m) = Inr (n @ CHR ''/'' # CFS_NS @ m)"
    "path_buf (n @ CHR ''/'' # CFS_SUBSYS @ m) = Inr (n @ CHR ''/'' # CFS_SUBSYS @ m)"
    "path_buf (n @ CHR ''/'' # CFS_SUBSYS @ CHR ''/'' # m) = Inr (n @ CHR ''/'' # CFS_SUBSYS @ CHR ''/'' # m)"
    "path_buf (CFS_ALLOWED @ n) = Inr (CFS_ALLOWED @ n)"
    "path_buf (CFS_NS @ n) = Inr (CFS_NS @ n)"
    "path_buf (CFS_PORTS @ n @ CHR ''/'' # CFS_SUBSYS) = Inr (CFS_PORTS @ n @ CHR ''/'' # CFS_SUBSYS)"
    "path_buf (CFS_PORTS @ n @ CHR ''/'' # CFS_SUBSYS @ m) = Inr (CFS_PORTS @ n @ CHR ''/'' # CFS_SUBSYS @ m)"
  using assms [THEN ok_name_length] by (simp_all add: name_lengths MAXPATHLEN_def)

subsection \<open>Hosts and links\<close>

text \<open>An operation that ends where it began, with a step of the specification.\<close>

definition implements :: "('k proc \<Rightarrow> (int \<times> 'k proc) exec) \<Rightarrow> (nvmet \<Rightarrow> int \<Rightarrow> nvmet \<Rightarrow> bool) \<Rightarrow> bool" where
  "implements f R =
     (\<forall>s. steady K (pr_cwd s) \<longrightarrow>
        (\<exists>ret s'. f s = Inr (ret, s') \<and> pr_cwd s' = pr_cwd s \<and> R (view (pr_fs s)) ret (view (pr_fs s'))))"

lemma implementsI:
  "(\<And>s. steady K (pr_cwd s) \<Longrightarrow>
      \<exists>ret s'. f s = Inr (ret, s') \<and> pr_cwd s' = pr_cwd s \<and> R (view (pr_fs s)) ret (view (pr_fs s'))) \<Longrightarrow> implements f R"
  by (simp add: implements_def)

lemma done_at:
  "f s = Inr (ret, s\<lparr>pr_fs := k\<rparr>) \<Longrightarrow> R v ret (view k) \<Longrightarrow>
     \<exists>ret s'. f s = Inr (ret, s') \<and> pr_cwd s' = pr_cwd s \<and> R v ret (view (pr_fs s'))"
  by auto

lemmas call_defs = mkdir_def rmdir_def remove_path_def symlink_def at_path_def

lemma rmdir_snd:
  "p \<noteq> [] \<Longrightarrow> snd (rmdir K p s) = s\<lparr>pr_fs := snd (fs_rmdir K (resolve (pr_cwd s) p) (pr_fs s))\<rparr>"
  by (simp add: rmdir_def at_path_def split: prod.split)

lemma remove_snd:
  "p \<noteq> [] \<Longrightarrow> snd (remove_path K p s) = s\<lparr>pr_fs := snd (fs_remove K (resolve (pr_cwd s) p) (pr_fs s))\<rparr>"
  by (simp add: remove_path_def at_path_def split: prod.split)

lemma create_host_implements:
  assumes "ok_name h"
  shows "implements (cfgfs_create_host K (Some h)) (nv_spec (Create_host h))"
proof (rule implementsI)
  fix s :: "'k proc" assume "steady K (pr_cwd s)"
  obtain e k where m: "fs_mkdir K (nv [''hosts'', h]) (pr_fs s) = (e, k)" by fastforce
  from mkdir_host [OF m] show "\<exists>ret s'. cfgfs_create_host K (Some h) s = Inr (ret, s') \<and> pr_cwd s' = pr_cwd s \<and>
      nv_spec (Create_host h) (view (pr_fs s)) ret (view (pr_fs s'))"
    using assms \<open>steady K (pr_cwd s)\<close>
    by (auto simp: cfgfs_create_host_def steady_simps call_defs resolve_simps m makes_def nv_add_host_def insert_absorb
        EEXIST_def split: if_splits)
qed

lemma delete_host_implements:
  assumes "ok_name h"
  shows "implements (cfgfs_delete_host K h) (nv_spec (Delete_host h))"
  using assms by (auto intro!: implementsI simp: cfgfs_delete_host_def steady_simps rmdir_snd resolve_simps rmdir_host)

lemma link_host_implements:
  assumes "ok_name n" "ok_name h"
  shows "implements (cfgfs_link_host_to_subsys K n (Some h)) (nv_spec (Link_host n h))"
proof (rule implementsI)
  fix s :: "'k proc" assume "steady K (pr_cwd s)"
  obtain e k where m: "fs_symlink K (nv [''hosts'', h]) (nv [''subsystems'', n, ''allowed_hosts'', h]) (pr_fs s) = (e, k)"
    by fastforce
  have idem: "allow_host n h (view (pr_fs s)) = view (pr_fs s)"
    if "nv_subsys (view (pr_fs s)) n = Some ss" "h \<in> nvs_hosts ss" for ss
    using that by (simp add: allow_host_def on_subsys_def insert_absorb fun_upd_idem)
  from symlink_host [OF m] show "\<exists>ret s'. cfgfs_link_host_to_subsys K n (Some h) s = Inr (ret, s') \<and>
      pr_cwd s' = pr_cwd s \<and> nv_spec (Link_host n h) (view (pr_fs s)) ret (view (pr_fs s'))"
    using assms \<open>steady K (pr_cwd s)\<close> idem
    by (auto simp: cfgfs_link_host_to_subsys_def steady_simps call_defs resolve_simps m makes_def with_name_def buf_ok
        EEXIST_def split: if_splits option.splits)
qed

lemma unlink_host_implements:
  assumes "ok_name n" "ok_name h"
  shows "implements (cfgfs_unlink_host_from_subsys K n h) (nv_spec (Unlink_host n h))"
proof (rule implementsI)
  fix s :: "'k proc" assume "steady K (pr_cwd s)"
  obtain e k where m: "fs_remove K (nv [''subsystems'', n, ''allowed_hosts'', h]) (pr_fs s) = (e, k)" by fastforce
  from remove_host [OF m] show "\<exists>ret s'. cfgfs_unlink_host_from_subsys K n h s = Inr (ret, s') \<and>
      pr_cwd s' = pr_cwd s \<and> nv_spec (Unlink_host n h) (view (pr_fs s)) ret (view (pr_fs s'))"
    using assms \<open>steady K (pr_cwd s)\<close>
    by (auto simp: cfgfs_unlink_host_from_subsys_def steady_simps call_defs resolve_simps m buf_ok)
qed

lemma link_port_implements:
  assumes "ok_name n" "c_range p"
  shows "implements (cfgfs_link_port_to_subsys K n p) (nv_spec (Link_port n p))"
proof (rule implementsI)
  fix s :: "'k proc" assume "steady K (pr_cwd s)"
  note p = c_range_name [OF assms(2)]
  obtain e k where m: "fs_symlink K (nv [''subsystems'', n]) (nv [''ports'', show_int p, ''subsystems'', n]) (pr_fs s) = (e, k)"
    by fastforce
  have idem: "open_port q n (view (pr_fs s)) = view (pr_fs s)"
    if "nv_ports (view (pr_fs s)) q = Some pt" "n \<in> nvp_subsys pt" for q pt
    using that by (simp add: open_port_def on_port_def insert_absorb fun_upd_idem)
  from symlink_port [OF m] show "\<exists>ret s'. cfgfs_link_port_to_subsys K n p s = Inr (ret, s') \<and>
      pr_cwd s' = pr_cwd s \<and> nv_spec (Link_port n p) (view (pr_fs s)) ret (view (pr_fs s'))"
    using assms p \<open>steady K (pr_cwd s)\<close> idem
    by (auto simp: cfgfs_link_port_to_subsys_def steady_simps call_defs resolve_simps m makes_def buf_ok
        EEXIST_def split: if_splits option.splits)
qed

lemma unlink_port_implements:
  assumes "ok_name n" "c_range p"
  shows "implements (cfgfs_unlink_port_from_subsys K n p) (nv_spec (Unlink_port n p))"
proof (rule implementsI)
  fix s :: "'k proc" assume "steady K (pr_cwd s)"
  note p = c_range_name [OF assms(2)]
  obtain e k where m: "fs_remove K (nv [''ports'', show_int p, ''subsystems'', n]) (pr_fs s) = (e, k)" by fastforce
  from remove_port [OF m] show "\<exists>ret s'. cfgfs_unlink_port_from_subsys K n p s = Inr (ret, s') \<and>
      pr_cwd s' = pr_cwd s \<and> nv_spec (Unlink_port n p) (view (pr_fs s)) ret (view (pr_fs s'))"
    using assms p \<open>steady K (pr_cwd s)\<close>
    by (auto simp: cfgfs_unlink_port_from_subsys_def steady_simps call_defs resolve_simps m buf_ok)
qed

subsection \<open>Subsystems, namespaces and ports\<close>

lemma write_str_cases:
  assumes "\<And>k. attempts [f] (view k) (view (fs_write K (resolve (pr_cwd s) fn) t k))"
  shows "\<exists>k. write_str K fn (Some t) s = Inr (s\<lparr>pr_fs := k\<rparr>) \<and> attempts [f] (view (pr_fs s)) (view k)"
  using assms [of "pr_fs s"] by (cases s) (auto simp: write_str_def Let_def)

lemma add_subsys_dom [simp]: "n \<in> dom (nv_subsys (add_subsys n new v))"
  by (auto simp: add_subsys_def)

lemma add_subsys_present: "n \<in> dom (nv_subsys v) \<Longrightarrow> add_subsys n new v = v"
  by (simp add: add_subsys_def)

lemma create_subsys_implements:
  assumes "ok_name n"
  shows "implements (cfgfs_create_subsys K n a) (nv_spec (Create_subsys n a))"
proof (rule implementsI)
  fix s :: "'k proc" assume s: "steady K (pr_cwd s)"
  let ?t = "if a \<noteq> 0 then ''1'' else ''0''"
  obtain e k where m: "fs_mkdir K (nv [''subsystems'', n]) (pr_fs s) = (e, k)" by fastforce
  from mkdir_subsys [OF m] obtain new where new: "nvs_hosts new = {}" "nvs_ns new = Map.empty"
    and mk: "makes (n \<in> dom (nv_subsys (view (pr_fs s)))) e (view (pr_fs s)) (add_subsys n new (view (pr_fs s))) (view k)"
    by blast
  show "\<exists>ret s'. cfgfs_create_subsys K n a s = Inr (ret, s') \<and> pr_cwd s' = pr_cwd s \<and>
      nv_spec (Create_subsys n a) (view (pr_fs s)) ret (view (pr_fs s'))"
  proof (cases "e \<noteq> 0 \<and> e \<noteq> EEXIST")
    case True
    then show ?thesis using mk assms s
      by (auto simp: cfgfs_create_subsys_def steady_simps call_defs resolve_simps m makes_def split: if_splits)
  next
    case False
    with mk have k: "view k = add_subsys n new (view (pr_fs s))"
      by (auto simp: makes_def add_subsys_present split: if_splits)
    let ?s = "s\<lparr>pr_cwd := nv [''subsystems'', n], pr_fs := k\<rparr>"
    obtain k' where w: "write_str K CFS_ALLOW_ANY (Some ?t) ?s = Inr (?s\<lparr>pr_fs := k'\<rparr>)"
      and k': "attempts [set_allow n ?t] (view k) (view k')"
      using write_str_cases [of "set_allow n ?t" ?s CFS_ALLOW_ANY ?t] write_allow [of n ?t] by (auto simp: resolve_simps)
    have "n \<in> dom (nv_subsys (view k))" unfolding k by simp
    then have "chdir K n (s\<lparr>pr_cwd := nv [''subsystems''], pr_fs := k\<rparr>) = (0, ?s)"
      using assms dir_subsys [of n k] by (simp add: chdir_def resolve_simps)
    then have "cfgfs_create_subsys K n a s = Inr (0, ?s\<lparr>pr_fs := k', pr_cwd := pr_cwd s\<rparr>)"
      using False s assms w
      by (auto simp: cfgfs_create_subsys_def steady_simps call_defs resolve_simps m write_chr_def TRUE_chr_def FALSE_chr_def
          split: if_splits)
    then show ?thesis using k' new unfolding k by auto
  qed
qed

lemma add_ns_present: "nv_subsys v n = Some ss \<Longrightarrow> i \<in> dom (nvs_ns ss) \<Longrightarrow> add_ns n i new v = v"
  by (simp add: add_ns_def on_subsys_def fun_upd_idem)

lemma add_ns_dir:
  "nv_subsys v n = Some ss \<Longrightarrow>
     \<exists>ss'. nv_subsys (add_ns n i new v) n = Some ss' \<and> i \<in> dom (nvs_ns ss')"
  by (auto simp: add_ns_def on_subsys_def)

lemma create_ns_implements:
  assumes "ok_name n" "c_range i"
  shows "implements (cfgfs_create_ns K n i d dn) (nv_spec (Create_ns n i d dn))"
proof (rule implementsI)
  fix s :: "'k proc" assume s: "steady K (pr_cwd s)"
  note i = c_range_name [OF assms(2)]
  let ?i = "show_int i" and ?dev = "if d = NULL_BLK_DEVID then NULL_BLK_DEVICE else NVME_DEVICE d dn"
  obtain e k where m: "fs_mkdir K (nv [''subsystems'', n, ''namespaces'', ?i]) (pr_fs s) = (e, k)" by fastforce
  note mk = mkdir_ns [OF m]
  show "\<exists>ret s'. cfgfs_create_ns K n i d dn s = Inr (ret, s') \<and> pr_cwd s' = pr_cwd s \<and>
      nv_spec (Create_ns n i d dn) (view (pr_fs s)) ret (view (pr_fs s'))"
  proof (cases "e \<noteq> 0 \<and> e \<noteq> EEXIST")
    case True
    then have "view k = view (pr_fs s)" using mk by (auto simp: makes_def split: option.splits if_splits)
    then show ?thesis using True assms s i
      by (simp add: cfgfs_create_ns_def steady_simps call_defs resolve_simps m buf_ok)
  next
    case False
    with mk obtain ss where ss: "nv_subsys (view (pr_fs s)) n = Some ss" by (auto split: option.splits)
    obtain new where k: "view k = add_ns n ?i new (view (pr_fs s))"
      using mk False by (cases "?i \<in> dom (nvs_ns ss)") (auto simp: makes_def add_ns_present [OF ss] ss)
    let ?s = "s\<lparr>pr_cwd := nv [''subsystems'', n, ''namespaces'', ?i], pr_fs := k\<rparr>"
    obtain k1 where w1: "write_str K CFS_DEV_PATH (Some ?dev) ?s = Inr (?s\<lparr>pr_fs := k1\<rparr>)"
      and k1: "attempts [on_ns n ?i (apfst (\<lambda>_. ?dev))] (view k) (view k1)"
      using write_str_cases [of "on_ns n ?i (apfst (\<lambda>_. ?dev))" ?s CFS_DEV_PATH ?dev] write_dev [of n ?i ?dev]
      by (auto simp: resolve_simps)
    obtain k2 where w2: "write_str K CFS_ENABLE (Some ''1'') (?s\<lparr>pr_fs := k1\<rparr>) = Inr (?s\<lparr>pr_fs := k2\<rparr>)"
      and k2: "attempts [on_ns n ?i (apsnd (\<lambda>_. ''1''))] (view k1) (view k2)"
      using write_str_cases [of "on_ns n ?i (apsnd (\<lambda>_. ''1''))" "?s\<lparr>pr_fs := k1\<rparr>" CFS_ENABLE "''1''"]
        write_enable [of n ?i "''1''"]
      by (auto simp: resolve_simps)
    have "fs_dir K (nv [''subsystems'', n, ''namespaces'', ?i]) k = 0"
      unfolding dir_ns k using add_ns_dir [OF ss] by blast
    then have "chdir K (n @ CHR ''/'' # CFS_NS @ ?i) (s\<lparr>pr_cwd := nv [''subsystems''], pr_fs := k\<rparr>) = (0, ?s)"
      using assms i by (simp add: chdir_def resolve_simps)
    then have "cfgfs_create_ns K n i d dn s = Inr (0, ?s\<lparr>pr_fs := k2, pr_cwd := pr_cwd s\<rparr>)"
      using False s assms i w1 w2
      by (auto simp: cfgfs_create_ns_def steady_simps call_defs resolve_simps m buf_ok write_chr_def TRUE_chr_def Let_def
          split: if_splits)
    moreover have "attempts [on_ns n ?i (apfst (\<lambda>_. ?dev)), on_ns n ?i (apsnd (\<lambda>_. ''1''))] (view k) (view k2)"
      using k1 k2 by auto
    then have "nv_spec (Create_ns n i d dn) (view (pr_fs s)) 0 (view k2)"
      using ss unfolding k nv_spec.simps if_P [OF refl] by blast
    ultimately show ?thesis by auto
  qed
qed

lemma drop_ns_on_ns: "attempts [on_ns n i f] v v' \<Longrightarrow> drop_ns n i v' = drop_ns n i v"
  by (cases "nv_subsys v n") (auto simp: drop_ns_def on_ns_def on_subsys_def)

lemma delete_ns_implements:
  assumes "ok_name n" "c_range i"
  shows "implements (cfgfs_delete_ns K n i) (nv_spec (Delete_ns n i))"
proof (rule implementsI)
  fix s :: "'k proc" assume s: "steady K (pr_cwd s)"
  note i = c_range_name [OF assms(2)]
  let ?i = "show_int i" and ?q = "nv [''subsystems'', n, ''namespaces'', show_int i]"
  show "\<exists>ret s'. cfgfs_delete_ns K n i s = Inr (ret, s') \<and> pr_cwd s' = pr_cwd s \<and>
      nv_spec (Delete_ns n i) (view (pr_fs s)) ret (view (pr_fs s'))"
  proof (cases "fs_dir K ?q (pr_fs s) = 0")
    case False
    then have "drop_ns n ?i (view (pr_fs s)) = view (pr_fs s)"
      unfolding dir_ns by (cases "nv_subsys (view (pr_fs s)) n")
        (auto simp: drop_ns_def on_subsys_def fun_upd_idem domIff)
    then show ?thesis using False s assms i
      by (simp add: cfgfs_delete_ns_def chdir_def [of K "n @ CHR ''/'' # CFS_NS @ ?i"] steady_simps resolve_simps buf_ok)
  next
    case True
    let ?s = "s\<lparr>pr_cwd := ?q\<rparr>"
    obtain k where w: "write_str K CFS_ENABLE (Some ''0'') ?s = Inr (?s\<lparr>pr_fs := k\<rparr>)"
      and k: "attempts [on_ns n ?i (apsnd (\<lambda>_. ''0''))] (view (pr_fs s)) (view k)"
      using write_str_cases [of "on_ns n ?i (apsnd (\<lambda>_. ''0''))" ?s CFS_ENABLE "''0''"] write_enable [of n ?i "''0''"]
      by (auto simp: resolve_simps)
    have up: "chdir K ''../../..'' (s\<lparr>pr_cwd := ?q, pr_fs := k\<rparr>) = (0, s\<lparr>pr_cwd := nv [''subsystems''], pr_fs := k\<rparr>)"
      using resolve_up(2) [of "nv [''subsystems'']" n "''namespaces''" ?i] by (simp add: chdir_def dir_top)
    show ?thesis using True s assms i w up rmdir_ns [of n ?i k] drop_ns_on_ns [OF k]
      by (simp add: cfgfs_delete_ns_def chdir_def [of K "n @ CHR ''/'' # CFS_NS @ ?i"] steady_simps resolve_simps buf_ok
          write_chr_def FALSE_chr_def rmdir_snd)
  qed
qed

text \<open>Ports: the attributes are written one after the other.\<close>

lemma write_attrs:
  assumes "fst ` set as \<subseteq> set port_files" "pr_cwd s = nv [''ports'', q]"
  shows "\<exists>k. each (\<lambda>(fn, v). write_str K fn v) (map (\<lambda>(a, t). (a, Some t)) as) s = Inr (s\<lparr>pr_fs := k\<rparr>) \<and>
           attempts (map (\<lambda>(a, t). set_attr q a t) as) (view (pr_fs s)) (view k)"
  using assms
proof (induction as arbitrary: s)
  case Nil
  then show ?case by (cases s) auto
next
  case (Cons x as)
  obtain a t where x: "x = (a, t)" by fastforce
  have "resolve (pr_cwd s) a = nv [''ports'', q, a]"
    using Cons.prems by (auto simp: x port_files_def resolve_attr)
  then obtain k where w: "write_str K a (Some t) s = Inr (s\<lparr>pr_fs := k\<rparr>)"
    and k: "attempts [set_attr q a t] (view (pr_fs s)) (view k)"
    using write_str_cases [of "set_attr q a t" s a t] write_attr [of a q t] Cons.prems by (auto simp: x)
  show ?case using Cons.IH [of "s\<lparr>pr_fs := k\<rparr>"] Cons.prems w k by (auto simp: x)
qed

lemma set_attr_dom: "dom (nv_ports (set_attr q a t v)) = dom (nv_ports v)"
  by (auto simp: set_attr_def on_port_def dom_def)

lemma attempts_attr_dom:
  "attempts (map (\<lambda>(a, t). set_attr q a t) as) v v' \<Longrightarrow> dom (nv_ports v') = dom (nv_ports v)"
proof (induction as arbitrary: v)
  case (Cons x as)
  obtain a t where x: "x = (a, t)" by fastforce
  show ?case using Cons.prems Cons.IH [of v] Cons.IH [of "set_attr q a t v"] by (auto simp: x set_attr_dom)
qed simp

lemma takeWhile_newline:
  "CHR 0x0A \<notin> set x \<Longrightarrow> takeWhile (\<lambda>c. c \<noteq> CHR 0x0A) (take m (x @ [CHR 0x0A])) = take m x"
  by (induction x arbitrary: m) (auto simp: take_Cons split: nat.split)

lemma same_attrs_view:
  assumes "fst ` set as \<subseteq> set port_files" "pr_cwd s = nv [''ports'', q]" "nv_ports (view (pr_fs s)) q = Some pt"
  shows "same_attrs K (map (\<lambda>(a, t). (a, Some t)) as) s = Inr (attrs_match as (Some pt))"
  using assms(1)
proof (induction as)
  case (Cons x as)
  obtain a t where x: "x = (a, t)" by fastforce
  have "resolve (pr_cwd s) a = nv [''ports'', q, a]"
    using Cons.prems assms(2) by (auto simp: x port_files_def resolve_attr)
  then have "read_str K a s = take (MAXSTRLEN - 2) (nvp_attr pt a)"
    using read_attr [OF assms(3), of a] Cons.prems by (simp add: x read_str_def takeWhile_newline del: take_append)
  then show ?case using Cons by (simp add: x same_str_def attrs_match_def)
qed (simp add: attrs_match_def)

lemma port_attrs_values:
  "port_attrs (Some fam) (Some typ) req (Some addr) svcid = map (\<lambda>(a, t). (a, Some t)) (port_values fam typ req addr svcid)"
  "fst ` set (port_values fam typ req addr svcid) \<subseteq> set port_files"
  by (simp_all add: port_attrs_def port_values_def port_files_def)

lemma num_str_name: "c_range i \<Longrightarrow> ok_name (num_str i)"
proof -
  assume i: "c_range i"
  have "take 6 (show_int i) \<noteq> []" using c_range_name [OF i] ok_name_nonempty by (cases "show_int i") fastforce+
  moreover have "set (take 6 (show_int i)) \<subseteq> insert (CHR ''-'') (Collect is_digit)"
    using show_nat_digits by (auto simp: show_int_def take_Cons' list_all_iff dest!: in_set_takeD split: if_splits)
  then have "CHR ''.'' \<notin> set (take 6 (show_int i))" "CHR ''/'' \<notin> set (take 6 (show_int i))"
    by (auto simp: is_digit_def)
  then have "take 6 (show_int i) \<noteq> ''.''" "take 6 (show_int i) \<noteq> ''..''" "CHR ''/'' \<notin> set (take 6 (show_int i))"
    by (metis list.set_intros(1))+
  ultimately show ?thesis by (simp add: num_str_def ok_name_def del: ok_name_simps)
qed

lemma create_portid_implements:
  assumes "c_range p"
  shows "implements (cfgfs_create_portid K p (Some fam) (Some typ) req (Some addr) svcid)
           (nv_spec (Create_portid p fam typ req addr svcid))"
proof (rule implementsI)
  fix s :: "'k proc" assume s: "steady K (pr_cwd s)"
  note q = num_str_name [OF assms]
  let ?q = "num_str p" and ?v = "view (pr_fs s)" and ?as = "port_values fam typ req addr svcid"
  let ?f = "cfgfs_create_portid K p (Some fam) (Some typ) req (Some addr) svcid"
  let ?R = "nv_spec (Create_portid p fam typ req addr svcid)"
  obtain e k where m: "fs_mkdir K (nv [''ports'', ?q]) (pr_fs s) = (e, k)" by fastforce
  from mkdir_port [OF m] obtain new where new: "nvp_subsys new = {}"
    and mk: "makes (?q \<in> dom (nv_ports ?v)) e ?v (add_port ?q new ?v) (view k)" by blast
  show "\<exists>ret s'. ?f s = Inr (ret, s') \<and> pr_cwd s' = pr_cwd s \<and> ?R ?v ret (view (pr_fs s'))"
  proof (cases "e \<noteq> 0 \<and> e \<noteq> EEXIST")
    case True
    then show ?thesis using mk q s
      by (simp add: cfgfs_create_portid_def Let_def steady_simps call_defs resolve_simps m makes_def split: if_splits)
  next
    case False
    let ?s = "s\<lparr>pr_cwd := nv [''ports'', ?q], pr_fs := k\<rparr>"
    have dom: "?q \<in> dom (nv_ports (view k))" and old: "?q \<in> dom (nv_ports ?v) \<longleftrightarrow> e = EEXIST"
      and v: "view k = (if e = EEXIST then ?v else add_port ?q new ?v)"
      using mk False by (auto simp: makes_def add_port_def EEXIST_def split: if_splits)
    have at_port: "chdir K ?q (s\<lparr>pr_cwd := nv [''ports''], pr_fs := k\<rparr>) = (0, ?s)"
      using q dom dir_port(1) [of ?q k] by (simp add: chdir_def resolve_simps)
    from write_attrs [OF port_attrs_values(2), of ?s ?q fam "typ" req addr svcid] obtain k' where
      w: "each (\<lambda>(fn, v). write_str K fn v) (map (\<lambda>(a, t). (a, Some t)) ?as) ?s = Inr (?s\<lparr>pr_fs := k'\<rparr>)"
      and k': "attempts (map (\<lambda>(a, t). set_attr ?q a t) ?as) (view k) (view k')" by auto
    from dom attempts_attr_dom [OF k'] obtain pt where pt: "nv_ports (view k') ?q = Some pt" by auto
    have same: "same_attrs K (map (\<lambda>(a, t). (a, Some t)) ?as) (?s\<lparr>pr_fs := k'\<rparr>) = Inr (attrs_match ?as (Some pt))"
      by (rule same_attrs_view [OF port_attrs_values(2), of "?s\<lparr>pr_fs := k'\<rparr>" ?q]) (use pt in simp_all)
    have run: "?f s = Inr (if e = 0 \<or> attrs_match ?as (Some pt) then 0 else - EBUSY, s\<lparr>pr_fs := k'\<rparr>)"
      using False s q at_port w same
      by (auto simp: cfgfs_create_portid_def Let_def steady_simps call_defs resolve_simps m port_attrs_values(1) EEXIST_def)
    have "?R ?v (if e = 0 \<or> attrs_match ?as (Some pt) then 0 else - EBUSY) (view k')"
    proof (cases "e = EEXIST")
      case True
      then show ?thesis using k' v old pt by (simp add: Let_def EEXIST_def)
    next
      case False
      then have "e = 0" using \<open>\<not> (e \<noteq> 0 \<and> e \<noteq> EEXIST)\<close> by simp
      then show ?thesis using k' v old new False by (auto simp: Let_def)
    qed
    then show ?thesis by (rule done_at [of ?f s _ k' ?R ?v, OF run])
  qed
qed

text \<open>Loops that go through a directory.\<close>

lemma each_view:
  assumes "\<And>x s. x \<in> set xs \<Longrightarrow> pr_cwd s = c \<Longrightarrow>
      \<exists>k. f x s = Inr (s\<lparr>pr_fs := k\<rparr>) \<and> view k = g x (view (pr_fs s))"
    and "pr_cwd s = c"
  shows "\<exists>k. each f xs s = Inr (s\<lparr>pr_fs := k\<rparr>) \<and> view k = fold g xs (view (pr_fs s))"
  using assms
proof (induction xs arbitrary: s)
  case Nil
  then show ?case by (cases s) auto
next
  case (Cons x xs)
  obtain k where k: "f x s = Inr (s\<lparr>pr_fs := k\<rparr>)" "view k = g x (view (pr_fs s))"
    using Cons.prems by (metis list.set_intros(1))
  have "\<exists>k'. each f xs (s\<lparr>pr_fs := k\<rparr>) = Inr (s\<lparr>pr_fs := k\<rparr>\<lparr>pr_fs := k'\<rparr>) \<and> view k' = fold g xs (view k)"
    using Cons.IH [of "s\<lparr>pr_fs := k\<rparr>"] Cons.prems by simp
  then show ?case using k by auto
qed

definition listed :: "path \<Rightarrow> 'k \<Rightarrow> string list" where
  "listed q k = filter (\<lambda>n. n \<noteq> ''.'' \<and> n \<noteq> ''..'') (fs_entries K q k)"

lemma set_listed: "set (listed q k) = set (fs_entries K q k) - {''.'', ''..''}"
  by (auto simp: listed_def)

lemma distinct_listed: "distinct (listed q k)"
  by (simp add: listed_def entries_distinct)

lemma fold_close_port:
  "nv_ports (fold (close_port p) ns v) p = map_option (\<lambda>pt. pt\<lparr>nvp_subsys := nvp_subsys pt - set ns\<rparr>) (nv_ports v p)"
  "r \<noteq> p \<Longrightarrow> nv_ports (fold (close_port p) ns v) r = nv_ports v r"
  "nv_subsys (fold (close_port p) ns v) = nv_subsys v" "nv_hosts (fold (close_port p) ns v) = nv_hosts v"
  by (induction ns arbitrary: v) (auto simp: close_port_def on_port_def option.map_comp comp_def option.map_ident
      Diff_insert2 [symmetric] intro!: option.map_cong split: option.split)

lemma delete_portid_implements:
  assumes "c_range p"
  shows "implements (cfgfs_delete_portid K p) (nv_spec (Delete_portid p))"
proof (rule implementsI)
  fix s :: "'k proc" assume s: "steady K (pr_cwd s)"
  note q = c_range_name [OF assms]
  let ?q = "show_int p" and ?v = "view (pr_fs s)" and ?s = "s\<lparr>pr_cwd := nv [''ports'']\<rparr>"
  let ?path = "?q @ CHR ''/'' # CFS_SUBSYS" and ?d = "nv [''ports'', show_int p, ''subsystems'']"
  have dir: "resolve (nv [''ports'']) ?path = ?d" using q by (simp add: resolve_simps)
  show "\<exists>ret s'. cfgfs_delete_portid K p s = Inr (ret, s') \<and> pr_cwd s' = pr_cwd s \<and>
      nv_spec (Delete_portid p) ?v ret (view (pr_fs s'))"
  proof (cases "nv_ports ?v ?q")
    case None
    then have "opendir K ?path ?s = Inl (fs_dir K ?d (pr_fs s))"
      using dir_port(2) [of ?q "pr_fs s"] by (auto simp: opendir_def dir Let_def)
    then show ?thesis using s None by (auto simp: cfgfs_delete_portid_def steady_simps purge_port_def fun_upd_idem)
  next
    case (Some pt)
    let ?ns = "listed ?d (pr_fs s)"
    have names: "set ?ns = nvp_subsys pt" using entries_port [OF Some] by (simp add: set_listed)
    have od: "opendir K ?path ?s = Inr ?ns"
      using dir_port(2) [of ?q "pr_fs s"] Some by (auto simp: opendir_def dir listed_def Let_def)
    let ?f = "\<lambda>n s. exec_bind (path_buf (?path @ CHR ''/'' # n)) (\<lambda>p. Inr (snd (remove_path K p s)))"
    have "\<exists>k. each ?f ?ns ?s = Inr (?s\<lparr>pr_fs := k\<rparr>) \<and> view k = fold (close_port ?q) ?ns (view (pr_fs ?s))"
    proof (rule each_view [where c = "nv [''ports'']"])
      fix n s assume n: "n \<in> set ?ns" and c: "pr_cwd (s :: 'k proc) = nv [''ports'']"
      then have "ok_name n" using names_in(2) [OF Some] names by auto
      then show "\<exists>k. ?f n s = Inr (s\<lparr>pr_fs := k\<rparr>) \<and> view k = close_port ?q n (view (pr_fs s))"
        using q c remove_port [OF prod.collapse [symmetric], of ?q n "pr_fs s"]
        by (auto simp: buf_ok remove_snd resolve_simps)
    qed simp
    then obtain k where k: "each ?f ?ns ?s = Inr (?s\<lparr>pr_fs := k\<rparr>)" "view k = fold (close_port ?q) ?ns ?v" by auto
    have "nv_ports (view k) ?q = Some (pt\<lparr>nvp_subsys := {}\<rparr>)"
      using fold_close_port(1) [of ?q ?ns ?v] Some names by (simp add: k(2))
    then have "drop_port ?q (view k) = (view k)\<lparr>nv_ports := (nv_ports (view k))(?q := None)\<rparr>"
      by (simp add: drop_port_def)
    also have "\<dots> = purge_port ?q ?v"
      using fold_close_port(2) [of _ ?q ?ns ?v] fold_close_port(3,4) [of ?q ?ns ?v] unfolding k(2)
      by (intro nvmet.equality) (auto simp: purge_port_def)
    finally have "view (snd (fs_rmdir K (nv [''ports'', ?q]) k)) = purge_port ?q ?v" by (simp add: rmdir_port)
    then show ?thesis using s od k(1) q
      by (simp add: cfgfs_delete_portid_def Let_def steady_simps rmdir_snd resolve_simps)
  qed
qed

lemma on_subsys_twice: "on_subsys n f (on_subsys n g v) = on_subsys n (f \<circ> g) v"
  by (simp add: on_subsys_def option.map_comp)

lemma on_subsys_id: "on_subsys n (\<lambda>ss. ss) v = v"
  by (simp add: on_subsys_def option.map_ident)

lemma on_subsys_cong: "(\<And>ss. nv_subsys v n = Some ss \<Longrightarrow> f ss = g ss) \<Longrightarrow> on_subsys n f v = on_subsys n g v"
  by (cases "nv_subsys v n") (simp_all add: on_subsys_def)

lemma on_subsys_at: "nv_subsys (on_subsys n f v) n = map_option f (nv_subsys v n)"
  by (simp add: on_subsys_def)

lemma fold_disallow_host: "fold (disallow_host n) hs v = on_subsys n (\<lambda>ss. ss\<lparr>nvs_hosts := nvs_hosts ss - set hs\<rparr>) v"
proof (induction hs arbitrary: v)
  case Nil
  then show ?case by (simp add: on_subsys_id)
next
  case (Cons h hs)
  then show ?case by (simp add: disallow_host_def on_subsys_twice comp_def Diff_insert2 [symmetric])
qed

lemma fold_drop_ns: "fold (drop_ns n) is v = on_subsys n (\<lambda>ss. ss\<lparr>nvs_ns := nvs_ns ss |` (- set is)\<rparr>) v"
proof (induction "is" arbitrary: v)
  case Nil
  then show ?case by (simp add: on_subsys_id)
next
  case (Cons i "is")
  have eq: "(m(i := None)) |` (- set is) = m |` (- insert i (set is))" for m :: "string \<rightharpoonup> string \<times> string"
    by (auto simp: restrict_map_def)
  from Cons show ?case by (simp add: drop_ns_def on_subsys_twice comp_def eq del: restrict_upd_same restrict_fun_upd)
qed

lemma delete_all_allowed_hosts_view:
  assumes "pr_cwd s = nv [''subsystems'', n]" "nv_subsys (view (pr_fs s)) n = Some ss"
  shows "\<exists>k. delete_all_allowed_hosts K s = Inr (s\<lparr>pr_fs := k\<rparr>) \<and>
           view k = on_subsys n (\<lambda>ss. ss\<lparr>nvs_hosts := {}\<rparr>) (view (pr_fs s))"
proof -
  let ?hs = "listed (nv [''subsystems'', n, ''allowed_hosts'']) (pr_fs s)"
  let ?f = "\<lambda>h s. exec_bind (path_buf (CFS_ALLOWED @ h)) (\<lambda>path. Inr (snd (remove_path K path s)))"
  have hosts: "set ?hs = nvs_hosts ss" using entries_hosts [OF assms(2)] by (simp add: set_listed)
  have od: "opendir K CFS_ALLOWED s = Inr ?hs"
    using assms dir_sub [of "''allowed_hosts''" n "pr_fs s"] by (auto simp: opendir_def resolve_simps listed_def Let_def)
  have "\<exists>k. each ?f ?hs s = Inr (s\<lparr>pr_fs := k\<rparr>) \<and> view k = fold (disallow_host n) ?hs (view (pr_fs s))"
  proof (rule each_view [where c = "nv [''subsystems'', n]"])
    fix h s assume h: "h \<in> set ?hs" and c: "pr_cwd (s :: 'k proc) = nv [''subsystems'', n]"
    then have "ok_name h" using names_in(1) [OF assms(2)] hosts by auto
    then show "\<exists>k. ?f h s = Inr (s\<lparr>pr_fs := k\<rparr>) \<and> view k = disallow_host n h (view (pr_fs s))"
      using c remove_host [OF prod.collapse [symmetric], of n h "pr_fs s"]
      by (auto simp: buf_ok remove_snd resolve_simps)
  qed (rule assms(1))
  moreover have "fold (disallow_host n) ?hs (view (pr_fs s)) = on_subsys n (\<lambda>ss. ss\<lparr>nvs_hosts := {}\<rparr>) (view (pr_fs s))"
    unfolding fold_disallow_host hosts using assms(2) by (intro on_subsys_cong) simp
  ultimately show ?thesis by (simp add: delete_all_allowed_hosts_def od)
qed

lemma delete_ns_step:
  assumes "pr_cwd s = nv [''subsystems'', n]" "nv_subsys (view (pr_fs s)) n = Some ss" "i \<in> dom (nvs_ns ss)"
  shows "\<exists>k. exec_bind (path_buf (CFS_NS @ i)) (\<lambda>path.
            exec_bind (write_chr K CFS_ENABLE FALSE_chr (snd (chdir K path s))) (\<lambda>s.
            Inr (snd (rmdir K path (snd (chdir K ''../..'' s)))))) = Inr (s\<lparr>pr_fs := k\<rparr>) \<and>
           view k = drop_ns n i (view (pr_fs s))"
proof -
  let ?q = "nv [''subsystems'', n, ''namespaces'', i]" let ?s = "s\<lparr>pr_cwd := ?q\<rparr>"
  have i: "ok_name i" using names_in(1) [OF assms(2), of i] assms(3) by simp
  have at_ns: "chdir K (CFS_NS @ i) s = (0, ?s)"
    using dir_ns [of n i "pr_fs s"] assms i by (auto simp: chdir_def resolve_simps Let_def)
  obtain k where w: "write_str K CFS_ENABLE (Some ''0'') ?s = Inr (?s\<lparr>pr_fs := k\<rparr>)"
    and k: "attempts [on_ns n i (apsnd (\<lambda>_. ''0''))] (view (pr_fs s)) (view k)"
    using write_str_cases [of "on_ns n i (apsnd (\<lambda>_. ''0''))" ?s CFS_ENABLE "''0''"] write_enable [of n i "''0''"]
    by (auto simp: resolve_simps)
  then have "n \<in> dom (nv_subsys (view k))" using assms(2) by (auto simp: on_ns_def on_subsys_def)
  then have up: "chdir K ''../..'' (?s\<lparr>pr_fs := k\<rparr>) = (0, s\<lparr>pr_fs := k\<rparr>)"
    using resolve_up(1) [of "nv [''subsystems'', n]" "''namespaces''" i] dir_subsys [of n k] assms(1)
    by (cases s) (auto simp: chdir_def Let_def)
  show ?thesis using assms(1) at_ns i w up rmdir_ns [of n i k] drop_ns_on_ns [OF k]
    by (auto simp: buf_ok write_chr_def FALSE_chr_def rmdir_snd resolve_simps)
qed

lemma delete_all_ns_view:
  assumes "pr_cwd s = nv [''subsystems'', n]" "nv_subsys (view (pr_fs s)) n = Some ss"
  shows "\<exists>k. delete_all_ns K s = Inr (s\<lparr>pr_fs := k\<rparr>) \<and>
           view k = on_subsys n (\<lambda>ss. ss\<lparr>nvs_ns := Map.empty\<rparr>) (view (pr_fs s))"
proof -
  let ?is = "listed (nv [''subsystems'', n, ''namespaces'']) (pr_fs s)"
  let ?f = "\<lambda>i s. exec_bind (path_buf (CFS_NS @ i)) (\<lambda>path.
            exec_bind (write_chr K CFS_ENABLE FALSE_chr (snd (chdir K path s))) (\<lambda>s.
            Inr (snd (rmdir K path (snd (chdir K ''../..'' s))))))"
  have ids: "set ?is = dom (nvs_ns ss)" using entries_ns [OF assms(2)] by (simp add: set_listed)
  have od: "opendir K CFS_NS s = Inr ?is"
    using assms dir_sub [of "''namespaces''" n "pr_fs s"] by (auto simp: opendir_def resolve_simps listed_def Let_def)
  have "\<exists>k. each ?f is s = Inr (s\<lparr>pr_fs := k\<rparr>) \<and> view k = fold (drop_ns n) is (view (pr_fs s))"
    if "distinct is" "set is \<subseteq> dom (nvs_ns ss)" "pr_cwd s = nv [''subsystems'', n]"
      "nv_subsys (view (pr_fs s)) n = Some ss" for "is" ss s
    using that
  proof (induction "is" arbitrary: s ss)
    case Nil
    then show ?case by (cases s) auto
  next
    case (Cons i "is")
    from delete_ns_step [OF Cons.prems(3,4), of i] Cons.prems(2) obtain k where
      k: "?f i s = Inr (s\<lparr>pr_fs := k\<rparr>)" "view k = drop_ns n i (view (pr_fs s))" by auto
    have "nv_subsys (view k) n = Some (ss\<lparr>nvs_ns := (nvs_ns ss)(i := None)\<rparr>)"
      using Cons.prems(4) by (simp add: k(2) drop_ns_def on_subsys_at)
    then have "\<exists>k'. each ?f is (s\<lparr>pr_fs := k\<rparr>) = Inr (s\<lparr>pr_fs := k\<rparr>\<lparr>pr_fs := k'\<rparr>) \<and>
        view k' = fold (drop_ns n) is (view (pr_fs (s\<lparr>pr_fs := k\<rparr>)))"
      using Cons.prems(1-3) by (intro Cons.IH) auto
    then show ?case using k by auto
  qed
  from this [OF distinct_listed _ assms(1,2), of "nv [''subsystems'', n, ''namespaces'']" "pr_fs s"] ids obtain k where
    k: "each ?f ?is s = Inr (s\<lparr>pr_fs := k\<rparr>)" "view k = fold (drop_ns n) ?is (view (pr_fs s))" by auto
  have "view k = on_subsys n (\<lambda>ss. ss\<lparr>nvs_ns := Map.empty\<rparr>) (view (pr_fs s))"
    unfolding k(2) fold_drop_ns ids using assms(2)
    by (intro on_subsys_cong arg_cong [of _ _ "\<lambda>m. nvs_ns_update (\<lambda>_. m) _"] ext) (auto simp: restrict_map_def)
  then show ?thesis using k(1) by (auto simp: delete_all_ns_def od)
qed

lemma unlink_port_view:
  assumes "pr_cwd s = nv []" "ok_name n" "ok_name p"
  shows "\<exists>k. unlink_port K n p s = Inr (s\<lparr>pr_fs := k\<rparr>) \<and> view k = close_port p n (view (pr_fs s))"
proof (cases "nv_ports (view (pr_fs s)) p")
  case None
  then have "fs_dir K (nv [''ports'', p, ''subsystems'']) (pr_fs s) \<noteq> 0" using dir_port(2) [of p "pr_fs s"] by auto
  moreover have "close_port p n (view (pr_fs s)) = view (pr_fs s)"
    using None by (simp add: close_port_def on_port_def fun_upd_idem)
  ultimately show ?thesis using assms
    by (intro exI [of _ "pr_fs s"]) (cases s, simp add: unlink_port_def opendir_def buf_ok resolve_simps)
next
  case (Some pt)
  let ?ns = "listed (nv [''ports'', p, ''subsystems'']) (pr_fs s)"
  let ?f = "\<lambda>m s. if m = n then exec_bind (path_buf (CFS_PORTS @ p @ ''/'' @ CFS_SUBSYS @ n)) (\<lambda>path.
      Inr (snd (remove_path K path s))) else Inr s"
  let ?g = "\<lambda>m v. if m = n then close_port p n v else v"
  have "\<exists>k. each ?f ?ns s = Inr (s\<lparr>pr_fs := k\<rparr>) \<and> view k = fold ?g ?ns (view (pr_fs s))"
  proof (rule each_view [where c = "nv []"])
    fix m s assume "m \<in> set ?ns" and c: "pr_cwd (s :: 'k proc) = nv []"
    then show "\<exists>k. ?f m s = Inr (s\<lparr>pr_fs := k\<rparr>) \<and> view k = ?g m (view (pr_fs s))"
      using assms remove_port [OF prod.collapse [symmetric], of p n "pr_fs s"]
      by (cases s) (auto simp: buf_ok remove_snd resolve_simps)
  qed (rule assms(1))
  moreover have "fold ?g ms v = (if n \<in> set ms then close_port p n v else v)" for ms v
    by (induction ms arbitrary: v) (auto simp: close_port_def on_port_def option.map_comp comp_def)
  moreover have "close_port p n (view (pr_fs s)) = view (pr_fs s)" if "n \<notin> set ?ns"
    using that entries_port [OF Some] Some by (auto simp: set_listed close_port_def on_port_def fun_upd_idem)
  moreover have "opendir K (CFS_PORTS @ p @ CHR ''/'' # CFS_SUBSYS) s = Inr ?ns"
    using dir_port(2) [of p "pr_fs s"] Some assms by (auto simp: opendir_def listed_def Let_def resolve_simps)
  ultimately show ?thesis using assms by (simp add: unlink_port_def buf_ok split: if_splits)
qed

lemma fold_close_ports:
  "fold (\<lambda>p. close_port p n) ps v =
     v\<lparr>nv_ports := (\<lambda>p. if p \<in> set ps then map_option (\<lambda>pt. pt\<lparr>nvp_subsys := nvp_subsys pt - {n}\<rparr>) (nv_ports v p)
                     else nv_ports v p)\<rparr>"
  by (induction ps arbitrary: v)
    (auto simp: close_port_def on_port_def fun_eq_iff option.map_comp comp_def intro!: nvmet.equality)

lemma unlink_all_ports_view:
  assumes "ok_name n"
  shows "\<exists>k. unlink_all_ports K n s = Inr (s\<lparr>pr_cwd := nv [], pr_fs := k\<rparr>) \<and>
           view k = (view (pr_fs s))\<lparr>nv_ports := (\<lambda>p. map_option (\<lambda>pt. pt\<lparr>nvp_subsys := nvp_subsys pt - {n}\<rparr>)
                       (nv_ports (view (pr_fs s)) p))\<rparr>"
proof -
  let ?ps = "listed (nv [''ports'']) (pr_fs s)" and ?s = "s\<lparr>pr_cwd := nv []\<rparr>"
  have ports: "set ?ps = dom (nv_ports (view (pr_fs s)))" using entries_top(2) by (simp add: set_listed)
  have "\<exists>k. each (unlink_port K n) ?ps ?s = Inr (?s\<lparr>pr_fs := k\<rparr>) \<and>
      view k = fold (\<lambda>p. close_port p n) ?ps (view (pr_fs ?s))"
  proof (rule each_view [where c = "nv []"])
    fix p s assume "p \<in> set ?ps" and c: "pr_cwd (s :: 'k proc) = nv []"
    then have "ok_name p" using names [of p "pr_fs s"] names ports by blast
    then show "\<exists>k. unlink_port K n p s = Inr (s\<lparr>pr_fs := k\<rparr>) \<and> view k = close_port p n (view (pr_fs s))"
      using c assms by (intro unlink_port_view)
  qed simp
  moreover have "opendir K CFS_PORTS ?s = Inr ?ps"
    using dir_top(3) [of "pr_fs s"] by (simp add: opendir_def listed_def resolve_simps)
  moreover have "fold (\<lambda>p. close_port p n) ?ps v = v\<lparr>nv_ports :=
      (\<lambda>p. map_option (\<lambda>pt. pt\<lparr>nvp_subsys := nvp_subsys pt - {n}\<rparr>) (nv_ports v p))\<rparr>" if "v = view (pr_fs s)" for v
    using that unfolding fold_close_ports ports by (auto intro!: nvmet.equality simp: fun_eq_iff domIff)
  ultimately show ?thesis by (auto simp: unlink_all_ports_def)
qed

lemma delete_subsys_implements:
  assumes "ok_name n"
  shows "implements (cfgfs_delete_subsys K n) (nv_spec (Delete_subsys n))"
proof (rule implementsI)
  fix s :: "'k proc" assume s: "steady K (pr_cwd s)"
  let ?v = "view (pr_fs s)" and ?s = "s\<lparr>pr_cwd := nv [''subsystems'', n]\<rparr>"
  have enter: "chdir K (CFS_PATH @ CFS_SUBSYS @ n) s =
      (if n \<in> dom (nv_subsys ?v) then (0, ?s) else (fs_dir K (nv [''subsystems'', n]) (pr_fs s), s))"
    using assms dir_subsys [of n "pr_fs s"] by (simp add: chdir_def resolve_simps)
  show "\<exists>ret s'. cfgfs_delete_subsys K n s = Inr (ret, s') \<and> pr_cwd s' = pr_cwd s \<and>
      nv_spec (Delete_subsys n) ?v ret (view (pr_fs s'))"
  proof (cases "nv_subsys ?v n")
    case None
    then have "fs_dir K (nv [''subsystems'', n]) (pr_fs s) \<noteq> 0" using dir_subsys [of n "pr_fs s"] by auto
    then show ?thesis using assms s None enter
      by (auto simp: cfgfs_delete_subsys_def buf_ok purge_subsys_def domIff)
  next
    case (Some ss)
    from delete_all_allowed_hosts_view [of ?s n ss] Some obtain k1 where
      1: "delete_all_allowed_hosts K ?s = Inr (?s\<lparr>pr_fs := k1\<rparr>)"
        "view k1 = on_subsys n (\<lambda>ss. ss\<lparr>nvs_hosts := {}\<rparr>) ?v" by auto
    from delete_all_ns_view [of "?s\<lparr>pr_fs := k1\<rparr>" n "ss\<lparr>nvs_hosts := {}\<rparr>"] Some obtain k2 where
      2: "delete_all_ns K (?s\<lparr>pr_fs := k1\<rparr>) = Inr (?s\<lparr>pr_fs := k2\<rparr>)"
        "view k2 = on_subsys n (\<lambda>ss. ss\<lparr>nvs_ns := Map.empty\<rparr>) (view k1)" by (auto simp: 1 on_subsys_at)
    from unlink_all_ports_view [OF assms, of "?s\<lparr>pr_fs := k2\<rparr>"] obtain k3 where
      3: "unlink_all_ports K n (?s\<lparr>pr_fs := k2\<rparr>) = Inr (s\<lparr>pr_cwd := nv [], pr_fs := k3\<rparr>)"
        "view k3 = (view k2)\<lparr>nv_ports := (\<lambda>p. map_option (\<lambda>pt. pt\<lparr>nvp_subsys := nvp_subsys pt - {n}\<rparr>)
            (nv_ports (view k2) p))\<rparr>" by auto
    have "drop_subsys n (view k3) = purge_subsys n ?v"
      using Some by (auto simp: drop_subsys_def purge_subsys_def subsys_busy_def 1 2 3 on_subsys_def)
    then show ?thesis using assms s Some enter 1(1) 2(1) 3(1) rmdir_subsys [of n k3]
      by (auto simp: cfgfs_delete_subsys_def buf_ok steady_simps rmdir_snd resolve_simps Let_def)
  qed
qed

subsection \<open>All commands, and the whole configuration\<close>

theorem cfgfs_implements:
  assumes "cmd_ok cmd"
  shows "implements (run_cmd (cfgfs_register_ops K debug) cmd) (nv_spec cmd)"
  using assms
  by (cases cmd)
    (simp_all add: cfgfs_register_ops_def create_subsys_implements delete_subsys_implements create_ns_implements
      delete_ns_implements create_host_implements delete_host_implements create_portid_implements
      delete_portid_implements link_host_implements unlink_host_implements link_port_implements unlink_port_implements
      del: nv_spec.simps)

lemma nv_spec_delete:
  "nv_spec (Delete_subsys n) = (\<lambda>v ret v'. ret = 0 \<and> v' = purge_subsys n v)"
  "nv_spec (Delete_portid p) = (\<lambda>v ret v'. ret = 0 \<and> v' = purge_port (show_int p) v)"
  "nv_spec (Delete_host h) = (\<lambda>v ret v'. ret = 0 \<and> v' = drop_host h v)"
  by (intro ext, simp)+

lemma deletes_view:
  assumes "implements f (\<lambda>v ret v'. ret = 0 \<and> v' = g v)" "steady K (pr_cwd s)"
  shows "\<exists>k. exec_bind (f s) (\<lambda>(_, s). Inr s) = Inr (s\<lparr>pr_fs := k\<rparr>) \<and> view k = g (view (pr_fs s))"
proof -
  from assms obtain s' where s': "f s = Inr (0, s')" "pr_cwd s' = pr_cwd s" "view (pr_fs s') = g (view (pr_fs s))"
    by (auto simp: implements_def)
  have "s' = s\<lparr>pr_fs := pr_fs s'\<rparr>" using s'(2) by (cases s, cases s') simp
  then obtain k where "s' = s\<lparr>pr_fs := k\<rparr>" by blast
  then show ?thesis using s' by auto
qed

lemma delete_entries_view:
  assumes "pr_cwd s = nv []" "fs_dir K (nv [d]) (pr_fs s) = 0" "walk (nv []) sub = nv [d]"
    "\<And>n. n \<in> set (listed (nv [d]) (pr_fs s)) \<Longrightarrow> implements (f n) (\<lambda>v ret v'. ret = 0 \<and> v' = g n v)"
  shows "\<exists>k. delete_entries K sub f s = Inr (s\<lparr>pr_fs := k\<rparr>) \<and>
           view k = fold g (listed (nv [d]) (pr_fs s)) (view (pr_fs s))"
proof -
  have "opendir K (CFS_PATH @ sub) s = Inr (listed (nv [d]) (pr_fs s))"
    using assms(2,3) by (simp add: opendir_def resolve_cfs_path listed_def)
  moreover have "\<exists>k. each (\<lambda>n s. exec_bind (f n s) (\<lambda>(_, s). Inr s)) (listed (nv [d]) (pr_fs s)) s = Inr (s\<lparr>pr_fs := k\<rparr>) \<and>
      view k = fold g (listed (nv [d]) (pr_fs s)) (view (pr_fs s))"
    using assms(1,4) steady_nv by (intro each_view deletes_view) auto
  ultimately show ?thesis by (simp add: delete_entries_def)
qed

lemma restrict_compl_dom: "m |` (- dom m) = Map.empty"
  by (auto simp: restrict_map_def)

lemma fold_purge_subsys:
  "nv_subsys (fold purge_subsys ns v) = nv_subsys v |` (- set ns)"
  "dom (nv_ports (fold purge_subsys ns v)) = dom (nv_ports v)" "nv_hosts (fold purge_subsys ns v) = nv_hosts v"
proof (induction ns arbitrary: v)
  case (Cons n ns)
  { case 1
    have "nv_subsys (purge_subsys n v) = (nv_subsys v)(n := None)" by (auto simp: purge_subsys_def domIff)
    then show ?case using Cons(1) [of "purge_subsys n v"] by (simp add: restrict_map_def) (rule ext, simp) }
  { case 2
    show ?case using Cons(2) [of "purge_subsys n v"] by (auto simp: purge_subsys_def dom_def) }
  { case 3
    show ?case using Cons(3) [of "purge_subsys n v"] by (simp add: purge_subsys_def) }
qed (simp_all add: restrict_map_def)

lemma fold_purge_port:
  "fold purge_port ps v = v\<lparr>nv_ports := nv_ports v |` (- set ps)\<rparr>"
  by (induction ps arbitrary: v) (auto simp: purge_port_def fun_eq_iff restrict_map_def intro!: nvmet.equality)

lemma fold_drop_host:
  "nv_subsys v = Map.empty \<Longrightarrow> fold drop_host hs v = v\<lparr>nv_hosts := nv_hosts v - set hs\<rparr>"
  by (induction hs arbitrary: v) (auto simp: drop_host_def Diff_insert2 [symmetric])

theorem reset_config_empties:
  assumes "steady K (pr_cwd s)" "decimal_ports (view (pr_fs s))"
  shows "\<exists>k. cfgfs_reset_config K s = Inr (s\<lparr>pr_fs := k\<rparr>) \<and> view k = empty_nvmet"
proof -
  let ?v = "view (pr_fs s)" and ?s = "s\<lparr>pr_cwd := nv []\<rparr>"
  have "implements (cfgfs_delete_subsys K n) (\<lambda>v ret v'. ret = 0 \<and> v' = purge_subsys n v)"
    if "n \<in> set (listed (nv [''subsystems'']) (pr_fs s))" for n
    using that delete_subsys_implements [of n] names [of n "pr_fs s"] entries_top(1) [of "pr_fs s"]
    by (simp add: set_listed nv_spec_delete)
  then obtain k1 where 1: "delete_entries K CFS_SUBSYS (cfgfs_delete_subsys K) ?s = Inr (?s\<lparr>pr_fs := k1\<rparr>)"
    "view k1 = fold purge_subsys (listed (nv [''subsystems'']) (pr_fs s)) ?v"
    using delete_entries_view [of ?s "''subsystems''" CFS_SUBSYS "cfgfs_delete_subsys K" purge_subsys] dir_top(2)
    by (auto simp: walk_cfs_end)
  have v1: "nv_subsys (view k1) = Map.empty" "dom (nv_ports (view k1)) = dom (nv_ports ?v)" "nv_hosts (view k1) = nv_hosts ?v"
    using entries_top(1) [of "pr_fs s"] unfolding 1(2) fold_purge_subsys set_listed by (simp_all add: restrict_compl_dom)
  have "implements (cfgfs_delete_portid K (atoi p)) (\<lambda>v ret v'. ret = 0 \<and> v' = purge_port p v)"
    if "p \<in> set (listed (nv [''ports'']) k1)" for p
    using that delete_portid_implements [of "atoi p"] entries_top(2) [of k1] v1(2) assms(2)
    by (simp add: set_listed decimal_ports_def nv_spec_delete)
  then obtain k2 where 2: "delete_entries K CFS_PORTS (\<lambda>n. cfgfs_delete_portid K (atoi n)) (?s\<lparr>pr_fs := k1\<rparr>) = Inr (?s\<lparr>pr_fs := k2\<rparr>)"
    "view k2 = fold purge_port (listed (nv [''ports'']) k1) (view k1)"
    using delete_entries_view [of "?s\<lparr>pr_fs := k1\<rparr>" "''ports''" CFS_PORTS "\<lambda>n. cfgfs_delete_portid K (atoi n)" purge_port]
      dir_top(3) by (auto simp: walk_cfs_end)
  have v2: "view k2 = (view k1)\<lparr>nv_ports := Map.empty\<rparr>"
    using entries_top(2) [of k1] unfolding 2(2) fold_purge_port set_listed by (simp add: restrict_compl_dom)
  have "implements (cfgfs_delete_host K h) (\<lambda>v ret v'. ret = 0 \<and> v' = drop_host h v)"
    if "h \<in> set (listed (nv [''hosts'']) k2)" for h
    using that delete_host_implements [of h] names [of h k2] entries_top(3) [of k2] by (simp add: set_listed nv_spec_delete)
  then obtain k3 where 3: "delete_entries K CFS_HOSTS (cfgfs_delete_host K) (?s\<lparr>pr_fs := k2\<rparr>) = Inr (?s\<lparr>pr_fs := k3\<rparr>)"
    "view k3 = fold drop_host (listed (nv [''hosts'']) k2) (view k2)"
    using delete_entries_view [of "?s\<lparr>pr_fs := k2\<rparr>" "''hosts''" CFS_HOSTS "cfgfs_delete_host K" drop_host] dir_top(4)
    by (auto simp: walk_cfs_end)
  have "view k3 = empty_nvmet"
    using entries_top(3) [of k2] v1(1) unfolding 3(2)
    by (subst fold_drop_host) (simp_all add: v2 set_listed empty_nvmet_def)
  then show ?thesis using assms(1) 1(1) 2(1) 3(1)
    by (auto simp: cfgfs_reset_config_def steady_simps)
qed

end

end
