(* ===== verification/Ep_Ref.thy ===== *)
theory Ep_Ref
  imports Ep_Nvmet "HOL-Library.AList"
begin

text \<open>
  A kernel that satisfies the laws of \<open>nvmet_fs\<close>: the configuration in association lists, with the directory
  tree in front of it. It refuses what the target of Linux refuses: names that are not plain, attributes of a
  port in use, a list of hosts beside the permission for every host, and links to objects that are not there.
\<close>

section \<open>State\<close>

record ref_subsys =
  rs_allow :: string
  rs_hosts :: "string list"
  rs_ns :: "(string \<times> string \<times> string) list"

record ref_port =
  rp_attr :: "(string \<times> string) list"
  rp_subsys :: "string list"

record ref_nvmet =
  rf_subsys :: "(string \<times> ref_subsys) list"
  rf_ports :: "(string \<times> ref_port) list"
  rf_hosts :: "string list"

definition plain_names :: "string list \<Rightarrow> string list" where
  "plain_names ns = filter ok_name ns"

definition plain_map :: "('b \<Rightarrow> 'c) \<Rightarrow> (string \<times> 'b) list \<Rightarrow> string \<Rightarrow> 'c option" where
  "plain_map f al n = (if ok_name n then map_option f (map_of al n) else None)"

definition abs_subsys :: "ref_subsys \<Rightarrow> nv_subsystem" where
  "abs_subsys x = \<lparr>nvs_allow = rs_allow x, nvs_hosts = set (plain_names (rs_hosts x)), nvs_ns = plain_map id (rs_ns x)\<rparr>"

definition attr_of :: "(string \<times> string) list \<Rightarrow> string \<Rightarrow> string" where
  "attr_of al a = filter (\<lambda>c. c \<noteq> CHR 0x0A) (case map_of al a of None \<Rightarrow> [] | Some t \<Rightarrow> t)"

definition abs_port :: "ref_port \<Rightarrow> nv_port" where
  "abs_port x = \<lparr>nvp_attr = attr_of (rp_attr x), nvp_subsys = set (plain_names (rp_subsys x))\<rparr>"

definition ref_view :: "ref_nvmet \<Rightarrow> nvmet" where
  "ref_view k = \<lparr>nv_subsys = plain_map abs_subsys (rf_subsys k), nv_ports = plain_map abs_port (rf_ports k),
                 nv_hosts = set (plain_names (rf_hosts k))\<rparr>"

definition names_of :: "(string \<times> 'b) list \<Rightarrow> string list" where
  "names_of al = plain_names (remdups (map fst al))"

section \<open>The tree\<close>

definition rel :: "path \<Rightarrow> path option" where
  "rel q = (if take 4 q = nv [] then Some (drop 4 q) else None)"

lemma rel_nv [simp]: "rel (nv r) = Some r"
  by (simp add: rel_def nv_def)

definition is_dir :: "path \<Rightarrow> nvmet \<Rightarrow> bool" where
  "is_dir r v =
     (case r of
        [] \<Rightarrow> True
      | [t] \<Rightarrow> t = ''subsystems'' \<or> t = ''ports'' \<or> t = ''hosts''
      | [t, n] \<Rightarrow> (t = ''subsystems'' \<and> nv_subsys v n \<noteq> None) \<or> (t = ''ports'' \<and> nv_ports v n \<noteq> None) \<or>
                  (t = ''hosts'' \<and> n \<in> nv_hosts v)
      | [t, n, u] \<Rightarrow> (t = ''subsystems'' \<and> (u = ''namespaces'' \<or> u = ''allowed_hosts'') \<and> nv_subsys v n \<noteq> None) \<or>
                     (t = ''ports'' \<and> u = ''subsystems'' \<and> nv_ports v n \<noteq> None)
      | [t, n, u, i] \<Rightarrow> t = ''subsystems'' \<and> u = ''namespaces'' \<and>
                        (case nv_subsys v n of None \<Rightarrow> False | Some ss \<Rightarrow> nvs_ns ss i \<noteq> None)
      | _ \<Rightarrow> False)"

definition ref_dir :: "path \<Rightarrow> ref_nvmet \<Rightarrow> int" where
  "ref_dir q k =
     (case rel q of
        None \<Rightarrow> if q = [] then 0 else ENOENT
      | Some r \<Rightarrow> if is_dir r (ref_view k) then 0 else ENOENT)"

fun subsys_listing :: "string \<Rightarrow> ref_subsys option \<Rightarrow> string list" where
  "subsys_listing u None = []"
| "subsys_listing u (Some x) =
     (if u = ''allowed_hosts'' then plain_names (remdups (rs_hosts x)) else if u = ''namespaces'' then names_of (rs_ns x) else [])"

fun port_listing :: "string \<Rightarrow> ref_port option \<Rightarrow> string list" where
  "port_listing u None = []"
| "port_listing u (Some x) = (if u = ''subsystems'' then plain_names (remdups (rp_subsys x)) else [])"

fun listing :: "path \<Rightarrow> ref_nvmet \<Rightarrow> string list" where
  "listing [t] k =
     (if t = ''subsystems'' then names_of (rf_subsys k) else if t = ''ports'' then names_of (rf_ports k)
      else if t = ''hosts'' then plain_names (remdups (rf_hosts k)) else [])"
| "listing [t, n, u] k =
     (if t = ''subsystems'' \<and> ok_name n then subsys_listing u (map_of (rf_subsys k) n)
      else if t = ''ports'' \<and> ok_name n then port_listing u (map_of (rf_ports k) n)
      else [])"
| "listing _ k = []"

definition ref_entries :: "path \<Rightarrow> ref_nvmet \<Rightarrow> string list" where
  "ref_entries q k = ''.'' # ''..'' # (case rel q of None \<Rightarrow> [] | Some r \<Rightarrow> listing r k)"

text \<open>Changes of one object.\<close>

definition ref_upd_subsys :: "string \<Rightarrow> (ref_subsys \<Rightarrow> ref_subsys) \<Rightarrow> ref_nvmet \<Rightarrow> ref_nvmet" where
  "ref_upd_subsys n f k = k\<lparr>rf_subsys := AList.map_entry n f (rf_subsys k)\<rparr>"

definition upd_port :: "string \<Rightarrow> (ref_port \<Rightarrow> ref_port) \<Rightarrow> ref_nvmet \<Rightarrow> ref_nvmet" where
  "upd_port p f k = k\<lparr>rf_ports := AList.map_entry p f (rf_ports k)\<rparr>"

definition new_ref_subsys :: ref_subsys where
  "new_ref_subsys = \<lparr>rs_allow = ''0'', rs_hosts = [], rs_ns = []\<rparr>"

definition new_ref_port :: ref_port where
  "new_ref_port = \<lparr>rp_attr = [], rp_subsys = []\<rparr>"

definition ref_mkdir :: "path \<Rightarrow> ref_nvmet \<Rightarrow> int \<times> ref_nvmet" where
  "ref_mkdir q k =
     (case rel q of
        Some [t, n] \<Rightarrow>
          if is_dir [t, n] (ref_view k) then (EEXIST, k)
          else if \<not> ok_name n then (EINVAL, k)
          else if t = ''subsystems'' then (0, k\<lparr>rf_subsys := AList.update n new_ref_subsys (rf_subsys k)\<rparr>)
          else if t = ''ports'' then (0, k\<lparr>rf_ports := AList.update n new_ref_port (rf_ports k)\<rparr>)
          else if t = ''hosts'' then (0, k\<lparr>rf_hosts := n # rf_hosts k\<rparr>)
          else (EPERM, k)
      | Some [t, n, u, i] \<Rightarrow>
          if t \<noteq> ''subsystems'' \<or> u \<noteq> ''namespaces'' then (EPERM, k)
          else if \<not> is_dir [t, n] (ref_view k) then (ENOENT, k)
          else if is_dir [t, n, u, i] (ref_view k) then (EEXIST, k)
          else if \<not> ok_name i then (EINVAL, k)
          else (0, ref_upd_subsys n (\<lambda>x. x\<lparr>rs_ns := AList.update i ('''', ''0'') (rs_ns x)\<rparr>) k)
      | _ \<Rightarrow> (EPERM, k))"

definition in_use :: "string \<Rightarrow> string \<Rightarrow> ref_nvmet \<Rightarrow> bool" where
  "in_use t n k =
     (if t = ''subsystems''
      then (case nv_subsys (ref_view k) n of None \<Rightarrow> False | Some ss \<Rightarrow>
              nvs_hosts ss \<noteq> {} \<or> list_ex (\<lambda>i. nvs_ns ss i \<noteq> None)
                (case map_of (rf_subsys k) n of None \<Rightarrow> [] | Some x \<Rightarrow> map fst (rs_ns x))) \<or>
           list_ex (\<lambda>p. case nv_ports (ref_view k) p of None \<Rightarrow> False | Some pt \<Rightarrow> n \<in> nvp_subsys pt) (map fst (rf_ports k))
      else if t = ''ports''
      then (case nv_ports (ref_view k) n of None \<Rightarrow> False | Some pt \<Rightarrow> nvp_subsys pt \<noteq> {})
      else list_ex (\<lambda>m. case nv_subsys (ref_view k) m of None \<Rightarrow> False | Some ss \<Rightarrow> n \<in> nvs_hosts ss) (map fst (rf_subsys k)))"

definition ref_rmdir :: "path \<Rightarrow> ref_nvmet \<Rightarrow> int \<times> ref_nvmet" where
  "ref_rmdir q k =
     (case rel q of
        Some [t, n] \<Rightarrow>
          if \<not> is_dir [t, n] (ref_view k) then (ENOENT, k)
          else if in_use t n k then (EBUSY, k)
          else if t = ''subsystems'' then (0, k\<lparr>rf_subsys := AList.delete n (rf_subsys k)\<rparr>)
          else if t = ''ports'' then (0, k\<lparr>rf_ports := AList.delete n (rf_ports k)\<rparr>)
          else (0, k\<lparr>rf_hosts := removeAll n (rf_hosts k)\<rparr>)
      | Some [t, n, u, i] \<Rightarrow>
          if is_dir [t, n, u, i] (ref_view k) then (0, ref_upd_subsys n (\<lambda>x. x\<lparr>rs_ns := AList.delete i (rs_ns x)\<rparr>) k)
          else (ENOENT, k)
      | _ \<Rightarrow> (EPERM, k))"

definition ref_remove :: "path \<Rightarrow> ref_nvmet \<Rightarrow> int \<times> ref_nvmet" where
  "ref_remove q k =
     (case rel q of
        Some [t, n, u, m] \<Rightarrow>
          if t = ''subsystems'' \<and> u = ''allowed_hosts''
          then (case nv_subsys (ref_view k) n of
                  None \<Rightarrow> (ENOENT, k)
                | Some ss \<Rightarrow> (if m \<in> nvs_hosts ss then 0 else ENOENT,
                              ref_upd_subsys n (\<lambda>x. x\<lparr>rs_hosts := removeAll m (rs_hosts x)\<rparr>) k))
          else if t = ''ports'' \<and> u = ''subsystems''
          then (case nv_ports (ref_view k) n of
                  None \<Rightarrow> (ENOENT, k)
                | Some pt \<Rightarrow> (if m \<in> nvp_subsys pt then 0 else ENOENT,
                              upd_port n (\<lambda>x. x\<lparr>rp_subsys := removeAll m (rp_subsys x)\<rparr>) k))
          else (EPERM, k)
      | _ \<Rightarrow> (EPERM, k))"

definition ref_symlink :: "path \<Rightarrow> path \<Rightarrow> ref_nvmet \<Rightarrow> int \<times> ref_nvmet" where
  "ref_symlink old q k =
     (case (rel old, rel q) of
        (Some [a, b], Some [t, n, u, m]) \<Rightarrow>
          if a = ''hosts'' \<and> t = ''subsystems'' \<and> u = ''allowed_hosts''
          then (case nv_subsys (ref_view k) n of
                  None \<Rightarrow> (ENOENT, k)
                | Some ss \<Rightarrow>
                    if m \<in> nvs_hosts ss then (EEXIST, k)
                    else if b \<noteq> m \<or> \<not> is_dir [a, b] (ref_view k) then (ENOENT, k)
                    else if nvs_allow ss = ''1'' then (EINVAL, k)
                    else (0, ref_upd_subsys n (\<lambda>x. x\<lparr>rs_hosts := m # rs_hosts x\<rparr>) k))
          else if a = ''subsystems'' \<and> t = ''ports'' \<and> u = ''subsystems''
          then (case nv_ports (ref_view k) n of
                  None \<Rightarrow> (ENOENT, k)
                | Some pt \<Rightarrow>
                    if m \<in> nvp_subsys pt then (EEXIST, k)
                    else if b \<noteq> m \<or> \<not> is_dir [a, b] (ref_view k) then (ENOENT, k)
                    else (0, upd_port n (\<lambda>x. x\<lparr>rp_subsys := m # rp_subsys x\<rparr>) k))
          else (EPERM, k)
      | _ \<Rightarrow> (EPERM, k))"

definition ref_write :: "path \<Rightarrow> string \<Rightarrow> ref_nvmet \<Rightarrow> ref_nvmet" where
  "ref_write q t k =
     (case rel q of
        Some [d, n, a] \<Rightarrow>
          if d = ''subsystems'' \<and> a = CFS_ALLOW_ANY
          then ref_upd_subsys n (\<lambda>x. if t = ''1'' \<and> rs_hosts x \<noteq> [] then x else x\<lparr>rs_allow := t\<rparr>) k
          else if d = ''ports'' \<and> CHR 0x0A \<notin> set t
          then upd_port n (\<lambda>x. if rp_subsys x \<noteq> [] then x else x\<lparr>rp_attr := AList.update a t (rp_attr x)\<rparr>) k
          else k
      | Some [d, n, u, i, a] \<Rightarrow>
          if d = ''subsystems'' \<and> u = ''namespaces'' \<and> a = CFS_DEV_PATH
          then ref_upd_subsys n (\<lambda>x. x\<lparr>rs_ns := AList.map_entry i (apfst (\<lambda>_. t)) (rs_ns x)\<rparr>) k
          else if d = ''subsystems'' \<and> u = ''namespaces'' \<and> a = CFS_ENABLE
          then ref_upd_subsys n (\<lambda>x. x\<lparr>rs_ns := AList.map_entry i (apsnd (\<lambda>_. t)) (rs_ns x)\<rparr>) k
          else k
      | _ \<Rightarrow> k)"

definition ref_read :: "path \<Rightarrow> ref_nvmet \<Rightarrow> string option" where
  "ref_read q k =
     (case rel q of
        Some [d, p, a] \<Rightarrow>
          if d = ''ports'' then map_option (\<lambda>pt. nvp_attr pt a @ [CHR 0x0A]) (nv_ports (ref_view k) p) else None
      | _ \<Rightarrow> None)"

definition ref_kernel :: "ref_nvmet kernel" where
  "ref_kernel =
     \<lparr>fs_dir = ref_dir, fs_entries = ref_entries, fs_mkdir = ref_mkdir, fs_rmdir = ref_rmdir, fs_remove = ref_remove,
      fs_symlink = ref_symlink, fs_opens = (\<lambda>_ _. True), fs_write = ref_write, fs_read = ref_read,
      fs_access = (\<lambda>_ _. ENOENT), fs_system = (\<lambda>_ k. (0, k))\<rparr>"

section \<open>The laws\<close>

lemma plain_map_simps:
  "ok_name n \<Longrightarrow> plain_map f (AList.update n x al) = (plain_map f al)(n \<mapsto> f x)"
  "plain_map f (AList.delete n al) = (plain_map f al)(n := None)"
  by (auto simp: plain_map_def fun_eq_iff update_conv' delete_conv')

lemma plain_map_entry:
  assumes "\<And>x. map_of al n = Some x \<Longrightarrow> f (h x) = g (f x)"
  shows "plain_map f (AList.map_entry n h al) = (plain_map f al)(n := map_option g (plain_map f al n))"
  using assms by (auto simp: plain_map_def fun_eq_iff map_of_map_entry split: option.split)

lemma view_upd_subsys:
  "(\<And>x. map_of (rf_subsys k) n = Some x \<Longrightarrow> abs_subsys (h x) = g (abs_subsys x)) \<Longrightarrow>
     ref_view (ref_upd_subsys n h k) = on_subsys n g (ref_view k)"
  by (simp add: ref_view_def ref_upd_subsys_def on_subsys_def plain_map_entry [of _ _ abs_subsys h g])

lemma view_upd_port:
  "(\<And>x. map_of (rf_ports k) n = Some x \<Longrightarrow> abs_port (h x) = g (abs_port x)) \<Longrightarrow>
     ref_view (upd_port n h k) = on_port n g (ref_view k)"
  by (simp add: ref_view_def upd_port_def on_port_def plain_map_entry [of _ _ abs_port h g])

lemma set_names_of: "set (names_of al) = dom (plain_map f al)"
  by (auto simp: names_of_def plain_names_def plain_map_def dom_map_of_conv_image_fst [symmetric] split: if_splits)

lemma ok_name_not_dots: "\<not> ok_name ''.''" "\<not> ok_name ''..''"
  by (simp_all add: ok_name_def)

lemma view_sel:
  "nv_subsys (ref_view k) = plain_map abs_subsys (rf_subsys k)" "nv_ports (ref_view k) = plain_map abs_port (rf_ports k)"
  "nv_hosts (ref_view k) = set (plain_names (rf_hosts k))"
  by (simp_all add: ref_view_def)

lemma plain_map_SomeD:
  "plain_map f al n = Some y \<Longrightarrow> ok_name n \<and> (\<exists>x. map_of al n = Some x \<and> y = f x)"
  by (auto simp: plain_map_def split: if_splits)

lemma set_plain: "set (plain_names ns) = {n \<in> set ns. ok_name n}"
  by (auto simp: plain_names_def)

lemma distinct_plain: "distinct ns \<Longrightarrow> distinct (plain_names ns)"
  by (simp add: plain_names_def)

lemma no_dots: "''.'' \<notin> set (plain_names ns)" "''..'' \<notin> set (plain_names ns)" "''.'' \<notin> set (names_of al)" "''..'' \<notin> set (names_of al)"
  by (simp_all add: set_plain names_of_def ok_name_not_dots)

lemma distinct_names_of: "distinct (names_of al)"
  by (simp add: names_of_def distinct_plain)

lemma distinct_listing: "distinct (listing r k) \<and> ''.'' \<notin> set (listing r k) \<and> ''..'' \<notin> set (listing r k)"
proof -
  have 1: "distinct (subsys_listing u x) \<and> ''.'' \<notin> set (subsys_listing u x) \<and> ''..'' \<notin> set (subsys_listing u x)" for u x
    by (cases x) (simp_all add: no_dots distinct_names_of distinct_plain)
  have 2: "distinct (port_listing u x) \<and> ''.'' \<notin> set (port_listing u x) \<and> ''..'' \<notin> set (port_listing u x)" for u x
    by (cases x) (simp_all add: no_dots distinct_plain)
  show ?thesis
    by (cases "(r, k)" rule: listing.cases) (simp_all add: 1 2 no_dots distinct_names_of distinct_plain)
qed

lemma ref_entries_distinct: "distinct (ref_entries q k)"
  using distinct_listing by (cases "rel q") (simp_all add: ref_entries_def)

lemma view_subsys_Some:
  assumes "nv_subsys (ref_view k) n = Some ss"
  obtains x where "ok_name n" "map_of (rf_subsys k) n = Some x" "nvs_allow ss = rs_allow x"
    "nvs_hosts ss = set (plain_names (rs_hosts x))" "nvs_ns ss = plain_map id (rs_ns x)"
  using plain_map_SomeD [OF assms [unfolded view_sel]] that by (fastforce simp: abs_subsys_def)

lemma view_port_Some:
  assumes "nv_ports (ref_view k) p = Some pt"
  obtains x where "ok_name p" "map_of (rf_ports k) p = Some x" "nvp_attr pt = attr_of (rp_attr x)"
    "nvp_subsys pt = set (plain_names (rp_subsys x))"
  using plain_map_SomeD [OF assms [unfolded view_sel]] that by (fastforce simp: abs_port_def)

lemma plain_map_dom: "n \<in> dom (plain_map f al) \<Longrightarrow> ok_name n"
  by (auto simp: plain_map_def split: if_splits)

lemma entries_minus:
  "set (''.'' # ''..'' # plain_names ns) - {''.'', ''..''} = set (plain_names ns)"
  "set (''.'' # ''..'' # names_of al) - {''.'', ''..''} = dom (plain_map f al)"
  using no_dots(1,2) [of ns] no_dots(3,4) [of al] by (auto simp: set_names_of [of al f])

lemma plain_remdups: "set (plain_names (remdups ns)) = set (plain_names ns)"
  by (auto simp: set_plain)

lemma ref_names:
  "n \<in> dom (nv_subsys (ref_view k)) \<union> dom (nv_ports (ref_view k)) \<union> nv_hosts (ref_view k) \<Longrightarrow> ok_name n"
  by (auto simp: view_sel set_plain domIff plain_map_def split: if_splits)

lemma ref_names_in:
  "nv_subsys (ref_view k) n = Some ss \<Longrightarrow> h \<in> nvs_hosts ss \<union> dom (nvs_ns ss) \<Longrightarrow> ok_name h"
  "nv_ports (ref_view k) p = Some pt \<Longrightarrow> n \<in> nvp_subsys pt \<Longrightarrow> ok_name n"
  by (elim view_subsys_Some, auto simp: set_plain domIff plain_map_def split: if_splits)
    (elim view_port_Some, simp add: set_plain)

lemma ref_entries_top:
  "set (ref_entries (nv [''subsystems'']) k) - {''.'', ''..''} = dom (nv_subsys (ref_view k))"
  "set (ref_entries (nv [''ports'']) k) - {''.'', ''..''} = dom (nv_ports (ref_view k))"
  "set (ref_entries (nv [''hosts'']) k) - {''.'', ''..''} = nv_hosts (ref_view k)"
  using entries_minus(2) [of "rf_subsys k" abs_subsys] entries_minus(2) [of "rf_ports k" abs_port]
    entries_minus(1) [of "remdups (rf_hosts k)"]
  by (simp_all add: ref_entries_def view_sel plain_remdups)

lemma ref_entries_in:
  "nv_subsys (ref_view k) n = Some ss \<Longrightarrow>
     set (ref_entries (nv [''subsystems'', n, ''allowed_hosts'']) k) - {''.'', ''..''} = nvs_hosts ss"
  "nv_subsys (ref_view k) n = Some ss \<Longrightarrow>
     set (ref_entries (nv [''subsystems'', n, ''namespaces'']) k) - {''.'', ''..''} = dom (nvs_ns ss)"
  "nv_ports (ref_view k) p = Some pt \<Longrightarrow>
     set (ref_entries (nv [''ports'', p, ''subsystems'']) k) - {''.'', ''..''} = nvp_subsys pt"
  subgoal by (elim view_subsys_Some) (use entries_minus(1) plain_remdups in \<open>simp add: ref_entries_def\<close>)
  subgoal by (elim view_subsys_Some) (use entries_minus(2) [where f = id] in \<open>simp add: ref_entries_def\<close>)
  subgoal by (elim view_port_Some) (use entries_minus(1) plain_remdups in \<open>simp add: ref_entries_def\<close>)
  done

lemma ref_mkdir_laws:
  "ref_mkdir (nv [''subsystems'', n]) k = (e, k') \<Longrightarrow>
     \<exists>new. nvs_hosts new = {} \<and> nvs_ns new = Map.empty \<and>
       makes (n \<in> dom (nv_subsys (ref_view k))) e (ref_view k) (add_subsys n new (ref_view k)) (ref_view k')"
  "ref_mkdir (nv [''ports'', n]) k = (e, k') \<Longrightarrow>
     \<exists>new. nvp_subsys new = {} \<and>
       makes (n \<in> dom (nv_ports (ref_view k))) e (ref_view k) (add_port n new (ref_view k)) (ref_view k')"
  "ref_mkdir (nv [''hosts'', n]) k = (e, k') \<Longrightarrow>
     makes (n \<in> nv_hosts (ref_view k)) e (ref_view k) (nv_add_host n (ref_view k)) (ref_view k')"
  by (auto simp: ref_mkdir_def is_dir_def makes_def add_subsys_def add_port_def nv_add_host_def ref_view_def plain_map_simps
      errno_defs set_plain new_ref_subsys_def new_ref_port_def abs_subsys_def abs_port_def plain_map_def [of id "[]"]
      domIff fun_eq_iff
      intro!: exI [of _ "abs_subsys new_ref_subsys"] exI [of _ "abs_port new_ref_port"] split: if_splits)

lemma subsys_dir: "(nv_subsys (ref_view k) n \<noteq> None) = is_dir [''subsystems'', n] (ref_view k)"
  by (simp add: is_dir_def)

lemma ref_mkdir_ns:
  assumes "ref_mkdir (nv [''subsystems'', n, ''namespaces'', i]) k = (e, k')"
  shows "case nv_subsys (ref_view k) n of
           None \<Rightarrow> e \<noteq> 0 \<and> e \<noteq> EEXIST \<and> ref_view k' = ref_view k
         | Some ss \<Rightarrow> \<exists>new. makes (i \<in> dom (nvs_ns ss)) e (ref_view k) (add_ns n i new (ref_view k)) (ref_view k')"
proof (cases "nv_subsys (ref_view k) n")
  case None
  then show ?thesis using assms by (simp add: ref_mkdir_def is_dir_def errno_defs)
next
  case (Some ss)
  then obtain x where x: "map_of (rf_subsys k) n = Some x" "nvs_ns ss = plain_map id (rs_ns x)" by (rule view_subsys_Some)
  have "ref_view (ref_upd_subsys n (\<lambda>x. x\<lparr>rs_ns := AList.update i ('''', ''0'') (rs_ns x)\<rparr>) k) =
      add_ns n i ('''', ''0'') (ref_view k)" if "nvs_ns ss i = None" "ok_name i"
    unfolding add_ns_def using that x by (intro view_upd_subsys) (auto simp: abs_subsys_def plain_map_simps)
  then have "makes (nvs_ns ss i \<noteq> None) e (ref_view k) (add_ns n i ('''', ''0'') (ref_view k)) (ref_view k')"
    using assms Some by (auto simp: ref_mkdir_def is_dir_def makes_def errno_defs simp del: not_None_eq split: if_splits)
  then show ?thesis using Some by (auto simp: domIff)
qed

lemma list_ex_map:
  "(\<And>p y. P p = Some y \<Longrightarrow> p \<in> set ps) \<Longrightarrow>
     list_ex (\<lambda>p. case P p of None \<Rightarrow> False | Some y \<Rightarrow> Q y) ps \<longleftrightarrow> (\<exists>p y. P p = Some y \<and> Q y)"
  unfolding list_ex_iff by (metis option.case(1,2) option.exhaust)

lemma plain_map_key: "plain_map f al n = Some y \<Longrightarrow> n \<in> set (map fst al)"
  by (force simp: plain_map_def dest: map_of_SomeD split: if_splits)

lemma ref_busy: "in_use ''subsystems'' n k \<longleftrightarrow> subsys_busy n (ref_view k)"
proof -
  have ports: "list_ex (\<lambda>p. case nv_ports (ref_view k) p of None \<Rightarrow> False | Some pt \<Rightarrow> n \<in> nvp_subsys pt) (map fst (rf_ports k)) \<longleftrightarrow>
      (\<exists>p pt. nv_ports (ref_view k) p = Some pt \<and> n \<in> nvp_subsys pt)"
    unfolding view_sel by (rule list_ex_map, rule plain_map_key)
  have ns: "list_ex (\<lambda>i. nvs_ns ss i \<noteq> None) (case map_of (rf_subsys k) n of None \<Rightarrow> [] | Some x \<Rightarrow> map fst (rs_ns x)) \<longleftrightarrow>
      nvs_ns ss \<noteq> Map.empty" if "nv_subsys (ref_view k) n = Some ss" for ss
  proof -
    from that obtain x where x: "map_of (rf_subsys k) n = Some x" "nvs_ns ss = plain_map id (rs_ns x)" by (rule view_subsys_Some)
    have "(\<exists>i \<in> set (map fst (rs_ns x)). nvs_ns ss i \<noteq> None) \<longleftrightarrow> (\<exists>i. nvs_ns ss i \<noteq> None)"
      using plain_map_key [of id "rs_ns x"] unfolding x(2) by blast
    then show ?thesis by (simp add: x(1) list_ex_iff fun_eq_iff)
  qed
  show ?thesis
    by (cases "nv_subsys (ref_view k) n") (simp_all add: in_use_def subsys_busy_def ports ns del: not_None_eq)
qed

lemma ref_busy_host: "in_use ''hosts'' h k \<longleftrightarrow> (\<exists>n ss. nv_subsys (ref_view k) n = Some ss \<and> h \<in> nvs_hosts ss)"
  unfolding in_use_def view_sel by simp (rule list_ex_map, rule plain_map_key)

lemma ref_rmdir_laws:
  "ref_view (snd (ref_rmdir (nv [''subsystems'', n]) k)) = drop_subsys n (ref_view k)"
  "ref_view (snd (ref_rmdir (nv [''ports'', n]) k)) = drop_port n (ref_view k)"
  "ref_view (snd (ref_rmdir (nv [''hosts'', n]) k)) = drop_host n (ref_view k)"
  subgoal by (simp add: ref_rmdir_def is_dir_def ref_busy drop_subsys_def)
      (auto simp: ref_view_def plain_map_simps fun_upd_idem)
  subgoal by (simp add: ref_rmdir_def is_dir_def drop_port_def in_use_def split: option.split)
      (auto simp: ref_view_def plain_map_simps fun_upd_idem)
  subgoal by (simp add: ref_rmdir_def is_dir_def drop_host_def ref_busy_host)
      (auto simp: ref_view_def set_plain)
  done

lemma ref_rmdir_ns: "ref_view (snd (ref_rmdir (nv [''subsystems'', n, ''namespaces'', i]) k)) = drop_ns n i (ref_view k)"
proof (cases "is_dir [''subsystems'', n, ''namespaces'', i] (ref_view k)")
  case True
  then show ?thesis
    by (simp add: ref_rmdir_def drop_ns_def) (intro view_upd_subsys, simp add: abs_subsys_def plain_map_simps)
next
  case False
  then have "drop_ns n i (ref_view k) = ref_view k"
    by (cases "nv_subsys (ref_view k) n") (simp_all add: is_dir_def drop_ns_def on_subsys_def fun_upd_idem del: not_None_eq)
  with False show ?thesis by (simp add: ref_rmdir_def)
qed

lemma set_plain_removeAll: "set (plain_names (removeAll h hs)) = set (plain_names hs) - {h}"
  by (auto simp: set_plain)

lemma ref_remove_laws:
  "ref_remove (nv [''subsystems'', n, ''allowed_hosts'', h]) k = (e, k') \<Longrightarrow>
     (e = 0 \<or> e = ENOENT) \<and> ref_view k' = disallow_host n h (ref_view k)"
  "ref_remove (nv [''ports'', n, ''subsystems'', h]) k = (e, k') \<Longrightarrow>
     (e = 0 \<or> e = ENOENT) \<and> ref_view k' = close_port n h (ref_view k)"
proof -
  have 1: "ref_view (ref_upd_subsys n (\<lambda>x. x\<lparr>rs_hosts := removeAll h (rs_hosts x)\<rparr>) k) = disallow_host n h (ref_view k)"
    unfolding disallow_host_def by (intro view_upd_subsys) (simp add: abs_subsys_def set_plain_removeAll)
  have 2: "ref_view (upd_port n (\<lambda>x. x\<lparr>rp_subsys := removeAll h (rp_subsys x)\<rparr>) k) = close_port n h (ref_view k)"
    unfolding close_port_def by (intro view_upd_port) (simp add: abs_port_def set_plain_removeAll)
  show "ref_remove (nv [''subsystems'', n, ''allowed_hosts'', h]) k = (e, k') \<Longrightarrow>
     (e = 0 \<or> e = ENOENT) \<and> ref_view k' = disallow_host n h (ref_view k)"
    using 1 by (auto simp: ref_remove_def disallow_host_def on_subsys_def fun_upd_idem split: option.splits)
  show "ref_remove (nv [''ports'', n, ''subsystems'', h]) k = (e, k') \<Longrightarrow>
     (e = 0 \<or> e = ENOENT) \<and> ref_view k' = close_port n h (ref_view k)"
    using 2 by (auto simp: ref_remove_def close_port_def on_port_def fun_upd_idem split: option.splits)
qed

lemma ref_symlink_laws:
  "ref_symlink (nv [''hosts'', h]) (nv [''subsystems'', n, ''allowed_hosts'', h]) k = (e, k') \<Longrightarrow>
     (case nv_subsys (ref_view k) n of
        None \<Rightarrow> e \<noteq> 0 \<and> e \<noteq> EEXIST \<and> ref_view k' = ref_view k
      | Some ss \<Rightarrow> makes (h \<in> nvs_hosts ss) e (ref_view k) (allow_host n h (ref_view k)) (ref_view k'))"
  "ref_symlink (nv [''subsystems'', h]) (nv [''ports'', n, ''subsystems'', h]) k = (e, k') \<Longrightarrow>
     (case nv_ports (ref_view k) n of
        None \<Rightarrow> e \<noteq> 0 \<and> e \<noteq> EEXIST \<and> ref_view k' = ref_view k
      | Some pt \<Rightarrow> makes (h \<in> nvp_subsys pt) e (ref_view k) (open_port n h (ref_view k)) (ref_view k'))"
proof -
  have host: "ok_name h" if "is_dir [''hosts'', h] (ref_view k) \<or> is_dir [''subsystems'', h] (ref_view k)"
    using that ref_names [of h k] by (auto simp: is_dir_def)
  have 1: "ref_view (ref_upd_subsys n (\<lambda>x. x\<lparr>rs_hosts := h # rs_hosts x\<rparr>) k) = allow_host n h (ref_view k)" if "ok_name h"
    unfolding allow_host_def using that by (intro view_upd_subsys) (simp add: abs_subsys_def plain_names_def)
  have 2: "ref_view (upd_port n (\<lambda>x. x\<lparr>rp_subsys := h # rp_subsys x\<rparr>) k) = open_port n h (ref_view k)" if "ok_name h"
    unfolding open_port_def using that by (intro view_upd_port) (simp add: abs_port_def plain_names_def)
  show "ref_symlink (nv [''hosts'', h]) (nv [''subsystems'', n, ''allowed_hosts'', h]) k = (e, k') \<Longrightarrow>
     (case nv_subsys (ref_view k) n of
        None \<Rightarrow> e \<noteq> 0 \<and> e \<noteq> EEXIST \<and> ref_view k' = ref_view k
      | Some ss \<Rightarrow> makes (h \<in> nvs_hosts ss) e (ref_view k) (allow_host n h (ref_view k)) (ref_view k'))"
    using host 1 by (auto simp: ref_symlink_def makes_def errno_defs split: option.splits if_splits)
  show "ref_symlink (nv [''subsystems'', h]) (nv [''ports'', n, ''subsystems'', h]) k = (e, k') \<Longrightarrow>
     (case nv_ports (ref_view k) n of
        None \<Rightarrow> e \<noteq> 0 \<and> e \<noteq> EEXIST \<and> ref_view k' = ref_view k
      | Some pt \<Rightarrow> makes (h \<in> nvp_subsys pt) e (ref_view k) (open_port n h (ref_view k)) (ref_view k'))"
    using host 2 by (auto simp: ref_symlink_def makes_def errno_defs split: option.splits if_splits)
qed

text \<open>A write that is refused changes nothing.\<close>

lemma view_upd_none:
  "(\<And>x. map_of (rf_subsys k) n = Some x \<Longrightarrow> abs_subsys (h x) = abs_subsys x) \<Longrightarrow> ref_view (ref_upd_subsys n h k) = ref_view k"
  "(\<And>y. map_of (rf_ports k) n = Some y \<Longrightarrow> abs_port (g y) = abs_port y) \<Longrightarrow> ref_view (upd_port n g k) = ref_view k"
  using view_upd_subsys [of k n h "\<lambda>x. x"] view_upd_port [of k n g "\<lambda>x. x"]
  by (simp_all add: on_subsys_def on_port_def option.map_ident)

lemma ref_write_allow:
  "attempts [set_allow n t] (ref_view k) (ref_view (ref_write (nv [''subsystems'', n, CFS_ALLOW_ANY]) t k))"
proof (cases "\<exists>x. map_of (rf_subsys k) n = Some x \<and> t = ''1'' \<and> rs_hosts x \<noteq> []")
  case True
  then have "ref_view (ref_write (nv [''subsystems'', n, CFS_ALLOW_ANY]) t k) = ref_view k"
    by (auto simp: ref_write_def intro!: view_upd_none)
  then show ?thesis by simp
next
  case False
  then have "ref_view (ref_write (nv [''subsystems'', n, CFS_ALLOW_ANY]) t k) = set_allow n t (ref_view k)"
    unfolding set_allow_def by (auto simp: ref_write_def abs_subsys_def intro!: view_upd_subsys)
  then show ?thesis by simp
qed

lemma ref_write_ns:
  "attempts [on_ns n i (apfst (\<lambda>_. t))] (ref_view k)
     (ref_view (ref_write (nv [''subsystems'', n, ''namespaces'', i, CFS_DEV_PATH]) t k))"
  "attempts [on_ns n i (apsnd (\<lambda>_. t))] (ref_view k)
     (ref_view (ref_write (nv [''subsystems'', n, ''namespaces'', i, CFS_ENABLE]) t k))"
proof -
  have "ref_view (ref_upd_subsys n (\<lambda>x. x\<lparr>rs_ns := AList.map_entry i f (rs_ns x)\<rparr>) k) = on_ns n i f (ref_view k)" for f
    unfolding on_ns_def by (intro view_upd_subsys) (simp add: abs_subsys_def plain_map_entry [of _ i id f f])
  then show "attempts [on_ns n i (apfst (\<lambda>_. t))] (ref_view k)
     (ref_view (ref_write (nv [''subsystems'', n, ''namespaces'', i, CFS_DEV_PATH]) t k))"
    "attempts [on_ns n i (apsnd (\<lambda>_. t))] (ref_view k)
     (ref_view (ref_write (nv [''subsystems'', n, ''namespaces'', i, CFS_ENABLE]) t k))"
    by (simp_all add: ref_write_def cfs_defs)
qed

lemma ref_write_attr:
  "attempts [set_attr p a t] (ref_view k) (ref_view (ref_write (nv [''ports'', p, a]) t k))"
proof (cases "CHR 0x0A \<in> set t \<or> (\<exists>x. map_of (rf_ports k) p = Some x \<and> rp_subsys x \<noteq> [])")
  case True
  then have "ref_view (ref_write (nv [''ports'', p, a]) t k) = ref_view k"
    by (auto simp: ref_write_def intro!: view_upd_none)
  then show ?thesis by simp
next
  case False
  then have "attr_of (AList.update a t al) = (attr_of al)(a := t)" for al
    by (auto simp: attr_of_def fun_eq_iff update_conv' intro!: filter_True)
  then have "ref_view (ref_write (nv [''ports'', p, a]) t k) = set_attr p a t (ref_view k)"
    unfolding set_attr_def using False by (auto simp: ref_write_def abs_port_def intro!: view_upd_port)
  then show ?thesis by simp
qed

interpretation ref_fs: nvmet_fs ref_kernel ref_view
proof
  show "fs_read ref_kernel (nv [''ports'', p, a]) k = Some (nvp_attr pt a @ [CHR 0x0A]) \<and> CHR 0x0A \<notin> set (nvp_attr pt a)"
    if "nv_ports (ref_view k) p = Some pt" for k p pt a
    using that by (auto simp: ref_kernel_def ref_read_def attr_of_def elim!: view_port_Some)
qed (simp_all add: ref_kernel_def ref_dir_def is_dir_def domIff ref_entries_distinct ref_entries_top ref_entries_in
    ref_mkdir_laws [unfolded domIff] ref_mkdir_ns ENOENT_def ref_rmdir_laws ref_rmdir_ns ref_remove_laws [unfolded ENOENT_def] ref_symlink_laws
    ref_write_allow ref_write_ns ref_write_attr ref_names ref_names_in
    del: not_None_eq attempts.simps split: option.split)

end
