(* ===== verification/Ep_Pseudo.thy ===== *)
theory Ep_Pseudo
  imports Ep_Nvmet Dem_Pseudo
begin

unbundle bit_operations_syntax

text \<open>
  The in-band interface of the endpoint manager (\<^verbatim>\<open>src/src/endpoint/pseudo_target.c\<close>): it looks like a
  discovery controller and carries out the NVMe-MI commands of the real one, with the same table of
  operations as the RESTful interface. The commands and the constants of the protocol are those of the
  controller; the queue of new connections is the ring of \<^verbatim>\<open>src/src/dem/pseudo_target.c\<close>.

  The transport is a parameter. What a configuration command reads from the memory of its sender is the entry
  that belongs to the identifier in the command; the identifiers of \<^verbatim>\<open>nvme.h\<close> are 0 to \<^verbatim>\<open>nvmf_unlink_host_config\<close>.
\<close>

section \<open>Commands\<close>

text \<open>A command with the identifier of the configuration it is about (\<^verbatim>\<open>mi_cmd.fcid\<close>).\<close>

record ep_command = nvme_command +
  nc_fcid :: nat

record ep_conn =
  ec_nqn :: string
  ec_csts :: int
  ec_countdown :: int
  ec_kato :: int

text \<open>What is sent: the identification, the devices, the interfaces, or what the buffer holds.\<close>

datatype ep_data =
    Ep_id_ctrl int nat int string
  | Ns_devices int "(int \<times> int) list"
  | Transports int "(u8 \<times> u8 \<times> string) list"
  | Buffer_contents

record 'w ep_io =
  ex_rma_read :: "nat \<Rightarrow> nat \<Rightarrow> nat \<Rightarrow> nat \<Rightarrow> 'w \<Rightarrow> int \<times> connect_data \<times> 'w"
  ex_rma_read_mi :: "nat \<Rightarrow> nat \<Rightarrow> nat \<Rightarrow> nat \<Rightarrow> nat \<Rightarrow> 'w \<Rightarrow> int \<times> inb_msg \<times> 'w"
  ex_rma_write :: "nat \<Rightarrow> ep_data \<Rightarrow> nat \<Rightarrow> nat \<Rightarrow> nat \<Rightarrow> 'w \<Rightarrow> int \<times> 'w"
  ex_send_rsp :: "nat \<Rightarrow> nvme_completion \<Rightarrow> 'w \<Rightarrow> 'w"
  ex_disconnect :: "nat \<Rightarrow> bool \<Rightarrow> 'w \<Rightarrow> 'w"

record ('s, 'w) ep_state =
  es_em :: "'s em"
  es_net :: 'w

definition nvme_mi_send :: nat where "nvme_mi_send = 0x1D"
definition nvme_mi_receive :: nat where "nvme_mi_receive = 0x1E"
definition nvmf_get_ns_config :: nat where "nvmf_get_ns_config = 0x01"
definition nvmf_get_xport_config :: nat where "nvmf_get_xport_config = 0x02"
definition nvmf_unlink_host_config :: nat where "nvmf_unlink_host_config = 0x0c"
definition NVME_SC_FEATURE_NOT_CHANGEABLE :: int where "NVME_SC_FEATURE_NOT_CHANGEABLE = 0x10E"
definition NVME_SC_ACCESS_DENIED :: int where "NVME_SC_ACCESS_DENIED = 0x286"
definition RETRY_COUNT_ep :: int where "RETRY_COUNT_ep = 1200"
definition PAGE_SIZE :: nat where "PAGE_SIZE = 4096"

section \<open>Properties and features\<close>

definition handle_property_set_ep :: "ep_command \<Rightarrow> int \<Rightarrow> int \<times> int" where
  "handle_property_set_ep cmd csts =
     (if nc_offset cmd = NVME_REG_CC then (0, if nc_value cmd = 0x460001 then 1 else 8)
      else (NVME_SC_INVALID_FIELD, csts))"

definition handle_property_get_ep :: "ep_command \<Rightarrow> int \<Rightarrow> int \<times> int option" where
  "handle_property_get_ep cmd csts =
     (if nc_offset cmd = NVME_REG_CSTS then (0, Some csts)
      else if nc_offset cmd = NVME_REG_CAP then (0, Some 0x200f0003ff)
      else if nc_offset cmd = NVME_REG_VS then (0, Some NVME_VER)
      else (NVME_SC_INVALID_FIELD, None))"

text \<open>\<^verbatim>\<open>ntohl\<close> on a machine that stores the low byte first.\<close>

definition ntohl :: "nat \<Rightarrow> nat" where
  "ntohl x = x mod 256 * 2 ^ 24 + x div 2 ^ 8 mod 256 * 2 ^ 16 + x div 2 ^ 16 mod 256 * 2 ^ 8 + x div 2 ^ 24 mod 256"

text \<open>The status and the new timeout; the identifier of the feature is compared with the timeout passed in.\<close>

definition handle_set_features_ep :: "ep_command \<Rightarrow> nat \<Rightarrow> int \<times> nat" where
  "handle_set_features_ep cmd kato =
     (if ntohl (nc_cdw10 cmd) mod 256 = kato then (0, ntohl (nc_cdw11 cmd))
      else (NVME_SC_FEATURE_NOT_CHANGEABLE, kato))"

section \<open>Connecting\<close>

definition handle_connect_ep ::
  "'w ep_io \<Rightarrow> nat \<Rightarrow> ep_command \<Rightarrow> ep_conn \<Rightarrow> 'w \<Rightarrow> int \<times> ep_conn \<times> 'w" where
  "handle_connect_ep X c cmd ep w =
     (case ex_rma_read X c (nc_addr cmd) (nc_len cmd) (nc_key cmd) w of (ret, data, w) \<Rightarrow>
        if ret \<noteq> 0 then (ret, ep, w)
        else
          (if cd_cntlid data \<noteq> 0xffff then NVME_SC_CONNECT_INVALID_PARAM
           else if cd_subsysnqn data \<noteq> NVME_DISC_SUBSYS_NAME then NVME_SC_CONNECT_INVALID_HOST
           else 0,
           ep\<lparr>ec_nqn := cut MAX_NQN_SIZE (cd_hostnqn data)\<rparr>, w))"

definition write_status :: "int \<times> 'w \<Rightarrow> int \<times> 'w" where
  "write_status r = (case r of (ret, w) \<Rightarrow> (if ret \<noteq> 0 then NVME_SC_WRITE_FAULT else 0, w))"

definition handle_identify_ep :: "'w ep_io \<Rightarrow> nat \<Rightarrow> ep_command \<Rightarrow> 'w \<Rightarrow> int \<times> 'w" where
  "handle_identify_ep X c cmd w =
     (if nc_cns cmd \<noteq> NVME_ID_CNS_CTRL then (NVME_SC_BAD_ATTRIBUTES, w)
      else
        write_status
          (ex_rma_write X c (Ep_id_ctrl NVME_VER NVMF_DQ_DEPTH (2 ^ 0 + 2 ^ 2 + 2 ^ 20) NVME_DISC_SUBSYS_NAME)
             (nc_addr cmd) (min (nc_len cmd) ID_CTRL_SIZE) (nc_key cmd) w))"

section \<open>Reading\<close>

text \<open>
  The entries are stored behind the first byte of the buffer, which counts them; a field of one byte keeps the
  low bits. The result is what is sent and its length.
\<close>

definition get_nsdev_inb :: "nsdev_ep list \<Rightarrow> (ep_data \<times> nat) exec" where
  "get_nsdev_inb devs =
     (if 1 + 8 * length devs > PAGE_SIZE then Inl Buffer_overflow
      else Inr (Ns_devices (int (length devs) mod 256) (map (\<lambda>d. (ed_devid d mod 256, ed_nsid d mod 256)) devs),
                length devs * 8 + 2 - 1))"

definition get_xport :: "portid_ep list \<Rightarrow> (ep_data \<times> nat) exec" where
  "get_xport ifaces =
     (if 1 + 264 * length ifaces > PAGE_SIZE then Inl Buffer_overflow
      else Inr (Transports (int (length ifaces) mod 256)
                  (map (\<lambda>i. (to_trtype (ei_type i), to_adrfam (ei_family i), ei_address i)) ifaces),
                length ifaces * 264 + 2 - 1))"

section \<open>Configuring\<close>

definition set_portid_inb ::
  "'s ops \<Rightarrow> int \<Rightarrow> u8 \<Rightarrow> u8 \<Rightarrow> u8 \<Rightarrow> string \<Rightarrow> string \<Rightarrow> 's em \<Rightarrow> (int \<times> 's em) exec" where
  "set_portid_inb Ops portid treq trtype adrfam traddr trsvcid =
     call_op (op_create_portid Ops portid (Some (adrfam_str adrfam)) (Some (trtype_str trtype)) (uint treq)
       (Some traddr) (atoi trsvcid))"

definition del_portid_inb :: "'s ops \<Rightarrow> int \<Rightarrow> 's em \<Rightarrow> (int \<times> 's em) exec" where
  "del_portid_inb Ops portid = call_op (op_delete_portid Ops portid)"

definition set_subsys_inb :: "'s ops \<Rightarrow> string \<Rightarrow> u8 \<Rightarrow> 's em \<Rightarrow> (int \<times> 's em) exec" where
  "set_subsys_inb Ops subnqn allowanyhost = call_op (op_create_subsys Ops subnqn (uint allowanyhost))"

definition del_subsys_inb :: "'s ops \<Rightarrow> string \<Rightarrow> 's em \<Rightarrow> (int \<times> 's em) exec" where
  "del_subsys_inb Ops subnqn = call_op (op_delete_subsys Ops subnqn)"

definition set_ns_inb :: "'s ops \<Rightarrow> string \<Rightarrow> int \<Rightarrow> int \<Rightarrow> int \<Rightarrow> 's em \<Rightarrow> (int \<times> 's em) exec" where
  "set_ns_inb Ops subnqn nsid deviceid devicensid =
     call_op (op_create_ns Ops subnqn (c_int nsid)
       (if deviceid = NVMF_NULLB_DEVID then NULL_BLK_DEVID else c_int deviceid) (c_int devicensid))"

definition del_ns_inb :: "'s ops \<Rightarrow> string \<Rightarrow> int \<Rightarrow> 's em \<Rightarrow> (int \<times> 's em) exec" where
  "del_ns_inb Ops subnqn nsid = call_op (op_delete_ns Ops subnqn (c_int nsid))"

definition set_host_inb :: "'s ops \<Rightarrow> string \<Rightarrow> 's em \<Rightarrow> (int \<times> 's em) exec" where
  "set_host_inb Ops hostnqn = call_op (op_create_host Ops (Some hostnqn))"

definition del_host_inb :: "'s ops \<Rightarrow> string \<Rightarrow> 's em \<Rightarrow> (int \<times> 's em) exec" where
  "del_host_inb Ops hostnqn = call_op (op_delete_host Ops hostnqn)"

definition link_portid_inb :: "'s ops \<Rightarrow> string \<Rightarrow> int \<Rightarrow> 's em \<Rightarrow> (int \<times> 's em) exec" where
  "link_portid_inb Ops subnqn portid = call_op (op_link_port_to_subsys Ops subnqn portid)"

definition unlink_portid_inb :: "'s ops \<Rightarrow> string \<Rightarrow> int \<Rightarrow> 's em \<Rightarrow> (int \<times> 's em) exec" where
  "unlink_portid_inb Ops subnqn portid = call_op (op_unlink_port_from_subsys Ops subnqn portid)"

definition link_host_inb :: "'s ops \<Rightarrow> string \<Rightarrow> string \<Rightarrow> 's em \<Rightarrow> (int \<times> 's em) exec" where
  "link_host_inb Ops subnqn hostnqn = call_op (op_link_host_to_subsys Ops subnqn (Some hostnqn))"

definition unlink_host_inb :: "'s ops \<Rightarrow> string \<Rightarrow> string \<Rightarrow> 's em \<Rightarrow> (int \<times> 's em) exec" where
  "unlink_host_inb Ops subnqn hostnqn = call_op (op_unlink_host_from_subsys Ops subnqn hostnqn)"

text \<open>The switch of \<^verbatim>\<open>handle_mi_send\<close>: an error of an operation is reported as denied access.\<close>

fun mi_config :: "'s ops \<Rightarrow> inb_msg \<Rightarrow> 's em \<Rightarrow> (int \<times> 's em) exec" where
  "mi_config Ops Reset_config s = exec_bind (op_reset_config Ops (em_sys s)) (\<lambda>y. Inr (0, s\<lparr>em_sys := y\<rparr>))"
| "mi_config Ops (Set_port_config p treq typ fam addr svcid) s = set_portid_inb Ops p treq typ fam addr svcid s"
| "mi_config Ops (Del_port_config p) s = del_portid_inb Ops p s"
| "mi_config Ops (Link_port_config n p) s = link_portid_inb Ops n p s"
| "mi_config Ops (Unlink_port_config n p) s = unlink_portid_inb Ops n p s"
| "mi_config Ops (Set_subsys_config n a) s = set_subsys_inb Ops n a s"
| "mi_config Ops (Del_subsys_config n) s = del_subsys_inb Ops n s"
| "mi_config Ops (Set_ns_config n i d dn) s = set_ns_inb Ops n i d dn s"
| "mi_config Ops (Del_ns_config n i) s = del_ns_inb Ops n i s"
| "mi_config Ops (Set_host_config h) s = set_host_inb Ops h s"
| "mi_config Ops (Del_host_config h) s = del_host_inb Ops h s"
| "mi_config Ops (Link_host_config n h) s = link_host_inb Ops n h s"
| "mi_config Ops (Unlink_host_config n h) s = unlink_host_inb Ops n h s"

definition handle_mi_send ::
  "'s ops \<Rightarrow> 'w ep_io \<Rightarrow> nat \<Rightarrow> ep_command \<Rightarrow> ('s, 'w) ep_state \<Rightarrow> (int \<times> ('s, 'w) ep_state) exec" where
  "handle_mi_send Ops X c cmd s =
     (case ex_rma_read_mi X c (nc_fcid cmd) (nc_addr cmd) (nc_len cmd) (nc_key cmd) (es_net s) of (ret, msg, w) \<Rightarrow>
        let s = s\<lparr>es_net := w\<rparr> in
        if ret \<noteq> 0 then Inr (ret, s)
        else if nc_fcid cmd > nvmf_unlink_host_config then Inr (NVME_SC_INVALID_FIELD, s)
        else
          exec_bind (mi_config Ops msg (es_em s)) (\<lambda>(ret, e).
            Inr (if ret \<noteq> 0 then NVME_SC_ACCESS_DENIED else 0, s\<lparr>es_em := e\<rparr>)))"

text \<open>An unknown identifier leaves the buffer and the length as they are.\<close>

definition handle_mi_receive ::
  "'w ep_io \<Rightarrow> nat \<Rightarrow> ep_command \<Rightarrow> ('s, 'w) ep_state \<Rightarrow> (int \<times> ('s, 'w) ep_state) exec" where
  "handle_mi_receive X c cmd s =
     exec_bind
       (if nc_fcid cmd = nvmf_get_ns_config then get_nsdev_inb (em_devices (es_em s))
        else if nc_fcid cmd = nvmf_get_xport_config then get_xport (em_interfaces (es_em s))
        else Inr (Buffer_contents, nc_len cmd))
       (\<lambda>(data, len).
          case write_status (ex_rma_write X c data (nc_addr cmd) len (nc_key cmd) (es_net s)) of (ret, w) \<Rightarrow>
            Inr (ret, s\<lparr>es_net := w\<rparr>))"

section \<open>Requests\<close>

definition handle_command_ep ::
  "'s ops \<Rightarrow> 'w ep_io \<Rightarrow> nat \<Rightarrow> ep_command \<Rightarrow> ep_conn \<Rightarrow> ('s, 'w) ep_state \<Rightarrow>
     (int \<times> int option \<times> ep_conn \<times> ('s, 'w) ep_state) exec" where
  "handle_command_ep Ops X c cmd ep s =
     (let op = nc_opcode cmd in
      if op = nvme_fabrics_command
      then
        (if nc_fctype cmd = nvme_fabrics_type_property_set
         then case handle_property_set_ep cmd (ec_csts ep) of (ret, csts) \<Rightarrow> Inr (ret, None, ep\<lparr>ec_csts := csts\<rparr>, s)
         else if nc_fctype cmd = nvme_fabrics_type_property_get
         then case handle_property_get_ep cmd (ec_csts ep) of (ret, result) \<Rightarrow> Inr (ret, result, ep, s)
         else if nc_fctype cmd = nvme_fabrics_type_connect
         then case handle_connect_ep X c cmd ep (es_net s) of (ret, ep, w) \<Rightarrow> Inr (ret, None, ep, s\<lparr>es_net := w\<rparr>)
         else Inr (NVME_SC_INVALID_OPCODE, None, ep, s))
      else if op = nvme_mi_send
      then exec_bind (handle_mi_send Ops X c cmd s) (\<lambda>(ret, s). Inr (ret, None, ep, s))
      else if op = nvme_mi_receive
      then exec_bind (handle_mi_receive X c cmd s) (\<lambda>(ret, s). Inr (ret, None, ep, s))
      else if op = nvme_admin_identify
      then case handle_identify_ep X c cmd (es_net s) of (ret, w) \<Rightarrow> Inr (ret, None, ep, s\<lparr>es_net := w\<rparr>)
      else if op = nvme_admin_keep_alive then Inr (0, None, ep, s)
      else if op = nvme_admin_set_features
      then case handle_set_features_ep cmd 0 of (ret, kato) \<Rightarrow>
        (if ret \<noteq> 0 then Inr (NVME_SC_INVALID_FIELD, None, ep, s)
         else Inr (0, None, ep\<lparr>ec_kato := c_int (int kato * (KATO_INTERVAL div DELAY_TIMEOUT) mod 2 ^ 32)\<rparr>, s))
      else Inr (NVME_SC_INVALID_OPCODE, None, ep, s))"

text \<open>\<^verbatim>\<open>(NVME_SC_DNR | ret) << 1\<close> in 16 bits, where the code may be negative.\<close>

definition rsp_status_ep :: "int \<Rightarrow> int" where
  "rsp_status_ep ret = (if ret = 0 then 0 else ((NVME_SC_DNR OR ret) * 2) mod 2 ^ 16)"

definition handle_request_ep ::
  "'s ops \<Rightarrow> 'w ep_io \<Rightarrow> nat \<Rightarrow> ep_command \<Rightarrow> ep_conn \<Rightarrow> ('s, 'w) ep_state \<Rightarrow>
     (int \<times> ep_conn \<times> ('s, 'w) ep_state) exec" where
  "handle_request_ep Ops X c cmd ep s =
     exec_bind (handle_command_ep Ops X c cmd ep s) (\<lambda>(ret, result, ep, s).
       let resp = \<lparr>rs_command_id = nc_command_id cmd,
                   rs_result = (case result of None \<Rightarrow> 0 | Some v \<Rightarrow> v), rs_status = rsp_status_ep ret\<rparr>
       in Inr (ret, ep, s\<lparr>es_net := ex_send_rsp X c resp (es_net s)\<rparr>))"

section \<open>The thread that serves the connections\<close>

fun serve_commands_ep ::
  "'s ops \<Rightarrow> 'w ep_io \<Rightarrow> nat \<Rightarrow> ep_command list \<Rightarrow> int \<Rightarrow> ep_conn \<Rightarrow> ('s, 'w) ep_state \<Rightarrow>
     (int \<times> ep_conn \<times> ('s, 'w) ep_state) exec" where
  "serve_commands_ep Ops X c [] code ep s = Inr (code, ep, s)"
| "serve_commands_ep Ops X c (cmd # cmds) code ep s =
     exec_bind (handle_request_ep Ops X c cmd ep s) (\<lambda>(ret, ep, s).
       if ret \<noteq> 0 then Inr (ret, ep, s)
       else serve_commands_ep Ops X c cmds code (ep\<lparr>ec_countdown := ec_kato ep\<rparr>) s)"

definition serve_host_ep ::
  "'s ops \<Rightarrow> 'w ep_io \<Rightarrow> nat \<Rightarrow> ep_command list \<Rightarrow> int \<Rightarrow> ep_conn \<Rightarrow> ('s, 'w) ep_state \<Rightarrow>
     (ep_conn option \<times> ('s, 'w) ep_state) exec" where
  "serve_host_ep Ops X c cmds code ep s =
     exec_bind (serve_commands_ep Ops X c cmds code ep s) (\<lambda>(ret, ep, s).
       if ret = - EAGAIN \<and> ec_countdown ep - 1 > 0
       then Inr (Some (ep\<lparr>ec_countdown := ec_countdown ep - 1\<rparr>), s)
       else Inr (None, s\<lparr>es_net := ex_disconnect X c True (es_net s)\<rparr>))"

text \<open>A connection as the thread takes it from the queue.\<close>

definition new_host_ep :: ep_conn where
  "new_host_ep = \<lparr>ec_nqn = [], ec_csts = 0, ec_countdown = RETRY_COUNT_ep, ec_kato = RETRY_COUNT_ep\<rparr>"

text \<open>Rounds in which nothing arrives.\<close>

fun idle_rounds ::
  "'s ops \<Rightarrow> 'w ep_io \<Rightarrow> nat \<Rightarrow> nat \<Rightarrow> ep_conn \<Rightarrow> ('s, 'w) ep_state \<Rightarrow> (ep_conn option \<times> ('s, 'w) ep_state) exec" where
  "idle_rounds Ops X c 0 ep s = Inr (Some ep, s)"
| "idle_rounds Ops X c (Suc n) ep s =
     exec_bind (serve_host_ep Ops X c [] (- EAGAIN) ep s) (\<lambda>(h, s).
       case h of None \<Rightarrow> Inr (None, s) | Some ep \<Rightarrow> idle_rounds Ops X c n ep s)"

end
