(* ===== verification/Ep_Compose.thy ===== *)
theory Ep_Compose
  imports Ep_Pseudo
begin

text \<open>
  The discovery controller and an endpoint manager together: a network in which the messages of the controller
  (\<open>Dem_Messages\<close>) arrive at the request handlers of the endpoint manager, over HTTP or in band. The HTTP client
  (\<^verbatim>\<open>src/src/common/curl.c\<close>) reports an error status as \<^verbatim>\<open>-EINVAL\<close>, because it sets \<^verbatim>\<open>CURLOPT_FAILONERROR\<close>.
\<close>

section \<open>The network\<close>

text \<open>The path of a URI: what follows the scheme, the host and the port.\<close>

definition uri_path :: "string \<Rightarrow> string" where
  "uri_path uri = dropWhile (\<lambda>c. c \<noteq> CHR ''/'') (drop (length ''http://'') uri)"

definition http_call ::
  "'j jansson \<Rightarrow> 's ops \<Rightarrow> string \<Rightarrow> string \<Rightarrow> string \<Rightarrow> 's em exec \<Rightarrow> int \<times> string \<times> 's em exec" where
  "http_call J Ops meth uri body w =
     (case exec_bind w (handle_http_request_ep J Ops
             \<lparr>hm_method = meth, hm_uri = uri_path uri, hm_query_string = [], hm_headers = [], hm_body = body\<rparr>) of
        Inl f \<Rightarrow> (- EINVAL, [], Inl f)
      | Inr (s, status, resp) \<Rightarrow>
          (if status = 0 then 0 else - EINVAL, case resp of None \<Rightarrow> [] | Some r \<Rightarrow> r, Inr s))"

definition ep_network :: "'j jansson \<Rightarrow> 's ops \<Rightarrow> 's em exec network" where
  "ep_network J Ops =
     \<lparr>nw_inet_pton = (\<lambda>_ _. True),
      nw_connect = (\<lambda>_ _ _ _ w. (0, False, w)),
      nw_disconnect = (\<lambda>_ w. w),
      nw_mi_send = (\<lambda>_ msg w. case exec_bind w (mi_config Ops msg) of
          Inl f \<Rightarrow> (- EINVAL, Inl f)
        | Inr (ret, s) \<Rightarrow> (if ret \<noteq> 0 then NVME_SC_ACCESS_DENIED else 0, Inr s)),
      nw_ns_devices = (\<lambda>_ w. (- EINVAL, [], w)),
      nw_transports = (\<lambda>_ w. (- EINVAL, [], w)),
      nw_log_page = (\<lambda>_ _ w. (- EINVAL, (0, 0, []), w)),
      nw_keep_alive = (\<lambda>_ w. (0, w)),
      nw_get = (\<lambda>uri w. http_call J Ops ''GET'' uri [] w),
      nw_post = (\<lambda>uri body w. case http_call J Ops ''POST'' uri body w of (ret, _, w) \<Rightarrow> (ret, w)),
      nw_delete = (\<lambda>uri w. case http_call J Ops ''DELETE'' uri [] w of (ret, _, w) \<Rightarrow> (ret, w)),
      nw_send_aer = (\<lambda>_ w. w)\<rparr>"

section \<open>Messages\<close>

datatype dem_msg =
    Del_subsys_msg subsystem
  | Del_ns_msg subsystem ns
  | Del_host_msg string
  | Del_portid_msg portid
  | Unlink_host_msg subsystem host
  | Unlink_portid_msg subsystem portid
  | Link_portid_msg subsystem portid
  | Set_ns_msg subsystem ns
  | Link_host_msg subsystem host

text \<open>What the controller sends in band and out of band.\<close>

fun inb_send :: "'w network \<Rightarrow> dem_msg \<Rightarrow> target \<Rightarrow> 'w \<Rightarrow> 'w sent" where
  "inb_send N (Del_subsys_msg ss) = send_del_subsys_inb N ss"
| "inb_send N (Del_ns_msg ss n) = send_del_ns_inb N ss n"
| "inb_send N (Del_host_msg nqn) = send_del_host_inb N nqn"
| "inb_send N (Del_portid_msg p) = send_del_portid_inb N p"
| "inb_send N (Unlink_host_msg ss h) = send_unlink_host_inb N ss h"
| "inb_send N (Unlink_portid_msg ss p) = send_unlink_portid_inb N ss p"
| "inb_send N (Link_portid_msg ss p) = send_link_portid_inb N ss p"
| "inb_send N (Set_ns_msg ss n) = send_set_ns_inb N ss n"
| "inb_send N (Link_host_msg ss h) = send_then (send_host_config_inb N h) (send_link_host_inb N ss h)"

fun oob_send :: "'w network \<Rightarrow> dem_msg \<Rightarrow> target \<Rightarrow> 'w \<Rightarrow> 'w sent" where
  "oob_send N (Del_subsys_msg ss) = send_del_subsys_oob N ss"
| "oob_send N (Del_ns_msg ss n) = send_del_ns_oob N ss n"
| "oob_send N (Del_host_msg nqn) = send_del_host_oob N nqn"
| "oob_send N (Del_portid_msg p) = send_del_portid_oob N p"
| "oob_send N (Unlink_host_msg ss h) = send_unlink_host_oob N ss h"
| "oob_send N (Unlink_portid_msg ss p) = send_unlink_portid_oob N ss p"
| "oob_send N (Link_portid_msg ss p) = send_link_portid_oob N ss p"
| "oob_send N (Set_ns_msg ss n) = send_set_ns_oob N ss n"
| "oob_send N (Link_host_msg ss h) = send_link_host_oob N ss h"

text \<open>What it means: the operations of the endpoint manager it stands for.\<close>

fun meaning :: "dem_msg \<Rightarrow> nv_cmd list" where
  "meaning (Del_subsys_msg ss) = [Delete_subsys (ss_nqn ss)]"
| "meaning (Del_ns_msg ss n) = [Delete_ns (ss_nqn ss) (ns_nsid n)]"
| "meaning (Del_host_msg nqn) = [Delete_host nqn]"
| "meaning (Del_portid_msg p) = [Delete_portid (pt_portid p)]"
| "meaning (Unlink_host_msg ss h) = [Unlink_host (ss_nqn ss) (hs_nqn h)]"
| "meaning (Unlink_portid_msg ss p) = [Unlink_port (ss_nqn ss) (pt_portid p)]"
| "meaning (Link_portid_msg ss p) = [Link_port (ss_nqn ss) (pt_portid p)]"
| "meaning (Set_ns_msg ss n) = [Create_ns (ss_nqn ss) (ns_nsid n) (ns_devid n) (ns_devns n)]"
| "meaning (Link_host_msg ss h) = [Create_host (hs_nqn h), Link_host (ss_nqn ss) (hs_nqn h)]"

text \<open>A sequence of operations that all succeed.\<close>

fun succeeds :: "'s ops \<Rightarrow> nv_cmd list \<Rightarrow> 's \<Rightarrow> 's \<Rightarrow> bool" where
  "succeeds Ops [] x y = (y = x)"
| "succeeds Ops (c # cs) x y = (\<exists>z. run_cmd Ops c x = Inr (0, z) \<and> succeeds Ops cs z y)"

section \<open>Messages that arrive as they were meant\<close>

text \<open>Names that are one part of a URI, and numbers that fit their fields.\<close>

definition nqn_ok :: "string \<Rightarrow> bool" where
  "nqn_ok n = (CHR ''/'' \<notin> set n \<and> length n \<le> 223)"

definition portid_ok :: "portid \<Rightarrow> bool" where
  "portid_ok p = (0 \<le> pt_portid p \<and> pt_portid p < 2 ^ 16)"

definition ns_ok :: "ns \<Rightarrow> bool" where
  "ns_ok n = (0 \<le> ns_nsid n \<and> ns_nsid n < 2 ^ 31)"

definition dev_ok :: "ns \<Rightarrow> bool" where
  "dev_ok n = ((ns_devid n = NULL_BLK_DEVID \<or> 0 \<le> ns_devid n \<and> ns_devid n < 2 ^ 31 \<and> ns_devid n \<noteq> NVMF_NULLB_DEVID) \<and>
               0 \<le> ns_devns n \<and> ns_devns n < 2 ^ 31)"

fun msg_ok :: "dem_msg \<Rightarrow> bool" where
  "msg_ok (Del_subsys_msg ss) = nqn_ok (ss_nqn ss)"
| "msg_ok (Del_ns_msg ss n) = (nqn_ok (ss_nqn ss) \<and> ns_ok n)"
| "msg_ok (Del_host_msg nqn) = nqn_ok nqn"
| "msg_ok (Del_portid_msg p) = portid_ok p"
| "msg_ok (Unlink_host_msg ss h) = (nqn_ok (ss_nqn ss) \<and> nqn_ok (hs_nqn h))"
| "msg_ok (Unlink_portid_msg ss p) = (nqn_ok (ss_nqn ss) \<and> portid_ok p)"
| "msg_ok (Link_portid_msg ss p) = (nqn_ok (ss_nqn ss) \<and> portid_ok p)"
| "msg_ok (Set_ns_msg ss n) = (nqn_ok (ss_nqn ss) \<and> ns_ok n \<and> dev_ok n)"
| "msg_ok (Link_host_msg ss h) = (nqn_ok (ss_nqn ss) \<and> nqn_ok (hs_nqn h))"

text \<open>The body of a message is read by the JSON library as it was written.\<close>

definition reads_int :: "'j jansson \<Rightarrow> 'j \<Rightarrow> string \<Rightarrow> int \<Rightarrow> bool" where
  "reads_int J obj tag i = (\<exists>x. json_object_get J obj tag = Some x \<and> json_integer_value J x = i)"

definition reads_string :: "'j jansson \<Rightarrow> 'j \<Rightarrow> string \<Rightarrow> string \<Rightarrow> bool" where
  "reads_string J obj tag t = (\<exists>x. json_object_get J obj tag = Some x \<and> json_string_value J x = Some t)"

definition reads_body :: "'j jansson \<Rightarrow> string \<Rightarrow> ('j \<Rightarrow> bool) \<Rightarrow> bool" where
  "reads_body J body P = (\<exists>obj. json_loads J (copy_body (length body) body) = Some obj \<and> P obj)"

fun body_read :: "'j jansson \<Rightarrow> dem_msg \<Rightarrow> bool" where
  "body_read J (Link_portid_msg ss p) =
     reads_body J (build_set_portid_oob (pt_portid p)) (\<lambda>obj. reads_int J obj TAG_PORTID (pt_portid p))"
| "body_read J (Set_ns_msg ss n) =
     reads_body J (build_set_ns_oob n)
       (\<lambda>obj. reads_int J obj TAG_DEVID (ns_devid n) \<and> reads_int J obj TAG_DEVNSID (ns_devns n))"
| "body_read J (Link_host_msg ss h) =
     reads_body J (build_set_host_oob (hs_nqn h)) (\<lambda>obj. reads_string J obj TAG_HOSTNQN (hs_nqn h))"
| "body_read J m = True"

text \<open>The address of the endpoint manager is not a path, and the URIs of a message fit their array.\<close>

fun msg_paths :: "dem_msg \<Rightarrow> string list list" where
  "msg_paths (Del_subsys_msg ss) = [[URI_SUBSYSTEM, ss_nqn ss]]"
| "msg_paths (Del_ns_msg ss n) = [[URI_SUBSYSTEM, ss_nqn ss, URI_NAMESPACE, show_int (ns_nsid n)]]"
| "msg_paths (Del_host_msg nqn) = [[URI_HOST, nqn]]"
| "msg_paths (Del_portid_msg p) = [[URI_PORTID, show_int (pt_portid p)]]"
| "msg_paths (Unlink_host_msg ss h) = [[URI_SUBSYSTEM, ss_nqn ss, URI_HOST, hs_nqn h]]"
| "msg_paths (Unlink_portid_msg ss p) = [[URI_SUBSYSTEM, ss_nqn ss, URI_PORTID, show_int (pt_portid p)]]"
| "msg_paths (Link_portid_msg ss p) = [[URI_SUBSYSTEM, ss_nqn ss, URI_PORTID]]"
| "msg_paths (Set_ns_msg ss n) = [[URI_SUBSYSTEM, ss_nqn ss, URI_NAMESPACE, show_int (ns_nsid n)]]"
| "msg_paths (Link_host_msg ss h) = [[URI_HOST], [URI_SUBSYSTEM, ss_nqn ss, URI_HOST]]"

definition oob_reachable :: "target \<Rightarrow> dem_msg \<Rightarrow> bool" where
  "oob_reachable t m =
     (case sc_oob (tg_sc_iface t) of (addr, port) \<Rightarrow>
        CHR ''/'' \<notin> set addr \<and>
        list_all (\<lambda>ps. length addr + length (show_int port) + length (join_uri ps) < MAX_URI_SIZE - 8) (msg_paths m))"

section \<open>Delivery\<close>

lemma show_int_no_slash: "CHR ''/'' \<notin> set (show_int i)"
  using show_nat_digits [of "nat i"] show_nat_digits [of "nat (- i)"] by (auto simp: show_int_def list_all_iff is_digit_def)

lemma dropWhile_to_slash: "CHR ''/'' \<notin> set a \<Longrightarrow> dropWhile (\<lambda>c. c \<noteq> CHR ''/'') (a @ CHR ''/'' # p) = CHR ''/'' # p"
  by (induction a) auto

text \<open>The URI made from the address of the target and the parts of a path.\<close>

lemma oob_uri_path:
  assumes "sc_oob (tg_sc_iface t) = (addr, port)" "CHR ''/'' \<notin> set addr" "CHR ''/'' # path = join_uri ps"
    "length addr + length (show_int port) + length (join_uri ps) < MAX_URI_SIZE - 8"
  shows "\<exists>uri. oob_uri t path = Inr uri \<and> uri_path uri = join_uri ps"
proof -
  have len: "length (join_uri ps) = Suc (length path)" using assms(3) [symmetric] by simp
  have "oob_uri t path = Inr (get_uri t @ path)"
    using assms(1,4) by (simp add: oob_uri_def get_uri_def c_strcpy_def len MAX_URI_SIZE_def)
  moreover have "uri_path (get_uri t @ path) = join_uri ps"
    using assms(1,2) dropWhile_to_slash [of "addr @ CHR '':'' # show_int port" path] show_int_no_slash [of port]
    unfolding assms(3) [symmetric] by (simp add: get_uri_def uri_path_def)
  ultimately show ?thesis by blast
qed

lemma parse_join:
  "list_all (\<lambda>p. CHR ''/'' \<notin> set p) ps \<Longrightarrow> length ps \<le> MAX_DEPTH \<Longrightarrow>
     parse_uri_ep (join_uri ps) MAX_DEPTH = (int (length ps) - 1, ps)"
  by (simp add: parse_uri_ep_def split_slash_join)

lemma http_call_join:
  assumes "uri_path uri = join_uri ps" "ps \<noteq> []" "list_all (\<lambda>p. CHR ''/'' \<notin> set p) ps" "length ps \<le> MAX_DEPTH"
    and "\<And>hm. hm_method hm = meth \<Longrightarrow> hm_body hm = body \<Longrightarrow>
      \<exists>r. handle_target_requests_ep J Ops ps (length ps) hm s = Inr (s', 0, r)"
  shows "\<exists>r. http_call J Ops meth uri body (Inr s) = (0, r, Inr s')"
proof -
  have "join_uri ps \<noteq> []" using assms(2) by (cases ps) (simp_all add: join_uri_def)
  moreover obtain r where "handle_target_requests_ep J Ops ps (length ps)
      \<lparr>hm_method = meth, hm_uri = uri_path uri, hm_query_string = [], hm_headers = [], hm_body = body\<rparr> s = Inr (s', 0, r)"
    using assms(5) by fastforce
  ultimately show ?thesis using assms(1,2) parse_join [OF assms(3,4)]
    by (simp add: http_call_def handle_http_request_ep_def)
qed

lemma short_text: "length t < BODY_SZ \<Longrightarrow> respond s ret t = Inr (s, ret, t)"
  by (simp add: respond_def c_strcpy_def)

lemma remove_op_ok:
  assumes "f (em_sys s) = Inr (0, y)" "length t < BODY_SZ"
  shows "remove_op f u t s = Inr (s\<lparr>em_sys := y\<rparr>, 0, t)"
  using assms by (simp add: remove_op_def call_op_def short_text)

lemma configure_ok:
  assumes "f (em_sys s) = Inr (0, y)" "length t < BODY_SZ"
  shows "configure f (Some t) s = Inr (s\<lparr>em_sys := y\<rparr>, 0, t)"
  using assms by (simp add: configure_def call_op_def short_text)

text \<open>One DELETE and one POST of the controller.\<close>

lemma oob_delete_ok:
  assumes "sc_oob (tg_sc_iface t) = (addr, port)" "CHR ''/'' \<notin> set addr" "CHR ''/'' # path = join_uri ps"
    "length addr + length (show_int port) + length (join_uri ps) < MAX_URI_SIZE - 8"
    "ps \<noteq> []" "list_all (\<lambda>p. CHR ''/'' \<notin> set p) ps" "length ps \<le> MAX_DEPTH"
    "\<exists>r. delete_request Ops ps (length ps) s = Inr (s', 0, r)"
  shows "oob_delete (ep_network J Ops) path t (Inr s) = Inr (0, t, Inr s')"
proof -
  obtain uri where uri: "oob_uri t path = Inr uri" "uri_path uri = join_uri ps" using oob_uri_path [OF assms(1-4)] by blast
  from http_call_join [OF uri(2) assms(5-7), of "''DELETE''" "[]" J Ops s s'] assms(8) obtain r where
    "http_call J Ops ''DELETE'' uri [] (Inr s) = (0, r, Inr s')" by (auto simp: handle_target_requests_ep_def)
  then show ?thesis by (simp add: oob_delete_def uri ep_network_def)
qed

lemma oob_post_ok:
  assumes "sc_oob (tg_sc_iface t) = (addr, port)" "CHR ''/'' \<notin> set addr" "CHR ''/'' # path = join_uri ps"
    "length addr + length (show_int port) + length (join_uri ps) < MAX_URI_SIZE - 8"
    "ps \<noteq> []" "list_all (\<lambda>p. CHR ''/'' \<notin> set p) ps" "length ps \<le> MAX_DEPTH"
    "\<exists>r. post_request J Ops ps (length ps) body s = Inr (s', 0, r)"
  shows "oob_post (ep_network J Ops) path body t (Inr s) = Inr (0, t, Inr s')"
proof -
  obtain uri where uri: "oob_uri t path = Inr uri" "uri_path uri = join_uri ps" using oob_uri_path [OF assms(1-4)] by blast
  from http_call_join [OF uri(2) assms(5-7), of "''POST''" body J Ops s s'] assms(8) obtain r where
    "http_call J Ops ''POST'' uri body (Inr s) = (0, r, Inr s')" by (auto simp: handle_target_requests_ep_def)
  then show ?thesis by (simp add: oob_post_def uri ep_network_def)
qed

lemma atoi_show_int: "0 \<le> i \<Longrightarrow> atoi (show_int i) = i"
  using atoi_show [of "nat i"] by (simp add: show_int_def)

lemma length_show_int: assumes "0 \<le> i" "i < 2 ^ 31" shows "length (show_int i) \<le> 10"
proof -
  have "nat i < 10 ^ 10" using assms by simp
  then show ?thesis using assms length_show_nat [of "nat i" 10] by (simp add: show_int_def)
qed

lemma inb_ok:
  assumes "sc_connected (tg_sc_iface t)" "mi_config Ops msg s = Inr (0, s')"
  shows "send_set_config (ep_network J Ops) msg t (Inr s) = Inr (0, t, Inr s')"
  using assms by (simp add: send_set_config_def ep_network_def)

lemma call_op_ok: "f (em_sys s) = Inr (0, y) \<Longrightarrow> call_op f s = Inr (0, s\<lparr>em_sys := y\<rparr>)"
  by (simp add: call_op_def)

lemma field_ids:
  "portid_ok p \<Longrightarrow> le16 (pt_portid p) = pt_portid p"
  "ns_ok n \<Longrightarrow> c_int (le32 (ns_nsid n)) = ns_nsid n"
  "nqn_ok q \<Longrightarrow> cut MAX_NQN_SIZE q = q"
  by (simp_all add: portid_ok_def ns_ok_def nqn_ok_def le16_def le32_def c_int_id cut_def MAX_NQN_SIZE_def)

lemma device_ids:
  assumes "dev_ok n"
  shows "(if le32 (if ns_devid n = NULL_BLK_DEVID then NVMF_NULLB_DEVID else ns_devid n) = NVMF_NULLB_DEVID then NULL_BLK_DEVID
          else c_int (le32 (if ns_devid n = NULL_BLK_DEVID then NVMF_NULLB_DEVID else ns_devid n))) = ns_devid n"
    "c_int (le32 (ns_devns n)) = ns_devns n" "c_int (ns_devid n) = ns_devid n" "c_int (ns_devns n) = ns_devns n"
  using assms by (auto simp: dev_ok_def le32_def c_int_id NVMF_NULLB_DEVID_def NULL_BLK_DEVID_def)

lemmas mi_defs = set_portid_inb_def del_portid_inb_def set_subsys_inb_def del_subsys_inb_def set_ns_inb_def del_ns_inb_def
  set_host_inb_def del_host_inb_def link_portid_inb_def unlink_portid_inb_def link_host_inb_def unlink_host_inb_def

lemmas send_inb_defs = send_del_subsys_inb_def send_del_ns_inb_def send_del_host_inb_def send_del_portid_inb_def
  send_unlink_host_inb_def send_unlink_portid_inb_def send_link_portid_inb_def send_set_ns_inb_def send_host_config_inb_def
  send_link_host_inb_def build_subsys_delete_inb_def build_ns_delete_inb_def build_host_delete_inb_def
  build_port_delete_inb_def build_link_host_inb_def build_link_port_inb_def build_ns_config_inb_def build_host_config_inb_def

lemma inb_meaning:
  assumes "msg_ok m" "sc_connected (tg_sc_iface t)" "succeeds Ops (meaning m) (em_sys s) y"
  shows "inb_send (ep_network J Ops) m t (Inr s) = Inr (0, t, Inr (s\<lparr>em_sys := y\<rparr>))"
  using assms
  by (cases m)
    (auto simp: send_inb_defs mi_defs field_ids device_ids send_then_def call_op_ok inb_ok)

section \<open>Both ways\<close>

lemmas send_oob_defs = send_del_subsys_oob_def send_del_ns_oob_def send_del_host_oob_def send_del_portid_oob_def
  send_unlink_host_oob_def send_unlink_portid_oob_def send_link_portid_oob_def send_set_ns_oob_def send_link_host_oob_def
  send_update_subsys_oob_def ns_path_def

lemma uri_no_slash:
  "CHR ''/'' \<notin> set URI_SUBSYSTEM" "CHR ''/'' \<notin> set URI_HOST" "CHR ''/'' \<notin> set URI_PORTID" "CHR ''/'' \<notin> set URI_NAMESPACE"
  by (simp_all add: uri_defs)

lemma uri_distinct:
  "URI_HOST \<noteq> URI_SUBSYSTEM" "URI_PORTID \<noteq> URI_SUBSYSTEM" "URI_HOST \<noteq> URI_PORTID" "URI_PORTID \<noteq> URI_NAMESPACE"
  "URI_HOST \<noteq> URI_NAMESPACE" "URI_NAMESPACE \<noteq> URI_PORTID" "URI_NAMESPACE \<noteq> URI_HOST" "URI_PORTID \<noteq> URI_HOST"
  by (simp_all add: uri_defs)

lemma nqn_no_slash: "nqn_ok n \<Longrightarrow> CHR ''/'' \<notin> set n"
  by (simp add: nqn_ok_def)

lemma short_names:
  "nqn_ok n \<Longrightarrow> nqn_ok m \<Longrightarrow> length n + length m < 500" "nqn_ok n \<Longrightarrow> length n < 500"
  "portid_ok p \<Longrightarrow> length (show_int (pt_portid p)) < 20" "ns_ok i \<Longrightarrow> length (show_int (ns_nsid i)) < 20"
  using length_show_int [of "pt_portid p"] length_show_int [of "ns_nsid i"]
  by (auto simp: nqn_ok_def portid_ok_def ns_ok_def)

lemma numbers_back:
  "portid_ok p \<Longrightarrow> atoi (show_int (pt_portid p)) = pt_portid p" "ns_ok n \<Longrightarrow> atoi (show_int (ns_nsid n)) = ns_nsid n"
  "portid_ok p \<Longrightarrow> c_int (pt_portid p) = pt_portid p"
  by (simp_all add: portid_ok_def ns_ok_def atoi_show_int c_int_id)

text \<open>The handlers, when the operation succeeds.\<close>

lemma deletes_ok:
  "nqn_ok n \<Longrightarrow> op_delete_subsys Ops n (em_sys s) = Inr (0, y) \<Longrightarrow> \<exists>r. del_subsys_ep Ops n s = Inr (s\<lparr>em_sys := y\<rparr>, 0, r)"
  "nqn_ok n \<Longrightarrow> op_delete_host Ops n (em_sys s) = Inr (0, y) \<Longrightarrow> \<exists>r. del_host_ep Ops n s = Inr (s\<lparr>em_sys := y\<rparr>, 0, r)"
  "portid_ok p \<Longrightarrow> op_delete_portid Ops (pt_portid p) (em_sys s) = Inr (0, y) \<Longrightarrow>
     \<exists>r. del_portid_ep Ops (show_int (pt_portid p)) s = Inr (s\<lparr>em_sys := y\<rparr>, 0, r)"
  "nqn_ok n \<Longrightarrow> ns_ok i \<Longrightarrow> op_delete_ns Ops n (ns_nsid i) (em_sys s) = Inr (0, y) \<Longrightarrow>
     \<exists>r. del_ns_ep Ops n (show_int (ns_nsid i)) s = Inr (s\<lparr>em_sys := y\<rparr>, 0, r)"
  "nqn_ok n \<Longrightarrow> nqn_ok h \<Longrightarrow> op_unlink_host_from_subsys Ops n h (em_sys s) = Inr (0, y) \<Longrightarrow>
     \<exists>r. unlink_host_ep Ops n h s = Inr (s\<lparr>em_sys := y\<rparr>, 0, r)"
  "nqn_ok n \<Longrightarrow> portid_ok p \<Longrightarrow> op_unlink_port_from_subsys Ops n (pt_portid p) (em_sys s) = Inr (0, y) \<Longrightarrow>
     \<exists>r. unlink_portid Ops n (show_int (pt_portid p)) s = Inr (s\<lparr>em_sys := y\<rparr>, 0, r)"
  using short_names(1) [of n h] short_names(2) [of n] short_names(3) [of p] short_names(4) [of i]
  by (auto simp: del_subsys_ep_def del_host_ep_def del_portid_ep_def del_ns_ep_def unlink_host_ep_def unlink_portid_def
      numbers_back BODY_SZ_def intro!: exI remove_op_ok)

lemma posts_ok:
  "portid_ok p \<Longrightarrow> nqn_ok n \<Longrightarrow> reads_body J body (\<lambda>obj. reads_int J obj TAG_PORTID (pt_portid p)) \<Longrightarrow>
     op_link_port_to_subsys Ops n (pt_portid p) (em_sys s) = Inr (0, y) \<Longrightarrow>
     \<exists>r. link_portid J Ops n body s = Inr (s\<lparr>em_sys := y\<rparr>, 0, r)"
  "nqn_ok n \<Longrightarrow> nqn_ok h \<Longrightarrow> reads_body J body (\<lambda>obj. reads_string J obj TAG_HOSTNQN h) \<Longrightarrow>
     op_link_host_to_subsys Ops n (Some h) (em_sys s) = Inr (0, y) \<Longrightarrow>
     \<exists>r. link_host_ep J Ops n body s = Inr (s\<lparr>em_sys := y\<rparr>, 0, r)"
  "nqn_ok h \<Longrightarrow> reads_body J body (\<lambda>obj. reads_string J obj TAG_HOSTNQN h) \<Longrightarrow>
     op_create_host Ops (Some h) (em_sys s) = Inr (0, y) \<Longrightarrow>
     \<exists>r. post_host J Ops None body s = Inr (s\<lparr>em_sys := y\<rparr>, 0, r)"
  "ns_ok i \<Longrightarrow> dev_ok i \<Longrightarrow>
     reads_body J body (\<lambda>obj. reads_int J obj TAG_DEVID (ns_devid i) \<and> reads_int J obj TAG_DEVNSID (ns_devns i)) \<Longrightarrow>
     op_create_ns Ops n (ns_nsid i) (ns_devid i) (ns_devns i) (em_sys s) = Inr (0, y) \<Longrightarrow>
     \<exists>r. post_ns J Ops n (Some (show_int (ns_nsid i))) body s = Inr (s\<lparr>em_sys := y\<rparr>, 0, r)"
  using short_names(1) [of n h] short_names(2) [of n] short_names(2) [of h] short_names(3) [of p] short_names(4) [of i]
  by (auto simp: reads_body_def reads_int_def reads_string_def link_portid_def link_host_ep_def post_host_def post_ns_def
      load_body_def Let_def numbers_back device_ids BODY_SZ_def configure_ok split: option.split)

lemma bodies_nonempty:
  "build_set_portid_oob i \<noteq> []" "build_set_ns_oob n \<noteq> []" "build_set_host_oob q \<noteq> []"
  by (simp_all add: build_set_portid_oob_def build_set_ns_oob_def build_set_host_oob_def body_text_def MAX_BODY_SIZE_def)

lemma join_uri_simps [simp]: "join_uri [] = []" "join_uri (p # ps) = CHR ''/'' # p @ join_uri ps"
  by (simp_all add: join_uri_def)

lemmas path_simps = uri_no_slash show_int_no_slash nqn_no_slash MAX_DEPTH_def uri_distinct delete_request_def post_request_def
  bodies_nonempty

lemma oob_meaning:
  assumes "msg_ok m" "oob_reachable t m" "body_read J m" "succeeds Ops (meaning m) (em_sys s) y"
  shows "oob_send (ep_network J Ops) m t (Inr s) = Inr (0, t, Inr (s\<lparr>em_sys := y\<rparr>))"
proof -
  obtain addr port where at: "sc_oob (tg_sc_iface t) = (addr, port)" by fastforce
  note del = oob_delete_ok [OF at] and pst = oob_post_ok [OF at]
  show ?thesis
  proof (cases m)
    case (Del_subsys_msg ss)
    then show ?thesis using assms at deletes_ok(1) [of "ss_nqn ss" Ops s y]
      by (auto simp: send_oob_defs oob_reachable_def path_simps intro!: del [where ps = "[URI_SUBSYSTEM, ss_nqn ss]"])
  next
    case (Del_ns_msg ss n)
    then show ?thesis using assms at deletes_ok(4) [of "ss_nqn ss" n Ops s y]
      by (auto simp: send_oob_defs oob_reachable_def path_simps
          intro!: del [where ps = "[URI_SUBSYSTEM, ss_nqn ss, URI_NAMESPACE, show_int (ns_nsid n)]"])
  next
    case (Del_host_msg q)
    then show ?thesis using assms at deletes_ok(2) [of q Ops s y]
      by (auto simp: send_oob_defs oob_reachable_def path_simps intro!: del [where ps = "[URI_HOST, q]"])
  next
    case (Del_portid_msg p)
    then show ?thesis using assms at deletes_ok(3) [of p Ops s y]
      by (auto simp: send_oob_defs oob_reachable_def path_simps intro!: del [where ps = "[URI_PORTID, show_int (pt_portid p)]"])
  next
    case (Unlink_host_msg ss h)
    then show ?thesis using assms at deletes_ok(5) [of "ss_nqn ss" "hs_nqn h" Ops s y]
      by (auto simp: send_oob_defs oob_reachable_def path_simps
          intro!: del [where ps = "[URI_SUBSYSTEM, ss_nqn ss, URI_HOST, hs_nqn h]"])
  next
    case (Unlink_portid_msg ss p)
    then show ?thesis using assms at deletes_ok(6) [of "ss_nqn ss" p Ops s y]
      by (auto simp: send_oob_defs oob_reachable_def path_simps
          intro!: del [where ps = "[URI_SUBSYSTEM, ss_nqn ss, URI_PORTID, show_int (pt_portid p)]"])
  next
    case (Link_portid_msg ss p)
    then show ?thesis using assms at posts_ok(1) [of p "ss_nqn ss" J "build_set_portid_oob (pt_portid p)" Ops s y]
      by (auto simp: send_oob_defs oob_reachable_def path_simps
          intro!: pst [where ps = "[URI_SUBSYSTEM, ss_nqn ss, URI_PORTID]"])
  next
    case (Set_ns_msg ss n)
    then show ?thesis using assms at posts_ok(4) [of n J "build_set_ns_oob n" Ops "ss_nqn ss" s y]
      by (auto simp: send_oob_defs oob_reachable_def path_simps
          intro!: pst [where ps = "[URI_SUBSYSTEM, ss_nqn ss, URI_NAMESPACE, show_int (ns_nsid n)]"])
  next
    case (Link_host_msg ss h)
    then obtain z where z: "op_create_host Ops (Some (hs_nqn h)) (em_sys s) = Inr (0, z)"
      "op_link_host_to_subsys Ops (ss_nqn ss) (Some (hs_nqn h)) z = Inr (0, y)" using assms(4) by auto
    let ?b = "build_set_host_oob (hs_nqn h)" and ?s = "s\<lparr>em_sys := z\<rparr>"
    have "oob_post (ep_network J Ops) URI_HOST ?b t (Inr s) = Inr (0, t, Inr ?s)"
      using assms at posts_ok(3) [of "hs_nqn h" J ?b Ops s z] z Link_host_msg
      by (auto simp: oob_reachable_def path_simps intro!: pst [where ps = "[URI_HOST]"])
    moreover have "oob_post (ep_network J Ops) (URI_SUBSYSTEM @ CHR ''/'' # ss_nqn ss @ CHR ''/'' # URI_HOST) ?b t (Inr ?s) =
        Inr (0, t, Inr (s\<lparr>em_sys := y\<rparr>))"
      using assms at posts_ok(2) [of "ss_nqn ss" "hs_nqn h" J ?b Ops ?s y] z Link_host_msg
      by (auto simp: oob_reachable_def path_simps intro!: pst [where ps = "[URI_SUBSYSTEM, ss_nqn ss, URI_HOST]"])
    ultimately show ?thesis using Link_host_msg by (simp add: send_oob_defs send_then_def Let_def)
  qed
qed

end
