(* ===== verification/Ep_Properties.thy ===== *)
theory Ep_Properties
  imports Ep_Ref Ep_Compose Dem_Demo
begin

text \<open>
  What the endpoint manager guarantees, with the kernel of \<open>Ep_Ref\<close> as the example.
\<close>

section \<open>Configuring the kernel\<close>

lemma steady_root: "steady ref_kernel []"
  by (simp add: steady_def ref_kernel_def ref_dir_def rel_def nv_def path_text_def MAXPATHLEN_def)

definition ref_empty :: ref_nvmet where
  "ref_empty = \<lparr>rf_subsys = [], rf_ports = [], rf_hosts = []\<rparr>"

definition demo_nqn :: string where
  "demo_nqn = ''nqn.2014-08.com:a''"

definition ref_demo :: ref_nvmet where
  "ref_demo =
     \<lparr>rf_subsys = [(demo_nqn, \<lparr>rs_allow = ''0'', rs_hosts = [''nqn.h''], rs_ns = [(''1'', ''/dev/nullb0'', ''1'')]\<rparr>)],
      rf_ports = [(''1'', \<lparr>rp_attr = [(CFS_TR_TYPE, ''rdma'')], rp_subsys = [demo_nqn]\<rparr>)],
      rf_hosts = [''nqn.h'']\<rparr>"

text \<open>
  C4. Each operation of the table for the kernel's configuration file system is a step of the specification:
  run from a directory that stays, for names that are single components of a path, it returns, the working
  directory is the one it was called in, and its code and the configuration of the kernel afterwards are related
  to the configuration before by \<open>nv_spec\<close>: an object is made with the attributes the kernel accepts or an
  error is returned and nothing has changed, a deletion takes the object and everything that refers to it, and a
  port that exists is reported busy unless its attributes read back as requested.
\<close>

theorem cfgfs_refines:
  assumes "nvmet_fs K view" "steady K (pr_cwd s)" "cmd_ok cmd"
  shows "\<exists>ret s'. run_cmd (cfgfs_register_ops K debug) cmd s = Inr (ret, s') \<and> pr_cwd s' = pr_cwd s \<and>
           nv_spec cmd (view (pr_fs s)) ret (view (pr_fs s'))"
  using nvmet_fs.cfgfs_implements [OF assms(1,3), of debug] assms(2)
  by (simp add: nvmet_fs.implements_def [OF assms(1)])

theorem cfgfs_refines_witness:
  "\<exists>ret s'. run_cmd (cfgfs_register_ops ref_kernel False) (Delete_subsys demo_nqn) \<lparr>pr_cwd = [], pr_fs = ref_demo\<rparr> = Inr (ret, s') \<and>
     pr_cwd s' = [] \<and> nv_spec (Delete_subsys demo_nqn) (ref_view ref_demo) ret (ref_view (pr_fs s'))"
  using cfgfs_refines [OF ref_fs.nvmet_fs_axioms, of "\<lparr>pr_cwd = [], pr_fs = ref_demo\<rparr>" "Delete_subsys demo_nqn" False] steady_root
  by (simp add: ok_name_def demo_nqn_def del: nv_spec.simps)

text \<open>
  C12. Resetting the configuration removes everything: whatever subsystems, namespaces, ports, links and hosts
  the kernel has (with ports named by their decimal numbers, as this program makes them), afterwards it has
  none, and the process is back in its directory.
\<close>

theorem cfgfs_reset_empties:
  assumes "nvmet_fs K view" "steady K (pr_cwd s)" "decimal_ports (view (pr_fs s))"
  shows "\<exists>k. cfgfs_reset_config K s = Inr (s\<lparr>pr_fs := k\<rparr>) \<and> view k = empty_nvmet"
  by (rule nvmet_fs.reset_config_empties [OF assms])

theorem cfgfs_reset_empties_witness:
  "\<exists>k. cfgfs_reset_config ref_kernel \<lparr>pr_cwd = [], pr_fs = ref_demo\<rparr> = Inr \<lparr>pr_cwd = [], pr_fs = k\<rparr> \<and>
     ref_view k = empty_nvmet"
proof -
  have "show_int 1 = ''1''" "atoi ''1'' = 1" by code_simp+
  then have "decimal_ports (ref_view ref_demo)"
    by (auto simp: decimal_ports_def ref_view_def ref_demo_def plain_map_def c_range_def split: if_splits)
  then show ?thesis
    using cfgfs_reset_empties [OF ref_fs.nvmet_fs_axioms, of "\<lparr>pr_cwd = [], pr_fs = ref_demo\<rparr>"] steady_root by simp
qed

section \<open>Two ways to the same operations\<close>





definition demo_em :: "ref_nvmet \<Rightarrow> ref_nvmet proc em" where
  "demo_em k = \<lparr>em_sys = \<lparr>pr_cwd = [], pr_fs = k\<rparr>, em_devices = [], em_interfaces = [], em_stopped = False\<rparr>"


section \<open>Liveness\<close>

text \<open>
  C14. A silent controller is dropped in time: when nothing arrives from a connection, it stays connected for as
  many rounds of the thread as its countdown says, minus one, with nothing else changed, and in the next round it
  is disconnected; a new connection has 1200 rounds of 100 milliseconds.
\<close>

theorem silent_disconnected:
  "0 < ec_countdown ep \<Longrightarrow>
     idle_rounds Ops X c n ep s =
       Inr (if int n < ec_countdown ep then (Some (ep\<lparr>ec_countdown := ec_countdown ep - int n\<rparr>), s)
            else (None, s\<lparr>es_net := ex_disconnect X c True (es_net s)\<rparr>))"
proof (induction n arbitrary: ep)
  case (Suc n)
  show ?case
  proof (cases "ec_countdown ep = 1")
    case False
    with Suc.prems have "0 < ec_countdown (ep\<lparr>ec_countdown := ec_countdown ep - 1\<rparr>)" by simp
    from Suc.IH [OF this] show ?thesis using Suc.prems False by (simp add: serve_host_ep_def)
  qed (simp add: serve_host_ep_def)
qed simp

definition demo_ep_io :: "nat list ep_io" where
  "demo_ep_io = \<lparr>ex_rma_read = (\<lambda>_ _ _ _ w. (0, \<lparr>cd_hostnqn = ''nqn.h1'', cd_subsysnqn = NVME_DISC_SUBSYS_NAME, cd_cntlid = 0xffff\<rparr>, w)),
     ex_rma_read_mi = (\<lambda>_ _ _ _ _ w. (0, Reset_config, w)), ex_rma_write = (\<lambda>_ _ _ _ _ w. (0, w)),
     ex_send_rsp = (\<lambda>_ _ w. w), ex_disconnect = (\<lambda>c _ w. c # w)\<rparr>"

theorem silent_disconnected_witness:
  "let Ops = cfgfs_register_ops ref_kernel False; s = \<lparr>es_em = demo_em ref_empty, es_net = []\<rparr>
   in (\<exists>ep. idle_rounds Ops demo_ep_io 7 1199 new_host_ep s = Inr (Some ep, s)) \<and>
      idle_rounds Ops demo_ep_io 7 1200 new_host_ep s = Inr (None, s\<lparr>es_net := [7]\<rparr>)"
  using silent_disconnected [of new_host_ep "cfgfs_register_ops ref_kernel False" demo_ep_io 7 1199
      "\<lparr>es_em = demo_em ref_empty, es_net = []\<rparr>"]
    silent_disconnected [of new_host_ep "cfgfs_register_ops ref_kernel False" demo_ep_io 7 1200
      "\<lparr>es_em = demo_em ref_empty, es_net = []\<rparr>"]
  by (simp add: new_host_ep_def RETRY_COUNT_ep_def Let_def demo_ep_io_def)

section \<open>From the controller to the kernel\<close>







end
