(* ===== verification/Spdk.thy ===== *)
theory Spdk
  imports Ep_Configfs Dem_Interfaces Dem_Show
begin

text \<open>
  The second set of operations of the endpoint manager (\<^verbatim>\<open>src/src/endpoint/spdk_config.c\<close>): the target is the
  storage daemon of SPDK, which is asked by JSON-RPC. SPDK has no ports of its own and tells nothing about
  the listeners of a subsystem, so the process keeps lists of ports and subsystems beside it.

  The library of SPDK and the daemon behind it are the parameter \<open>spdk_api\<close>. A request is its method with the
  members of its parameters in the order they are written. A value of a response is a tree. A link of a
  subsystem holds the address of a port; addresses are not used again, so that a read at the address of a
  port that was released is seen.
\<close>

section \<open>Data\<close>

datatype rpc_value = Rpc_string string | Rpc_bool bool | Rpc_num nat | Rpc_object "(string \<times> rpc_value) list"

text \<open>Without parameters the request has no member for them.\<close>

type_synonym rpc = "string \<times> (string \<times> rpc_value) list option"

text \<open>\<^verbatim>\<open>struct spdk_json_val\<close>; a number is its length and the text that starts with it.\<close>

datatype jval =
    Jnull | Jtrue | Jfalse
  | Jnumber nat string
  | Jstring string
  | Jname string
  | Jarray "jval list"
  | Jobject "(string \<times> jval) list"

record rpc_response =
  rr_error :: bool
  rr_result :: "jval option"

record spdk_port =
  kp_ptr :: ptr
  kp_portid :: int
  kp_type :: string
  kp_family :: string
  kp_address :: string
  kp_port :: string

record spdk_subsystem =
  ks_nqn :: string
  ks_allowany :: bool
  ks_hosts :: "string list"
  ks_portids :: "ptr list"

text \<open>A string the library allocated: a pointer that is null, alive or released.\<close>

datatype cptr = Cnull | Cstr string | Cfreed

record bdev =
  bd_name :: cptr

record namespc =
  nm_nsid :: int

record spdk_subsys =
  su_nqn :: cptr
  su_subtype :: cptr

record pci_device =
  pd_class :: nat
  pd_domain :: nat
  pd_bus :: nat
  pd_dev :: nat
  pd_func :: nat

text \<open>The lists, the number of devices, the next free address and the daemon.\<close>

record 'w spdk =
  sd_count :: nat
  sd_ports :: "spdk_port list"
  sd_subsys :: "spdk_subsystem list"
  sd_next :: ptr
  sd_server :: 'w

text \<open>
  The library: \<open>sv_poll\<close> is the first result of \<^verbatim>\<open>spdk_jsonrpc_client_poll\<close> that is not 0 and not
  \<^verbatim>\<open>-ENOTCONN\<close>, \<open>sv_recv_buf\<close> the whole receive buffer. \<^verbatim>\<open>spdk_json_decode_array\<close> is a parameter at each of the
  three types it is used at: it calls a decoder for the elements. The last two are the PCI library.
\<close>

type_synonym ('o, 'w) decoder = "jval \<Rightarrow> 'o \<Rightarrow> 'w spdk \<Rightarrow> (int \<times> 'o \<times> 'w spdk) exec"
type_synonym ('o, 'w) decode_array = "('o, 'w) decoder \<Rightarrow> jval list \<Rightarrow> 'w spdk \<Rightarrow> (int \<times> 'o list \<times> 'w spdk) exec"

record 'w spdk_api =
  sv_connect :: "'w \<Rightarrow> bool \<times> 'w"
  sv_close :: "'w \<Rightarrow> 'w"
  sv_send :: "rpc \<Rightarrow> 'w \<Rightarrow> 'w"
  sv_poll :: "'w \<Rightarrow> int \<times> 'w"
  sv_response :: "'w \<Rightarrow> rpc_response option \<times> 'w"
  sv_recv_buf :: "'w \<Rightarrow> string"
  sv_int32 :: "jval \<Rightarrow> int \<Rightarrow> int \<times> int"
  sv_bdevs :: "(bdev, 'w) decode_array"
  sv_namespcs :: "(namespc, 'w) decode_array"
  sv_subsys :: "(spdk_subsys, 'w) decode_array"
  sv_pci_init :: int
  sv_pci_devices :: "pci_device list"

definition NULL_BLK_BDEV :: string where "NULL_BLK_BDEV = ''nullb0''"
definition DEV_PREFIX :: string where "DEV_PREFIX = ''NVMe''"
definition BDEV_TYPE_PCIE :: string where "BDEV_TYPE_PCIE = ''PCIe''"
definition SPDK_NQN_MIN_SIZE :: nat where "SPDK_NQN_MIN_SIZE = 15"
definition PCI_CLASS_STORAGE_NVME :: nat where "PCI_CLASS_STORAGE_NVME = 0x010802"
definition NULL_BLK_SIZE :: nat where "NULL_BLK_SIZE = 512"
definition NULL_NUM_BLKS :: nat where "NULL_NUM_BLKS = 512"

definition BDEV_FMT :: "int \<Rightarrow> string" where
  "BDEV_FMT n = DEV_PREFIX @ show_int n"

definition NVME_DEV_FMT :: "int \<Rightarrow> int \<Rightarrow> string" where
  "NVME_DEV_FMT devid nsid = DEV_PREFIX @ show_int devid @ ''n'' @ show_int nsid"

fun show_hex :: "nat \<Rightarrow> string" where
  "show_hex n = (if n < 16 then [hex_digit n] else show_hex (n div 16) @ [hex_digit (n mod 16)])"

declare show_hex.simps [simp del]

definition hex_width :: "nat \<Rightarrow> nat \<Rightarrow> string" where
  "hex_width k n = (let t = show_hex n in replicate (k - length t) (CHR ''0'') @ t)"

definition PCIE_ADDR_FMT :: "nat \<Rightarrow> nat \<Rightarrow> nat \<Rightarrow> nat \<Rightarrow> string" where
  "PCIE_ADDR_FMT domain bus dev func =
     hex_width 4 domain @ '':'' @ hex_width 2 bus @ '':'' @ hex_width 2 dev @ ''.'' @ show_int (int func)"

section \<open>Names\<close>

text \<open>\<^verbatim>\<open>%3s\<close>, \<^verbatim>\<open>%s\<close> and \<^verbatim>\<open>%4d\<close> of \<^verbatim>\<open>sscanf\<close>: white space is skipped and not counted; a literal is not.\<close>

definition scan_word :: "nat option \<Rightarrow> string \<Rightarrow> (string \<times> string) option" where
  "scan_word width t =
     (let t = dropWhile is_space t;
          w = takeWhile (\<lambda>c. \<not> is_space c) (case width of None \<Rightarrow> t | Some k \<Rightarrow> take k t)
      in if w = [] then None else Some (w, drop (length w) t))"

definition scan_number :: "nat \<Rightarrow> string \<Rightarrow> (int \<times> string) option" where
  "scan_number width t =
     (let t = dropWhile is_space t;
          f = take width t;
          body = (case f of c # cs \<Rightarrow> if c = CHR ''-'' \<or> c = CHR ''+'' then cs else f | [] \<Rightarrow> []);
          ds = takeWhile is_digit body
      in if ds = [] then None else Some (atoi f, drop (length f - length body + length ds) t))"

definition scan_char :: "char \<Rightarrow> string \<Rightarrow> string option" where
  "scan_char c t = (case t of [] \<Rightarrow> None | d # ds \<Rightarrow> if d = c then Some ds else None)"

text \<open>\<^verbatim>\<open>sscanf(nqn, "%3s.%4d-%2d.%s", ...)\<close>, when all four parts are there.\<close>

definition scan_nqn :: "string \<Rightarrow> (string \<times> int \<times> int \<times> string) option" where
  "scan_nqn t =
     Option.bind (scan_word (Some 3) t) (\<lambda>(part1, t).
     Option.bind (scan_char (CHR ''.'') t) (\<lambda>t.
     Option.bind (scan_number 4 t) (\<lambda>(part2, t).
     Option.bind (scan_char (CHR ''-'') t) (\<lambda>t.
     Option.bind (scan_number 2 t) (\<lambda>(part3, t).
     Option.bind (scan_char (CHR ''.'') t) (\<lambda>t.
     Option.bind (scan_word None t) (\<lambda>(part4, _).
     Some (part1, part2, part3, part4))))))))"

definition valid_nqn :: "string \<Rightarrow> bool" where
  "valid_nqn nqn =
     (if length nqn < SPDK_NQN_MIN_SIZE \<or> length nqn > MAX_NQN_SIZE then False
      else case scan_nqn nqn of
        None \<Rightarrow> False
      | Some (part1, part2, part3, part4) \<Rightarrow>
          if part1 \<noteq> ''nqn'' then False
          else if part2 = 0 \<or> part3 = 0 \<or> part3 > 12 then False
          else CHR '':'' \<in> set part4)"

definition find_subsys_spdk :: "string \<Rightarrow> 'w spdk \<Rightarrow> spdk_subsystem option" where
  "find_subsys_spdk nqn s = find (\<lambda>ss. ks_nqn ss = nqn) (sd_subsys s)"

definition find_host_spdk :: "spdk_subsystem \<Rightarrow> string \<Rightarrow> string option" where
  "find_host_spdk ss nqn = find (\<lambda>h. h = nqn) (ks_hosts ss)"

definition find_portid_spdk :: "int \<Rightarrow> 'w spdk \<Rightarrow> spdk_port option" where
  "find_portid_spdk i s = find (\<lambda>p. kp_portid p = i) (sd_ports s)"

definition find_portid_link :: "spdk_subsystem \<Rightarrow> spdk_port \<Rightarrow> ptr option" where
  "find_portid_link ss port = find (\<lambda>a. a = kp_ptr port) (ks_portids ss)"

text \<open>A change to the subsystem that was found, and the port a link points to.\<close>

definition upd_spdk :: "string \<Rightarrow> (spdk_subsystem \<Rightarrow> spdk_subsystem) \<Rightarrow> 'w spdk \<Rightarrow> 'w spdk" where
  "upd_spdk nqn f s = s\<lparr>sd_subsys := upd_first (\<lambda>ss. ks_nqn ss = nqn) f (sd_subsys s)\<rparr>"

definition linked_port :: "ptr \<Rightarrow> 'w spdk \<Rightarrow> spdk_port exec" where
  "linked_port a s =
     (case find (\<lambda>p. kp_ptr p = a) (sd_ports s) of None \<Rightarrow> Inl Use_after_free | Some p \<Rightarrow> Inr p)"

section \<open>Responses\<close>

text \<open>
  The parser of a response fills an \<^verbatim>\<open>int\<close> that has no value yet: a number is stored in it, for anything
  else only the byte of a \<^verbatim>\<open>bool\<close> is written. Such a value is not zero if that byte is not zero; otherwise it
  depends on bytes without a value.
\<close>

datatype resp = Stored int | Low_byte bool

definition resp_true :: "resp \<Rightarrow> bool exec" where
  "resp_true r = (case r of Stored n \<Rightarrow> Inr (n \<noteq> 0) | Low_byte b \<Rightarrow> if b then Inr True else Inl Uninitialised)"

definition resp_is :: "resp \<Rightarrow> int \<Rightarrow> bool exec" where
  "resp_is r n = (case r of Stored m \<Rightarrow> Inr (m = n) | Low_byte _ \<Rightarrow> Inl Uninitialised)"

text \<open>\<^verbatim>\<open>"%*s"\<close> pads the text to the length of the number and does not end it there.\<close>

definition resp_parser :: "jval \<Rightarrow> 'w spdk \<Rightarrow> (int \<times> resp option \<times> 'w spdk) exec" where
  "resp_parser v s =
     Inr (0,
       Some (case v of
          Jtrue \<Rightarrow> Low_byte True
        | Jnumber len text \<Rightarrow> Stored (c_int (atoi (take (MAXSTRLEN - 1) (replicate (len - length text) (CHR '' '') @ text))))
        | _ \<Rightarrow> Low_byte False), s)"

text \<open>\<^verbatim>\<open>strncmp\<close> and \<^verbatim>\<open>atoi\<close> in a buffer, which they may leave.\<close>

fun prefix_at :: "string \<Rightarrow> string \<Rightarrow> bool exec" where
  "prefix_at [] t = Inr True"
| "prefix_at (x # xs) [] = Inl Buffer_overflow"
| "prefix_at (x # xs) (y # ys) = (if x = y then prefix_at xs ys else Inr False)"

definition atoi_at :: "string \<Rightarrow> int exec" where
  "atoi_at t =
     (let u = dropWhile is_space t;
          body = (case u of c # cs \<Rightarrow> if c = CHR ''-'' \<or> c = CHR ''+'' then cs else u | [] \<Rightarrow> [])
      in if dropWhile is_digit body = [] then Inl Buffer_overflow else Inr (c_int (atoi t)))"

text \<open>The steps left, the buffer from \<^verbatim>\<open>p\<close> on, whether \<^verbatim>\<open>start\<close> is set, and the code found.\<close>

fun err_loop :: "nat \<Rightarrow> string \<Rightarrow> bool \<Rightarrow> int \<Rightarrow> int exec" where
  "err_loop 0 p start rc = Inr rc"
| "err_loop (Suc n) [] start rc = Inl Buffer_overflow"
| "err_loop (Suc n) (c # cs) start rc =
     (if c = CHR 0x0A then Inr rc
      else
        exec_bind (prefix_at ''code'' (c # cs)) (\<lambda>code.
          if code then exec_bind (atoi_at (drop 6 (c # cs))) (\<lambda>rc. err_loop n (drop 7 (c # cs)) start rc)
          else
            exec_bind (prefix_at ''message'' (c # cs)) (\<lambda>message.
              if message then err_loop n (drop 11 (c # cs)) True rc
              else if start \<and> c = CHR 0x22 then Inr rc
              else err_loop n cs start rc)))"

definition parse_err_resp :: "'w spdk_api \<Rightarrow> 'w spdk \<Rightarrow> int exec" where
  "parse_err_resp S s = (let buf = sv_recv_buf S (sd_server s) in err_loop (length buf) buf False (- EINVAL))"

text \<open>The code, what the parser stored, if it ran, and the state.\<close>

definition recv_response ::
  "'w spdk_api \<Rightarrow> (jval \<Rightarrow> 'w spdk \<Rightarrow> (int \<times> 'r option \<times> 'w spdk) exec) \<Rightarrow> 'w spdk \<Rightarrow>
     (int \<times> 'r option \<times> 'w spdk) exec" where
  "recv_response S parser s =
     (case sv_poll S (sd_server s) of (rc, w) \<Rightarrow>
        if rc \<le> 0 then Inr (rc, None, s\<lparr>sd_server := w\<rparr>)
        else case sv_response S w of (json_resp, w) \<Rightarrow>
          let s = s\<lparr>sd_server := w\<rparr> in
          case json_resp of
            None \<Rightarrow> Inr (rc, None, s)
          | Some r \<Rightarrow>
              if rr_error r then Inr (rc, None, s)
              else case rr_result r of
                None \<Rightarrow> Inr (rc, None, s)
              | Some v \<Rightarrow> parser v s)"

text \<open>A request and its response.\<close>

definition rpc_exchange ::
  "'w spdk_api \<Rightarrow> rpc \<Rightarrow> (jval \<Rightarrow> 'w spdk \<Rightarrow> (int \<times> 'r option \<times> 'w spdk) exec) \<Rightarrow> 'w spdk \<Rightarrow>
     (int \<times> 'r option \<times> 'w spdk) exec" where
  "rpc_exchange S q parser s = recv_response S parser (s\<lparr>sd_server := sv_send S q (sd_server s)\<rparr>)"

text \<open>
  The common end of the functions that send a request: an error takes its code from the buffer, otherwise
  \<open>k\<close> goes on with what the parser stored.
\<close>

definition rpc_result ::
  "'w spdk_api \<Rightarrow> rpc \<Rightarrow> (resp \<Rightarrow> int exec) \<Rightarrow> 'w spdk \<Rightarrow> (int \<times> 'w spdk) exec" where
  "rpc_result S q k s =
     exec_bind (rpc_exchange S q resp_parser s) (\<lambda>(rc, resp, s).
       if rc \<noteq> 0 then exec_bind (parse_err_resp S s) (\<lambda>rc. Inr (rc, s))
       else case resp of
         None \<Rightarrow> Inl Uninitialised
       | Some r \<Rightarrow> exec_bind (k r) (\<lambda>rc. Inr (rc, s)))"

text \<open>\<^verbatim>\<open>return resp ? 0 : -ENOENT\<close>\<close>

definition rpc_bool :: "'w spdk_api \<Rightarrow> rpc \<Rightarrow> 'w spdk \<Rightarrow> (int \<times> 'w spdk) exec" where
  "rpc_bool S q = rpc_result S q (\<lambda>r. exec_bind (resp_true r) (\<lambda>b. Inr (if b then 0 else - ENOENT)))"

section \<open>Requests\<close>

definition delete_subsys_req :: "string \<Rightarrow> rpc" where
  "delete_subsys_req nqn = (''delete_nvmf_subsystem'', Some [(''nqn'', Rpc_string nqn)])"

definition create_subsys_req :: "string \<Rightarrow> bool \<Rightarrow> rpc" where
  "create_subsys_req nqn allowany =
     (''nvmf_subsystem_create'', Some [(''nqn'', Rpc_string nqn), (''allow_any_host'', Rpc_bool allowany)])"

definition uint32 :: "int \<Rightarrow> nat" where
  "uint32 n = nat (n mod 2 ^ 32)"

definition add_ns_req :: "string \<Rightarrow> int \<Rightarrow> string \<Rightarrow> rpc" where
  "add_ns_req subnqn nsid bdev_name =
     (''nvmf_subsystem_add_ns'',
      Some [(''nqn'', Rpc_string subnqn),
            (''namespace'', Rpc_object [(''nsid'', Rpc_num (uint32 nsid)), (''bdev_name'', Rpc_string bdev_name)])])"

definition remove_ns_req :: "string \<Rightarrow> int \<Rightarrow> rpc" where
  "remove_ns_req subnqn nsid =
     (''nvmf_subsystem_remove_ns'', Some [(''nqn'', Rpc_string subnqn), (''nsid'', Rpc_num (uint32 nsid))])"

definition add_listener_req :: "string \<Rightarrow> spdk_port \<Rightarrow> rpc" where
  "add_listener_req nqn port =
     (''nvmf_subsystem_add_listener'',
      Some [(''nqn'', Rpc_string nqn),
            (''listen_address'',
             Rpc_object [(''trtype'', Rpc_string (kp_type port)), (''adrfam'', Rpc_string (kp_family port)),
               (''traddr'', Rpc_string (kp_address port)), (''trsvcid'', Rpc_string (kp_port port))])])"

definition remove_listener_req :: "string \<Rightarrow> spdk_port \<Rightarrow> rpc" where
  "remove_listener_req nqn port =
     (''nvmf_subsystem_remove_listener'',
      Some [(''nqn'', Rpc_string nqn),
            (''listen_address'',
             Rpc_object [(''trtype'', Rpc_string (kp_type port)), (''traddr'', Rpc_string (kp_address port)),
               (''adrfam'', Rpc_string (kp_family port)), (''trsvcid'', Rpc_string (kp_port port))])])"

definition add_host_req :: "string \<Rightarrow> string \<Rightarrow> rpc" where
  "add_host_req nqn host = (''nvmf_subsystem_add_host'', Some [(''nqn'', Rpc_string nqn), (''host'', Rpc_string host)])"

definition remove_host_req :: "string \<Rightarrow> string \<Rightarrow> rpc" where
  "remove_host_req nqn host =
     (''nvmf_subsystem_remove_host'', Some [(''nqn'', Rpc_string nqn), (''host'', Rpc_string host)])"

definition get_bdevs_req :: rpc where "get_bdevs_req = (''get_bdevs'', None)"
definition get_subsystems_req :: rpc where "get_subsystems_req = (''get_nvmf_subsystems'', None)"

definition construct_nvme_req :: "string \<Rightarrow> string \<Rightarrow> rpc" where
  "construct_nvme_req name address =
     (''construct_nvme_bdev'',
      Some [(''name'', Rpc_string name), (''trtype'', Rpc_string BDEV_TYPE_PCIE), (''traddr'', Rpc_string address)])"

definition construct_null_req :: rpc where
  "construct_null_req =
     (''construct_null_bdev'',
      Some [(''name'', Rpc_string NULL_BLK_BDEV), (''block_size'', Rpc_num NULL_BLK_SIZE),
            (''num_blocks'', Rpc_num NULL_NUM_BLKS)])"

definition delete_bdev_req :: "string \<Rightarrow> rpc" where
  "delete_bdev_req name = (''delete_bdev'', Some [(''name'', Rpc_string name)])"

definition delete_null_req :: "string \<Rightarrow> rpc" where
  "delete_null_req name = (''delete_null_bdev'', Some [(''name'', Rpc_string name)])"

definition delete_subsys_rpc :: "'w spdk_api \<Rightarrow> spdk_subsystem \<Rightarrow> 'w spdk \<Rightarrow> (int \<times> 'w spdk) exec" where
  "delete_subsys_rpc S ss = rpc_bool S (delete_subsys_req (ks_nqn ss))"

definition create_subsys_rpc :: "'w spdk_api \<Rightarrow> spdk_subsystem \<Rightarrow> 'w spdk \<Rightarrow> (int \<times> 'w spdk) exec" where
  "create_subsys_rpc S ss = rpc_bool S (create_subsys_req (ks_nqn ss) (ks_allowany ss))"

definition add_listener :: "'w spdk_api \<Rightarrow> spdk_subsystem \<Rightarrow> spdk_port \<Rightarrow> 'w spdk \<Rightarrow> (int \<times> 'w spdk) exec" where
  "add_listener S ss port = rpc_bool S (add_listener_req (ks_nqn ss) port)"

definition remove_listener :: "'w spdk_api \<Rightarrow> spdk_subsystem \<Rightarrow> spdk_port \<Rightarrow> 'w spdk \<Rightarrow> (int \<times> 'w spdk) exec" where
  "remove_listener S ss port = rpc_bool S (remove_listener_req (ks_nqn ss) port)"

definition add_host_rpc :: "'w spdk_api \<Rightarrow> spdk_subsystem \<Rightarrow> string \<Rightarrow> 'w spdk \<Rightarrow> (int \<times> 'w spdk) exec" where
  "add_host_rpc S ss host = rpc_bool S (add_host_req (ks_nqn ss) host)"

definition remove_host_rpc :: "'w spdk_api \<Rightarrow> spdk_subsystem \<Rightarrow> string \<Rightarrow> 'w spdk \<Rightarrow> (int \<times> 'w spdk) exec" where
  "remove_host_rpc S ss host = rpc_bool S (remove_host_req (ks_nqn ss) host)"

section \<open>Subsystems and namespaces\<close>

text \<open>What the daemon answers to the deletion is not looked at.\<close>

definition spdk_delete_subsys :: "'w spdk_api \<Rightarrow> string \<Rightarrow> 'w spdk \<Rightarrow> (int \<times> 'w spdk) exec" where
  "spdk_delete_subsys S nqn s =
     (case find_subsys_spdk nqn s of
        None \<Rightarrow> Inr (- ENOENT, s)
      | Some ss \<Rightarrow>
          exec_bind (delete_subsys_rpc S ss s) (\<lambda>(_, s).
            Inr (0, s\<lparr>sd_subsys := del_first (\<lambda>ss. ks_nqn ss = nqn) (sd_subsys s)\<rparr>)))"

definition spdk_create_subsys :: "'w spdk_api \<Rightarrow> string \<Rightarrow> int \<Rightarrow> 'w spdk \<Rightarrow> (int \<times> 'w spdk) exec" where
  "spdk_create_subsys S subnqn allowany s =
     (if \<not> valid_nqn subnqn then Inr (- EINVAL, s)
      else if find_subsys_spdk subnqn s \<noteq> None then Inr (- EEXIST, s)
      else
        exec_bind (c_strcpy (MAX_NQN_SIZE + 1) (Some subnqn)) (\<lambda>nqn.
          let ss = \<lparr>ks_nqn = nqn, ks_allowany = (allowany \<noteq> 0), ks_hosts = [], ks_portids = []\<rparr>
          in create_subsys_rpc S ss (s\<lparr>sd_subsys := ss # sd_subsys s\<rparr>)))"

text \<open>The number the daemon answers is that of the namespace.\<close>

definition spdk_create_ns ::
  "'w spdk_api \<Rightarrow> string \<Rightarrow> int \<Rightarrow> int \<Rightarrow> int \<Rightarrow> 'w spdk \<Rightarrow> (int \<times> 'w spdk) exec" where
  "spdk_create_ns S subnqn nsid devid devnsid s =
     (if find_subsys_spdk subnqn s = None then Inr (- ENOENT, s)
      else
        let bdev_name = (if devid = NULL_BLK_DEVID then NULL_BLK_BDEV else NVME_DEV_FMT devid devnsid)
        in rpc_result S (add_ns_req subnqn nsid bdev_name)
             (\<lambda>resp. exec_bind (resp_is resp nsid) (\<lambda>b. Inr (if b then 0 else - EINVAL))) s)"

definition spdk_delete_ns :: "'w spdk_api \<Rightarrow> string \<Rightarrow> int \<Rightarrow> 'w spdk \<Rightarrow> (int \<times> 'w spdk) exec" where
  "spdk_delete_ns S subnqn nsid s =
     (if find_subsys_spdk subnqn s = None then Inr (- ENOENT, s)
      else rpc_bool S (remove_ns_req subnqn nsid) s)"

text \<open>What reading a string gives.\<close>

definition cptr_text :: "cptr \<Rightarrow> string exec" where
  "cptr_text p = (case p of Cnull \<Rightarrow> Inl Null_deref | Cstr t \<Rightarrow> Inr t | Cfreed \<Rightarrow> Inl Use_after_free)"

definition free_cptr :: "cptr \<Rightarrow> cptr exec" where
  "free_cptr p = (case p of Cnull \<Rightarrow> Inr Cnull | Cstr _ \<Rightarrow> Inr Cfreed | Cfreed \<Rightarrow> Inl Use_after_free)"

text \<open>An operation whose name is such a string: it is read when it is compared with that of a subsystem.\<close>

definition with_nqn ::
  "cptr \<Rightarrow> (string \<Rightarrow> 'w spdk \<Rightarrow> (int \<times> 'w spdk) exec) \<Rightarrow> 'w spdk \<Rightarrow> (int \<times> 'w spdk) exec" where
  "with_nqn nqn f s = (if sd_subsys s = [] then Inr (- ENOENT, s) else exec_bind (cptr_text nqn) (\<lambda>q. f q s))"

section \<open>Hosts and ports\<close>

definition spdk_create_host :: "string option \<Rightarrow> 'w spdk \<Rightarrow> (int \<times> 'w spdk) exec" where
  "spdk_create_host host s = Inr (0, s)"

definition spdk_delete_host :: "string \<Rightarrow> 'w spdk \<Rightarrow> (int \<times> 'w spdk) exec" where
  "spdk_delete_host host s = Inr (0, s)"

definition spdk_create_portid ::
  "int \<Rightarrow> string option \<Rightarrow> string option \<Rightarrow> int \<Rightarrow> string option \<Rightarrow> int \<Rightarrow> 'w spdk \<Rightarrow> (int \<times> 'w spdk) exec" where
  "spdk_create_portid i fam typ req addr trsvcid s =
     (if find_portid_spdk i s \<noteq> None then Inr (- EEXIST, s)
      else
        exec_bind (c_strcpy (CONFIG_FAMILY_SIZE + 1) fam) (\<lambda>family.
        exec_bind (c_strcpy (CONFIG_TYPE_SIZE + 1) typ) (\<lambda>trtype.
        exec_bind (c_strcpy (CONFIG_ADDRESS_SIZE + 1) addr) (\<lambda>address.
        exec_bind (c_strcpy (CONFIG_PORT_SIZE + 1) (Some (show_int trsvcid))) (\<lambda>port.
          Inr (0, s\<lparr>sd_ports := \<lparr>kp_ptr = sd_next s, kp_portid = i, kp_type = trtype, kp_family = family,
                                 kp_address = address, kp_port = port\<rparr> # sd_ports s,
                    sd_next := sd_next s + 1\<rparr>))))))"

text \<open>The listeners of all links of a subsystem, removed or added; the results are not looked at.\<close>

definition each_link ::
  "(spdk_port \<Rightarrow> 'w spdk \<Rightarrow> (int \<times> 'w spdk) exec) \<Rightarrow> spdk_subsystem \<Rightarrow> 'w spdk \<Rightarrow> 'w spdk exec" where
  "each_link f ss =
     each (\<lambda>a s. exec_bind (linked_port a s) (\<lambda>port. exec_bind (f port s) (\<lambda>(_, s). Inr s))) (ks_portids ss)"

definition spdk_link_host_to_subsys ::
  "'w spdk_api \<Rightarrow> string \<Rightarrow> string option \<Rightarrow> 'w spdk \<Rightarrow> (int \<times> 'w spdk) exec" where
  "spdk_link_host_to_subsys S subnqn hostnqn s =
     (case hostnqn of
        None \<Rightarrow> Inl Null_deref
      | Some hostnqn \<Rightarrow>
          if \<not> valid_nqn hostnqn then Inr (- EINVAL, s)
          else case find_subsys_spdk subnqn s of
            None \<Rightarrow> Inr (- ENOENT, s)
          | Some ss \<Rightarrow>
              if find_host_spdk ss hostnqn \<noteq> None then Inr (0, s)
              else
                let host = take MAX_NQN_SIZE hostnqn;
                    reconnect = (ks_hosts ss = [])
                in
                exec_bind (if reconnect then each_link (remove_listener S ss) ss s else Inr s) (\<lambda>s.
                exec_bind (add_host_rpc S ss host s) (\<lambda>(rc, s).
                  if rc \<noteq> 0 then Inr (rc, s)
                  else
                    let s = upd_spdk subnqn (\<lambda>ss. ss\<lparr>ks_hosts := ks_hosts ss @ [host]\<rparr>) s in
                    exec_bind (if reconnect then each_link (add_listener S ss) ss s else Inr s) (\<lambda>s. Inr (0, s)))))"

definition spdk_unlink_host_from_subsys ::
  "'w spdk_api \<Rightarrow> string \<Rightarrow> string \<Rightarrow> 'w spdk \<Rightarrow> (int \<times> 'w spdk) exec" where
  "spdk_unlink_host_from_subsys S subnqn hostnqn s =
     (case find_subsys_spdk subnqn s of
        None \<Rightarrow> Inr (- ENOENT, s)
      | Some ss \<Rightarrow>
          case find_host_spdk ss hostnqn of
            None \<Rightarrow> Inr (0, s)
          | Some host \<Rightarrow>
              exec_bind (remove_host_rpc S ss host s) (\<lambda>(rc, s).
                Inr (rc, upd_spdk subnqn (\<lambda>ss. ss\<lparr>ks_hosts := del_first (\<lambda>h. h = hostnqn) (ks_hosts ss)\<rparr>) s)))"

definition spdk_link_port_to_subsys :: "'w spdk_api \<Rightarrow> string \<Rightarrow> int \<Rightarrow> 'w spdk \<Rightarrow> (int \<times> 'w spdk) exec" where
  "spdk_link_port_to_subsys S nqn i s =
     (case find_portid_spdk i s of
        None \<Rightarrow> Inr (- EINVAL, s)
      | Some port \<Rightarrow>
          case find_subsys_spdk nqn s of
            None \<Rightarrow> Inr (- EINVAL, s)
          | Some ss \<Rightarrow>
              if find_portid_link ss port \<noteq> None then Inr (0, s)
              else
                exec_bind (add_listener S ss port s) (\<lambda>(rc, s).
                  if rc \<noteq> 0 then Inr (rc, s)
                  else Inr (0, upd_spdk nqn (\<lambda>ss. ss\<lparr>ks_portids := kp_ptr port # ks_portids ss\<rparr>) s)))"

definition spdk_unlink_port_from_subsys :: "'w spdk_api \<Rightarrow> string \<Rightarrow> int \<Rightarrow> 'w spdk \<Rightarrow> (int \<times> 'w spdk) exec" where
  "spdk_unlink_port_from_subsys S nqn i s =
     (case find_portid_spdk i s of
        None \<Rightarrow> Inr (- ENOENT, s)
      | Some port \<Rightarrow>
          case find_subsys_spdk nqn s of
            None \<Rightarrow> Inr (- ENOENT, s)
          | Some ss \<Rightarrow>
              exec_bind (remove_listener S ss port s) (\<lambda>(rc, s).
                if rc \<noteq> 0 then Inr (rc, s)
                else Inr (0, upd_spdk nqn (\<lambda>ss. ss\<lparr>ks_portids := del_first (\<lambda>a. a = kp_ptr port) (ks_portids ss)\<rparr>) s)))"

text \<open>The port is asked to be unlinked from every subsystem, and released whatever the results are.\<close>

definition delete_portid :: "'w spdk_api \<Rightarrow> spdk_port \<Rightarrow> 'w spdk \<Rightarrow> 'w spdk exec" where
  "delete_portid S port s =
     exec_bind
       (each (\<lambda>ss s. exec_bind (spdk_unlink_port_from_subsys S (ks_nqn ss) (kp_portid port) s) (\<lambda>(_, s). Inr s))
          (sd_subsys s) s)
       (\<lambda>s. Inr (s\<lparr>sd_ports := del_first (\<lambda>p. kp_ptr p = kp_ptr port) (sd_ports s)\<rparr>))"

definition spdk_delete_portid :: "'w spdk_api \<Rightarrow> int \<Rightarrow> 'w spdk \<Rightarrow> (int \<times> 'w spdk) exec" where
  "spdk_delete_portid S i s =
     (case find_portid_spdk i s of
        None \<Rightarrow> Inr (0, s)
      | Some port \<Rightarrow> exec_bind (delete_portid S port s) (\<lambda>s. Inr (0, s)))"

section \<open>Decoding\<close>

text \<open>A decoder of an object: the name of a member, what decodes it, and whether it may be missing.\<close>

type_synonym ('o, 'w) object_decoder = "string \<times> ('o, 'w) decoder \<times> bool"

text \<open>
  The members in the order of the object. Each member that has a decoder sets \<open>invalid\<close> anew, so that only the
  last one counts; \<open>seen\<close> are the names met.
\<close>

fun decode_members ::
  "('o, 'w) object_decoder list \<Rightarrow> (string \<times> jval) list \<Rightarrow> bool \<Rightarrow> string list \<Rightarrow> 'o \<Rightarrow> 'w spdk \<Rightarrow>
     (bool \<times> string list \<times> 'o \<times> 'w spdk) exec" where
  "decode_members ds [] invalid seen out s = Inr (invalid, seen, out, s)"
| "decode_members ds ((name, v) # ms) invalid seen out s =
     (case find (\<lambda>d. fst d = name) ds of
        None \<Rightarrow> decode_members ds ms invalid seen out s
      | Some (_, f, _) \<Rightarrow>
          exec_bind (f v out s) (\<lambda>(ret, out, s). decode_members ds ms (ret \<noteq> 0) (name # seen) out s))"

definition my_decode_object :: "('o, 'w) object_decoder list \<Rightarrow> ('o, 'w) decoder" where
  "my_decode_object ds v out s =
     (case v of
        Jobject ms \<Rightarrow>
          exec_bind (decode_members ds ms False [] out s) (\<lambda>(invalid, seen, out, s).
            Inr (if invalid \<or> (\<exists>d\<in>set ds. \<not> snd (snd d) \<and> fst d \<notin> set seen) then -1 else 0, out, s))
      | _ \<Rightarrow> Inr (-1, out, s))"

text \<open>The pointer that is released is kept when the value is not a string.\<close>

definition my_decode_string :: "jval \<Rightarrow> cptr \<Rightarrow> (int \<times> cptr) exec" where
  "my_decode_string v p =
     exec_bind (free_cptr p) (\<lambda>p.
       Inr (case v of Jstring t \<Rightarrow> (0, Cstr t) | Jname t \<Rightarrow> (0, Cstr t) | _ \<Rightarrow> (- EINVAL, p)))"

definition bdev_decoders :: "(bdev, 'w) object_decoder list" where
  "bdev_decoders =
     [(''name'', \<lambda>v b s. exec_bind (my_decode_string v (bd_name b)) (\<lambda>(ret, t). Inr (ret, b\<lparr>bd_name := t\<rparr>, s)), False)]"

definition bdev_parse :: "(bdev, 'w) decoder" where
  "bdev_parse = my_decode_object bdev_decoders"

definition ns_decoders :: "'w spdk_api \<Rightarrow> (namespc, 'w) object_decoder list" where
  "ns_decoders S =
     [(''nsid'', \<lambda>v n s. case sv_int32 S v (nm_nsid n) of (ret, i) \<Rightarrow> Inr (ret, n\<lparr>nm_nsid := i\<rparr>, s), False)]"

definition ns_parse_one :: "'w spdk_api \<Rightarrow> (namespc, 'w) decoder" where
  "ns_parse_one S = my_decode_object (ns_decoders S)"

definition ns_parse :: "'w spdk_api \<Rightarrow> (spdk_subsys, 'w) decoder" where
  "ns_parse S v out s =
     (case v of
        Jarray vs \<Rightarrow>
          exec_bind (sv_namespcs S (ns_parse_one S) vs s) (\<lambda>(rc, nss, s).
            if rc \<noteq> 0 then Inr (rc, out, s)
            else
              exec_bind
                (each (\<lambda>n s. exec_bind (with_nqn (su_nqn out) (\<lambda>q. spdk_delete_ns S q (nm_nsid n)) s) (\<lambda>(_, s). Inr s))
                   nss s)
                (\<lambda>s. Inr (rc, out, s)))
      | _ \<Rightarrow> Inr (- EINVAL, out, s))"

definition subsys_decoders :: "'w spdk_api \<Rightarrow> (spdk_subsys, 'w) object_decoder list" where
  "subsys_decoders S =
     [(''nqn'', \<lambda>v d s. exec_bind (my_decode_string v (su_nqn d)) (\<lambda>(ret, t). Inr (ret, d\<lparr>su_nqn := t\<rparr>, s)), False),
      (''subtype'', \<lambda>v d s. exec_bind (my_decode_string v (su_subtype d)) (\<lambda>(ret, t). Inr (ret, d\<lparr>su_subtype := t\<rparr>, s)),
       False),
      (''namespaces'', ns_parse S, True)]"

definition subsys_parse :: "'w spdk_api \<Rightarrow> (spdk_subsys, 'w) decoder" where
  "subsys_parse S = my_decode_object (subsys_decoders S)"

section \<open>Devices\<close>

text \<open>A name that is not that of a device empties the whole list.\<close>

definition create_device_spdk :: "string \<Rightarrow> nsdev_ep list \<Rightarrow> int \<times> nsdev_ep list" where
  "create_device_spdk bdev_name devs =
     (if same_ignoring_case bdev_name NULL_BLK_BDEV
      then (0, devs @ [\<lparr>ed_devid = NULL_BLK_DEVID, ed_nsid = 0\<rparr>])
      else if take (length DEV_PREFIX) bdev_name \<noteq> DEV_PREFIX then (- EINVAL, [])
      else case scan_int (drop (length DEV_PREFIX) bdev_name) of
        Some (devid, CHR ''n'' # rest) \<Rightarrow>
          (case scan_int rest of
             Some (nsid, _) \<Rightarrow> (0, devs @ [\<lparr>ed_devid = devid, ed_nsid = nsid\<rparr>])
           | None \<Rightarrow> (- EINVAL, []))
      | _ \<Rightarrow> (- EINVAL, []))"

text \<open>\<open>f\<close> is what is done with each name before it is released; the parser stores the number of devices.\<close>

definition bdev_array ::
  "'w spdk_api \<Rightarrow> (string \<Rightarrow> 'x \<Rightarrow> 'w spdk \<Rightarrow> ('x \<times> 'w spdk) exec) \<Rightarrow> 'x \<Rightarrow> jval \<Rightarrow> 'w spdk \<Rightarrow>
     (int \<times> (int \<times> 'x) option \<times> 'w spdk) exec" where
  "bdev_array S f x v s =
     (case v of
        Jarray vs \<Rightarrow>
          exec_bind (sv_bdevs S bdev_parse vs s) (\<lambda>(rc, bdevs, s).
            if rc \<noteq> 0 then Inr (rc, None, s)
            else
              exec_bind
                (each (\<lambda>b (x, s). exec_bind (cptr_text (bd_name b)) (\<lambda>name. f name x s)) bdevs (x, s))
                (\<lambda>(x, s). Inr (rc, Some (int (length bdevs), x), s)))
      | _ \<Rightarrow> Inr (- EINVAL, None, s))"

definition bdev_parser ::
  "'w spdk_api \<Rightarrow> nsdev_ep list \<Rightarrow> jval \<Rightarrow> 'w spdk \<Rightarrow> (int \<times> (int \<times> nsdev_ep list) option \<times> 'w spdk) exec" where
  "bdev_parser S = bdev_array S (\<lambda>name devs s. Inr (snd (create_device_spdk name devs), s))"

definition spdk_enumerate_devices ::
  "'w spdk_api \<Rightarrow> nsdev_ep list \<Rightarrow> 'w spdk \<Rightarrow> (int \<times> nsdev_ep list \<times> 'w spdk) exec" where
  "spdk_enumerate_devices S devs s =
     exec_bind (rpc_exchange S get_bdevs_req (bdev_parser S devs) s) (\<lambda>(rc, out, s).
       if rc \<noteq> 0 then exec_bind (parse_err_resp S s) (\<lambda>rc. Inr (rc, devs, s))
       else case out of None \<Rightarrow> Inl Uninitialised | Some (n, devs) \<Rightarrow> Inr (n, devs, s))"

text \<open>The result is the value the parser left, or an error code.\<close>

definition rpc_value_of :: "'w spdk_api \<Rightarrow> rpc \<Rightarrow> 'w spdk \<Rightarrow> (resp \<times> 'w spdk) exec" where
  "rpc_value_of S q s =
     exec_bind (rpc_exchange S q resp_parser s) (\<lambda>(rc, resp, s).
       if rc \<noteq> 0 then exec_bind (parse_err_resp S s) (\<lambda>rc. Inr (Stored rc, s))
       else case resp of None \<Rightarrow> Inl Uninitialised | Some r \<Rightarrow> Inr (r, s))"

definition add_nvme_device :: "'w spdk_api \<Rightarrow> pci_device \<Rightarrow> 'w spdk \<Rightarrow> (resp \<times> 'w spdk) exec" where
  "add_nvme_device S d s =
     (let name = BDEV_FMT (int (sd_count s));
          address = PCIE_ADDR_FMT (pd_domain d) (pd_bus d) (pd_dev d) (pd_func d)
      in rpc_value_of S (construct_nvme_req name address) (s\<lparr>sd_count := sd_count s + 1\<rparr>))"

definition add_null_device :: "'w spdk_api \<Rightarrow> 'w spdk \<Rightarrow> (resp \<times> 'w spdk) exec" where
  "add_null_device S = rpc_value_of S construct_null_req"

text \<open>A request whose response is received and not looked at.\<close>

definition rpc_ignored :: "'w spdk_api \<Rightarrow> rpc \<Rightarrow> 'w spdk \<Rightarrow> 'w spdk exec" where
  "rpc_ignored S q s = exec_bind (rpc_exchange S q resp_parser s) (\<lambda>(_, _, s). Inr s)"

definition del_device :: "'w spdk_api \<Rightarrow> string \<Rightarrow> 'w spdk \<Rightarrow> 'w spdk exec" where
  "del_device S name = rpc_ignored S (if name = NULL_BLK_BDEV then delete_null_req name else delete_bdev_req name)"

definition del_nvme_device :: "'w spdk_api \<Rightarrow> 'w spdk \<Rightarrow> 'w spdk exec" where
  "del_nvme_device S s = (let n = sd_count s - 1 in del_device S (BDEV_FMT (int n)) (s\<lparr>sd_count := n\<rparr>))"

definition bdev_reset ::
  "'w spdk_api \<Rightarrow> jval \<Rightarrow> 'w spdk \<Rightarrow> (int \<times> (int \<times> unit) option \<times> 'w spdk) exec" where
  "bdev_reset S = bdev_array S (\<lambda>name _ s. exec_bind (del_device S name s) (\<lambda>s. Inr ((), s))) ()"

definition clear_devices :: "'w spdk_api \<Rightarrow> 'w spdk \<Rightarrow> 'w spdk exec" where
  "clear_devices S s =
     exec_bind (rpc_exchange S get_bdevs_req (bdev_reset S) s) (\<lambda>(rc, _, s).
       if rc \<noteq> 0 then exec_bind (parse_err_resp S s) (\<lambda>_. Inr s) else Inr s)"

definition del_null_device :: "'w spdk_api \<Rightarrow> 'w spdk \<Rightarrow> 'w spdk exec" where
  "del_null_device S = rpc_ignored S (delete_null_req NULL_BLK_BDEV)"

text \<open>The loop over the devices of the PCI bus ends when adding one fails.\<close>

fun add_pci_devices :: "'w spdk_api \<Rightarrow> pci_device list \<Rightarrow> 'w spdk \<Rightarrow> 'w spdk exec" where
  "add_pci_devices S [] s = Inr s"
| "add_pci_devices S (d # ds) s =
     (if pd_class d = PCI_CLASS_STORAGE_NVME
      then exec_bind (add_nvme_device S d s) (\<lambda>(ret, s).
             exec_bind (resp_true ret) (\<lambda>b. if b then Inr s else add_pci_devices S ds s))
      else add_pci_devices S ds s)"

definition enumerate_nvme_devices :: "'w spdk_api \<Rightarrow> 'w spdk \<Rightarrow> (int \<times> 'w spdk) exec" where
  "enumerate_nvme_devices S s =
     (if sv_pci_init S \<noteq> 0 then Inr (sv_pci_init S, s)
      else
        exec_bind (add_pci_devices S (sv_pci_devices S) s) (\<lambda>s.
        exec_bind (add_null_device S s) (\<lambda>(_, s). Inr (0, s))))"

section \<open>Start and stop\<close>

text \<open>A subsystem the daemon already has: it is looked for in the list of this process.\<close>

definition clear_one :: "'w spdk_api \<Rightarrow> spdk_subsys \<Rightarrow> 'w spdk \<Rightarrow> 'w spdk exec" where
  "clear_one S d s =
     exec_bind (cptr_text (su_subtype d)) (\<lambda>subtype.
     exec_bind
       (if subtype = ''NVMe'' then with_nqn (su_nqn d) (spdk_delete_subsys S) s else Inr (0, s)) (\<lambda>(_, s).
     exec_bind (free_cptr (su_nqn d)) (\<lambda>_.
     exec_bind (free_cptr (su_subtype d)) (\<lambda>_. Inr s))))"

definition clear_subsys :: "'w spdk_api \<Rightarrow> jval \<Rightarrow> 'w spdk \<Rightarrow> (int \<times> int option \<times> 'w spdk) exec" where
  "clear_subsys S v s =
     (case v of
        Jarray vs \<Rightarrow>
          exec_bind (sv_subsys S (subsys_parse S) vs s) (\<lambda>(rc, ds, s).
            if rc \<noteq> 0 then Inr (rc, None, s)
            else exec_bind (each (clear_one S) ds s) (\<lambda>s. Inr (rc, Some (int (length ds)), s)))
      | _ \<Rightarrow> Inr (- EINVAL, None, s))"

definition clear_subsystems :: "'w spdk_api \<Rightarrow> 'w spdk \<Rightarrow> 'w spdk exec" where
  "clear_subsystems S s =
     exec_bind (rpc_exchange S get_subsystems_req (clear_subsys S) s) (\<lambda>(rc, _, s).
       if rc \<noteq> 0 then exec_bind (parse_err_resp S s) (\<lambda>_. Inr s) else Inr s)"

definition spdk_reset_config :: "'w spdk_api \<Rightarrow> 'w spdk \<Rightarrow> 'w spdk exec" where
  "spdk_reset_config S s =
     exec_bind (each (delete_portid S) (sd_ports s) s) (\<lambda>s.
     each (\<lambda>ss s. exec_bind (spdk_delete_subsys S (ks_nqn ss) s) (\<lambda>(_, s). Inr s)) (sd_subsys s) s)"

definition reset_spdk_server :: "'w spdk_api \<Rightarrow> 'w spdk \<Rightarrow> 'w spdk exec" where
  "reset_spdk_server S s = exec_bind (clear_subsystems S s) (clear_devices S)"

text \<open>\<open>n\<close> is the number of devices, which each round lowers.\<close>

fun del_nvme_devices :: "'w spdk_api \<Rightarrow> nat \<Rightarrow> 'w spdk \<Rightarrow> 'w spdk exec" where
  "del_nvme_devices S 0 s = Inr s"
| "del_nvme_devices S (Suc n) s = exec_bind (del_nvme_device S s) (del_nvme_devices S n)"

definition spdk_stop_targets :: "'w spdk_api \<Rightarrow> 'w spdk \<Rightarrow> 'w spdk exec" where
  "spdk_stop_targets S s =
     exec_bind (spdk_reset_config S s) (\<lambda>s.
     exec_bind (del_null_device S s) (\<lambda>s.
     exec_bind (del_nvme_devices S (sd_count s) s) (\<lambda>s.
       Inr (s\<lparr>sd_server := sv_close S (sd_server s)\<rparr>))))"

definition spdk_start_targets :: "'w spdk_api \<Rightarrow> 'w spdk \<Rightarrow> (int \<times> 'w spdk) exec" where
  "spdk_start_targets S s =
     (case sv_connect S (sd_server s) of (ok, w) \<Rightarrow>
        let s = s\<lparr>sd_ports := [], sd_subsys := [], sd_count := 0, sd_server := w\<rparr> in
        if \<not> ok then Inr (- ENOTCONN, s)
        else
          exec_bind (reset_spdk_server S s) (\<lambda>s.
          exec_bind (enumerate_nvme_devices S s) (\<lambda>(_, s). Inr (0, s))))"

definition spdk_register_ops :: "'w spdk_api \<Rightarrow> 'w spdk ops" where
  "spdk_register_ops S =
     \<lparr>op_delete_subsys = spdk_delete_subsys S,
      op_create_subsys = spdk_create_subsys S,
      op_create_ns = spdk_create_ns S,
      op_delete_ns = spdk_delete_ns S,
      op_create_host = spdk_create_host,
      op_delete_host = spdk_delete_host,
      op_create_portid = spdk_create_portid,
      op_delete_portid = spdk_delete_portid S,
      op_link_host_to_subsys = spdk_link_host_to_subsys S,
      op_unlink_host_from_subsys = spdk_unlink_host_from_subsys S,
      op_link_port_to_subsys = spdk_link_port_to_subsys S,
      op_unlink_port_from_subsys = spdk_unlink_port_from_subsys S,
      op_enumerate_devices = spdk_enumerate_devices S,
      op_reset_config = spdk_reset_config S,
      op_start_targets = (\<lambda>_. spdk_start_targets S),
      op_stop_targets = spdk_stop_targets S\<rparr>"

end
