(* ===== verification/Spdk_Daemon.thy ===== *)
theory Spdk_Daemon
  imports Spdk Ep_Nvmet "HOL-Library.Sublist"
begin

text \<open>
  What the endpoint manager relies on when it drives SPDK, and what its operations then do.

  The locale \<open>nvmf_daemon\<close> is the contract of the storage daemon: a request that fits its configuration is carried
  out and answered, another one is answered with an error in the format of JSON-RPC and changes nothing. The
  specification \<open>spdk_spec\<close> is on the configuration of the daemon and the table of ports; inside the locale
  each operation is shown to be a step of it, and the lists of the process to mirror the daemon.
\<close>

section \<open>Error responses\<close>

text \<open>The text of an error as the daemon writes it.\<close>

definition err_head :: string where
  "err_head =
     ''{'' @ dquoted ''jsonrpc'' @ '':'' @ dquoted ''2.0'' @ '','' @ dquoted ''id'' @ '':1,'' @ dquoted ''error'' @ '':{''"

definition rpc_error :: "int \<Rightarrow> string \<Rightarrow> string" where
  "rpc_error code msg =
     err_head @ dquoted ''code'' @ '':'' @ show_int code @ '','' @ dquoted ''message'' @ '':'' @ dquoted msg @ ''}}'' @ [CHR 0x0A]"

text \<open>A text in which the scan for the code finds nothing.\<close>

definition no_key :: "string \<Rightarrow> bool" where
  "no_key t = (\<not> sublist ''code'' t \<and> \<not> sublist ''message'' t \<and> CHR 0x0A \<notin> set t)"

text \<open>A message that the daemon may give with an error.\<close>

definition plain_message :: "string \<Rightarrow> bool" where
  "plain_message msg = (msg \<noteq> [] \<and> no_key msg \<and> CHR 0x22 \<notin> set msg)"

lemma prefix_at_until: "y \<notin> set xs \<Longrightarrow> prefix_at xs (t @ y # r) = Inr (prefix xs t)"
proof (induction xs t rule: prefix_at.induct)
  case (2 x xs)
  then show ?case by auto
qed auto

lemma no_key_Cons: "no_key (c # t) \<Longrightarrow> no_key t"
  by (auto simp: no_key_def sublist_Cons_right)

lemma no_key_prefix: "no_key t \<Longrightarrow> \<not> prefix ''code'' t \<and> \<not> prefix ''message'' t"
  by (auto simp: no_key_def prefix_imp_sublist)

lemma no_key_if: "CHR ''c'' \<notin> set t \<Longrightarrow> CHR ''m'' \<notin> set t \<Longrightarrow> CHR 0x0A \<notin> set t \<Longrightarrow> no_key t"
  by (auto simp: no_key_def dest!: set_mono_sublist)

lemma err_loop_skip:
  assumes "no_key t" "y \<notin> set ''codemessage''" "start \<Longrightarrow> CHR 0x22 \<notin> set t"
  shows "err_loop (length t + n) (t @ y # r) start rc = err_loop n (y # r) start rc"
  using assms
proof (induction t)
  case (Cons c t)
  have p: "prefix_at ''code'' (c # t @ y # r) = Inr False" "prefix_at ''message'' (c # t @ y # r) = Inr False"
    using prefix_at_until [of y "''code''" "c # t" r] prefix_at_until [of y "''message''" "c # t" r]
      no_key_prefix [OF Cons.prems(1)] Cons.prems(2) by simp_all
  have c: "c \<noteq> CHR 0x0A" "start \<Longrightarrow> c \<noteq> CHR 0x22" using Cons.prems(1,3) by (auto simp: no_key_def)
  have "err_loop (length (c # t) + n) ((c # t) @ y # r) start rc = err_loop (length t + n) (t @ y # r) start rc"
    using p c by (cases start) (simp_all del: prefix_at.simps)
  then show ?case using Cons.IH Cons.prems no_key_Cons by simp
qed simp

lemma err_loop_quote:
  "err_loop (Suc n) (CHR 0x22 # r) False rc = err_loop n r False rc"
  "err_loop (Suc n) (CHR 0x22 # r) True rc = Inr rc"
  by simp_all

lemma err_head_no_key: "no_key err_head"
  by (simp add: no_key_def err_head_def dquoted_def sublist_Cons_right)

lemma show_nat_Cons: obtains c ds where "show_nat n = c # ds" "is_digit c" "list_all is_digit ds"
  using show_nat_digits [of n] show_nat_nonempty [of n] by (cases "show_nat n") auto

lemma show_int_Cons: obtains c ds where "show_int i = c # ds" "list_all is_digit ds"
proof (cases "i < 0")
  case True
  then show ?thesis using that [of "CHR ''-''" "show_nat (nat (- i))"] show_nat_digits by (simp add: show_int_def)
next
  case False
  then show ?thesis using that show_nat_Cons [of "nat i"] by (metis show_int_def)
qed

lemma takeWhile_digits: "list_all is_digit ds \<Longrightarrow> \<not> is_digit c \<Longrightarrow> takeWhile is_digit (ds @ c # r) = ds"
  by (simp add: list_all_iff takeWhile_append)

lemma dropWhile_digits: "list_all is_digit ds \<Longrightarrow> \<not> is_digit c \<Longrightarrow> dropWhile is_digit (ds @ c # r) = c # r"
  by (simp add: list_all_iff dropWhile_append)

lemma atoi_show_int_append: "\<not> is_digit c \<Longrightarrow> atoi (show_int i @ c # r) = i"
  using atoi_show_append [of "c # r" "nat i"] digits_value_show [of "nat (- i)"] show_nat_digits [of "nat (- i)"]
  by (auto simp: show_int_def atoi_def is_space_def takeWhile_digits)

lemma atoi_at_show:
  assumes "\<not> is_digit c" "c_range i"
  shows "atoi_at (show_int i @ c # r) = Inr i"
proof -
  have v: "c_int (atoi (show_int i @ c # r)) = i"
    using assms by (simp add: c_range_def c_int_id atoi_show_int_append)
  have drop: "dropWhile is_digit (show_nat n @ c # r) = c # r" for n by (rule dropWhile_digits [OF show_nat_digits assms(1)])
  show ?thesis
  proof (cases "i < 0")
    case True
    then have t: "show_int i @ c # r = CHR ''-'' # show_nat (nat (- i)) @ c # r" by (simp add: show_int_def)
    show ?thesis using v drop [of "nat (- i)"] assms(1) by (simp add: atoi_at_def t is_space_def del: dropWhile_eq_Nil_conv) 
  next
    case False
    obtain d ds where d: "show_nat (nat i) = d # ds" "is_digit d" by (rule show_nat_Cons)
    have t: "show_int i @ c # r = d # ds @ c # r" using False d by (simp add: show_int_def)
    show ?thesis using v drop [of "nat i"] digit_not_special [OF d(2)] d(2) assms(1) by (auto simp: atoi_at_def t d)
  qed
qed

text \<open>The code of such an error is what the scan of the buffer finds.\<close>

lemma err_loop_code:
  assumes "c_range e" "plain_message msg" "length (rpc_error e msg) \<le> n"
  shows "err_loop n (rpc_error e msg @ rest) False rc = Inr e"
proof -
  obtain c ds where e: "show_int e = c # ds" "list_all is_digit ds" by (rule show_int_Cons)
  obtain m ms where msg: "msg = m # ms" using assms(2) by (cases msg) (auto simp: plain_message_def)
  have ms: "no_key ms" "CHR 0x22 \<notin> set ms" using assms(2) no_key_Cons by (auto simp: plain_message_def msg)
  have ds: "no_key (ds @ '','')"
    using e(2) by (intro no_key_if) (auto simp: list_all_iff is_digit_def)
  obtain k where k: "n = length err_head + Suc (Suc (length (ds @ '','') + Suc (Suc (length ms + Suc k))))"
    using assms(3) le_Suc_ex [of "length err_head + Suc (Suc (length (ds @ '','') + Suc (Suc (length ms + Suc 0))))" n]
    by (auto simp: rpc_error_def e(1) msg)
  let ?q = "CHR 0x22"
  let ?tail = "ms @ ?q # ''}}'' @ CHR 0x0A # rest"
  let ?msg = "?q # ''message'' @ ?q # '':'' @ ?q # m # ?tail"
  let ?num = "c # (ds @ '','') @ ?msg"
  have buf: "rpc_error e msg @ rest = err_head @ ?q # ''code'' @ ?q # '':'' @ ?num"
    by (simp add: rpc_error_def dquoted_def e(1) msg)
  have "err_loop n (rpc_error e msg @ rest) False rc =
      err_loop (Suc (Suc (length (ds @ '','') + Suc (Suc (length ms + Suc k))))) (?q # ''code'' @ ?q # '':'' @ ?num) False rc"
    unfolding buf k by (rule err_loop_skip [OF err_head_no_key]) simp_all
  also have "\<dots> = err_loop (Suc (length (ds @ '','') + Suc (Suc (length ms + Suc k)))) (''code'' @ ?q # '':'' @ ?num) False rc"
    by (rule err_loop_quote)
  also have "\<dots> = err_loop (length (ds @ '','') + Suc (Suc (length ms + Suc k))) ((ds @ '','') @ ?msg) False e"
    using atoi_at_show [OF _ assms(1), of "CHR '',''" ?msg] by (simp add: e(1) is_digit_def)
  also have "\<dots> = err_loop (Suc (Suc (length ms + Suc k))) ?msg False e"
    by (rule err_loop_skip [OF ds]) simp_all
  also have "\<dots> = err_loop (Suc (length ms + Suc k)) (''message'' @ ?q # '':'' @ ?q # m # ?tail) False e"
    by (rule err_loop_quote)
  also have "\<dots> = err_loop (length ms + Suc k) ?tail True e" by simp
  also have "\<dots> = err_loop (Suc k) (?q # ''}}'' @ CHR 0x0A # rest) True e"
    using ms by (intro err_loop_skip) simp_all
  also have "\<dots> = Inr e" by (rule err_loop_quote)
  finally show ?thesis .
qed

section \<open>The daemon\<close>

text \<open>What the daemon has of a subsystem; a listener is its transport, family, address and service.\<close>

type_synonym listener = "string \<times> string \<times> string \<times> string"

record nvmf =
  nf_any :: bool
  nf_hosts :: "string set"
  nf_listeners :: "listener set"
  nf_ns :: "nat \<rightharpoonup> string"

type_synonym daemon = "string \<rightharpoonup> nvmf"

definition new_nvmf :: "bool \<Rightarrow> nvmf" where
  "new_nvmf a = \<lparr>nf_any = a, nf_hosts = {}, nf_listeners = {}, nf_ns = Map.empty\<rparr>"

definition on_nvmf :: "string \<Rightarrow> (nvmf \<Rightarrow> nvmf) \<Rightarrow> daemon \<Rightarrow> daemon" where
  "on_nvmf q f d = d(q := map_option f (d q))"

definition has :: "string \<Rightarrow> (nvmf \<Rightarrow> bool) \<Rightarrow> daemon \<Rightarrow> bool" where
  "has q P d = (case d q of None \<Rightarrow> False | Some x \<Rightarrow> P x)"

definition hosts_upd :: "(string set \<Rightarrow> string set) \<Rightarrow> nvmf \<Rightarrow> nvmf" where
  "hosts_upd f x = x\<lparr>nf_hosts := f (nf_hosts x)\<rparr>"

definition listeners_upd :: "(listener set \<Rightarrow> listener set) \<Rightarrow> nvmf \<Rightarrow> nvmf" where
  "listeners_upd f x = x\<lparr>nf_listeners := f (nf_listeners x)\<rparr>"

definition ns_upd :: "((nat \<rightharpoonup> string) \<Rightarrow> (nat \<rightharpoonup> string)) \<Rightarrow> nvmf \<Rightarrow> nvmf" where
  "ns_upd f x = x\<lparr>nf_ns := f (nf_ns x)\<rparr>"

definition listener_of :: "spdk_port \<Rightarrow> listener" where
  "listener_of p = (kp_type p, kp_family p, kp_address p, kp_port p)"

text \<open>A request that is answered with a value, or with an error that ends the first line of the buffer.\<close>

definition answers :: "'w spdk_api \<Rightarrow> rpc \<Rightarrow> jval \<Rightarrow> 'w \<Rightarrow> 'w \<Rightarrow> bool" where
  "answers S q v w w' =
     (\<exists>n w1. sv_poll S (sv_send S q w) = (n, w1) \<and> 0 < n \<and>
        sv_response S w1 = (Some \<lparr>rr_error = False, rr_result = Some v\<rparr>, w'))"

definition refuses :: "'w spdk_api \<Rightarrow> rpc \<Rightarrow> 'w \<Rightarrow> 'w \<Rightarrow> bool" where
  "refuses S q w w' =
     (\<exists>n w1 e msg rest. sv_poll S (sv_send S q w) = (n, w1) \<and> 0 < n \<and>
        sv_response S w1 = (Some \<lparr>rr_error = True, rr_result = None\<rparr>, w') \<and>
        sv_recv_buf S w' = rpc_error e msg @ rest \<and> e < 0 \<and> c_range e \<and> plain_message msg)"

text \<open>A request that is carried out when \<open>ok\<close> holds, and one that may be refused even then.\<close>

definition serves ::
  "'w spdk_api \<Rightarrow> ('w \<Rightarrow> daemon) \<Rightarrow> rpc \<Rightarrow> (daemon \<Rightarrow> bool) \<Rightarrow> (daemon \<Rightarrow> daemon) \<Rightarrow> bool" where
  "serves S view q ok eff =
     (\<forall>w. if ok (view w) then \<exists>w'. answers S q Jtrue w w' \<and> view w' = eff (view w)
          else \<exists>w'. refuses S q w w' \<and> view w' = view w)"

text \<open>The number of a namespace in a response.\<close>

definition ns_number :: "int \<Rightarrow> string" where
  "ns_number i = show_int (int (uint32 i))"

locale nvmf_daemon =
  fixes S :: "'w spdk_api" and view :: "'w \<Rightarrow> daemon"
  assumes create: "serves S view (create_subsys_req n a) (\<lambda>d. d n = None) (\<lambda>d. d(n \<mapsto> new_nvmf a))"
    and delete: "serves S view (delete_subsys_req n) (\<lambda>d. d n \<noteq> None) (\<lambda>d. d(n := None))"
    and add_host: "serves S view (add_host_req n h)
      (has n (\<lambda>x. h \<notin> nf_hosts x)) (on_nvmf n (hosts_upd (insert h)))"
    and remove_host: "serves S view (remove_host_req n h)
      (has n (\<lambda>x. h \<in> nf_hosts x)) (on_nvmf n (hosts_upd (\<lambda>hs. hs - {h})))"
    and add_listener: "serves S view (add_listener_req n p)
      (has n (\<lambda>x. listener_of p \<notin> nf_listeners x)) (on_nvmf n (listeners_upd (insert (listener_of p))))"
    and remove_listener: "serves S view (remove_listener_req n p)
      (has n (\<lambda>x. listener_of p \<in> nf_listeners x)) (on_nvmf n (listeners_upd (\<lambda>ls. ls - {listener_of p})))"
    and remove_ns: "serves S view (remove_ns_req n i)
      (has n (\<lambda>x. uint32 i \<in> dom (nf_ns x))) (on_nvmf n (ns_upd (\<lambda>m. m(uint32 i := None))))"
    and add_ns: "(\<exists>w' c r. has n (\<lambda>x. uint32 i \<notin> dom (nf_ns x)) (view w) \<and> \<not> is_digit c \<and>
         answers S (add_ns_req n i b) (Jnumber (length (ns_number i)) (ns_number i @ c # r)) w w' \<and>
         view w' = on_nvmf n (ns_upd (\<lambda>m. m(uint32 i \<mapsto> b))) (view w)) \<or>
       (\<exists>w'. refuses S (add_ns_req n i b) w w' \<and> view w' = view w)"

section \<open>The specification\<close>

record nvmf_conf =
  nc_ports :: "int \<rightharpoonup> listener"
  nc_subsys :: daemon

definition on_conf :: "string \<Rightarrow> (nvmf \<Rightarrow> nvmf) \<Rightarrow> nvmf_conf \<Rightarrow> nvmf_conf" where
  "on_conf n f c = c\<lparr>nc_subsys := on_nvmf n f (nc_subsys c)\<rparr>"

text \<open>
  A command, its code and the configuration afterwards. An error changes nothing. A host is allowed and a
  port linked when that is not so already; a port is deleted with its listeners.
\<close>

fun spdk_spec :: "nv_cmd \<Rightarrow> nvmf_conf \<Rightarrow> int \<Rightarrow> nvmf_conf \<Rightarrow> bool" where
  "spdk_spec (Create_subsys n a) c ret c' =
     (if \<not> valid_nqn n then ret = - EINVAL \<and> c' = c
      else if n \<in> dom (nc_subsys c) then ret = - EEXIST \<and> c' = c
      else ret = 0 \<and> c' = c\<lparr>nc_subsys := (nc_subsys c)(n \<mapsto> new_nvmf (a \<noteq> 0))\<rparr>)"
| "spdk_spec (Delete_subsys n) c ret c' =
     (if n \<in> dom (nc_subsys c) then ret = 0 \<and> c' = c\<lparr>nc_subsys := (nc_subsys c)(n := None)\<rparr>
      else ret = - ENOENT \<and> c' = c)"
| "spdk_spec (Create_ns n i d dn) c ret c' =
     (if n \<notin> dom (nc_subsys c) then ret = - ENOENT \<and> c' = c
      else if ret = 0
      then has n (\<lambda>x. uint32 i \<notin> dom (nf_ns x)) (nc_subsys c) \<and>
           c' = on_conf n (ns_upd (\<lambda>m. m(uint32 i \<mapsto> if d = NULL_BLK_DEVID then NULL_BLK_BDEV else NVME_DEV_FMT d dn))) c
      else ret < 0 \<and> c' = c)"
| "spdk_spec (Delete_ns n i) c ret c' =
     (if n \<notin> dom (nc_subsys c) then ret = - ENOENT \<and> c' = c
      else if has n (\<lambda>x. uint32 i \<in> dom (nf_ns x)) (nc_subsys c)
      then ret = 0 \<and> c' = on_conf n (ns_upd (\<lambda>m. m(uint32 i := None))) c
      else ret < 0 \<and> c' = c)"
| "spdk_spec (Create_host h) c ret c' = (ret = 0 \<and> c' = c)"
| "spdk_spec (Delete_host h) c ret c' = (ret = 0 \<and> c' = c)"
| "spdk_spec (Create_portid i fam typ req addr svcid) c ret c' =
     (if i \<in> dom (nc_ports c) then ret = - EEXIST \<and> c' = c
      else ret = 0 \<and> c' = c\<lparr>nc_ports := (nc_ports c)(i \<mapsto> (typ, fam, addr, show_int svcid))\<rparr>)"
| "spdk_spec (Delete_portid i) c ret c' =
     (ret = 0 \<and>
      c' = (case nc_ports c i of
              None \<Rightarrow> c
            | Some l \<Rightarrow> c\<lparr>nc_ports := (nc_ports c)(i := None),
                          nc_subsys := (\<lambda>n. map_option (listeners_upd (\<lambda>ls. ls - {l})) (nc_subsys c n))\<rparr>))"
| "spdk_spec (Link_host n h) c ret c' =
     (if \<not> valid_nqn h then ret = - EINVAL \<and> c' = c
      else if n \<notin> dom (nc_subsys c) then ret = - ENOENT \<and> c' = c
      else ret = 0 \<and> c' = on_conf n (hosts_upd (insert h)) c)"
| "spdk_spec (Unlink_host n h) c ret c' =
     (if n \<notin> dom (nc_subsys c) then ret = - ENOENT \<and> c' = c
      else ret = 0 \<and> c' = on_conf n (hosts_upd (\<lambda>hs. hs - {h})) c)"
| "spdk_spec (Link_port n i) c ret c' =
     (case nc_ports c i of
        None \<Rightarrow> ret = - EINVAL \<and> c' = c
      | Some l \<Rightarrow>
          if n \<notin> dom (nc_subsys c) then ret = - EINVAL \<and> c' = c
          else ret = 0 \<and> c' = on_conf n (listeners_upd (insert l)) c)"
| "spdk_spec (Unlink_port n i) c ret c' =
     (case nc_ports c i of
        None \<Rightarrow> ret = - ENOENT \<and> c' = c
      | Some l \<Rightarrow>
          if n \<notin> dom (nc_subsys c) then ret = - ENOENT \<and> c' = c
          else if has n (\<lambda>x. l \<in> nf_listeners x) (nc_subsys c)
          then ret = 0 \<and> c' = on_conf n (listeners_upd (\<lambda>ls. ls - {l})) c
          else ret < 0 \<and> c' = c)"

text \<open>Commands whose texts fit the fields of a port, with an address no other port has, and
  namespaces with a positive number.\<close>

fun spdk_cmd_ok :: "nv_cmd \<Rightarrow> nvmf_conf \<Rightarrow> bool" where
  "spdk_cmd_ok (Create_portid i fam typ req addr svcid) c =
     (length fam \<le> CONFIG_FAMILY_SIZE \<and> length typ \<le> CONFIG_TYPE_SIZE \<and> length addr \<le> CONFIG_ADDRESS_SIZE \<and>
      length (show_int svcid) \<le> CONFIG_PORT_SIZE \<and> (typ, fam, addr, show_int svcid) \<notin> ran (nc_ports c))"
| "spdk_cmd_ok (Create_ns n i d dn) c = (0 \<le> i \<and> c_range i)"
| "spdk_cmd_ok _ c = True"

section \<open>The lists of the process\<close>

text \<open>A subsystem in the list is one of the daemon, with the listeners of the ports it is linked to.\<close>

definition mirrors :: "spdk_port list \<Rightarrow> spdk_subsystem \<Rightarrow> nvmf \<Rightarrow> bool" where
  "mirrors ports ss x =
     (nf_any x = ks_allowany ss \<and> nf_hosts x = set (ks_hosts ss) \<and>
      nf_listeners x = listener_of ` {p \<in> set ports. kp_ptr p \<in> set (ks_portids ss)} \<and>
      distinct (ks_hosts ss) \<and> distinct (ks_portids ss) \<and> set (ks_portids ss) \<subseteq> kp_ptr ` set ports)"

definition ports_ok :: "spdk_port list \<Rightarrow> ptr \<Rightarrow> bool" where
  "ports_ok ports next =
     (distinct (map kp_portid ports) \<and> distinct (map kp_ptr ports) \<and> distinct (map listener_of ports) \<and>
      (\<forall>p\<in>set ports. kp_ptr p < next))"

definition spdk_inv :: "('w \<Rightarrow> daemon) \<Rightarrow> 'w spdk \<Rightarrow> bool" where
  "spdk_inv view s =
     (distinct (map ks_nqn (sd_subsys s)) \<and> ports_ok (sd_ports s) (sd_next s) \<and>
      (\<forall>n. rel_option (mirrors (sd_ports s)) (find_subsys_spdk n s) (view (sd_server s) n)))"

definition spdk_conf :: "('w \<Rightarrow> daemon) \<Rightarrow> 'w spdk \<Rightarrow> nvmf_conf" where
  "spdk_conf view s =
     \<lparr>nc_ports = (\<lambda>i. map_option listener_of (find_portid_spdk i s)), nc_subsys = view (sd_server s)\<rparr>"

section \<open>Requests\<close>

lemma rpc_bool_answers: "answers S q Jtrue (sd_server s) w' \<Longrightarrow> rpc_bool S q s = Inr (0, s\<lparr>sd_server := w'\<rparr>)"
  by (auto simp: answers_def rpc_bool_def rpc_result_def rpc_exchange_def recv_response_def resp_parser_def resp_true_def)

lemma rpc_refuses:
  assumes "refuses S q (sd_server s) w'"
  shows "\<exists>e<0. rpc_result S q k s = Inr (e, s\<lparr>sd_server := w'\<rparr>)"
proof -
  obtain n w1 e msg rest where r: "sv_poll S (sv_send S q (sd_server s)) = (n, w1)" "0 < n"
    "sv_response S w1 = (Some \<lparr>rr_error = True, rr_result = None\<rparr>, w')"
    "sv_recv_buf S w' = rpc_error e msg @ rest" "e < 0" "c_range e" "plain_message msg"
    using assms by (auto simp: refuses_def)
  have "parse_err_resp S (s\<lparr>sd_server := w'\<rparr>) = Inr e"
    using r(4) err_loop_code [OF r(6,7)] by (simp add: parse_err_resp_def)
  then have "rpc_result S q k s = Inr (e, s\<lparr>sd_server := w'\<rparr>)"
    using r(1-3) by (simp add: rpc_result_def rpc_exchange_def recv_response_def)
  then show ?thesis using r(5) by blast
qed

lemma rpc_serves:
  assumes "serves S view q ok eff"
  obtains ret w' where "rpc_bool S q s = Inr (ret, s\<lparr>sd_server := w'\<rparr>)" "ret \<le> 0"
    "ok (view (sd_server s)) \<Longrightarrow> ret = 0 \<and> view w' = eff (view (sd_server s))"
    "\<not> ok (view (sd_server s)) \<Longrightarrow> ret \<noteq> 0 \<and> view w' = view (sd_server s)"
proof (cases "ok (view (sd_server s))")
  case True
  then obtain w' where "answers S q Jtrue (sd_server s) w'" "view w' = eff (view (sd_server s))"
    using assms unfolding serves_def by metis
  then show ?thesis using that [of 0 w'] True rpc_bool_answers [of S q s w'] by simp
next
  case False
  then obtain w' where w': "refuses S q (sd_server s) w'" "view w' = view (sd_server s)"
    using assms unfolding serves_def by metis
  then obtain e where "e < 0" "rpc_bool S q s = Inr (e, s\<lparr>sd_server := w'\<rparr>)"
    using rpc_refuses [OF w'(1)] unfolding rpc_bool_def by blast
  then show ?thesis using that [of e w'] False w'(2) by simp
qed

lemma resp_number:
  assumes "\<not> is_digit c" "0 \<le> i" "c_range i"
  shows "resp_parser (Jnumber (length (show_int i)) (show_int i @ c # r)) s = Inr (0, Some (Stored i), s)"
proof -
  have "nat i < 10 ^ 10" using assms(2,3) by (simp add: c_range_def)
  then have l: "length (show_int i) < MAXSTRLEN - 1"
    using length_show_nat [of "nat i" 10] assms(2) by (simp add: show_int_def MAXSTRLEN_def)
  then have "take (MAXSTRLEN - 1) (show_int i @ c # r) = show_int i @ c # take (MAXSTRLEN - 1 - length (show_int i) - 1) r"
    by (simp add: take_Cons')
  then show ?thesis
    using assms by (simp add: resp_parser_def atoi_show_int_append c_int_id c_range_def)
qed

lemma rpc_number:
  assumes "answers S q (Jnumber (length (show_int i)) (show_int i @ c # r)) (sd_server s) w'" "\<not> is_digit c" "0 \<le> i" "c_range i"
    and "k (Stored i) = Inr ret"
  shows "rpc_result S q k s = Inr (ret, s\<lparr>sd_server := w'\<rparr>)"
proof -
  let ?v = "Jnumber (length (show_int i)) (show_int i @ c # r)"
  obtain n w1 where a: "sv_poll S (sv_send S q (sd_server s)) = (n, w1)" "0 < n"
    "sv_response S w1 = (Some \<lparr>rr_error = False, rr_result = Some ?v\<rparr>, w')"
    using assms(1) by (auto simp: answers_def)
  have v: "resp_parser ?v (s\<lparr>sd_server := w'\<rparr>) = Inr (0, Some (Stored i), s\<lparr>sd_server := w'\<rparr>)"
    by (rule resp_number [OF assms(2-4)])
  show ?thesis using a v assms(5) by (simp add: rpc_result_def rpc_exchange_def recv_response_def)
qed

section \<open>Lists\<close>

lemma find_upd_first:
  "(\<And>x. g (f x) = g x) \<Longrightarrow>
     find (\<lambda>x. g x = b) (upd_first (\<lambda>x. g x = a) f xs) =
       (if b = a then map_option f (find (\<lambda>x. g x = a) xs) else find (\<lambda>x. g x = b) xs)"
  by (induction xs) auto

lemma map_upd_first: "(\<And>x. g (f x) = g x) \<Longrightarrow> map g (upd_first P f xs) = map g xs"
  by (induction xs) auto

lemma find_del_first:
  "distinct (map g xs) \<Longrightarrow>
     find (\<lambda>x. g x = b) (del_first (\<lambda>x. g x = a) xs) = (if b = a then None else find (\<lambda>x. g x = b) xs)"
proof (induction xs)
  case (Cons x xs)
  have "find (\<lambda>y. g y = g x) xs = None" using Cons.prems by (auto simp: find_None_iff image_iff)
  then show ?case using Cons by auto
qed simp

lemma set_del_first: "distinct (map g xs) \<Longrightarrow> set (del_first (\<lambda>x. g x = a) xs) = {x \<in> set xs. g x \<noteq> a}"
  by (induction xs) (auto simp: image_iff)

lemma distinct_del_first: "distinct (map g xs) \<Longrightarrow> distinct (map g (del_first P xs))"
proof (induction xs)
  case (Cons x xs)
  have "set (del_first P xs) \<subseteq> set xs" by (induction xs) auto
  then show ?case using Cons by auto
qed simp

lemma set_del_id: "distinct xs \<Longrightarrow> set (del_first (\<lambda>x. x = a) xs) = set xs - {a}"
  using set_del_first [of "\<lambda>x. x" xs a] by auto

lemma distinct_del_id: "distinct xs \<Longrightarrow> distinct (del_first P xs)"
  using distinct_del_first [of "\<lambda>x. x" xs P] by simp

lemma find_hit: "find P xs = Some x \<Longrightarrow> x \<in> set xs \<and> P x"
  by (auto simp: find_Some_iff)

lemma find_by_key: "distinct (map g xs) \<Longrightarrow> x \<in> set xs \<Longrightarrow> find (\<lambda>y. g y = g x) xs = Some x"
  by (induction xs) (auto simp: rev_image_eqI)

lemma find_same: "h \<in> set xs \<Longrightarrow> find (\<lambda>k. k = h) xs = Some h"
  by (induction xs) auto

lemma find_subsys_upd:
  "(\<And>ss. ks_nqn (f ss) = ks_nqn ss) \<Longrightarrow>
     find_subsys_spdk m (upd_spdk n f s) = (if m = n then map_option f (find_subsys_spdk n s) else find_subsys_spdk m s)"
  by (simp add: find_subsys_spdk_def upd_spdk_def find_upd_first)

lemma find_subsys_nqn: "find_subsys_spdk n s = Some ss \<Longrightarrow> ks_nqn ss = n"
  by (auto simp: find_subsys_spdk_def dest: find_hit)

lemma find_server [simp]:
  "find_subsys_spdk n (s\<lparr>sd_server := w\<rparr>) = find_subsys_spdk n s" "find_portid_spdk i (s\<lparr>sd_server := w\<rparr>) = find_portid_spdk i s"
  "linked_port a (s\<lparr>sd_server := w\<rparr>) = linked_port a s"
  by (simp_all add: find_subsys_spdk_def find_portid_spdk_def linked_port_def)

section \<open>Changes to a subsystem\<close>

lemma on_nvmf_id: "(\<And>x. d n = Some x \<Longrightarrow> f x = x) \<Longrightarrow> on_nvmf n f d = d"
  by (cases "d n") (auto simp: on_nvmf_def)

lemma on_nvmf_comp: "on_nvmf n f (on_nvmf n g d) = on_nvmf n (\<lambda>x. f (g x)) d"
  by (cases "d n") (auto simp: on_nvmf_def)

lemma on_nvmf_apply: "on_nvmf n f d m = (if m = n then map_option f (d n) else d m)"
  by (simp add: on_nvmf_def)

lemma upd_simps [simp]:
  "nf_any (hosts_upd f x) = nf_any x" "nf_hosts (hosts_upd f x) = f (nf_hosts x)"
  "nf_listeners (hosts_upd f x) = nf_listeners x" "nf_ns (hosts_upd f x) = nf_ns x"
  "nf_any (listeners_upd g x) = nf_any x" "nf_hosts (listeners_upd g x) = nf_hosts x"
  "nf_listeners (listeners_upd g x) = g (nf_listeners x)" "nf_ns (listeners_upd g x) = nf_ns x"
  "nf_any (ns_upd h x) = nf_any x" "nf_hosts (ns_upd h x) = nf_hosts x"
  "nf_listeners (ns_upd h x) = nf_listeners x" "nf_ns (ns_upd h x) = h (nf_ns x)"
  by (simp_all add: hosts_upd_def listeners_upd_def ns_upd_def)

lemma upd_same:
  "f (nf_hosts x) = nf_hosts x \<Longrightarrow> hosts_upd f x = x"
  "g (nf_listeners x) = nf_listeners x \<Longrightarrow> listeners_upd g x = x"
  by (simp_all add: hosts_upd_def listeners_upd_def)

lemma listeners_upd_comp: "(\<lambda>x. listeners_upd f (listeners_upd g x)) = listeners_upd (f \<circ> g)"
  by (simp add: fun_eq_iff listeners_upd_def)

lemma upd_first_id: "upd_first P (\<lambda>x. x) xs = xs"
  by (induction xs) auto

lemma upd_spdk_id: "upd_spdk n (\<lambda>ss. ss) s = s"
  by (simp add: upd_spdk_def upd_first_id)

lemma upd_spdk_fields [simp]:
  "sd_ports (upd_spdk n f s) = sd_ports s" "sd_next (upd_spdk n f s) = sd_next s"
  "sd_server (upd_spdk n f s) = sd_server s" "find_portid_spdk i (upd_spdk n f s) = find_portid_spdk i s"
  by (simp_all add: upd_spdk_def find_portid_spdk_def)

lemma upd_spdk_server: "(upd_spdk n f (s\<lparr>sd_server := w\<rparr>))\<lparr>sd_server := w'\<rparr> = upd_spdk n f (s\<lparr>sd_server := w'\<rparr>)"
  by (simp add: upd_spdk_def)

lemma spdk_conf_fields [simp]:
  "nc_ports (spdk_conf view s) i = map_option listener_of (find_portid_spdk i s)"
  "nc_subsys (spdk_conf view s) = view (sd_server s)"
  by (simp_all add: spdk_conf_def)

lemma inv_find:
  assumes "spdk_inv view s"
  shows "find_subsys_spdk n s = None \<longleftrightarrow> view (sd_server s) n = None"
    and "find_subsys_spdk n s = Some ss \<Longrightarrow> \<exists>x. view (sd_server s) n = Some x \<and> mirrors (sd_ports s) ss x"
proof -
  have r: "rel_option (mirrors (sd_ports s)) (find_subsys_spdk n s) (view (sd_server s) n)"
    using assms by (simp add: spdk_inv_def)
  show "find_subsys_spdk n s = None \<longleftrightarrow> view (sd_server s) n = None" using r by (auto simp: option_rel_Some1 option_rel_Some2)
  show "\<exists>x. view (sd_server s) n = Some x \<and> mirrors (sd_ports s) ss x" if "find_subsys_spdk n s = Some ss"
    using r that by (auto simp: option_rel_Some1)
qed

lemma inv_upd:
  assumes "spdk_inv view s" "find_subsys_spdk n s = Some ss" "view (sd_server s) n = Some x"
    and "mirrors (sd_ports s) (f ss) (g x)" "\<And>ss. ks_nqn (f ss) = ks_nqn ss"
    and "view w' = on_nvmf n g (view (sd_server s))"
  shows "spdk_inv view (upd_spdk n f (s\<lparr>sd_server := w'\<rparr>))"
    and "spdk_conf view (upd_spdk n f (s\<lparr>sd_server := w'\<rparr>)) = on_conf n g (spdk_conf view s)"
proof -
  have "map ks_nqn (sd_subsys (upd_spdk n f (s\<lparr>sd_server := w'\<rparr>))) = map ks_nqn (sd_subsys s)"
    using assms(5) by (simp add: upd_spdk_def map_upd_first)
  then show "spdk_inv view (upd_spdk n f (s\<lparr>sd_server := w'\<rparr>))"
    using assms by (auto simp: spdk_inv_def find_subsys_upd on_nvmf_apply)
  show "spdk_conf view (upd_spdk n f (s\<lparr>sd_server := w'\<rparr>)) = on_conf n g (spdk_conf view s)"
    using assms(6) by (simp add: spdk_conf_def on_conf_def)
qed

lemma inv_server:
  assumes "spdk_inv view s" "view w' = view (sd_server s)"
  shows "spdk_inv view (s\<lparr>sd_server := w'\<rparr>)" "spdk_conf view (s\<lparr>sd_server := w'\<rparr>) = spdk_conf view s"
  using assms by (simp_all add: spdk_inv_def spdk_conf_def)

lemma inv_upd_server:
  assumes "spdk_inv view s" "find_subsys_spdk n s = Some ss" "view (sd_server s) n = Some x"
    and "mirrors (sd_ports s) ss (g x)" "view w' = on_nvmf n g (view (sd_server s))"
  shows "spdk_inv view (s\<lparr>sd_server := w'\<rparr>)"
    and "spdk_conf view (s\<lparr>sd_server := w'\<rparr>) = on_conf n g (spdk_conf view s)"
  using inv_upd [OF assms(1-3), of "\<lambda>ss. ss" g w'] assms(4,5) by (simp_all add: upd_spdk_id)

lemma mirrors_listener:
  assumes "mirrors ports ss x" "ports_ok ports next" "p \<in> set ports"
  shows "listener_of p \<in> nf_listeners x \<longleftrightarrow> kp_ptr p \<in> set (ks_portids ss)"
  using assms by (auto simp: mirrors_def ports_ok_def distinct_map dest: inj_onD)

lemma find_portid_SomeD:
  assumes "find_portid_spdk i s = Some p"
  shows "p \<in> set (sd_ports s)" "kp_portid p = i"
  using assms by (auto simp: find_portid_spdk_def dest: find_hit)

section \<open>The operations implement the specification\<close>

text \<open>A code and a next state that is again mirrored and related to the first by the specification.\<close>

definition refines_cmd :: "('w \<Rightarrow> daemon) \<Rightarrow> nv_cmd \<Rightarrow> 'w spdk \<Rightarrow> (int \<times> 'w spdk) exec \<Rightarrow> bool" where
  "refines_cmd view cmd s m =
     (\<exists>ret s'. m = Inr (ret, s') \<and> spdk_inv view s' \<and> spdk_spec cmd (spdk_conf view s) ret (spdk_conf view s'))"

lemma refines_cmdI:
  "m = Inr (ret, s') \<Longrightarrow> spdk_inv view s' \<Longrightarrow> spdk_spec cmd (spdk_conf view s) ret (spdk_conf view s') \<Longrightarrow>
     refines_cmd view cmd s m"
  by (auto simp: refines_cmd_def)

context nvmf_daemon
begin

lemma add_listener_run:
  obtains ret w' where "add_listener S ss p s = Inr (ret, s\<lparr>sd_server := w'\<rparr>)" "ret \<le> 0"
    "view w' = on_nvmf (ks_nqn ss) (listeners_upd (insert (listener_of p))) (view (sd_server s))"
    "ret = 0 \<longleftrightarrow> has (ks_nqn ss) (\<lambda>x. listener_of p \<notin> nf_listeners x) (view (sd_server s))"
proof (rule rpc_serves [OF add_listener [of "ks_nqn ss" p], of s])
  let ?has = "has (ks_nqn ss) (\<lambda>x. listener_of p \<notin> nf_listeners x) (view (sd_server s))"
  let ?d = "on_nvmf (ks_nqn ss) (listeners_upd (insert (listener_of p))) (view (sd_server s))"
  fix ret w'
  assume r: "rpc_bool S (add_listener_req (ks_nqn ss) p) s = Inr (ret, s\<lparr>sd_server := w'\<rparr>)" "ret \<le> 0"
    "?has \<Longrightarrow> ret = 0 \<and> view w' = ?d" "\<not> ?has \<Longrightarrow> ret \<noteq> 0 \<and> view w' = view (sd_server s)"
  have "\<not> ?has \<Longrightarrow> ?d = view (sd_server s)"
    by (rule on_nvmf_id) (auto simp: has_def upd_same insert_absorb)
  with r that [of ret w'] show thesis by (cases ?has) (auto simp: add_listener_def)
qed

lemma remove_listener_run:
  obtains ret w' where "remove_listener S ss p s = Inr (ret, s\<lparr>sd_server := w'\<rparr>)" "ret \<le> 0"
    "view w' = on_nvmf (ks_nqn ss) (listeners_upd (\<lambda>ls. ls - {listener_of p})) (view (sd_server s))"
    "ret = 0 \<longleftrightarrow> has (ks_nqn ss) (\<lambda>x. listener_of p \<in> nf_listeners x) (view (sd_server s))"
proof (rule rpc_serves [OF remove_listener [of "ks_nqn ss" p], of s])
  let ?has = "has (ks_nqn ss) (\<lambda>x. listener_of p \<in> nf_listeners x) (view (sd_server s))"
  let ?d = "on_nvmf (ks_nqn ss) (listeners_upd (\<lambda>ls. ls - {listener_of p})) (view (sd_server s))"
  fix ret w'
  assume r: "rpc_bool S (remove_listener_req (ks_nqn ss) p) s = Inr (ret, s\<lparr>sd_server := w'\<rparr>)" "ret \<le> 0"
    "?has \<Longrightarrow> ret = 0 \<and> view w' = ?d" "\<not> ?has \<Longrightarrow> ret \<noteq> 0 \<and> view w' = view (sd_server s)"
  have "\<not> ?has \<Longrightarrow> ?d = view (sd_server s)"
    by (rule on_nvmf_id) (auto simp: has_def upd_same)
  with r that [of ret w'] show thesis by (cases ?has) (auto simp: remove_listener_def)
qed

lemma each_link_run:
  assumes "\<And>p s. p \<in> set ports \<Longrightarrow> \<exists>ret w'. f p s = Inr (ret, s\<lparr>sd_server := w'\<rparr>) \<and>
      view w' = on_nvmf n (listeners_upd (F (listener_of p))) (view (sd_server s))"
    and "distinct (map kp_ptr ports)" "sd_ports s = ports" "set as \<subseteq> kp_ptr ` set ports"
  shows "\<exists>w' ls. each (\<lambda>a s. exec_bind (linked_port a s) (\<lambda>port. exec_bind (f port s) (\<lambda>(_, s). Inr s))) as s =
      Inr (s\<lparr>sd_server := w'\<rparr>) \<and> set ls = listener_of ` {p \<in> set ports. kp_ptr p \<in> set as} \<and>
      view w' = on_nvmf n (listeners_upd (fold F ls)) (view (sd_server s))"
  using assms(3,4)
proof (induction as arbitrary: s)
  case Nil
  have "view (sd_server s) = on_nvmf n (listeners_upd (fold F [])) (view (sd_server s))"
    by (simp add: on_nvmf_id upd_same id_def)
  moreover have "s = s\<lparr>sd_server := sd_server s\<rparr>" by simp
  ultimately show ?case by (intro exI [of _ "sd_server s"] exI [of _ "[]"]) (simp add: id_def)
next
  case (Cons a as)
  obtain p where p: "p \<in> set ports" "kp_ptr p = a" using Cons.prems(2) by auto
  have find: "linked_port a s = Inr p"
    using find_by_key [OF assms(2) p(1)] p(2) Cons.prems(1) by (simp add: linked_port_def)
  obtain ret w1 where f: "f p s = Inr (ret, s\<lparr>sd_server := w1\<rparr>)"
    "view w1 = on_nvmf n (listeners_upd (F (listener_of p))) (view (sd_server s))"
    using assms(1) [OF p(1)] by blast
  obtain w' ls where IH: "each (\<lambda>a s. exec_bind (linked_port a s) (\<lambda>port. exec_bind (f port s) (\<lambda>(_, s). Inr s))) as
        (s\<lparr>sd_server := w1\<rparr>) = Inr (s\<lparr>sd_server := w1, sd_server := w'\<rparr>)"
    "set ls = listener_of ` {p \<in> set ports. kp_ptr p \<in> set as}"
    "view w' = on_nvmf n (listeners_upd (fold F ls)) (view w1)"
    using Cons.IH [of "s\<lparr>sd_server := w1\<rparr>"] Cons.prems by auto
  have "{q \<in> set ports. kp_ptr q \<in> set (a # as)} = insert p {q \<in> set ports. kp_ptr q \<in> set as}"
    using p assms(2) by (auto simp: distinct_map dest: inj_onD)
  moreover have "view w' = on_nvmf n (listeners_upd (fold F (listener_of p # ls))) (view (sd_server s))"
    by (simp add: IH(3) f(2) on_nvmf_comp listeners_upd_comp)
  ultimately show ?case
    using find f(1) IH(1,2) by (intro exI [of _ w'] exI [of _ "listener_of p # ls"]) (simp add: comp_def)
qed

lemma create_host_refines: "spdk_inv view s \<Longrightarrow> refines_cmd view (Create_host h) s (spdk_create_host (Some h) s)"
  by (rule refines_cmdI [of _ 0 s]) (simp_all add: spdk_create_host_def)

lemma delete_host_refines: "spdk_inv view s \<Longrightarrow> refines_cmd view (Delete_host h) s (spdk_delete_host h s)"
  by (rule refines_cmdI [of _ 0 s]) (simp_all add: spdk_delete_host_def)

lemma not_in_view: "spdk_inv view s \<Longrightarrow> find_subsys_spdk n s = None \<Longrightarrow> n \<notin> dom (view (sd_server s))"
  by (simp add: inv_find(1) domIff)

lemma in_view:
  assumes "spdk_inv view s" "find_subsys_spdk n s = Some ss"
  obtains x where "view (sd_server s) n = Some x" "mirrors (sd_ports s) ss x" "ks_nqn ss = n"
  using inv_find(2) [OF assms] find_subsys_nqn [OF assms(2)] by blast

lemma delete_subsys_refines:
  assumes inv: "spdk_inv view s"
  shows "refines_cmd view (Delete_subsys n) s (spdk_delete_subsys S n s)"
proof (cases "find_subsys_spdk n s")
  case None
  then show ?thesis
    using not_in_view [OF inv None] inv
    by (intro refines_cmdI [of _ "- ENOENT" s]) (simp_all add: spdk_delete_subsys_def)
next
  case (Some ss)
  obtain x where x: "view (sd_server s) n = Some x" "ks_nqn ss = n" by (rule in_view [OF inv Some])
  obtain ret w' where r: "rpc_bool S (delete_subsys_req n) s = Inr (ret, s\<lparr>sd_server := w'\<rparr>)"
    "view w' = (view (sd_server s))(n := None)"
    by (rule rpc_serves [OF delete [of n], of s]) (use x(1) in auto)
  let ?s = "s\<lparr>sd_server := w', sd_subsys := del_first (\<lambda>ss. ks_nqn ss = n) (sd_subsys s)\<rparr>"
  have d: "distinct (map ks_nqn (sd_subsys s))" using inv by (simp add: spdk_inv_def)
  have "find_subsys_spdk m ?s = (if m = n then None else find_subsys_spdk m s)" for m
    using find_del_first [OF d] by (simp add: find_subsys_spdk_def)
  then have "spdk_inv view ?s"
    using inv distinct_del_first [OF d] by (simp add: spdk_inv_def r(2))
  moreover have "spdk_conf view ?s = (spdk_conf view s)\<lparr>nc_subsys := (view (sd_server s))(n := None)\<rparr>"
    by (simp add: spdk_conf_def r(2) find_portid_spdk_def)
  moreover have "spdk_delete_subsys S n s = Inr (0, ?s)"
    using Some r(1) x(2) by (simp add: spdk_delete_subsys_def delete_subsys_rpc_def)
  ultimately show ?thesis using x(1) by (intro refines_cmdI [of _ 0 ?s]) (auto simp: domIff)
qed

lemma create_subsys_refines:
  assumes inv: "spdk_inv view s"
  shows "refines_cmd view (Create_subsys n a) s (spdk_create_subsys S n a s)"
proof (cases "valid_nqn n \<and> find_subsys_spdk n s = None")
  case False
  then have "spdk_create_subsys S n a s = Inr (if valid_nqn n then - EEXIST else - EINVAL, s)"
    by (auto simp: spdk_create_subsys_def)
  then show ?thesis using False inv inv_find(1) [OF inv, of n] by (intro refines_cmdI) (auto simp: domIff)
next
  case True
  let ?ss = "\<lparr>ks_nqn = n, ks_allowany = (a \<noteq> 0), ks_hosts = [], ks_portids = []\<rparr>"
  let ?s1 = "s\<lparr>sd_subsys := ?ss # sd_subsys s\<rparr>"
  have none: "view (sd_server s) n = None" using True inv_find(1) [OF inv] by simp
  have len: "length n < MAX_NQN_SIZE + 1" using True by (auto simp: valid_nqn_def split: if_splits)
  obtain ret w' where r: "rpc_bool S (create_subsys_req n (a \<noteq> 0)) ?s1 = Inr (0, ?s1\<lparr>sd_server := w'\<rparr>)"
    "view w' = (view (sd_server s))(n \<mapsto> new_nvmf (a \<noteq> 0))"
    by (rule rpc_serves [OF create [of n "a \<noteq> 0"], of ?s1]) (use none in auto)
  let ?s = "?s1\<lparr>sd_server := w'\<rparr>"
  have find: "find_subsys_spdk m ?s = (if m = n then Some ?ss else find_subsys_spdk m s)" for m
    by (simp add: find_subsys_spdk_def)
  have "n \<notin> ks_nqn ` set (sd_subsys s)" using True by (auto simp: find_subsys_spdk_def find_None_iff)
  moreover have "mirrors (sd_ports s) ?ss (new_nvmf (a \<noteq> 0))" by (simp add: mirrors_def new_nvmf_def)
  ultimately have "spdk_inv view ?s" using inv find by (auto simp: spdk_inv_def r(2))
  moreover have "spdk_conf view ?s = (spdk_conf view s)\<lparr>nc_subsys := (view (sd_server s))(n \<mapsto> new_nvmf (a \<noteq> 0))\<rparr>"
    by (simp add: spdk_conf_def r(2) find_portid_spdk_def)
  moreover have "spdk_create_subsys S n a s = Inr (0, ?s)"
    using True r(1) len by (simp add: spdk_create_subsys_def create_subsys_rpc_def c_strcpy_def)
  ultimately show ?thesis using True none by (intro refines_cmdI [of _ 0 ?s]) (auto simp: domIff)
qed

lemma create_ns_refines:
  assumes inv: "spdk_inv view s" and i: "0 \<le> i" "c_range i"
  shows "refines_cmd view (Create_ns n i d dn) s (spdk_create_ns S n i d dn s)"
proof (cases "find_subsys_spdk n s")
  case None
  then show ?thesis
    using not_in_view [OF inv None] inv
    by (intro refines_cmdI [of _ "- ENOENT" s]) (simp_all add: spdk_create_ns_def)
next
  case (Some ss)
  obtain x where x: "view (sd_server s) n = Some x" "mirrors (sd_ports s) ss x" by (rule in_view [OF inv Some])
  let ?b = "if d = NULL_BLK_DEVID then NULL_BLK_BDEV else NVME_DEV_FMT d dn"
  let ?k = "\<lambda>resp. exec_bind (resp_is resp i) (\<lambda>b. Inr (if b then 0 else - EINVAL))"
  have run: "spdk_create_ns S n i d dn s = rpc_result S (add_ns_req n i ?b) ?k s"
    using Some by (simp add: spdk_create_ns_def Let_def)
  have u: "ns_number i = show_int i" using i by (simp add: ns_number_def uint32_def c_range_def)
  consider (added) w' c r where "has n (\<lambda>x. uint32 i \<notin> dom (nf_ns x)) (view (sd_server s))" "\<not> is_digit c"
      "answers S (add_ns_req n i ?b) (Jnumber (length (show_int i)) (show_int i @ c # r)) (sd_server s) w'"
      "view w' = on_nvmf n (ns_upd (\<lambda>m. m(uint32 i \<mapsto> ?b))) (view (sd_server s))"
    | (refused) w' where "refuses S (add_ns_req n i ?b) (sd_server s) w'" "view w' = view (sd_server s)"
    using add_ns [of n i "sd_server s" ?b] unfolding u by blast
  then show ?thesis
  proof cases
    case added
    have "rpc_result S (add_ns_req n i ?b) ?k s = Inr (0, s\<lparr>sd_server := w'\<rparr>)"
      by (rule rpc_number [OF added(3,2) i]) (simp add: resp_is_def)
    moreover have "mirrors (sd_ports s) ss (ns_upd (\<lambda>m. m(uint32 i \<mapsto> ?b)) x)" using x(2) by (simp add: mirrors_def)
    note after = inv_upd_server [OF inv Some x(1) this added(4)]
    moreover have "n \<in> dom (view (sd_server s))" using x(1) by blast
    then have "spdk_spec (Create_ns n i d dn) (spdk_conf view s) 0 (spdk_conf view (s\<lparr>sd_server := w'\<rparr>))"
      unfolding after(2) using added(1) by simp
    ultimately show ?thesis unfolding run by (intro refines_cmdI)
  next
    case refused
    then obtain e where "e < 0" "rpc_result S (add_ns_req n i ?b) ?k s = Inr (e, s\<lparr>sd_server := w'\<rparr>)"
      using rpc_refuses [OF refused(1), where k = ?k] by blast
    then show ?thesis
      using inv_server [OF inv refused(2)] x(1) by (intro refines_cmdI [of _ e "s\<lparr>sd_server := w'\<rparr>"]) (auto simp: run)
  qed
qed

lemma delete_ns_refines:
  assumes inv: "spdk_inv view s"
  shows "refines_cmd view (Delete_ns n i) s (spdk_delete_ns S n i s)"
proof (cases "find_subsys_spdk n s")
  case None
  then show ?thesis
    using not_in_view [OF inv None] inv
    by (intro refines_cmdI [of _ "- ENOENT" s]) (simp_all add: spdk_delete_ns_def)
next
  case (Some ss)
  obtain x where x: "view (sd_server s) n = Some x" "mirrors (sd_ports s) ss x" by (rule in_view [OF inv Some])
  let ?g = "ns_upd (\<lambda>m. m(uint32 i := None))"
  let ?has = "has n (\<lambda>x. uint32 i \<in> dom (nf_ns x)) (view (sd_server s))"
  obtain ret w' where r: "rpc_bool S (remove_ns_req n i) s = Inr (ret, s\<lparr>sd_server := w'\<rparr>)" "ret \<le> 0"
    "?has \<Longrightarrow> ret = 0 \<and> view w' = on_nvmf n ?g (view (sd_server s))" "\<not> ?has \<Longrightarrow> ret \<noteq> 0 \<and> view w' = view (sd_server s)"
    by (rule rpc_serves [OF remove_ns [of n i], of s]) (rule that, simp_all)
  have m: "mirrors (sd_ports s) ss (?g x)" using x(2) by (simp add: mirrors_def)
  have run: "spdk_delete_ns S n i s = Inr (ret, s\<lparr>sd_server := w'\<rparr>)" using Some r(1) by (simp add: spdk_delete_ns_def)
  show ?thesis
  proof (cases ?has)
    case True
    then show ?thesis
      using inv_upd_server [where g = ?g and w' = w', OF inv Some x(1) m] r(3) x(1) by (intro refines_cmdI [OF run]) auto
  next
    case False
    then show ?thesis using inv_server [OF inv, of w'] r(2,4) x(1) by (intro refines_cmdI [OF run]) auto
  qed
qed

lemma create_portid_refines:
  assumes inv: "spdk_inv view s" and ok: "spdk_cmd_ok (Create_portid i fam typ req addr svcid) (spdk_conf view s)"
  shows "refines_cmd view (Create_portid i fam typ req addr svcid) s
    (spdk_create_portid i (Some fam) (Some typ) req (Some addr) svcid s)"
proof (cases "find_portid_spdk i s")
  case (Some p)
  then show ?thesis
    using inv by (intro refines_cmdI [of _ "- EEXIST" s]) (auto simp: spdk_create_portid_def)
next
  case None
  let ?l = "(typ, fam, addr, show_int svcid)"
  let ?p = "\<lparr>kp_ptr = sd_next s, kp_portid = i, kp_type = typ, kp_family = fam, kp_address = addr, kp_port = show_int svcid\<rparr>"
  let ?s = "s\<lparr>sd_ports := ?p # sd_ports s, sd_next := sd_next s + 1\<rparr>"
  have run: "spdk_create_portid i (Some fam) (Some typ) req (Some addr) svcid s = Inr (0, ?s)"
    using None ok by (simp add: spdk_create_portid_def c_strcpy_def)
  have ports: "ports_ok (sd_ports s) (sd_next s)" using inv by (simp add: spdk_inv_def)
  have new: "i \<notin> kp_portid ` set (sd_ports s)" using None by (auto simp: find_portid_spdk_def find_None_iff)
  have "?l \<notin> listener_of ` set (sd_ports s)"
  proof
    assume "?l \<in> listener_of ` set (sd_ports s)"
    then obtain p where p: "p \<in> set (sd_ports s)" "listener_of p = ?l" by auto
    then have "find_portid_spdk (kp_portid p) s = Some p"
      using ports find_by_key [of kp_portid "sd_ports s" p] by (simp add: ports_ok_def find_portid_spdk_def)
    then have "?l \<in> ran (nc_ports (spdk_conf view s))" using p(2) by (intro ranI [of _ "kp_portid p"]) simp
    then show False using ok by simp
  qed
  then have new_ports: "ports_ok (sd_ports ?s) (sd_next ?s)"
    using ports new by (auto simp: ports_ok_def listener_of_def)
  have keep: "mirrors (sd_ports ?s) ss x" if "mirrors (sd_ports s) ss x" for ss x
  proof -
    have "set (ks_portids ss) \<subseteq> kp_ptr ` set (sd_ports s)" "\<forall>p\<in>set (sd_ports s). kp_ptr p < sd_next s"
      using that ports by (simp_all add: mirrors_def ports_ok_def)
    then have "sd_next s \<notin> set (ks_portids ss)" by (metis (no_types, lifting) imageE less_irrefl subsetD)
    then have "{p \<in> set (sd_ports ?s). kp_ptr p \<in> set (ks_portids ss)} = {p \<in> set (sd_ports s). kp_ptr p \<in> set (ks_portids ss)}"
      by auto
    then show ?thesis using that by (auto simp: mirrors_def)
  qed
  have "rel_option (mirrors (sd_ports ?s)) (find_subsys_spdk m s) (view (sd_server s) m)" for m
  proof (rule option.rel_mono_strong [OF _ keep])
    show "rel_option (mirrors (sd_ports s)) (find_subsys_spdk m s) (view (sd_server s) m)" using inv by (simp add: spdk_inv_def)
  qed
  then have "spdk_inv view ?s"
    using inv new_ports by (simp add: spdk_inv_def find_subsys_spdk_def)
  moreover have "spdk_conf view ?s = (spdk_conf view s)\<lparr>nc_ports := (nc_ports (spdk_conf view s))(i \<mapsto> ?l)\<rparr>"
    by (auto simp: spdk_conf_def find_portid_spdk_def listener_of_def)
  ultimately show ?thesis using None by (intro refines_cmdI [OF run]) auto
qed

lemma fold_remove: "fold (\<lambda>l ls. ls - {l}) ks X = X - set ks"
  by (induction ks arbitrary: X) auto

lemma fold_insert: "fold insert ks X = X \<union> set ks"
  by (induction ks arbitrary: X) auto

lemma remove_links_run:
  assumes "spdk_inv view s" "find_subsys_spdk n s = Some ss"
  shows "\<exists>w' ks. each_link (remove_listener S ss) ss s = Inr (s\<lparr>sd_server := w'\<rparr>) \<and>
    view w' = on_nvmf n (listeners_upd (\<lambda>ls. ls - set ks)) (view (sd_server s)) \<and>
    set ks = listener_of ` {p \<in> set (sd_ports s). kp_ptr p \<in> set (ks_portids ss)}"
proof -
  obtain x where x: "mirrors (sd_ports s) ss x" "ks_nqn ss = n" by (rule in_view [OF assms])
  have run: "\<exists>ret w'. remove_listener S ss p t = Inr (ret, t\<lparr>sd_server := w'\<rparr>) \<and>
      view w' = on_nvmf n (listeners_upd ((\<lambda>l ls. ls - {l}) (listener_of p))) (view (sd_server t))" for p t
    by (rule remove_listener_run [of ss p t]) (auto simp: x(2))
  have "distinct (map kp_ptr (sd_ports s))" "set (ks_portids ss) \<subseteq> kp_ptr ` set (sd_ports s)"
    using assms(1) x(1) by (simp_all add: spdk_inv_def ports_ok_def mirrors_def)
  from each_link_run [where F = "\<lambda>l ls. ls - {l}" and s = s, OF run this(1) refl this(2)] show ?thesis
    by (auto simp: each_link_def fold_remove [abs_def])
qed

lemma add_links_run:
  assumes "ks_nqn ss = n" "distinct (map kp_ptr (sd_ports s))" "set (ks_portids ss) \<subseteq> kp_ptr ` set (sd_ports s)"
  shows "\<exists>w' ks. each_link (add_listener S ss) ss s = Inr (s\<lparr>sd_server := w'\<rparr>) \<and>
    view w' = on_nvmf n (listeners_upd (\<lambda>ls. ls \<union> set ks)) (view (sd_server s)) \<and>
    set ks = listener_of ` {p \<in> set (sd_ports s). kp_ptr p \<in> set (ks_portids ss)}"
proof -
  have run: "\<exists>ret w'. add_listener S ss p t = Inr (ret, t\<lparr>sd_server := w'\<rparr>) \<and>
      view w' = on_nvmf n (listeners_upd (insert (listener_of p))) (view (sd_server t))" for p t
    by (rule add_listener_run [of ss p t]) (auto simp: assms(1))
  from each_link_run [where F = insert and s = s, OF run assms(2) refl assms(3)] show ?thesis
    by (auto simp: each_link_def fold_insert [abs_def])
qed

text \<open>Allowing the first host takes the listeners away and brings them back.\<close>

lemma add_host_run:
  assumes "has n (\<lambda>x. h \<notin> nf_hosts x) (view (sd_server s))" "ks_nqn ss = n"
  obtains w' where "add_host_rpc S ss h s = Inr (0, s\<lparr>sd_server := w'\<rparr>)"
    "view w' = on_nvmf n (hosts_upd (insert h)) (view (sd_server s))"
  by (rule rpc_serves [OF add_host [of n h], of s]) (use assms that in \<open>auto simp: add_host_rpc_def\<close>)

lemma link_host_refines:
  assumes inv: "spdk_inv view s"
  shows "refines_cmd view (Link_host n h) s (spdk_link_host_to_subsys S n (Some h) s)"
proof (cases "valid_nqn h")
  case False
  then show ?thesis using inv by (intro refines_cmdI [of _ "- EINVAL" s]) (simp_all add: spdk_link_host_to_subsys_def)
next
  case valid: True
  then have take: "take MAX_NQN_SIZE h = h" by (auto simp: valid_nqn_def split: if_splits)
  show ?thesis
  proof (cases "find_subsys_spdk n s")
    case None
    then show ?thesis
      using not_in_view [OF inv None] inv valid
      by (intro refines_cmdI [of _ "- ENOENT" s]) (simp_all add: spdk_link_host_to_subsys_def)
  next
    case (Some ss)
    obtain x where x: "view (sd_server s) n = Some x" "mirrors (sd_ports s) ss x" "ks_nqn ss = n"
      by (rule in_view [OF inv Some])
    have dom: "n \<in> dom (view (sd_server s))" using x(1) by blast
    show ?thesis
    proof (cases "h \<in> set (ks_hosts ss)")
      case True
      then have "find_host_spdk ss h \<noteq> None" by (auto simp: find_host_spdk_def find_None_iff)
      then have run: "spdk_link_host_to_subsys S n (Some h) s = Inr (0, s)"
        using valid Some by (simp add: spdk_link_host_to_subsys_def)
      have "on_conf n (hosts_upd (insert h)) (spdk_conf view s) = spdk_conf view s"
        using True x by (auto simp: on_conf_def spdk_conf_def mirrors_def upd_same insert_absorb intro!: on_nvmf_id)
      then show ?thesis using inv valid dom by (intro refines_cmdI [OF run]) auto
    next
      case False
      then have new: "find_host_spdk ss h = None" by (auto simp: find_host_spdk_def find_None_iff)
      let ?re = "ks_hosts ss = []"
      let ?L = "listener_of ` {p \<in> set (sd_ports s). kp_ptr p \<in> set (ks_portids ss)}"
      let ?f = "\<lambda>ss. ss\<lparr>ks_hosts := ks_hosts ss @ [h]\<rparr>"
      obtain w1 K1 where r1: "(if ?re then each_link (remove_listener S ss) ss s else Inr s) = Inr (s\<lparr>sd_server := w1\<rparr>)"
        "view w1 = on_nvmf n (listeners_upd (\<lambda>ls. ls - K1)) (view (sd_server s))" "K1 \<subseteq> ?L" "?re \<or> K1 = {}"
      proof (cases ?re)
        case True
        obtain w' ks where "each_link (remove_listener S ss) ss s = Inr (s\<lparr>sd_server := w'\<rparr>)"
          "view w' = on_nvmf n (listeners_upd (\<lambda>ls. ls - set ks)) (view (sd_server s))" "set ks = ?L"
          using remove_links_run [OF inv Some] by blast
        then show ?thesis using that [of w' "set ks"] True by simp
      next
        case False
        then show ?thesis using that [of "sd_server s" "{}"] by (simp add: on_nvmf_id upd_same)
      qed
      have "has n (\<lambda>x. h \<notin> nf_hosts x) (view w1)"
        using False x by (simp add: has_def r1(2) on_nvmf_apply mirrors_def)
      then obtain w2 where r2: "add_host_rpc S ss h (s\<lparr>sd_server := w1\<rparr>) = Inr (0, s\<lparr>sd_server := w2\<rparr>)"
        "view w2 = on_nvmf n (hosts_upd (insert h)) (view w1)"
        using add_host_run [of n h "s\<lparr>sd_server := w1\<rparr>" ss] x(3) by auto
      let ?s2 = "upd_spdk n ?f (s\<lparr>sd_server := w2\<rparr>)"
      have ports: "distinct (map kp_ptr (sd_ports ?s2))" "set (ks_portids ss) \<subseteq> kp_ptr ` set (sd_ports ?s2)"
        using inv x(2) by (simp_all add: spdk_inv_def ports_ok_def mirrors_def)
      obtain w3 K3 where r3: "(if ?re then each_link (add_listener S ss) ss ?s2 else Inr ?s2) =
          Inr (?s2\<lparr>sd_server := w3\<rparr>)"
        "view w3 = on_nvmf n (listeners_upd (\<lambda>ls. ls \<union> K3)) (view w2)" "K3 \<subseteq> ?L" "K1 \<subseteq> K3"
      proof (cases ?re)
        case True
        obtain w' ks where "each_link (add_listener S ss) ss ?s2 = Inr (?s2\<lparr>sd_server := w'\<rparr>)"
          "view w' = on_nvmf n (listeners_upd (\<lambda>ls. ls \<union> set ks)) (view w2)" "set ks = ?L"
          using add_links_run [OF x(3) ports] by auto
        then show ?thesis using that [of w' "set ks"] True r1(3) by simp
      next
        case False
        then show ?thesis using that [of w2 "{}"] r1(4) by (simp add: on_nvmf_id upd_same)
      qed
      have run: "spdk_link_host_to_subsys S n (Some h) s = Inr (0, upd_spdk n ?f (s\<lparr>sd_server := w3\<rparr>))"
        using valid Some new r1(1) r2(1) r3(1) by (simp add: spdk_link_host_to_subsys_def take Let_def upd_spdk_server split del: if_split)
      have "nf_listeners x = ?L" using x(2) by (simp add: mirrors_def)
      then have "nf_listeners x - K1 \<union> K3 = nf_listeners x" using r1(3) r3(3,4) by blast
      then have "on_nvmf n (\<lambda>x. listeners_upd (\<lambda>ls. ls \<union> K3) (hosts_upd (insert h) (listeners_upd (\<lambda>ls. ls - K1) x)))
          (view (sd_server s)) = on_nvmf n (hosts_upd (insert h)) (view (sd_server s))"
        by (simp add: on_nvmf_def x(1) hosts_upd_def listeners_upd_def)
      then have w3: "view w3 = on_nvmf n (hosts_upd (insert h)) (view (sd_server s))"
        by (simp add: r3(2) r2(2) r1(2) on_nvmf_comp)
      have "mirrors (sd_ports s) (?f ss) (hosts_upd (insert h) x)" using x(2) False by (simp add: mirrors_def)
      from inv_upd [where f = ?f and g = "hosts_upd (insert h)" and w' = w3, OF inv Some x(1) this _ w3]
      show ?thesis using valid dom by (intro refines_cmdI [OF run]) auto
    qed
  qed
qed

lemma unlink_host_refines:
  assumes inv: "spdk_inv view s"
  shows "refines_cmd view (Unlink_host n h) s (spdk_unlink_host_from_subsys S n h s)"
proof (cases "find_subsys_spdk n s")
  case None
  then show ?thesis
    using not_in_view [OF inv None] inv
    by (intro refines_cmdI [of _ "- ENOENT" s]) (simp_all add: spdk_unlink_host_from_subsys_def)
next
  case (Some ss)
  obtain x where x: "view (sd_server s) n = Some x" "mirrors (sd_ports s) ss x" "ks_nqn ss = n"
    by (rule in_view [OF inv Some])
  let ?g = "hosts_upd (\<lambda>hs. hs - {h})"
  let ?f = "\<lambda>ss. ss\<lparr>ks_hosts := del_first (\<lambda>k. k = h) (ks_hosts ss)\<rparr>"
  have dom: "n \<in> dom (view (sd_server s))" using x(1) by blast
  show ?thesis
  proof (cases "h \<in> set (ks_hosts ss)")
    case False
    then have "find_host_spdk ss h = None" by (auto simp: find_host_spdk_def find_None_iff)
    then have run: "spdk_unlink_host_from_subsys S n h s = Inr (0, s)"
      using Some by (simp add: spdk_unlink_host_from_subsys_def)
    have "on_conf n ?g (spdk_conf view s) = spdk_conf view s"
      using False x by (auto simp: on_conf_def spdk_conf_def mirrors_def upd_same intro!: on_nvmf_id)
    then show ?thesis using inv dom by (intro refines_cmdI [OF run]) auto
  next
    case True
    then have find: "find_host_spdk ss h = Some h" by (simp add: find_host_spdk_def find_same)
    have has: "has n (\<lambda>x. h \<in> nf_hosts x) (view (sd_server s))" using True x by (simp add: has_def mirrors_def)
    obtain ret w' where r: "rpc_bool S (remove_host_req n h) s = Inr (0, s\<lparr>sd_server := w'\<rparr>)"
      "view w' = on_nvmf n ?g (view (sd_server s))"
      by (rule rpc_serves [OF remove_host [of n h], of s]) (use has that in auto)
    have run: "spdk_unlink_host_from_subsys S n h s = Inr (0, upd_spdk n ?f (s\<lparr>sd_server := w'\<rparr>))"
      using Some find r(1) x(3) by (simp add: spdk_unlink_host_from_subsys_def remove_host_rpc_def)
    have "mirrors (sd_ports s) (?f ss) (?g x)" using x(2) by (simp add: mirrors_def set_del_id distinct_del_id)
    from inv_upd [where f = ?f and g = ?g and w' = w', OF inv Some x(1) this _ r(2)]
    show ?thesis using dom by (intro refines_cmdI [OF run]) auto
  qed
qed

lemma link_port_refines:
  assumes inv: "spdk_inv view s"
  shows "refines_cmd view (Link_port n i) s (spdk_link_port_to_subsys S n i s)"
proof (cases "find_portid_spdk i s")
  case None
  then show ?thesis using inv by (intro refines_cmdI [of _ "- EINVAL" s]) (simp_all add: spdk_link_port_to_subsys_def)
next
  case port: (Some p)
  note p = find_portid_SomeD [OF port]
  show ?thesis
  proof (cases "find_subsys_spdk n s")
    case None
    then show ?thesis
      using not_in_view [OF inv None] inv port
      by (intro refines_cmdI [of _ "- EINVAL" s]) (simp_all add: spdk_link_port_to_subsys_def)
  next
    case (Some ss)
    obtain x where x: "view (sd_server s) n = Some x" "mirrors (sd_ports s) ss x" "ks_nqn ss = n"
      by (rule in_view [OF inv Some])
    have ports: "ports_ok (sd_ports s) (sd_next s)" using inv by (simp add: spdk_inv_def)
    have dom: "n \<in> dom (view (sd_server s))" using x(1) by blast
    note l = mirrors_listener [OF x(2) ports p(1)]
    let ?g = "listeners_upd (insert (listener_of p))"
    let ?f = "\<lambda>ss. ss\<lparr>ks_portids := kp_ptr p # ks_portids ss\<rparr>"
    show ?thesis
    proof (cases "kp_ptr p \<in> set (ks_portids ss)")
      case True
      then have "find_portid_link ss p \<noteq> None" by (auto simp: find_portid_link_def find_None_iff)
      then have run: "spdk_link_port_to_subsys S n i s = Inr (0, s)"
        using port Some by (simp add: spdk_link_port_to_subsys_def)
      have "on_conf n ?g (spdk_conf view s) = spdk_conf view s"
        using True l x by (auto simp: on_conf_def spdk_conf_def upd_same insert_absorb intro!: on_nvmf_id)
      then show ?thesis using inv dom port by (intro refines_cmdI [OF run]) auto
    next
      case False
      then have new: "find_portid_link ss p = None" by (auto simp: find_portid_link_def find_None_iff)
      obtain w' where r: "add_listener S ss p s = Inr (0, s\<lparr>sd_server := w'\<rparr>)"
        "view w' = on_nvmf n ?g (view (sd_server s))"
        by (rule add_listener_run [of ss p s]) (use False l x(1,3) that in \<open>auto simp: has_def\<close>)
      have run: "spdk_link_port_to_subsys S n i s = Inr (0, upd_spdk n ?f (s\<lparr>sd_server := w'\<rparr>))"
        using port Some new r(1) by (simp add: spdk_link_port_to_subsys_def)
      have "{q \<in> set (sd_ports s). kp_ptr q = kp_ptr p \<or> kp_ptr q \<in> set (ks_portids ss)} =
          insert p {q \<in> set (sd_ports s). kp_ptr q \<in> set (ks_portids ss)}"
        using ports p(1) by (auto simp: ports_ok_def distinct_map dest: inj_onD)
      then have "mirrors (sd_ports s) (?f ss) (?g x)" using x(2) False p(1) by (simp add: mirrors_def)
      from inv_upd [where f = ?f and g = ?g and w' = w', OF inv Some x(1) this _ r(2)]
      show ?thesis using dom port by (intro refines_cmdI [OF run]) auto
    qed
  qed
qed

text \<open>Unlinking a port takes its listener away, whether it succeeds or not.\<close>

lemma unlink_port_run:
  assumes inv: "spdk_inv view s" and port: "find_portid_spdk i s = Some p" and ss: "find_subsys_spdk n s = Some ss"
  obtains ret s' where "spdk_unlink_port_from_subsys S n i s = Inr (ret, s')" "ret \<le> 0" "spdk_inv view s'"
    "sd_ports s' = sd_ports s" "sd_next s' = sd_next s"
    "spdk_conf view s' = on_conf n (listeners_upd (\<lambda>ls. ls - {listener_of p})) (spdk_conf view s)"
    "ret = 0 \<longleftrightarrow> has n (\<lambda>x. listener_of p \<in> nf_listeners x) (view (sd_server s))"
proof -
  let ?g = "listeners_upd (\<lambda>ls. ls - {listener_of p})"
  let ?f = "\<lambda>ss. ss\<lparr>ks_portids := del_first (\<lambda>a. a = kp_ptr p) (ks_portids ss)\<rparr>"
  obtain x where x: "view (sd_server s) n = Some x" "mirrors (sd_ports s) ss x" "ks_nqn ss = n"
    by (rule in_view [OF inv ss])
  have ports: "ports_ok (sd_ports s) (sd_next s)" using inv by (simp add: spdk_inv_def)
  note p = find_portid_SomeD [OF port]
  note l = mirrors_listener [OF x(2) ports p(1)]
  obtain ret w' where r: "remove_listener S ss p s = Inr (ret, s\<lparr>sd_server := w'\<rparr>)" "ret \<le> 0"
    "view w' = on_nvmf n ?g (view (sd_server s))" "ret = 0 \<longleftrightarrow> has n (\<lambda>x. listener_of p \<in> nf_listeners x) (view (sd_server s))"
    by (rule remove_listener_run [of ss p s]) (use x(3) that in auto)
  show thesis
  proof (cases "ret = 0")
    case True
    have "{q \<in> set (sd_ports s). kp_ptr q \<in> set (ks_portids ss) - {kp_ptr p}} =
        {q \<in> set (sd_ports s). kp_ptr q \<in> set (ks_portids ss)} - {p}"
      using ports p(1) by (auto simp: ports_ok_def distinct_map dest: inj_onD)
    moreover have "listener_of ` ({q \<in> set (sd_ports s). kp_ptr q \<in> set (ks_portids ss)} - {p}) =
        listener_of ` {q \<in> set (sd_ports s). kp_ptr q \<in> set (ks_portids ss)} - {listener_of p}"
      using ports p(1) by (auto simp: ports_ok_def distinct_map dest: inj_onD)
    ultimately have "mirrors (sd_ports s) (?f ss) (?g x)"
      using x(2) by (auto simp: mirrors_def set_del_id distinct_del_id)
    from inv_upd [where f = ?f and g = ?g and w' = w', OF inv ss x(1) this _ r(3)]
    show thesis
      using that [of ret "upd_spdk n ?f (s\<lparr>sd_server := w'\<rparr>)"] True port ss r
      by (simp add: spdk_unlink_port_from_subsys_def)
  next
    case False
    then have "mirrors (sd_ports s) ss (?g x)" using r(4) x(1,2) by (simp add: has_def mirrors_def)
    from inv_upd_server [where g = ?g and w' = w', OF inv ss x(1) this r(3)]
    show thesis
      using that [of ret "s\<lparr>sd_server := w'\<rparr>"] False port ss r by (simp add: spdk_unlink_port_from_subsys_def)
  qed
qed

lemma unlink_port_refines:
  assumes inv: "spdk_inv view s"
  shows "refines_cmd view (Unlink_port n i) s (spdk_unlink_port_from_subsys S n i s)"
proof (cases "find_portid_spdk i s")
  case None
  then show ?thesis using inv by (intro refines_cmdI [of _ "- ENOENT" s]) (simp_all add: spdk_unlink_port_from_subsys_def)
next
  case port: (Some p)
  show ?thesis
  proof (cases "find_subsys_spdk n s")
    case None
    then show ?thesis
      using not_in_view [OF inv None] inv port
      by (intro refines_cmdI [of _ "- ENOENT" s]) (simp_all add: spdk_unlink_port_from_subsys_def)
  next
    case (Some ss)
    let ?has = "has n (\<lambda>x. listener_of p \<in> nf_listeners x) (view (sd_server s))"
    have dom: "n \<in> dom (view (sd_server s))" using inv_find(2) [OF inv Some] by blast
    obtain ret s' where r: "spdk_unlink_port_from_subsys S n i s = Inr (ret, s')" "ret \<le> 0" "spdk_inv view s'"
      "spdk_conf view s' = on_conf n (listeners_upd (\<lambda>ls. ls - {listener_of p})) (spdk_conf view s)" "ret = 0 \<longleftrightarrow> ?has"
      by (rule unlink_port_run [OF inv port Some])
    have "on_conf n (listeners_upd (\<lambda>ls. ls - {listener_of p})) (spdk_conf view s) = spdk_conf view s" if "\<not> ?has"
      using that by (auto simp: on_conf_def spdk_conf_def has_def upd_same intro!: on_nvmf_id)
    then show ?thesis using r dom port by (intro refines_cmdI [OF r(1,3)]) auto
  qed
qed

lemma unlink_all_run:
  assumes "spdk_inv view s" "find_portid_spdk i s = Some p" "\<And>ss. ss \<in> set sss \<Longrightarrow> view (sd_server s) (ks_nqn ss) \<noteq> None"
  shows "\<exists>s'. each (\<lambda>ss s. exec_bind (spdk_unlink_port_from_subsys S (ks_nqn ss) i s) (\<lambda>(_, s). Inr s)) sss s = Inr s' \<and>
    spdk_inv view s' \<and> sd_ports s' = sd_ports s \<and> sd_next s' = sd_next s \<and>
    view (sd_server s') = (\<lambda>n. if n \<in> ks_nqn ` set sss then map_option (listeners_upd (\<lambda>ls. ls - {listener_of p})) (view (sd_server s) n)
                             else view (sd_server s) n)"
  using assms
proof (induction sss arbitrary: s)
  case (Cons ss sss)
  let ?g = "listeners_upd (\<lambda>ls. ls - {listener_of p})"
  obtain t where "find_subsys_spdk (ks_nqn ss) s = Some t"
    using Cons.prems(3) [of ss] inv_find(1) [OF Cons.prems(1), of "ks_nqn ss"] by (cases "find_subsys_spdk (ks_nqn ss) s") auto
  then obtain ret s1 where r: "spdk_unlink_port_from_subsys S (ks_nqn ss) i s = Inr (ret, s1)" "spdk_inv view s1"
    "sd_ports s1 = sd_ports s" "sd_next s1 = sd_next s" "spdk_conf view s1 = on_conf (ks_nqn ss) ?g (spdk_conf view s)"
    using unlink_port_run [OF Cons.prems(1,2)] by metis
  have v: "view (sd_server s1) = on_nvmf (ks_nqn ss) ?g (view (sd_server s))"
    using arg_cong [OF r(5), where f = nc_subsys] by (simp add: on_conf_def)
  have "find_portid_spdk i s1 = Some p" using Cons.prems(2) r(3) by (simp add: find_portid_spdk_def)
  then obtain s' where s': "each (\<lambda>ss s. exec_bind (spdk_unlink_port_from_subsys S (ks_nqn ss) i s) (\<lambda>(_, s). Inr s)) sss s1 = Inr s'"
    "spdk_inv view s'" "sd_ports s' = sd_ports s1" "sd_next s' = sd_next s1"
    "view (sd_server s') = (\<lambda>n. if n \<in> ks_nqn ` set sss then map_option ?g (view (sd_server s1) n) else view (sd_server s1) n)"
    using Cons.IH [OF r(2)] Cons.prems(3) by (fastforce simp: v on_nvmf_apply)
  have "map_option ?g (map_option ?g y) = map_option ?g y" for y
    by (cases y) (auto simp: listeners_upd_def)
  then have "view (sd_server s') =
      (\<lambda>n. if n \<in> ks_nqn ` set (ss # sss) then map_option ?g (view (sd_server s) n) else view (sd_server s) n)"
    by (auto simp: fun_eq_iff s'(5) v on_nvmf_apply)
  then show ?case using r(1,3,4) s'(1-4) by auto
qed simp

lemma delete_portid_run:
  assumes inv: "spdk_inv view s" and port: "find_portid_spdk i s = Some p"
  shows "\<exists>s'. delete_portid S p s = Inr s' \<and> spdk_inv view s' \<and>
    sd_ports s' = del_first (\<lambda>q. kp_ptr q = kp_ptr p) (sd_ports s) \<and>
    spdk_conf view s' = \<lparr>nc_ports = (nc_ports (spdk_conf view s))(i := None),
      nc_subsys = (\<lambda>n. map_option (listeners_upd (\<lambda>ls. ls - {listener_of p})) (view (sd_server s) n))\<rparr>"
proof -
  let ?g = "listeners_upd (\<lambda>ls. ls - {listener_of p})"
  note p = find_portid_SomeD [OF port]
  have ports: "ports_ok (sd_ports s) (sd_next s)" using inv by (simp add: spdk_inv_def)
  have all: "view (sd_server s) (ks_nqn ss) \<noteq> None" if "ss \<in> set (sd_subsys s)" for ss
  proof -
    have "find_subsys_spdk (ks_nqn ss) s \<noteq> None" using that by (auto simp: find_subsys_spdk_def find_None_iff)
    then show ?thesis using inv_find(1) [OF inv, of "ks_nqn ss"] by simp
  qed
  obtain s' where s': "each (\<lambda>ss s. exec_bind (spdk_unlink_port_from_subsys S (ks_nqn ss) i s) (\<lambda>(_, s). Inr s)) (sd_subsys s) s = Inr s'"
    "spdk_inv view s'" "sd_ports s' = sd_ports s" "sd_next s' = sd_next s"
    "view (sd_server s') = (\<lambda>n. if n \<in> ks_nqn ` set (sd_subsys s) then map_option ?g (view (sd_server s) n) else view (sd_server s) n)"
    using unlink_all_run [OF inv port all] by blast
  have "view (sd_server s) n = None" if "n \<notin> ks_nqn ` set (sd_subsys s)" for n
  proof -
    have "find_subsys_spdk n s = None" using that by (auto simp: find_subsys_spdk_def find_None_iff)
    then show ?thesis using inv_find(1) [OF inv, of n] by simp
  qed
  then have v: "view (sd_server s') = (\<lambda>n. map_option ?g (view (sd_server s) n))" by (auto simp: fun_eq_iff s'(5))
  let ?ports = "del_first (\<lambda>q. kp_ptr q = kp_ptr p) (sd_ports s)"
  have d: "distinct (map kp_ptr (sd_ports s))" using ports by (simp add: ports_ok_def)
  have set_ports: "set ?ports = set (sd_ports s) - {p}"
    using d p(1) by (auto simp: set_del_first distinct_map dest: inj_onD)
  have new_ports: "ports_ok ?ports (sd_next s)"
    using ports by (auto simp: ports_ok_def distinct_del_first set_ports)
  have keep: "mirrors ?ports ss x" if "mirrors (sd_ports s) ss x" "listener_of p \<notin> nf_listeners x" for ss x
  proof -
    have np: "kp_ptr p \<notin> set (ks_portids ss)" using mirrors_listener [OF that(1) ports p(1)] that(2) by simp
    then have "{q \<in> set ?ports. kp_ptr q \<in> set (ks_portids ss)} = {q \<in> set (sd_ports s). kp_ptr q \<in> set (ks_portids ss)}"
      by (auto simp: set_ports)
    moreover have "set (ks_portids ss) \<subseteq> kp_ptr ` set ?ports" using that(1) np by (auto simp: mirrors_def set_ports)
    ultimately show ?thesis using that(1) by (simp add: mirrors_def)
  qed
  let ?s = "s'\<lparr>sd_ports := ?ports\<rparr>"
  have "rel_option (mirrors ?ports) (find_subsys_spdk n s') (view (sd_server s') n)" for n
  proof (rule option.rel_mono_strong)
    show "rel_option (mirrors (sd_ports s)) (find_subsys_spdk n s') (view (sd_server s') n)"
      using s'(2,3) by (simp add: spdk_inv_def)
    show "mirrors ?ports ss x" if "x \<in> set_option (view (sd_server s') n)" "mirrors (sd_ports s) ss x" for ss x
      using that by (intro keep) (auto simp: v)
  qed
  then have inv': "spdk_inv view ?s"
    using s'(2,4) new_ports by (simp add: spdk_inv_def find_subsys_spdk_def)
  have one: "q = p" if "q \<in> set (sd_ports s)" "kp_portid q = i" for q
    using ports that p by (auto simp: ports_ok_def distinct_map dest: inj_onD)
  have "find (\<lambda>q. kp_portid q = j) ?ports = (if j = i then None else find (\<lambda>q. kp_portid q = j) (sd_ports s))" for j
  proof (cases "find (\<lambda>q. kp_portid q = j) ?ports")
    case None
    then have "find (\<lambda>q. kp_portid q = j) (sd_ports s) = None" if "j \<noteq> i"
      using that p(2) by (auto simp: find_None_iff set_ports)
    then show ?thesis using None by simp
  next
    case (Some q)
    then have q: "q \<in> set (sd_ports s)" "q \<noteq> p" "kp_portid q = j" using find_hit [OF Some] by (auto simp: set_ports)
    then have "j \<noteq> i" using one by blast
    then show ?thesis
      using Some q find_by_key [of kp_portid "sd_ports s" q] ports by (simp add: ports_ok_def)
  qed
  then have "spdk_conf view ?s = \<lparr>nc_ports = (nc_ports (spdk_conf view s))(i := None),
      nc_subsys = (\<lambda>n. map_option ?g (view (sd_server s) n))\<rparr>"
    by (auto simp: spdk_conf_def find_portid_spdk_def v)
  moreover have "delete_portid S p s = Inr ?s" using s'(1,3) p(2) by (simp add: delete_portid_def)
  moreover have "sd_ports ?s = ?ports" by simp
  ultimately show ?thesis using inv' by blast
qed

lemma delete_portid_refines:
  assumes inv: "spdk_inv view s"
  shows "refines_cmd view (Delete_portid i) s (spdk_delete_portid S i s)"
proof (cases "find_portid_spdk i s")
  case None
  then show ?thesis using inv by (intro refines_cmdI [of _ 0 s]) (simp_all add: spdk_delete_portid_def)
next
  case (Some p)
  then obtain s' where "delete_portid S p s = Inr s'" "spdk_inv view s'"
    "spdk_conf view s' = \<lparr>nc_ports = (nc_ports (spdk_conf view s))(i := None),
      nc_subsys = (\<lambda>n. map_option (listeners_upd (\<lambda>ls. ls - {listener_of p})) (view (sd_server s) n))\<rparr>"
    using delete_portid_run [OF inv] by blast
  then show ?thesis using Some by (intro refines_cmdI [of _ 0 s']) (simp_all add: spdk_delete_portid_def)
qed

text \<open>Every command, through the table of operations.\<close>

lemma spdk_implements:
  assumes "spdk_inv view s" "spdk_cmd_ok cmd (spdk_conf view s)"
  shows "refines_cmd view cmd s (run_cmd (spdk_register_ops S) cmd s)"
  using assms
  by (cases cmd)
    (simp_all add: spdk_register_ops_def create_subsys_refines delete_subsys_refines create_ns_refines delete_ns_refines
      create_host_refines delete_host_refines create_portid_refines delete_portid_refines link_host_refines
      unlink_host_refines link_port_refines unlink_port_refines)

text \<open>Resetting the configuration: the ports and then the subsystems, each the first of its list.\<close>

lemma delete_ports_run:
  "spdk_inv view s \<Longrightarrow> sd_ports s = ps \<Longrightarrow> \<exists>s'. each (delete_portid S) ps s = Inr s' \<and> spdk_inv view s' \<and> sd_ports s' = []"
proof (induction ps arbitrary: s)
  case (Cons p ps)
  have "distinct (map kp_portid (sd_ports s))" using Cons.prems(1) by (simp add: spdk_inv_def ports_ok_def)
  then have "find_portid_spdk (kp_portid p) s = Some p" using Cons.prems(2) by (simp add: find_portid_spdk_def)
  from delete_portid_run [OF Cons.prems(1) this] obtain s1 where
    "delete_portid S p s = Inr s1" "spdk_inv view s1" "sd_ports s1 = ps"
    using Cons.prems(2) by auto
  then show ?case using Cons.IH by auto
qed simp

lemma delete_subsystems_run:
  "spdk_inv view s \<Longrightarrow> sd_subsys s = sss \<Longrightarrow>
     \<exists>s'. each (\<lambda>ss s. exec_bind (spdk_delete_subsys S (ks_nqn ss) s) (\<lambda>(_, s). Inr s)) sss s = Inr s' \<and>
       spdk_inv view s' \<and> sd_ports s' = sd_ports s \<and> sd_subsys s' = []"
proof (induction sss arbitrary: s)
  case (Cons ss sss)
  obtain ret s1 where r: "spdk_delete_subsys S (ks_nqn ss) s = Inr (ret, s1)" "spdk_inv view s1"
    using delete_subsys_refines [OF Cons.prems(1), of "ks_nqn ss"] by (auto simp: refines_cmd_def)
  have "find_subsys_spdk (ks_nqn ss) s = Some ss" using Cons.prems(2) by (simp add: find_subsys_spdk_def)
  then obtain x where "view (sd_server s) (ks_nqn ss) = Some x" using inv_find(2) [OF Cons.prems(1)] by blast
  then obtain ret' w' where "rpc_bool S (delete_subsys_req (ks_nqn ss)) s = Inr (ret', s\<lparr>sd_server := w'\<rparr>)"
    by (rule_tac rpc_serves [OF delete [of "ks_nqn ss"], of s]) auto
  then have "sd_subsys s1 = sss" "sd_ports s1 = sd_ports s"
    using r(1) Cons.prems(2) by (auto simp: spdk_delete_subsys_def find_subsys_spdk_def delete_subsys_rpc_def)
  then show ?case using Cons.IH [OF r(2)] r(1) by auto
qed simp

lemma reset_empties:
  assumes "spdk_inv view s"
  shows "\<exists>s'. spdk_reset_config S s = Inr s' \<and> spdk_inv view s' \<and>
    spdk_conf view s' = \<lparr>nc_ports = Map.empty, nc_subsys = Map.empty\<rparr>"
proof -
  obtain s1 where s1: "each (delete_portid S) (sd_ports s) s = Inr s1" "spdk_inv view s1" "sd_ports s1 = []"
    using delete_ports_run [OF assms] by blast
  obtain s2 where s2: "each (\<lambda>ss s. exec_bind (spdk_delete_subsys S (ks_nqn ss) s) (\<lambda>(_, s). Inr s)) (sd_subsys s1) s1 = Inr s2"
    "spdk_inv view s2" "sd_ports s2 = []" "sd_subsys s2 = []"
    using delete_subsystems_run [OF s1(2)] s1(3) by auto
  have "view (sd_server s2) n = None" for n
    using inv_find(1) [OF s2(2), of n] s2(4) by (simp add: find_subsys_spdk_def)
  then have "spdk_conf view s2 = \<lparr>nc_ports = Map.empty, nc_subsys = Map.empty\<rparr>"
    using s2(3) by (auto simp: spdk_conf_def find_portid_spdk_def fun_eq_iff)
  then show ?thesis using s1(1) s2(1,2) by (auto simp: spdk_reset_config_def)
qed

end

end
