(* ===== verification/Spdk_Properties.thy ===== *)
theory Spdk_Properties
  imports Spdk_Daemon
begin

text \<open>
  A storage daemon that keeps the contract \<open>nvmf_daemon\<close>, and the properties of the second set of operations of
  the endpoint manager: a refinement while the daemon does what it is asked and no ports share an address, and three states that the
  lists of the process and the daemon reach when two do, when it does not, and when it did not start empty.
\<close>

section \<open>A daemon\<close>

text \<open>Its subsystems and the answer it has ready; nothing stands for an error.\<close>

type_synonym ref_daemon = "daemon \<times> jval option"

definition ref_when :: "bool \<Rightarrow> jval \<Rightarrow> daemon \<Rightarrow> daemon \<Rightarrow> ref_daemon" where
  "ref_when b v d' d = (if b then (d', Some v) else (d, None))"

text \<open>The requests that are not about a subsystem, its hosts, listeners or namespaces.\<close>

definition other_methods :: "string set" where
  "other_methods =
     {''get_nvmf_subsystems'', ''get_bdevs'', ''construct_nvme_bdev'', ''construct_null_bdev'', ''delete_bdev'', ''delete_null_bdev''}"

text \<open>The listing of the subsystems names those of a list.\<close>

definition ref_listing :: "string list \<Rightarrow> jval" where
  "ref_listing names = Jarray (map (\<lambda>n. Jobject [(''nqn'', Jstring n), (''subtype'', Jstring ''NVMe'')]) names)"

definition ref_serve :: "string list \<Rightarrow> rpc \<Rightarrow> daemon \<Rightarrow> ref_daemon" where
  "ref_serve names q d =
     (if fst q = ''get_nvmf_subsystems'' then (d, Some (ref_listing names))
      else if fst q \<in> other_methods then (d, Some (Jarray []))
      else case q of
        (m, Some [(_, Rpc_string n)]) \<Rightarrow> ref_when (d n \<noteq> None) Jtrue (d(n := None)) d
      | (m, Some [(_, Rpc_string n), (_, Rpc_bool a)]) \<Rightarrow> ref_when (d n = None) Jtrue (d(n \<mapsto> new_nvmf a)) d
      | (m, Some [(_, Rpc_string n), (_, Rpc_string h)]) \<Rightarrow>
          if m = ''nvmf_subsystem_add_host''
          then ref_when (has n (\<lambda>x. h \<notin> nf_hosts x) d) Jtrue (on_nvmf n (hosts_upd (insert h)) d) d
          else ref_when (has n (\<lambda>x. h \<in> nf_hosts x) d) Jtrue (on_nvmf n (hosts_upd (\<lambda>hs. hs - {h})) d) d
      | (m, Some [(_, Rpc_string n), (_, Rpc_num i)]) \<Rightarrow>
          ref_when (has n (\<lambda>x. i \<in> dom (nf_ns x)) d) Jtrue (on_nvmf n (ns_upd (\<lambda>m. m(i := None))) d) d
      | (m, Some [(_, Rpc_string n), (_, Rpc_object [(_, Rpc_num i), (_, Rpc_string b)])]) \<Rightarrow>
          ref_when (has n (\<lambda>x. i \<notin> dom (nf_ns x)) d)
            (Jnumber (length (show_int (int i))) (show_int (int i) @ ''}'')) (on_nvmf n (ns_upd (\<lambda>m. m(i \<mapsto> b))) d) d
      | (m, Some [(_, Rpc_string n), (_, Rpc_object [(_, Rpc_string t), (k, Rpc_string a), (_, Rpc_string b), (_, Rpc_string p)])]) \<Rightarrow>
          if m = ''nvmf_subsystem_add_listener''
          then ref_when (has n (\<lambda>x. (t, a, b, p) \<notin> nf_listeners x) d) Jtrue (on_nvmf n (listeners_upd (insert (t, a, b, p))) d) d
          else ref_when (has n (\<lambda>x. (t, b, a, p) \<in> nf_listeners x) d) Jtrue
                 (on_nvmf n (listeners_upd (\<lambda>ls. ls - {(t, b, a, p)})) d) d
      | _ \<Rightarrow> (d, Some Jtrue))"

text \<open>An array is decoded element by element, up to the first error.\<close>

fun decode_all :: "'o \<Rightarrow> ('o, 'w) decode_array" where
  "decode_all o1 f [] s = Inr (0, [], s)"
| "decode_all o1 f (v # vs) s =
     exec_bind (f v o1 s) (\<lambda>(rc, out, s).
       if rc \<noteq> 0 then Inr (rc, [], s)
       else exec_bind (decode_all o1 f vs s) (\<lambda>(rc, outs, s). Inr (rc, out # outs, s)))"

definition ref_spdk :: "string list \<Rightarrow> ref_daemon spdk_api" where
  "ref_spdk names =
     \<lparr>sv_connect = (\<lambda>w. (True, w)),
      sv_close = (\<lambda>w. w),
      sv_send = (\<lambda>q w. ref_serve names q (fst w)),
      sv_poll = (\<lambda>w. (1, w)),
      sv_response = (\<lambda>w. (Some \<lparr>rr_error = (snd w = None), rr_result = snd w\<rparr>, w)),
      sv_recv_buf = (\<lambda>_. rpc_error (- 32602) ''Invalid parameters''),
      sv_int32 = (\<lambda>v i. case v of Jnumber _ t \<Rightarrow> (0, atoi t) | _ \<Rightarrow> (-1, i)),
      sv_bdevs = decode_all \<lparr>bd_name = Cnull\<rparr>,
      sv_namespcs = decode_all \<lparr>nm_nsid = 0\<rparr>,
      sv_subsys = decode_all \<lparr>su_nqn = Cnull, su_subtype = Cnull\<rparr>,
      sv_pci_init = 0,
      sv_pci_devices = []\<rparr>"

lemma plain_invalid: "plain_message ''Invalid parameters''"
  by (simp add: plain_message_def no_key_def sublist_Cons_right)

lemma ref_answers:
  "answers (ref_spdk names) q v w (ref_serve names q (fst w)) \<longleftrightarrow> snd (ref_serve names q (fst w)) = Some v"
  by (auto simp: answers_def ref_spdk_def)

lemma ref_refuses:
  assumes "snd (ref_serve names q (fst w)) = None"
  shows "refuses (ref_spdk names) q w (ref_serve names q (fst w))"
proof -
  have "rpc_error (- 32602) ''Invalid parameters'' = rpc_error (- 32602) ''Invalid parameters'' @ []" by simp
  then show ?thesis
    using assms plain_invalid unfolding refuses_def
    by (intro exI [of _ 1] exI [of _ "ref_serve names q (fst w)"] exI [of _ "- 32602"] exI [of _ "''Invalid parameters''"]
        exI [of _ "[]"]) (simp add: ref_spdk_def c_range_def)
qed

lemma ref_serves:
  assumes "\<And>d. ref_serve names q d = ref_when (ok d) Jtrue (eff d) d"
  shows "serves (ref_spdk names) fst q ok eff"
proof -
  have "if ok (fst w) then \<exists>w'. answers (ref_spdk names) q Jtrue w w' \<and> fst w' = eff (fst w)
      else \<exists>w'. refuses (ref_spdk names) q w w' \<and> fst w' = fst w" for w
    using assms [of "fst w"] ref_answers [of names q Jtrue w] ref_refuses [of names q w]
    by (auto simp: ref_when_def intro!: exI [of _ "ref_serve names q (fst w)"])
  then show ?thesis unfolding serves_def by blast
qed

interpretation ref_nvmf: nvmf_daemon "ref_spdk names" fst for names
proof
  show "(\<exists>w' c r. has n (\<lambda>x. uint32 i \<notin> dom (nf_ns x)) (fst w) \<and> \<not> is_digit c \<and>
         answers (ref_spdk names) (add_ns_req n i b) (Jnumber (length (ns_number i)) (ns_number i @ c # r)) w w' \<and>
         fst w' = on_nvmf n (ns_upd (\<lambda>m. m(uint32 i \<mapsto> b))) (fst w)) \<or>
       (\<exists>w'. refuses (ref_spdk names) (add_ns_req n i b) w w' \<and> fst w' = fst w)" for n i b w
  proof (cases "has n (\<lambda>x. uint32 i \<notin> dom (nf_ns x)) (fst w)")
    case True
    then have s: "ref_serve names (add_ns_req n i b) (fst w) =
        (on_nvmf n (ns_upd (\<lambda>m. m(uint32 i \<mapsto> b))) (fst w), Some (Jnumber (length (ns_number i)) (ns_number i @ ''}'')))"
      by (simp add: ref_serve_def other_methods_def add_ns_req_def ref_when_def ns_number_def)
    have "\<not> is_digit (CHR ''}'')" by (simp add: is_digit_def)
    then show ?thesis using True s ref_answers [of names "add_ns_req n i b"] by (metis fst_conv snd_conv)
  next
    case False
    then have s: "ref_serve names (add_ns_req n i b) (fst w) = (fst w, None)"
      by (simp add: ref_serve_def other_methods_def add_ns_req_def ref_when_def)
    then show ?thesis using ref_refuses [of names "add_ns_req n i b" w] by (metis fst_conv snd_conv)
  qed
qed (rule ref_serves, simp add: ref_serve_def other_methods_def create_subsys_req_def delete_subsys_req_def add_host_req_def remove_host_req_def
    add_listener_req_def remove_listener_req_def remove_ns_req_def listener_of_def)+

section \<open>Starting\<close>

text \<open>An array is decoded by nothing but calls of the decoder.\<close>

definition decodes_only :: "('o, 'w) decode_array \<Rightarrow> bool" where
  "decodes_only D =
     (\<forall>I f vs s. (\<forall>v d s. I s \<longrightarrow> ensures (f v d s) (\<lambda>(_, _, s'). I s')) \<longrightarrow> I s \<longrightarrow>
        ensures (D f vs s) (\<lambda>(_, _, s'). I s'))"

definition leaves_subsystems :: "'w spdk_api \<Rightarrow> ('w \<Rightarrow> 'v) \<Rightarrow> bool" where
  "leaves_subsystems S view =
     ((\<forall>w. view (snd (sv_connect S w)) = view w) \<and> (\<forall>w. view (snd (sv_poll S w)) = view w) \<and>
      (\<forall>w. view (snd (sv_response S w)) = view w) \<and> (\<forall>q w. fst q \<in> other_methods \<longrightarrow> view (sv_send S q w) = view w))"

definition kept_spdk :: "('w \<Rightarrow> 'v) \<Rightarrow> 'v \<Rightarrow> 'w spdk \<Rightarrow> bool" where
  "kept_spdk view d s = (sd_subsys s = [] \<and> sd_ports s = [] \<and> view (sd_server s) = d)"

lemma decodes_onlyD:
  "decodes_only D \<Longrightarrow> (\<And>v x s. I s \<Longrightarrow> ensures (f v x s) (\<lambda>(_, _, s'). I s')) \<Longrightarrow> I s \<Longrightarrow>
     ensures (D f vs s) (\<lambda>(_, _, s'). I s')"
  unfolding decodes_only_def by blast

lemma exchange_keeps:
  assumes "leaves_subsystems S view" "fst q \<in> other_methods" "kept_spdk view d s"
    and parser: "\<And>v t. kept_spdk view d t \<Longrightarrow> ensures (parser v t) (\<lambda>(_, _, t'). kept_spdk view d t')"
  shows "ensures (rpc_exchange S q parser s) (\<lambda>(_, _, t). kept_spdk view d t)"
proof -
  let ?w = "sv_send S q (sd_server s)"
  obtain rc w1 where p: "sv_poll S ?w = (rc, w1)" by force
  obtain r w2 where r: "sv_response S w1 = (r, w2)" by force
  have v: "view ?w = view (sd_server s)" using assms(1,2) unfolding leaves_subsystems_def by blast
  have "view w1 = view ?w" using assms(1) p unfolding leaves_subsystems_def by (metis snd_conv)
  moreover have "view w2 = view w1" using assms(1) r unfolding leaves_subsystems_def by (metis snd_conv)
  ultimately have "kept_spdk view d (s\<lparr>sd_server := w1\<rparr>)" "kept_spdk view d (s\<lparr>sd_server := w2\<rparr>)"
    using assms(3) v by (simp_all add: kept_spdk_def)
  then show ?thesis
    using parser by (auto simp: rpc_exchange_def recv_response_def p r Let_def split: option.split)
qed

lemma resp_parser_keeps: "kept_spdk view d t \<Longrightarrow> ensures (resp_parser v t) (\<lambda>(_, _, t'). kept_spdk view d t')"
  by (simp add: resp_parser_def)

lemma ensures_then:
  "ensures m (\<lambda>(_, _, t). I t) \<Longrightarrow> (\<And>a b t. I t \<Longrightarrow> ensures (k a b t) Q) \<Longrightarrow> ensures (exec_bind m (\<lambda>(a, b, t). k a b t)) Q"
  by (cases m) auto

lemma rpc_ignored_keeps:
  assumes "leaves_subsystems S view" "fst q \<in> other_methods" "kept_spdk view d s"
  shows "ensures (rpc_ignored S q s) (kept_spdk view d)"
  unfolding rpc_ignored_def
  by (rule ensures_then [OF exchange_keeps [OF assms resp_parser_keeps]]) simp_all

lemma rpc_value_keeps:
  assumes "leaves_subsystems S view" "fst q \<in> other_methods" "kept_spdk view d s"
  shows "ensures (rpc_value_of S q s) (\<lambda>(_, t). kept_spdk view d t)"
  unfolding rpc_value_of_def
  by (rule ensures_then [OF exchange_keeps [OF assms resp_parser_keeps]]) (auto split: option.split intro: ensuresI)

lemma decode_members_keeps:
  assumes "\<And>n f b v x t. (n, f, b) \<in> set ds \<Longrightarrow> I t \<Longrightarrow> ensures (f v x t) (\<lambda>(_, _, t'). I t')"
  shows "I t \<Longrightarrow> ensures (decode_members ds ms invalid seen out t) (\<lambda>(_, _, _, t'). I t')"
proof (induction ms arbitrary: invalid seen out t)
  case (Cons m ms)
  obtain name v where m: "m = (name, v)" by (cases m)
  show ?case
  proof (cases "find (\<lambda>d. fst d = name) ds")
    case None
    then show ?thesis using Cons by (simp add: m)
  next
    case (Some e)
    obtain n f b where e: "e = (n, f, b)" by (cases e)
    then have "(n, f, b) \<in> set ds" using Some find_hit by metis
    from assms [OF this Cons.prems] have f: "ensures (f v out t) (\<lambda>(_, _, t'). I t')" .
    show ?thesis
      using Some by (simp add: m e) (rule ensures_mono [OF f], use Cons.IH in auto)
  qed
qed simp

lemma decode_object_keeps:
  assumes "\<And>n f b v x t. (n, f, b) \<in> set ds \<Longrightarrow> I t \<Longrightarrow> ensures (f v x t) (\<lambda>(_, _, t'). I t')" and "I t"
  shows "ensures (my_decode_object ds v out t) (\<lambda>(_, _, t'). I t')"
proof (cases v)
  case (Jobject ms)
  have "ensures (decode_members ds ms False [] out t) (\<lambda>(_, _, _, t'). I t')"
    by (rule decode_members_keeps [where I = I and ds = ds], erule assms(1), assumption, rule assms(2))
  then show ?thesis
    by (cases "decode_members ds ms False [] out t") (auto simp: my_decode_object_def Jobject)
qed (use assms(2) in \<open>simp_all add: my_decode_object_def\<close>)

text \<open>With an empty list no operation that is asked about a subsystem sends anything.\<close>

lemma with_nqn_keeps: "kept_spdk view d s \<Longrightarrow> ensures (with_nqn p f s) (\<lambda>(_, t). kept_spdk view d t)"
  by (simp add: with_nqn_def kept_spdk_def)

lemma each_keeps:
  "(\<And>x t. x \<in> set xs \<Longrightarrow> I t \<Longrightarrow> ensures (f x t) I) \<Longrightarrow> I s \<Longrightarrow> ensures (each f xs s) I"
  by (rule ensures_each)

lemma ns_parse_keeps:
  assumes "decodes_only (sv_namespcs S)" "kept_spdk view d s"
  shows "ensures (ns_parse S v out s) (\<lambda>(_, _, t). kept_spdk view d t)"
proof (cases v)
  case (Jarray vs)
  have "ensures (ns_parse_one S w x t) (\<lambda>(_, _, t'). kept_spdk view d t')" if "kept_spdk view d t" for w x t
    unfolding ns_parse_one_def using that
    by (rule decode_object_keeps [where I = "kept_spdk view d", rotated]) (auto simp: ns_decoders_def split: prod.split)
  then have "ensures (sv_namespcs S (ns_parse_one S) vs s) (\<lambda>(_, _, t). kept_spdk view d t)"
    by (rule decodes_onlyD [where I = "kept_spdk view d", OF assms(1)]) (use assms(2) in simp_all)
  then show ?thesis unfolding ns_parse_def Jarray
    by simp (erule ensures_then [where k = "\<lambda>rc nss s. Inr (rc, nss, s)", simplified, THEN ensures_mono],
        auto intro!: ensures_mono [OF each_keeps [where I = "kept_spdk view d"]] ensures_mono [OF with_nqn_keeps])
qed (use assms(2) in \<open>simp_all add: ns_parse_def\<close>)

lemma subsys_parse_keeps:
  assumes "decodes_only (sv_namespcs S)" "kept_spdk view d s"
  shows "ensures (subsys_parse S v out s) (\<lambda>(_, _, t). kept_spdk view d t)"
  unfolding subsys_parse_def
  by (rule decode_object_keeps [where I = "kept_spdk view d"])
    (auto simp: subsys_decoders_def assms ns_parse_keeps [OF assms(1)] intro: ensuresI)

lemma ensures_all: "(\<And>x. Q x) \<Longrightarrow> ensures e Q"
  by (cases e) simp_all

lemma clear_one_keeps:
  assumes "kept_spdk view d s"
  shows "ensures (clear_one S x s) (kept_spdk view d)"
proof -
  have after: "ensures (if sub = ''NVMe'' then with_nqn (su_nqn x) (spdk_delete_subsys S) s else Inr (0, s)) (\<lambda>(_, t). kept_spdk view d t)" for sub
    using with_nqn_keeps [OF assms] assms by simp
  show ?thesis
    unfolding clear_one_def ensures_bind
    by (rule ensures_all, rule ensures_mono [OF after]) (auto simp: ensures_all)
qed

lemma clear_subsystems_keeps:
  assumes "leaves_subsystems S view" "decodes_only (sv_namespcs S)" "decodes_only (sv_subsys S)" "kept_spdk view d s"
  shows "ensures (clear_subsystems S s) (kept_spdk view d)"
proof -
  have "ensures (clear_subsys S v t) (\<lambda>(_, _, t'). kept_spdk view d t')" if "kept_spdk view d t" for v t
  proof (cases v)
    case (Jarray vs)
    have "ensures (sv_subsys S (subsys_parse S) vs t) (\<lambda>(_, _, t). kept_spdk view d t)"
      by (rule decodes_onlyD [OF assms(3) subsys_parse_keeps [OF assms(2)]]) (simp_all add: that)
    then show ?thesis unfolding clear_subsys_def Jarray
      by simp (erule ensures_mono, auto intro!: ensures_mono [OF each_keeps [where I = "kept_spdk view d"]] clear_one_keeps)
  qed (use that in \<open>simp_all add: clear_subsys_def\<close>)
  then show ?thesis unfolding clear_subsystems_def
    by (intro ensures_then [OF exchange_keeps [OF assms(1) _ assms(4)]])
      (auto simp: get_subsystems_req_def other_methods_def intro: ensuresI)
qed

lemma bdev_array_keeps:
  assumes "decodes_only (sv_bdevs S)" "kept_spdk view d s"
    and f: "\<And>name x t. kept_spdk view d t \<Longrightarrow> ensures (f name x t) (\<lambda>(_, t'). kept_spdk view d t')"
  shows "ensures (bdev_array S f x v s) (\<lambda>(_, _, t). kept_spdk view d t)"
proof (cases v)
  case (Jarray vs)
  have "ensures (bdev_parse w b t) (\<lambda>(_, _, t'). kept_spdk view d t')" if "kept_spdk view d t" for w b t
    unfolding bdev_parse_def using that
    by (rule decode_object_keeps [where I = "kept_spdk view d", rotated]) (auto simp: bdev_decoders_def intro: ensuresI)
  then have "ensures (sv_bdevs S bdev_parse vs s) (\<lambda>(_, _, t). kept_spdk view d t)"
    by (rule decodes_onlyD [where I = "kept_spdk view d", OF assms(1)]) (use assms(2) in simp_all)
  then show ?thesis unfolding bdev_array_def Jarray
    by simp (erule ensures_mono,
        auto intro!: ensures_mono [OF each_keeps [where I = "\<lambda>(x, t). kept_spdk view d t"]] ensures_all [of _ "cptr_text p" for p] f)
qed (use assms(2) in \<open>simp_all add: bdev_array_def\<close>)

lemma clear_devices_keeps:
  assumes "leaves_subsystems S view" "decodes_only (sv_bdevs S)" "kept_spdk view d s"
  shows "ensures (clear_devices S s) (kept_spdk view d)"
proof -
  have del: "ensures (del_device S name t) (kept_spdk view d)" if "kept_spdk view d t" for name t
    unfolding del_device_def
    by (rule rpc_ignored_keeps [OF assms(1) _ that]) (simp add: delete_null_req_def delete_bdev_req_def other_methods_def)
  have "ensures (bdev_reset S v t) (\<lambda>(_, _, t'). kept_spdk view d t')" if "kept_spdk view d t" for v t
    unfolding bdev_reset_def by (rule bdev_array_keeps [OF assms(2) that]) (simp add: ensures_mono [OF del])
  then show ?thesis unfolding clear_devices_def
    by (intro ensures_then [OF exchange_keeps [OF assms(1) _ assms(3)]])
      (auto simp: get_bdevs_req_def other_methods_def intro: ensuresI)
qed

lemma add_pci_devices_keeps:
  assumes "leaves_subsystems S view"
  shows "kept_spdk view d s \<Longrightarrow> ensures (add_pci_devices S ds s) (kept_spdk view d)"
proof (induction ds arbitrary: s)
  case (Cons p ds)
  have "ensures (add_nvme_device S p s) (\<lambda>(_, t). kept_spdk view d t)"
    unfolding add_nvme_device_def Let_def
    by (rule rpc_value_keeps [OF assms]) (use Cons.prems in \<open>simp_all add: construct_nvme_req_def other_methods_def kept_spdk_def\<close>)
  then have "ensures (add_nvme_device S p s) (\<lambda>(ret, t). ensures (resp_true ret) (\<lambda>b.
      ensures (if b then Inr t else add_pci_devices S ds t) (kept_spdk view d)))"
    by (rule ensures_mono) (auto intro!: ensures_all Cons.IH)
  then show ?case using Cons by (simp add: case_prod_unfold)
qed simp

lemma start_keeps:
  assumes "leaves_subsystems S view" "decodes_only (sv_bdevs S)" "decodes_only (sv_namespcs S)" "decodes_only (sv_subsys S)"
  shows "ensures (spdk_start_targets S s) (\<lambda>(_, t). kept_spdk view (view (sd_server s)) t)"
proof -
  let ?d = "view (sd_server s)"
  obtain ok w where c: "sv_connect S (sd_server s) = (ok, w)" by force
  let ?s = "s\<lparr>sd_ports := [], sd_subsys := [], sd_count := 0, sd_server := w\<rparr>"
  have "view w = ?d" using assms(1) c unfolding leaves_subsystems_def by (metis snd_conv)
  then have k: "kept_spdk view ?d ?s" by (simp add: kept_spdk_def)
  have reset: "ensures (reset_spdk_server S ?s) (kept_spdk view ?d)"
    unfolding reset_spdk_server_def ensures_bind
    by (rule ensures_mono [OF clear_subsystems_keeps [OF assms(1,3,4) k]]) (rule clear_devices_keeps [OF assms(1,2)])
  have null: "ensures (add_null_device S t) (\<lambda>(_, t). kept_spdk view ?d t)" if "kept_spdk view ?d t" for t
    unfolding add_null_device_def
    by (rule rpc_value_keeps [OF assms(1) _ that]) (simp add: construct_null_req_def other_methods_def)
  have enum: "ensures (enumerate_nvme_devices S t) (\<lambda>(_, t). kept_spdk view ?d t)" if "kept_spdk view ?d t" for t
    unfolding enumerate_nvme_devices_def
    using that by (auto intro!: ensures_mono [OF add_pci_devices_keeps [OF assms(1)]] ensures_mono [OF null])
  show ?thesis
    using k reset enum unfolding spdk_start_targets_def c
    by (auto simp: Let_def intro!: ensures_mono [OF reset] ensures_mono [OF enum])
qed

section \<open>Examples\<close>

definition spdk_nqn :: string where "spdk_nqn = ''nqn.2016-06.io.spdk:cnode1''"
definition spdk_host :: string where "spdk_host = ''nqn.2014-08.org.example:host''"

definition spdk_demo_port :: spdk_port where
  "spdk_demo_port =
     \<lparr>kp_ptr = 0, kp_portid = 1, kp_type = ''rdma'', kp_family = ''ipv4'', kp_address = ''192.168.1.1'', kp_port = ''4420''\<rparr>"

definition spdk_demo_nvmf :: nvmf where
  "spdk_demo_nvmf = \<lparr>nf_any = False, nf_hosts = {}, nf_listeners = {listener_of spdk_demo_port}, nf_ns = Map.empty\<rparr>"

text \<open>A subsystem that is linked to a port and allows no host.\<close>

definition spdk_demo :: "ref_daemon spdk" where
  "spdk_demo =
     \<lparr>sd_count = 0, sd_ports = [spdk_demo_port],
      sd_subsys = [\<lparr>ks_nqn = spdk_nqn, ks_allowany = False, ks_hosts = [], ks_portids = [0]\<rparr>],
      sd_next = 1, sd_server = (Map.empty(spdk_nqn \<mapsto> spdk_demo_nvmf), None)\<rparr>"

lemma spdk_demo_inv: "spdk_inv fst spdk_demo"
  by (auto simp: spdk_inv_def spdk_demo_def ports_ok_def find_subsys_spdk_def mirrors_def spdk_demo_nvmf_def spdk_demo_port_def)

lemma spdk_host_valid: "valid_nqn spdk_host"
  by code_simp

text \<open>The daemon above, but it does not let go of a listener.\<close>

definition stubborn_spdk :: "ref_daemon spdk_api" where
  "stubborn_spdk =
     (ref_spdk [])\<lparr>sv_send := \<lambda>q w. if fst q = ''nvmf_subsystem_remove_listener'' then (fst w, None) else ref_serve [] q (fst w)\<rparr>"

lemma stubborn_refuses: "\<exists>e w'. e \<noteq> 0 \<and> rpc_bool stubborn_spdk (remove_listener_req n p) t = Inr (e, t\<lparr>sd_server := w'\<rparr>)"
proof -
  have "rpc_error (- 32602) ''Invalid parameters'' = rpc_error (- 32602) ''Invalid parameters'' @ []" by simp
  then have "refuses stubborn_spdk (remove_listener_req n p) (sd_server t) (fst (sd_server t), None)"
    using plain_invalid unfolding refuses_def
    by (intro exI [of _ 1] exI [of _ "(fst (sd_server t), None)"] exI [of _ "- 32602"] exI [of _ "''Invalid parameters''"]
        exI [of _ "[]"]) (simp add: stubborn_spdk_def ref_spdk_def c_range_def remove_listener_req_def)
  from rpc_refuses [OF this] show ?thesis unfolding rpc_bool_def by (metis less_irrefl)
qed

lemma decode_all_only: "decodes_only (decode_all o1)"
proof -
  have "ensures (decode_all o1 f vs s) (\<lambda>(_, _, s'). I s')"
    if "\<And>v d s. I s \<Longrightarrow> ensures (f v d s) (\<lambda>(_, _, s'). I s')" "I s" for I f vs s
    using that(2)
  proof (induction vs arbitrary: s)
    case (Cons v vs)
    show ?case
      by simp (rule ensures_mono [OF that(1) [OF Cons.prems]], auto intro!: ensures_mono [OF Cons.IH])
  qed simp
  then show ?thesis unfolding decodes_only_def by blast
qed

lemma ref_leaves: "leaves_subsystems (ref_spdk names) fst"
  by (simp add: leaves_subsystems_def ref_spdk_def ref_serve_def)

section \<open>Properties\<close>

text \<open>
  C5. While the storage daemon keeps its contract, the texts of every port fit their fields and no port is given
  an address that another port has, each operation of the table for SPDK is a step of the specification: it
  returns, no released port is read, the lists of the process mirror the subsystems, hosts and listeners of the
  daemon again, and its code and the configuration afterwards are those of \<open>spdk_spec\<close>. Allowing the first host,
  which takes all listeners of the subsystem down and up again, leaves the same listeners; deleting a port removes
  its listeners from every subsystem. (Namespaces have numbers from 0 in the range of \<^verbatim>\<open>int\<close>.)

  Neither condition on ports is checked by the code. A text that does not fit overflows its field; what happens
  to two ports with one address is the next property.
\<close>

theorem spdk_refines:
  assumes "nvmf_daemon S view" "spdk_inv view s" "spdk_cmd_ok cmd (spdk_conf view s)"
  shows "\<exists>ret s'. run_cmd (spdk_register_ops S) cmd s = Inr (ret, s') \<and> spdk_inv view s' \<and>
           spdk_spec cmd (spdk_conf view s) ret (spdk_conf view s')"
  using nvmf_daemon.spdk_implements [OF assms] by (simp add: refines_cmd_def)

theorem spdk_refines_witness:
  "\<exists>ret s'. run_cmd (spdk_register_ops (ref_spdk [])) (Link_host spdk_nqn spdk_host) spdk_demo = Inr (ret, s') \<and>
     spdk_inv fst s' \<and>
     spdk_spec (Link_host spdk_nqn spdk_host) (spdk_conf fst spdk_demo) ret (spdk_conf fst s')"
  using spdk_refines [OF ref_nvmf.nvmf_daemon_axioms spdk_demo_inv, of "Link_host spdk_nqn spdk_host"]
  by (simp del: spdk_spec.simps)

lemma upd_first_same: "List.find P xs = Some x \<Longrightarrow> f x = x \<Longrightarrow> upd_first P f xs = xs"
  by (induction xs) (auto split: if_splits)

lemma del_first_id: "(\<And>x. x \<in> set xs \<Longrightarrow> \<not> P x) \<Longrightarrow> del_first P xs = xs"
  by (induction xs) auto

text \<open>
  Unlinking a port from a subsystem that only another port with the same address is linked to.
\<close>

lemma unlink_takes_listener:
  assumes "nvmf_daemon S view" "find_portid_spdk i s = Some p" "find_subsys_spdk n s = Some ss" "ks_nqn ss = n"
    and "kp_ptr p \<notin> set (ks_portids ss)" "kp_ptr q \<in> set (ks_portids ss)" "listener_of q = listener_of p"
    and "view (sd_server s) n = Some x" "listener_of q \<in> nf_listeners x"
  shows "\<exists>s' x'. spdk_unlink_port_from_subsys S n i s = Inr (0, s') \<and> sd_subsys s' = sd_subsys s \<and>
    view (sd_server s') n = Some x' \<and> listener_of q \<notin> nf_listeners x'"
proof -
  obtain ret w' where r: "remove_listener S ss p s = Inr (ret, s\<lparr>sd_server := w'\<rparr>)"
    and v: "view w' = on_nvmf n (listeners_upd (\<lambda>ls. ls - {listener_of p})) (view (sd_server s))"
    and ok: "ret = 0 \<longleftrightarrow> has n (\<lambda>x. listener_of p \<in> nf_listeners x) (view (sd_server s))"
    using nvmf_daemon.remove_listener_run [OF assms(1), of ss p s] unfolding assms(4) by metis
  have "ret = 0" using ok assms(7-9) by (simp add: has_def)
  have "del_first (\<lambda>a. a = kp_ptr p) (ks_portids ss) = ks_portids ss"
    using assms(5) by (intro del_first_id) auto
  then have "upd_first (\<lambda>ss. ks_nqn ss = n) (\<lambda>ss. ss\<lparr>ks_portids := del_first (\<lambda>a. a = kp_ptr p) (ks_portids ss)\<rparr>)
      (sd_subsys s) = sd_subsys s"
    using assms(3) by (intro upd_first_same [of _ _ ss]) (simp_all add: find_subsys_spdk_def)
  then have "upd_spdk n (\<lambda>ss. ss\<lparr>ks_portids := del_first (\<lambda>a. a = kp_ptr p) (ks_portids ss)\<rparr>)
      (s\<lparr>sd_server := w'\<rparr>) = s\<lparr>sd_server := w'\<rparr>"
    by (simp add: upd_spdk_def)
  with \<open>ret = 0\<close> show ?thesis
    using r v assms(2,3,7,8) by (simp add: spdk_unlink_port_from_subsys_def on_nvmf_def listeners_upd_def)
qed

text \<open>
  C13. Two ports with one address. From any state in which the lists of the process mirror the daemon, a
  port with a new number and the address of a port that a subsystem is linked to is created without an
  error; unlinking it from that subsystem, which the deletion of the new port does for every subsystem, is
  answered with success and removes the listener of the other port: the lists of the process are as before, with
  the link to the other port in them, and the daemon does not listen on its address any more.
\<close>

theorem shared_address_loses_listener:
  assumes "nvmf_daemon S view" "spdk_inv view s" "find_subsys_spdk n s = Some ss"
    and "q \<in> set (sd_ports s)" "kp_ptr q \<in> set (ks_portids ss)" "find_portid_spdk j s = None"
    and "length (kp_family q) \<le> CONFIG_FAMILY_SIZE" "length (kp_type q) \<le> CONFIG_TYPE_SIZE"
      "length (kp_address q) \<le> CONFIG_ADDRESS_SIZE" "kp_port q = show_int port" "length (kp_port q) \<le> CONFIG_PORT_SIZE"
  shows "\<exists>s1 s2 x. spdk_create_portid j (Some (kp_family q)) (Some (kp_type q)) req (Some (kp_address q)) port s = Inr (0, s1) \<and>
    spdk_unlink_port_from_subsys S n j s1 = Inr (0, s2) \<and> sd_subsys s2 = sd_subsys s \<and>
    view (sd_server s2) n = Some x \<and> listener_of q \<notin> nf_listeners x"
proof -
  define p where "p = \<lparr>kp_ptr = sd_next s, kp_portid = j, kp_type = kp_type q, kp_family = kp_family q,
    kp_address = kp_address q, kp_port = kp_port q\<rparr>"
  define s1 where "s1 = s\<lparr>sd_ports := p # sd_ports s, sd_next := sd_next s + 1\<rparr>"
  have made: "spdk_create_portid j (Some (kp_family q)) (Some (kp_type q)) req (Some (kp_address q)) port s = Inr (0, s1)"
    using assms(6-11) by (simp add: spdk_create_portid_def c_strcpy_def s1_def p_def)
  have "rel_option (mirrors (sd_ports s)) (find_subsys_spdk n s) (view (sd_server s) n)"
    using assms(2) by (simp add: spdk_inv_def)
  then obtain x where x: "view (sd_server s) n = Some x" "mirrors (sd_ports s) ss x"
    unfolding assms(3) by (cases "view (sd_server s) n") auto
  have "ks_nqn ss = n" using assms(3) by (auto simp: find_subsys_spdk_def find_Some_iff)
  moreover have "set (ks_portids ss) \<subseteq> kp_ptr ` set (sd_ports s)" "\<forall>u\<in>set (sd_ports s). kp_ptr u < sd_next s"
    using x(2) assms(2) by (simp_all add: mirrors_def spdk_inv_def ports_ok_def)
  then have "kp_ptr p \<notin> set (ks_portids ss)" by (fastforce simp: p_def)
  moreover have "listener_of q \<in> nf_listeners x" using x(2) assms(4,5) by (auto simp: mirrors_def)
  moreover have "find_portid_spdk j s1 = Some p" "find_subsys_spdk n s1 = Some ss" "view (sd_server s1) n = Some x"
    "listener_of q = listener_of p" "sd_subsys s1 = sd_subsys s"
    using assms(3) x(1) by (simp_all add: s1_def p_def find_portid_spdk_def find_subsys_spdk_def listener_of_def)
  ultimately show ?thesis using unlink_takes_listener [OF assms(1), of j s1 p n ss q x] assms(5) made by metis
qed

theorem shared_address_loses_listener_witness:
  "\<exists>s1 s2 x. spdk_create_portid 2 (Some ''ipv4'') (Some ''rdma'') 0 (Some ''192.168.1.1'') 4420 spdk_demo = Inr (0, s1) \<and>
     spdk_unlink_port_from_subsys (ref_spdk []) spdk_nqn 2 s1 = Inr (0, s2) \<and> sd_subsys s2 = sd_subsys spdk_demo \<and>
     fst (sd_server s2) spdk_nqn = Some x \<and> listener_of spdk_demo_port \<notin> nf_listeners x"
proof -
  have "show_int 4420 = ''4420''" by code_simp
  then show ?thesis
    using shared_address_loses_listener [OF ref_nvmf.nvmf_daemon_axioms spdk_demo_inv, of spdk_nqn _ spdk_demo_port 2 4420 0 "[]"]
    by (simp add: spdk_demo_def find_subsys_spdk_def find_portid_spdk_def spdk_demo_port_def CONFIG_FAMILY_SIZE_def
        CONFIG_TYPE_SIZE_def CONFIG_ADDRESS_SIZE_def CONFIG_PORT_SIZE_def)
qed

text \<open>
  Resetting the configuration leaves neither ports in the process nor subsystems in the daemon.
\<close>

theorem spdk_reset_empties:
  assumes "nvmf_daemon S view" "spdk_inv view s"
  shows "\<exists>s'. spdk_reset_config S s = Inr s' \<and> spdk_inv view s' \<and>
           spdk_conf view s' = \<lparr>nc_ports = Map.empty, nc_subsys = Map.empty\<rparr>"
  by (rule nvmf_daemon.reset_empties [OF assms])

theorem spdk_reset_empties_witness:
  "\<exists>s'. spdk_reset_config (ref_spdk []) spdk_demo = Inr s' \<and> spdk_inv fst s' \<and>
     spdk_conf fst s' = \<lparr>nc_ports = Map.empty, nc_subsys = Map.empty\<rparr>"
  by (rule spdk_reset_empties [OF ref_nvmf.nvmf_daemon_axioms spdk_demo_inv])

text \<open>
  C15. The start of the process is meant to clear the daemon, and clears no subsystem: the subsystems the daemon
  reports are looked for in the list of the process, which has just been emptied. So after the start the
  daemon has exactly the subsystems it had, and the process knows none of them. This holds for every daemon
  whose subsystems change only on requests about subsystems, and every library that decodes an array by
  calling the decoder.
\<close>

theorem start_clears_no_subsystem:
  assumes "leaves_subsystems S view" "decodes_only (sv_bdevs S)" "decodes_only (sv_namespcs S)" "decodes_only (sv_subsys S)"
    and "spdk_start_targets S s = Inr (ret, s')"
  shows "view (sd_server s') = view (sd_server s) \<and> sd_subsys s' = [] \<and> sd_ports s' = []"
  using start_keeps [OF assms(1-4), of s] assms(5) by (simp add: kept_spdk_def)

theorem start_clears_no_subsystem_witness:
  "\<exists>s'. spdk_start_targets (ref_spdk [spdk_nqn]) spdk_demo = Inr (0, s') \<and>
     fst (sd_server s') = Map.empty(spdk_nqn \<mapsto> spdk_demo_nvmf) \<and> sd_subsys s' = []"
proof -
  obtain s' where s': "spdk_start_targets (ref_spdk [spdk_nqn]) spdk_demo = Inr (0, s')"
    using that by (simp add: spdk_demo_def spdk_start_targets_def reset_spdk_server_def clear_subsystems_def rpc_exchange_def
      recv_response_def clear_subsys_def ref_spdk_def ref_serve_def get_subsystems_req_def ref_listing_def subsys_parse_def
      my_decode_object_def subsys_decoders_def my_decode_string_def free_cptr_def clear_one_def cptr_text_def with_nqn_def
      clear_devices_def get_bdevs_req_def other_methods_def bdev_reset_def bdev_array_def enumerate_nvme_devices_def
      add_null_device_def rpc_value_of_def construct_null_req_def resp_parser_def)
  have "decodes_only (sv_bdevs (ref_spdk [spdk_nqn]))" "decodes_only (sv_namespcs (ref_spdk [spdk_nqn]))"
    "decodes_only (sv_subsys (ref_spdk [spdk_nqn]))"
    by (simp_all add: ref_spdk_def decode_all_only)
  from start_clears_no_subsystem [OF ref_leaves this s'] show ?thesis using s' by (simp add: spdk_demo_def)
qed

text \<open>
  C16. When the daemon refuses to remove the listeners of a port, deleting the port still reports success
  and releases it, while the subsystem keeps its link: allowing the first host for that subsystem
  then reads the released port.
\<close>

theorem refused_port_dangles:
  assumes "\<forall>m t. \<exists>e w'. e \<noteq> 0 \<and> rpc_bool S (remove_listener_req m p) t = Inr (e, t\<lparr>sd_server := w'\<rparr>)"
    and "find_portid_spdk i s = Some p" "distinct (map kp_ptr (sd_ports s))"
    and "find_subsys_spdk n s = Some ss" "ks_hosts ss = []" "ks_portids ss = kp_ptr p # as" "valid_nqn h"
  shows "\<exists>s'. spdk_delete_portid S i s = Inr (0, s') \<and> find_subsys_spdk n s' = Some ss \<and>
           spdk_link_host_to_subsys S n (Some h) s' = Inl Use_after_free"
proof -
  note p = find_portid_SomeD [OF assms(2)]
  have "\<exists>w'. each (\<lambda>ss s. exec_bind (spdk_unlink_port_from_subsys S (ks_nqn ss) i s) (\<lambda>(_, s). Inr s)) sss t =
      Inr (t\<lparr>sd_server := w'\<rparr>)" if "find_portid_spdk i t = Some p" for sss t
    using that
  proof (induction sss arbitrary: t)
    case Nil
    show ?case by (intro exI [of _ "sd_server t"]) simp
  next
    case (Cons x sss)
    have "\<exists>e w. spdk_unlink_port_from_subsys S (ks_nqn x) i t = Inr (e, t\<lparr>sd_server := w\<rparr>)"
    proof (cases "find_subsys_spdk (ks_nqn x) t")
      case None
      then show ?thesis
        using Cons.prems by (intro exI [of _ "- ENOENT"] exI [of _ "sd_server t"]) (simp add: spdk_unlink_port_from_subsys_def)
    next
      case (Some y)
      obtain e w where "e \<noteq> 0" "rpc_bool S (remove_listener_req (ks_nqn y) p) t = Inr (e, t\<lparr>sd_server := w\<rparr>)"
        using assms(1) by blast
      then show ?thesis
        using Some Cons.prems
        by (intro exI [of _ e] exI [of _ w]) (simp add: spdk_unlink_port_from_subsys_def remove_listener_def)
    qed
    then obtain e w where "spdk_unlink_port_from_subsys S (ks_nqn x) i t = Inr (e, t\<lparr>sd_server := w\<rparr>)" by blast
    then show ?case using Cons.IH [of "t\<lparr>sd_server := w\<rparr>"] Cons.prems by auto
  qed
  then obtain w' where w': "each (\<lambda>ss s. exec_bind (spdk_unlink_port_from_subsys S (ks_nqn ss) i s) (\<lambda>(_, s). Inr s))
      (sd_subsys s) s = Inr (s\<lparr>sd_server := w'\<rparr>)"
    using assms(2) by blast
  let ?s = "s\<lparr>sd_server := w', sd_ports := del_first (\<lambda>q. kp_ptr q = kp_ptr p) (sd_ports s)\<rparr>"
  have del: "spdk_delete_portid S i s = Inr (0, ?s)"
    using assms(2) w' p(2) by (simp add: spdk_delete_portid_def delete_portid_def)
  have find: "find_subsys_spdk n ?s = Some ss" using assms(4) by (simp add: find_subsys_spdk_def)
  have "linked_port (kp_ptr p) ?s = Inl Use_after_free"
    using find_del_first [OF assms(3), of "kp_ptr p" "kp_ptr p"] by (simp add: linked_port_def)
  then have "spdk_link_host_to_subsys S n (Some h) ?s = Inl Use_after_free"
    using find assms(5-7) by (simp add: spdk_link_host_to_subsys_def find_host_spdk_def each_link_def)
  then show ?thesis using del find by blast
qed

theorem refused_port_dangles_witness:
  "\<exists>s'. spdk_delete_portid stubborn_spdk 1 spdk_demo = Inr (0, s') \<and>
     spdk_link_host_to_subsys stubborn_spdk spdk_nqn (Some spdk_host) s' = Inl Use_after_free"
  using refused_port_dangles [of stubborn_spdk spdk_demo_port 1 spdk_demo spdk_nqn _ "[]" spdk_host] stubborn_refuses spdk_host_valid
  by (auto simp: spdk_demo_def find_portid_spdk_def find_subsys_spdk_def spdk_demo_port_def)

end
