(* ===== verification/Cli_Show.thy ===== *)
theory Cli_Show
  imports Jansson
begin

text \<open>
  The texts that the command line client prints for the JSON documents of the controller
  (\<^verbatim>\<open>src/src/cli/show.c\<close>). A function that prints is its text; printing the string of a value that
  is not a string (\<^verbatim>\<open>json_string_value\<close> returns a null pointer) is a fault.
\<close>

section \<open>Printing\<close>

definition nl :: string where "nl = [CHR 0x0A]"

definition INVALID_DEVID :: int where "INVALID_DEVID = -2"

text \<open>Texts printed one after the other.\<close>

fun prints :: "string exec list \<Rightarrow> string exec" where
  "prints [] = Inr []"
| "prints (e # es) = exec_bind e (\<lambda>t. exec_bind (prints es) (\<lambda>u. Inr (t @ u)))"

definition string_text :: "'j jansson \<Rightarrow> 'j \<Rightarrow> string exec" where
  "string_text J v = (case json_string_value J v of None \<Rightarrow> Inl Null_deref | Some t \<Rightarrow> Inr t)"

text \<open>\<^verbatim>\<open>obj = json_object_get(iter, tag); if (obj) ...\<close>\<close>

definition if_member :: "'j jansson \<Rightarrow> 'j \<Rightarrow> string \<Rightarrow> ('j \<Rightarrow> string exec) \<Rightarrow> string exec" where
  "if_member J obj tag f = (case json_object_get J obj tag of None \<Rightarrow> Inr [] | Some v \<Rightarrow> f v)"

text \<open>The elements of an array member with their indices; none when there is no such member.\<close>

definition member_elems :: "'j jansson \<Rightarrow> 'j \<Rightarrow> string \<Rightarrow> (nat \<times> 'j) list" where
  "member_elems J obj tag =
     (case json_object_get J obj tag of None \<Rightarrow> [] | Some a \<Rightarrow> List.enumerate 0 (json_elems J a))"

definition tab_of :: "int \<Rightarrow> string" where
  "tab_of indent = (if indent \<noteq> 0 then ''  '' else [])"

section \<open>Lists\<close>

definition list_array_cli :: "'j jansson \<Rightarrow> 'j \<Rightarrow> int \<Rightarrow> (nat \<times> string) exec" where
  "list_array_cli J a indent =
     (if json_array_size J a = 0 then Inr (0, [])
      else exec_bind
        (prints (map (\<lambda>(i, v). exec_bind (string_text J v) (\<lambda>t. Inr ((if i \<noteq> 0 then nl else []) @ tab_of indent @ t)))
                     (List.enumerate 0 (json_elems J a))))
        (\<lambda>t. Inr (json_array_size J a, t @ nl)))"

definition show_list :: "'j jansson \<Rightarrow> 'j \<Rightarrow> string \<Rightarrow> int \<Rightarrow> string exec" where
  "show_list J parent tag indent =
     exec_bind (case json_object_get J parent tag of None \<Rightarrow> Inr (0, []) | Some a \<Rightarrow> list_array_cli J a indent)
       (\<lambda>(cnt, t). Inr (if cnt = 0 then t @ tab_of indent @ ''No '' @ tag @ '' defined'' @ nl else t))"

definition show_group_list :: "'j jansson \<Rightarrow> 'j \<Rightarrow> string exec" where
  "show_group_list J parent = show_list J parent TAG_GROUPS 0"

definition show_target_list :: "'j jansson \<Rightarrow> 'j \<Rightarrow> int \<Rightarrow> string exec" where
  "show_target_list J parent indent = show_list J parent TAG_TARGETS indent"

definition show_host_list :: "'j jansson \<Rightarrow> 'j \<Rightarrow> int \<Rightarrow> string exec" where
  "show_host_list J parent indent = show_list J parent TAG_HOSTS indent"

section \<open>Targets\<close>

text \<open>The device of a namespace keeps its value for a following namespace that has none.\<close>

fun show_nsid_loop :: "'j jansson \<Rightarrow> (nat \<times> 'j) list \<Rightarrow> int \<Rightarrow> string exec" where
  "show_nsid_loop J [] devid = Inr []"
| "show_nsid_loop J ((i, iter) # rest) devid =
     (case json_object_get J iter TAG_NSID of
        None \<Rightarrow> show_nsid_loop J rest devid
      | Some v \<Rightarrow>
          let dev = json_object_get J iter TAG_DEVID;
              devid = (case dev of None \<Rightarrow> devid | Some d \<Rightarrow> c_int (json_integer_value J d));
              name = (case dev of None \<Rightarrow> []
                      | Some d \<Rightarrow> if devid \<noteq> NULL_BLK_DEVID then '' nvme'' @ show_int devid else '' nullb0'');
              part = (case json_object_get J iter TAG_DEVNSID of
                        Some d \<Rightarrow> if devid \<ge> 0 then ''n'' @ show_int (json_integer_value J d) else []
                      | None \<Rightarrow> [])
          in exec_bind (show_nsid_loop J rest devid) (\<lambda>t.
               Inr ((if i \<noteq> 0 then '', '' else ''      '') @ ''nsid '' @ show_int (json_integer_value J v) @ '':'' @
                    name @ part @ t)))"

definition show_nsids :: "'j jansson \<Rightarrow> 'j \<Rightarrow> string exec" where
  "show_nsids J parent =
     (let elems = member_elems J parent TAG_NSIDS
      in prints [show_nsid_loop J elems INVALID_DEVID, Inr (if elems \<noteq> [] then nl else [])])"

definition show_acl :: "'j jansson \<Rightarrow> 'j \<Rightarrow> string exec" where
  "show_acl J parent =
     (let elems = member_elems J parent TAG_HOSTS
      in prints
           (map (\<lambda>(i, v). exec_bind (string_text J v) (\<lambda>t. Inr ((if i \<noteq> 0 then '', '' else ''      '') @ t))) elems @
            [Inr (if elems \<noteq> [] then nl else [])]))"

definition show_subsystem :: "'j jansson \<Rightarrow> 'j \<Rightarrow> string exec" where
  "show_subsystem J iter =
     if_member J iter TAG_SUBNQN (\<lambda>nqn.
       prints
         [Inr ''    '', string_text J nqn, Inr '' '',
          if_member J iter TAG_ALLOW_ANY (\<lambda>v.
            Inr ((if json_integer_value J v \<noteq> 0 then ''(allow_any_host)'' else ''(restricted)'') @ nl)),
          show_acl J iter,
          show_nsids J iter])"

definition show_subsystems :: "'j jansson \<Rightarrow> 'j \<Rightarrow> string exec" where
  "show_subsystems J parent =
     (let elems = member_elems J parent TAG_SUBSYSTEMS
      in prints
           (Inr (''  '' @ TAG_SUBSYSTEMS @ nl) # map (\<lambda>(i, iter). show_subsystem J iter) elems @
            [Inr (if elems = [] then ''    No Subsystems defined'' @ nl else [])]))"

definition string_member :: "'j jansson \<Rightarrow> 'j \<Rightarrow> string \<Rightarrow> string exec" where
  "string_member J iter tag = if_member J iter tag (\<lambda>v. exec_bind (string_text J v) (\<lambda>t. Inr (t @ '' '')))"

definition int_member :: "'j jansson \<Rightarrow> 'j \<Rightarrow> string \<Rightarrow> string exec" where
  "int_member J iter tag = if_member J iter tag (\<lambda>v. Inr (show_int (json_integer_value J v)))"

definition show_oob_interface :: "'j jansson \<Rightarrow> 'j \<Rightarrow> string exec" where
  "show_oob_interface J iter =
     prints [string_member J iter TAG_IFFAMILY, string_member J iter TAG_IFADDRESS, int_member J iter TAG_IFPORT]"

definition show_inb_interface :: "'j jansson \<Rightarrow> 'j \<Rightarrow> string exec" where
  "show_inb_interface J iter =
     prints [string_member J iter TAG_TYPE, string_member J iter TAG_FAMILY, string_member J iter TAG_ADDRESS,
             int_member J iter TAG_TRSVCID]"

text \<open>The family, when it is not the type; comparing with a family that is not a string is a fault.\<close>

definition family_text :: "'j jansson \<Rightarrow> 'j \<Rightarrow> string option \<Rightarrow> string exec" where
  "family_text J iter typ =
     if_member J iter TAG_FAMILY (\<lambda>v.
       case typ of
         None \<Rightarrow> Inr []
       | Some t \<Rightarrow> exec_bind (string_text J v) (\<lambda>fam. Inr (if t \<noteq> fam then fam @ '' '' else [])))"

definition type_value :: "'j jansson \<Rightarrow> 'j \<Rightarrow> string option \<Rightarrow> string option" where
  "type_value J iter typ = (case json_object_get J iter TAG_TYPE of None \<Rightarrow> typ | Some v \<Rightarrow> json_string_value J v)"

definition show_transport :: "'j jansson \<Rightarrow> 'j \<Rightarrow> nat \<Rightarrow> string exec" where
  "show_transport J iter indent =
     prints
       [if_member J iter TAG_PORTID (\<lambda>v.
          Inr (replicate indent (CHR '' '') @ show_int (json_integer_value J v) @ '': '')),
        string_member J iter TAG_TYPE,
        family_text J iter (type_value J iter None),
        string_member J iter TAG_ADDRESS,
        int_member J iter TAG_TRSVCID]"

definition show_portids :: "'j jansson \<Rightarrow> 'j \<Rightarrow> string exec" where
  "show_portids J parent =
     (let elems = member_elems J parent TAG_PORTIDS
      in prints
           (Inr (''  '' @ TAG_PORTIDS @ nl) #
            map (\<lambda>(i, iter). prints [Inr (if i \<noteq> 0 then nl else []), show_transport J iter 4]) elems @
            [Inr (if elems \<noteq> [] then nl else ''    No Port IDs defined'' @ nl)]))"

definition int_of_member :: "'j jansson \<Rightarrow> 'j \<Rightarrow> string \<Rightarrow> int option" where
  "int_of_member J iter tag =
     (case json_object_get J iter tag of
        Some v \<Rightarrow> if json_is_integer J v then Some (json_integer_value J v) else None
      | None \<Rightarrow> None)"

fun show_device_loop :: "'j jansson \<Rightarrow> 'j list \<Rightarrow> string" where
  "show_device_loop J [] = nl"
| "show_device_loop J (iter # rest) =
     (case int_of_member J iter TAG_DEVID of
        None \<Rightarrow> '' syntax error'' @ nl
      | Some d \<Rightarrow>
          if c_int d = NULL_BLK_DEVID then '' nullb0'' @ show_device_loop J rest
          else case int_of_member J iter TAG_DEVNSID of
                 None \<Rightarrow> '' syntax error'' @ nl
               | Some n \<Rightarrow> '' nvme'' @ show_int (c_int d) @ ''n'' @ show_int n @ show_device_loop J rest)"

definition show_devices :: "'j jansson \<Rightarrow> 'j \<Rightarrow> string exec" where
  "show_devices J parent =
     (let elems = map snd (member_elems J parent TAG_NSDEVS)
      in Inr (if elems = [] then [] else ''  '' @ TAG_NSDEVS @ '':'' @ show_device_loop J elems))"

definition string_of_member :: "'j jansson \<Rightarrow> 'j \<Rightarrow> string \<Rightarrow> string option" where
  "string_of_member J iter tag =
     (case json_object_get J iter tag of
        Some v \<Rightarrow> if json_is_string J v then json_string_value J v else None
      | None \<Rightarrow> None)"

fun show_iface_loop :: "'j jansson \<Rightarrow> (nat \<times> 'j) list \<Rightarrow> string" where
  "show_iface_loop J [] = nl"
| "show_iface_loop J ((i, iter) # rest) =
     (case (string_of_member J iter TAG_TYPE, string_of_member J iter TAG_FAMILY, string_of_member J iter TAG_ADDRESS) of
        (Some typ, Some fam, Some addr) \<Rightarrow>
          nl @ ''    '' @ show_nat i @ '': '' @ typ @ '' '' @ (if typ \<noteq> fam then fam @ '' '' else []) @ addr @
          show_iface_loop J rest
      | _ \<Rightarrow> '' syntax error'' @ nl)"

definition show_fabric_ifaces :: "'j jansson \<Rightarrow> 'j \<Rightarrow> string exec" where
  "show_fabric_ifaces J parent =
     (let elems = member_elems J parent TAG_INTERFACES
      in Inr (if elems = [] then [] else ''  '' @ TAG_INTERFACES @ '':'' @ show_iface_loop J elems))"

definition show_usage_data :: "'j jansson \<Rightarrow> 'j \<Rightarrow> string exec" where
  "show_usage_data J parent = Inr []"

definition mode_text :: "'j jansson \<Rightarrow> 'j \<Rightarrow> string \<Rightarrow> string exec" where
  "mode_text J parent mode =
     (let iface = (\<lambda>title show. prints
            [Inr title, case json_object_get J parent TAG_INTERFACE of
                          None \<Rightarrow> Inr ''Interface undefined'' | Some v \<Rightarrow> show v])
      in if mode = TAG_LOCAL_MGMT then Inr ''Local''
         else if mode = TAG_IN_BAND_MGMT then iface ''In-Band - '' (show_inb_interface J)
         else if mode = TAG_OUT_OF_BAND_MGMT then iface ''Out-of-Band - '' (show_oob_interface J)
         else Inr (nl @ TAG_MGMT_MODE @ '' '' @ mode))"

definition show_target_data :: "'j jansson \<Rightarrow> 'j \<Rightarrow> string exec" where
  "show_target_data J parent =
     if_member J parent TAG_ALIAS (\<lambda>a.
       prints
         [exec_bind (string_text J a) (\<lambda>t. Inr (TAG_TARGET @ '' '' @ squoted t @ '' '')),
          if_member J parent TAG_REFRESH (\<lambda>v.
            let refresh = c_int (json_integer_value J v)
            in Inr (if refresh \<noteq> 0 then TAG_REFRESH @ '' every '' @ show_int refresh @ '' minutes''
                    else TAG_REFRESH @ '' disabled'')),
          (case json_object_get J parent TAG_MGMT_MODE of
             None \<Rightarrow> Inr (nl @ ''  Management Mode: undefined (default to Local)'')
           | Some v \<Rightarrow> exec_bind (string_text J v) (\<lambda>mode.
               prints [Inr (nl @ ''  Management Mode: ''), mode_text J parent mode])),
          Inr nl,
          show_fabric_ifaces J parent,
          show_devices J parent,
          show_portids J parent,
          show_subsystems J parent,
          Inr nl])"

section \<open>Hosts, groups and the controller\<close>

definition show_allowed_list :: "'j jansson \<Rightarrow> 'j \<Rightarrow> string \<Rightarrow> string exec" where
  "show_allowed_list J list tag =
     prints
       (Inr (nl @ ''  '' @ tag @ '': '') #
        map (\<lambda>(i, obj).
          case (string_of_member J obj TAG_ALIAS, string_of_member J obj TAG_SUBNQN) of
            (Some a, Some nqn) \<Rightarrow> Inr ((if i \<noteq> 0 then '', '' else []) @ a @ '' / '' @ nqn)
          | _ \<Rightarrow> Inr []) (List.enumerate 0 (json_elems J list)))"

definition show_host_data :: "'j jansson \<Rightarrow> 'j \<Rightarrow> string exec" where
  "show_host_data J parent =
     if_member J parent TAG_ALIAS (\<lambda>a.
       prints
         [exec_bind (string_text J a) (\<lambda>t. Inr (TAG_HOST @ '' '' @ squoted t)),
          if_member J parent TAG_HOSTNQN (\<lambda>v.
            exec_bind (string_text J v) (\<lambda>t. Inr ('', '' @ TAG_HOSTNQN @ '' '' @ squoted t))),
          if_member J parent TAG_SHARED (\<lambda>l. show_allowed_list J l TAG_SHARED),
          if_member J parent TAG_RESTRICTED (\<lambda>l. show_allowed_list J l TAG_RESTRICTED),
          Inr nl])"

definition show_group_data :: "'j jansson \<Rightarrow> 'j \<Rightarrow> string exec" where
  "show_group_data J parent =
     (case json_object_get J parent TAG_NAME of
        None \<Rightarrow> Inr (''no '' @ TAG_GROUP @ '' name?'' @ nl)
      | Some v \<Rightarrow>
          prints
            [exec_bind (string_text J v) (\<lambda>t. Inr (TAG_GROUP @ '' '' @ squoted t @ nl)),
             Inr (TAG_TARGETS @ '':'' @ nl),
             show_target_list J parent 1,
             Inr (TAG_HOSTS @ '':'' @ nl),
             show_host_list J parent 1,
             Inr nl])"

text \<open>The type of an interface keeps its value for a following one that has none.\<close>

fun show_config_loop :: "'j jansson \<Rightarrow> (nat \<times> 'j) list \<Rightarrow> string option \<Rightarrow> string exec" where
  "show_config_loop J [] typ = Inr nl"
| "show_config_loop J ((i, iter) # rest) typ =
     (case json_object_get J iter TAG_ID of
        None \<Rightarrow> show_config_loop J rest typ
      | Some v \<Rightarrow>
          prints
            [Inr ((if i \<noteq> 0 then nl else []) @ show_int (json_integer_value J v) @ '': ''),
             string_member J iter TAG_TYPE,
             family_text J iter (type_value J iter typ),
             if_member J iter TAG_ADDRESS (string_text J),
             if_member J iter TAG_TRSVCID (\<lambda>v. Inr ('':'' @ show_int (json_integer_value J v))),
             show_config_loop J rest (type_value J iter typ)])"

definition show_config :: "'j jansson \<Rightarrow> 'j \<Rightarrow> string exec" where
  "show_config J parent =
     (let elems = member_elems J parent TAG_INTERFACES
      in if elems = [] then Inr (''No Interfaces defined'' @ nl) else show_config_loop J elems None)"

end
