(* ===== verification/Getopt.thy ===== *)
theory Getopt
  imports Prelude
begin

text \<open>
  \<^verbatim>\<open>getopt\<close> of the C library, as the programs of the repository call it: the options without a value and the
  options with one are given as two strings. The result is the options that were given, in order, and the
  other arguments. Options may stand after other arguments; two dashes end them. An option that is not known,
  or one whose value is missing, is reported as a question mark.
\<close>

fun getopt_cluster :: "string \<Rightarrow> string \<Rightarrow> string \<Rightarrow> (char \<times> string) list \<times> (char \<times> string) option" where
  "getopt_cluster flags valued [] = ([], None)"
| "getopt_cluster flags valued (c # cs) =
     (if c \<in> set valued then ([], Some (c, cs))
      else case getopt_cluster flags valued cs of (fs, v) \<Rightarrow> ((if c \<in> set flags then c else CHR ''?'', []) # fs, v))"

fun getopt :: "string \<Rightarrow> string \<Rightarrow> string list \<Rightarrow> (char \<times> string) list \<times> string list" where
  "getopt flags valued [] = ([], [])"
| "getopt flags valued (a # rest) =
     (if a = ''--'' then ([], rest)
      else if length a \<ge> 2 \<and> take 1 a = ''-''
      then
        case getopt_cluster flags valued (drop 1 a) of (fs, v) \<Rightarrow>
          case v of
            Some (c, []) \<Rightarrow>
              (case rest of
                 [] \<Rightarrow> (fs @ [(CHR ''?'', [])], [])
               | w # rest' \<Rightarrow> (case getopt flags valued rest' of (opts, args) \<Rightarrow> (fs @ (c, w) # opts, args)))
          | Some (c, w) \<Rightarrow> (case getopt flags valued rest of (opts, args) \<Rightarrow> (fs @ (c, w) # opts, args))
          | None \<Rightarrow> (case getopt flags valued rest of (opts, args) \<Rightarrow> (fs @ opts, args))
      else case getopt flags valued rest of (opts, args) \<Rightarrow> (opts, a # args))"

text \<open>A word that is not taken for an option.\<close>

definition plain_word :: "string \<Rightarrow> bool" where
  "plain_word w = (take 1 w \<noteq> ''-'')"

lemma getopt_plain: "list_all plain_word args \<Longrightarrow> getopt flags valued args = ([], args)"
proof (induction args)
  case (Cons a args)
  then have "take 1 a \<noteq> ''-''" by (simp add: plain_word_def)
  then have "a \<noteq> ''--''" by auto
  with Cons \<open>take 1 a \<noteq> ''-''\<close> show ?case by simp
qed simp

end
