(* ===== verification/Cli.thy ===== *)
theory Cli
  imports Cli_Show Getopt Restful
begin

text \<open>
  The command line client (\<^verbatim>\<open>src/src/cli/cli.c\<close>): the table of commands, the requests each one sends to
  the controller, and the choice of the command. The five functions of the HTTP client
  (\<^verbatim>\<open>src/src/common/curl.c\<close>) are the parameter \<open>H\<close>; the client is built with \<^verbatim>\<open>DEM_CLI\<close>. A command
  works on the world behind the HTTP client, the text printed and the text typed.
\<close>

section \<open>State\<close>

record 'w http_client =
  hc_get :: "string \<Rightarrow> 'w \<Rightarrow> int \<times> string \<times> 'w"
  hc_put :: "string \<Rightarrow> string \<Rightarrow> 'w \<Rightarrow> int \<times> 'w"
  hc_post :: "string \<Rightarrow> string \<Rightarrow> 'w \<Rightarrow> int \<times> 'w"
  hc_delete :: "string \<Rightarrow> 'w \<Rightarrow> int \<times> 'w"
  hc_patch :: "string \<Rightarrow> string \<Rightarrow> 'w \<Rightarrow> int \<times> 'w"

record 'w cli =
  cl_world :: 'w
  cl_out :: string
  cl_in :: string

text \<open>The variables the options set: \<open>co_formatted\<close> is \<^verbatim>\<open>HUMAN\<close>, \<^verbatim>\<open>RAW\<close> or \<^verbatim>\<open>JSON\<close>.\<close>

record cli_options =
  co_server :: string
  co_port :: string
  co_prompt_deletes :: bool
  co_formatted :: int

type_synonym 'w cmd = "'w cli \<Rightarrow> (int \<times> 'w cli) exec"

definition HUMAN :: int where "HUMAN = 0"
definition RAW :: int where "RAW = -1"
definition JSON :: int where "JSON = 1"

definition DEFAULT_HTTP_ADDR :: string where "DEFAULT_HTTP_ADDR = ''127.0.0.1''"
definition DEFAULT_HTTP_PORT :: string where "DEFAULT_HTTP_PORT = ''22345''"

definition default_options :: cli_options where
  "default_options = \<lparr>co_server = DEFAULT_HTTP_ADDR, co_port = DEFAULT_HTTP_PORT, co_prompt_deletes = True, co_formatted = HUMAN\<rparr>"

definition say :: "string \<Rightarrow> 'w cli \<Rightarrow> 'w cli" where
  "say t s = s\<lparr>cl_out := cl_out s @ t\<rparr>"

section \<open>URLs and bodies\<close>

text \<open>\<^verbatim>\<open>snprintf\<close> into the array \<^verbatim>\<open>url\<close> of 128 bytes, for parts separated by slashes.\<close>

definition cli_url :: "string \<Rightarrow> string list \<Rightarrow> string" where
  "cli_url base parts = take 127 (base @ join_uri parts)"

text \<open>
  A body printed into an array of \<open>sz\<close> bytes and sent with the length \<^verbatim>\<open>snprintf\<close> returned, which is
  that of the whole text: a text that fills the array ends with the terminator, and a longer one is
  read beyond the array.
\<close>

definition cli_data :: "nat \<Rightarrow> string \<Rightarrow> string exec" where
  "cli_data sz t =
     (if length t < sz then Inr t
      else if length t = sz then Inr (take (sz - 1) t @ [CHR 0x00])
      else Inl Buffer_overflow)"

definition send :: "(string \<Rightarrow> 'w \<Rightarrow> int \<times> 'w) \<Rightarrow> string \<Rightarrow> 'w cmd" where
  "send req url s = (case req url (cl_world s) of (ret, w) \<Rightarrow> Inr (ret, s\<lparr>cl_world := w\<rparr>))"

definition send_data :: "(string \<Rightarrow> string \<Rightarrow> 'w \<Rightarrow> int \<times> 'w) \<Rightarrow> string \<Rightarrow> nat \<Rightarrow> string \<Rightarrow> 'w cmd" where
  "send_data req url sz t s = exec_bind (cli_data sz t) (\<lambda>data. send (\<lambda>u. req u data) url s)"

text \<open>\<^verbatim>\<open>exec_post(url, NULL, 0)\<close>\<close>

definition post_empty :: "'w http_client \<Rightarrow> string \<Rightarrow> 'w cmd" where
  "post_empty H url s = send (\<lambda>u. hc_post H u []) url s"

text \<open>The commands that show something differ in the function for readable output.\<close>

definition get_and_show ::
  "'w http_client \<Rightarrow> 'j jansson \<Rightarrow> cli_options \<Rightarrow> ('j \<Rightarrow> string exec) \<Rightarrow> string \<Rightarrow> 'w cmd" where
  "get_and_show H J opt show url s =
     (case hc_get H url (cl_world s) of (ret, result, w) \<Rightarrow>
        let s = s\<lparr>cl_world := w\<rparr> in
        if ret \<noteq> 0 then Inr (ret, s)
        else if co_formatted opt = RAW then Inr (0, say (result @ nl) s)
        else case json_loads J result of
               None \<Rightarrow> Inr (0, say (result @ nl) s)
             | Some parent \<Rightarrow>
                 if co_formatted opt \<noteq> 0 then Inr (0, say (json_dumps J parent @ nl) s)
                 else exec_bind (show parent) (\<lambda>t. Inr (0, say t s)))"

text \<open>\<^verbatim>\<open>cancel_delete\<close>: at the end of the input \<^verbatim>\<open>getchar\<close> returns a value that is no \<^verbatim>\<open>y\<close>.\<close>

definition cancel_delete :: "'w cli \<Rightarrow> bool \<times> 'w cli" where
  "cancel_delete s =
     (case cl_in s of
        [] \<Rightarrow> (True, s)
      | c # cs \<Rightarrow> (c \<noteq> CHR ''y'' \<and> c \<noteq> CHR ''Y'', s\<lparr>cl_in := cs\<rparr>))"

definition DELETE_PROMPT :: string where
  "DELETE_PROMPT = ''Are you sure you want to delete ''"

definition confirmed :: "cli_options \<Rightarrow> string \<Rightarrow> 'w cmd \<Rightarrow> 'w cmd" where
  "confirmed opt question run s =
     (if co_prompt_deletes opt
      then case cancel_delete (say (DELETE_PROMPT @ question @ ''? (N/y) '') s) of (cancel, s) \<Rightarrow>
             if cancel then Inr (0, s) else run s
      else run s)"

text \<open>The loops of the deletions: what a single deletion returns is not looked at.\<close>

definition delete_each :: "'w http_client \<Rightarrow> ('a \<Rightarrow> string) \<Rightarrow> 'a list \<Rightarrow> 'w cmd" where
  "delete_each H url xs s =
     exec_bind (each (\<lambda>x s. exec_bind (send (hc_delete H) (url x) s) (\<lambda>(_, s). Inr s)) xs s) (\<lambda>s. Inr (0, s))"

text \<open>The arguments of a command; \<^verbatim>\<open>main\<close> calls it only with as many as the table says.\<close>

definition need :: "nat \<Rightarrow> string list \<Rightarrow> 'a exec \<Rightarrow> 'a exec" where
  "need k p e = (if k \<le> length p then e else Inl Null_deref)"

section \<open>The controller\<close>

definition dem_config :: "'w http_client \<Rightarrow> 'j jansson \<Rightarrow> cli_options \<Rightarrow> string \<Rightarrow> string list \<Rightarrow> 'w cmd" where
  "dem_config H J opt base p = get_and_show H J opt (show_config J) base"

definition dem_shutdown :: "'w http_client \<Rightarrow> string \<Rightarrow> string list \<Rightarrow> 'w cmd" where
  "dem_shutdown H base p = post_empty H (cli_url base [METHOD_SHUTDOWN])"

section \<open>Groups\<close>

definition list_group_cli :: "'w http_client \<Rightarrow> 'j jansson \<Rightarrow> cli_options \<Rightarrow> string \<Rightarrow> string list \<Rightarrow> 'w cmd" where
  "list_group_cli H J opt url p = get_and_show H J opt (show_group_list J) url"

definition add_group_cli :: "'w http_client \<Rightarrow> string \<Rightarrow> string list \<Rightarrow> 'w cmd" where
  "add_group_cli H base p s = need 1 p (post_empty H (cli_url base [p ! 0]) s)"

definition get_group_cli :: "'w http_client \<Rightarrow> 'j jansson \<Rightarrow> cli_options \<Rightarrow> string \<Rightarrow> string list \<Rightarrow> 'w cmd" where
  "get_group_cli H J opt base p s = need 1 p (get_and_show H J opt (show_group_data J) (cli_url base [p ! 0]) s)"

definition set_group_cli :: "'w http_client \<Rightarrow> string \<Rightarrow> string list \<Rightarrow> 'w cmd" where
  "set_group_cli H url p s = need 1 p (send_data (hc_put H) url 256 (''{'' @ js_str TAG_NAME (p ! 0) @ ''}'') s)"

definition these_or_one :: "string \<Rightarrow> string list \<Rightarrow> string" where
  "these_or_one tag p = (if length p > 1 then ''these '' @ tag @ ''s'' else tag @ '' '' @ squoted (p ! 0))"

definition del_group_cli :: "'w http_client \<Rightarrow> cli_options \<Rightarrow> string \<Rightarrow> string list \<Rightarrow> 'w cmd" where
  "del_group_cli H opt base p s =
     need 1 p (confirmed opt (these_or_one TAG_GROUP p) (delete_each H (\<lambda>a. cli_url base [a]) p) s)"

definition rename_group_cli :: "'w http_client \<Rightarrow> string \<Rightarrow> string list \<Rightarrow> 'w cmd" where
  "rename_group_cli H base p s =
     need 2 p (send_data (hc_patch H) (cli_url base [p ! 0]) 256 (''{'' @ js_str TAG_NAME (p ! 1) @ '' }'') s)"

section \<open>Targets\<close>

definition list_target_cli :: "'w http_client \<Rightarrow> 'j jansson \<Rightarrow> cli_options \<Rightarrow> string \<Rightarrow> string list \<Rightarrow> 'w cmd" where
  "list_target_cli H J opt url p = get_and_show H J opt (\<lambda>v. show_target_list J v 0) url"

definition add_target_cli :: "'w http_client \<Rightarrow> string \<Rightarrow> string list \<Rightarrow> 'w cmd" where
  "add_target_cli H base p s = need 1 p (post_empty H (cli_url base [p ! 0]) s)"

definition get_target_cli :: "'w http_client \<Rightarrow> 'j jansson \<Rightarrow> cli_options \<Rightarrow> string \<Rightarrow> string list \<Rightarrow> 'w cmd" where
  "get_target_cli H J opt base p s = need 1 p (get_and_show H J opt (show_target_data J) (cli_url base [p ! 0]) s)"

definition set_target_cli :: "'w http_client \<Rightarrow> string \<Rightarrow> string list \<Rightarrow> 'w cmd" where
  "set_target_cli H base p s = need 1 p (send_data (hc_put H) base 256 (''{'' @ js_str TAG_ALIAS (p ! 0) @ ''}'') s)"

definition set_inb_mgmt :: "'w http_client \<Rightarrow> string \<Rightarrow> string list \<Rightarrow> 'w cmd" where
  "set_inb_mgmt H base p s =
     need 5 p (send_data (hc_patch H) (cli_url base [p ! 0]) 256
       (''{'' @ js_str TAG_MGMT_MODE TAG_IN_BAND_MGMT @ '','' @ dquoted TAG_INTERFACE @ '':'' @
        ''{'' @ js_str TAG_TYPE (p ! 1) @ '','' @ js_str TAG_FAMILY (p ! 2) @ '','' @ js_str TAG_ADDRESS (p ! 3) @ '','' @
        js_int TAG_TRSVCID (atoi (p ! 4)) @ ''}}'') s)"

definition set_oob_mgmt :: "'w http_client \<Rightarrow> string \<Rightarrow> string list \<Rightarrow> 'w cmd" where
  "set_oob_mgmt H base p s =
     need 4 p (send_data (hc_patch H) (cli_url base [p ! 0]) 256
       (''{'' @ js_str TAG_MGMT_MODE TAG_OUT_OF_BAND_MGMT @ '','' @ dquoted TAG_INTERFACE @ '':'' @
        ''{'' @ js_str TAG_IFFAMILY (p ! 1) @ '','' @ js_str TAG_IFADDRESS (p ! 2) @ '','' @
        js_int TAG_IFPORT (atoi (p ! 3)) @ ''}}'') s)"

definition set_local_mgmt :: "'w http_client \<Rightarrow> string \<Rightarrow> string list \<Rightarrow> 'w cmd" where
  "set_local_mgmt H base p s =
     need 1 p (send_data (hc_patch H) (cli_url base [p ! 0]) 256
       (''{'' @ js_str TAG_MGMT_MODE TAG_LOCAL_MGMT @ ''}'') s)"

definition set_refresh :: "'w http_client \<Rightarrow> string \<Rightarrow> string list \<Rightarrow> 'w cmd" where
  "set_refresh H base p s =
     need 2 p (send_data (hc_patch H) (cli_url base [p ! 0]) 256 (''{'' @ js_int TAG_REFRESH (atoi (p ! 1)) @ ''}'') s)"

definition del_target_cli :: "'w http_client \<Rightarrow> cli_options \<Rightarrow> string \<Rightarrow> string list \<Rightarrow> 'w cmd" where
  "del_target_cli H opt base p s =
     need 1 p (confirmed opt (these_or_one TAG_TARGET p) (delete_each H (\<lambda>a. cli_url base [a]) p) s)"

definition rename_target_cli :: "'w http_client \<Rightarrow> string \<Rightarrow> string list \<Rightarrow> 'w cmd" where
  "rename_target_cli H base p s =
     need 2 p (send_data (hc_patch H) (cli_url base [p ! 0]) 256 (''{'' @ js_str TAG_ALIAS (p ! 1) @ ''}'') s)"

definition refresh_target_cli :: "'w http_client \<Rightarrow> string \<Rightarrow> string list \<Rightarrow> 'w cmd" where
  "refresh_target_cli H base p s = need 1 p (post_empty H (cli_url base [p ! 0, METHOD_REFRESH]) s)"

definition reconfig_target :: "'w http_client \<Rightarrow> string \<Rightarrow> string list \<Rightarrow> 'w cmd" where
  "reconfig_target H base p s = need 1 p (post_empty H (cli_url base [p ! 0, METHOD_RECONFIG]) s)"

definition link_target_cli :: "'w http_client \<Rightarrow> string \<Rightarrow> string list \<Rightarrow> 'w cmd" where
  "link_target_cli H base p s = need 2 p (post_empty H (cli_url base [p ! 1, URI_TARGET, p ! 0]) s)"

definition from_group :: "string \<Rightarrow> string \<Rightarrow> string \<Rightarrow> string" where
  "from_group tag name grp = tag @ '' '' @ squoted name @ '' from '' @ TAG_GROUP @ '' '' @ squoted grp"

definition unlink_target_cli :: "'w http_client \<Rightarrow> cli_options \<Rightarrow> string \<Rightarrow> string list \<Rightarrow> 'w cmd" where
  "unlink_target_cli H opt base p s =
     need 2 p (confirmed opt (from_group TAG_TARGET (p ! 0) (p ! 1))
       (send (hc_delete H) (cli_url base [p ! 1, URI_TARGET, p ! 0])) s)"

definition usage_target_cli :: "'w http_client \<Rightarrow> 'j jansson \<Rightarrow> cli_options \<Rightarrow> string \<Rightarrow> string list \<Rightarrow> 'w cmd" where
  "usage_target_cli H J opt base p s =
     need 1 p (get_and_show H J opt (show_usage_data J) (cli_url base [p ! 0, URI_USAGE]) s)"

section \<open>Subsystems, ports, access lists and namespaces\<close>

definition add_subsys_cli :: "'w http_client \<Rightarrow> string \<Rightarrow> string list \<Rightarrow> 'w cmd" where
  "add_subsys_cli H base p s = need 2 p (post_empty H (cli_url base [p ! 0, URI_SUBSYSTEM, p ! 1]) s)"

definition set_subsys_cli :: "'w http_client \<Rightarrow> string \<Rightarrow> string list \<Rightarrow> 'w cmd" where
  "set_subsys_cli H base p s =
     need 3 p (send_data (hc_put H) (cli_url base [p ! 0, URI_SUBSYSTEM]) 256
       (''{'' @ js_str TAG_SUBNQN (p ! 1) @ '','' @ js_int TAG_ALLOW_ANY (atoi (p ! 2)) @ ''}'') s)"

definition edit_subsys :: "'w http_client \<Rightarrow> string \<Rightarrow> string list \<Rightarrow> 'w cmd" where
  "edit_subsys H base p s =
     need 3 p (send_data (hc_put H) (cli_url base [p ! 0, URI_SUBSYSTEM, p ! 1]) 256
       (''{'' @ js_int TAG_ALLOW_ANY (atoi (p ! 2)) @ ''}'') s)"

definition these_from_target :: "string \<Rightarrow> string \<Rightarrow> string" where
  "these_from_target tags target = ''these '' @ tags @ '' from '' @ TAG_TARGET @ '' '' @ squoted target"

definition del_subsys_cli :: "'w http_client \<Rightarrow> cli_options \<Rightarrow> string \<Rightarrow> string list \<Rightarrow> 'w cmd" where
  "del_subsys_cli H opt base p s =
     need 1 p (confirmed opt (these_from_target TAG_SUBSYSTEMS (p ! 0))
       (delete_each H (\<lambda>nqn. cli_url base [p ! 0, URI_SUBSYSTEM, nqn]) (drop 1 p)) s)"

definition rename_subsys :: "'w http_client \<Rightarrow> string \<Rightarrow> string list \<Rightarrow> 'w cmd" where
  "rename_subsys H base p s =
     need 3 p (send_data (hc_patch H) (cli_url base [p ! 0, URI_SUBSYSTEM, p ! 1]) 256
       (''{'' @ js_str TAG_SUBNQN (p ! 2) @ ''}'') s)"

text \<open>The members that describe the transport of a port.\<close>

definition transport_data :: "string \<Rightarrow> string \<Rightarrow> string \<Rightarrow> int \<Rightarrow> string" where
  "transport_data typ family address trsvcid =
     js_str TAG_TYPE typ @ '','' @ js_str TAG_FAMILY family @ '','' @ js_str TAG_ADDRESS address @ '','' @
     js_int TAG_TRSVCID trsvcid"

definition set_portid_cli :: "'w http_client \<Rightarrow> string \<Rightarrow> string list \<Rightarrow> 'w cmd" where
  "set_portid_cli H base p s =
     need 6 p (send_data (hc_put H) (cli_url base [p ! 0, URI_PORTID]) 256
       (''{'' @ js_int TAG_PORTID (atoi (p ! 1)) @ '','' @ transport_data (p ! 2) (p ! 3) (p ! 4) (atoi (p ! 5)) @ ''}'') s)"

definition edit_portid :: "'w http_client \<Rightarrow> string \<Rightarrow> string list \<Rightarrow> 'w cmd" where
  "edit_portid H base p s =
     need 6 p (send_data (hc_put H) (cli_url base [p ! 0, URI_PORTID, show_int (atoi (p ! 1))]) 256
       (''{'' @ transport_data (p ! 2) (p ! 3) (p ! 4) (atoi (p ! 5)) @ ''}'') s)"

definition del_portid_cli :: "'w http_client \<Rightarrow> cli_options \<Rightarrow> string \<Rightarrow> string list \<Rightarrow> 'w cmd" where
  "del_portid_cli H opt base p s =
     need 1 p (confirmed opt (these_from_target TAG_PORTIDS (p ! 0))
       (delete_each H (\<lambda>q. cli_url base [p ! 0, URI_PORTID, q]) (drop 1 p)) s)"

definition set_acl :: "'w http_client \<Rightarrow> string \<Rightarrow> string list \<Rightarrow> 'w cmd" where
  "set_acl H base p s =
     need 3 p (send_data (hc_put H) (cli_url base [p ! 0, URI_SUBSYSTEM, p ! 1, URI_HOST]) 384
       (''{'' @ js_str TAG_ALIAS (p ! 2) @ ''}'') s)"

definition these_from_subsys :: "string \<Rightarrow> string \<Rightarrow> string \<Rightarrow> string" where
  "these_from_subsys tags ss target =
     ''these '' @ tags @ '' from '' @ TAG_SUBSYSTEM @ '' '' @ squoted ss @ '' on '' @ TAG_TARGET @ '' '' @ squoted target"

definition del_acl :: "'w http_client \<Rightarrow> cli_options \<Rightarrow> string \<Rightarrow> string list \<Rightarrow> 'w cmd" where
  "del_acl H opt base p s =
     need 2 p (confirmed opt (these_from_subsys TAG_HOSTS (p ! 1) (p ! 0))
       (delete_each H (\<lambda>h. cli_url base [p ! 0, URI_SUBSYSTEM, p ! 1, URI_HOST, h]) (drop 2 p)) s)"

definition set_ns_cli :: "'w http_client \<Rightarrow> string \<Rightarrow> string list \<Rightarrow> 'w cmd" where
  "set_ns_cli H base p s =
     need 5 p (
       let devid = (if p ! 3 \<noteq> ''nullb0'' then atoi (p ! 3) else -1)
       in send_data (hc_put H) (cli_url base [p ! 0, URI_SUBSYSTEM, p ! 1, URI_NSID]) 256
            (''{'' @ js_int TAG_NSID (atoi (p ! 2)) @ '','' @ js_int TAG_DEVID devid @ '','' @
             js_int TAG_DEVNSID (atoi (p ! 4)) @ ''}'') s)"

definition del_ns_cli :: "'w http_client \<Rightarrow> cli_options \<Rightarrow> string \<Rightarrow> string list \<Rightarrow> 'w cmd" where
  "del_ns_cli H opt base p s =
     need 2 p (confirmed opt (these_from_subsys TAG_NSIDS (p ! 1) (p ! 0))
       (let base_url = cli_url base [p ! 0, URI_SUBSYSTEM, p ! 1, URI_NSID]
        in delete_each H (\<lambda>n. cli_url base_url [show_int (atoi n)]) (drop 2 p)) s)"

section \<open>Hosts\<close>

definition list_host_cli :: "'w http_client \<Rightarrow> 'j jansson \<Rightarrow> cli_options \<Rightarrow> string \<Rightarrow> string list \<Rightarrow> 'w cmd" where
  "list_host_cli H J opt url p = get_and_show H J opt (\<lambda>v. show_host_list J v 0) url"

definition add_host_cli :: "'w http_client \<Rightarrow> string \<Rightarrow> string list \<Rightarrow> 'w cmd" where
  "add_host_cli H base p s = need 1 p (post_empty H (cli_url base [p ! 0]) s)"

definition get_host_cli :: "'w http_client \<Rightarrow> 'j jansson \<Rightarrow> cli_options \<Rightarrow> string \<Rightarrow> string list \<Rightarrow> 'w cmd" where
  "get_host_cli H J opt base p s = need 1 p (get_and_show H J opt (show_host_data J) (cli_url base [p ! 0]) s)"

definition set_host_cli :: "'w http_client \<Rightarrow> string \<Rightarrow> string list \<Rightarrow> 'w cmd" where
  "set_host_cli H url p s =
     need 2 p (send_data (hc_put H) url 256 (''{'' @ js_str TAG_ALIAS (p ! 0) @ '','' @ js_str TAG_HOSTNQN (p ! 1) @ ''}'') s)"

definition edit_host :: "'w http_client \<Rightarrow> string \<Rightarrow> string list \<Rightarrow> 'w cmd" where
  "edit_host H base p s =
     need 2 p (send_data (hc_put H) (cli_url base [p ! 0]) 256 (''{'' @ js_str TAG_HOSTNQN (p ! 1) @ ''}'') s)"

definition del_host_cli :: "'w http_client \<Rightarrow> cli_options \<Rightarrow> string \<Rightarrow> string list \<Rightarrow> 'w cmd" where
  "del_host_cli H opt base p s =
     need 1 p (confirmed opt (these_or_one TAG_HOST p) (delete_each H (\<lambda>a. cli_url base [a]) p) s)"

definition rename_host :: "'w http_client \<Rightarrow> string \<Rightarrow> string list \<Rightarrow> 'w cmd" where
  "rename_host H base p s =
     need 2 p (send_data (hc_patch H) (cli_url base [p ! 0]) 256 (''{'' @ js_str TAG_ALIAS (p ! 1) @ ''}'') s)"

definition link_host_cli :: "'w http_client \<Rightarrow> string \<Rightarrow> string list \<Rightarrow> 'w cmd" where
  "link_host_cli H base p s = need 2 p (post_empty H (cli_url base [p ! 1, URI_HOST, p ! 0]) s)"

definition unlink_host_cli :: "'w http_client \<Rightarrow> cli_options \<Rightarrow> string \<Rightarrow> string list \<Rightarrow> 'w cmd" where
  "unlink_host_cli H opt base p s =
     need 2 p (confirmed opt (from_group TAG_HOST (p ! 0) (p ! 1))
       (send (hc_delete H) (cli_url base [p ! 1, URI_HOST, p ! 0])) s)"

section \<open>The table of commands\<close>

datatype entity = DEM | TARGET | HOST | GROUP

definition groups_uri :: "entity \<Rightarrow> string" where
  "groups_uri t = (case t of DEM \<Rightarrow> URI_DEM | TARGET \<Rightarrow> URI_TARGET | HOST \<Rightarrow> URI_HOST | GROUP \<Rightarrow> URI_GROUP)"

record 'w verbs =
  vb_function :: "string \<Rightarrow> string list \<Rightarrow> 'w cmd"
  vb_target :: entity
  vb_num_args :: int
  vb_verb :: string
  vb_object :: "string option"
  vb_args :: "string option"
  vb_help :: string

definition verb ::
  "(string \<Rightarrow> string list \<Rightarrow> 'w cmd) \<Rightarrow> entity \<Rightarrow> int \<Rightarrow> string \<Rightarrow> string option \<Rightarrow> string option \<Rightarrow> string \<Rightarrow> 'w verbs" where
  "verb f t n v ob ar h =
     \<lparr>vb_function = f, vb_target = t, vb_num_args = n, vb_verb = v, vb_object = ob, vb_args = ar, vb_help = h\<rparr>"

definition verb_list :: "'w http_client \<Rightarrow> 'j jansson \<Rightarrow> cli_options \<Rightarrow> 'w verbs list" where
  "verb_list H J opt =
     [
      verb (dem_config H J opt) DEM 0 ''config'' None None
        ''show dem configuration including interfaces'',
      verb (dem_shutdown H) DEM 0 ''shutdown'' None None
        ''signal the dem to shutdown'',
      verb (list_group_cli H J opt) GROUP 0 ''list'' (Some ''group'') None
        ''list all groups'',
      verb (add_group_cli H) GROUP 1 ''add'' (Some ''group'') (Some ''<name>'')
        ''create a group (using POST)'',
      verb (set_group_cli H) GROUP 1 ''set'' (Some ''group'') (Some ''<name>'')
        ''create a group (using PUT)'',
      verb (get_group_cli H J opt) GROUP 1 ''get'' (Some ''group'') (Some ''<name>'')
        ''show the targets and hosts associated with a group'',
      verb (del_group_cli H opt) GROUP (-1) ''delete'' (Some ''group'') (Some ''<name> {<name> ...}'')
        ''delete group(s) and all associated links'',
      verb (rename_group_cli H) GROUP 2 ''rename'' (Some ''group'') (Some ''<old> <new>'')
        ''rename a group (using PATCH)'',
      verb (list_target_cli H J opt) TARGET 0 ''list'' (Some ''target'') None
        ''list all targets'',
      verb (add_target_cli H) TARGET 1 ''add'' (Some ''target'') (Some ''<alias>'')
        ''create a target (using POST)'',
      verb (set_target_cli H) TARGET 1 ''set'' (Some ''target'') (Some ''<alias>'')
        ''create a target (using PUT)'',
      verb (get_target_cli H J opt) TARGET 1 ''get'' (Some ''target'') (Some ''<alias>'')
        (''show the specified target e.g. ports, subsys'' @ [CHR 0x27] @ ''s, and ns'' @ [CHR 0x27] @ ''s''),
      verb (del_target_cli H opt) TARGET (-1) ''delete'' (Some ''target'') (Some ''<alias> {<alias> ...}'')
        ''delete target(s) and all associated subsystems and port ids'',
      verb (set_local_mgmt H) TARGET 1 ''set'' (Some ''local'') (Some ''<alias>'')
        (''update a target'' @ [CHR 0x27] @ ''s management mode to local''),
      verb (set_inb_mgmt H) TARGET 5 ''set'' (Some ''inband'') (Some ''<alias> <trtype> <adrfam> <traddr> <trsvcid>'')
        (''update a target'' @ [CHR 0x27] @ ''s management mode to in-of-band''),
      verb (set_oob_mgmt H) TARGET 4 ''set'' (Some ''outofband'') (Some ''<alias> <family> <address> <port>'')
        (''update a target'' @ [CHR 0x27] @ ''s management mode to out-of-band''),
      verb (set_refresh H) TARGET 2 ''set'' (Some ''refresh'') (Some ''<alias> <refresh>'')
        (''update a target'' @ [CHR 0x27] @ ''s refresh rate in minutes''),
      verb (rename_target_cli H) TARGET 2 ''rename'' (Some ''target'') (Some ''<old> <new>'')
        ''rename a target in the specified group (using PATCH)'',
      verb (refresh_target_cli H) TARGET 1 ''refresh'' (Some ''target'') (Some ''<alias>'')
        ''signal the dem to refresh the log pages of a target'',
      verb (reconfig_target H) TARGET 1 ''reconfigure'' (Some ''target'') (Some ''<alias>'')
        ''signal the dem to reconfigure the target'',
      verb (usage_target_cli H J opt) TARGET 1 ''usage'' (Some ''target'') (Some ''<alias>'')
        ''get usage for subsystems of a target'',
      verb (link_target_cli H) GROUP 2 ''link'' (Some ''target'') (Some ''<alias> <group>'')
        ''link a target to a group (using PUT)'',
      verb (unlink_target_cli H opt) GROUP 2 ''unlink'' (Some ''target'') (Some ''<alias> <group>'')
        ''unlink a target from a group (using PUT)'',
      verb (add_subsys_cli H) TARGET 2 ''add'' (Some ''subsystem'') (Some ''<alias> <subnqn>'')
        ''create a subsystem on a target (using POST)'',
      verb (set_subsys_cli H) TARGET 3 ''set'' (Some ''subsystem'') (Some ''<alias> <subnqn> <allow_any>'')
        ''create a subsystem on a target (using PUT)'',
      verb (edit_subsys H) TARGET 3 ''edit'' (Some ''subsystem'') (Some ''<alias> <subnqn> <allow_any>'')
        ''update an existing subsystem on a target (using PUT)'',
      verb (del_subsys_cli H opt) TARGET (-2) ''delete'' (Some ''subsystem'') (Some ''<alias> <subnqn> {<subnqn> ...}'')
        ''delete subsystems from a target (one at a time)'',
      verb (rename_subsys H) TARGET 3 ''rename'' (Some ''subsystem'') (Some ''<alias> <subnqn> <newnqn>'')
        ''rename a subsustem on a target (using PATCH)'',
      verb (set_portid_cli H) TARGET 6 ''set'' (Some ''portid'') (Some ''<alias> <portid> <trtype> <adrfam> <traddr> <trsrvid>'')
        ''create a port on a target (using PUT)'',
      verb (edit_portid H) TARGET 6 ''edit'' (Some ''portid'') (Some ''<alias> <portid> <trtype> <adrfam> <traddr> <trsrvid>'')
        ''update a port on a target (using PUT)'',
      verb (del_portid_cli H opt) TARGET (-2) ''delete'' (Some ''portid'') (Some ''<alias> <portid> {<portid> ...}'')
        ''delete ports from a target (one at a time)'',
      verb (set_acl H) TARGET 3 ''set'' (Some ''acl'') (Some ''<target_alias> <subnqn> <host_alias>'')
        ''allow a host access to a subsystem/target (using PUT)'',
      verb (del_acl H opt) TARGET (-3) ''delete'' (Some ''acl'') (Some ''<target_alias> <subnqn> <host_alias> {<host_alias> ...}'')
        ''delete hosts from access to a subsystem/target'',
      verb (set_ns_cli H) TARGET 5 ''set'' (Some ''ns'') (Some ''<alias> <subnqn> <nsid> <devid> <devnsid>'')
        ''create a namespace in a subsys on a target (using PUT)'',
      verb (del_ns_cli H opt) TARGET (-3) ''delete'' (Some ''ns'') (Some ''<alias> <subnqn> <nsid> {<nsid> ...}'')
        ''delete namespaces from a subsys on a target (one at a time)'',
      verb (list_host_cli H J opt) HOST 0 ''list'' (Some ''host'') None
        ''list all hosts'',
      verb (add_host_cli H) HOST 1 ''add'' (Some ''host'') (Some ''<alias>'')
        ''create a host (using POST)'',
      verb (get_host_cli H J opt) HOST 1 ''get'' (Some ''host'') (Some ''<alias>'')
        ''show the specified host'',
      verb (set_host_cli H) HOST 2 ''set'' (Some ''host'') (Some ''<alias> <hostnqn>'')
        ''create a host (using PUT)'',
      verb (edit_host H) HOST 2 ''edit'' (Some ''host'') (Some ''<alias> <hostnqn>'')
        ''update a host (using PUT)'',
      verb (del_host_cli H opt) HOST (-1) ''delete'' (Some ''host'') (Some ''<alias> {<alias> ...}'')
        ''delete hosts (one at a time)'',
      verb (rename_host H) HOST 2 ''rename'' (Some ''host'') (Some ''<alias> <new_alias>'')
        ''rename a host (using PATCH)'',
      verb (link_host_cli H) GROUP 2 ''link'' (Some ''host'') (Some ''<alias> <group>'')
        ''link a host to a group (using PUT)'',
      verb (unlink_host_cli H opt) GROUP 2 ''unlink'' (Some ''host'') (Some ''<alias> <group>'')
        ''unlink a host from a group (using PUT)'']"

definition verb_enabled :: "'w verbs \<Rightarrow> bool \<Rightarrow> bool" where
  "verb_enabled p update_enabled =
     (update_enabled \<or> vb_verb p = ''get'' \<or> vb_verb p = ''list'' \<or> vb_verb p = ''config'')"

text \<open>
  A verb may be given by its first three characters and an object by its first one; \<open>root\<close> is
  \<^verbatim>\<open>getuid() == 0\<close>.
\<close>

fun find_verb :: "bool \<Rightarrow> string \<Rightarrow> string option \<Rightarrow> 'w verbs list \<Rightarrow> 'w verbs option" where
  "find_verb root v ob [] = None"
| "find_verb root v ob (p # ps) =
     (if v \<noteq> vb_verb p \<and> \<not> (length v = 3 \<and> take 3 (vb_verb p) = v) then find_verb root v ob ps
      else if \<not> verb_enabled p root then None
      else case vb_object p of
             None \<Rightarrow> Some p
           | Some name \<Rightarrow>
               (case ob of
                  None \<Rightarrow> None
                | Some t \<Rightarrow> if t = name \<or> length t = 1 \<and> take 1 name = t then Some p else find_verb root v ob ps))"

definition valid_arguments :: "nat \<Rightarrow> entity \<Rightarrow> int \<Rightarrow> bool \<times> string" where
  "valid_arguments argc target expect =
     (let argc = int argc; base = (if target = DEM then 1 else 2) in
      if expect < 0
      then if argc < base + (- expect) then (False, ''missing attrs'') else (True, [])
      else if argc < base + expect then (False, ''missing attrs'')
      else if argc > base + expect then (False, ''extra attrs'')
      else (True, []))"

section \<open>The program\<close>

definition show_error :: "string \<Rightarrow> string" where
  "show_error msg = ''Error: '' @ msg @ nl @ ''use -? or --help to show full help'' @ nl"

text \<open>The commands listed by the help, with a title before the first one of each entity.\<close>

fun help_commands :: "bool \<Rightarrow> 'w verbs list \<Rightarrow> entity option \<Rightarrow> string" where
  "help_commands root [] target = []"
| "help_commands root (p # ps) target =
     (if \<not> verb_enabled p root then help_commands root ps target
      else (if target \<noteq> Some (vb_target p) then groups_uri (vb_target p) @ '' commands:'' @ nl else []) @
           ''  dem-cli '' @ vb_verb p @
           (case vb_object p of None \<Rightarrow> [] | Some t \<Rightarrow> '' '' @ t) @
           (case vb_args p of None \<Rightarrow> [] | Some t \<Rightarrow> '' '' @ t) @ nl @
           ''    - '' @ vb_help p @ nl @ help_commands root ps (Some (vb_target p)))"

definition show_help :: "bool \<Rightarrow> 'w verbs list \<Rightarrow> string \<Rightarrow> string" where
  "show_help root vs prog =
     ''Usage: '' @ prog @ '' {options} <verb> {object} {value ...}'' @ nl @
     ''options: {-f} {-c} {-j|-r} {-s <server>} {-p <port>}'' @ nl @
     ''  -f -- force - do not verify deletes'' @ nl @
     ''  -c -- enable debug of curl commands being sent'' @ nl @
     ''  -j -- show output in json mode (less human readable)'' @ nl @
     ''  -r -- show output in raw mode (unformatted)'' @ nl @
     ''  -s -- specify server (default '' @ DEFAULT_HTTP_ADDR @ '')'' @ nl @
     ''  -p -- specify port (default '' @ DEFAULT_HTTP_PORT @ '')'' @ nl @ nl @
     (if root
      then ''  verb : list | get | add | set | rename'' @ '' | delete | link | unlink'' @ nl @
           [CHR 0x09] @ '' | refresh | config | shutdown'' @ nl
      else ''  verb : list | get | config'' @ nl) @
     ''       : shorthand verbs may be used (first 3 characters)'' @ nl @
     (if root
      then ''object : group | target | subsystem | portid | acl'' @ nl @ [CHR 0x09] @ '' | ns | host'' @ nl
      else ''object : group | target | host'' @ nl) @
     ''       : shorthand objects may be used (first character)'' @ nl @
     (if root
      then ''allow_any -- 0 : use host list'' @ nl @
           [CHR 0x09] @ ''  -- 1 : allow any host to access a'' @ '' subsystem'' @ nl @
           ''devid -- integer value of device id'' @ nl @
           ''      -- '' @ squoted ''nullb0'' @ '': use nullb0 inplace of physical'' @ '' device'' @ nl
      else []) @ nl @
     help_commands root vs None"

definition error_str :: "int \<Rightarrow> string" where
  "error_str ret =
     (if ret = - EEXIST then ''already exists'' else if ret = - ENOENT then ''not found''
      else if ret = - EINVAL then ''invalid parameter'' else ''unknown error'')"

text \<open>The switch of \<^verbatim>\<open>main\<close>; no value when the help is asked for.\<close>

fun set_options :: "(char \<times> string) list \<Rightarrow> cli_options \<Rightarrow> cli_options option" where
  "set_options [] opt = Some opt"
| "set_options ((c, v) # os) opt =
     (if c = CHR ''c'' then set_options os opt
      else if c = CHR ''r'' then set_options os (opt\<lparr>co_formatted := RAW\<rparr>)
      else if c = CHR ''j'' then set_options os (opt\<lparr>co_formatted := JSON\<rparr>)
      else if c = CHR ''f'' then set_options os (opt\<lparr>co_prompt_deletes := False\<rparr>)
      else if c = CHR ''s'' then set_options os (opt\<lparr>co_server := v\<rparr>)
      else if c = CHR ''p'' then set_options os (opt\<lparr>co_port := v\<rparr>)
      else None)"

text \<open>
  An element of \<^verbatim>\<open>argv\<close> as it is printed: after the last one there is the null pointer, for which the C library of
  Linux prints a text of its own, and beyond that no element.
\<close>

definition cli_arg :: "string list \<Rightarrow> nat \<Rightarrow> string exec" where
  "cli_arg args i =
     (if i < length args then Inr (args ! i) else if i = length args then Inr ''(null)'' else Inl Buffer_overflow)"

definition report_error :: "string \<Rightarrow> 'w verbs \<Rightarrow> string list \<Rightarrow> int \<Rightarrow> string exec" where
  "report_error prog p args ret =
     (if ret = - ECONNREFUSED then Inr (''Error: DEM is not running'' @ nl)
      else
        let n = (if vb_verb p = ''rename'' \<and> ret = - EEXIST then 4 else 3)
        in exec_bind (cli_arg args 1) (\<lambda>ob. exec_bind (cli_arg args n) (\<lambda>name.
             Inr (''Error: '' @ prog @ '': '' @ ob @ '' '' @ squoted name @ '' '' @ error_str ret @
                  '' ('' @ show_int ret @ '')'' @ nl))))"

definition cli_base :: "cli_options \<Rightarrow> entity \<Rightarrow> string" where
  "cli_base opt t = take 127 (''http://'' @ co_server opt @ '':'' @ co_port opt @ ''/'' @ groups_uri t)"

text \<open>\<^verbatim>\<open>main\<close> on the arguments after the name of the program.\<close>

definition cli_main ::
  "'w http_client \<Rightarrow> 'j jansson \<Rightarrow> bool \<Rightarrow> string \<Rightarrow> string list \<Rightarrow> 'w cmd" where
  "cli_main H J root prog argv s =
     (let help = show_help root (verb_list H J default_options) prog in
      if argv = [] \<or> hd argv = ''--help'' then Inr (0, say help s)
      else case getopt ''jcrf'' ''sp'' argv of (opts, args) \<Rightarrow>
        case set_options opts default_options of
          None \<Rightarrow> Inr (0, say help s)
        | Some opt \<Rightarrow>
            if args = [] then Inr (-1, say (show_error ''missing verb/object set'') s)
            else case find_verb root (args ! 0) (if length args \<le> 1 then None else Some (args ! 1)) (verb_list H J opt) of
              None \<Rightarrow> Inr (-1, say (show_error ''unknown verb/object set'') s)
            | Some p \<Rightarrow>
                case valid_arguments (length args) (vb_target p) (vb_num_args p) of (valid, msg) \<Rightarrow>
                  if \<not> valid then Inr (-1, say (show_error msg) s)
                  else
                    exec_bind (vb_function p (cli_base opt (vb_target p)) (if length args \<le> 1 then args else drop 2 args) s)
                      (\<lambda>(ret, s).
                        if ret < 0 then exec_bind (report_error prog p args ret) (\<lambda>t. Inr (ret, say t s))
                        else Inr (ret, s)))"

end
