(* ===== verification/Cli_Properties.thy ===== *)
theory Cli_Properties
  imports Cli Ep_Compose Json_Properties
begin

text \<open>
  The command line client together with the controller: every command, typed with its words, makes the
  controller carry out the operations the command stands for.
\<close>

section \<open>Commands and what they ask for\<close>

text \<open>A request to the controller: the method, the parts of the path, the body, and the operation it asks for.\<close>

type_synonym call = "string \<times> string list \<times> string \<times> request"



section \<open>What the client sends\<close>





























lemmas cli_cmd_defs =
  dem_config_def dem_shutdown_def list_group_cli_def add_group_cli_def set_group_cli_def get_group_cli_def
  del_group_cli_def rename_group_cli_def list_target_cli_def add_target_cli_def set_target_cli_def
  get_target_cli_def del_target_cli_def set_local_mgmt_def set_inb_mgmt_def set_oob_mgmt_def set_refresh_def
  rename_target_cli_def refresh_target_cli_def reconfig_target_def usage_target_cli_def link_target_cli_def
  unlink_target_cli_def add_subsys_cli_def set_subsys_cli_def edit_subsys_def del_subsys_cli_def
  rename_subsys_def set_portid_cli_def edit_portid_def del_portid_cli_def set_acl_def del_acl_def
  set_ns_cli_def del_ns_cli_def list_host_cli_def add_host_cli_def get_host_cli_def set_host_cli_def
  edit_host_def del_host_cli_def rename_host_def link_host_cli_def unlink_host_cli_def








section \<open>What the controller does\<close>

text \<open>
  The controller behind the HTTP client. The world is the state of its server, or the fault that ended it; an
  answer with an error status is a transfer that succeeded, since the client does not set
  \<^verbatim>\<open>CURLOPT_FAILONERROR\<close>.
\<close>

definition dem_http ::
  "'j jansson \<Rightarrow> bool \<Rightarrow> 's backend \<Rightarrow> string \<Rightarrow> string \<Rightarrow> string \<Rightarrow> 's server exec \<Rightarrow> int \<times> string \<times> 's server exec" where
  "dem_http J writable B meth url body w =
     (case exec_bind w (handle_http_request J writable B
             \<lparr>hm_method = meth, hm_uri = uri_path url, hm_query_string = [], hm_headers = [], hm_body = body\<rparr>) of
        Inl f \<Rightarrow> (- EINVAL, [], Inl f)
      | Inr (s, ret, resp) \<Rightarrow> (0, case resp of None \<Rightarrow> ''Internal Error'' | Some r \<Rightarrow> r, Inr s))"

definition dem_client :: "'j jansson \<Rightarrow> bool \<Rightarrow> 's backend \<Rightarrow> 's server exec http_client" where
  "dem_client J writable B =
     (let call = (\<lambda>meth url body w. case dem_http J writable B meth url body w of (ret, _, w) \<Rightarrow> (ret, w))
      in \<lparr>hc_get = (\<lambda>url. dem_http J writable B ''GET'' url []),
          hc_put = call ''PUT'', hc_post = call ''POST'', hc_delete = (\<lambda>url. call ''DELETE'' url []),
          hc_patch = call ''PATCH''\<rparr>)"




















section \<open>Properties\<close>



definition demo_recorder :: "request list backend" where
  "demo_recorder = \<lparr>bk_run = (\<lambda>r s. Inr (s @ [r], 0, [])), bk_store = id\<rparr>"

definition demo_cli_server :: "request list server" where
  "demo_cli_server = \<lparr>sv_signature = s_signature_default, sv_interfaces = [], sv_state = []\<rparr>"


text \<open>Entries of two tables that a user who may only read cannot tell apart.\<close>

definition same_reads :: "'w verbs \<Rightarrow> 'w verbs \<Rightarrow> bool" where
  "same_reads p q =
     (vb_verb p = vb_verb q \<and> vb_object p = vb_object q \<and> vb_target p = vb_target q \<and> vb_num_args p = vb_num_args q \<and>
      vb_args p = vb_args q \<and> vb_help p = vb_help q \<and> (verb_enabled p False \<longrightarrow> vb_function p = vb_function q))"

lemma same_reads_enabled: "same_reads p q \<Longrightarrow> verb_enabled p root = verb_enabled q root"
  by (simp add: same_reads_def verb_enabled_def)

lemma find_verb_same:
  assumes "list_all2 same_reads ps qs" shows "find_verb False v ob ps = find_verb False v ob qs"
  using assms
proof induction
  case (Cons p ps q qs)
  show ?case
  proof (cases "verb_enabled p False")
    case True
    with Cons.hyps(1) have "p = q" by (intro verbs.equality) (simp_all add: same_reads_def)
    show ?thesis unfolding find_verb.simps Cons.IH \<open>p = q\<close> ..
  next
    case False
    then have "\<not> verb_enabled q False" "vb_verb p = vb_verb q"
      using same_reads_enabled [OF Cons.hyps(1), of False] Cons.hyps(1) by (simp_all add: same_reads_def)
    with False show ?thesis by (simp add: Cons.IH)
  qed
qed simp

lemma help_same:
  assumes "list_all2 same_reads ps qs" shows "help_commands root ps t = help_commands root qs t"
  using assms
proof (induction arbitrary: t)
  case (Cons p ps q qs)
  then show ?case by (simp add: same_reads_def same_reads_enabled [OF Cons.hyps(1)])
qed simp

lemma verb_list_same:
  assumes "hc_get H = hc_get H'"
  shows "list_all2 same_reads (verb_list H J opt) (verb_list H' J opt)"
proof -
  have "get_and_show H J opt = get_and_show H' J opt"
    using assms by (simp add: fun_eq_iff get_and_show_def)
  then show ?thesis
    by (simp add: verb_list_def verb_def same_reads_def verb_enabled_def cli_cmd_defs [abs_def])
qed

text \<open>
  C17. Without the rights of the administrator the client only reads: for such a user, whatever the
  command line, the program does not depend on the functions that send PUT, POST, PATCH and DELETE requests, so
  that it sends none and can only ask and show.
\<close>

theorem cli_user_only_reads:
  "cli_main H J False prog argv s =
   cli_main (H\<lparr>hc_put := put, hc_post := post, hc_delete := del, hc_patch := patch\<rparr>) J False prog argv s"
proof -
  let ?H = "H\<lparr>hc_put := put, hc_post := post, hc_delete := del, hc_patch := patch\<rparr>"
  have same: "list_all2 same_reads (verb_list H J opt) (verb_list ?H J opt)" for opt by (rule verb_list_same) simp
  have texts: "show_help False (verb_list H J opt) prog = show_help False (verb_list ?H J opt) prog" for opt
    by (simp only: show_help_def help_same [OF same])
  show ?thesis unfolding cli_main_def texts find_verb_same [OF same] ..
qed

text \<open>Commands that leave the world alone when they are not confirmed.\<close>

abbreviation unanswered :: "'w cli \<Rightarrow> bool" where
  "unanswered s \<equiv> take 1 (cl_in s) \<notin> {''y'', ''Y''}"

abbreviation world_kept :: "'w cli \<Rightarrow> (int \<times> 'w cli) exec \<Rightarrow> bool" where
  "world_kept s e \<equiv> ensures e (\<lambda>(_, s'). cl_world s' = cl_world s)"

lemma unconfirmed: "unanswered s \<Longrightarrow> co_prompt_deletes opt \<Longrightarrow> world_kept s (need k p (confirmed opt q run s))"
  by (cases "cl_in s") (auto simp: need_def confirmed_def cancel_delete_def say_def)

lemma options_ask:
  "set_options opts opt = Some opt' \<Longrightarrow> CHR ''f'' \<notin> fst ` set opts \<Longrightarrow> co_prompt_deletes opt' = co_prompt_deletes opt"
  by (induction opts opt rule: set_options.induct) (auto split: if_splits)

lemma deletions_ask:
  assumes "p \<in> set (verb_list H J opt)" "vb_verb p = ''delete'' \<or> vb_verb p = ''unlink''" "unanswered s"
    and "co_prompt_deletes opt"
  shows "world_kept s (vb_function p base q s)"
proof -
  have "list_all (\<lambda>p. vb_verb p = ''delete'' \<or> vb_verb p = ''unlink'' \<longrightarrow> (\<forall>base q. world_kept s (vb_function p base q s)))
      (verb_list H J opt)"
    using assms(3,4) by (simp add: verb_list_def verb_def cli_cmd_defs unconfirmed)
  with assms(1,2) show ?thesis unfolding list_all_iff by blast
qed

lemma find_verb_in:
  "find_verb root v ob ps = Some p \<Longrightarrow> p \<in> set ps \<and> (vb_verb p = v \<or> length v = 3 \<and> take 3 (vb_verb p) = v)"
  by (induction ps) (auto split: if_splits option.splits)

lemma deleting_verbs:
  assumes "find_verb root v ob (verb_list H J opt) = Some p" "v = ''delete'' \<or> v = ''del'' \<or> v = ''unlink'' \<or> v = ''unl''"
  shows "p \<in> set (verb_list H J opt)" "vb_verb p = ''delete'' \<or> vb_verb p = ''unlink''"
proof -
  note f = find_verb_in [OF assms(1)]
  then show "p \<in> set (verb_list H J opt)" ..
  have "list_all (\<lambda>p. vb_verb p = v \<or> length v = 3 \<and> take 3 (vb_verb p) = v \<longrightarrow> vb_verb p = ''delete'' \<or> vb_verb p = ''unlink'')
      (verb_list H J opt)"
    using assms(2) by (elim disjE) (simp_all add: verb_list_def verb_def)
  with f show "vb_verb p = ''delete'' \<or> vb_verb p = ''unlink''" by (auto simp: list_all_iff)
qed

text \<open>
  C18. Nothing is deleted without a yes: whatever the command line, if the option \<^verbatim>\<open>-f\<close> is not among the options that
  \<^verbatim>\<open>getopt\<close> finds in it, a command that deletes or unlinks and is not answered with \<^verbatim>\<open>y\<close> or \<^verbatim>\<open>Y\<close> sends nothing to the
  controller.
\<close>

theorem cli_delete_needs_yes:
  assumes "getopt ''jcrf'' ''sp'' argv = (opts, args)" "CHR ''f'' \<notin> fst ` set opts"
    "args ! 0 = ''delete'' \<or> args ! 0 = ''del'' \<or> args ! 0 = ''unlink'' \<or> args ! 0 = ''unl''" "unanswered s"
  shows "world_kept s (cli_main H J root prog argv s)"
proof (cases "set_options opts default_options")
  case None
  then show ?thesis using assms(1) by (simp add: cli_main_def Let_def say_def)
next
  case (Some opt)
  have prompt: "co_prompt_deletes opt" using options_ask [OF Some assms(2)] by (simp add: default_options_def)
  show ?thesis
  proof (cases "find_verb root (args ! 0) (if length args \<le> 1 then None else Some (args ! 1)) (verb_list H J opt)")
    case None
    then show ?thesis using assms(1) Some by (simp add: cli_main_def Let_def say_def)
  next
    case (Some p)
    note ask = deletions_ask [OF deleting_verbs [OF Some assms(3)] assms(4) prompt]
    have "world_kept s (exec_bind (vb_function p base q s)
        (\<lambda>(ret, s). if ret < 0 then exec_bind (report_error prog p args ret) (\<lambda>t. Inr (ret, say t s)) else Inr (ret, s)))" for base q
      using ensures_mono [OF ask [of base q]]
      by (auto simp: say_def intro!: ensures_True)
    with Some show ?thesis
      using assms(1) \<open>set_options opts default_options = Some opt\<close>
      by (cases "length args \<le> 1") (auto simp: cli_main_def Let_def say_def split: prod.splits)
  qed
qed

theorem cli_delete_needs_yes_witness:
  "world_kept \<lparr>cl_world = Inr demo_cli_server, cl_out = [], cl_in = ''n''\<rparr>
     (cli_main (dem_client demo True demo_recorder) demo True ''dem-cli'' [''-j'', ''del'', ''g'', ''-p'', ''80'', ''g1'']
        \<lparr>cl_world = Inr demo_cli_server, cl_out = [], cl_in = ''n''\<rparr>)"
  by (rule cli_delete_needs_yes [of _ "[(CHR ''j'', []), (CHR ''p'', ''80'')]" "[''del'', ''g'', ''g1'']"]) simp_all

end
