(* ===== verification/Nvmeof.thy ===== *)
theory Nvmeof
  imports Dem_Pseudo
begin

text \<open>
  The NVMe over Fabrics client (\<^verbatim>\<open>src/src/common/nvmeof.c\<close>): the commands a discovery client sends, waiting
  for their responses, and making and ending a connection. The transport is reached through the function
  pointers of \<^verbatim>\<open>struct xp_ops\<close>; it is a parameter here, one field for each of them, over a world \<open>'w\<close>.

  The memory the endpoint refers to is tracked, so that a second release of a buffer or the use of a
  released one is a fault: \<^verbatim>\<open>disconnect_endpoint\<close> releases what the pointers of the endpoint refer to and
  leaves the pointers in place.
\<close>

section \<open>The transport\<close>

datatype mem = Null | Alive | Freed

text \<open>The commands, with the fields that are set in them.\<close>

datatype nvmf_cmd =
    Connect_cmd nat string
  | Admin_cmd nat
  | Mi_receive_cmd nat nat
  | Mi_send_cmd nat nat
  | Property_get_cmd nat
  | Property_set_cmd nat nat
  | Log_page_cmd nat nat nat nat
  | Get_features_cmd nat
  | Set_features_cmd nat nat

text \<open>What arrives: the number of bytes, and the status and the result of the completion in them.\<close>

record arrival =
  av_bytes :: nat
  av_status :: nat
  av_result :: nat

text \<open>
  \<open>xp_poll\<close> may report success with no message, as \<^verbatim>\<open>tcp_poll_for_msg\<close> does for a header without a
  payload. \<open>xp_alloc_key\<close> tells whether it has stored a memory region. \<open>xp_polls\<close> is how often
  the transport can be polled before \<^verbatim>\<open>MSG_TIMEOUT\<close> milliseconds have passed, \<open>xp_page\<close> the log page in the
  buffer the last command offered, \<open>xp_stopped\<close> the variable a signal sets, \<open>xp_stack\<close> what a variable on the
  stack holds that nothing was written to.
\<close>

record 'w xport =
  xp_init_endpoint :: "'w \<Rightarrow> int \<times> 'w"
  xp_create_endpoint :: "nat \<Rightarrow> 'w \<Rightarrow> int \<times> 'w"
  xp_destroy_endpoint :: "'w \<Rightarrow> 'w"
  xp_init_listener :: "string \<Rightarrow> 'w \<Rightarrow> int \<times> 'w"
  xp_accept_connection :: "'w \<Rightarrow> int \<times> 'w"
  xp_client_connect :: "string \<Rightarrow> string \<Rightarrow> int \<Rightarrow> string \<Rightarrow> 'w \<Rightarrow> int \<times> 'w"
  xp_repost_recv :: "'w \<Rightarrow> 'w"
  xp_post_msg :: "nvmf_cmd \<Rightarrow> 'w \<Rightarrow> int \<times> 'w"
  xp_send_msg :: "nvmf_cmd \<Rightarrow> 'w \<Rightarrow> int \<times> 'w"
  xp_poll :: "'w \<Rightarrow> int \<times> arrival option \<times> 'w"
  xp_alloc_key :: "'w \<Rightarrow> int \<times> bool \<times> 'w"
  xp_dealloc_key :: "'w \<Rightarrow> 'w"
  xp_inet_pton :: "string \<Rightarrow> string \<Rightarrow> bool"
  xp_polls :: "'w \<Rightarrow> nat"
  xp_page :: "'w \<Rightarrow> nat \<times> nat \<times> disc_entry list"
  xp_stopped :: "'w \<Rightarrow> bool"
  xp_stack :: "'w \<Rightarrow> nat"

section \<open>The endpoint\<close>

text \<open>
  \<^verbatim>\<open>struct ctrl_queue\<close> with the endpoint in it, and the world. \<open>cc_state\<close> is \<^verbatim>\<open>ep->state == CONNECTED\<close>,
  \<open>cc_connected\<close> the \<^verbatim>\<open>connected\<close> of the queue.
\<close>

record 'w ctrl =
  cc_ep :: mem
  cc_mr :: mem
  cc_data_mr :: mem
  cc_qe :: mem
  cc_cmd :: mem
  cc_data :: mem
  cc_state :: bool
  cc_failed_kato :: bool
  cc_connected :: bool
  cc_world :: 'w

text \<open>A queue filled with zeroes.\<close>

definition ctrl_zero :: "'w \<Rightarrow> 'w ctrl" where
  "ctrl_zero w =
     \<lparr>cc_ep = Null, cc_mr = Null, cc_data_mr = Null, cc_qe = Null, cc_cmd = Null, cc_data = Null,
      cc_state = False, cc_failed_kato = False, cc_connected = False, cc_world = w\<rparr>"

text \<open>Following a pointer, and releasing what it refers to if it is not null.\<close>

definition live :: "mem \<Rightarrow> unit exec" where
  "live p = (case p of Null \<Rightarrow> Inl Null_deref | Alive \<Rightarrow> Inr () | Freed \<Rightarrow> Inl Use_after_free)"

definition release :: "mem \<Rightarrow> mem exec" where
  "release p = (case p of Null \<Rightarrow> Inr Null | Alive \<Rightarrow> Inr Freed | Freed \<Rightarrow> Inl Use_after_free)"

definition ESHUTDOWN :: int where "ESHUTDOWN = 108"
definition NVME_CTRL_ENABLE :: nat where "NVME_CTRL_ENABLE = 0x460001"
definition NVME_CTRL_DISABLE :: nat where "NVME_CTRL_DISABLE = 0x464001"
definition NVME_DISC_KATO_MS :: nat where "NVME_DISC_KATO_MS = 360000 mod 65536"
definition CONFIG_RETRY_COUNT :: nat where "CONFIG_RETRY_COUNT = 20"
definition CONNECT_RETRY_COUNT :: nat where "CONNECT_RETRY_COUNT = 10"
definition NVME_LOG_DISC :: nat where "NVME_LOG_DISC = 0x70"
definition NVMF_NQN_SIZE :: nat where "NVMF_NQN_SIZE = 223"
definition COMPLETION_SIZE :: nat where "COMPLETION_SIZE = 16"

section \<open>Commands and responses\<close>

definition post_cmd :: "'w xport \<Rightarrow> nvmf_cmd \<Rightarrow> 'w ctrl \<Rightarrow> (int \<times> 'w ctrl) exec" where
  "post_cmd X cmd c =
     exec_bind (live (cc_cmd c)) (\<lambda>_.
     exec_bind (live (cc_ep c)) (\<lambda>_.
       if cc_mr c = Freed then Inl Use_after_free
       else case xp_post_msg X cmd (cc_world c) of (ret, w) \<Rightarrow> Inr (ret, c\<lparr>cc_world := w\<rparr>)))"

definition send_cmd :: "'w xport \<Rightarrow> nvmf_cmd \<Rightarrow> 'w ctrl \<Rightarrow> (int \<times> 'w ctrl) exec" where
  "send_cmd X cmd c =
     exec_bind (live (cc_cmd c)) (\<lambda>_.
     exec_bind (live (cc_ep c)) (\<lambda>_.
       if cc_mr c = Freed then Inl Use_after_free
       else case xp_send_msg X cmd (cc_world c) of (ret, w) \<Rightarrow> Inr (ret, c\<lparr>cc_world := w\<rparr>)))"

text \<open>The loop of \<^verbatim>\<open>process_nvme_rsp\<close>: it ends with a message, an error, a signal or the timeout.\<close>

primrec poll_rsp :: "nat \<Rightarrow> 'w xport \<Rightarrow> 'w \<Rightarrow> int \<times> arrival option \<times> 'w" where
  "poll_rsp 0 X w =
     (case xp_poll X w of (ret, r, w) \<Rightarrow>
        if ret = - EAGAIN \<and> xp_stopped X w then (- ESHUTDOWN, None, w) else (ret, r, w))"
| "poll_rsp (Suc n) X w =
     (case xp_poll X w of (ret, r, w) \<Rightarrow>
        if ret \<noteq> - EAGAIN then (ret, r, w)
        else if xp_stopped X w then (- ESHUTDOWN, None, w)
        else poll_rsp n X w)"

text \<open>The status of a completion, and what the caller asked to be told instead of an error.\<close>

definition rsp_code :: "int \<Rightarrow> int \<Rightarrow> int" where
  "rsp_code ignore_status status =
     (if status = 0 \<or> status = NVME_SC_DNR + NVME_SC_CONNECT_INVALID_HOST then status
      else if ignore_status \<noteq> 0 then ignore_status else status)"

definition process_nvme_rsp :: "'w xport \<Rightarrow> int \<Rightarrow> 'w ctrl \<Rightarrow> (int \<times> nat option \<times> 'w ctrl) exec" where
  "process_nvme_rsp X ignore_status c =
     exec_bind (live (cc_ep c)) (\<lambda>_.
       case poll_rsp (xp_polls X (cc_world c)) X (cc_world c) of (ret, r, w) \<Rightarrow>
         if ret \<noteq> 0 then Inr (ret, None, c\<lparr>cc_world := w\<rparr>)
         else (case r of
             None \<Rightarrow> Inl Uninitialised
           | Some rsp \<Rightarrow>
               if av_bytes rsp \<noteq> COMPLETION_SIZE then Inr (- EINVAL, None, c\<lparr>cc_world := w\<rparr>)
               else
                 let status = int (av_status rsp div 2) in
                 Inr (rsp_code ignore_status status, if status = 0 then Some (av_result rsp) else None,
                      c\<lparr>cc_world := xp_repost_recv X w\<rparr>)))"

text \<open>A command and its response.\<close>

definition send_and_wait :: "'w xport \<Rightarrow> nvmf_cmd \<Rightarrow> 'w ctrl \<Rightarrow> (int \<times> 'w ctrl) exec" where
  "send_and_wait X cmd c =
     exec_bind (send_cmd X cmd c) (\<lambda>(ret, c).
       if ret \<noteq> 0 then Inr (ret, c)
       else exec_bind (process_nvme_rsp X 0 c) (\<lambda>(ret, _, c). Inr (ret, c)))"

text \<open>
  \<^verbatim>\<open>send_fabric_connect\<close>: when the controller refuses the keep-alive timeout the command is sent again
  without one, and only then is the endpoint marked as connected.
\<close>

definition send_fabric_connect :: "'w xport \<Rightarrow> string \<Rightarrow> 'w ctrl \<Rightarrow> (int \<times> 'w ctrl) exec" where
  "send_fabric_connect X hostnqn c =
     (let ignore_status = NVME_SC_DNR + NVME_SC_INVALID_FIELD;
          kato = (if cc_failed_kato c then 0 else NVME_DISC_KATO_MS)
      in
      exec_bind (live (cc_data c)) (\<lambda>_.
      exec_bind (send_cmd X (Connect_cmd kato (take NVMF_NQN_SIZE hostnqn)) c) (\<lambda>(ret, c).
        if ret \<noteq> 0 then Inr (ret, c)
        else exec_bind (process_nvme_rsp X ignore_status c) (\<lambda>(ret, _, c).
          if ret \<noteq> ignore_status then Inr (ret, c)
          else exec_bind (send_and_wait X (Connect_cmd 0 (take NVMF_NQN_SIZE hostnqn)) (c\<lparr>cc_failed_kato := True\<rparr>)) (\<lambda>(ret, c).
            if ret \<noteq> 0 then Inr (ret, c) else Inr (0, c\<lparr>cc_state := True\<rparr>))))))"

text \<open>The response of an administration command is waited for, but its status is not looked at.\<close>

definition send_admin_cmd :: "'w xport \<Rightarrow> nat \<Rightarrow> 'w ctrl \<Rightarrow> (int \<times> 'w ctrl) exec" where
  "send_admin_cmd X opcode c =
     exec_bind (send_cmd X (Admin_cmd opcode) c) (\<lambda>(ret, c).
       if ret \<noteq> 0 then Inr (ret, c)
       else exec_bind (process_nvme_rsp X 0 c) (\<lambda>(_, _, c). Inr (ret, c)))"

definition send_async_event_request :: "'w xport \<Rightarrow> 'w ctrl \<Rightarrow> (int \<times> 'w ctrl) exec" where
  "send_async_event_request X = send_admin_cmd X nvme_admin_async_event"

definition send_keep_alive :: "'w xport \<Rightarrow> 'w ctrl \<Rightarrow> (int \<times> 'w ctrl) exec" where
  "send_keep_alive X = send_admin_cmd X nvme_admin_keep_alive"

text \<open>The loop that waits for the response of a management command, at most \<open>n + 1\<close> times.\<close>

primrec wait_config :: "nat \<Rightarrow> 'w xport \<Rightarrow> 'w ctrl \<Rightarrow> (int \<times> 'w ctrl) exec" where
  "wait_config 0 X c = exec_bind (process_nvme_rsp X 0 c) (\<lambda>(ret, _, c). Inr (ret, c))"
| "wait_config (Suc n) X c =
     exec_bind (process_nvme_rsp X 0 c) (\<lambda>(ret, _, c).
       if ret = - EAGAIN then wait_config n X c else Inr (ret, c))"

text \<open>Offering a buffer to the other side; the key of it is not kept in the endpoint.\<close>

definition with_key ::
  "'w xport \<Rightarrow> 'w ctrl \<Rightarrow> ('w ctrl \<Rightarrow> (int \<times> 'w ctrl) exec) \<Rightarrow> (int \<times> 'w ctrl) exec" where
  "with_key X c run =
     exec_bind (live (cc_ep c)) (\<lambda>_.
       case xp_alloc_key X (cc_world c) of (ret, _, w) \<Rightarrow>
         if ret \<noteq> 0 then Inr (ret, c\<lparr>cc_world := w\<rparr>) else run (c\<lparr>cc_world := w\<rparr>))"

definition send_mi_receive :: "'w xport \<Rightarrow> nat \<Rightarrow> nat \<Rightarrow> 'w ctrl \<Rightarrow> (int \<times> 'w ctrl) exec" where
  "send_mi_receive X fcid len c =
     (if cc_cmd c = Null then Inr (- EINVAL, c)
      else with_key X c (\<lambda>c.
        exec_bind (send_cmd X (Mi_receive_cmd fcid len) c) (\<lambda>(ret, c).
        exec_bind (if ret \<noteq> 0 then Inr (ret, c) else wait_config (CONFIG_RETRY_COUNT - 1) X c) (\<lambda>(ret, c).
          Inr (ret, c\<lparr>cc_world := xp_dealloc_key X (cc_world c)\<rparr>)))))"

text \<open>The key of the buffer that is sent is not given back.\<close>

definition send_mi_send :: "'w xport \<Rightarrow> nat \<Rightarrow> nat \<Rightarrow> 'w ctrl \<Rightarrow> (int \<times> 'w ctrl) exec" where
  "send_mi_send X fcid len c =
     (if cc_cmd c = Null then Inr (- EINVAL, c)
      else with_key X c (\<lambda>c.
        exec_bind (send_cmd X (Mi_send_cmd fcid len) c) (\<lambda>(ret, c).
          if ret \<noteq> 0 then Inr (ret, c) else wait_config (CONFIG_RETRY_COUNT - 1) X c)))"

definition send_get_property :: "'w xport \<Rightarrow> nat \<Rightarrow> 'w ctrl \<Rightarrow> (int \<times> 'w ctrl) exec" where
  "send_get_property X reg = send_and_wait X (Property_get_cmd reg)"

definition prep_set_property :: "nat \<Rightarrow> nat \<Rightarrow> nvmf_cmd" where
  "prep_set_property reg val = Property_set_cmd reg val"

definition send_set_property :: "'w xport \<Rightarrow> nat \<Rightarrow> nat \<Rightarrow> 'w ctrl \<Rightarrow> (int \<times> 'w ctrl) exec" where
  "send_set_property X reg val = send_and_wait X (prep_set_property reg val)"

definition post_set_property :: "'w xport \<Rightarrow> nat \<Rightarrow> nat \<Rightarrow> 'w ctrl \<Rightarrow> (int \<times> 'w ctrl) exec" where
  "post_set_property X reg val = post_cmd X (prep_set_property reg val)"

text \<open>
  The number of double words that is asked for, in two halves. A size of two gigabytes or more is negative
  as an \<^verbatim>\<open>int\<close> and cannot be allocated. The log page is what the buffer holds after the response.
\<close>

definition send_get_log_page ::
  "'w xport \<Rightarrow> nat \<Rightarrow> 'w ctrl \<Rightarrow> (int \<times> (nat \<times> nat \<times> disc_entry list) \<times> 'w ctrl) exec" where
  "send_get_log_page X log_size c =
     (if int log_size \<ge> 2 ^ 31 then Inr (ENOMEM, (0, 0, []), c)
      else
        let size = nat ((int (log_size div 4) - 1) mod 2 ^ 32);
            numdl = size mod 65536;
            numdu = (size div 65536) mod 65536
        in
        exec_bind (with_key X c (\<lambda>c.
          exec_bind (send_and_wait X (Log_page_cmd NVME_LOG_DISC numdl numdu log_size) c) (\<lambda>(ret, c).
            Inr (ret, c\<lparr>cc_world := xp_dealloc_key X (cc_world c)\<rparr>)))) (\<lambda>(ret, c).
          Inr (ret, xp_page X (cc_world c), c)))"

text \<open>The result is only there when the response arrived and reported success, which is not told.\<close>

definition send_get_features :: "'w xport \<Rightarrow> nat \<Rightarrow> 'w ctrl \<Rightarrow> (int \<times> nat option \<times> 'w ctrl) exec" where
  "send_get_features X fid c =
     exec_bind (send_cmd X (Get_features_cmd fid) c) (\<lambda>(ret, c).
       if ret \<noteq> 0 then Inr (ret, None, c)
       else exec_bind (process_nvme_rsp X 0 c) (\<lambda>(_, result, c). Inr (ret, result, c)))"

definition send_set_features :: "'w xport \<Rightarrow> nat \<Rightarrow> nat \<Rightarrow> 'w ctrl \<Rightarrow> (int \<times> 'w ctrl) exec" where
  "send_set_features X fid dword11 c =
     exec_bind (send_cmd X (Set_features_cmd fid dword11) c) (\<lambda>(ret, c).
       if ret \<noteq> 0 then Inr (ret, c)
       else exec_bind (process_nvme_rsp X 0 c) (\<lambda>(_, _, c). Inr (ret, c)))"

section \<open>Connections\<close>

definition disconnect_endpoint :: "'w xport \<Rightarrow> bool \<Rightarrow> 'w ctrl \<Rightarrow> 'w ctrl exec" where
  "disconnect_endpoint X shutdown c =
     exec_bind (if shutdown \<and> cc_state c
                then exec_bind (post_set_property X NVME_REG_CC NVME_CTRL_DISABLE c) (\<lambda>(_, c). Inr c)
                else Inr c) (\<lambda>c.
     exec_bind (release (cc_mr c)) (\<lambda>mr.
     exec_bind (release (cc_ep c)) (\<lambda>ep.
     exec_bind (release (cc_qe c)) (\<lambda>qe.
     exec_bind (release (cc_cmd c)) (\<lambda>cmd.
       let w = (if cc_mr c = Null then cc_world c else xp_dealloc_key X (cc_world c));
           w = (if cc_ep c = Null then w else xp_destroy_endpoint X w)
       in Inr (c\<lparr>cc_mr := mr, cc_ep := ep, cc_qe := qe, cc_cmd := cmd, cc_state := False, cc_world := w\<rparr>))))))"

definition disconnect_ctrl :: "'w xport \<Rightarrow> bool \<Rightarrow> 'w ctrl \<Rightarrow> 'w ctrl exec" where
  "disconnect_ctrl X shutdown c =
     exec_bind (disconnect_endpoint X shutdown c) (\<lambda>c. Inr (c\<lparr>cc_connected := False\<rparr>))"

text \<open>Where a queue is to be connected to, and for which host.\<close>

record dest =
  ds_family :: string
  ds_address :: string
  ds_port_num :: int
  ds_hostnqn :: string

text \<open>The attempts to connect, at most \<open>n + 1\<close>.\<close>

primrec try_connect :: "nat \<Rightarrow> 'w xport \<Rightarrow> dest \<Rightarrow> 'w \<Rightarrow> int \<times> 'w" where
  "try_connect 0 X d w = xp_client_connect X (ds_family d) (ds_address d) (ds_port_num d) (ds_hostnqn d) w"
| "try_connect (Suc n) X d w =
     (case xp_client_connect X (ds_family d) (ds_address d) (ds_port_num d) (ds_hostnqn d) w of (ret, w) \<Rightarrow>
        if ret = - EAGAIN then try_connect n X d w else (ret, w))"

text \<open>\<^verbatim>\<open>inet_pton\<close> of the address of a family that is known.\<close>

definition address_ok :: "'w xport \<Rightarrow> string \<Rightarrow> string \<Rightarrow> bool" where
  "address_ok X family address = ((family = ''ipv4'' \<or> family = ''ipv6'') \<and> xp_inet_pton X family address)"

text \<open>A region of memory is registered and its pointer stored, if the transport has one.\<close>

definition stored :: "bool \<Rightarrow> mem \<Rightarrow> mem" where
  "stored region p = (if region then Alive else p)"

definition open_ctrl :: "'w xport \<Rightarrow> dest \<Rightarrow> 'w ctrl \<Rightarrow> (int \<times> 'w ctrl) exec" where
  "open_ctrl X d c =
     (let fail = (\<lambda>ret c. exec_bind (disconnect_endpoint X False c) (\<lambda>c. Inr (ret, c))) in
      case xp_alloc_key X (cc_world c) of (ret, mr, w) \<Rightarrow>
        if ret \<noteq> 0 then fail ret (c\<lparr>cc_world := w\<rparr>)
        else
          let c = c\<lparr>cc_mr := stored mr (cc_mr c), cc_cmd := Alive, cc_world := w\<rparr> in
          case xp_alloc_key X (cc_world c) of (ret, mr, w) \<Rightarrow>
            if ret \<noteq> 0 then fail ret (c\<lparr>cc_world := w\<rparr>)
            else
              let c = c\<lparr>cc_data_mr := stored mr (cc_data_mr c), cc_data := Alive, cc_world := w\<rparr> in
              exec_bind (send_fabric_connect X (ds_hostnqn d) c) (\<lambda>(ret, c).
                if ret \<noteq> 0 then fail ret c
                else send_set_property X NVME_REG_CC NVME_CTRL_ENABLE c))"

definition nvmf_connect_ctrl :: "'w xport \<Rightarrow> dest \<Rightarrow> 'w ctrl \<Rightarrow> (int \<times> 'w ctrl) exec" where
  "nvmf_connect_ctrl X d c =
     (if \<not> address_ok X (ds_family d) (ds_address d) then Inr (- EINVAL, c)
      else case xp_init_endpoint X (cc_world c) of (ret, w) \<Rightarrow>
        if ret \<noteq> 0 then Inr (ret, c\<lparr>cc_world := w\<rparr>)
        else case try_connect (CONNECT_RETRY_COUNT - 1) X d w of (ret, w) \<Rightarrow>
          if ret \<noteq> 0 then Inr (ret, c\<lparr>cc_ep := Freed, cc_world := xp_destroy_endpoint X w\<rparr>)
          else open_ctrl X d (c\<lparr>cc_ep := Alive, cc_world := w\<rparr>))"

text \<open>The listening side: an interface whose family is unknown or whose address is bad is refused.\<close>

definition start_pseudo_target :: "'w xport \<Rightarrow> string \<Rightarrow> string \<Rightarrow> string \<Rightarrow> string \<Rightarrow> 'w \<Rightarrow> int \<times> 'w" where
  "start_pseudo_target X family address typ port w =
     (if \<not> address_ok X family address then (- EINVAL, w)
      else if \<not> register_ops typ then (- EINVAL, w)
      else xp_init_listener X port w)"

definition run_pseudo_target :: "'w xport \<Rightarrow> nat \<Rightarrow> 'w ctrl \<Rightarrow> (int \<times> 'w ctrl) exec" where
  "run_pseudo_target X i c =
     (case xp_create_endpoint X i (cc_world c) of (ret, w) \<Rightarrow>
        if ret \<noteq> 0 then Inr (ret, c\<lparr>cc_world := w\<rparr>)
        else
          let err1 = (\<lambda>ret c. Inr (ret, c\<lparr>cc_ep := Freed, cc_world := xp_destroy_endpoint X (cc_world c)\<rparr>))
          in
          case xp_accept_connection X w of (ret, w) \<Rightarrow>
            let c = c\<lparr>cc_ep := Alive, cc_world := w\<rparr> in
            if ret \<noteq> 0 then err1 ret c
            else case xp_alloc_key X (cc_world c) of (ret, mr, w) \<Rightarrow>
              if ret \<noteq> 0 then err1 ret (c\<lparr>cc_world := w\<rparr>)
              else
                let c = c\<lparr>cc_mr := stored mr (cc_mr c), cc_world := w\<rparr> in
                case xp_alloc_key X (cc_world c) of (ret, mr, w) \<Rightarrow>
                  if ret \<noteq> 0
                  then exec_bind (release (cc_mr c)) (\<lambda>m.
                         err1 ret (c\<lparr>cc_mr := m, cc_world := xp_dealloc_key X w\<rparr>))
                  else Inr (0, c\<lparr>cc_data_mr := stored mr (cc_data_mr c), cc_cmd := Alive, cc_data := Alive,
                                cc_state := True, cc_world := w\<rparr>))"

section \<open>Runs without pointer faults\<close>

text \<open>
  A run that returns a result with the given property, or stops for want of a message it takes for
  received or of room for a name: no pointer to released memory and no null pointer is followed.
\<close>

definition pointer_fault :: "fault \<Rightarrow> bool" where
  "pointer_fault f = (f \<noteq> Uninitialised \<and> f \<noteq> Buffer_overflow)"

definition safely :: "'a exec \<Rightarrow> ('a \<Rightarrow> bool) \<Rightarrow> bool" where
  "safely e Q = (case e of Inl f \<Rightarrow> \<not> pointer_fault f | Inr x \<Rightarrow> Q x)"

lemma safely_simps [simp]:
  "safely (Inr x) Q = Q x" "safely (Inl Uninitialised) Q" "safely (Inl Buffer_overflow) Q"
  by (simp_all add: safely_def pointer_fault_def)

lemma safely_bind [simp]: "safely (exec_bind e k) Q = safely e (\<lambda>x. safely (k x) Q)"
  by (cases e) (simp_all add: safely_def)

lemma safely_mono: "safely e P \<Longrightarrow> (\<And>x. P x \<Longrightarrow> Q x) \<Longrightarrow> safely e Q"
  by (cases e) (simp_all add: safely_def)

lemma live_Alive [simp]: "live Alive = Inr ()"
  by (simp add: live_def)

lemma release_simps [simp]: "release Alive = Inr Freed" "release Null = Inr Null"
  by (simp_all add: release_def)

text \<open>An endpoint commands can be sent through; commands change nothing of it but the world.\<close>

definition usable :: "'w ctrl \<Rightarrow> bool" where
  "usable c = (cc_ep c = Alive \<and> cc_cmd c = Alive \<and> cc_mr c \<noteq> Freed \<and> cc_qe c = Null)"

definition moved :: "'w ctrl \<Rightarrow> 'w ctrl \<Rightarrow> bool" where
  "moved c c' = (\<exists>w. c' = c\<lparr>cc_world := w\<rparr>)"

lemma moved_world [simp]: "moved c (c\<lparr>cc_world := w\<rparr>)"
  by (auto simp: moved_def)

lemma moved_refl [simp]: "moved c c"
  by (auto simp: moved_def intro!: exI [of _ "cc_world c"])

lemma moved_trans: "moved a b \<Longrightarrow> moved b c \<Longrightarrow> moved a c"
  by (auto simp: moved_def)

lemma moved_update [simp]: "moved (c\<lparr>cc_world := w\<rparr>) d = moved c d" "moved c (d\<lparr>cc_world := w\<rparr>) = moved c d"
  by (cases c, cases d, auto simp: moved_def)+

lemma moved_same:
  assumes "moved c c'"
  shows "usable c' = usable c" "cc_ep c' = cc_ep c" "cc_mr c' = cc_mr c" "cc_qe c' = cc_qe c"
    "cc_cmd c' = cc_cmd c" "cc_data c' = cc_data c" "cc_connected c' = cc_connected c"
    "cc_failed_kato c' = cc_failed_kato c" "cc_state c' = cc_state c"
  using assms by (auto simp: moved_def usable_def)

lemma usable_fields [simp]:
  "usable (c\<lparr>cc_world := w\<rparr>) = usable c" "usable (c\<lparr>cc_failed_kato := b\<rparr>) = usable c"
  "usable (c\<lparr>cc_state := b\<rparr>) = usable c" "usable (c\<lparr>cc_connected := b\<rparr>) = usable c"
  by (simp_all add: usable_def)

lemma safely_send_cmd: "usable c \<Longrightarrow> safely (send_cmd X cmd c) (\<lambda>(ret, c'). moved c c')"
  by (auto simp: usable_def send_cmd_def split: prod.splits)

lemma safely_post_cmd: "usable c \<Longrightarrow> safely (post_cmd X cmd c) (\<lambda>(ret, c'). moved c c')"
  by (auto simp: usable_def post_cmd_def split: prod.splits)

lemma safely_process_nvme_rsp: "usable c \<Longrightarrow> safely (process_nvme_rsp X i c) (\<lambda>(ret, r, c'). moved c c')"
  by (auto simp: usable_def process_nvme_rsp_def Let_def split: prod.splits option.splits)

text \<open>Chaining runs of which each leaves the endpoint usable.\<close>

lemma safely_then:
  assumes "safely e (\<lambda>(ret, c'). moved c c')" "usable c"
    and "\<And>ret c'. moved c c' \<Longrightarrow> usable c' \<Longrightarrow> safely (k (ret, c')) Q"
  shows "safely (exec_bind e k) Q"
  using assms by (auto intro!: safely_mono [OF assms(1)] simp: moved_same)

lemma safely_then3:
  assumes "safely e (\<lambda>(ret, r, c'). moved c c')" "usable c"
    and "\<And>ret r c'. moved c c' \<Longrightarrow> usable c' \<Longrightarrow> safely (k (ret, r, c')) Q"
  shows "safely (exec_bind e k) Q"
  using assms by (auto intro!: safely_mono [OF assms(1)] simp: moved_same)

lemma safely_send_and_wait: "usable c \<Longrightarrow> safely (send_and_wait X cmd c) (\<lambda>(ret, c'). moved c c')"
  unfolding send_and_wait_def
  by (rule safely_then [OF safely_send_cmd])
    (auto intro!: safely_then3 [OF safely_process_nvme_rsp, simplified] intro: moved_trans)

lemma safely_send_admin_cmd: "usable c \<Longrightarrow> safely (send_admin_cmd X opcode c) (\<lambda>(ret, c'). moved c c')"
  unfolding send_admin_cmd_def
  by (rule safely_then [OF safely_send_cmd])
    (auto intro!: safely_then3 [OF safely_process_nvme_rsp, simplified] intro: moved_trans)

lemma safely_send_set_features: "usable c \<Longrightarrow> safely (send_set_features X fid d c) (\<lambda>(ret, c'). moved c c')"
  unfolding send_set_features_def
  by (rule safely_then [OF safely_send_cmd])
    (auto intro!: safely_then3 [OF safely_process_nvme_rsp, simplified] intro: moved_trans)

lemma safely_send_get_features: "usable c \<Longrightarrow> safely (send_get_features X fid c) (\<lambda>(ret, r, c'). moved c c')"
  unfolding send_get_features_def
  by (rule safely_then [OF safely_send_cmd])
    (auto intro!: safely_then3 [OF safely_process_nvme_rsp, simplified] intro: moved_trans)

lemma safely_with_key:
  assumes "usable c" and "\<And>c'. moved c c' \<Longrightarrow> usable c' \<Longrightarrow> safely (run c') (\<lambda>(ret, c''). moved c' c'')"
  shows "safely (with_key X c run) (\<lambda>(ret, c'). moved c c')"
  using assms
  by (auto simp: with_key_def usable_def split: prod.splits intro!: safely_mono [OF assms(2)] intro: moved_trans)

lemma safely_wait_config: "usable c \<Longrightarrow> safely (wait_config n X c) (\<lambda>(ret, c'). moved c c')"
proof (induction n arbitrary: c)
  case 0
  then show ?case
    by (auto intro!: safely_then3 [OF safely_process_nvme_rsp, simplified])
next
  case (Suc n)
  show ?case
    unfolding wait_config.simps
    by (rule safely_then3 [OF safely_process_nvme_rsp [OF Suc.prems] Suc.prems])
      (auto intro!: safely_mono [OF Suc.IH] intro: moved_trans)
qed

lemma safely_send_get_log_page:
  assumes "usable c"
  shows "safely (send_get_log_page X n c) (\<lambda>(ret, p, c'). moved c c')"
proof -
  have "safely (with_key X c (\<lambda>c. exec_bind (send_and_wait X cmd c) (\<lambda>(ret, c).
           Inr (ret, c\<lparr>cc_world := xp_dealloc_key X (cc_world c)\<rparr>)))) (\<lambda>(ret, c'). moved c c')" for cmd
    by (rule safely_with_key [OF assms])
      (auto intro!: safely_then [OF safely_send_and_wait, simplified] intro: moved_trans)
  then show ?thesis by (auto simp: send_get_log_page_def Let_def split_def)
qed

text \<open>The management commands.\<close>

lemma safely_send_mi:
  assumes "usable c"
  shows "safely (send_mi_send X fcid len c) (\<lambda>(ret, c'). moved c c')"
    and "safely (send_mi_receive X fcid len c) (\<lambda>(ret, c'). moved c c')"
proof -
  have w: "safely (if ret \<noteq> 0 then Inr (ret, d) else wait_config n X d) (\<lambda>(ret, d'). moved d d')"
    if "usable d" for ret n and d :: "'a ctrl"
    using that by (auto intro: safely_wait_config)
  show "safely (send_mi_send X fcid len c) (\<lambda>(ret, c'). moved c c')"
    using assms unfolding send_mi_send_def
    by (auto intro!: safely_with_key safely_then [OF safely_send_cmd, simplified] safely_mono [OF safely_wait_config])
      (blast intro: moved_trans)+
  show "safely (send_mi_receive X fcid len c) (\<lambda>(ret, c'). moved c c')"
    using assms unfolding send_mi_receive_def
    by (auto simp del: safely_bind simp: usable_def [symmetric]
        intro!: safely_with_key safely_then [OF safely_send_cmd] safely_then [OF w]
        intro: moved_trans)
qed

section \<open>Making and ending connections\<close>

text \<open>What holds of a queue between the calls.\<close>

definition sound :: "bool \<Rightarrow> 'w ctrl \<Rightarrow> bool" where
  "sound region c = (cc_qe c = Null \<and> (\<not> region \<longrightarrow> cc_mr c = Null) \<and> (cc_connected c \<longrightarrow> usable c))"

lemma sound_moved: "moved c c' \<Longrightarrow> sound region c' = sound region c"
  by (auto simp: sound_def moved_same)

text \<open>
  What \<^verbatim>\<open>connect_ctrl\<close> and \<^verbatim>\<open>disconnect_ctrl\<close> rely on: registering memory does not fail, and either always
  stores a region or never. Without it \<^verbatim>\<open>disconnect_endpoint\<close> is called by a failing \<^verbatim>\<open>connect_ctrl\<close> while the
  endpoint still has the pointers of an earlier connection.
\<close>

locale key_transport =
  fixes X :: "'w xport" and region :: bool
  assumes alloc_key: "\<exists>w'. xp_alloc_key X w = (0, region, w')"
begin

lemma safely_disconnect_endpoint:
  assumes "usable c" "\<not> region \<longrightarrow> cc_mr c = Null"
  shows "safely (disconnect_endpoint X shutdown c)
           (\<lambda>c'. cc_qe c' = Null \<and> (\<not> region \<longrightarrow> cc_mr c' = Null) \<and> cc_connected c' = cc_connected c)"
proof -
  have 1: "safely (if shutdown \<and> cc_state c
                then exec_bind (post_set_property X NVME_REG_CC NVME_CTRL_DISABLE c) (\<lambda>(_, c). Inr c)
                else Inr c) (\<lambda>c'. moved c c')"
    using assms(1) by (auto simp: post_set_property_def intro!: safely_mono [OF safely_post_cmd])
  show ?thesis
    unfolding disconnect_endpoint_def safely_bind
  proof (rule safely_mono [OF 1])
    fix c' assume m: "moved c c'"
    show "safely (release (cc_mr c')) (\<lambda>mr. safely (release (cc_ep c')) (\<lambda>ep. safely (release (cc_qe c')) (\<lambda>qe.
            safely (release (cc_cmd c')) (\<lambda>cmd. safely (let w = if cc_mr c' = Null then cc_world c' else xp_dealloc_key X (cc_world c');
              w = if cc_ep c' = Null then w else xp_destroy_endpoint X w
              in Inr (c'\<lparr>cc_mr := mr, cc_ep := ep, cc_qe := qe, cc_cmd := cmd, cc_state := False, cc_world := w\<rparr>))
              (\<lambda>c'. cc_qe c' = Null \<and> (\<not> region \<longrightarrow> cc_mr c' = Null) \<and> cc_connected c' = cc_connected c)))))"
      using assms moved_same [OF m] by (cases "cc_mr c'") (auto simp: usable_def Let_def)
  qed
qed

lemma safely_disconnect_ctrl:
  assumes "sound region c" "cc_connected c"
  shows "safely (disconnect_ctrl X shutdown c) (\<lambda>c'. sound region c' \<and> \<not> cc_connected c')"
  using assms unfolding disconnect_ctrl_def safely_bind
  by (intro safely_mono [OF safely_disconnect_endpoint]) (auto simp: sound_def)

text \<open>A connection that has been made: commands can be sent, and nothing of it has been released.\<close>

lemma safely_send_fabric_connect:
  assumes "usable c" "cc_data c = Alive"
  shows "safely (send_fabric_connect X nqn c)
           (\<lambda>(ret, c'). usable c' \<and> cc_mr c' = cc_mr c \<and> cc_connected c' = cc_connected c)"
  unfolding send_fabric_connect_def Let_def assms live_Alive exec_bind.simps
proof (rule safely_then [OF safely_send_cmd [OF assms(1)] assms(1)], clarsimp, intro conjI impI)
  fix c1 assume c1: "moved c c1" "usable c1"
  note same = moved_same [OF c1(1)]
  show "safely (process_nvme_rsp X (NVME_SC_DNR + NVME_SC_INVALID_FIELD) c1)
     (\<lambda>x. safely (case x of (ret, uu_, c) \<Rightarrow>
        if ret \<noteq> NVME_SC_DNR + NVME_SC_INVALID_FIELD then Inr (ret, c)
        else exec_bind (send_and_wait X (Connect_cmd 0 (take NVMF_NQN_SIZE nqn)) (c\<lparr>cc_failed_kato := True\<rparr>))
              (\<lambda>(ret, c). if ret \<noteq> 0 then Inr (ret, c) else Inr (0, c\<lparr>cc_state := True\<rparr>)))
        (\<lambda>(ret, c'). usable c' \<and> cc_mr c' = cc_mr c \<and> cc_connected c' = cc_connected c))"
    using c1(2) same
    by (intro safely_mono [OF safely_process_nvme_rsp [OF c1(2)]])
      (auto simp: moved_same intro!: safely_mono [OF safely_send_and_wait] split: prod.splits)
qed (auto simp: moved_same)

lemma safely_open_ctrl:
  assumes "cc_ep c = Alive" "cc_qe c = Null" "\<not> region \<longrightarrow> cc_mr c = Null" "\<not> cc_connected c"
  shows "safely (open_ctrl X d c)
           (\<lambda>(ret, c'). sound region c' \<and> \<not> cc_connected c' \<and> (ret = 0 \<longrightarrow> usable c'))"
proof -
  obtain w1 where 1: "xp_alloc_key X (cc_world c) = (0, region, w1)" using alloc_key by blast
  obtain w2 where 2: "xp_alloc_key X w1 = (0, region, w2)" using alloc_key by blast
  define c2 where "c2 = c\<lparr>cc_mr := stored region (cc_mr c), cc_cmd := Alive,
                          cc_data_mr := stored region (cc_data_mr c), cc_data := Alive, cc_world := w2\<rparr>"
  have u: "usable c2" "cc_data c2 = Alive" "\<not> region \<longrightarrow> cc_mr c2 = Null" "\<not> cc_connected c2"
    using assms by (auto simp: c2_def usable_def stored_def)
  have "safely (exec_bind (send_fabric_connect X (ds_hostnqn d) c2) (\<lambda>(ret, c).
          if ret \<noteq> 0 then exec_bind (disconnect_endpoint X False c) (\<lambda>c. Inr (ret, c))
          else send_set_property X NVME_REG_CC NVME_CTRL_ENABLE c))
        (\<lambda>(ret, c'). sound region c' \<and> \<not> cc_connected c' \<and> (ret = 0 \<longrightarrow> usable c'))"
    unfolding safely_bind
  proof (rule safely_mono [OF safely_send_fabric_connect [OF u(1,2)]], clarify)
    fix ret :: int and c3 :: "'w ctrl" assume c3: "usable c3" "cc_mr c3 = cc_mr c2" "cc_connected c3 = cc_connected c2"
    show "safely (if ret \<noteq> 0 then exec_bind (disconnect_endpoint X False c3) (\<lambda>c. Inr (ret, c))
                  else send_set_property X NVME_REG_CC NVME_CTRL_ENABLE c3)
            (\<lambda>(ret, c'). sound region c' \<and> \<not> cc_connected c' \<and> (ret = 0 \<longrightarrow> usable c'))"
    proof (cases "ret = 0")
      case True
      with c3 u show ?thesis
        by (auto simp: send_set_property_def sound_def moved_same usable_def [of c3]
            intro!: safely_mono [OF safely_send_and_wait [OF c3(1)]])
    next
      case False
      with c3 u show ?thesis
        by (auto simp: sound_def intro!: safely_mono [OF safely_disconnect_endpoint [OF c3(1)]])
    qed
  qed
  then show ?thesis
    by (simp add: open_ctrl_def 1 2 Let_def c2_def)
qed

lemma safely_connect_ctrl:
  assumes "sound region c" "\<not> cc_connected c"
  shows "safely (nvmf_connect_ctrl X d c)
           (\<lambda>(ret, c'). sound region c' \<and> \<not> cc_connected c' \<and> (ret = 0 \<longrightarrow> usable c'))"
  using assms unfolding nvmf_connect_ctrl_def
  by (auto split: prod.splits simp: sound_def EINVAL_def
      intro!: safely_mono [OF safely_open_ctrl, unfolded sound_def])

end

end
