(* ===== verification/Monitor.thy ===== *)
theory Monitor
  imports Nvmeof Getopt
begin

text \<open>
  The two discovery clients: the monitor (\<^verbatim>\<open>src/src/monitor/daemon.c\<close>), which reports what has changed in the
  discovery log of a controller, and the automatic connection of subsystems
  (\<^verbatim>\<open>src/src/auto_connect/daemon.c\<close>). Both keep a table of the log pages by subsystem, refresh it at an event
  notification, and reconnect when the controller is lost. What the two have in common is defined once,
  after the text of the monitor.
\<close>

section \<open>The table of log pages\<close>

datatype page_state = Valid_logpage | Deleted_logpage | New_logpage

text \<open>\<^verbatim>\<open>connected\<close> has no value until the kernel's connections have been looked at.\<close>

record dpage =
  dp_e :: disc_entry
  dp_valid :: page_state
  dp_connected :: "bool option"

record dsubsys =
  dy_nqn :: string
  dy_pages :: "dpage list"

type_synonym table = "dsubsys list"

text \<open>What is printed.\<close>

datatype report =
    Subsys_added string
  | Entry_new disc_entry
  | Entry_deleted string u8 string string
  | Subsys_deleted string
  | Subsys_connected string

record 'w dclient =
  mo_ctrl :: "'w ctrl"
  mo_table :: table
  mo_out :: "report list"
  mo_cnt :: int

text \<open>\<^verbatim>\<open>invalidate_log_pages\<close>\<close>

definition mon_invalidate :: "table \<Rightarrow> table" where
  "mon_invalidate t =
     map (\<lambda>y. y\<lparr>dy_pages := map (\<lambda>p. p\<lparr>dp_valid := Deleted_logpage\<rparr>) (dy_pages y)\<rparr>) t"

text \<open>\<^verbatim>\<open>match_logpage\<close>\<close>

definition mon_match :: "dpage \<Rightarrow> disc_entry \<Rightarrow> bool" where
  "mon_match p e =
     (de_traddr e = de_traddr (dp_e p) \<and> de_trsvcid e = de_trsvcid (dp_e p) \<and>
      de_trtype e = de_trtype (dp_e p) \<and> de_adrfam e = de_adrfam (dp_e p))"

text \<open>\<^verbatim>\<open>store_logpage\<close> into a page that has just been allocated\<close>

definition mon_store :: "disc_entry \<Rightarrow> dpage" where
  "mon_store e = \<lparr>dp_e = e, dp_valid = New_logpage, dp_connected = None\<rparr>"

text \<open>
  The pages of a subsystem when the entry is found in the log: the first page that matches is valid again,
  else a new one is appended.
\<close>

fun mon_save_page :: "disc_entry \<Rightarrow> dpage list \<Rightarrow> dpage list" where
  "mon_save_page e [] = [mon_store e]"
| "mon_save_page e (p # ps) =
     (if mon_match p e then p\<lparr>dp_valid := Valid_logpage\<rparr> # ps else p # mon_save_page e ps)"

text \<open>The first subsystem of that name has the page.\<close>

fun mon_save_in :: "disc_entry \<Rightarrow> table \<Rightarrow> table option" where
  "mon_save_in e [] = None"
| "mon_save_in e (y # ys) =
     (if dy_nqn y = de_subnqn e then Some (y\<lparr>dy_pages := mon_save_page e (dy_pages y)\<rparr> # ys)
      else map_option ((#) y) (mon_save_in e ys))"

definition mon_save_entry :: "disc_entry \<Rightarrow> 'w dclient \<Rightarrow> 'w dclient exec" where
  "mon_save_entry e s =
     (case mon_save_in e (mo_table s) of
        Some t \<Rightarrow> Inr (s\<lparr>mo_table := t\<rparr>)
      | None \<Rightarrow>
          exec_bind (c_strcpy (MAX_NQN_SIZE + 1) (Some (de_subnqn e))) (\<lambda>nqn.
            Inr (s\<lparr>mo_table := mo_table s @ [\<lparr>dy_nqn = nqn, dy_pages = [mon_store e]\<rparr>],
                   mo_out := mo_out s @ [Subsys_added nqn]\<rparr>)))"

text \<open>\<^verbatim>\<open>save_log_pages\<close> and \<^verbatim>\<open>fetch_log_pages\<close>: the table is left alone when the log cannot be read.\<close>

definition mon_save_log_pages :: "disc_entry list \<Rightarrow> 'w dclient \<Rightarrow> 'w dclient exec" where
  "mon_save_log_pages es s = each mon_save_entry es s"

definition mon_fetch_log_pages :: "'w xport \<Rightarrow> 'w dclient \<Rightarrow> 'w dclient exec" where
  "mon_fetch_log_pages X s =
     exec_bind (get_logpages_via (send_get_log_page X) (mo_ctrl s)) (\<lambda>(ret, es, c).
       if ret \<noteq> 0 then Inr (s\<lparr>mo_ctrl := c\<rparr>)
       else mon_save_log_pages es (s\<lparr>mo_ctrl := c, mo_table := mon_invalidate (mo_table s)\<rparr>))"

section \<open>Reporting the changes\<close>

text \<open>
  \<^verbatim>\<open>print_log_pages\<close>: new pages are printed, deleted ones are reported and removed, and so are the subsystems
  that have no page left.
\<close>

fun print_pages :: "string \<Rightarrow> dpage list \<Rightarrow> report list \<times> dpage list" where
  "print_pages nqn [] = ([], [])"
| "print_pages nqn (p # ps) =
     (case print_pages nqn ps of (out, ps') \<Rightarrow>
        if dp_valid p = New_logpage then (Entry_new (dp_e p) # out, p # ps')
        else if dp_valid p = Deleted_logpage
        then (Entry_deleted nqn (de_trtype (dp_e p)) (de_traddr (dp_e p)) (de_trsvcid (dp_e p)) # out, ps')
        else (out, p # ps'))"

fun print_table :: "table \<Rightarrow> report list \<times> table" where
  "print_table [] = ([], [])"
| "print_table (y # ys) =
     (case print_pages (dy_nqn y) (dy_pages y) of (out, ps) \<Rightarrow>
      case print_table ys of (out', ys') \<Rightarrow>
        if ps = [] then (out @ Subsys_deleted (dy_nqn y) # out', ys')
        else (out @ out', y\<lparr>dy_pages := ps\<rparr> # ys'))"

definition print_log_pages :: "'w dclient \<Rightarrow> 'w dclient" where
  "print_log_pages s =
     (case print_table (mo_table s) of (out, t) \<Rightarrow> s\<lparr>mo_table := t, mo_out := mo_out s @ out\<rparr>)"

text \<open>\<^verbatim>\<open>cleanup_log_pages\<close> of the monitor\<close>

definition mon_cleanup_log_pages :: "'w dclient \<Rightarrow> 'w dclient" where
  "mon_cleanup_log_pages s =
     s\<lparr>mo_table := map (\<lambda>y. y\<lparr>dy_pages := filter (\<lambda>p. dp_valid p \<noteq> Deleted_logpage) (dy_pages y)\<rparr>) (mo_table s)\<rparr>"

definition NVME_AEN_CFG_DISC_LOG_CHG :: nat where "NVME_AEN_CFG_DISC_LOG_CHG = 2 ^ 31"

text \<open>
  \<^verbatim>\<open>enable_aens\<close>: nothing is written to the result it tests when the response reported an error or did not
  arrive; it goes on with whatever the stack holds there.
\<close>

definition enable_aens :: "'w xport \<Rightarrow> 'w ctrl \<Rightarrow> (int \<times> 'w ctrl) exec" where
  "enable_aens X c =
     exec_bind (send_get_features X NVME_FEAT_ASYNC_EVENT c) (\<lambda>(ret, result, c).
       if ret \<noteq> 0 then Inr (ret, c)
       else if (case result of None \<Rightarrow> xp_stack X (cc_world c) | Some v \<Rightarrow> v) = 0 then Inr (- EINVAL, c)
       else exec_bind (send_set_features X NVME_FEAT_ASYNC_EVENT NVME_AEN_CFG_DISC_LOG_CHG c) (\<lambda>(ret, c).
         if ret \<noteq> 0 then Inr (ret, c)
         else exec_bind (send_async_event_request X c) (\<lambda>(_, c). Inr (0, c))))"

text \<open>The request for the next event, which both clients end an update with.\<close>

definition request_event :: "'w xport \<Rightarrow> 'w dclient \<Rightarrow> 'w dclient exec" where
  "request_event X s =
     (if cc_failed_kato (mo_ctrl s) then Inr s
      else exec_bind (send_async_event_request X (mo_ctrl s)) (\<lambda>(_, c). Inr (s\<lparr>mo_ctrl := c\<rparr>)))"

definition report_updates :: "'w xport \<Rightarrow> 'w dclient \<Rightarrow> 'w dclient exec" where
  "report_updates X s =
     exec_bind (mon_fetch_log_pages X s) (\<lambda>s. request_event X (mon_cleanup_log_pages (print_log_pages s)))"

section \<open>Connecting and listening\<close>

text \<open>
  The functions of the two clients that call the update of the table take it as an argument: it is
  \<^const>\<open>report_updates\<close> in the monitor and \<^verbatim>\<open>process_updates\<close> in the other client.
\<close>

definition mon_stopped :: "'w xport \<Rightarrow> 'w dclient \<Rightarrow> bool" where
  "mon_stopped X s = xp_stopped X (cc_world (mo_ctrl s))"

definition complete_connection ::
  "'w xport \<Rightarrow> ('w dclient \<Rightarrow> 'w dclient exec) \<Rightarrow> 'w dclient \<Rightarrow> (int \<times> 'w dclient) exec" where
  "complete_connection X update s =
     (let s = s\<lparr>mo_ctrl := (mo_ctrl s)\<lparr>cc_connected := True\<rparr>\<rparr> in
      if mon_stopped X s then Inr (- ESHUTDOWN, s)
      else
        exec_bind (enable_aens X (mo_ctrl s)) (\<lambda>(_, c).
        exec_bind (update (s\<lparr>mo_ctrl := c\<rparr>)) (\<lambda>s.
          if cc_failed_kato (mo_ctrl s)
          then exec_bind (disconnect_ctrl X False (mo_ctrl s)) (\<lambda>c. Inr (0, s\<lparr>mo_ctrl := c\<rparr>))
          else Inr (0, s))))"

text \<open>\<^verbatim>\<open>cleanup_dq\<close>\<close>

definition mon_cleanup_dq :: "'w xport \<Rightarrow> 'w dclient \<Rightarrow> 'w dclient exec" where
  "mon_cleanup_dq X s =
     exec_bind (if cc_connected (mo_ctrl s) then disconnect_ctrl X True (mo_ctrl s) else Inr (mo_ctrl s)) (\<lambda>c.
       Inr (s\<lparr>mo_ctrl := c, mo_table := []\<rparr>))"

definition KEEP_ALIVE_COUNTER :: int where "KEEP_ALIVE_COUNTER = 4"
definition CONNECT_RETRY_COUNTER :: int where "CONNECT_RETRY_COUNTER = 60 * (1000000 div 480)"

datatype flow = Continue | Break | Proceed

text \<open>The first half of a round of the main loop: a client that is not connected tries to connect.\<close>

definition mon_reconnect ::
  "'w xport \<Rightarrow> dest \<Rightarrow> ('w dclient \<Rightarrow> 'w dclient exec) \<Rightarrow> 'w dclient \<Rightarrow> (flow \<times> 'w dclient) exec" where
  "mon_reconnect X d update s =
     (if cc_connected (mo_ctrl s) then Inr (Proceed, s)
      else
        let s = s\<lparr>mo_cnt := mo_cnt s + 1\<rparr> in
        if mo_cnt s < CONNECT_RETRY_COUNTER then Inr (Continue, s)
        else exec_bind (nvmf_connect_ctrl X d (mo_ctrl s)) (\<lambda>(ret, c).
          if ret \<noteq> 0 then Inr (Proceed, s\<lparr>mo_ctrl := c\<rparr>)
          else exec_bind (complete_connection X update (s\<lparr>mo_ctrl := c, mo_cnt := 0\<rparr>)) (\<lambda>(ret, s).
            if ret \<noteq> 0 \<or> mon_stopped X s then Inr (Break, s) else Inr (Proceed, s))))"

text \<open>The second half: a response is an event; after some rounds without one a keep-alive command is sent.\<close>

definition mon_listen ::
  "'w xport \<Rightarrow> ('w dclient \<Rightarrow> 'w dclient exec) \<Rightarrow> 'w dclient \<Rightarrow> (bool \<times> 'w dclient) exec" where
  "mon_listen X update s =
     (if \<not> cc_connected (mo_ctrl s) then Inr (False, s)
      else exec_bind (process_nvme_rsp X 0 (mo_ctrl s)) (\<lambda>(ret, _, c).
        if ret = 0 then exec_bind (update (s\<lparr>mo_ctrl := c\<rparr>)) (\<lambda>s. Inr (False, s\<lparr>mo_cnt := 0\<rparr>))
        else
          let s = s\<lparr>mo_ctrl := c, mo_cnt := mo_cnt s + 1\<rparr> in
          if mo_cnt s \<le> KEEP_ALIVE_COUNTER then Inr (False, s)
          else exec_bind (send_keep_alive X (mo_ctrl s)) (\<lambda>(ret, c).
            let s = s\<lparr>mo_ctrl := c, mo_cnt := 0\<rparr> in
            if mon_stopped X s then Inr (True, s)
            else if ret \<noteq> 0 then exec_bind (mon_cleanup_dq X s) (\<lambda>s. Inr (False, s))
            else Inr (False, s))))"

text \<open>A round, with what the automatic connection does at its end.\<close>

definition client_round ::
  "'w xport \<Rightarrow> dest \<Rightarrow> ('w dclient \<Rightarrow> 'w dclient exec) \<Rightarrow> ('w dclient \<Rightarrow> (bool \<times> 'w dclient) exec) \<Rightarrow>
   'w dclient \<Rightarrow> (bool \<times> 'w dclient) exec" where
  "client_round X d update idle s =
     exec_bind (mon_reconnect X d update s) (\<lambda>(f, s).
       case f of
         Continue \<Rightarrow> Inr (False, s)
       | Break \<Rightarrow> Inr (True, s)
       | Proceed \<Rightarrow> exec_bind (mon_listen X update s) (\<lambda>(stop, s). if stop then Inr (True, s) else idle s))"

text \<open>At most \<open>n\<close> rounds of the main loop; \<open>True\<close> when it has ended.\<close>

primrec client_loop ::
  "nat \<Rightarrow> 'w xport \<Rightarrow> dest \<Rightarrow> ('w dclient \<Rightarrow> 'w dclient exec) \<Rightarrow> ('w dclient \<Rightarrow> (bool \<times> 'w dclient) exec) \<Rightarrow>
   'w dclient \<Rightarrow> (bool \<times> 'w dclient) exec" where
  "client_loop 0 X d update idle s = Inr (mon_stopped X s, s)"
| "client_loop (Suc n) X d update idle s =
     (if mon_stopped X s then Inr (True, s)
      else exec_bind (client_round X d update idle s) (\<lambda>(stop, s).
        if stop then Inr (True, s) else client_loop n X d update idle s))"

text \<open>\<^verbatim>\<open>main\<close> from the first connection on, up to the end of \<open>n\<close> rounds.\<close>

definition client_main ::
  "nat \<Rightarrow> 'w xport \<Rightarrow> dest \<Rightarrow> ('w dclient \<Rightarrow> 'w dclient exec) \<Rightarrow> ('w dclient \<Rightarrow> (bool \<times> 'w dclient) exec) \<Rightarrow>
   'w dclient \<Rightarrow> (bool \<times> 'w dclient) exec" where
  "client_main n X d update idle s =
     exec_bind (nvmf_connect_ctrl X d (mo_ctrl s)) (\<lambda>(ret, c).
     exec_bind (if ret \<noteq> 0 then Inr (0, s\<lparr>mo_ctrl := c\<rparr>) else complete_connection X update (s\<lparr>mo_ctrl := c\<rparr>)) (\<lambda>(ret, s).
     exec_bind (if ret \<noteq> 0 then Inr (True, s) else client_loop n X d update idle s) (\<lambda>(ended, s).
       if \<not> ended then Inr (False, s)
       else exec_bind (mon_cleanup_dq X s) (\<lambda>s. Inr (True, s)))))"

section \<open>The arguments\<close>

text \<open>
  The buffers of a port that has just been allocated have no value, and one that was filled to its last
  character but one is not terminated either.
\<close>

record client_args =
  da_type :: "string option"
  da_family :: "string option"
  da_address :: "string option"
  da_port :: "string option"
  da_hostnqn :: string

definition init_dq :: client_args where
  "init_dq = \<lparr>da_type = None, da_family = None, da_address = None, da_port = None, da_hostnqn = []\<rparr>"

definition strncpy_raw :: "nat \<Rightarrow> string \<Rightarrow> string option" where
  "strncpy_raw n v = (if length v < n then Some v else None)"

fun client_options :: "(char \<times> string) list \<Rightarrow> client_args \<Rightarrow> client_args option" where
  "client_options [] a = Some a"
| "client_options ((c, v) # os) a =
     (if c = CHR ''d'' \<or> c = CHR ''S'' then client_options os a
      else if c = CHR ''t'' then client_options os (a\<lparr>da_type := strncpy_raw CONFIG_TYPE_SIZE v\<rparr>)
      else if c = CHR ''f'' then client_options os (a\<lparr>da_family := strncpy_raw CONFIG_FAMILY_SIZE v\<rparr>)
      else if c = CHR ''a'' then client_options os (a\<lparr>da_address := strncpy_raw CONFIG_ADDRESS_SIZE v\<rparr>)
      else if c = CHR ''s'' then client_options os (a\<lparr>da_port := strncpy_raw CONFIG_PORT_SIZE v\<rparr>)
      else if c = CHR ''h'' then client_options os (a\<lparr>da_hostnqn := take MAX_NQN_SIZE v\<rparr>)
      else None)"

text \<open>\<^verbatim>\<open>parse_args\<close> of the arguments after the name of the program; \<open>flags\<close> are the options without a value.\<close>

definition client_parse_args :: "string \<Rightarrow> string list \<Rightarrow> client_args option" where
  "client_parse_args flags argv =
     (if argv \<noteq> [] \<and> hd argv = ''--help'' then None
      else case getopt flags ''tfash'' argv of (opts, args) \<Rightarrow>
        case client_options opts init_dq of
          None \<Rightarrow> None
        | Some a \<Rightarrow> if args = [] then Some a else None)"

definition set_adrfam :: "string \<Rightarrow> nat" where
  "set_adrfam family =
     (if family = ''ipv4'' then NVMF_ADDR_FAMILY_IP4 else if family = ''ipv6'' then NVMF_ADDR_FAMILY_IP6 else 0)"

definition read_buf :: "string option \<Rightarrow> string exec" where
  "read_buf b = (case b of None \<Rightarrow> Inl Uninitialised | Some v \<Rightarrow> Inr v)"

text \<open>\<^verbatim>\<open>validate_dq\<close>: the place to connect to, or the error. \<open>uuid\<close> is what \<^verbatim>\<open>gen_uuid\<close> makes.\<close>

definition validate_dq :: "string \<Rightarrow> client_args \<Rightarrow> (int + dest) exec" where
  "validate_dq uuid a =
     exec_bind (read_buf (da_type a)) (\<lambda>typ.
     if \<not> register_ops typ then Inr (Inl (- EINVAL))
     else exec_bind (read_buf (da_family a)) (\<lambda>family.
     if set_adrfam family = 0 then Inr (Inl (- EINVAL))
     else exec_bind (read_buf (da_address a)) (\<lambda>address.
     exec_bind (if set_adrfam family = NVMF_ADDR_FAMILY_IP4 then ipv4_to_addr address else ipv6_to_addr address)
      (\<lambda>(ret, _, address).
     if ret \<noteq> 0 then Inr (Inl ret)
     else exec_bind (read_buf (da_port a)) (\<lambda>port.
     if atoi port = 0 then Inr (Inl (- EINVAL))
     else Inr (Inr \<lparr>ds_family = family, ds_address = address, ds_port_num = atoi port,
                    ds_hostnqn = (if da_hostnqn a = [] then ''nqn.2014-08.org.nvmexpress:uuid:'' @ uuid
                                  else da_hostnqn a)\<rparr>))))))"

definition client_start :: "'w \<Rightarrow> 'w dclient" where
  "client_start w = \<lparr>mo_ctrl = ctrl_zero w, mo_table = [], mo_out = [], mo_cnt = 0\<rparr>"

text \<open>The monitor. No result when the arguments are refused.\<close>

definition monitor_main ::
  "nat \<Rightarrow> 'w xport \<Rightarrow> string \<Rightarrow> string list \<Rightarrow> 'w \<Rightarrow> (bool \<times> 'w dclient) option exec" where
  "monitor_main n X uuid argv w =
     (case client_parse_args ''d'' argv of
        None \<Rightarrow> Inr None
      | Some a \<Rightarrow>
          exec_bind (validate_dq uuid a) (\<lambda>r.
            case r of
              Inl _ \<Rightarrow> Inr None
            | Inr d \<Rightarrow>
                exec_bind (client_main n X d (report_updates X) (\<lambda>s. Inr (False, s)) (client_start w)) (\<lambda>res.
                  Inr (Some res))))"

end
