(* ===== verification/Auto_Connect.thy ===== *)
theory Auto_Connect
  imports Monitor
begin

text \<open>
  The automatic connection of subsystems (\<^verbatim>\<open>src/src/auto_connect/daemon.c\<close>): after each update of the table
  the controllers the kernel has are read from the \<^verbatim>\<open>sysfs\<close> directory, pages that are connected already are
  marked, and one subsystem that is not is connected per round of the main loop, by writing a line to the
  device of the fabrics driver.

  The files of the kernel are a parameter.
\<close>

section \<open>The controllers of the kernel\<close>

text \<open>An entry of the directory, with the contents of the files in it that can be opened.\<close>

record sys_ctl =
  sy_name :: string
  sy_subnqn :: "string option"
  sy_address :: "string option"
  sy_transport :: "string option"

text \<open>
  \<open>fb_controllers\<close> is the directory, if it can be opened; \<open>fb_write\<close> opens the device and writes a line
  to it, with no value when it cannot be opened.
\<close>

record 'w fabrics =
  fb_controllers :: "'w \<Rightarrow> sys_ctl list option"
  fb_write :: "string \<Rightarrow> 'w \<Rightarrow> 'w option"

text \<open>
  \<^verbatim>\<open>fgets\<close> into a buffer of \<open>n\<close> bytes, then cutting at the end of the line. An empty file leaves the
  buffer as it was.
\<close>

definition get_line :: "nat \<Rightarrow> string \<Rightarrow> string option \<Rightarrow> string option" where
  "get_line n content old =
     (if content = [] then old else Some (takeWhile (\<lambda>c. c \<noteq> CHR 0x0A) (take (n - 1) content)))"

text \<open>The two buffers of \<^verbatim>\<open>mark_connected_subsystems\<close>.\<close>

type_synonym buffers = "string option \<times> string option"

text \<open>
  The pages of a subsystem against a connection: the first page with that address is marked as connected if
  it is valid, and taken off the list if it has been deleted. \<open>port\<close> has no value when it points nowhere.
\<close>

fun mark_pages :: "string \<Rightarrow> string \<Rightarrow> string option \<Rightarrow> dpage list \<Rightarrow> dpage list exec" where
  "mark_pages val addr port [] = Inr []"
| "mark_pages val addr port (p # ps) =
     (if trtype_str (de_trtype (dp_e p)) \<noteq> val \<or> de_traddr (dp_e p) \<noteq> addr
      then exec_bind (mark_pages val addr port ps) (\<lambda>ps. Inr (p # ps))
      else case port of
          None \<Rightarrow> Inl Wild_pointer
        | Some svc \<Rightarrow>
            if de_trsvcid (dp_e p) \<noteq> svc then exec_bind (mark_pages val addr port ps) (\<lambda>ps. Inr (p # ps))
            else if dp_valid p = Valid_logpage then Inr (p\<lparr>dp_connected := Some True\<rparr> # ps)
            else if dp_valid p = Deleted_logpage then Inr ps
            else Inr (p # ps))"

text \<open>What stands after the first occurrence of a character; no value when there is none.\<close>

definition after_char :: "char \<Rightarrow> string \<Rightarrow> string option" where
  "after_char ch v = (case dropWhile (\<lambda>c. c \<noteq> ch) v of [] \<Rightarrow> None | _ # rest \<Rightarrow> Some rest)"

text \<open>
  The address has the form \<^verbatim>\<open>traddr=...,trsvcid=...\<close>; the comma is overwritten. The tests for the equals signs
  do not notice that there is none.
\<close>

definition mark_address :: "string \<Rightarrow> string \<Rightarrow> dsubsys \<Rightarrow> (string \<times> dsubsys) exec" where
  "mark_address address val y =
     (case after_char (CHR ''='') address of
        None \<Rightarrow> Inl Wild_pointer
      | Some addr \<Rightarrow>
          case after_char (CHR '','') addr of
            None \<Rightarrow> Inr (address, y)
          | Some rest \<Rightarrow>
              exec_bind (mark_pages val (takeWhile (\<lambda>c. c \<noteq> CHR '','') addr) (after_char (CHR ''='') rest) (dy_pages y))
               (\<lambda>ps. Inr (takeWhile (\<lambda>c. c \<noteq> CHR ''='') address @ CHR ''='' # takeWhile (\<lambda>c. c \<noteq> CHR '','') addr,
                          y\<lparr>dy_pages := ps\<rparr>)))"

text \<open>One entry of the directory against one subsystem.\<close>

definition mark_entry :: "sys_ctl \<Rightarrow> buffers \<times> dsubsys \<Rightarrow> (buffers \<times> dsubsys) exec" where
  "mark_entry e st =
     (case st of ((val, address), y) \<Rightarrow>
      if take 4 (sy_name e) \<noteq> ''nvme'' then Inr st
      else case sy_subnqn e of
          None \<Rightarrow> Inr st
        | Some f \<Rightarrow>
            exec_bind (read_buf (get_line (MAX_NQN_SIZE + 1) f val)) (\<lambda>nqn.
            if dy_nqn y \<noteq> nqn then Inr ((Some nqn, address), y)
            else case sy_address e of
                None \<Rightarrow> Inr ((Some nqn, address), y)
              | Some f \<Rightarrow>
                  exec_bind (read_buf (get_line (CONFIG_ADDRESS_SIZE + 1) f address)) (\<lambda>address.
                  case sy_transport e of
                    None \<Rightarrow> Inr ((Some nqn, Some address), y)
                  | Some f \<Rightarrow>
                      exec_bind (read_buf (get_line (MAX_NQN_SIZE + 1) f (Some nqn))) (\<lambda>val.
                      exec_bind (mark_address address val y) (\<lambda>(address, y).
                        Inr ((Some val, Some address), y))))))"

text \<open>\<^verbatim>\<open>mark_connected_subsystems\<close>: it ends at the first subsystem when the directory cannot be opened.\<close>

fun mark_table :: "sys_ctl list option \<Rightarrow> buffers \<Rightarrow> table \<Rightarrow> table exec" where
  "mark_table dir bs [] = Inr []"
| "mark_table dir bs (y # ys) =
     (let y = y\<lparr>dy_pages := map (\<lambda>p. p\<lparr>dp_connected := Some False\<rparr>) (dy_pages y)\<rparr> in
      case dir of
        None \<Rightarrow> Inr (y # ys)
      | Some es \<Rightarrow>
          exec_bind (each mark_entry es (bs, y)) (\<lambda>(bs, y).
          exec_bind (mark_table dir bs ys) (\<lambda>ys. Inr (y # ys))))"

definition mark_connected_subsystems :: "'w fabrics \<Rightarrow> 'w dclient \<Rightarrow> 'w dclient exec" where
  "mark_connected_subsystems F s =
     exec_bind (mark_table (fb_controllers F (cc_world (mo_ctrl s))) (None, None) (mo_table s)) (\<lambda>t.
       Inr (s\<lparr>mo_table := t\<rparr>))"

section \<open>Connecting\<close>

definition fabrics_line :: "disc_entry \<Rightarrow> string \<Rightarrow> string \<Rightarrow> string" where
  "fabrics_line e nqn hostnqn =
     ''transport='' @ trtype_str (de_trtype e) @ '',traddr='' @ de_traddr e @ '',trsvcid='' @ de_trsvcid e @
     '',nqn='' @ nqn @ '',hostnqn='' @ hostnqn"

text \<open>\<^verbatim>\<open>connect_one_subsystem\<close>, of the pages of a subsystem and of the table; it tells whether it has connected one.\<close>

fun connect_pages ::
  "'w fabrics \<Rightarrow> string \<Rightarrow> string \<Rightarrow> dpage list \<Rightarrow> 'w \<Rightarrow> (bool \<times> dpage list \<times> 'w) exec" where
  "connect_pages F hostnqn nqn [] w = Inr (False, [], w)"
| "connect_pages F hostnqn nqn (p # ps) w =
     (case dp_connected p of
        None \<Rightarrow> Inl Uninitialised
      | Some True \<Rightarrow> exec_bind (connect_pages F hostnqn nqn ps w) (\<lambda>(b, ps, w). Inr (b, p # ps, w))
      | Some False \<Rightarrow>
          (case fb_write F (fabrics_line (dp_e p) nqn hostnqn) w of
             None \<Rightarrow> exec_bind (connect_pages F hostnqn nqn ps w) (\<lambda>(b, ps, w). Inr (b, p # ps, w))
           | Some w \<Rightarrow> Inr (True, p\<lparr>dp_connected := Some True\<rparr> # ps, w)))"

fun connect_table ::
  "'w fabrics \<Rightarrow> string \<Rightarrow> table \<Rightarrow> 'w \<Rightarrow> (string option \<times> table \<times> 'w) exec" where
  "connect_table F hostnqn [] w = Inr (None, [], w)"
| "connect_table F hostnqn (y # ys) w =
     exec_bind (connect_pages F hostnqn (dy_nqn y) (dy_pages y) w) (\<lambda>(b, ps, w).
       if b then Inr (Some (dy_nqn y), y\<lparr>dy_pages := ps\<rparr> # ys, w)
       else exec_bind (connect_table F hostnqn ys w) (\<lambda>(r, ys, w). Inr (r, y\<lparr>dy_pages := ps\<rparr> # ys, w)))"

definition connect_one_subsystem :: "'w fabrics \<Rightarrow> string \<Rightarrow> 'w dclient \<Rightarrow> 'w dclient exec" where
  "connect_one_subsystem F hostnqn s =
     exec_bind (connect_table F hostnqn (mo_table s) (cc_world (mo_ctrl s))) (\<lambda>(r, t, w).
       Inr (s\<lparr>mo_table := t, mo_ctrl := (mo_ctrl s)\<lparr>cc_world := w\<rparr>,
              mo_out := mo_out s @ (case r of None \<Rightarrow> [] | Some nqn \<Rightarrow> [Subsys_connected nqn])\<rparr>))"

text \<open>\<^verbatim>\<open>cleanup_log_pages\<close>, which also takes the subsystems without a page off the table\<close>

definition ac_cleanup_table :: "table \<Rightarrow> table" where
  "ac_cleanup_table t =
     filter (\<lambda>y. dy_pages y \<noteq> [])
       (map (\<lambda>y. y\<lparr>dy_pages := filter (\<lambda>p. dp_valid p \<noteq> Deleted_logpage) (dy_pages y)\<rparr>) t)"

definition process_updates :: "'w xport \<Rightarrow> 'w fabrics \<Rightarrow> 'w dclient \<Rightarrow> 'w dclient exec" where
  "process_updates X F s =
     exec_bind (mon_fetch_log_pages X s) (\<lambda>s.
     exec_bind (mark_connected_subsystems F s) (\<lambda>s.
       request_event X (s\<lparr>mo_table := ac_cleanup_table (mo_table s)\<rparr>)))"

text \<open>The end of a round of the main loop.\<close>

definition auto_idle :: "'w xport \<Rightarrow> 'w fabrics \<Rightarrow> dest \<Rightarrow> 'w dclient \<Rightarrow> (bool \<times> 'w dclient) exec" where
  "auto_idle X F d s =
     (if mon_stopped X s then Inr (True, s)
      else exec_bind (connect_one_subsystem F (ds_hostnqn d) s) (\<lambda>s. Inr (False, s)))"

text \<open>
  The program: no result when the arguments are refused, when it cannot become a daemon
  (\<open>daemon\<close> is what \<^verbatim>\<open>daemonize\<close> returns), or when it may not use the fabrics device (\<open>usage\<close> is what
  \<^verbatim>\<open>validate_usage\<close> returns).
\<close>

definition auto_connect_main ::
  "nat \<Rightarrow> 'w xport \<Rightarrow> 'w fabrics \<Rightarrow> int \<Rightarrow> int \<Rightarrow> string \<Rightarrow> string list \<Rightarrow> 'w \<Rightarrow> (bool \<times> 'w dclient) option exec" where
  "auto_connect_main n X F daemon usage uuid argv w =
     (case client_parse_args ''dS'' argv of
        None \<Rightarrow> Inr None
      | Some a \<Rightarrow>
          exec_bind (validate_dq uuid a) (\<lambda>r.
            case r of
              Inl _ \<Rightarrow> Inr None
            | Inr d \<Rightarrow>
                if daemon \<noteq> 0 \<or> usage \<noteq> 0 then Inr None
                else exec_bind (client_main n X d (process_updates X F) (auto_idle X F d) (client_start w)) (\<lambda>res.
                  Inr (Some res))))"

end
