(* ===== verification/Log_Table.thy ===== *)
theory Log_Table
  imports Auto_Connect
begin

text \<open>
  The table of a discovery client as a map from the identity of a log entry to its state: each operation on
  the table refines an update of that map.
\<close>

section \<open>The map of a table\<close>

text \<open>What \<^const>\<open>mon_match\<close> compares, with the name of the subsystem.\<close>

type_synonym entry_id = "string \<times> string \<times> string \<times> u8 \<times> u8"

definition entry_key :: "disc_entry \<Rightarrow> entry_id" where
  "entry_key e = (de_subnqn e, de_traddr e, de_trsvcid e, de_trtype e, de_adrfam e)"

definition page_key :: "dpage \<Rightarrow> entry_id" where
  "page_key p = entry_key (dp_e p)"

definition page_item :: "dpage \<Rightarrow> entry_id \<times> page_state \<times> disc_entry" where
  "page_item p = (page_key p, dp_valid p, dp_e p)"

definition table_pages :: "table \<Rightarrow> dpage list" where
  "table_pages t = concat (map dy_pages t)"

definition table_map :: "table \<Rightarrow> (entry_id \<rightharpoonup> page_state \<times> disc_entry)" where
  "table_map t = map_of (map page_item (table_pages t))"

definition wf_subsys :: "dsubsys \<Rightarrow> bool" where
  "wf_subsys y =
     (dy_pages y \<noteq> [] \<and> distinct (map page_key (dy_pages y)) \<and>
      (\<forall>p\<in>set (dy_pages y). de_subnqn (dp_e p) = dy_nqn y))"

definition wf_table :: "table \<Rightarrow> bool" where
  "wf_table t = (distinct (map dy_nqn t) \<and> (\<forall>y\<in>set t. wf_subsys y))"

definition table_keys :: "table \<Rightarrow> entry_id set" where
  "table_keys t = page_key ` set (table_pages t)"

lemma table_pages_simps [simp]:
  "table_pages [] = []" "table_pages (y # ys) = dy_pages y @ table_pages ys"
  "table_pages (t @ u) = table_pages t @ table_pages u"
  by (simp_all add: table_pages_def)

lemma wf_table_simps [simp]:
  "wf_table []" "wf_table (y # ys) = (dy_nqn y \<notin> dy_nqn ` set ys \<and> wf_subsys y \<and> wf_table ys)"
  by (auto simp: wf_table_def)

lemma fst_page_item [simp]: "fst (page_item p) = page_key p" "fst \<circ> page_item = page_key"
  by (auto simp: page_item_def)

lemma fst_page_key: "fst (page_key p) = de_subnqn (dp_e p)"
  by (simp add: page_key_def entry_key_def)

text \<open>The names of a table are those of its entries.\<close>

lemma table_names:
  assumes "wf_table t"
  shows "dy_nqn ` set t = fst ` table_keys t"
  using assms
proof (induction t)
  case (Cons y t)
  then have "wf_subsys y" by simp
  then have "fst ` page_key ` set (dy_pages y) = {dy_nqn y}"
    by (cases "dy_pages y") (auto simp: wf_subsys_def fst_page_key image_image)
  with Cons show ?case by (simp add: table_keys_def image_Un)
qed (simp add: table_keys_def)

lemma wf_distinct:
  assumes "wf_table t"
  shows "distinct (map page_key (table_pages t))"
  using assms
proof (induction t)
  case (Cons y t)
  have "page_key p \<noteq> page_key q" if "p \<in> set (dy_pages y)" "q \<in> set (table_pages t)" for p q
  proof
    assume "page_key p = page_key q"
    then have "fst (page_key p) \<in> dy_nqn ` set t"
      using that(2) Cons.prems table_names [of t] by (simp add: table_keys_def image_image)
    with that(1) Cons.prems show False by (simp add: wf_subsys_def fst_page_key)
  qed
  then have "page_key ` set (dy_pages y) \<inter> page_key ` set (table_pages t) = {}" by blast
  with Cons show ?case by (simp add: wf_subsys_def)
qed simp

lemma dom_table_map: "dom (table_map t) = table_keys t"
  by (simp add: table_map_def dom_map_of_conv_image_fst table_keys_def image_image)

lemma table_map_Some:
  assumes "wf_table t"
  shows "table_map t k = Some (st, e) \<longleftrightarrow> (\<exists>p\<in>set (table_pages t). page_key p = k \<and> dp_valid p = st \<and> dp_e p = e)"
proof -
  have "distinct (map fst (map page_item (table_pages t)))" using wf_distinct [OF assms] by simp
  then have "table_map t k = Some (st, e) \<longleftrightarrow> (k, st, e) \<in> set (map page_item (table_pages t))"
    unfolding table_map_def by (rule map_of_eq_Some_iff)
  then show ?thesis by (auto simp: page_item_def image_iff)
qed

section \<open>Saving an entry\<close>

definition save_item :: "disc_entry \<Rightarrow> (entry_id \<rightharpoonup> page_state \<times> disc_entry) \<Rightarrow> (entry_id \<rightharpoonup> page_state \<times> disc_entry)" where
  "save_item e m = m(entry_key e \<mapsto> (case m (entry_key e) of Some (_, e0) \<Rightarrow> (Valid_logpage, e0) | None \<Rightarrow> (New_logpage, e)))"

lemma save_item_add:
  assumes "m (entry_key e) = None"
  shows "save_item e n ++ m = save_item e (n ++ m)"
proof -
  have "(n ++ m) (entry_key e) = n (entry_key e)" using assms by (simp add: map_add_def)
  then show ?thesis using assms by (simp add: save_item_def map_add_upd_left domIff)
qed

lemma match_key: "de_subnqn (dp_e p) = de_subnqn e \<Longrightarrow> mon_match p e \<longleftrightarrow> page_key p = entry_key e"
  by (auto simp: mon_match_def page_key_def entry_key_def)

lemma save_page_map:
  assumes "\<forall>p\<in>set ps. de_subnqn (dp_e p) = de_subnqn e"
  shows "map_of (map page_item (mon_save_page e ps)) = save_item e (map_of (map page_item ps))"
  using assms
proof (induction ps)
  case (Cons p ps)
  then show ?case
    by (auto simp: match_key save_item_def page_item_def page_key_def split: option.splits prod.splits
        intro: fun_upd_twist)
qed (simp add: save_item_def mon_store_def page_item_def page_key_def)

lemma save_page_keys:
  "page_key ` set (mon_save_page e ps) \<subseteq> insert (entry_key e) (page_key ` set ps)"
  by (induction ps) (auto simp: mon_store_def page_key_def)

lemma wf_save_page:
  assumes "wf_subsys y" "dy_nqn y = de_subnqn e"
  shows "wf_subsys (y\<lparr>dy_pages := mon_save_page e (dy_pages y)\<rparr>)"
proof -
  have sub: "\<forall>p\<in>set (dy_pages y). de_subnqn (dp_e p) = de_subnqn e" using assms by (simp add: wf_subsys_def)
  have "distinct (map page_key (mon_save_page e ps)) \<and> (\<forall>p\<in>set (mon_save_page e ps). de_subnqn (dp_e p) = de_subnqn e) \<and>
          mon_save_page e ps \<noteq> []"
    if "distinct (map page_key ps)" "\<forall>p\<in>set ps. de_subnqn (dp_e p) = de_subnqn e" for ps
    using that
  proof (induction ps)
    case (Cons p ps)
    then show ?case
      using save_page_keys [of e ps] by (auto simp: match_key page_key_def [of "_\<lparr>dp_valid := _\<rparr>"] page_key_def [symmetric])
  qed (simp add: mon_store_def)
  with assms sub show ?thesis by (auto simp: wf_subsys_def)
qed

lemma table_map_Cons: "table_map (y # ys) = table_map ys ++ map_of (map page_item (dy_pages y))"
  by (simp add: table_map_def)

lemma table_map_None:
  assumes "wf_table t" "fst k \<notin> dy_nqn ` set t"
  shows "table_map t k = None"
proof -
  have "k \<notin> table_keys t" using assms table_names [OF assms(1)] by (metis image_eqI)
  then show ?thesis by (metis dom_table_map domIff)
qed

lemma subsys_map_None:
  assumes "wf_subsys y" "fst k \<noteq> dy_nqn y"
  shows "map_of (map page_item (dy_pages y)) k = None"
  using assms by (auto simp: map_of_eq_None_iff wf_subsys_def fst_page_key [symmetric] image_image)

text \<open>Saving an entry in a table where its subsystem is known.\<close>

lemma save_in_refines:
  assumes "wf_table t"
  shows "case mon_save_in e t of
           None \<Rightarrow> de_subnqn e \<notin> dy_nqn ` set t
         | Some t' \<Rightarrow> de_subnqn e \<in> dy_nqn ` set t \<and> wf_table t' \<and> map dy_nqn t' = map dy_nqn t \<and>
             table_map t' = save_item e (table_map t)"
  using assms
proof (induction t)
  case (Cons y t)
  let ?m = "map_of (map page_item (dy_pages y))" and ?k = "entry_key e"
  have fk: "fst ?k = de_subnqn e" by (simp add: entry_key_def)
  show ?case
  proof (cases "dy_nqn y = de_subnqn e")
    case True
    have none: "table_map t ?k = None"
      using Cons.prems True fk by (intro table_map_None) auto
    have "map_of (map page_item (mon_save_page e (dy_pages y))) = save_item e ?m"
      using Cons.prems True by (intro save_page_map) (auto simp: wf_subsys_def)
    with none have "table_map (y\<lparr>dy_pages := mon_save_page e (dy_pages y)\<rparr> # t) = save_item e (table_map (y # t))"
      by (auto simp: table_map_Cons save_item_def map_add_def fun_eq_iff split: option.splits)
    with True Cons.prems wf_save_page [of y e] show ?thesis by simp
  next
    case False
    have none: "?m ?k = None" using Cons.prems False fk by (intro subsys_map_None) auto
    show ?thesis
    proof (cases "mon_save_in e t")
      case None
      with Cons False show ?thesis by auto
    next
      case (Some t')
      with Cons have t': "de_subnqn e \<in> dy_nqn ` set t" "wf_table t'" "map dy_nqn t' = map dy_nqn t"
        "table_map t' = save_item e (table_map t)" by auto
      have "table_map (y # t') = save_item e (table_map (y # t))"
        using none t'(4) by (simp add: table_map_Cons save_item_add)
      moreover have "dy_nqn ` set t' = dy_nqn ` set t" by (metis list.set_map t'(3))
      ultimately show ?thesis using Some False t' Cons.prems by simp
    qed
  qed
qed simp

section \<open>Saving a log\<close>

lemma save_entry_refines:
  assumes "wf_table (mo_table s)" "length (de_subnqn e) \<le> MAX_NQN_SIZE"
  shows "\<exists>s'. mon_save_entry e s = Inr s' \<and> wf_table (mo_table s') \<and>
    table_map (mo_table s') = save_item e (table_map (mo_table s)) \<and> mo_ctrl s' = mo_ctrl s \<and>
    mo_out s' = mo_out s @ (if de_subnqn e \<in> dy_nqn ` set (mo_table s) then [] else [Subsys_added (de_subnqn e)]) \<and>
    dy_nqn ` set (mo_table s') = insert (de_subnqn e) (dy_nqn ` set (mo_table s))"
proof (cases "mon_save_in e (mo_table s)")
  case (Some t')
  with save_in_refines [OF assms(1), of e] have t': "de_subnqn e \<in> dy_nqn ` set (mo_table s)" "wf_table t'"
    "map dy_nqn t' = map dy_nqn (mo_table s)" "table_map t' = save_item e (table_map (mo_table s))" by auto
  then have "dy_nqn ` set t' = dy_nqn ` set (mo_table s)" by (metis list.set_map)
  with Some t' show ?thesis by (auto simp: mon_save_entry_def)
next
  case None
  with save_in_refines [OF assms(1), of e] have new: "de_subnqn e \<notin> dy_nqn ` set (mo_table s)" by simp
  let ?y = "\<lparr>dy_nqn = de_subnqn e, dy_pages = [mon_store e]\<rparr>"
  have "table_map (mo_table s) (entry_key e) = None"
    using new assms(1) by (intro table_map_None) (simp_all add: entry_key_def)
  then have "table_map (mo_table s @ [?y]) = save_item e (table_map (mo_table s))"
    by (simp add: table_map_def save_item_def mon_store_def page_item_def page_key_def)
      (simp add: map_add_def fun_eq_iff split: option.splits)
  moreover have "wf_table (mo_table s @ [?y])"
    using new assms(1) by (auto simp: wf_table_def wf_subsys_def mon_store_def)
  ultimately show ?thesis using None new assms(2) by (auto simp: mon_save_entry_def c_strcpy_def)
qed

text \<open>The names that are new, each once, in the order in which they appear.\<close>

fun new_names :: "disc_entry list \<Rightarrow> string set \<Rightarrow> string list" where
  "new_names [] N = []"
| "new_names (e # es) N =
     (if de_subnqn e \<in> N then new_names es N else de_subnqn e # new_names es (insert (de_subnqn e) N))"

lemma set_new_names: "set (new_names es N) = de_subnqn ` set es - N"
  by (induction es arbitrary: N) auto

lemma save_log_pages_refines:
  assumes "wf_table (mo_table s)" "\<forall>e\<in>set es. length (de_subnqn e) \<le> MAX_NQN_SIZE"
  shows "\<exists>s'. mon_save_log_pages es s = Inr s' \<and> wf_table (mo_table s') \<and>
    table_map (mo_table s') = fold save_item es (table_map (mo_table s)) \<and> mo_ctrl s' = mo_ctrl s \<and>
    mo_out s' = mo_out s @ map Subsys_added (new_names es (dy_nqn ` set (mo_table s)))"
  using assms unfolding mon_save_log_pages_def
proof (induction es arbitrary: s)
  case (Cons e es)
  obtain s1 where s1: "mon_save_entry e s = Inr s1" "wf_table (mo_table s1)"
    "table_map (mo_table s1) = save_item e (table_map (mo_table s))" "mo_ctrl s1 = mo_ctrl s"
    "mo_out s1 = mo_out s @ (if de_subnqn e \<in> dy_nqn ` set (mo_table s) then [] else [Subsys_added (de_subnqn e)])"
    "dy_nqn ` set (mo_table s1) = insert (de_subnqn e) (dy_nqn ` set (mo_table s))"
    using save_entry_refines [OF Cons.prems(1), of e] Cons.prems(2) by auto
  from Cons.IH [OF s1(2)] Cons.prems(2) obtain s2 where s2: "each mon_save_entry es s1 = Inr s2" "wf_table (mo_table s2)"
    "table_map (mo_table s2) = fold save_item es (table_map (mo_table s1))" "mo_ctrl s2 = mo_ctrl s1"
    "mo_out s2 = mo_out s1 @ map Subsys_added (new_names es (dy_nqn ` set (mo_table s1)))" by auto
  show ?case using s1 s2 by (auto simp: insert_absorb)
qed simp

lemma save_item_apply:
  "save_item e m k =
     (if k = entry_key e then (case m k of Some (_, e0) \<Rightarrow> Some (Valid_logpage, e0) | None \<Rightarrow> Some (New_logpage, e))
      else m k)"
  by (auto simp: save_item_def split: option.splits)

text \<open>What the map is after a log has been saved in it.\<close>

lemma fold_save_item_known:
  "m k = Some (st, e0) \<Longrightarrow>
   fold save_item es m k = Some (if k \<in> entry_key ` set es then Valid_logpage else st, e0)"
proof (induction es arbitrary: m st)
  case (Cons e es)
  have "save_item e m k = Some (if entry_key e = k then Valid_logpage else st, e0)"
    using Cons.prems by (auto simp: save_item_apply)
  with Cons.IH [of "save_item e m" "if entry_key e = k then Valid_logpage else st"] show ?case by auto
qed simp

lemma fold_save_item_unknown:
  "m k = None \<Longrightarrow>
   fold save_item es m k = (case List.find (\<lambda>e. entry_key e = k) es of
     None \<Rightarrow> None
   | Some e \<Rightarrow> Some (if count_list (map entry_key es) k = 1 then New_logpage else Valid_logpage, e))"
proof (induction es arbitrary: m)
  case (Cons e es)
  show ?case
  proof (cases "entry_key e = k")
    case True
    then have "fold save_item es (save_item e m) k =
        Some (if k \<in> entry_key ` set es then Valid_logpage else New_logpage, e)"
      using Cons.prems by (intro fold_save_item_known) (simp add: save_item_apply)
    moreover have "count_list (map entry_key es) k = 0 \<longleftrightarrow> k \<notin> entry_key ` set es"
      by (simp add: count_list_0_iff)
    ultimately show ?thesis using True by auto
  next
    case False
    then show ?thesis using Cons by (simp add: save_item_apply)
  qed
qed simp

section \<open>Invalidating and printing\<close>

lemma invalidate_refines:
  assumes "wf_table t"
  shows "wf_table (mon_invalidate t)" "dy_nqn ` set (mon_invalidate t) = dy_nqn ` set t"
    "table_map (mon_invalidate t) = (\<lambda>k. map_option (\<lambda>(st, e). (Deleted_logpage, e)) (table_map t k))"
proof -
  have pages: "table_pages (mon_invalidate t) = map (\<lambda>p. p\<lparr>dp_valid := Deleted_logpage\<rparr>) (table_pages t)"
    by (induction t) (simp_all add: mon_invalidate_def)
  have key: "page_key \<circ> (\<lambda>p. p\<lparr>dp_valid := Deleted_logpage\<rparr>) = page_key" by (auto simp: page_key_def)
  have item: "map page_item (map (\<lambda>p. p\<lparr>dp_valid := Deleted_logpage\<rparr>) ps) =
      map (\<lambda>(k, v). (k, (\<lambda>(st, e). (Deleted_logpage, e)) v)) (map page_item ps)" for ps
    by (auto simp: page_item_def page_key_def)
  show "wf_table (mon_invalidate t)"
    using assms by (auto simp: wf_table_def mon_invalidate_def wf_subsys_def comp_def key [unfolded comp_def])
  show "dy_nqn ` set (mon_invalidate t) = dy_nqn ` set t" by (simp add: mon_invalidate_def image_image)
  show "table_map (mon_invalidate t) = (\<lambda>k. map_option (\<lambda>(st, e). (Deleted_logpage, e)) (table_map t k))"
    unfolding table_map_def pages item by (simp only: map_of_map) (simp add: fun_eq_iff)
qed

definition kept_page :: "dpage \<Rightarrow> bool" where
  "kept_page p = (dp_valid p \<noteq> Deleted_logpage)"

fun page_report :: "string \<Rightarrow> dpage \<Rightarrow> report list" where
  "page_report nqn p =
     (case dp_valid p of
        New_logpage \<Rightarrow> [Entry_new (dp_e p)]
      | Deleted_logpage \<Rightarrow> [Entry_deleted nqn (de_trtype (dp_e p)) (de_traddr (dp_e p)) (de_trsvcid (dp_e p))]
      | Valid_logpage \<Rightarrow> [])"

lemma print_pages_eq: "print_pages nqn ps = (concat (map (page_report nqn) ps), filter kept_page ps)"
  by (induction ps) (auto simp: kept_page_def split: page_state.splits)

definition trimmed :: "dsubsys \<Rightarrow> dsubsys" where
  "trimmed y = y\<lparr>dy_pages := filter kept_page (dy_pages y)\<rparr>"

lemma print_table_eq:
  "print_table t =
     (concat (map (\<lambda>y. concat (map (page_report (dy_nqn y)) (dy_pages y)) @
        (if filter kept_page (dy_pages y) = [] then [Subsys_deleted (dy_nqn y)] else [])) t),
      filter (\<lambda>y. dy_pages y \<noteq> []) (map trimmed t))"
  by (induction t) (auto simp: print_pages_eq trimmed_def simp del: page_report.simps)

lemma filter_trimmed_pages: "table_pages (filter (\<lambda>y. dy_pages y \<noteq> []) (map trimmed t)) = filter kept_page (table_pages t)"
  by (induction t) (auto simp: trimmed_def)

lemma wf_trimmed:
  assumes "wf_table t"
  shows "wf_table (filter (\<lambda>y. dy_pages y \<noteq> []) (map trimmed t))"
  using assms
proof (induction t)
  case (Cons y t)
  have "dy_nqn ` set (filter (\<lambda>y. dy_pages y \<noteq> []) (map trimmed t)) \<subseteq> dy_nqn ` set t"
    by (auto simp: trimmed_def)
  with Cons show ?case
    by (auto simp: wf_subsys_def trimmed_def distinct_map_filter)
qed simp

lemma trimmed_map:
  assumes "wf_table t"
  shows "table_map (filter (\<lambda>y. dy_pages y \<noteq> []) (map trimmed t)) k =
    (case table_map t k of Some (st, e) \<Rightarrow> if st = Deleted_logpage then None else Some (st, e) | None \<Rightarrow> None)"
proof -
  let ?u = "filter (\<lambda>y. dy_pages y \<noteq> []) (map trimmed t)"
  have "table_map ?u k = Some (st, e) \<longleftrightarrow> table_map t k = Some (st, e) \<and> st \<noteq> Deleted_logpage" for st e
    unfolding table_map_Some [OF wf_trimmed [OF assms]] table_map_Some [OF assms] filter_trimmed_pages
    by (auto simp: kept_page_def)
  note eq = this
  show ?thesis
  proof (cases "table_map t k")
    case None
    then show ?thesis using eq by (cases "table_map ?u k") auto
  next
    case (Some v)
    then show ?thesis using eq [of "fst v" "snd v"] eq by (cases "table_map ?u k"; cases v) fastforce+
  qed
qed

end
