(* ===== verification/Client_Safety.thy ===== *)
theory Client_Safety
  imports Auto_Connect
begin

text \<open>
  The discovery clients use the memory of their connection as the pointers allow: no command is sent through
  an endpoint that has been released, and nothing is released twice, over any number of rounds and
  reconnections.
\<close>

section \<open>Fetching the log\<close>

lemma safely_get_logpages_via:
  assumes "usable c"
  shows "safely (get_logpages_via (send_get_log_page X) c) (\<lambda>(ret, es, c'). moved c c')"
  unfolding get_logpages_via_def
  by (rule safely_then3 [OF safely_send_get_log_page [OF assms] assms])
    (auto simp: Let_def intro!: safely_mono [OF safely_send_get_log_page] intro: moved_trans split: prod.splits)

lemma safely_each:
  assumes "\<And>x s. I s \<Longrightarrow> safely (f x s) I" and "I s"
  shows "safely (each f xs s) I"
  using assms(2) by (induction xs arbitrary: s) (auto intro: safely_mono [OF assms(1)])

text \<open>Saving entries leaves the connection alone.\<close>

lemma safely_mon_save_entry: "safely (mon_save_entry e s) (\<lambda>s'. mo_ctrl s' = mo_ctrl s)"
  by (auto simp: mon_save_entry_def c_strcpy_def split: option.splits)

lemma safely_mon_save_log_pages: "safely (mon_save_log_pages es s) (\<lambda>s'. mo_ctrl s' = mo_ctrl s)"
  unfolding mon_save_log_pages_def
  by (rule safely_each [where I = "\<lambda>s'. mo_ctrl s' = mo_ctrl s"])
    (auto intro: safely_mono [OF safely_mon_save_entry])

definition client_moved :: "'w dclient \<Rightarrow> 'w dclient \<Rightarrow> bool" where
  "client_moved s s' = moved (mo_ctrl s) (mo_ctrl s')"

lemma client_moved_trans: "client_moved a b \<Longrightarrow> client_moved b c \<Longrightarrow> client_moved a c"
  unfolding client_moved_def by (rule moved_trans)

lemma client_moved_same:
  assumes "client_moved s s'"
  shows "usable (mo_ctrl s') = usable (mo_ctrl s)" "sound region (mo_ctrl s') = sound region (mo_ctrl s)"
    "cc_connected (mo_ctrl s') = cc_connected (mo_ctrl s)"
  using assms by (simp_all add: client_moved_def moved_same sound_moved)

lemma safely_mon_fetch_log_pages:
  assumes "usable (mo_ctrl s)"
  shows "safely (mon_fetch_log_pages X s) (client_moved s)"
  unfolding mon_fetch_log_pages_def safely_bind
  by (rule safely_mono [OF safely_get_logpages_via [OF assms]])
    (auto simp: client_moved_def intro!: safely_mono [OF safely_mon_save_log_pages])

lemma safely_request_event:
  assumes "usable (mo_ctrl s)"
  shows "safely (request_event X s) (client_moved s)"
  using assms
  by (auto simp: request_event_def client_moved_def send_async_event_request_def
      intro!: safely_mono [OF safely_send_admin_cmd])

lemma safely_report_updates:
  assumes "usable (mo_ctrl s)"
  shows "safely (report_updates X s) (client_moved s)"
proof -
  have ctrl: "mo_ctrl (mon_cleanup_log_pages (print_log_pages s')) = mo_ctrl s'" for s' :: "'a dclient"
    by (simp add: mon_cleanup_log_pages_def print_log_pages_def split: prod.splits)
  show ?thesis
    unfolding report_updates_def safely_bind
  proof (rule safely_mono [OF safely_mon_fetch_log_pages [OF assms]])
    fix s' assume s': "client_moved s s'"
    let ?s = "mon_cleanup_log_pages (print_log_pages s')"
    have "usable (mo_ctrl ?s)" using s' assms by (simp add: ctrl client_moved_same)
    then show "safely (request_event X ?s) (client_moved s)"
      by (rule safely_mono [OF safely_request_event])
        (use s' ctrl in \<open>auto simp: client_moved_def intro: moved_trans\<close>)
  qed
qed

lemma safely_enable_aens: "usable c \<Longrightarrow> safely (enable_aens X c) (\<lambda>(ret, c'). moved c c')"
proof -
  have aux: "safely (exec_bind (send_set_features X NVME_FEAT_ASYNC_EVENT NVME_AEN_CFG_DISC_LOG_CHG c1) (\<lambda>(ret, c).
               if ret \<noteq> 0 then Inr (ret, c)
               else exec_bind (send_async_event_request X c) (\<lambda>(_, c). Inr (0, c)))) (\<lambda>(ret, c'). moved c1 c')"
    if "usable c1" for c1 :: "'a ctrl"
    using that unfolding send_async_event_request_def
    by (intro safely_then [OF safely_send_set_features])
      (auto intro!: safely_then [OF safely_send_admin_cmd, simplified] intro: moved_trans)
  assume "usable c"
  then show ?thesis
    unfolding enable_aens_def
    by (intro safely_then3 [OF safely_send_get_features])
      (auto split: option.splits simp del: safely_bind intro: moved_trans intro!: safely_mono [OF aux])
qed

section \<open>The main loop\<close>

text \<open>
  What the main loop asks of the two functions the clients differ in: the update of the table, called while
  the client is connected, and the end of a round.
\<close>

locale discovery_client = key_transport X region
  for X :: "'w xport" and region :: bool +
  fixes update :: "'w dclient \<Rightarrow> 'w dclient exec"
    and idle :: "'w dclient \<Rightarrow> (bool \<times> 'w dclient) exec"
  assumes update_safe: "usable (mo_ctrl s) \<Longrightarrow> safely (update s) (client_moved s)"
    and idle_safe: "safely (idle s) (\<lambda>(stop, s'). client_moved s s')"
begin

lemma safely_complete_connection:
  assumes "sound region (mo_ctrl s)" "usable (mo_ctrl s)"
  shows "safely (complete_connection X update s) (\<lambda>(ret, s'). sound region (mo_ctrl s'))"
proof -
  define c where "c = (mo_ctrl s)\<lparr>cc_connected := True\<rparr>"
  have c: "sound region c" "usable c" "cc_connected c" using assms by (auto simp: c_def sound_def)
  have upd: "safely (exec_bind (update (s\<lparr>mo_ctrl := c1\<rparr>)) (\<lambda>s.
          if cc_failed_kato (mo_ctrl s)
          then exec_bind (disconnect_ctrl X False (mo_ctrl s)) (\<lambda>c. Inr (0, s\<lparr>mo_ctrl := c\<rparr>))
          else Inr (0, s))) (\<lambda>(ret :: int, s'). sound region (mo_ctrl s'))" if "moved c c1" for c1
    using c moved_same [OF that] sound_moved [OF that]
    by (auto intro!: safely_mono [OF update_safe] safely_mono [OF safely_disconnect_ctrl] simp: client_moved_same)
  show ?thesis
    unfolding complete_connection_def Let_def
    using c upd
    by (auto simp: c_def [symmetric] simp del: safely_bind intro!: safely_then [OF safely_enable_aens])
qed

lemma safely_cleanup_dq:
  assumes "sound region (mo_ctrl s)"
  shows "safely (mon_cleanup_dq X s)
           (\<lambda>s'. sound region (mo_ctrl s') \<and> \<not> cc_connected (mo_ctrl s') \<and> mo_table s' = [])"
  using assms by (auto simp: mon_cleanup_dq_def intro!: safely_mono [OF safely_disconnect_ctrl])

lemma safely_reconnect:
  assumes "sound region (mo_ctrl s)"
  shows "safely (mon_reconnect X d update s) (\<lambda>(f, s'). sound region (mo_ctrl s'))"
  using assms unfolding mon_reconnect_def Let_def
  by (auto intro!: safely_mono [OF safely_connect_ctrl] safely_mono [OF safely_complete_connection])

lemma safely_listen:
  assumes "sound region (mo_ctrl s)"
  shows "safely (mon_listen X update s) (\<lambda>(stop, s'). sound region (mo_ctrl s'))"
proof (cases "cc_connected (mo_ctrl s)")
  case True
  then have u: "usable (mo_ctrl s)" using assms by (simp add: sound_def)
  show ?thesis
    unfolding mon_listen_def using True
  proof (simp del: safely_bind, intro safely_then3 [OF safely_process_nvme_rsp [OF u] u])
    fix ret r c1 assume c1: "moved (mo_ctrl s) c1" "usable c1"
    then have s1: "sound region c1" using assms by (simp add: sound_moved)
    show "safely (case (ret, r, c1) of (ret, uu_, c) \<Rightarrow>
        if ret = 0 then exec_bind (update (s\<lparr>mo_ctrl := c\<rparr>)) (\<lambda>s. Inr (False, s\<lparr>mo_cnt := 0\<rparr>))
        else let s = s\<lparr>mo_ctrl := c, mo_cnt := mo_cnt s + 1\<rparr>
             in if mo_cnt s \<le> KEEP_ALIVE_COUNTER then Inr (False, s)
                else exec_bind (send_keep_alive X (mo_ctrl s)) (\<lambda>(ret, c).
                  let s = s\<lparr>mo_ctrl := c, mo_cnt := 0\<rparr>
                  in if mon_stopped X s then Inr (True, s)
                     else if ret \<noteq> 0 then exec_bind (mon_cleanup_dq X s) (\<lambda>s. Inr (False, s))
                     else Inr (False, s)))
      (\<lambda>(stop, s'). sound region (mo_ctrl s'))"
      using c1 s1
      by (auto simp: Let_def send_keep_alive_def client_moved_same sound_moved
          intro!: safely_mono [OF update_safe] safely_mono [OF safely_send_admin_cmd] safely_mono [OF safely_cleanup_dq])
  qed
qed (use assms in \<open>simp add: mon_listen_def\<close>)

lemma safely_round:
  assumes "sound region (mo_ctrl s)"
  shows "safely (client_round X d update idle s) (\<lambda>(stop, s'). sound region (mo_ctrl s'))"
  using assms unfolding client_round_def
  by (auto split: flow.splits simp: client_moved_same
      intro!: safely_mono [OF safely_reconnect] safely_mono [OF safely_listen] safely_mono [OF idle_safe])

lemma safely_loop:
  assumes "sound region (mo_ctrl s)"
  shows "safely (client_loop n X d update idle s) (\<lambda>(stop, s'). sound region (mo_ctrl s'))"
  using assms
proof (induction n arbitrary: s)
  case (Suc n)
  then show ?case by (auto intro!: safely_mono [OF safely_round])
qed simp

lemma safely_main:
  assumes "sound region (mo_ctrl s)" "\<not> cc_connected (mo_ctrl s)"
  shows "safely (client_main n X d update idle s)
           (\<lambda>(ended, s'). sound region (mo_ctrl s') \<and>
              (ended \<longrightarrow> \<not> cc_connected (mo_ctrl s') \<and> mo_table s' = []))"
  using assms unfolding client_main_def
  by (auto intro!: safely_mono [OF safely_connect_ctrl] safely_mono [OF safely_complete_connection]
      safely_mono [OF safely_loop] safely_mono [OF safely_cleanup_dq])

end

end
