(* ===== verification/Tcp.thy ===== *)
theory Tcp
  imports Nvmeof
begin

text \<open>
  The TCP transport (\<^verbatim>\<open>src/src/common/tcp.c\<close>, with the layouts of \<^verbatim>\<open>src/src/incl/tcp.h\<close>) at the level of the bytes
  it writes to and reads from a socket. A byte is a number below 256; the socket is a parameter.
\<close>

section \<open>Bytes\<close>

type_synonym bytes = "nat list"

primrec le_bytes :: "nat \<Rightarrow> nat \<Rightarrow> bytes" where
  "le_bytes 0 v = []"
| "le_bytes (Suc n) v = v mod 256 # le_bytes n (v div 256)"

primrec of_le :: "bytes \<Rightarrow> nat" where
  "of_le [] = 0"
| "of_le (b # bs) = b + 256 * of_le bs"

lemma length_le_bytes [simp]: "length (le_bytes n v) = n"
  by (induction n arbitrary: v) simp_all

lemma of_le_bytes [simp]: "of_le (le_bytes n v) = v mod 256 ^ n"
  by (induction n arbitrary: v) (simp_all add: mod_mult2_eq)

text \<open>The number that stands in \<open>n\<close> bytes from byte \<open>i\<close> on, and storing bytes there.\<close>

definition field :: "nat \<Rightarrow> nat \<Rightarrow> bytes \<Rightarrow> nat" where
  "field i n bs = of_le (take n (drop i bs))"

definition put_at :: "nat \<Rightarrow> bytes \<Rightarrow> bytes \<Rightarrow> bytes" where
  "put_at i xs bs = take i bs @ xs @ drop (i + length xs) bs"

section \<open>The socket\<close>

text \<open>
  System calls return a count or a descriptor, or a negative number and then set \<^verbatim>\<open>errno\<close>; \<open>so_errno\<close> is
  its value, which a call that succeeds leaves as it was. \<open>so_memory\<close> is what memory that has just been
  allocated holds.
\<close>

record 'w socket =
  so_socket :: "'w \<Rightarrow> int \<times> 'w"
  so_setsockopt :: "nat \<Rightarrow> 'w \<Rightarrow> int \<times> 'w"
  so_connect :: "string \<Rightarrow> string \<Rightarrow> int \<Rightarrow> 'w \<Rightarrow> int \<times> 'w"
  so_bind :: "int \<Rightarrow> 'w \<Rightarrow> int \<times> 'w"
  so_listen :: "nat \<Rightarrow> 'w \<Rightarrow> int \<times> 'w"
  so_accept :: "'w \<Rightarrow> int \<times> 'w"
  so_close :: "'w \<Rightarrow> 'w"
  so_read :: "nat \<Rightarrow> 'w \<Rightarrow> int \<times> bytes \<times> 'w"
  so_write :: "bytes \<Rightarrow> 'w \<Rightarrow> int \<times> 'w"
  so_errno :: "'w \<Rightarrow> int"
  so_memory :: "nat \<Rightarrow> 'w \<Rightarrow> bytes"
  so_stopped :: "'w \<Rightarrow> bool"

definition EPROTO :: int where "EPROTO = 71"
definition BACKLOG :: nat where "BACKLOG = 16"
definition TCP_SYNCNT :: nat where "TCP_SYNCNT = 7"
definition TCP_NODELAY :: nat where "TCP_NODELAY = 1"

section \<open>Protocol data units\<close>

definition NVME_TCP_ICREQ :: nat where "NVME_TCP_ICREQ = 0"
definition NVME_TCP_ICRESP :: nat where "NVME_TCP_ICRESP = 1"
definition NVME_TCP_CAPSULECMD :: nat where "NVME_TCP_CAPSULECMD = 4"
definition NVME_TCP_CAPSULERESP :: nat where "NVME_TCP_CAPSULERESP = 5"
definition NVME_TCP_C2HDATA :: nat where "NVME_TCP_C2HDATA = 7"

lemmas pdu_types = NVME_TCP_ICREQ_def NVME_TCP_ICRESP_def NVME_TCP_CAPSULECMD_def NVME_TCP_CAPSULERESP_def
  NVME_TCP_C2HDATA_def

text \<open>\<^verbatim>\<open>struct nvme_tcp_common_hdr\<close>\<close>

definition common_hdr :: "nat \<Rightarrow> nat \<Rightarrow> nat \<Rightarrow> nat \<Rightarrow> bytes" where
  "common_hdr pdu_type flags hlen plen = [pdu_type, flags, hlen, 0] @ le_bytes 4 plen"

definition HDR_LEN :: nat where "HDR_LEN = 8"
definition IC_LEN :: nat where "IC_LEN = 128"
definition DATA_PDU_LEN :: nat where "DATA_PDU_LEN = 24"
definition CMD_LEN :: nat where "CMD_LEN = 64"

text \<open>
  \<^verbatim>\<open>tcp_build_connect_data\<close>: the flags and the reserved bytes are what the memory held.
\<close>

definition tcp_build_connect_data :: "bytes \<Rightarrow> bytes" where
  "tcp_build_connect_data mem =
     common_hdr NVME_TCP_ICREQ (mem ! 1) IC_LEN IC_LEN @ le_bytes 2 0 @ [0, 0] @ le_bytes 4 0 @ drop 16 mem"

text \<open>The reply of \<^verbatim>\<open>tcp_accept_connection\<close>\<close>

definition icresp_pdu :: "bytes \<Rightarrow> bytes" where
  "icresp_pdu mem =
     common_hdr NVME_TCP_ICRESP (mem ! 1) IC_LEN IC_LEN @ le_bytes 2 0 @ [0, 0] @ le_bytes 4 0xffff @ drop 16 mem"

definition cmd_capsule :: "bytes \<Rightarrow> bytes" where
  "cmd_capsule cmd = common_hdr NVME_TCP_CAPSULECMD 0 (HDR_LEN + CMD_LEN) (HDR_LEN + CMD_LEN) @ cmd"

definition rsp_capsule :: "bytes \<Rightarrow> bytes" where
  "rsp_capsule cqe = common_hdr NVME_TCP_CAPSULERESP 0 (HDR_LEN + COMPLETION_SIZE) (HDR_LEN + COMPLETION_SIZE) @ cqe"

text \<open>The header of the data; the tag and the last bytes are what the stack held.\<close>

definition data_hdr :: "bytes \<Rightarrow> nat \<Rightarrow> nat \<Rightarrow> bytes" where
  "data_hdr mem cccid len =
     common_hdr NVME_TCP_C2HDATA 0 DATA_PDU_LEN (DATA_PDU_LEN + len) @ le_bytes 2 cccid @ take 2 (drop 10 mem) @
     le_bytes 4 0 @ le_bytes 4 len @ take 4 (drop 20 mem)"

text \<open>\<^verbatim>\<open>tcp_set_sgl\<close>: a command of zeroes with its opcode and the buffer it offers.\<close>

definition tcp_set_sgl :: "nat \<Rightarrow> nat \<Rightarrow> nat \<Rightarrow> bytes" where
  "tcp_set_sgl opcode len addr =
     [opcode, 0x40] @ replicate 22 0 @ le_bytes 8 addr @ le_bytes 4 len @
     [0, 0, 0, if opcode = nvme_admin_get_log_page then 0x5A else 0x01] @ replicate 24 0"

lemma length_set_sgl: "length (tcp_set_sgl opcode len addr) = CMD_LEN"
  by (simp add: tcp_set_sgl_def CMD_LEN_def)

section \<open>Reading and writing\<close>

definition tcp_rma_read :: "'w socket \<Rightarrow> nat \<Rightarrow> 'w \<Rightarrow> int \<times> bytes \<times> 'w" where
  "tcp_rma_read S n w =
     (case so_read S n w of (k, bs, w) \<Rightarrow> if k < 0 then (- so_errno S w, [], w) else (0, bs, w))"

definition tcp_inline_write :: "'w socket \<Rightarrow> bytes \<Rightarrow> 'w \<Rightarrow> int \<times> 'w" where
  "tcp_inline_write S data w =
     (case so_write S data w of (k, w) \<Rightarrow> if k < 0 then (- so_errno S w, w) else (0, w))"

definition tcp_rma_write :: "'w socket \<Rightarrow> bytes \<Rightarrow> nat \<Rightarrow> 'w \<Rightarrow> int \<times> 'w" where
  "tcp_rma_write S buf cccid w =
     (case so_write S (data_hdr (so_memory S DATA_PDU_LEN w) cccid (length buf)) w of (k, w) \<Rightarrow>
        if k < 0 then (- so_errno S w, w) else tcp_inline_write S buf w)"

text \<open>
  The loop of \<^verbatim>\<open>tcp_inline_read\<close>, over the offset and the length of the header, into a buffer. It asks for
  what is left until nothing is; when the other side has closed the connection it does not end. The size of
  the buffer is not looked at.
\<close>

partial_function (option) inline_loop ::
  "'w socket \<Rightarrow> nat \<Rightarrow> nat \<Rightarrow> bytes \<Rightarrow> 'w \<Rightarrow> (int \<times> bytes \<times> 'w) exec option" where
  "inline_loop S off len buf w =
     (if len = 0 then Some (Inr (0, buf, w))
      else case so_read S len w of (k, bs, w) \<Rightarrow>
        if k < 0
        then (if so_errno S w = EAGAIN then inline_loop S off len buf w
              else Some (Inr (- so_errno S w, buf, w)))
        else if off + nat k > length buf then Some (Inl Buffer_overflow)
        else inline_loop S (off + nat k) (len - nat k) (put_at off bs buf) w)"

definition tcp_inline_read :: "'w socket \<Rightarrow> bytes \<Rightarrow> 'w \<Rightarrow> (int \<times> bytes \<times> 'w) exec option" where
  "tcp_inline_read S buf w =
     (case so_read S DATA_PDU_LEN w of (k, bs, w) \<Rightarrow>
        if k \<noteq> int DATA_PDU_LEN then Some (Inr (if k < 0 then - so_errno S w else - ENODATA, buf, w))
        else inline_loop S (field 12 4 bs) (field 16 4 bs) buf w)"

text \<open>Which way the data of a command goes is in the lowest two bits of its opcode, or of its fabrics type.\<close>

definition direction :: "bytes \<Rightarrow> nat" where
  "direction cmd = (if cmd ! 0 = nvme_fabrics_command then cmd ! 4 else cmd ! 0) mod 4"

definition tcp_handle_inline_data ::
  "'w socket \<Rightarrow> bytes \<Rightarrow> bytes \<Rightarrow> 'w \<Rightarrow> (int \<times> bytes \<times> 'w) exec option" where
  "tcp_handle_inline_data S cmd data w =
     (if direction cmd = 1
      then (case tcp_inline_write S (take (field 32 4 cmd) data) w of (ret, w) \<Rightarrow> Some (Inr (ret, data, w)))
      else if direction cmd = 2 then tcp_inline_read S data w
      else Some (Inr (0, data, w)))"

text \<open>
  \<^verbatim>\<open>tcp_send_msg\<close>, which is also \<^verbatim>\<open>post_msg\<close>: a command and the buffer it points to; the result has the contents of
  the buffer afterwards.
\<close>

definition tcp_send_msg :: "'w socket \<Rightarrow> bytes \<Rightarrow> bytes \<Rightarrow> 'w \<Rightarrow> (int \<times> bytes \<times> 'w) exec option" where
  "tcp_send_msg S cmd data w =
     (case so_write S (cmd_capsule cmd) w of (k, w) \<Rightarrow>
        if k \<noteq> int (HDR_LEN + CMD_LEN) then Some (Inr (- so_errno S w, data, w))
        else tcp_handle_inline_data S cmd data w)"

definition tcp_send_rsp :: "'w socket \<Rightarrow> bytes \<Rightarrow> 'w \<Rightarrow> int \<times> 'w" where
  "tcp_send_rsp S cqe w =
     (case so_write S (rsp_capsule cqe) w of (k, w) \<Rightarrow>
        if k \<noteq> int (HDR_LEN + COMPLETION_SIZE) then (- so_errno S w, w) else (0, w))"

text \<open>
  \<^verbatim>\<open>tcp_poll_for_msg\<close>: a header and what it says follows. A header without anything after it is reported as a
  message, with no message stored; a message that has arrived in part is taken for the whole of it.
\<close>

definition tcp_poll_for_msg :: "'w socket \<Rightarrow> 'w \<Rightarrow> int \<times> bytes option \<times> 'w" where
  "tcp_poll_for_msg S w =
     (case so_read S HDR_LEN w of (k, hdr, w) \<Rightarrow>
        if k \<noteq> int HDR_LEN then (if k < 0 then - so_errno S w else - ENODATA, None, w)
        else
          let msg_len = int (hdr ! 2) - int HDR_LEN in
          if msg_len \<le> 0 then (msg_len, None, w)
          else
            let mem = so_memory S (nat msg_len) w in
            case so_read S (nat msg_len) w of (k, bs, w) \<Rightarrow>
              if k = 0 then (- EAGAIN, None, w)
              else if k < 0 then (- so_errno S w, None, w)
              else (0, Some (bs @ drop (nat k) mem), w))"

section \<open>Connections\<close>

definition tcp_init_endpoint :: "'w socket \<Rightarrow> 'w \<Rightarrow> int \<times> 'w" where
  "tcp_init_endpoint S w = (case so_socket S w of (fd, w) \<Rightarrow> if fd < 0 then (- so_errno S w, w) else (0, w))"

definition tcp_destroy_endpoint :: "'w socket \<Rightarrow> 'w \<Rightarrow> 'w" where
  "tcp_destroy_endpoint S w = so_close S w"

definition tcp_init_listener :: "'w socket \<Rightarrow> string \<Rightarrow> 'w \<Rightarrow> int \<times> 'w" where
  "tcp_init_listener S srvc w =
     (case so_socket S w of (fd, w) \<Rightarrow>
        if fd < 0 then (- so_errno S w, w)
        else case so_bind S (atoi srvc mod 65536) w of (ret, w) \<Rightarrow>
          if ret < 0 then (ret, so_close S w)
          else case so_listen S BACKLOG w of (ret, w) \<Rightarrow>
            if ret \<noteq> 0 then (ret, so_close S w) else (0, w))"

text \<open>
  \<^verbatim>\<open>tcp_accept_connection\<close>. The rest of the request is stored from the start of the structure, so that the
  alignment it asks for is looked for eight bytes too far.
\<close>

definition tcp_accept_connection :: "'w socket \<Rightarrow> 'w \<Rightarrow> int \<times> 'w" where
  "tcp_accept_connection S w =
     (let reply = (\<lambda>w. case so_write S (icresp_pdu (so_memory S IC_LEN w)) w of (ret, w) \<Rightarrow>
                         if ret < 0 then (ret, w) else (0, w))
      in
      case so_read S HDR_LEN w of (k, hdr, w) \<Rightarrow>
        if k \<noteq> int HDR_LEN then (if k < 0 then - EAGAIN else - ENODATA, w)
        else if hdr ! 0 \<noteq> NVME_TCP_ICREQ then reply w
        else case so_read S (IC_LEN - HDR_LEN) w of (k, init_req, w) \<Rightarrow>
          if k \<noteq> int (IC_LEN - HDR_LEN) then (- ENODATA, w)
          else if init_req ! 10 \<noteq> 0 then (- EPROTO, w)
          else reply w)"

definition tcp_wait_for_connection :: "'w socket \<Rightarrow> 'w \<Rightarrow> int \<times> int \<times> 'w" where
  "tcp_wait_for_connection S w =
     (if so_stopped S w then (- ESHUTDOWN, 0, w)
      else case so_accept S w of (fd, w) \<Rightarrow> if fd < 0 then (- EAGAIN, 0, w) else (0, fd, w))"

definition validate_reply :: "bytes \<Rightarrow> int \<Rightarrow> int" where
  "validate_reply reply len =
     (if reply ! 0 \<noteq> NVME_TCP_ICRESP then - EINVAL
      else if len \<noteq> int IC_LEN then - EINVAL
      else if field 4 4 reply \<noteq> IC_LEN then - EINVAL
      else if reply ! 2 \<noteq> IC_LEN then - EINVAL
      else if field 8 2 reply \<noteq> 0 then - EINVAL
      else if reply ! 11 \<noteq> 0 then - EINVAL
      else if reply ! 10 \<noteq> 0 then - EINVAL
      else 0)"

definition tcp_client_connect :: "'w socket \<Rightarrow> string \<Rightarrow> string \<Rightarrow> int \<Rightarrow> bytes \<Rightarrow> 'w \<Rightarrow> int \<times> 'w" where
  "tcp_client_connect S family address port data w =
     (case so_setsockopt S TCP_SYNCNT w of (ret, w) \<Rightarrow>
        if ret \<noteq> 0 then (- so_errno S w, w)
        else case so_setsockopt S TCP_NODELAY w of (ret, w) \<Rightarrow>
          if ret \<noteq> 0 then (- so_errno S w, w)
          else case so_connect S family address port w of (ret, w) \<Rightarrow>
            if ret \<noteq> 0 then (- so_errno S w, w)
            else case so_write S data w of (k, w) \<Rightarrow>
              if k < 0 then (- so_errno S w, w)
              else
                let mem = so_memory S IC_LEN w in
                case so_read S IC_LEN w of (k, bs, w) \<Rightarrow>
                  if k < 0 then (- so_errno S w, w)
                  else (validate_reply (bs @ drop (nat k) mem) k, w))"

text \<open>Memory is not registered: no region is stored and none given back.\<close>

definition tcp_alloc_key :: "'w \<Rightarrow> int \<times> bool \<times> 'w" where
  "tcp_alloc_key w = (0, False, w)"

definition tcp_dealloc_key :: "'w \<Rightarrow> 'w" where
  "tcp_dealloc_key w = w"

definition tcp_repost_recv :: "'w \<Rightarrow> 'w" where
  "tcp_repost_recv w = w"

text \<open>A transport with the memory operations of this one.\<close>

definition with_tcp_memory :: "'w xport \<Rightarrow> 'w xport" where
  "with_tcp_memory X =
     X\<lparr>xp_alloc_key := tcp_alloc_key, xp_dealloc_key := tcp_dealloc_key, xp_repost_recv := tcp_repost_recv\<rparr>"

interpretation tcp_memory: key_transport "with_tcp_memory X" False for X
  by unfold_locales (simp add: with_tcp_memory_def tcp_alloc_key_def)

end
