(* ===== verification/Client_Properties.thy ===== *)
theory Client_Properties
  imports Client_Safety Tcp
begin

text \<open>
  Properties of the discovery clients: memory safety over any run, what the monitor reports, and that the
  automatic connection connects every subsystem of the log.
\<close>

section \<open>The automatic connection\<close>

text \<open>
  What \<^verbatim>\<open>mark_connected_subsystems\<close> relies on: the address files hold an equals sign, and another one after
  the first comma, within the bytes that are read.
\<close>

definition well_addressed :: "string \<Rightarrow> bool" where
  "well_addressed f =
     (f \<noteq> [] \<and>
      (case after_char (CHR ''='') (takeWhile (\<lambda>c. c \<noteq> CHR 0x0A) (take CONFIG_ADDRESS_SIZE f)) of
         None \<Rightarrow> False
       | Some addr \<Rightarrow> (case after_char (CHR '','') addr of
           None \<Rightarrow> True
         | Some rest \<Rightarrow> after_char (CHR ''='') rest \<noteq> None)))"

lemma safely_read_buf: "(\<And>l. b = Some l \<Longrightarrow> Q l) \<Longrightarrow> safely (read_buf b) Q"
  by (cases b) (simp_all add: read_buf_def)

text \<open>Runs of which only the safety matters.\<close>

lemma safely_then_any:
  "safely e (\<lambda>_. True) \<Longrightarrow> (\<And>x. safely (k x) (\<lambda>_. True)) \<Longrightarrow> safely (exec_bind e k) (\<lambda>_. True)"
  by (auto intro: safely_mono)

locale kernel_addresses =
  fixes F :: "'w fabrics"
  assumes addresses: "fb_controllers F w = Some es \<Longrightarrow> e \<in> set es \<Longrightarrow> sy_address e = Some f \<Longrightarrow> well_addressed f"
begin

lemma safely_mark_pages: "port \<noteq> None \<Longrightarrow> safely (mark_pages val addr port ps) (\<lambda>_. True)"
  by (induction ps) (auto split: option.splits intro: safely_mono)

lemma safely_mark_address:
  assumes "well_addressed f" "get_line (CONFIG_ADDRESS_SIZE + 1) f b = Some a"
  shows "safely (mark_address a val y) (\<lambda>_. True)"
  using assms
  by (auto simp: well_addressed_def get_line_def mark_address_def split: option.splits
      intro!: safely_mono [OF safely_mark_pages])

lemma safely_mark_entry:
  assumes "\<And>f. sy_address e = Some f \<Longrightarrow> well_addressed f"
  shows "safely (mark_entry e st) (\<lambda>_. True)"
  using assms
  by (auto simp: mark_entry_def split: prod.splits option.splits
      intro!: safely_read_buf safely_mono [OF safely_mark_address])

lemma safely_mark_entries:
  "(\<And>e f. e \<in> set es \<Longrightarrow> sy_address e = Some f \<Longrightarrow> well_addressed f) \<Longrightarrow> safely (each mark_entry es st) (\<lambda>_. True)"
proof (induction es arbitrary: st)
  case (Cons e es)
  show ?case
    unfolding each.simps
    by (rule safely_then_any, rule safely_mark_entry, use Cons.prems in auto, rule Cons.IH, use Cons.prems in auto)
qed simp

lemma safely_mark_table:
  assumes "dir = fb_controllers F w"
  shows "safely (mark_table dir bs t) (\<lambda>_. True)"
proof (induction t arbitrary: bs)
  case (Cons y ys)
  show ?case
  proof (cases dir)
    case (Some es)
    then have "safely (each mark_entry es st) (\<lambda>_. True)" for st
      using assms addresses by (intro safely_mark_entries) auto
    with Cons Some show ?thesis by (cases bs) (auto simp: Let_def simp del: safely_bind intro!: safely_then_any)
  qed simp
qed simp

lemma safely_mark_connected:
  "safely (mark_connected_subsystems F s) (\<lambda>s'. mo_ctrl s' = mo_ctrl s)"
  by (auto simp: mark_connected_subsystems_def intro!: safely_mono [OF safely_mark_table])

lemma safely_process_updates:
  assumes "usable (mo_ctrl s)"
  shows "safely (process_updates X F s) (client_moved s)"
  unfolding process_updates_def safely_bind
proof (rule safely_mono [OF safely_mon_fetch_log_pages [OF assms]], rule safely_mono [OF safely_mark_connected])
  fix s1 s2 :: "'w dclient" assume s1: "client_moved s s1" and s2: "mo_ctrl s2 = mo_ctrl s1"
  let ?s = "s2\<lparr>mo_table := ac_cleanup_table (mo_table s2)\<rparr>"
  have "usable (mo_ctrl ?s)" using s1 s2 assms by (simp add: client_moved_same)
  then show "safely (request_event X ?s) (client_moved s)"
    by (rule safely_mono [OF safely_request_event]) (use s1 s2 in \<open>auto simp: client_moved_def intro: moved_trans\<close>)
qed

end

lemma safely_connect_pages: "safely (connect_pages F hostnqn nqn ps w) (\<lambda>_. True)"
  by (induction ps arbitrary: w)
    (auto split: option.splits bool.splits simp del: safely_bind intro!: safely_then_any)

lemma safely_connect_table: "safely (connect_table F hostnqn t w) (\<lambda>_. True)"
  by (induction t arbitrary: w) (auto simp del: safely_bind intro!: safely_then_any safely_connect_pages)

lemma safely_auto_idle: "safely (auto_idle X F d s) (\<lambda>(stop, s'). client_moved s s')"
  by (auto simp: auto_idle_def connect_one_subsystem_def client_moved_def
      intro!: safely_mono [OF safely_connect_table])

section \<open>Memory safety\<close>

text \<open>The two clients as instances of the interface of the main loop.\<close>

lemma monitor_client:
  assumes "key_transport X region"
  shows "discovery_client X region (report_updates X) (\<lambda>s. Inr (False, s))"
  using assms
  by (auto simp: discovery_client_def discovery_client_axioms_def client_moved_def intro: safely_report_updates)

lemma auto_connect_client:
  assumes "key_transport X region" "kernel_addresses F"
  shows "discovery_client X region (process_updates X F) (auto_idle X F d)"
  using assms
  by (auto simp: discovery_client_def discovery_client_axioms_def
      intro: kernel_addresses.safely_process_updates safely_auto_idle)

interpretation tcp_monitor: discovery_client "with_tcp_memory X" False "report_updates (with_tcp_memory X)" "\<lambda>s. Inr (False, s)"
  for X
  by (rule monitor_client, rule tcp_memory.key_transport_axioms)

text \<open>The kernel without controllers, or with one at an address of the form it writes.\<close>

definition one_controller :: "'w fabrics" where
  "one_controller =
     \<lparr>fb_controllers = \<lambda>_. Some [\<lparr>sy_name = ''nvme0'', sy_subnqn = Some ''nqn'',
        sy_address = Some ''traddr=192.168.1.1,trsvcid=4420'', sy_transport = Some ''tcp''\<rparr>],
      fb_write = \<lambda>_ w. Some w\<rparr>"

interpretation one_controller: kernel_addresses one_controller
  by unfold_locales (auto simp: one_controller_def well_addressed_def after_char_def CONFIG_ADDRESS_SIZE_def)

interpretation tcp_auto: discovery_client "with_tcp_memory X" False "process_updates (with_tcp_memory X) one_controller"
  "auto_idle (with_tcp_memory X) one_controller d"
  for X d
  by (rule auto_connect_client, rule tcp_memory.key_transport_axioms, rule one_controller.kernel_addresses_axioms)

lemma safely_validate_dq: "safely (validate_dq uuid a) (\<lambda>_. True)"
proof -
  have loop: "safely (addr_loop len width delim nibble addr p) (\<lambda>_. True)" for len width delim nibble addr p
    by (induction len width delim nibble addr p rule: addr_loop.induct)
      (subst addr_loop.simps, auto simp: Let_def split: list.splits)
  have addr: "safely (string_to_addr p len width delim) (\<lambda>_. True)" for p len width delim
    unfolding string_to_addr_def
    by (auto simp: Let_def split: option.splits list.splits intro!: safely_mono [OF loop])
  show ?thesis
    by (auto simp: validate_dq_def ipv4_to_addr_def ipv6_to_addr_def
        intro!: safely_read_buf safely_mono [OF addr])
qed

text \<open>
  Without the assumption on the transport: when registering memory fails on a reconnection, the command buffer of
  the earlier connection is released a second time.
\<close>

lemma registration_failure_frees_twice:
  assumes "xp_alloc_key X (cc_world c) = (ret, r, w)" "ret \<noteq> 0"
    and "cc_ep c = Alive" "cc_mr c = Null" "cc_qe c = Null" "cc_cmd c = Freed"
  shows "open_ctrl X d c = Inl Use_after_free"
  using assms by (simp add: open_ctrl_def Let_def disconnect_endpoint_def release_def)

lemma client_start_sound: "sound region (mo_ctrl (client_start w)) \<and> \<not> cc_connected (mo_ctrl (client_start w))"
  by (simp add: client_start_def ctrl_zero_def sound_def)

text \<open>
  C20. Memory safety of the discovery clients. Over any number of rounds, reconnections and lost connections,
  and whatever the transport answers, neither the monitor nor the automatic connection uses an endpoint, a
  buffer or a memory region after it was released, releases one twice, or follows a null pointer, as long as
  the transport registers memory without failing (which \<^verbatim>\<open>tcp_alloc_key\<close> does) and the kernel's address files
  have the form it writes. The connection of a client that has ended has been released, and its table is empty.

  Three other faults end a run of the model, and nothing is said about what the program does after them: a text
  that overflows its buffer (a name in the log or an address on the command line that is too long), a
  text buffer that is read without having been written (the option for it is missing, or the file is
  empty), and a response that the transport reports without delivering one, as \<^verbatim>\<open>tcp_poll_for_msg\<close> does for a
  header without a payload. A result that was not written, which \<^verbatim>\<open>enable_aens\<close> tests when the response of
  Get Features did not arrive, ends no run: it is whatever the stack holds.
\<close>

theorem discovery_clients_memory_safe:
  assumes "\<forall>w. \<exists>w'. xp_alloc_key X w = (0, region, w')" and "kernel_addresses F"
  shows "safely (monitor_main n X uuid argv w)
           (\<lambda>r. case r of None \<Rightarrow> True | Some (ended, s) \<Rightarrow>
                  sound region (mo_ctrl s) \<and> (ended \<longrightarrow> \<not> cc_connected (mo_ctrl s) \<and> mo_table s = [])) \<and>
         safely (auto_connect_main n X F daemon usage uuid argv w)
           (\<lambda>r. case r of None \<Rightarrow> True | Some (ended, s) \<Rightarrow>
                  sound region (mo_ctrl s) \<and> (ended \<longrightarrow> \<not> cc_connected (mo_ctrl s) \<and> mo_table s = []))"
proof -
  have K: "key_transport X region" using assms(1) by (simp add: key_transport_def)
  note main = discovery_client.safely_main [OF _ client_start_sound [THEN conjunct1] client_start_sound [THEN conjunct2]]
  show ?thesis
    by (auto simp: monitor_main_def auto_connect_main_def split: option.splits sum.splits
        intro!: safely_mono [OF safely_validate_dq] safely_mono [OF main [OF monitor_client [OF K]]]
          safely_mono [OF main [OF auto_connect_client [OF K assms(2)]]])
qed

text \<open>A controller that answers every command, with a log of the given entries; the world is what was written.\<close>

definition log_xport :: "disc_entry list \<Rightarrow> string list xport" where
  "log_xport es =
     \<lparr>xp_init_endpoint = \<lambda>w. (0, w), xp_create_endpoint = \<lambda>_ w. (0, w), xp_destroy_endpoint = \<lambda>w. w,
      xp_init_listener = \<lambda>_ w. (0, w), xp_accept_connection = \<lambda>w. (0, w), xp_client_connect = \<lambda>_ _ _ _ w. (0, w),
      xp_repost_recv = \<lambda>w. w, xp_post_msg = \<lambda>_ w. (0, w), xp_send_msg = \<lambda>_ w. (0, w),
      xp_poll = \<lambda>w. (0, Some \<lparr>av_bytes = COMPLETION_SIZE, av_status = 0, av_result = 1\<rparr>, w),
      xp_alloc_key = \<lambda>w. (0, True, w), xp_dealloc_key = \<lambda>w. w, xp_inet_pton = \<lambda>_ _. True, xp_polls = \<lambda>_. 2,
      xp_page = \<lambda>_. (1, length es, es), xp_stopped = \<lambda>_. False, xp_stack = \<lambda>_. 0\<rparr>"

definition log_entry :: disc_entry where
  "log_entry =
     \<lparr>de_trtype = 3, de_adrfam = 1, de_subtype = 2, de_treq = 2, de_portid = 1, de_trsvcid = ''4420'', de_subnqn = ''nqn'',
      de_traddr = ''192.168.1.1'', de_prtype = 0, de_qptype = 0, de_cms = 0, de_pkey = 0\<rparr>"

theorem discovery_clients_memory_safe_witness:
  "safely (monitor_main 3 (log_xport [log_entry]) ''1'' [''-t'', ''tcp'', ''-f'', ''ipv4'', ''-a'', ''192.168.1.1'', ''-s'', ''4420''] [])
     (\<lambda>r. case r of None \<Rightarrow> True | Some (ended, s) \<Rightarrow>
            sound True (mo_ctrl s) \<and> (ended \<longrightarrow> \<not> cc_connected (mo_ctrl s) \<and> mo_table s = []))"
proof -
  have "\<forall>w. \<exists>w'. xp_alloc_key (log_xport [log_entry]) w = (0, True, w')" by (simp add: log_xport_def)
  then show ?thesis
    by (rule discovery_clients_memory_safe [THEN conjunct1, OF _ one_controller.kernel_addresses_axioms])
qed

end
