(* ===== verification/Log_Reports.thy ===== *)
theory Log_Reports
  imports Log_Table Client_Properties
begin

text \<open>
  What the discovery clients do with a log that has been fetched: the monitor reports the differences in the identities of the entries,
  and the automatic connection connects every subsystem of it.
\<close>

section \<open>The monitor\<close>

lemma set_table_reports:
  "r \<in> set (fst (print_table t)) \<longleftrightarrow>
     (\<exists>y\<in>set t. (\<exists>p\<in>set (dy_pages y). r \<in> set (page_report (dy_nqn y) p)) \<or>
        (r = Subsys_deleted (dy_nqn y) \<and> filter kept_page (dy_pages y) = []))"
  by (auto simp: print_table_eq simp del: page_report.simps)

lemma page_report_iff [simp]:
  "Entry_new e \<in> set (page_report nqn p) \<longleftrightarrow> dp_valid p = New_logpage \<and> dp_e p = e"
  "Entry_deleted n ty a v \<in> set (page_report nqn p) \<longleftrightarrow>
     dp_valid p = Deleted_logpage \<and> n = nqn \<and> ty = de_trtype (dp_e p) \<and> a = de_traddr (dp_e p) \<and> v = de_trsvcid (dp_e p)"
  "Subsys_added n \<notin> set (page_report nqn p)" "Subsys_deleted n \<notin> set (page_report nqn p)"
  by (auto split: page_state.splits)

lemma table_pages_wf:
  assumes "wf_table t"
  shows "p \<in> set (table_pages t) \<longleftrightarrow> (\<exists>y\<in>set t. p \<in> set (dy_pages y) \<and> dy_nqn y = de_subnqn (dp_e p))"
  using assms by (auto simp: table_pages_def wf_table_def wf_subsys_def)

lemma table_pages_ex:
  assumes "wf_table t"
  shows "(\<exists>y\<in>set t. \<exists>p\<in>set (dy_pages y). P (dy_nqn y) p) \<longleftrightarrow> (\<exists>p\<in>set (table_pages t). P (de_subnqn (dp_e p)) p)"
  using assms unfolding wf_table_def wf_subsys_def table_pages_def by (auto; metis)

lemma reports_of_map:
  assumes "wf_table t"
  shows "Entry_new e \<in> set (fst (print_table t)) \<longleftrightarrow> table_map t (entry_key e) = Some (New_logpage, e)"
    and "Entry_deleted nqn ty a v \<in> set (fst (print_table t)) \<longleftrightarrow>
           (\<exists>f e. table_map t (nqn, a, v, ty, f) = Some (Deleted_logpage, e))"
    and "Subsys_added nqn \<notin> set (fst (print_table t))"
    and "Subsys_deleted nqn \<in> set (fst (print_table t)) \<longleftrightarrow>
           nqn \<in> fst ` dom (table_map t) \<and> (\<forall>k st e. table_map t k = Some (st, e) \<longrightarrow> fst k = nqn \<longrightarrow> st = Deleted_logpage)"
proof -
  have inj: "inj_on dy_nqn (set t)" using assms by (simp add: wf_table_def distinct_map)
  show "Entry_new e \<in> set (fst (print_table t)) \<longleftrightarrow> table_map t (entry_key e) = Some (New_logpage, e)"
    unfolding set_table_reports table_map_Some [OF assms]
    by (auto simp: table_pages_def page_key_def simp del: page_report.simps)
  show "Entry_deleted nqn ty a v \<in> set (fst (print_table t)) \<longleftrightarrow>
           (\<exists>f e. table_map t (nqn, a, v, ty, f) = Some (Deleted_logpage, e))"
    using table_pages_ex [OF assms, of "\<lambda>n p. dp_valid p = Deleted_logpage \<and> nqn = n \<and> ty = de_trtype (dp_e p) \<and>
        a = de_traddr (dp_e p) \<and> v = de_trsvcid (dp_e p)"]
    unfolding set_table_reports table_map_Some [OF assms]
    by (auto simp: page_key_def entry_key_def simp del: page_report.simps)
  show "Subsys_added nqn \<notin> set (fst (print_table t))"
    unfolding set_table_reports by (auto simp del: page_report.simps)
  have "Subsys_deleted nqn \<in> set (fst (print_table t)) \<longleftrightarrow> (\<exists>y\<in>set t. dy_nqn y = nqn \<and> filter kept_page (dy_pages y) = [])"
    unfolding set_table_reports by (auto simp del: page_report.simps)
  also have "\<dots> \<longleftrightarrow> nqn \<in> dy_nqn ` set t \<and> (\<forall>p\<in>set (table_pages t). de_subnqn (dp_e p) = nqn \<longrightarrow> dp_valid p = Deleted_logpage)"
  proof
    assume "\<exists>y\<in>set t. dy_nqn y = nqn \<and> filter kept_page (dy_pages y) = []"
    then obtain y where y: "y \<in> set t" "dy_nqn y = nqn" "filter kept_page (dy_pages y) = []" by blast
    have "dp_valid p = Deleted_logpage" if p: "p \<in> set (table_pages t)" "de_subnqn (dp_e p) = nqn" for p
    proof -
      obtain y' where y': "y' \<in> set t" "p \<in> set (dy_pages y')" "dy_nqn y' = nqn"
        using p unfolding table_pages_wf [OF assms] by auto
      have "y' = y" by (rule inj_onD [OF inj]) (use y y' in simp_all)
      with y y' show ?thesis by (auto simp: filter_empty_conv kept_page_def)
    qed
    with y show "nqn \<in> dy_nqn ` set t \<and> (\<forall>p\<in>set (table_pages t). de_subnqn (dp_e p) = nqn \<longrightarrow> dp_valid p = Deleted_logpage)"
      by blast
  next
    assume R: "nqn \<in> dy_nqn ` set t \<and> (\<forall>p\<in>set (table_pages t). de_subnqn (dp_e p) = nqn \<longrightarrow> dp_valid p = Deleted_logpage)"
    then obtain y where y: "y \<in> set t" "dy_nqn y = nqn" by blast
    with R assms show "\<exists>y\<in>set t. dy_nqn y = nqn \<and> filter kept_page (dy_pages y) = []"
      by (intro bexI [of _ y]) (auto simp: filter_empty_conv kept_page_def table_pages_def wf_table_def wf_subsys_def)
  qed
  also have "\<dots> \<longleftrightarrow> nqn \<in> fst ` dom (table_map t) \<and> (\<forall>k st e. table_map t k = Some (st, e) \<longrightarrow> fst k = nqn \<longrightarrow> st = Deleted_logpage)"
    unfolding table_map_Some [OF assms] dom_table_map table_names [OF assms] fst_page_key [symmetric]
    by blast
  finally show "Subsys_deleted nqn \<in> set (fst (print_table t)) \<longleftrightarrow>
           nqn \<in> fst ` dom (table_map t) \<and> (\<forall>k st e. table_map t k = Some (st, e) \<longrightarrow> fst k = nqn \<longrightarrow> st = Deleted_logpage)" .
qed

text \<open>The state of an identity after a log has been saved in a table whose map was \<open>m\<close>.\<close>

definition refreshed ::
  "disc_entry list \<Rightarrow> (entry_id \<rightharpoonup> page_state \<times> disc_entry) \<Rightarrow> (entry_id \<rightharpoonup> page_state \<times> disc_entry)" where
  "refreshed es m k =
     (case m k of
        Some (_, e) \<Rightarrow> Some (if k \<in> entry_key ` set es then Valid_logpage else Deleted_logpage, e)
      | None \<Rightarrow>
          (case List.find (\<lambda>e. entry_key e = k) es of
             None \<Rightarrow> None
           | Some e \<Rightarrow> Some (if count_list (map entry_key es) k = 1 then New_logpage else Valid_logpage, e)))"

lemma find_key_Some:
  assumes "count_list (map entry_key es) k = 1"
  shows "List.find (\<lambda>e. entry_key e = k) es = Some e \<longleftrightarrow> e \<in> set es \<and> entry_key e = k"
  using assms
proof (induction es)
  case (Cons x es)
  then show ?case by (cases "entry_key x = k") (auto simp: count_list_0_iff, metis imageI)
qed simp

text \<open>When an identity is absent, deleted and new.\<close>

lemma refreshed_None: "refreshed es m k = None \<longleftrightarrow> k \<notin> dom m \<union> entry_key ` set es"
proof -
  have "List.find (\<lambda>e. entry_key e = k) es = None \<longleftrightarrow> k \<notin> entry_key ` set es" by (auto simp: find_None_iff)
  then show ?thesis by (auto simp: refreshed_def split: option.splits)
qed

lemma refreshed_Deleted: "(\<exists>e. refreshed es m k = Some (Deleted_logpage, e)) \<longleftrightarrow> k \<in> dom m - entry_key ` set es"
  by (auto simp: refreshed_def split: option.splits if_splits)

lemma refreshed_New:
  "refreshed es m (entry_key e) = Some (New_logpage, e) \<longleftrightarrow>
     e \<in> set es \<and> entry_key e \<notin> dom m \<and> count_list (map entry_key es) (entry_key e) = 1"
  using find_key_Some [of es "entry_key e" e]
  by (auto simp: refreshed_def split: option.splits if_splits)

lemma refreshed_all_deleted:
  "(\<forall>k st e. refreshed es m k = Some (st, e) \<longrightarrow> fst k = nqn \<longrightarrow> st = Deleted_logpage) \<longleftrightarrow>
     (\<forall>k\<in>entry_key ` set es. fst k \<noteq> nqn)" (is "?L \<longleftrightarrow> ?R")
proof (intro iffI ballI allI impI)
  fix k assume L: ?L and k: "k \<in> entry_key ` set es"
  then have "refreshed es m k \<noteq> None" by (simp add: refreshed_None)
  then obtain st e where v: "refreshed es m k = Some (st, e)" by auto
  with refreshed_Deleted [of es m k] k have "st \<noteq> Deleted_logpage" by blast
  with L v show "fst k \<noteq> nqn" by blast
next
  fix k st e assume R: ?R and v: "refreshed es m k = Some (st, e)" "fst k = nqn"
  then have "k \<in> dom m - entry_key ` set es" using refreshed_None [of es m k] by auto
  with refreshed_Deleted [of es m k] v show "st = Deleted_logpage" by auto
qed

lemma fold_save_item_deleted:
  "fold save_item es (\<lambda>k. map_option (\<lambda>(st, e). (Deleted_logpage, e)) (m k)) = refreshed es m"
proof
  fix k
  let ?m = "\<lambda>k. map_option (\<lambda>(st, e). (Deleted_logpage, e)) (m k)"
  show "fold save_item es ?m k = refreshed es m k"
  proof (cases "m k")
    case None
    then have "?m k = None" by simp
    from fold_save_item_unknown [of ?m, OF this] None show ?thesis by (simp add: refreshed_def)
  next
    case (Some v)
    obtain st e where v: "v = (st, e)" by (cases v)
    with Some have "?m k = Some (Deleted_logpage, e)" by simp
    from fold_save_item_known [of ?m, OF this] Some v show ?thesis by (simp add: refreshed_def)
  qed
qed

text \<open>The table between fetching a log and printing the changes.\<close>

lemma fetched_table:
  assumes "wf_table (mo_table s)" and "get_logpages_via (send_get_log_page X) (mo_ctrl s) = Inr (0, es, c)"
    and "\<forall>e\<in>set es. length (de_subnqn e) \<le> MAX_NQN_SIZE"
  shows "\<exists>s1. mon_fetch_log_pages X s = Inr s1 \<and> mo_ctrl s1 = c \<and> wf_table (mo_table s1) \<and>
    mo_out s1 = mo_out s @ map Subsys_added (new_names es (dy_nqn ` set (mo_table s))) \<and>
    table_map (mo_table s1) = refreshed es (table_map (mo_table s))"
  using save_log_pages_refines [of "s\<lparr>mo_ctrl := c, mo_table := mon_invalidate (mo_table s)\<rparr>" es]
    invalidate_refines [OF assms(1)] assms(2,3)
  by (auto simp: mon_fetch_log_pages_def fold_save_item_deleted)

lemma trimmed_keys:
  assumes "wf_table t" "table_map t = refreshed es m"
  shows "table_keys (filter (\<lambda>y. dy_pages y \<noteq> []) (map trimmed t)) = entry_key ` set es"
proof -
  have "k \<in> dom (table_map (filter (\<lambda>y. dy_pages y \<noteq> []) (map trimmed t))) \<longleftrightarrow> k \<in> entry_key ` set es" for k
    using refreshed_None [of es m k] refreshed_Deleted [of es m k]
    unfolding domIff trimmed_map [OF assms(1)] assms(2)
    by (cases "refreshed es m k") (auto split: if_splits)
  then show ?thesis unfolding dom_table_map [symmetric] by blast
qed

lemma cleanup_print:
  "mo_table (mon_cleanup_log_pages (print_log_pages s)) = filter (\<lambda>y. dy_pages y \<noteq> []) (map trimmed (mo_table s))"
proof -
  have k: "(\<lambda>p. dp_valid p \<noteq> Deleted_logpage) = kept_page" by (simp add: kept_page_def fun_eq_iff)
  have "map (\<lambda>y. y\<lparr>dy_pages := filter kept_page (dy_pages y)\<rparr>) (filter (\<lambda>y. dy_pages y \<noteq> []) (map trimmed t)) =
        filter (\<lambda>y. dy_pages y \<noteq> []) (map trimmed t)" for t
    by (induction t) (simp_all add: trimmed_def)
  then show ?thesis by (simp add: mon_cleanup_log_pages_def print_log_pages_def print_table_eq k)
qed

text \<open>The entry a table shows for an identity (the name, the address, the service, the transport and the family).\<close>

definition shown_entry :: "table \<Rightarrow> entry_id \<Rightarrow> disc_entry option" where
  "shown_entry t k = map_option snd (table_map t k)"

lemma trimmed_entries:
  assumes "wf_table t" "table_map t = refreshed es m"
  shows "shown_entry (filter (\<lambda>y. dy_pages y \<noteq> []) (map trimmed t)) k =
    (if k \<notin> entry_key ` set es then None
     else case m k of Some (_, e) \<Rightarrow> Some e | None \<Rightarrow> List.find (\<lambda>e. entry_key e = k) es)"
  using refreshed_None [of es m k]
  by (auto simp: shown_entry_def trimmed_map [OF assms(1)] assms(2) refreshed_def split: option.splits if_splits)

text \<open>
  C19. What the monitor reports when a log has been fetched, entries being compared by their identity (the name of
  the subsystem, the address, the service, the transport and the address family). The table afterwards has the
  identities of that log and no others; for an identity it already had it keeps the entry it had, even when
  other fields of it have changed, and for a new one it has the first entry of the log. An entry is reported as
  new if and only if it is in the log once and its identity was not in the table; so an entry that is new and in
  the log twice is not reported. An address is reported as deleted if and only if it was in the table and
  is not in the log; a subsystem is reported as added or deleted if and only if all its entries are.
\<close>

theorem monitor_reports_changes:
  assumes "wf_table (mo_table s)" and "get_logpages_via (send_get_log_page X) (mo_ctrl s) = Inr (0, es, c)"
    and "\<forall>e\<in>set es. length (de_subnqn e) \<le> MAX_NQN_SIZE"
  shows "\<exists>s' out. report_updates X s = request_event X s' \<and> mo_ctrl s' = c \<and>
    wf_table (mo_table s') \<and> table_keys (mo_table s') = entry_key ` set es \<and> mo_out s' = mo_out s @ out \<and>
    (\<forall>k\<in>entry_key ` set es. shown_entry (mo_table s') k =
       (case shown_entry (mo_table s) k of Some e \<Rightarrow> Some e | None \<Rightarrow> List.find (\<lambda>e. entry_key e = k) es)) \<and>
    (\<forall>e. Entry_new e \<in> set out \<longleftrightarrow>
       e \<in> set es \<and> entry_key e \<notin> table_keys (mo_table s) \<and> count_list (map entry_key es) (entry_key e) = 1) \<and>
    (\<forall>nqn ty a v. Entry_deleted nqn ty a v \<in> set out \<longleftrightarrow>
       (\<exists>f. (nqn, a, v, ty, f) \<in> table_keys (mo_table s) - entry_key ` set es)) \<and>
    (\<forall>nqn. Subsys_added nqn \<in> set out \<longleftrightarrow> nqn \<in> de_subnqn ` set es - fst ` table_keys (mo_table s)) \<and>
    (\<forall>nqn. Subsys_deleted nqn \<in> set out \<longleftrightarrow> nqn \<in> fst ` table_keys (mo_table s) - de_subnqn ` set es)"
proof -
  obtain s1 where s1: "mon_fetch_log_pages X s = Inr s1" "mo_ctrl s1 = c" "wf_table (mo_table s1)"
    "mo_out s1 = mo_out s @ map Subsys_added (new_names es (dy_nqn ` set (mo_table s)))"
    and m: "table_map (mo_table s1) = refreshed es (table_map (mo_table s))"
    using fetched_table [OF assms] by blast
  define s' where "s' = mon_cleanup_log_pages (print_log_pages s1)"
  define out where "out = map Subsys_added (new_names es (dy_nqn ` set (mo_table s))) @ fst (print_table (mo_table s1))"
  have t': "mo_table s' = filter (\<lambda>y. dy_pages y \<noteq> []) (map trimmed (mo_table s1))" by (simp add: s'_def cleanup_print)
  have o': "mo_out s' = mo_out s @ out"
    by (simp add: s'_def mon_cleanup_log_pages_def print_log_pages_def out_def s1(4) split_def)
  have c': "mo_ctrl s' = c" by (simp add: s'_def mon_cleanup_log_pages_def print_log_pages_def s1(2) split_def)
  have keys: "table_keys (mo_table s') = entry_key ` set es"
    unfolding t' by (rule trimmed_keys [OF s1(3) m])
  have shown: "\<forall>k\<in>entry_key ` set es. shown_entry (mo_table s') k =
      (case shown_entry (mo_table s) k of Some e \<Rightarrow> Some e | None \<Rightarrow> List.find (\<lambda>e. entry_key e = k) es)"
    unfolding t' trimmed_entries [OF s1(3) m] by (auto simp: shown_entry_def split: option.splits)
  note reps = reports_of_map [OF s1(3), unfolded m refreshed_Deleted refreshed_New refreshed_all_deleted]
  have "dom (refreshed es (table_map (mo_table s))) = table_keys (mo_table s) \<union> entry_key ` set es"
    using refreshed_None [of es "table_map (mo_table s)"] by (auto simp: dom_def dom_table_map [symmetric])
  note reps = reps [unfolded this dom_table_map]
  have names: "fst ` entry_key ` set es = de_subnqn ` set es" by (auto simp: entry_key_def image_image)
  have new: "Entry_new e \<in> set out \<longleftrightarrow>
       e \<in> set es \<and> entry_key e \<notin> table_keys (mo_table s) \<and> count_list (map entry_key es) (entry_key e) = 1" for e
    by (auto simp: out_def reps(1))
  have del: "Entry_deleted nqn ty a v \<in> set out \<longleftrightarrow> (\<exists>f. (nqn, a, v, ty, f) \<in> table_keys (mo_table s) - entry_key ` set es)"
    for nqn ty a v
    by (auto simp: out_def reps(2))
  have add: "Subsys_added nqn \<in> set out \<longleftrightarrow> nqn \<in> de_subnqn ` set es - fst ` table_keys (mo_table s)" for nqn
    using reps(3) by (auto simp: out_def set_new_names table_names [OF assms(1)])
  have rem: "Subsys_deleted nqn \<in> set out \<longleftrightarrow> nqn \<in> fst ` table_keys (mo_table s) - de_subnqn ` set es" for nqn
  proof -
    have "Subsys_deleted nqn \<in> set out \<longleftrightarrow> nqn \<in> fst ` (table_keys (mo_table s) \<union> entry_key ` set es) \<and>
        (\<forall>k\<in>entry_key ` set es. fst k \<noteq> nqn)"
      by (auto simp: out_def reps(4))
    then show ?thesis unfolding names [symmetric] image_Un by (auto simp del: image_image)
  qed
  have "report_updates X s = request_event X s'" by (simp add: report_updates_def s1(1) s'_def)
  with c' keys o' shown new del add rem wf_trimmed [OF s1(3)] t' show ?thesis
    by (intro exI [of _ s'] exI [of _ out]) simp
qed

section \<open>The automatic connection\<close>

text \<open>A table without the marks for the connections.\<close>

definition table_view :: "table \<Rightarrow> (string \<times> (entry_id \<times> page_state \<times> disc_entry) list) list" where
  "table_view t = map (\<lambda>y. (dy_nqn y, map page_item (dy_pages y))) t"

lemma table_view_simps [simp]:
  "table_view [] = []" "table_view (y # ys) = (dy_nqn y, map page_item (dy_pages y)) # table_view ys"
  by (simp_all add: table_view_def)

lemma wf_view:
  "wf_table t \<longleftrightarrow> distinct (map fst (table_view t)) \<and>
     (\<forall>(n, is)\<in>set (table_view t). is \<noteq> [] \<and> distinct (map fst is) \<and> (\<forall>(k, st, e)\<in>set is. de_subnqn e = n))"
  by (auto simp: wf_table_def wf_subsys_def table_view_def comp_def page_item_def)

lemma keys_view: "table_keys t = fst ` set (concat (map snd (table_view t)))"
  by (auto simp: table_keys_def table_pages_def table_view_def image_image image_UN)

lemma view_same:
  assumes "table_view t = table_view t'"
  shows "wf_table t = wf_table t'" "table_keys t = table_keys t'"
  using assms by (simp_all add: wf_view keys_view)

text \<open>Marking takes nothing off the table but deleted pages, and gives every page a mark.\<close>

definition all_marked :: "dpage list \<Rightarrow> bool" where
  "all_marked ps = (\<forall>p\<in>set ps. dp_connected p \<noteq> None)"

lemma all_marked_simps [simp]:
  "all_marked []" "all_marked (p # ps) = (dp_connected p \<noteq> None \<and> all_marked ps)"
  "all_marked (ps @ qs) = (all_marked ps \<and> all_marked qs)"
  by (auto simp: all_marked_def)

lemma item_connected [simp]:
  "page_item (p\<lparr>dp_connected := b\<rparr>) = page_item p" "kept_page (p\<lparr>dp_connected := b\<rparr>) = kept_page p"
  by (simp_all add: page_item_def page_key_def kept_page_def)

lemma mark_pages_keeps:
  "mark_pages val addr port ps = Inr ps' \<Longrightarrow>
     map page_item (filter kept_page ps') = map page_item (filter kept_page ps) \<and> (all_marked ps \<longrightarrow> all_marked ps')"
proof (induction ps arbitrary: ps')
  case (Cons p ps)
  then show ?case by (auto simp: kept_page_def split: if_splits option.splits)
qed simp

definition same_kept :: "dsubsys \<Rightarrow> dsubsys \<Rightarrow> bool" where
  "same_kept y y' =
     (dy_nqn y' = dy_nqn y \<and> map page_item (filter kept_page (dy_pages y')) = map page_item (filter kept_page (dy_pages y)) \<and>
      (all_marked (dy_pages y) \<longrightarrow> all_marked (dy_pages y')))"

lemma mark_entry_keeps:
  assumes "mark_entry e (bs, y) = Inr (bs', y')"
  shows "same_kept y y'"
  using assms
  by (auto simp: mark_entry_def mark_address_def same_kept_def split: prod.splits if_splits option.splits
      dest!: mark_pages_keeps)

lemma mark_entries_keep: "each mark_entry es (bs, y) = Inr (bs', y') \<Longrightarrow> same_kept y y'"
proof (induction es arbitrary: bs y)
  case (Cons e es)
  from Cons.prems obtain bs1 y1 where "mark_entry e (bs, y) = Inr (bs1, y1)" "each mark_entry es (bs1, y1) = Inr (bs', y')"
    by auto
  with Cons.IH mark_entry_keeps show ?case by (fastforce simp: same_kept_def)
qed (simp add: same_kept_def)

lemma mark_table_keeps:
  assumes "mark_table (Some es) bs t = Inr t'"
  shows "map (\<lambda>y. (dy_nqn y, map page_item (filter kept_page (dy_pages y)))) t' =
         map (\<lambda>y. (dy_nqn y, map page_item (filter kept_page (dy_pages y)))) t \<and> all_marked (table_pages t')"
  using assms
proof (induction t arbitrary: bs t')
  case (Cons y t)
  let ?y = "y\<lparr>dy_pages := map (\<lambda>p. p\<lparr>dp_connected := Some False\<rparr>) (dy_pages y)\<rparr>"
  from Cons.prems obtain bs1 y1 t1 where s: "each mark_entry es (bs, ?y) = Inr (bs1, y1)"
    "mark_table (Some es) bs1 t = Inr t1" "t' = y1 # t1"
    by (auto simp: Let_def)
  have "map page_item (filter kept_page (map (\<lambda>p. p\<lparr>dp_connected := Some False\<rparr>) ps)) = map page_item (filter kept_page ps)" for ps
    by (induction ps) auto
  with mark_entries_keep [OF s(1)] Cons.IH [OF s(2)] s(3) show ?case
    by (auto simp: same_kept_def all_marked_def)
qed simp

lemma cleanup_view:
  "table_view (ac_cleanup_table t) = filter (\<lambda>(n, is). is \<noteq> []) (map (\<lambda>y. (dy_nqn y, map page_item (filter kept_page (dy_pages y)))) t)"
  "ac_cleanup_table t = filter (\<lambda>y. dy_pages y \<noteq> []) (map trimmed t)"
proof -
  have k: "(\<lambda>p. dp_valid p \<noteq> Deleted_logpage) = kept_page" by (simp add: kept_page_def fun_eq_iff)
  show eq: "ac_cleanup_table t = filter (\<lambda>y. dy_pages y \<noteq> []) (map trimmed t)"
    by (simp add: ac_cleanup_table_def k trimmed_def cong: map_cong)
  show "table_view (ac_cleanup_table t) = filter (\<lambda>(n, is). is \<noteq> []) (map (\<lambda>y. (dy_nqn y, map page_item (filter kept_page (dy_pages y)))) t)"
    unfolding eq by (induction t) (simp_all add: trimmed_def)
qed

text \<open>The lines that are still to be written, in order.\<close>

definition todo_pages :: "string \<Rightarrow> string \<Rightarrow> dpage list \<Rightarrow> string list" where
  "todo_pages hostnqn nqn ps = map (\<lambda>p. fabrics_line (dp_e p) nqn hostnqn) (filter (\<lambda>p. dp_connected p = Some False) ps)"

definition todo :: "string \<Rightarrow> table \<Rightarrow> string list" where
  "todo hostnqn t = concat (map (\<lambda>y. todo_pages hostnqn (dy_nqn y) (dy_pages y)) t)"

text \<open>The rounds of the main loop in which nothing arrives: one subsystem is connected in each.\<close>

primrec connect_times :: "nat \<Rightarrow> 'w fabrics \<Rightarrow> string \<Rightarrow> 'w dclient \<Rightarrow> 'w dclient exec" where
  "connect_times 0 F hostnqn s = Inr s"
| "connect_times (Suc n) F hostnqn s = exec_bind (connect_one_subsystem F hostnqn s) (connect_times n F hostnqn)"

lemma connect_pages_step:
  assumes "\<And>l w. fb_write F l w = Some (put l w)" "all_marked ps"
  shows "\<exists>ps'. connect_pages F h nqn ps w =
             Inr (todo_pages h nqn ps \<noteq> [], ps', case todo_pages h nqn ps of [] \<Rightarrow> w | l # _ \<Rightarrow> put l w) \<and>
           todo_pages h nqn ps' = tl (todo_pages h nqn ps) \<and> map page_item ps' = map page_item ps \<and> all_marked ps'"
  using assms(2)
proof (induction ps)
  case (Cons p ps)
  then obtain b where b: "dp_connected p = Some b" by auto
  from Cons obtain ps' where "connect_pages F h nqn ps w =
             Inr (todo_pages h nqn ps \<noteq> [], ps', case todo_pages h nqn ps of [] \<Rightarrow> w | l # _ \<Rightarrow> put l w)"
           "todo_pages h nqn ps' = tl (todo_pages h nqn ps)" "map page_item ps' = map page_item ps" "all_marked ps'"
    by auto
  with b Cons.prems show ?case by (cases b) (simp_all add: assms(1) todo_pages_def)
qed (simp add: todo_pages_def)

lemma connect_table_step:
  assumes "\<And>l w. fb_write F l w = Some (put l w)" "all_marked (table_pages t)"
  shows "\<exists>r t'. connect_table F h t w = Inr (r, t', case todo h t of [] \<Rightarrow> w | l # _ \<Rightarrow> put l w) \<and>
           todo h t' = tl (todo h t) \<and> table_view t' = table_view t \<and> all_marked (table_pages t')"
  using assms(2)
proof (induction t)
  case (Cons y t)
  from Cons.prems have m: "all_marked (dy_pages y)" "all_marked (table_pages t)" by simp_all
  obtain ps' where ps': "connect_pages F h (dy_nqn y) (dy_pages y) w =
             Inr (todo_pages h (dy_nqn y) (dy_pages y) \<noteq> [], ps', case todo_pages h (dy_nqn y) (dy_pages y) of [] \<Rightarrow> w | l # _ \<Rightarrow> put l w)"
           "todo_pages h (dy_nqn y) ps' = tl (todo_pages h (dy_nqn y) (dy_pages y))"
           "map page_item ps' = map page_item (dy_pages y)" "all_marked ps'"
    using connect_pages_step [OF assms(1) m(1)] by blast
  obtain r t' where t': "connect_table F h t w = Inr (r, t', case todo h t of [] \<Rightarrow> w | l # _ \<Rightarrow> put l w)"
           "todo h t' = tl (todo h t)" "table_view t' = table_view t" "all_marked (table_pages t')"
    using Cons.IH [OF m(2)] by blast
  show ?case
  proof (cases "todo_pages h (dy_nqn y) (dy_pages y)")
    case Nil
    with ps' t' show ?thesis by (simp add: todo_def)
  next
    case (Cons l ls)
    with ps' m show ?thesis by (simp add: todo_def)
  qed
qed (simp add: todo_def)

lemma connect_times_all:
  assumes "\<And>l w. fb_write F l w = Some (put l w)" "all_marked (table_pages (mo_table s))"
  shows "\<exists>s'. connect_times (length (todo h (mo_table s))) F h s = Inr s' \<and> todo h (mo_table s') = [] \<and>
           table_view (mo_table s') = table_view (mo_table s) \<and> all_marked (table_pages (mo_table s')) \<and>
           cc_world (mo_ctrl s') = fold put (todo h (mo_table s)) (cc_world (mo_ctrl s))"
  using assms(2)
proof (induction "todo h (mo_table s)" arbitrary: s)
  case (Cons l ls)
  obtain r t' where t': "connect_table F h (mo_table s) (cc_world (mo_ctrl s)) = Inr (r, t', put l (cc_world (mo_ctrl s)))"
    "todo h t' = ls" "table_view t' = table_view (mo_table s)" "all_marked (table_pages t')"
    using connect_table_step [OF assms(1) Cons.prems, of h "cc_world (mo_ctrl s)"] Cons.hyps(2) [symmetric] by auto
  then obtain s1 where s1: "connect_one_subsystem F h s = Inr s1" "mo_table s1 = t'"
    "cc_world (mo_ctrl s1) = put l (cc_world (mo_ctrl s))"
    by (simp add: connect_one_subsystem_def)
  from Cons.hyps(1) [of s1] s1 t' Cons.hyps(2) [symmetric] show ?case by auto
qed simp

text \<open>Files of the kernel that hold what they should: the marking returns.\<close>

definition ctl_ok :: "sys_ctl \<Rightarrow> bool" where
  "ctl_ok e =
     (sy_subnqn e \<noteq> Some [] \<and> sy_transport e \<noteq> Some [] \<and> (\<forall>f. sy_address e = Some f \<longrightarrow> well_addressed f))"

lemma mark_pages_returns: "port \<noteq> None \<Longrightarrow> \<exists>ps'. mark_pages val addr port ps = Inr ps'"
  by (induction ps) auto

lemma mark_address_returns:
  assumes "well_addressed f" "get_line (CONFIG_ADDRESS_SIZE + 1) f b = Some a"
  shows "\<exists>r. mark_address a val y = Inr r"
  using assms mark_pages_returns
  by (auto simp: well_addressed_def get_line_def mark_address_def split: option.splits) (metis exec_bind.simps(2))

lemma mark_entry_returns: "ctl_ok e \<Longrightarrow> \<exists>r. mark_entry e st = Inr r"
proof -
  assume ok: "ctl_ok e"
  obtain val address y where fields: "st = ((val, address), y)" by (metis prod.exhaust)
  have wa: "well_addressed f \<Longrightarrow> read_buf (get_line n f old) = Inr (the (get_line n f old))" for n f old
    by (simp add: well_addressed_def get_line_def read_buf_def)
  have l: "f \<noteq> [] \<Longrightarrow> read_buf (get_line n f old) = Inr (the (get_line n f old)) \<and> get_line n f old \<noteq> None" for n f old
    by (simp add: get_line_def read_buf_def)
  show ?thesis
  proof (cases "take 4 (sy_name e) \<noteq> ''nvme'' \<or> sy_subnqn e = None \<or> sy_address e = None \<or> sy_transport e = None")
    case True
    with ok l show ?thesis by (auto simp: fields mark_entry_def ctl_ok_def wa split: option.splits)
  next
    case False
    then obtain f1 f2 f3 where f: "sy_subnqn e = Some f1" "sy_address e = Some f2" "sy_transport e = Some f3"
      "take 4 (sy_name e) = ''nvme''" by auto
    with ok have ne: "f1 \<noteq> []" "f2 \<noteq> []" "f3 \<noteq> []" "well_addressed f2" by (auto simp: ctl_ok_def well_addressed_def)
    obtain a where a: "get_line (CONFIG_ADDRESS_SIZE + 1) f2 address = Some a" using l [OF ne(2)] by blast
    have r: "\<exists>a' y'. mark_address a v y = Inr (a', y')" for v
      using mark_address_returns [OF ne(4) a] by (metis prod.exhaust)
    show ?thesis
      using f a l [OF ne(1)] l [OF ne(3)] r [of "the (get_line (MAX_NQN_SIZE + 1) f3 (get_line (MAX_NQN_SIZE + 1) f1 val))"]
      by (auto simp: fields mark_entry_def read_buf_def)
  qed
qed

lemma mark_table_returns:
  assumes "\<forall>e\<in>set es. ctl_ok e"
  shows "\<exists>t'. mark_table (Some es) bs t = Inr t'"
proof -
  have each: "\<exists>r. each mark_entry es st = Inr r" for st
    using assms
  proof (induction es arbitrary: st)
    case (Cons e es)
    then have "ctl_ok e" by simp
    then obtain r where "mark_entry e st = Inr r" using mark_entry_returns by blast
    moreover obtain r' where "each mark_entry es r = Inr r'" using Cons.IH [of r] Cons.prems by auto
    ultimately show ?case by simp
  qed simp
  show ?thesis
  proof (induction t arbitrary: bs)
    case (Cons y t)
    obtain bs1 y1 where "each mark_entry es (bs, y\<lparr>dy_pages := map (\<lambda>p. p\<lparr>dp_connected := Some False\<rparr>) (dy_pages y)\<rparr>) = Inr (bs1, y1)"
      using each by (metis prod.exhaust)
    moreover obtain t' where "mark_table (Some es) bs1 t = Inr t'" using Cons by blast
    ultimately show ?case by (simp add: Let_def)
  qed simp
qed

text \<open>
  C22. The automatic connection connects every entry of the discovery log. When a log has been fetched and the
  kernel's controllers can be read, the table afterwards holds the entries of the log and no others, and it is
  known of each whether it is connected. From then on every round connects one: after as many rounds as
  there are entries that are not connected, when the device can be written, all of them are, and exactly one line
  was written to the device for each, in the order of the table.
\<close>

theorem auto_connect_connects_all:
  assumes "wf_table (mo_table s)" and "get_logpages_via (send_get_log_page X) (mo_ctrl s) = Inr (0, es, c)"
    and "\<forall>e\<in>set es. length (de_subnqn e) \<le> MAX_NQN_SIZE"
    and "fb_controllers F (cc_world c) = Some ctls" "\<forall>e\<in>set ctls. ctl_ok e"
    and "\<And>l w. fb_write F l w = Some (put l w)"
  shows "\<exists>s'. process_updates X F s = request_event X s' \<and> mo_ctrl s' = c \<and>
    wf_table (mo_table s') \<and> table_keys (mo_table s') = entry_key ` set es \<and> all_marked (table_pages (mo_table s')) \<and>
    (\<forall>r. mo_table r = mo_table s' \<longrightarrow>
      (\<exists>r'. connect_times (length (todo h (mo_table r))) F h r = Inr r' \<and> todo h (mo_table r') = [] \<and>
        table_keys (mo_table r') = entry_key ` set es \<and>
        cc_world (mo_ctrl r') = fold put (todo h (mo_table r)) (cc_world (mo_ctrl r))))"
proof -
  obtain s1 where s1: "mon_fetch_log_pages X s = Inr s1" "mo_ctrl s1 = c" "wf_table (mo_table s1)"
    and m: "table_map (mo_table s1) = refreshed es (table_map (mo_table s))"
    using fetched_table [OF assms(1-3)] by blast
  obtain t' where t': "mark_table (Some ctls) (None, None) (mo_table s1) = Inr t'"
    using mark_table_returns [OF assms(5)] by blast
  note keeps = mark_table_keeps [OF t']
  define s' where "s' = s1\<lparr>mo_table := ac_cleanup_table t'\<rparr>"
  have p: "process_updates X F s = request_event X s'"
    using s1 t' assms(4) by (simp add: process_updates_def mark_connected_subsystems_def s'_def)
  have view: "table_view (mo_table s') = table_view (filter (\<lambda>y. dy_pages y \<noteq> []) (map trimmed (mo_table s1)))"
    using keeps cleanup_view [of t'] cleanup_view [of "mo_table s1"] by (simp add: s'_def)
  have wf: "wf_table (mo_table s')" using view_same(1) [OF view] wf_trimmed [OF s1(3)] by simp
  have keys: "table_keys (mo_table s') = entry_key ` set es"
    using view_same(2) [OF view] trimmed_keys [OF s1(3) m] by simp
  have marked: "all_marked (table_pages (mo_table s'))"
    using keeps by (auto simp: s'_def cleanup_view(2) filter_trimmed_pages all_marked_def)
  have "\<exists>r'. connect_times (length (todo h (mo_table r))) F h r = Inr r' \<and> todo h (mo_table r') = [] \<and>
        table_keys (mo_table r') = entry_key ` set es \<and>
        cc_world (mo_ctrl r') = fold put (todo h (mo_table r)) (cc_world (mo_ctrl r))" if "mo_table r = mo_table s'" for r
    using connect_times_all [of F put r h, OF assms(6)] that marked keys view_same(2) by metis
  with p wf keys marked s1(2) show ?thesis by (intro exI [of _ s']) (simp add: s'_def)
qed

section \<open>A run\<close>

text \<open>A client that is connected to such a controller and has an empty table.\<close>

definition log_client :: "string list dclient" where
  "log_client = (client_start [])\<lparr>mo_ctrl := (ctrl_zero [])\<lparr>cc_ep := Alive, cc_cmd := Alive\<rparr>\<rparr>"

lemma log_client_fetch:
  "get_logpages_via (send_get_log_page (log_xport [log_entry])) (mo_ctrl log_client) =
     Inr (0, [log_entry], mo_ctrl log_client)"
proof -
  have "send_get_log_page (log_xport [log_entry]) n (mo_ctrl log_client) = Inr (0, (1, 1, [log_entry]), mo_ctrl log_client)"
    if "int n < 2 ^ 31" for n
    using that
    by (simp add: send_get_log_page_def with_key_def send_and_wait_def send_cmd_def process_nvme_rsp_def log_xport_def
        log_client_def ctrl_zero_def Let_def rsp_code_def EAGAIN_def numeral_2_eq_2)
  moreover have "trim_entry log_entry = log_entry" by (simp add: trim_entry_def trim_def log_entry_def)
  moreover have "u32 1 = 1" "u32 (HDR_SIZE + ENTRY_SIZE * 1) = HDR_SIZE + ENTRY_SIZE" "int (HDR_SIZE + ENTRY_SIZE) < 2 ^ 31"
    by (simp_all add: u32_def HDR_SIZE_def ENTRY_SIZE_def)
  ultimately show ?thesis by (simp add: get_logpages_via_def Let_def)
qed

lemma log_client_facts:
  "wf_table (mo_table log_client)" "table_keys (mo_table log_client) = {}" "mo_out log_client = []"
  "length (de_subnqn log_entry) \<le> MAX_NQN_SIZE"
  by (simp_all add: log_client_def client_start_def table_keys_def log_entry_def MAX_NQN_SIZE_def)

theorem monitor_reports_changes_witness:
  "\<exists>s' out. report_updates (log_xport [log_entry]) log_client = request_event (log_xport [log_entry]) s' \<and>
     table_keys (mo_table s') = {entry_key log_entry} \<and> mo_out s' = out \<and>
     Entry_new log_entry \<in> set out \<and> Subsys_added ''nqn'' \<in> set out"
proof -
  have n: "de_subnqn log_entry = ''nqn''" by (simp add: log_entry_def)
  have l: "\<forall>e\<in>set [log_entry]. length (de_subnqn e) \<le> MAX_NQN_SIZE" using log_client_facts(4) by simp
  obtain s' out where r: "report_updates (log_xport [log_entry]) log_client = request_event (log_xport [log_entry]) s'"
    "table_keys (mo_table s') = entry_key ` set [log_entry]" "mo_out s' = mo_out log_client @ out"
    "\<forall>e. Entry_new e \<in> set out \<longleftrightarrow> e \<in> set [log_entry] \<and>
       entry_key e \<notin> table_keys (mo_table log_client) \<and> count_list (map entry_key [log_entry]) (entry_key e) = 1"
    "\<forall>nqn. Subsys_added nqn \<in> set out \<longleftrightarrow> nqn \<in> de_subnqn ` set [log_entry] - fst ` table_keys (mo_table log_client)"
    using monitor_reports_changes [OF log_client_facts(1) log_client_fetch l] by (elim exE conjE) (rule that)
  then show ?thesis by (intro exI [of _ s'] exI [of _ out]) (simp add: log_client_facts n)
qed

text \<open>The device, as the list of the lines that were written to it.\<close>

definition log_fabrics :: "string list fabrics" where
  "log_fabrics = \<lparr>fb_controllers = \<lambda>_. Some [], fb_write = \<lambda>l w. Some (w @ [l])\<rparr>"

theorem auto_connect_connects_all_witness:
  "\<exists>s'. process_updates (log_xport [log_entry]) log_fabrics log_client = request_event (log_xport [log_entry]) s' \<and>
     table_keys (mo_table s') = {entry_key log_entry} \<and>
     (\<exists>r'. connect_times (length (todo ''h'' (mo_table s'))) log_fabrics ''h'' s' = Inr r' \<and> todo ''h'' (mo_table r') = [])"
proof -
  have F: "fb_controllers log_fabrics w = Some []" "fb_write log_fabrics l w = Some (w @ [l])" for l w
    by (simp_all add: log_fabrics_def)
  have l: "\<forall>e\<in>set [log_entry]. length (de_subnqn e) \<le> MAX_NQN_SIZE" using log_client_facts(4) by simp
  have c: "\<forall>e\<in>set []. ctl_ok e" by simp
  obtain s' where r: "process_updates (log_xport [log_entry]) log_fabrics log_client = request_event (log_xport [log_entry]) s'"
    "table_keys (mo_table s') = entry_key ` set [log_entry]"
    "\<forall>r. mo_table r = mo_table s' \<longrightarrow>
      (\<exists>r'. connect_times (length (todo ''h'' (mo_table r))) log_fabrics ''h'' r = Inr r' \<and> todo ''h'' (mo_table r') = [] \<and>
        table_keys (mo_table r') = entry_key ` set [log_entry] \<and>
        cc_world (mo_ctrl r') = fold (\<lambda>l w. w @ [l]) (todo ''h'' (mo_table r)) (cc_world (mo_ctrl r)))"
    using auto_connect_connects_all [OF log_client_facts(1) log_client_fetch l F(1) c F(2), of "''h''"] by blast
  then show ?thesis by (intro exI [of _ s']) auto
qed

end
