(* ===== verification/Tcp_Stream.thy ===== *)
theory Tcp_Stream
  imports Tcp
begin

text \<open>
  What arrives over TCP, against what was sent. The locales \<open>byte_stream\<close> and \<open>posix_socket\<close> state what a connected
  socket promises: a read that finds bytes returns the next of a stream, at least one and at most as many as were
  asked for; a write fails or accepts the first bytes of what it is given, perhaps not all. The locale
  \<open>stream_socket\<close> is the case in which nothing short is split: every read of up to a connection request finds all
  its bytes and every write is accepted as a whole. Nothing guarantees that case; the lemmas about it say what the
  code does when it holds.
\<close>

section \<open>Streams\<close>

locale byte_stream =
  fixes S :: "'w socket" and arriving :: "'w \<Rightarrow> bytes" and sent :: "'w \<Rightarrow> bytes"
  assumes read_some: "arriving w \<noteq> [] \<Longrightarrow> 0 < n \<Longrightarrow>
      \<exists>k w'. so_read S n w = (int k, take k (arriving w), w') \<and> 0 < k \<and> k \<le> n \<and> k \<le> length (arriving w) \<and>
        arriving w' = drop k (arriving w) \<and> sent w' = sent w"
begin

text \<open>The loop stores all the data it was announced, however it is cut into pieces.\<close>

lemma put_at_split:
  assumes "k \<le> length xs" "off + length xs \<le> length buf"
  shows "put_at (off + k) (drop k xs) (put_at off (take k xs) buf) = put_at off xs buf"
proof -
  obtain ys zs where "xs = ys @ zs" "length ys = k"
    using assms(1) by (metis append_take_drop_id length_take min.absorb2)
  then show ?thesis using assms(2) by (simp add: put_at_def add.commute add.left_commute)
qed

lemma inline_loop_stores:
  assumes "arriving w = data @ rest" "off + length data \<le> length buf"
  shows "\<exists>w'. inline_loop S off (length data) buf w = Some (Inr (0, put_at off data buf, w')) \<and>
           arriving w' = rest \<and> sent w' = sent w"
  using assms
proof (induction "length data" arbitrary: data off buf w rule: less_induct)
  case less
  show ?case
  proof (cases "data = []")
    case True
    then show ?thesis using less.prems by (simp add: inline_loop.simps put_at_def)
  next
    case False
    then obtain k w1 where r: "so_read S (length data) w = (int k, take k (data @ rest), w1)"
      "0 < k" "k \<le> length data" "arriving w1 = drop k (data @ rest)" "sent w1 = sent w"
      using read_some [of w "length data"] less.prems(1) by (metis append_is_Nil_conv length_greater_0_conv)
    have "\<exists>w'. inline_loop S (off + k) (length (drop k data)) (put_at off (take k data) buf) w1 =
            Some (Inr (0, put_at (off + k) (drop k data) (put_at off (take k data) buf), w')) \<and>
          arriving w' = rest \<and> sent w' = sent w1"
      using r less.prems False by (intro less.hyps) (auto simp: put_at_def)
    moreover have "off + k \<le> length buf" using r less.prems by simp
    ultimately show ?thesis
      using r less.prems False by (simp add: inline_loop.simps [of S off] put_at_split)
  qed
qed

end

lemma data_hdr_fields:
  assumes "length mem = DATA_PDU_LEN"
  shows "length (data_hdr mem i n) = DATA_PDU_LEN" "field 12 4 (data_hdr mem i n) = 0"
    "field 16 4 (data_hdr mem i n) = n mod 2 ^ 32"
proof -
  define A where "A = common_hdr NVME_TCP_C2HDATA 0 DATA_PDU_LEN (DATA_PDU_LEN + n) @ le_bytes 2 i @ take 2 (drop 10 mem)"
  have A: "length A = 12" using assms by (simp add: A_def common_hdr_def DATA_PDU_LEN_def)
  have h: "data_hdr mem i n = A @ le_bytes 4 0 @ le_bytes 4 n @ take 4 (drop 20 mem)"
    by (simp add: data_hdr_def A_def)
  show "length (data_hdr mem i n) = DATA_PDU_LEN" using assms A by (simp add: h DATA_PDU_LEN_def)
  show "field 12 4 (data_hdr mem i n) = 0" using A by (simp add: h field_def)
  show "field 16 4 (data_hdr mem i n) = n mod 2 ^ 32" using A by (simp add: h field_def)
qed

text \<open>A connected socket. A write that is cut is not an error.\<close>

locale posix_socket = byte_stream S arriving sent
  for S :: "'w socket" and arriving :: "'w \<Rightarrow> bytes" and sent :: "'w \<Rightarrow> bytes" +
  assumes write_some: "so_write S bs w = (r, w') \<Longrightarrow> r \<le> int (length bs) \<and>
      sent w' = sent w @ take (nat r) bs \<and> arriving w' = arriving w"
    and memory_length: "length (so_memory S n w) = n"
begin

text \<open>The data of a command, when its header is read as a whole and when it is not.\<close>

lemma inline_read_outcomes:
  assumes "arriving w = hdr @ stream" "length hdr = DATA_PDU_LEN" "field 12 4 hdr = 0" "field 16 4 hdr \<le> length stream"
    and "field 16 4 hdr \<le> length buf"
  shows "\<exists>r b w'. tcp_inline_read S buf w = Some (Inr (r, b, w')) \<and> sent w' = sent w \<and>
    (r = 0 \<and> b = take (field 16 4 hdr) stream @ drop (field 16 4 hdr) buf \<and> arriving w' = drop (field 16 4 hdr) stream \<or>
     r = - ENODATA \<and> b = buf \<and> (\<exists>m. 0 < m \<and> m < DATA_PDU_LEN \<and> arriving w' = drop m (arriving w)))"
proof -
  have "arriving w \<noteq> []" using assms(1,2) by (auto simp: DATA_PDU_LEN_def)
  then obtain m w1 where 1: "so_read S DATA_PDU_LEN w = (int m, take m (arriving w), w1)" "0 < m" "m \<le> DATA_PDU_LEN"
    "arriving w1 = drop m (arriving w)" "sent w1 = sent w"
    using read_some [of w DATA_PDU_LEN] by (auto simp: DATA_PDU_LEN_def)
  show ?thesis
  proof (cases "m = DATA_PDU_LEN")
    case True
    define n where "n = field 16 4 hdr"
    have len: "length (take n stream) = n" using assms(4) by (simp add: n_def)
    have "arriving w1 = take n stream @ drop n stream" using 1 True assms(1,2) by simp
    from inline_loop_stores [OF this, of 0 buf] assms(5) obtain w' where
      "inline_loop S 0 n buf w1 = Some (Inr (0, take n stream @ drop n buf, w'))" "arriving w' = drop n stream" "sent w' = sent w1"
      unfolding len using assms(4) by (auto simp: n_def put_at_def min_def split: if_splits)
    then show ?thesis
      using 1 True assms(1-3) by (auto simp: tcp_inline_read_def n_def)
  next
    case False
    then show ?thesis
      using 1 by (intro exI [of _ "- ENODATA"] exI [of _ buf] exI [of _ w1]) (auto simp: tcp_inline_read_def)
  qed
qed

end

text \<open>The case in which nothing short is split.\<close>

locale stream_socket = posix_socket S arriving sent
  for S :: "'w socket" and arriving :: "'w \<Rightarrow> bytes" and sent :: "'w \<Rightarrow> bytes" +
  assumes read_short: "n \<le> length (arriving w) \<Longrightarrow> 0 < n \<Longrightarrow> n \<le> IC_LEN \<Longrightarrow>
      \<exists>w'. so_read S n w = (int n, take n (arriving w), w') \<and> arriving w' = drop n (arriving w) \<and> sent w' = sent w"
    and write_whole: "fst (so_write S bs w) = int (length bs)"
begin

lemma write_all: "\<exists>w'. so_write S bs w = (int (length bs), w') \<and> sent w' = sent w @ bs \<and> arriving w' = arriving w"
  using write_whole [of bs w] write_some [of bs w] by (cases "so_write S bs w") auto

lemma read_prefix:
  assumes "arriving w = xs @ ys" "xs \<noteq> []" "length xs = n" "n \<le> IC_LEN"
  shows "\<exists>w'. so_read S n w = (int n, xs, w') \<and> arriving w' = ys \<and> sent w' = sent w"
  using read_short [of n w] assms by auto

text \<open>A header and what it announces are received as one message.\<close>

lemma poll_receives:
  assumes "arriving w = common_hdr t f (HDR_LEN + length msg) p @ msg @ rest" "msg \<noteq> []" "length msg \<le> CMD_LEN"
  shows "\<exists>w'. tcp_poll_for_msg S w = (0, Some msg, w') \<and> arriving w' = rest \<and> sent w' = sent w"
proof -
  let ?hdr = "common_hdr t f (HDR_LEN + length msg) p"
  have h: "?hdr \<noteq> []" "length ?hdr = HDR_LEN" "?hdr ! 2 = HDR_LEN + length msg"
    by (simp_all add: common_hdr_def HDR_LEN_def)
  obtain w1 where 1: "so_read S HDR_LEN w = (int HDR_LEN, ?hdr, w1)" "arriving w1 = msg @ rest" "sent w1 = sent w"
    using read_prefix [OF assms(1) h(1,2)] by (auto simp: HDR_LEN_def IC_LEN_def)
  obtain w2 where 2: "so_read S (length msg) w1 = (int (length msg), msg, w2)" "arriving w2 = rest" "sent w2 = sent w1"
    using read_prefix [OF 1(2) assms(2)] assms(3) by (auto simp: CMD_LEN_def IC_LEN_def)
  show ?thesis
    unfolding tcp_poll_for_msg_def 1(1) prod.case h(3) Let_def
    using 1 2 assms(2) memory_length [of "length msg" w1] by simp
qed

lemma poll_command:
  assumes "arriving w = cmd_capsule cmd @ rest" "length cmd = CMD_LEN"
  shows "\<exists>w'. tcp_poll_for_msg S w = (0, Some cmd, w') \<and> arriving w' = rest \<and> sent w' = sent w"
  using poll_receives [of w NVME_TCP_CAPSULECMD 0 cmd "HDR_LEN + CMD_LEN" rest] assms
  by (cases "cmd = []") (auto simp: cmd_capsule_def CMD_LEN_def)

lemma poll_response:
  assumes "arriving w = rsp_capsule cqe @ rest" "length cqe = COMPLETION_SIZE"
  shows "\<exists>w'. tcp_poll_for_msg S w = (0, Some cqe, w') \<and> arriving w' = rest \<and> sent w' = sent w"
  using poll_receives [of w NVME_TCP_CAPSULERESP 0 cqe "HDR_LEN + COMPLETION_SIZE" rest] assms
  by (cases "cqe = []") (auto simp: rsp_capsule_def CMD_LEN_def COMPLETION_SIZE_def)

text \<open>The data that is announced is stored at the start of the buffer.\<close>

lemma inline_read_stores:
  assumes "arriving w = data_hdr mem i (length data) @ data @ rest" "length mem = DATA_PDU_LEN"
    and "length data < 2 ^ 32" "length data \<le> length buf"
  shows "\<exists>w'. tcp_inline_read S buf w = Some (Inr (0, data @ drop (length data) buf, w')) \<and>
           arriving w' = rest \<and> sent w' = sent w"
proof -
  note f = data_hdr_fields [OF assms(2), of i "length data"]
  have ne: "data_hdr mem i (length data) \<noteq> []" by (simp add: data_hdr_def common_hdr_def)
  obtain w1 where 1: "so_read S DATA_PDU_LEN w = (int DATA_PDU_LEN, data_hdr mem i (length data), w1)"
    "arriving w1 = data @ rest" "sent w1 = sent w"
    using read_prefix [OF assms(1) ne f(1)] by (auto simp: DATA_PDU_LEN_def IC_LEN_def)
  show ?thesis
    using inline_loop_stores [OF 1(2), of 0 buf] assms(3,4) 1 f
    by (auto simp: tcp_inline_read_def put_at_def)
qed

text \<open>What the responding side writes.\<close>

lemma rma_write_sends:
  "\<exists>w' mem. tcp_rma_write S buf i w = (0, w') \<and> length mem = DATA_PDU_LEN \<and>
     sent w' = sent w @ data_hdr mem i (length buf) @ buf \<and> arriving w' = arriving w"
proof -
  let ?mem = "so_memory S DATA_PDU_LEN w"
  obtain w1 where 1: "so_write S (data_hdr ?mem i (length buf)) w = (int (length (data_hdr ?mem i (length buf))), w1)"
    "sent w1 = sent w @ data_hdr ?mem i (length buf)" "arriving w1 = arriving w"
    using write_all by blast
  obtain w2 where 2: "so_write S buf w1 = (int (length buf), w2)" "sent w2 = sent w1 @ buf" "arriving w2 = arriving w1"
    using write_all by blast
  from 1 2 have "tcp_rma_write S buf i w = (0, w2)" by (simp add: tcp_rma_write_def tcp_inline_write_def)
  with 1 2 memory_length show ?thesis by (intro exI [of _ w2] exI [of _ ?mem]) simp
qed

lemma send_rsp_sends:
  assumes "length cqe = COMPLETION_SIZE"
  shows "\<exists>w'. tcp_send_rsp S cqe w = (0, w') \<and> sent w' = sent w @ rsp_capsule cqe \<and> arriving w' = arriving w"
proof -
  have "length (rsp_capsule cqe) = HDR_LEN + COMPLETION_SIZE"
    using assms by (simp add: rsp_capsule_def common_hdr_def HDR_LEN_def)
  then show ?thesis using write_all [of "rsp_capsule cqe" w] by (auto simp: tcp_send_rsp_def)
qed

text \<open>A command that data is read for: the command goes out and the data that arrives is stored.\<close>

lemma send_msg_reads:
  assumes "length cmd = CMD_LEN" "direction cmd = 2"
    and "arriving w = data_hdr mem i (length data) @ data @ rest" "length mem = DATA_PDU_LEN"
    and "length data < 2 ^ 32" "length data \<le> length buf"
  shows "\<exists>w'. tcp_send_msg S cmd buf w = Some (Inr (0, data @ drop (length data) buf, w')) \<and>
           arriving w' = rest \<and> sent w' = sent w @ cmd_capsule cmd"
proof -
  have len: "length (cmd_capsule cmd) = HDR_LEN + CMD_LEN"
    using assms(1) by (simp add: cmd_capsule_def common_hdr_def HDR_LEN_def)
  obtain w1 where 1: "so_write S (cmd_capsule cmd) w = (int (HDR_LEN + CMD_LEN), w1)"
    "sent w1 = sent w @ cmd_capsule cmd" "arriving w1 = arriving w"
    using write_all [of "cmd_capsule cmd" w] len by auto
  show ?thesis
    using inline_read_stores [of w1, OF _ assms(4-6)] assms(3) 1 assms(2)
    by (auto simp: tcp_send_msg_def tcp_handle_inline_data_def)
qed

end

section \<open>Handshake\<close>

text \<open>
  The reply to a connection request is accepted, whatever its reserved bytes hold. The request itself is
  refused when the memory it was made in held something else than zero in one of them.
\<close>

lemma handshake_reply:
  assumes "length mem = IC_LEN"
  shows "length (icresp_pdu mem) = IC_LEN \<and> validate_reply (icresp_pdu mem) (int IC_LEN) = 0"
proof -
  define A where "A = common_hdr NVME_TCP_ICRESP (mem ! 1) IC_LEN IC_LEN"
  have A: "length A = 8" "A ! 0 = NVME_TCP_ICRESP" "A ! 2 = IC_LEN"
    by (simp_all add: A_def common_hdr_def)
  have h: "icresp_pdu mem = A @ 0 # 0 # 0 # 0 # le_bytes 4 65535 @ drop 16 mem"
    by (simp add: icresp_pdu_def A_def numeral_2_eq_2)
  have "field 4 4 A = IC_LEN" by (simp add: A_def common_hdr_def field_def IC_LEN_def)
  then have "field 4 4 (icresp_pdu mem) = IC_LEN" using A by (simp add: h field_def)
  moreover have "field 8 2 (icresp_pdu mem) = 0" using A by (simp add: h field_def numeral_2_eq_2)
  moreover have "icresp_pdu mem ! 11 = 0" "icresp_pdu mem ! 10 = 0" "icresp_pdu mem ! 0 = NVME_TCP_ICRESP"
    "icresp_pdu mem ! 2 = IC_LEN"
    using A by (simp_all add: h nth_append)
  ultimately show ?thesis using assms A by (simp add: validate_reply_def h IC_LEN_def)
qed

lemma handshake_refused:
  assumes "stream_socket S arriving sent" "length mem = IC_LEN" "arriving w = tcp_build_connect_data mem @ rest"
    and "mem ! 18 \<noteq> 0"
  shows "fst (tcp_accept_connection S w) = - EPROTO"
proof -
  note s = stream_socket.read_prefix [OF assms(1)] stream_socket.write_all [OF assms(1)]
  define A where "A = common_hdr NVME_TCP_ICREQ (mem ! 1) IC_LEN IC_LEN"
  define B where "B = 0 # 0 # 0 # 0 # le_bytes 4 0 @ drop 16 mem"
  have A: "length A = HDR_LEN" "A \<noteq> []" "A ! 0 = NVME_TCP_ICREQ" by (simp_all add: A_def common_hdr_def HDR_LEN_def)
  have B: "length B = IC_LEN - HDR_LEN" "B \<noteq> []" "B ! 10 = mem ! 18"
    using assms(2) by (simp_all add: B_def IC_LEN_def HDR_LEN_def nth_append)
  have arr: "arriving w = A @ B @ rest"
    by (simp add: assms(3) tcp_build_connect_data_def A_def B_def numeral_2_eq_2)
  obtain w1 where 1: "so_read S HDR_LEN w = (int HDR_LEN, A, w1)" "arriving w1 = B @ rest"
    using s(1) [OF arr A(2,1)] by (auto simp: HDR_LEN_def IC_LEN_def)
  obtain w2 where 2: "so_read S (IC_LEN - HDR_LEN) w1 = (int (IC_LEN - HDR_LEN), B, w2)"
    using s(1) [OF 1(2) B(2,1)] by auto
  show ?thesis using 1 2 A B assms(4) by (simp add: tcp_accept_connection_def Let_def)
qed

section \<open>Commands\<close>

text \<open>
  A response that comes without data is lost when the opcode of the command says that data is read, as that
  of Get Features does: its 24 bytes are taken for the header of data.
\<close>

lemma response_without_data_lost:
  assumes "stream_socket S arriving sent" "length cmd = CMD_LEN" "direction cmd = 2"
    and "arriving w = rsp_capsule cqe @ rest" "length cqe = COMPLETION_SIZE" "take 4 (drop 8 cqe) = [0, 0, 0, 0]"
  shows "\<exists>w'. tcp_send_msg S cmd buf w = Some (Inr (0, buf, w')) \<and> arriving w' = rest"
proof -
  note s = stream_socket.read_prefix [OF assms(1)] stream_socket.write_all [OF assms(1)]
  have len: "length (cmd_capsule cmd) = HDR_LEN + CMD_LEN"
    using assms(2) by (simp add: cmd_capsule_def common_hdr_def HDR_LEN_def)
  obtain w1 where 1: "so_write S (cmd_capsule cmd) w = (int (HDR_LEN + CMD_LEN), w1)" "arriving w1 = arriving w"
    using s(2) [of "cmd_capsule cmd" w] len by auto
  have r: "rsp_capsule cqe \<noteq> []" "length (rsp_capsule cqe) = DATA_PDU_LEN"
    using assms(5) by (simp_all add: rsp_capsule_def common_hdr_def COMPLETION_SIZE_def DATA_PDU_LEN_def)
  have f: "field 16 4 (rsp_capsule cqe) = 0"
    using assms(6) by (simp add: rsp_capsule_def common_hdr_def field_def)
  obtain w2 where 2: "so_read S DATA_PDU_LEN w1 = (int DATA_PDU_LEN, rsp_capsule cqe, w2)" "arriving w2 = rest"
    using s(1) [OF _ r] 1(2) assms(4) by (auto simp: DATA_PDU_LEN_def IC_LEN_def)
  show ?thesis
    using 1 2 f assms(3)
    by (auto simp: tcp_send_msg_def tcp_handle_inline_data_def tcp_inline_read_def inline_loop.simps)
qed

text \<open>A socket in memory, which reads at most a connection request at once.\<close>

definition memory_socket :: "(bytes \<times> bytes) socket" where
  "memory_socket =
     \<lparr>so_socket = \<lambda>w. (3, w), so_setsockopt = \<lambda>_ w. (0, w), so_connect = \<lambda>_ _ _ w. (0, w), so_bind = \<lambda>_ w. (0, w),
      so_listen = \<lambda>_ w. (0, w), so_accept = \<lambda>w. (4, w), so_close = \<lambda>w. w,
      so_read = \<lambda>n w. (let k = min (min n IC_LEN) (length (fst w))
                        in (int k, take k (fst w), (drop k (fst w), snd w))),
      so_write = \<lambda>bs w. (int (length bs), (fst w, snd w @ bs)), so_errno = \<lambda>_. 0,
      so_memory = \<lambda>n _. replicate n 0, so_stopped = \<lambda>_. False\<rparr>"

interpretation memory: stream_socket memory_socket fst snd
  by unfold_locales (auto simp: memory_socket_def Let_def IC_LEN_def min_def Suc_le_eq split: if_splits)

text \<open>A socket in memory whose writes are cut.\<close>

definition cutting_socket :: "nat \<Rightarrow> (bytes \<times> bytes) socket" where
  "cutting_socket n =
     memory_socket\<lparr>so_write := \<lambda>bs w. (int (min n (length bs)), (fst w, snd w @ take n bs))\<rparr>"

interpretation cutting: posix_socket "cutting_socket n" fst snd for n
  by unfold_locales
    (auto simp: cutting_socket_def memory_socket_def Let_def IC_LEN_def min_def Suc_le_eq split: if_splits)

text \<open>
  C21. The data of a command over TCP, for any sockets. The responding side reports success whatever part \<open>k\<close> of the
  data the socket has accepted (its sockets are non-blocking, and only negative results are errors). The asking
  side, once its command is out, stores exactly as many bytes as were announced, in however many pieces they
  arrive, or reports that the header of the data was cut. So it gets the data when all of it was accepted;
  otherwise it takes the missing bytes from whatever the responding side has written next, such as the response,
  and reports success as well. (The command and the header of the data are taken to be accepted as a whole; the
  result for the command is compared with its size, the one for the header is not.)
\<close>

theorem tcp_exchange:
  assumes "posix_socket S arriving sent" "posix_socket T arriving' sent'"
    and "direction cmd = 2" "length data < 2 ^ 32" "length data \<le> length buf"
    and "hdr = data_hdr (so_memory T DATA_PDU_LEN v) (field 2 2 cmd) (length data)"
    and "so_write T hdr v = (int DATA_PDU_LEN, v1)" "so_write T data v1 = (int k, v2)"
  shows "tcp_rma_write T data (field 2 2 cmd) v = (0, v2) \<and> sent' v2 = sent' v @ hdr @ take k data \<and>
    (\<forall>w w0 rest. arriving w = hdr @ take k data @ rest \<and> length data \<le> k + length rest \<and>
        so_write S (cmd_capsule cmd) w = (int (HDR_LEN + CMD_LEN), w0) \<longrightarrow>
      (\<exists>r b w1. tcp_send_msg S cmd buf w = Some (Inr (r, b, w1)) \<and>
        (r = 0 \<and> b = take k data @ take (length data - k) rest @ drop (length data) buf \<and>
           arriving w1 = drop (length data - k) rest \<or>
         r = - ENODATA \<and> b = buf)))"
proof -
  have m: "length (so_memory T DATA_PDU_LEN v) = DATA_PDU_LEN" by (rule posix_socket.memory_length [OF assms(2)])
  note f = data_hdr_fields [OF m, of "field 2 2 cmd" "length data", folded assms(6)]
  note wr = posix_socket.write_some [OF assms(2)]
  have k: "k \<le> length data" and sent: "sent' v2 = sent' v @ hdr @ take k data"
    using wr [OF assms(7)] wr [OF assms(8)] f(1) by auto
  have rma: "tcp_rma_write T data (field 2 2 cmd) v = (0, v2)"
    using assms(6-8) by (simp add: tcp_rma_write_def tcp_inline_write_def)
  have n: "field 16 4 hdr = length data" using f(3) assms(4) by simp
  have "\<exists>r b w1. tcp_send_msg S cmd buf w = Some (Inr (r, b, w1)) \<and>
      (r = 0 \<and> b = take k data @ take (length data - k) rest @ drop (length data) buf \<and>
         arriving w1 = drop (length data - k) rest \<or> r = - ENODATA \<and> b = buf)"
    if w: "arriving w = hdr @ take k data @ rest" "length data \<le> k + length rest"
      "so_write S (cmd_capsule cmd) w = (int (HDR_LEN + CMD_LEN), w0)" for w w0 rest
  proof -
    have "arriving w0 = hdr @ take k data @ rest" using posix_socket.write_some [OF assms(1) w(3)] w(1) by simp
    from posix_socket.inline_read_outcomes [OF assms(1) this f(1,2), of buf] obtain r b w1 where
      "tcp_inline_read S buf w0 = Some (Inr (r, b, w1))"
      "r = 0 \<and> b = take (length data) (take k data @ rest) @ drop (length data) buf \<and>
         arriving w1 = drop (length data) (take k data @ rest) \<or> r = - ENODATA \<and> b = buf"
      using assms(5) w(2) k unfolding n by auto
    then show ?thesis
      using w(3) assms(3) k by (auto simp: tcp_send_msg_def tcp_handle_inline_data_def min_def)
  qed
  then show ?thesis using rma sent by blast
qed

text \<open>Thirty bytes of data of which 24 are accepted: the last six are taken from the header of the response.\<close>

theorem tcp_exchange_witness:
  "\<exists>v2 hdr. tcp_rma_write (cutting_socket 24) (replicate 30 7) 0 ([], []) = (0, v2) \<and> snd v2 = hdr @ replicate 24 7 \<and>
    (\<exists>r b w1. tcp_send_msg memory_socket (tcp_set_sgl nvme_admin_get_log_page 30 0) (replicate 30 9)
          (hdr @ replicate 24 7 @ rsp_capsule (replicate 16 0), []) = Some (Inr (r, b, w1)) \<and>
        (r = 0 \<and> b = replicate 24 7 @ [NVME_TCP_CAPSULERESP, 0, 24, 0, 24, 0] \<or> r = - ENODATA))"
proof -
  let ?cmd = "tcp_set_sgl nvme_admin_get_log_page 30 0" and ?data = "replicate 30 (7 :: nat)"
  let ?hdr = "data_hdr (so_memory (cutting_socket 24) DATA_PDU_LEN ([], [])) (field 2 2 ?cmd) (length ?data)"
  have d: "direction ?cmd = 2" "field 2 2 ?cmd = 0" by code_simp+
  have w: "so_write (cutting_socket 24) ?hdr ([], []) = (int DATA_PDU_LEN, ([], ?hdr))"
    "so_write (cutting_socket 24) ?data ([], ?hdr) = (int 24, ([], ?hdr @ replicate 24 7))"
    by (code_simp, simp add: cutting_socket_def)
  have l: "length ?data < 2 ^ 32" "length ?data \<le> length (replicate 30 (9 :: nat))" by simp_all
  note x = tcp_exchange [OF memory.posix_socket_axioms cutting.posix_socket_axioms d(1) l refl w]
  let ?w = "(?hdr @ replicate 24 7 @ rsp_capsule (replicate 16 0), [])"
  have s: "so_write memory_socket (cmd_capsule ?cmd) ?w = (int (HDR_LEN + CMD_LEN), (fst ?w, cmd_capsule ?cmd))"
    by (simp add: memory_socket_def cmd_capsule_def common_hdr_def length_set_sgl HDR_LEN_def)
  have r: "take 6 (rsp_capsule (replicate 16 0)) = [NVME_TCP_CAPSULERESP, 0, 24, 0, 24, 0]"
    "length (rsp_capsule (replicate 16 0)) = 24" by code_simp+
  have a: "fst ?w = ?hdr @ take 24 ?data @ rsp_capsule (replicate 16 0) \<and>
      length ?data \<le> 24 + length (rsp_capsule (replicate 16 0)) \<and>
      so_write memory_socket (cmd_capsule ?cmd) ?w = (int (HDR_LEN + CMD_LEN), (fst ?w, cmd_capsule ?cmd))"
    using s r(2) by simp
  have c: "take 24 ?data = replicate 24 7" "length ?data = 30" by simp_all
  from x [THEN conjunct2, THEN conjunct2, THEN spec, THEN spec, THEN spec, THEN mp, OF a] obtain r b w1 where
    m: "tcp_send_msg memory_socket ?cmd (replicate 30 9) ?w = Some (Inr (r, b, w1))"
      "r = 0 \<and> b = replicate 24 7 @ [NVME_TCP_CAPSULERESP, 0, 24, 0, 24, 0] \<or> r = - ENODATA"
    unfolding c using r(1) by auto
  have "tcp_rma_write (cutting_socket 24) ?data 0 ([], []) = (0, ([], ?hdr @ replicate 24 7))"
    "snd ([], ?hdr @ replicate 24 7) = ?hdr @ replicate 24 7"
    using x [THEN conjunct1] d(2) by simp_all
  with m show ?thesis by blast
qed

end
