(* ===== verification/Spec2Isabelle.thy ===== *)
theory Spec2Isabelle
  imports Dem_Properties Parse Linked_List Host_Queue Ep_Properties Spdk_Properties Cli_Properties Log_Reports Tcp_Stream
begin

text \<open>
  A model of the NVMe Distributed Endpoint Manager (DEM): the discovery controller (\<^verbatim>\<open>src/src/dem\<close>), the endpoint
  manager that runs on the targets (\<^verbatim>\<open>src/src/endpoint\<close>), the command line client (\<^verbatim>\<open>src/src/cli\<close>), the two
  discovery clients (\<^verbatim>\<open>src/src/monitor\<close>, \<^verbatim>\<open>src/src/auto_connect\<close>) and the code they share
  (\<^verbatim>\<open>src/src/common\<close>, \<^verbatim>\<open>src/src/incl\<close>).

  \<^bold>\<open>The program.\<close> The controller keeps a JSON document with three collections: targets (with their
  interfaces, ports, subsystems, namespaces and access lists), hosts and groups. An HTTP request, which the
  command line client sends, is split into its path (\<^verbatim>\<open>restful.c\<close>), checked against a signature and handed to
  an operation of \<^verbatim>\<open>config.c\<close>, which updates the document (\<^verbatim>\<open>json.c\<close>), the linked lists built from it and,
  over HTTP or in band over NVMe, the endpoint manager of the target; after a success the document is written
  to the configuration file. The endpoint manager writes what it is told into the directories of the kernel's
  NVMe target, or asks the storage daemon of SPDK for it. The controller fetches the discovery log pages of its targets and serves to each host the pages
  it may see, and it notifies hosts of changes. The monitor and the automatic connection are such hosts: they
  fetch the log, print the changes or connect the subsystems.

  \<^bold>\<open>Theories.\<close>
  \<^item> \<open>Prelude\<close>: error numbers, run-time faults (\<open>fault\<close>) and the type \<open>exec\<close> of computations that may
    run into one, the C string functions with their buffer sizes, the tags of \<^verbatim>\<open>tags.h\<close>, list lemmas.
    \<open>Getopt\<close>: \<^verbatim>\<open>getopt\<close>. \<open>Parse\<close>: \<^verbatim>\<open>common/parse.c\<close> on a stream of characters with push-back. \<open>Linked_List\<close>:
    the intrusive lists of \<^verbatim>\<open>utils.h\<close> on a heap of next and previous pointers, with the locale \<open>list_ops\<close> of
    what their users rely on and its interpretation.
  \<^item> \<open>Jansson\<close>: the JSON library as a record of operations, its documented laws as the locale
    \<open>jansson_api\<close> with the lemmas proved from them, and an instance \<open>ref_jansson\<close> of the locale on a
    datatype of JSON values, for any parser and printer.
  \<^item> \<open>Json_Helpers\<close>, \<open>Json_Groups\<close>, \<open>Json_Hosts\<close>, \<open>Json_Subsys\<close>, \<open>Json_Targets\<close>: the functions of
    \<^verbatim>\<open>json.c\<close> in its order. An operation takes the root of the document and returns the new root, the
    return code and the response text, with the values it copies to its caller. A pointer into the
    document is an index with a value that is written back. \<open>Json_Store\<close>: the abstract database (names of
    hosts and targets, groups with their members), its operations, its transition relation \<open>db_step\<close> and
    invariant, and the abstraction of a document. \<open>Json_Refine\<close>, \<open>Json_Database\<close>, \<open>Json_System\<close>: each
    operation of \<^verbatim>\<open>json.c\<close> refines a transition or a stutter of the database; sequences of operations and
    the reachable documents. \<open>Json_Properties\<close>: the properties of the store.
  \<^item> \<open>Restful\<close>: \<^verbatim>\<open>dem/restful.c\<close>, with the operations of \<^verbatim>\<open>config.c\<close> as the parameter \<open>backend\<close>.
  \<^item> \<open>Dem_State\<close>: the objects of the controller as records with an address where others point to them, and
    the network as a parameter. \<open>Dem_Notify\<close>, \<open>Dem_Groups\<close>, \<open>Dem_Logpages\<close>, \<open>Dem_Messages\<close>, \<open>Dem_Requests\<close>,
    \<open>Dem_Targets\<close>: \<^verbatim>\<open>config.c\<close>, \<^verbatim>\<open>logpages.c\<close> and the queues of \<^verbatim>\<open>daemon.c\<close>. \<open>Dem_Interfaces\<close>, \<open>Dem_Start\<close>:
    \<^verbatim>\<open>interfaces.c\<close> and the start of the program. \<open>Dem_Show\<close>: the texts of log pages. \<open>Dem_Pseudo\<close>: the commands of
    hosts (\<^verbatim>\<open>pseudo_target.c\<close>). \<open>Dem_Daemon\<close>: the periodic work. \<open>Dem_Frame\<close>, \<open>Dem_Sub\<close>, \<open>Dem_Invariant\<close>: what
    each operation leaves alone and the invariant of the state. \<open>Dem_System\<close>, \<open>Dem_Machine\<close>: requests,
    periodic work and host commands as one system and its reachable states. \<open>Dem_Visible\<close>: which pages a host
    sees. \<open>Dem_Demo\<close>, \<open>Dem_Properties\<close>: a concrete run and the properties. \<open>Host_Queue\<close>: the
    lock-free ring between two threads, as a step relation over their interleavings.
  \<^item> \<open>Ep_Ops\<close>: the RESTful interface of the endpoint manager over the table of operations \<open>ops\<close>.
    \<open>Ep_Configfs\<close>: these operations on the kernel target (\<^verbatim>\<open>configfs.c\<close>), with the kernel as a parameter.
    \<open>Ep_Nvmet\<close>: the contract of the kernel's file system as a locale, and a kernel that keeps it. \<open>Ep_Ref\<close>: the
    abstract configuration and the refinement of each operation. \<open>Ep_Pseudo\<close>: the in-band interface.
    \<open>Ep_Compose\<close>, \<open>Ep_Properties\<close>: the messages of the controller composed with the endpoint manager.
  \<^item> \<open>Spdk\<close>: the same operations on the storage daemon of SPDK (\<^verbatim>\<open>spdk_config.c\<close>), with its lists of ports
    and subsystems; the JSON-RPC library and the daemon are a parameter. \<open>Spdk_Daemon\<close>: the contract of the daemon as
    the locale \<open>nvmf_daemon\<close>, the abstract configuration and the refinement. \<open>Spdk_Properties\<close>: a daemon that
    keeps the contract, and the properties.
  \<^item> \<open>Cli_Show\<close>, \<open>Cli\<close>, \<open>Cli_Properties\<close>: the output and the commands of the command line client, and the
    composition of its requests with the handler of the controller.
  \<^item> \<open>Nvmeof\<close>: the commands and connections of \<^verbatim>\<open>common/nvmeof.c\<close> over a transport (\<open>xport\<close>), with the
    memory the endpoint points to; the locale \<open>key_transport\<close> is what connecting relies on. \<open>Tcp\<close>: the TCP
    transport on the bytes of a socket; \<open>Tcp_Stream\<close>: the locale \<open>posix_socket\<close> of what is documented of reads and
    writes on a connected socket, its extension \<open>stream_socket\<close> of one that cuts no header, and what arrives.
  \<^item> \<open>Monitor\<close>, \<open>Auto_Connect\<close>: the discovery clients, with one main loop. \<open>Client_Safety\<close>: the interface of
    that loop (\<open>discovery_client\<close>) and its memory safety. \<open>Client_Properties\<close>: both clients as instances of
    it. \<open>Log_Table\<close>: the table of log pages as a map. \<open>Log_Reports\<close>: what is reported and connected.

  \<^bold>\<open>What is shown.\<close> For the store: an invariant of all reachable documents, a forward simulation to the
  database, and for the operations on groups, hosts and targets the exact effect on the names of the database on
  success and that an error changes nothing. For the controller: an invariant of all states reached by
  requests, periodic work and hosts, in full as long as every group has a name; the log page a host is sent is
  exactly what it may see, and the targets of a deleted group are hidden from everybody; after a success the file
  is what writing the document has made of it, which need not be the document. For the endpoint manager: each
  operation refines its specification and ends in the directory it started in; the two management modes have the
  same effect on the messages other than those about ports; what the controller deletes is
  deleted in the kernel, if its URI fits its array. For SPDK: the lists of the process mirror a daemon that does
  what it is asked, as long as no two ports have one address; three defects that appear when two have, when
  the daemon refuses a request, and when it did not start empty. For the client: the commands reach the operations
  of the controller they stand for, as long as their URLs are not cut. For the discovery clients: no use of released
  memory, exact reports, every subsystem is connected. For the parser: progress for streams that can be
  read, bounds of the buffers, round trips. For the lists and the ring: the shape is kept, order is kept, and the
  loop that deletes while it walks terminates. For TCP: which bytes the other side stores, whatever part
  of them the socket has accepted.

  Where the C code runs into undefined behaviour the model has a value of type \<open>fault\<close> instead, and theorems
  either show that it does not occur, or name the condition under which it does, or say that a run
  ends there.

  \<^bold>\<open>Bounds and fuel.\<close> Loops are structural recursions on lists, functions with a termination proof
  (the parser, on what is left of the stream), or \<^theory_text>\<open>partial_function\<close> with termination shown for
  well-formed rings (the list walks), for streams that deliver (the data of a TCP command) and for files that can
  be read (\<open>read_config_lines\<close>, which is shown not to end for one whose reads fail; its caller then has the
  fault \<open>Endless_loop\<close>). The loops that
  wait for a response run as long as the clock, a parameter, allows. The main loops of the daemons take the number of
  rounds and are shown for all numbers. Integers of the JSON library have 64 bits and are cut to 32 bits where
  the code stores them in an \<^verbatim>\<open>int\<close>; sizes of log pages wrap at 32 bits. \<^verbatim>\<open>atoi\<close> is unbounded, where C leaves values
  beyond \<^verbatim>\<open>int\<close> undefined.

  \<^bold>\<open>Not modelled.\<close> Failure of allocation, locking and log output. The RDMA transport, which consists of calls
  of the verbs library. That a document is read back from the configuration file as it was written is
  documented behaviour of the JSON library and taken for granted. The process set-up of the endpoint manager, and the loop in which SPDK is polled for a
  response. Of the HTTP client only its results; the rest sets options of libcurl. The stand-alone experiments
  with Redfish, which no program uses.
\<close>

end
